(* ===== verification/Prelude.thy ===== *)
theory Prelude
  imports Complex_Main "HOL-Library.Word" "HOL-Library.AList"
begin

text \<open>
  Shared vocabulary of the development.

  Python values and effects are rendered as follows throughout.

  \<^item> A \<^verbatim>\<open>bytes\<close> or \<^verbatim>\<open>bytearray\<close> object is a list of 8-bit words.
  \<^item> A Python \<^verbatim>\<open>str\<close> is the list of its UTF-8 code units (a HOL \<^verbatim>\<open>string\<close>); ASCII text is
    therefore literally itself, and a code point outside ASCII is one lead byte (at least 192)
    followed by continuation bytes (128 to 191).
  \<^item> A Python \<^verbatim>\<open>int\<close> is an \<^verbatim>\<open>int\<close>.
  \<^item> A call that may raise returns a sum: \<^verbatim>\<open>Inl\<close> is the exception, \<^verbatim>\<open>Inr\<close> the result; sequencing of
    such calls is \<^verbatim>\<open>bindE\<close>.
  \<^item> A \<^verbatim>\<open>dict\<close> whose insertion order is visible is an association list without repeated keys,
    updated with \<^verbatim>\<open>AList.update\<close> and read with \<^verbatim>\<open>map_of\<close>.
\<close>

named_theorems bytes_simps "layout of byte buffers: reads, writes and lengths"
named_theorems err_simps "evaluation of the error monad"

type_synonym byte = "8 word"
type_synonym bytes = "byte list"

subsection \<open>Exceptions as values\<close>

datatype py_exn =
    ValueError
  | TypeError
  | KeyError
  | IndexError
  | AttributeError
  | StructError
  | OverflowError
  | ZeroDivisionError
  | OSError
  | RuntimeError

type_synonym 'a result = "py_exn + 'a"

definition bindE :: "'a result \<Rightarrow> ('a \<Rightarrow> 'b result) \<Rightarrow> 'b result" where
  "bindE m f = (case m of Inl e \<Rightarrow> Inl e | Inr x \<Rightarrow> f x)"

definition guardE :: "bool \<Rightarrow> py_exn \<Rightarrow> unit result" where
  "guardE b e = (if b then Inr () else Inl e)"

lemma bindE_Inl [simp, err_simps]: "bindE (Inl e) f = Inl e"
  by (simp add: bindE_def)

lemma bindE_Inr [simp, err_simps]: "bindE (Inr x) f = f x"
  by (simp add: bindE_def)

lemma guardE_True [simp, err_simps]: "guardE True e = Inr ()"
  by (simp add: guardE_def)

lemma guardE_False [simp, err_simps]: "guardE False e = Inl e"
  by (simp add: guardE_def)

lemma bindE_assoc: "bindE (bindE m f) g = bindE m (\<lambda>x. bindE (f x) g)"
  by (simp add: bindE_def split: sum.split)

lemma bindE_eq_Inr: "bindE m f = Inr y \<longleftrightarrow> (\<exists>x. m = Inr x \<and> f x = Inr y)"
  by (cases m) auto

lemma bindE_eq_Inl: "bindE m f = Inl e \<longleftrightarrow> m = Inl e \<or> (\<exists>x. m = Inr x \<and> f x = Inl e)"
  by (cases m) auto

lemma guardE_eq_Inr [simp]: "guardE b e = Inr u \<longleftrightarrow> b"
  by (simp add: guardE_def)

lemma guardE_eq_Inl [simp]: "guardE b e = Inl e' \<longleftrightarrow> \<not> b \<and> e' = e"
  by (auto simp: guardE_def)

fun mapE :: "('a \<Rightarrow> 'b result) \<Rightarrow> 'a list \<Rightarrow> 'b list result" where
  "mapE f [] = Inr []"
| "mapE f (x # xs) = bindE (f x) (\<lambda>y. bindE (mapE f xs) (\<lambda>ys. Inr (y # ys)))"

fun foldE :: "('s \<Rightarrow> 'a \<Rightarrow> 's result) \<Rightarrow> 's \<Rightarrow> 'a list \<Rightarrow> 's result" where
  "foldE f s [] = Inr s"
| "foldE f s (x # xs) = bindE (f s x) (\<lambda>s'. foldE f s' xs)"

lemma mapE_total: "(\<And>x. x \<in> set xs \<Longrightarrow> f x = Inr (g x)) \<Longrightarrow> mapE f xs = Inr (map g xs)"
  by (induction xs) auto

lemma foldE_total:
  "(\<And>s x. x \<in> set xs \<Longrightarrow> f s x = Inr (g s x)) \<Longrightarrow> foldE f s xs = Inr (foldl g s xs)"
  by (induction xs arbitrary: s) auto

lemma foldE_append: "foldE f s (xs @ ys) = bindE (foldE f s xs) (\<lambda>s'. foldE f s' ys)"
  by (induction xs arbitrary: s) (auto simp: bindE_assoc)

subsection \<open>Byte buffers\<close>

text \<open>\<^verbatim>\<open>struct.unpack_from('<H', data, off)[0]\<close> and \<^verbatim>\<open>data[i]\<close>: reads that raise out of range.\<close>

definition u16_le :: "byte \<Rightarrow> byte \<Rightarrow> int" where
  "u16_le lo hi = uint lo + 256 * uint hi"

definition unpack_u16 :: "bytes \<Rightarrow> nat \<Rightarrow> int result" where
  "unpack_u16 d off = (if off + 2 \<le> length d then Inr (u16_le (d ! off) (d ! (off + 1)))
     else Inl StructError)"

definition byte_at :: "bytes \<Rightarrow> nat \<Rightarrow> int result" where
  "byte_at d i = (if i < length d then Inr (uint (d ! i)) else Inl IndexError)"

text \<open>\<^verbatim>\<open>data[a:b]\<close> never raises: the bounds are clipped.\<close>

definition slice :: "nat \<Rightarrow> nat \<Rightarrow> 'a list \<Rightarrow> 'a list" where
  "slice a b xs = drop a (take b xs)"

text \<open>
  In-place writes to a \<^verbatim>\<open>bytearray\<close>: \<^verbatim>\<open>struct.pack_into('<H', pkt, off, v)\<close>, \<^verbatim>\<open>pkt[i] = v\<close> and
  \<^verbatim>\<open>pkt[a:b] = bs\<close>.
\<close>

definition lo_byte :: "int \<Rightarrow> byte" where
  "lo_byte v = word_of_int (v mod 256)"

definition hi_byte :: "int \<Rightarrow> byte" where
  "hi_byte v = word_of_int (v div 256)"

definition le16 :: "int \<Rightarrow> bytes" where
  "le16 v = [lo_byte v, hi_byte v]"

definition pack_u16 :: "bytes \<Rightarrow> nat \<Rightarrow> int \<Rightarrow> bytes result" where
  "pack_u16 pkt off v =
     (if off + 2 \<le> length pkt \<and> 0 \<le> v \<and> v \<le> 65535
      then Inr (pkt[off := lo_byte v, off + 1 := hi_byte v]) else Inl StructError)"

definition set_byte :: "bytes \<Rightarrow> nat \<Rightarrow> int \<Rightarrow> bytes result" where
  "set_byte pkt i v =
     (if \<not> (0 \<le> v \<and> v \<le> 255) then Inl ValueError
      else if i < length pkt then Inr (pkt[i := word_of_int v]) else Inl IndexError)"

definition set_slice :: "nat \<Rightarrow> nat \<Rightarrow> bytes \<Rightarrow> bytes \<Rightarrow> bytes" where
  "set_slice a b bs pkt = take a pkt @ bs @ drop (max a b) pkt"

lemma length_le16 [simp]: "length (le16 v) = 2"
  by (simp add: le16_def)

lemma u16_le_bounds: "0 \<le> u16_le lo hi" "u16_le lo hi \<le> 65535" "u16_le lo hi < 65536"
proof -
  have "uint lo < 2 ^ 8" "uint hi < 2 ^ 8" "0 \<le> uint lo" "0 \<le> uint hi"
    using uint_lt2p [of lo] uint_lt2p [of hi] by simp_all
  then show "0 \<le> u16_le lo hi" "u16_le lo hi \<le> 65535" "u16_le lo hi < 65536"
    by (simp_all add: u16_le_def)
qed

lemma byte_bounds: "0 \<le> uint (b :: byte)" "uint b \<le> 255" "uint b < 256"
  using uint_lt2p [of b] by simp_all

lemma u16_le_lo_hi: "0 \<le> v \<Longrightarrow> v \<le> 65535 \<Longrightarrow> u16_le (lo_byte v) (hi_byte v) = v"
  by (simp add: u16_le_def lo_byte_def hi_byte_def uint_word_of_int)

lemma lo_hi_u16_le [simp]: "lo_byte (u16_le lo hi) = lo" "hi_byte (u16_le lo hi) = hi"
proof -
  have "uint lo mod 256 = uint lo" "uint hi mod 256 = uint hi"
    using byte_bounds [of lo] byte_bounds [of hi] by simp_all
  then show "lo_byte (u16_le lo hi) = lo"
    by (simp add: lo_byte_def u16_le_def)
  have "(uint lo + 256 * uint hi) div 256 = uint hi"
    using byte_bounds [of lo] by simp
  then show "hi_byte (u16_le lo hi) = hi"
    by (simp add: hi_byte_def u16_le_def)
qed

lemma le16_inj: "0 \<le> v \<Longrightarrow> v \<le> 65535 \<Longrightarrow> 0 \<le> w \<Longrightarrow> w \<le> 65535 \<Longrightarrow> le16 v = le16 w \<longleftrightarrow> v = w"
  unfolding le16_def by (metis list.inject u16_le_lo_hi)

lemma unpack_u16_ok [bytes_simps]:
  "off + 2 \<le> length d \<Longrightarrow> unpack_u16 d off = Inr (u16_le (d ! off) (d ! (off + 1)))"
  by (simp add: unpack_u16_def)

lemma byte_at_ok [bytes_simps]: "i < length d \<Longrightarrow> byte_at d i = Inr (uint (d ! i))"
  by (simp add: byte_at_def)

lemma length_slice [simp]: "length (slice a b xs) = min b (length xs) - a"
  by (simp add: slice_def)

lemma slice_all [simp]: "slice 0 (length xs) xs = xs"
  by (simp add: slice_def)

lemma length_set_slice: "a \<le> b \<Longrightarrow> b \<le> length pkt \<Longrightarrow> length bs = b - a
    \<Longrightarrow> length (set_slice a b bs pkt) = length pkt"
  by (simp add: set_slice_def)

text \<open>A list of known length is the list of its elements.\<close>

lemma list_of_length_10:
  assumes "length xs = 10"
  obtains a0 a1 a2 a3 a4 a5 a6 a7 a8 a9 where "xs = [a0, a1, a2, a3, a4, a5, a6, a7, a8, a9]"
  using assms by (auto simp: length_Suc_conv numeral_eq_Suc)

subsection \<open>Text\<close>

text \<open>
  \<^verbatim>\<open>s.encode('ascii', errors='replace')\<close>: one question mark for every code point outside ASCII, that
  is for every lead byte, the continuation bytes belonging to it.
\<close>

definition char_code :: "char \<Rightarrow> nat" where
  "char_code c = of_char c"

definition char_byte :: "char \<Rightarrow> byte" where
  "char_byte c = word_of_nat (of_char c)"

definition byte_char :: "byte \<Rightarrow> char" where
  "byte_char b = char_of (unat b)"

definition ascii_encode :: "string \<Rightarrow> bytes" where
  "ascii_encode s = map (\<lambda>c. if char_code c < 128 then char_byte c else 0x3F)
     (filter (\<lambda>c. char_code c < 128 \<or> 192 \<le> char_code c) s)"

text \<open>
  \<^verbatim>\<open>b.decode('ascii', errors='replace')\<close>: a byte outside ASCII becomes U+FFFD, whose UTF-8 form is
  EF BF BD.
\<close>

definition ascii_decode :: "bytes \<Rightarrow> string" where
  "ascii_decode bs = concat (map (\<lambda>b. if b < 128 then [byte_char b]
     else [CHR 0xEF, CHR 0xBF, CHR 0xBD]) bs)"

definition rstrip :: "char \<Rightarrow> string \<Rightarrow> string" where
  "rstrip c s = rev (dropWhile (\<lambda>x. x = c) (rev s))"

definition is_ascii :: "string \<Rightarrow> bool" where
  "is_ascii s = list_all (\<lambda>c. char_code c < 128) s"

lemma rstrip_id: "s = [] \<or> last s \<noteq> c \<Longrightarrow> rstrip c s = s"
  by (cases s rule: rev_cases) (auto simp: rstrip_def)

lemma ascii_encode_is_ascii: "is_ascii s \<Longrightarrow> ascii_encode s = map char_byte s"
  by (induction s) (auto simp: ascii_encode_def is_ascii_def)

lemma char_byte_inverse [simp]: "byte_char (char_byte c) = c"
proof -
  have "unat (char_byte c) = of_char c"
    by (simp add: char_byte_def unat_of_nat)
  then show ?thesis
    by (simp add: byte_char_def)
qed

lemma byte_char_inverse [simp]: "char_byte (byte_char b) = b"
  using unsigned_less [of b, where ?'a = nat] by (simp add: byte_char_def char_byte_def)

lemma char_byte_less: "char_byte c < 128 \<longleftrightarrow> char_code c < 128"
proof -
  have "unat (char_byte c) = of_char c"
    by (simp add: char_byte_def unat_of_nat)
  then show ?thesis
    by (simp add: word_less_nat_alt char_code_def)
qed

lemma ascii_decode_encode: "is_ascii s \<Longrightarrow> ascii_decode (map char_byte s) = s"
  by (induction s) (auto simp: ascii_decode_def is_ascii_def char_byte_less)

lemma ascii_decode_append: "ascii_decode (a @ b) = ascii_decode a @ ascii_decode b"
  by (simp add: ascii_decode_def)

end
