(* ===== verification/Crc.thy ===== *)
theory Crc
  imports Prelude
begin

unbundle bit_operations_syntax

text \<open>
  CRC-16/MODBUS of \<^verbatim>\<open>src/collector/protocol.py\<close>: the 256-entry table and the byte loop, kept at their
  16-bit width.  The reference definition shifts one bit at a time through the reflected polynomial
  A001; the lemmas prove that the table entries are its 8-step images, that the byte loop equals the
  bitwise loop, that a message followed by its own checksum has checksum zero, and that corrupting one
  byte, or two neighbouring bytes, always changes the checksum.
\<close>

definition CRC16_TABLE :: "16 word list" where
  "CRC16_TABLE = [
    0x0000, 0xC0C1, 0xC181, 0x0140, 0xC301, 0x03C0, 0x0280, 0xC241,
    0xC601, 0x06C0, 0x0780, 0xC741, 0x0500, 0xC5C1, 0xC481, 0x0440,
    0xCC01, 0x0CC0, 0x0D80, 0xCD41, 0x0F00, 0xCFC1, 0xCE81, 0x0E40,
    0x0A00, 0xCAC1, 0xCB81, 0x0B40, 0xC901, 0x09C0, 0x0880, 0xC841,
    0xD801, 0x18C0, 0x1980, 0xD941, 0x1B00, 0xDBC1, 0xDA81, 0x1A40,
    0x1E00, 0xDEC1, 0xDF81, 0x1F40, 0xDD01, 0x1DC0, 0x1C80, 0xDC41,
    0x1400, 0xD4C1, 0xD581, 0x1540, 0xD701, 0x17C0, 0x1680, 0xD641,
    0xD201, 0x12C0, 0x1380, 0xD341, 0x1100, 0xD1C1, 0xD081, 0x1040,
    0xF001, 0x30C0, 0x3180, 0xF141, 0x3300, 0xF3C1, 0xF281, 0x3240,
    0x3600, 0xF6C1, 0xF781, 0x3740, 0xF501, 0x35C0, 0x3480, 0xF441,
    0x3C00, 0xFCC1, 0xFD81, 0x3D40, 0xFF01, 0x3FC0, 0x3E80, 0xFE41,
    0xFA01, 0x3AC0, 0x3B80, 0xFB41, 0x3900, 0xF9C1, 0xF881, 0x3840,
    0x2800, 0xE8C1, 0xE981, 0x2940, 0xEB01, 0x2BC0, 0x2A80, 0xEA41,
    0xEE01, 0x2EC0, 0x2F80, 0xEF41, 0x2D00, 0xEDC1, 0xEC81, 0x2C40,
    0xE401, 0x24C0, 0x2580, 0xE541, 0x2700, 0xE7C1, 0xE681, 0x2640,
    0x2200, 0xE2C1, 0xE381, 0x2340, 0xE101, 0x21C0, 0x2080, 0xE041,
    0xA001, 0x60C0, 0x6180, 0xA141, 0x6300, 0xA3C1, 0xA281, 0x6240,
    0x6600, 0xA6C1, 0xA781, 0x6740, 0xA501, 0x65C0, 0x6480, 0xA441,
    0x6C00, 0xACC1, 0xAD81, 0x6D40, 0xAF01, 0x6FC0, 0x6E80, 0xAE41,
    0xAA01, 0x6AC0, 0x6B80, 0xAB41, 0x6900, 0xA9C1, 0xA881, 0x6840,
    0x7800, 0xB8C1, 0xB981, 0x7940, 0xBB01, 0x7BC0, 0x7A80, 0xBA41,
    0xBE01, 0x7EC0, 0x7F80, 0xBF41, 0x7D00, 0xBDC1, 0xBC81, 0x7C40,
    0xB401, 0x74C0, 0x7580, 0xB541, 0x7700, 0xB7C1, 0xB681, 0x7640,
    0x7200, 0xB2C1, 0xB381, 0x7340, 0xB101, 0x71C0, 0x7080, 0xB041,
    0x5000, 0x90C1, 0x9181, 0x5140, 0x9301, 0x53C0, 0x5280, 0x9241,
    0x9601, 0x56C0, 0x5780, 0x9741, 0x5500, 0x95C1, 0x9481, 0x5440,
    0x9C01, 0x5CC0, 0x5D80, 0x9D41, 0x5F00, 0x9FC1, 0x9E81, 0x5E40,
    0x5A00, 0x9AC1, 0x9B81, 0x5B40, 0x9901, 0x59C0, 0x5880, 0x9841,
    0x8801, 0x48C0, 0x4980, 0x8941, 0x4B00, 0x8BC1, 0x8A81, 0x4A40,
    0x4E00, 0x8EC1, 0x8F81, 0x4F40, 0x8D01, 0x4DC0, 0x4C80, 0x8C41,
    0x4400, 0x84C1, 0x8581, 0x4540, 0x8701, 0x47C0, 0x4680, 0x8641,
    0x8201, 0x42C0, 0x4380, 0x8341, 0x4100, 0x81C1, 0x8081, 0x4040]"

definition crc16_byte :: "16 word \<Rightarrow> byte \<Rightarrow> 16 word" where
  "crc16_byte crc b = drop_bit 8 crc XOR CRC16_TABLE ! unat ((crc XOR ucast b) AND 0xFF)"

definition crc16_modbus :: "bytes \<Rightarrow> 16 word" where
  "crc16_modbus data = foldl crc16_byte 0xFFFF data"

subsection \<open>The bit-serial reference\<close>

definition crc_bit :: "16 word \<Rightarrow> 16 word" where
  "crc_bit c = (if bit c 0 then drop_bit 1 c XOR 0xA001 else drop_bit 1 c)"

fun crc_bits :: "nat \<Rightarrow> 16 word \<Rightarrow> 16 word" where
  "crc_bits 0 c = c"
| "crc_bits (Suc n) c = crc_bits n (crc_bit c)"

definition crc16_bitwise :: "bytes \<Rightarrow> 16 word" where
  "crc16_bitwise data = foldl (\<lambda>c b. crc_bits 8 (c XOR ucast b)) 0xFFFF data"

lemma crc_bit_xor: "crc_bit (a XOR b) = crc_bit a XOR crc_bit b"
  by (auto simp: crc_bit_def bit_xor_iff drop_bit_xor xor.left_commute xor.commute xor.assoc)

lemma crc_bits_xor: "crc_bits n (a XOR b) = crc_bits n a XOR crc_bits n b"
  by (induction n arbitrary: a b) (simp_all add: crc_bit_xor)

lemma crc_bits_0 [simp]: "crc_bits n 0 = 0"
  by (induction n) (simp_all add: crc_bit_def)

lemma crc_bits_add: "crc_bits (m + n) c = crc_bits n (crc_bits m c)"
  by (induction m arbitrary: c) simp_all

text \<open>A register whose low bits are zero is only shifted.\<close>

lemma crc_bits_shift: "(\<And>i. i < n \<Longrightarrow> \<not> bit c i) \<Longrightarrow> crc_bits n c = drop_bit n c"
proof (induction n arbitrary: c)
  case (Suc n)
  have "crc_bit c = drop_bit 1 c"
    using Suc.prems [of 0] by (simp add: crc_bit_def)
  moreover have "crc_bits n (drop_bit 1 c) = drop_bit n (drop_bit 1 c)"
    using Suc.prems by (intro Suc.IH) (simp add: bit_drop_bit_eq)
  ultimately show ?case
    by (simp add: drop_bit_drop_bit)
qed simp

lemma crc_bits_8_push:
  assumes "\<And>n. 8 \<le> n \<Longrightarrow> \<not> bit y n"
  shows "crc_bits 8 (push_bit 8 y) = y"
proof -
  have "crc_bits 8 (push_bit 8 y) = drop_bit 8 (push_bit 8 y)"
    by (rule crc_bits_shift) (simp add: bit_push_bit_iff)
  also have "\<dots> = y"
    using assms by (intro bit_word_eqI) (auto simp: bit_drop_bit_eq bit_push_bit_iff not_le [symmetric])
  finally show ?thesis .
qed

lemma high_bits_zero:
  "8 \<le> n \<Longrightarrow> \<not> bit (drop_bit 8 (x :: 16 word)) n"
  "8 \<le> n \<Longrightarrow> \<not> bit (ucast (b :: byte) :: 16 word) n"
  by (auto simp: bit_drop_bit_eq bit_unsigned_iff dest!: bit_imp_le_length)

text \<open>The step can be undone: the register's top bit tells whether the polynomial was added.\<close>

lemma crc_bit_eq_0: "crc_bit c = 0 \<Longrightarrow> c = 0"
proof -
  assume a: "crc_bit c = 0"
  have "\<not> bit c 0"
  proof
    assume "bit c 0"
    then have "bit (drop_bit 1 c XOR 0xA001) 15 = False"
      using a by (simp add: crc_bit_def)
    moreover have "bit (0xA001 :: 16 word) 15"
      by simp
    moreover have "\<not> bit (drop_bit 1 c) 15"
      using bit_imp_le_length [of c 16] by (auto simp: bit_drop_bit_eq)
    ultimately show False
      by (simp add: bit_xor_iff)
  qed
  then have "drop_bit 1 c = 0"
    using a by (simp add: crc_bit_def)
  have "\<not> bit c (Suc n)" for n
    using arg_cong [where f = "\<lambda>w. bit w n", OF \<open>drop_bit 1 c = 0\<close>] by (simp add: bit_drop_bit_eq)
  then have "\<not> bit c n" for n
    using \<open>\<not> bit c 0\<close> by (cases n) simp_all
  then show "c = 0"
    by (intro bit_word_eqI) simp
qed

lemma crc_bits_eq_0: "crc_bits n c = 0 \<longleftrightarrow> c = 0"
proof (induction n arbitrary: c)
  case (Suc n)
  have "crc_bit 0 = 0"
    by (simp add: crc_bit_def)
  then show ?case
    using Suc.IH [of "crc_bit c"] crc_bit_eq_0 [of c] by auto
qed simp

lemma xor_eq_0: "(a :: 'a::len word) XOR b = 0 \<longleftrightarrow> a = b"
proof
  assume "a XOR b = 0"
  then have "(a XOR b) XOR b = b"
    by simp
  then show "a = b"
    by (simp add: xor.assoc)
qed simp

lemma crc_bits_inj: "crc_bits n a = crc_bits n b \<longleftrightarrow> a = b"
  using crc_bits_eq_0 [of n "a XOR b"] by (simp add: crc_bits_xor xor_eq_0)

subsection \<open>The table and the byte loop\<close>

lemma CRC16_TABLE_length [simp]: "length CRC16_TABLE = 256"
  by (simp add: CRC16_TABLE_def)

lemma crc_bits_numeral: "crc_bits (numeral n) c = crc_bits (pred_numeral n) (crc_bit c)"
  by (simp add: numeral_eq_Suc)

fun table_from :: "16 word \<Rightarrow> 16 word list \<Rightarrow> bool" where
  "table_from i [] \<longleftrightarrow> True"
| "table_from i (v # vs) \<longleftrightarrow> v = crc_bits 8 i \<and> table_from (i + 1) vs"

lemma table_from_nth: "table_from i vs \<Longrightarrow> k < length vs \<Longrightarrow> vs ! k = crc_bits 8 (i + word_of_nat k)"
proof (induction vs arbitrary: i k)
  case (Cons v vs)
  then show ?case
    by (cases k) (fastforce simp: add.assoc)+
qed simp

lemma CRC16_TABLE_bits: "table_from 0 CRC16_TABLE"
  by (simp add: CRC16_TABLE_def crc_bits_numeral crc_bit_def)

lemma crc_table_nth: "i < 256 \<Longrightarrow> CRC16_TABLE ! i = crc_bits 8 (word_of_nat i)"
  using table_from_nth [OF CRC16_TABLE_bits] by simp

lemma crc16_byte_bits: "crc16_byte c b = crc_bits 8 (c XOR ucast b)"
proof -
  define x where "x = c XOR ucast b"
  have hi: "drop_bit 8 c = drop_bit 8 x"
    by (intro bit_word_eqI) (auto simp: x_def bit_simps dest: bit_imp_le_length)
  have low: "(0xFF :: 16 word) = mask 8"
    by (simp add: mask_eq_exp_minus_1)
  have split: "x = push_bit 8 (drop_bit 8 x) XOR (x AND 0xFF)"
    by (intro bit_word_eqI) (auto simp: low bit_simps)
  have "(x AND 0xFF) \<le> 0xFF"
    by (rule word_and_le1)
  then have "unat (x AND 0xFF) < 256"
    by (simp add: word_le_nat_alt)
  then have "crc16_byte c b = drop_bit 8 x XOR crc_bits 8 (x AND 0xFF)"
    by (simp add: crc16_byte_def hi crc_table_nth flip: x_def)
  also have "drop_bit 8 x = crc_bits 8 (push_bit 8 (drop_bit 8 x))"
    by (simp add: crc_bits_8_push high_bits_zero)
  finally have "crc16_byte c b = crc_bits 8 (push_bit 8 (drop_bit 8 x) XOR (x AND 0xFF))"
    by (simp add: crc_bits_xor)
  then show ?thesis
    by (simp only: split [symmetric]) (simp only: x_def)
qed

lemma crc16_modbus_bitwise: "crc16_modbus = crc16_bitwise"
  by (simp add: fun_eq_iff crc16_modbus_def crc16_bitwise_def crc16_byte_bits [abs_def])

subsection \<open>What the checksum detects\<close>

definition crc_run :: "16 word \<Rightarrow> bytes \<Rightarrow> 16 word" where
  "crc_run c bs = foldl (\<lambda>c b. crc_bits 8 (c XOR ucast b)) c bs"

lemma crc16_modbus_run: "crc16_modbus bs = crc_run 0xFFFF bs"
  by (simp add: crc16_modbus_bitwise crc16_bitwise_def crc_run_def)

lemma crc_run_append [simp]: "crc_run c (xs @ ys) = crc_run (crc_run c xs) ys"
  by (simp add: crc_run_def)

lemma crc_run_Cons [simp]: "crc_run c (x # xs) = crc_run (crc_bits 8 (c XOR ucast x)) xs"
  by (simp add: crc_run_def)

lemma crc_run_Nil [simp]: "crc_run c [] = c"
  by (simp add: crc_run_def)

text \<open>Equal remaining bytes never hide a difference of the registers.\<close>

lemma crc_run_inj: "crc_run c bs = crc_run d bs \<longleftrightarrow> c = d"
proof (induction bs arbitrary: c d)
  case (Cons b bs)
  have "c XOR ucast b = d XOR ucast b \<longleftrightarrow> c = d"
    by (metis xor.assoc xor.right_neutral xor_self_eq)
  then show ?case
    by (simp add: Cons.IH crc_bits_inj)
qed simp

definition byte_pair :: "byte \<Rightarrow> byte \<Rightarrow> 16 word" where
  "byte_pair a b = ucast a XOR push_bit 8 (ucast b)"

lemma crc_run_pair: "crc_run c [a, b] = crc_bits 16 (c XOR byte_pair a b)"
proof -
  have "crc_bits 8 (push_bit 8 (ucast b)) = (ucast b :: 16 word)"
    by (simp add: crc_bits_8_push high_bits_zero)
  then have "crc_run c [a, b] = crc_bits 8 (crc_bits 8 (c XOR ucast a) XOR crc_bits 8 (push_bit 8 (ucast b)))"
    by simp
  also have "\<dots> = crc_bits (8 + 8) (c XOR byte_pair a b)"
    unfolding crc_bits_add by (simp add: byte_pair_def xor.assoc flip: crc_bits_xor)
  also have "8 + 8 = (16 :: nat)"
    by simp
  finally show ?thesis .
qed

lemma byte_pair_inj: "byte_pair a b = byte_pair c d \<longleftrightarrow> a = c \<and> b = d"
proof
  assume e: "byte_pair a b = byte_pair c d"
  have "bit a n = bit c n" if "n < 8" for n
    using arg_cong [where f = "\<lambda>w. bit w n", OF e] that by (simp add: byte_pair_def bit_simps)
  moreover have "bit b n = bit d n" if "n < 8" for n
    using arg_cong [where f = "\<lambda>w. bit w (n + 8)", OF e] that
    by (auto simp: byte_pair_def bit_simps dest: bit_imp_le_length)
  ultimately show "a = c \<and> b = d"
    by (auto intro!: bit_word_eqI)
qed simp

lemma byte_pair_uint: "uint (byte_pair a b) = u16_le a b"
proof -
  have "byte_pair a b = ucast a OR push_bit 8 (ucast b)"
    by (intro bit_word_eqI) (auto simp: byte_pair_def bit_simps dest: bit_imp_le_length)
  also have "\<dots> = ucast a + push_bit 8 (ucast b)"
    by (rule disjunctive_add [symmetric]) (auto simp: bit_simps dest: bit_imp_le_length)
  finally have "byte_pair a b = word_of_int (u16_le a b)"
    by (simp add: u16_le_def push_bit_eq_mult unsigned_ucast_eq)
  then show ?thesis
    using u16_le_bounds [of a b] by (simp add: uint_word_of_int)
qed

lemma crc_residue: "crc_run c [lo_byte (uint c), hi_byte (uint c)] = 0"
proof -
  have "0 \<le> uint c" "uint c \<le> 65535"
    using uint_lt2p [of c] by simp_all
  then have "uint (byte_pair (lo_byte (uint c)) (hi_byte (uint c))) = uint c"
    by (simp add: byte_pair_uint u16_le_lo_hi)
  then have "byte_pair (lo_byte (uint c)) (hi_byte (uint c)) = c"
    by (simp add: word_uint_eq_iff)
  then show ?thesis
    by (simp only: crc_run_pair) simp
qed

lemma xor_left_cancel: "(c :: 'a::len word) XOR a = c XOR b \<longleftrightarrow> a = b"
proof
  assume "c XOR a = c XOR b"
  then have "(c XOR c) XOR a = (c XOR c) XOR b"
    by (simp only: xor.assoc)
  then show "a = b"
    by simp
qed simp

lemma crc_run_two_bytes: "crc_run c (p @ [x, y] @ q) = crc_run c (p @ [x', y'] @ q) \<longleftrightarrow> x = x' \<and> y = y'"
  unfolding crc_run_append crc_run_inj crc_run_pair crc_bits_inj xor_left_cancel byte_pair_inj ..

end
