(* ===== verification/Protocol.thy ===== *)
theory Protocol
  imports Crc
begin

text \<open>
  Framing of the dongle protocol, \<^verbatim>\<open>src/collector/protocol.py\<close>: the frame record, the four packet
  builders (each a sequence of in-place writes to a zeroed buffer, in the order of the code, any of
  which may raise), the frame parser and the buffer scanner.
\<close>

subsection \<open>Constants and the frame record\<close>

definition PREFIX :: bytes where
  "PREFIX = [0xA1, 0x1A]"

definition HEADER_SIZE :: nat where
  "HEADER_SIZE = 18"

definition TCP_FUNC_HEARTBEAT :: int where
  "TCP_FUNC_HEARTBEAT = 0xC1"

definition TCP_FUNC_TRANSLATED_DATA :: int where
  "TCP_FUNC_TRANSLATED_DATA = 0xC2"

definition MODBUS_READ_HOLD :: int where
  "MODBUS_READ_HOLD = 3"

definition MODBUS_READ_INPUT :: int where
  "MODBUS_READ_INPUT = 4"

definition MODBUS_WRITE_SINGLE :: int where
  "MODBUS_WRITE_SINGLE = 6"

definition MODBUS_WRITE_MULTI :: int where
  "MODBUS_WRITE_MULTI = 16"

lemmas protocol_consts =
  PREFIX_def HEADER_SIZE_def TCP_FUNC_HEARTBEAT_def TCP_FUNC_TRANSLATED_DATA_def
  MODBUS_READ_HOLD_def MODBUS_READ_INPUT_def MODBUS_WRITE_SINGLE_def MODBUS_WRITE_MULTI_def

record frame =
  f_protocol :: int
  f_tcp_function :: int
  f_datalog_serial :: string
  f_raw :: bytes
  f_address :: int
  f_device_function :: int
  f_inverter_serial :: string
  f_register :: int
  f_values :: "int list"
  f_write_count :: int
  f_is_error :: bool
  f_error_code :: int

definition new_frame :: "int \<Rightarrow> int \<Rightarrow> string \<Rightarrow> bytes \<Rightarrow> frame" where
  "new_frame proto func serial raw = \<lparr>f_protocol = proto, f_tcp_function = func,
     f_datalog_serial = serial, f_raw = raw, f_address = 0, f_device_function = 0,
     f_inverter_serial = [], f_register = 0, f_values = [], f_write_count = 0,
     f_is_error = False, f_error_code = 0\<rparr>"

definition is_heartbeat :: "frame \<Rightarrow> bool" where
  "is_heartbeat f \<longleftrightarrow> f_tcp_function f = TCP_FUNC_HEARTBEAT"

definition is_translated_data :: "frame \<Rightarrow> bool" where
  "is_translated_data f \<longleftrightarrow> f_tcp_function f = TCP_FUNC_TRANSLATED_DATA"

definition is_read :: "frame \<Rightarrow> bool" where
  "is_read f \<longleftrightarrow> f_device_function f \<in> {MODBUS_READ_HOLD, MODBUS_READ_INPUT}"

definition is_read_input :: "frame \<Rightarrow> bool" where
  "is_read_input f \<longleftrightarrow> f_device_function f = MODBUS_READ_INPUT"

definition is_read_hold :: "frame \<Rightarrow> bool" where
  "is_read_hold f \<longleftrightarrow> f_device_function f = MODBUS_READ_HOLD"

subsection \<open>Packet builders\<close>

definition serial_to_bytes :: "string \<Rightarrow> bytes" where
  "serial_to_bytes s = (let b = ascii_encode s;
     b = (if length b < 10 then b @ replicate (10 - length b) 0x20 else b)
     in take 10 b)"

definition build_read_request :: "string \<Rightarrow> string \<Rightarrow> int \<Rightarrow> int \<Rightarrow> int \<Rightarrow> bytes result" where
  "build_read_request datalog_serial inverter_serial device_function start_register cnt =
    (let pkt = replicate 38 0;
         pkt = set_slice 0 2 PREFIX pkt in
     bindE (pack_u16 pkt 2 1) (\<lambda>pkt.
     bindE (pack_u16 pkt 4 32) (\<lambda>pkt.
     bindE (set_byte pkt 6 1) (\<lambda>pkt.
     bindE (set_byte pkt 7 TCP_FUNC_TRANSLATED_DATA) (\<lambda>pkt.
     let pkt = set_slice 8 18 (serial_to_bytes datalog_serial) pkt in
     bindE (pack_u16 pkt 18 18) (\<lambda>pkt.
     bindE (set_byte pkt 20 0) (\<lambda>pkt.
     bindE (set_byte pkt 21 device_function) (\<lambda>pkt.
     let pkt = set_slice 22 32 (serial_to_bytes inverter_serial) pkt in
     bindE (pack_u16 pkt 32 start_register) (\<lambda>pkt.
     bindE (pack_u16 pkt 34 cnt) (\<lambda>pkt.
     let crc = uint (crc16_modbus (slice 20 36 pkt)) in
     pack_u16 pkt 36 crc))))))))))"

definition build_write_request :: "string \<Rightarrow> string \<Rightarrow> int \<Rightarrow> int \<Rightarrow> bytes result" where
  "build_write_request datalog_serial inverter_serial register v =
    (if \<not> (0 \<le> v \<and> v \<le> 0xFFFF) then Inl ValueError else
     let pkt = replicate 38 0;
         pkt = set_slice 0 2 PREFIX pkt in
     bindE (pack_u16 pkt 2 1) (\<lambda>pkt.
     bindE (pack_u16 pkt 4 32) (\<lambda>pkt.
     bindE (set_byte pkt 6 1) (\<lambda>pkt.
     bindE (set_byte pkt 7 TCP_FUNC_TRANSLATED_DATA) (\<lambda>pkt.
     let pkt = set_slice 8 18 (serial_to_bytes datalog_serial) pkt in
     bindE (pack_u16 pkt 18 18) (\<lambda>pkt.
     bindE (set_byte pkt 20 0) (\<lambda>pkt.
     bindE (set_byte pkt 21 MODBUS_WRITE_SINGLE) (\<lambda>pkt.
     let pkt = set_slice 22 32 (serial_to_bytes inverter_serial) pkt in
     bindE (pack_u16 pkt 32 register) (\<lambda>pkt.
     bindE (pack_u16 pkt 34 v) (\<lambda>pkt.
     let crc = uint (crc16_modbus (slice 20 36 pkt)) in
     pack_u16 pkt 36 crc))))))))))"

definition build_write_multi_request :: "string \<Rightarrow> string \<Rightarrow> int \<Rightarrow> int list \<Rightarrow> bytes result" where
  "build_write_multi_request datalog_serial inverter_serial start_register vs =
    (if vs = [] then Inl ValueError
     else if 123 < length vs then Inl ValueError
     else if list_ex (\<lambda>v. \<not> (0 \<le> v \<and> v \<le> 0xFFFF)) vs then Inl ValueError
     else
     let n = length vs;
         data_len = 1 + 1 + 10 + 2 + 2 + 1 + (2 * n) + 2;
         total = 18 + 2 + data_len;
         frame_len = total - 6;
         pkt = replicate total 0;
         pkt = set_slice 0 2 PREFIX pkt in
     bindE (pack_u16 pkt 2 1) (\<lambda>pkt.
     bindE (pack_u16 pkt 4 (int frame_len)) (\<lambda>pkt.
     bindE (set_byte pkt 6 1) (\<lambda>pkt.
     bindE (set_byte pkt 7 TCP_FUNC_TRANSLATED_DATA) (\<lambda>pkt.
     let pkt = set_slice 8 18 (serial_to_bytes datalog_serial) pkt in
     bindE (pack_u16 pkt 18 (int data_len)) (\<lambda>pkt.
     bindE (set_byte pkt 20 0) (\<lambda>pkt.
     bindE (set_byte pkt 21 MODBUS_WRITE_MULTI) (\<lambda>pkt.
     let pkt = set_slice 22 32 (serial_to_bytes inverter_serial) pkt in
     bindE (pack_u16 pkt 32 start_register) (\<lambda>pkt.
     bindE (pack_u16 pkt 34 (int n)) (\<lambda>pkt.
     bindE (set_byte pkt 36 (int (2 * n))) (\<lambda>pkt.
     bindE (foldE (\<lambda>pkt (i, v). pack_u16 pkt (37 + i * 2) v) pkt (zip [0..<n] vs)) (\<lambda>pkt.
     let crc_end = 37 + 2 * n;
         crc = uint (crc16_modbus (slice 20 crc_end pkt)) in
     pack_u16 pkt crc_end crc))))))))))))"

definition build_heartbeat :: "string \<Rightarrow> bytes result" where
  "build_heartbeat datalog_serial =
    (let pkt = replicate 19 0;
         pkt = set_slice 0 2 PREFIX pkt in
     bindE (pack_u16 pkt 2 2) (\<lambda>pkt.
     bindE (pack_u16 pkt 4 13) (\<lambda>pkt.
     bindE (set_byte pkt 6 1) (\<lambda>pkt.
     bindE (set_byte pkt 7 TCP_FUNC_HEARTBEAT) (\<lambda>pkt.
     let pkt = set_slice 8 18 (serial_to_bytes datalog_serial) pkt in
     set_byte pkt 18 0)))))"

subsection \<open>Parser\<close>

definition nul :: char where
  "nul = CHR 0x00"

definition decode_serial :: "bytes \<Rightarrow> string" where
  "decode_serial bs = rstrip nul (ascii_decode bs)"

text \<open>The value loop of a read response: a value is kept when it ends before the two CRC bytes.\<close>

definition parse_values :: "bytes \<Rightarrow> nat \<Rightarrow> nat \<Rightarrow> frame \<Rightarrow> frame result" where
  "parse_values data vals_begin num_regs fr =
     foldE (\<lambda>fr i. let offset = vals_begin + i * 2 in
       if int (offset + 2) \<le> int (length data) - 2
       then bindE (unpack_u16 data offset) (\<lambda>v. Inr (fr\<lparr>f_values := f_values fr @ [v]\<rparr>))
       else Inr fr) fr [0..<num_regs]"

definition parse_data_frame :: "bytes \<Rightarrow> frame \<Rightarrow> frame result" where
  "parse_data_frame data fr =
    bindE (unpack_u16 data 18) (\<lambda>data_len.
    if length data < 20 + 2 then Inr fr else
    bindE (byte_at data 20) (\<lambda>addr.
    bindE (byte_at data (20 + 1)) (\<lambda>df.
    let fr = fr\<lparr>f_address := addr, f_device_function := df\<rparr> in
    if 128 \<le> df then
      let fr = fr\<lparr>f_is_error := True\<rparr> in
      if 20 + 2 < length data then bindE (byte_at data (20 + 2)) (\<lambda>e. Inr (fr\<lparr>f_error_code := e\<rparr>))
      else Inr fr
    else
    let inv_start = 20 + 2;
        fr = (if inv_start + 10 \<le> length data
              then fr\<lparr>f_inverter_serial := decode_serial (slice inv_start (inv_start + 10) data)\<rparr> else fr);
        reg_start = inv_start + 10 in
    bindE (if reg_start + 2 \<le> length data
           then bindE (unpack_u16 data reg_start) (\<lambda>r. Inr (fr\<lparr>f_register := r\<rparr>)) else Inr fr) (\<lambda>fr.
    if is_read fr \<or> f_device_function fr = MODBUS_WRITE_SINGLE then
      if f_device_function fr = MODBUS_WRITE_SINGLE then
        if reg_start + 4 + 2 \<le> length data
        then bindE (unpack_u16 data (reg_start + 2)) (\<lambda>v. Inr (fr\<lparr>f_values := f_values fr @ [v]\<rparr>))
        else Inr fr
      else
        let val_start = reg_start + 2 in
        if val_start < length data then
          bindE (byte_at data val_start) (\<lambda>val_len.
            parse_values data (val_start + 1) (nat (val_len div 2)) fr)
        else Inr fr
    else if f_device_function fr = MODBUS_WRITE_MULTI then
      if reg_start + 4 + 2 \<le> length data then
        bindE (unpack_u16 data reg_start) (\<lambda>r.
        bindE (unpack_u16 data (reg_start + 2)) (\<lambda>c. Inr (fr\<lparr>f_register := r, f_write_count := c\<rparr>)))
      else Inr fr
    else Inr fr))))"

definition parse_frame :: "bytes \<Rightarrow> frame option result" where
  "parse_frame data =
    (if length data < HEADER_SIZE then Inr None
     else if slice 0 2 data \<noteq> PREFIX then Inr None
     else
     bindE (unpack_u16 data 2) (\<lambda>proto.
     bindE (unpack_u16 data 4) (\<lambda>frame_length.
     bindE (byte_at data 6) (\<lambda>unknown.
     bindE (byte_at data 7) (\<lambda>tcp_func.
     let fr = new_frame proto tcp_func (decode_serial (slice 8 18 data)) data in
     if tcp_func = TCP_FUNC_TRANSLATED_DATA \<and> 20 \<le> length data
     then bindE (parse_data_frame data fr) (\<lambda>fr. Inr (Some fr))
     else Inr (Some fr))))))"

function find_frames_from :: "bytes \<Rightarrow> nat \<Rightarrow> frame list result" where
  "find_frames_from data i =
    (if i + 1 < length data then
       if data ! i = PREFIX ! 0 \<and> data ! (i + 1) = PREFIX ! 1 \<and> i + 6 \<le> length data then
         (case unpack_u16 data (i + 4) of
            Inl e \<Rightarrow> Inl e
          | Inr frame_len \<Rightarrow>
              let total = 6 + nat frame_len in
              if i + total \<le> length data then
                bindE (parse_frame (slice i (i + total) data)) (\<lambda>fr.
                  map_sum id (\<lambda>rest. (case fr of Some f \<Rightarrow> f # rest | None \<Rightarrow> rest))
                    (find_frames_from data (i + total)))
              else find_frames_from data (i + 1))
       else find_frames_from data (i + 1)
     else Inr [])"
  by pat_completeness auto

termination
  by (relation "measure (\<lambda>(data, i). length data - i)") auto

declare find_frames_from.simps [simp del]

definition find_frames :: "bytes \<Rightarrow> frame list result" where
  "find_frames data = find_frames_from data 0"

end
