(* ===== verification/Packets.thy ===== *)
theory Packets
  imports Protocol
begin

text \<open>
  The reference layout of packets and the theorem, for each builder, that its in-place writes produce
  exactly that layout.  \<^verbatim>\<open>packet\<close> is the outer frame, \<^verbatim>\<open>data_body\<close> the Modbus part and \<^verbatim>\<open>seal\<close> appends its
  checksum.
\<close>

lemma serial_length [simp]: "length (serial_to_bytes s) = 10"
  by (simp add: serial_to_bytes_def Let_def)

lemma replicate_eval: "replicate (numeral n) x = x # replicate (pred_numeral n) x"
  by (simp add: numeral_eq_Suc)

definition data_body :: "int \<Rightarrow> string \<Rightarrow> bytes \<Rightarrow> bytes" where
  "data_body func isn payload = [0, word_of_int func] @ serial_to_bytes isn @ payload"

definition seal :: "bytes \<Rightarrow> bytes" where
  "seal body = body @ le16 (uint (crc16_modbus body))"

definition packet :: "int \<Rightarrow> int \<Rightarrow> string \<Rightarrow> bytes \<Rightarrow> bytes" where
  "packet proto func serial data = PREFIX @ le16 proto @ le16 (int (length data) + 12) @ [1, word_of_int func]
     @ serial_to_bytes serial @ data"

definition data_packet :: "string \<Rightarrow> bytes \<Rightarrow> bytes" where
  "data_packet serial body = packet 1 TCP_FUNC_TRANSLATED_DATA serial (le16 (int (length body) + 2) @ seal body)"

lemma uint_crc: "0 \<le> uint (c :: 16 word)" "uint c \<le> 65535"
  using uint_lt2p [of c] by simp_all

lemma build_read_request_packet:
  assumes "0 \<le> func" "func \<le> 255" "0 \<le> reg" "reg \<le> 65535" "0 \<le> cnt" "cnt \<le> 65535"
  shows "build_read_request ds isn func reg cnt = Inr (data_packet ds (data_body func isn (le16 reg @ le16 cnt)))"
proof -
  obtain a0 a1 a2 a3 a4 a5 a6 a7 a8 a9 where a: "serial_to_bytes ds = [a0, a1, a2, a3, a4, a5, a6, a7, a8, a9]"
    using list_of_length_10 [OF serial_length] by metis
  obtain b0 b1 b2 b3 b4 b5 b6 b7 b8 b9 where b: "serial_to_bytes isn = [b0, b1, b2, b3, b4, b5, b6, b7, b8, b9]"
    using list_of_length_10 [OF serial_length] by metis
  show ?thesis
    using assms
    by (simp add: build_read_request_def Let_def replicate_eval set_slice_def pack_u16_def set_byte_def
        a b protocol_consts slice_def data_packet_def packet_def data_body_def seal_def le16_def
        lo_byte_def hi_byte_def uint_crc)
qed

lemma build_write_request_packet:
  assumes "0 \<le> reg" "reg \<le> 65535" "0 \<le> v" "v \<le> 65535"
  shows "build_write_request ds isn reg v = Inr (data_packet ds (data_body MODBUS_WRITE_SINGLE isn (le16 reg @ le16 v)))"
proof -
  have "build_write_request ds isn reg v = build_read_request ds isn MODBUS_WRITE_SINGLE reg v"
    using assms by (simp add: build_write_request_def build_read_request_def)
  then show ?thesis
    using assms by (simp add: build_read_request_packet MODBUS_WRITE_SINGLE_def)
qed

lemma build_heartbeat_packet: "build_heartbeat ds = Inr (packet 2 TCP_FUNC_HEARTBEAT ds [0])"
proof -
  obtain a0 a1 a2 a3 a4 a5 a6 a7 a8 a9 where a: "serial_to_bytes ds = [a0, a1, a2, a3, a4, a5, a6, a7, a8, a9]"
    using list_of_length_10 [OF serial_length] by metis
  show ?thesis
    by (simp add: build_heartbeat_def Let_def replicate_eval set_slice_def pack_u16_def set_byte_def
        a protocol_consts packet_def le16_def lo_byte_def hi_byte_def)
qed

definition le16s :: "int list \<Rightarrow> bytes" where
  "le16s vs = concat (map le16 vs)"

lemma length_le16s [simp]: "length (le16s vs) = 2 * length vs"
  by (induction vs) (simp_all add: le16s_def)

definition u16_list :: "int list \<Rightarrow> bool" where
  "u16_list vs \<longleftrightarrow> list_all (\<lambda>v. 0 \<le> v \<and> v \<le> 65535) vs"

lemma pack_values:
  assumes "u16_list vs" and "length front = 37 + 2 * k"
  shows "foldE (\<lambda>pkt (i, v). pack_u16 pkt (37 + i * 2) v) (front @ replicate (2 * length vs) 0 @ rest)
      (zip [k..<k + length vs] vs) = Inr (front @ le16s vs @ rest)"
  using assms
proof (induction vs arbitrary: front k)
  case Nil
  then show ?case
    by (simp add: le16s_def)
next
  case (Cons v vs)
  have "pack_u16 (front @ replicate (2 * length (v # vs)) 0 @ rest) (37 + k * 2) v
      = Inr ((front @ le16 v) @ replicate (2 * length vs) 0 @ rest)"
    using Cons.prems by (simp add: pack_u16_def u16_list_def list_update_append le16_def)
  moreover have "[k..<k + length (v # vs)] = k # [Suc k..<Suc k + length vs]"
    by (simp add: upt_conv_Cons del: upt_Suc)
  moreover have "foldE (\<lambda>pkt (i, v). pack_u16 pkt (37 + i * 2) v) ((front @ le16 v) @ replicate (2 * length vs) 0 @ rest)
      (zip [Suc k..<Suc k + length vs] vs) = Inr ((front @ le16 v) @ le16s vs @ rest)"
    using Cons.prems by (intro Cons.IH) (auto simp: u16_list_def)
  ultimately show ?case
    by (simp add: le16s_def)
qed

lemma build_write_multi_request_packet:
  assumes "vs \<noteq> []" "length vs \<le> 123" "u16_list vs" "0 \<le> reg" "reg \<le> 65535"
  shows "build_write_multi_request ds isn reg vs = Inr (data_packet ds
    (data_body MODBUS_WRITE_MULTI isn
      (le16 reg @ le16 (int (length vs)) @ [word_of_int (2 * int (length vs))] @ le16s vs)))"
proof -
  obtain a0 a1 a2 a3 a4 a5 a6 a7 a8 a9 where a: "serial_to_bytes ds = [a0, a1, a2, a3, a4, a5, a6, a7, a8, a9]"
    using list_of_length_10 [OF serial_length] by metis
  obtain b0 b1 b2 b3 b4 b5 b6 b7 b8 b9 where b: "serial_to_bytes isn = [b0, b1, b2, b3, b4, b5, b6, b7, b8, b9]"
    using list_of_length_10 [OF serial_length] by metis
  define n where "n = length vs"
  have n: "n \<le> 123"
    using assms by (simp add: n_def)
  have z: "replicate (39 + 2 * n) (0 :: byte) =
      [0, 0, 0, 0, 0, 0, 0, 0, 0, 0, 0, 0, 0, 0, 0, 0, 0, 0, 0, 0, 0, 0, 0, 0, 0, 0, 0, 0, 0, 0, 0, 0, 0, 0, 0, 0, 0]
      @ replicate (2 * n) 0 @ [0, 0]"
    by (simp add: numeral_eq_Suc replicate_app_Cons_same flip: replicate_add)
  have ok: "\<not> list_ex (\<lambda>v. \<not> (0 \<le> v \<and> v \<le> 0xFFFF)) vs"
    using assms by (simp add: u16_list_def list_ex_iff list_all_iff)
  define Q where "Q = [0, 16] @ serial_to_bytes isn @ le16 reg @ le16 (int n) @ [word_of_int (2 * int n)]"
  define P where "P = PREFIX @ le16 1 @ le16 (33 + 2 * int n) @ [1, 0xC2] @ serial_to_bytes ds @ le16 (19 + 2 * int n) @ Q"
  have P: "length P = 37" "drop 20 P = Q"
    by (simp_all add: P_def Q_def PREFIX_def a b le16_def)
  have loop: "foldE (\<lambda>pkt (i, v). pack_u16 pkt (37 + i * 2) v) (P @ replicate (2 * n) 0 @ [0, 0])
      (zip [0..<n] vs) = Inr (P @ le16s vs @ [0, 0])"
    using pack_values [OF assms(3), of P 0 "[0, 0]"] P by (simp add: n_def)
  have "build_write_multi_request ds isn reg vs =
      bindE (foldE (\<lambda>pkt (i, v). pack_u16 pkt (37 + i * 2) v) (P @ replicate (2 * n) 0 @ [0, 0]) (zip [0..<n] vs))
        (\<lambda>pkt. pack_u16 pkt (37 + 2 * n) (uint (crc16_modbus (slice 20 (37 + 2 * n) pkt))))"
    using assms n ok
    unfolding build_write_multi_request_def Let_def
    by (simp add: set_slice_def pack_u16_def [where off = "numeral _"] set_byte_def z a b protocol_consts P_def Q_def le16_def flip: n_def)
  also have "\<dots> = Inr (P @ le16s vs @ le16 (uint (crc16_modbus (Q @ le16s vs))))"
    unfolding loop bindE_Inr using P by (simp add: pack_u16_def slice_def uint_crc list_update_append n_def le16_def)
  finally show ?thesis
    by (simp add: data_packet_def packet_def data_body_def seal_def P_def Q_def TCP_FUNC_TRANSLATED_DATA_def
        MODBUS_WRITE_MULTI_def flip: n_def)
qed
subsection \<open>Arguments out of range\<close>

lemma build_read_request_errors:
  "\<not> (0 \<le> func \<and> func \<le> 255) \<Longrightarrow> build_read_request ds isn func reg cnt = Inl ValueError"
  "0 \<le> func \<Longrightarrow> func \<le> 255 \<Longrightarrow> \<not> (0 \<le> reg \<and> reg \<le> 65535)
     \<Longrightarrow> build_read_request ds isn func reg cnt = Inl StructError"
  "0 \<le> func \<Longrightarrow> func \<le> 255 \<Longrightarrow> 0 \<le> reg \<Longrightarrow> reg \<le> 65535 \<Longrightarrow> \<not> (0 \<le> cnt \<and> cnt \<le> 65535)
     \<Longrightarrow> build_read_request ds isn func reg cnt = Inl StructError"
  by (simp_all add: build_read_request_def Let_def set_slice_def pack_u16_def set_byte_def PREFIX_def
      TCP_FUNC_TRANSLATED_DATA_def)

lemma build_read_request_cases:
  "build_read_request ds isn func reg cnt =
    (if \<not> (0 \<le> func \<and> func \<le> 255) then Inl ValueError
     else if \<not> (0 \<le> reg \<and> reg \<le> 65535) \<or> \<not> (0 \<le> cnt \<and> cnt \<le> 65535) then Inl StructError
     else Inr (data_packet ds (data_body func isn (le16 reg @ le16 cnt))))"
  using build_read_request_errors [where ds = ds and isn = isn and func = func and reg = reg and cnt = cnt]
    build_read_request_packet [where ds = ds and isn = isn and func = func and reg = reg and cnt = cnt]
  by auto

lemma build_write_request_cases:
  "build_write_request ds isn reg v =
    (if \<not> (0 \<le> v \<and> v \<le> 65535) then Inl ValueError
     else if \<not> (0 \<le> reg \<and> reg \<le> 65535) then Inl StructError
     else Inr (data_packet ds (data_body MODBUS_WRITE_SINGLE isn (le16 reg @ le16 v))))"
proof (cases "0 \<le> v \<and> v \<le> 65535")
  case True
  then have "build_write_request ds isn reg v = build_read_request ds isn MODBUS_WRITE_SINGLE reg v"
    by (simp add: build_write_request_def build_read_request_def)
  with True show ?thesis
    by (auto simp: build_read_request_cases MODBUS_WRITE_SINGLE_def)
qed (auto simp: build_write_request_def)

lemma build_write_multi_request_errors:
  assumes "vs \<noteq> []" "length vs \<le> 123" "u16_list vs" "\<not> (0 \<le> reg \<and> reg \<le> 65535)"
  shows "build_write_multi_request ds isn reg vs = Inl StructError"
proof -
  have "\<not> list_ex (\<lambda>v. \<not> (0 \<le> v \<and> v \<le> 0xFFFF)) vs"
    using assms by (simp add: u16_list_def list_ex_iff list_all_iff)
  moreover have "length vs \<le> 32751" "length vs \<le> 32758" "length vs \<le> 65535" "length vs \<le> 127"
    using assms by simp_all
  ultimately show ?thesis
    using assms unfolding build_write_multi_request_def Let_def
    by (simp add: set_slice_def pack_u16_def set_byte_def PREFIX_def
        TCP_FUNC_TRANSLATED_DATA_def MODBUS_WRITE_MULTI_def) (intro impI, linarith)
qed

lemma build_write_multi_request_cases:
  "build_write_multi_request ds isn reg vs =
    (if vs = [] \<or> 123 < length vs \<or> \<not> u16_list vs then Inl ValueError
     else if \<not> (0 \<le> reg \<and> reg \<le> 65535) then Inl StructError
     else Inr (data_packet ds (data_body MODBUS_WRITE_MULTI isn
       (le16 reg @ le16 (int (length vs)) @ [word_of_int (2 * int (length vs))] @ le16s vs))))"
proof (cases "vs = [] \<or> 123 < length vs \<or> \<not> u16_list vs")
  case True
  then have "build_write_multi_request ds isn reg vs = Inl ValueError"
    by (auto simp: build_write_multi_request_def u16_list_def list_all_iff list_ex_iff)
  with True show ?thesis
    by simp
next
  case False
  then show ?thesis
    using build_write_multi_request_errors [where ds = ds and isn = isn and vs = vs and reg = reg]
      build_write_multi_request_packet [where ds = ds and isn = isn and vs = vs and reg = reg]
    by (simp add: not_less)
qed

lemma data_packet_body: "drop 20 (data_packet ds body) = seal body"
  by (simp add: data_packet_def packet_def PREFIX_def le16_def)

lemma seal_residue: "crc16_modbus (seal body) = 0"
  using crc_residue [of "crc_run 0xFFFF body"] by (simp add: seal_def crc16_modbus_run le16_def)

end
