(* ===== verification/Parsing.thy ===== *)
theory Parsing
  imports Packets
begin

text \<open>
  The parser never raises on any byte string, and it recovers the fields of a well-formed frame: the
  requests the builders produce, write echoes and read responses of any length.
\<close>

subsection \<open>Totality\<close>

lemma foldE_snoc: "foldE f s (xs @ [x]) = bindE (foldE f s xs) (\<lambda>s'. f s' x)"
  by (simp add: foldE_append) (cases "foldE f s xs"; simp add: bindE_def split: sum.split)

lemma parse_values_spec:
  "parse_values data b n fr = Inr (fr\<lparr>f_values := f_values fr @
     map (\<lambda>i. u16_le (data ! (b + i * 2)) (data ! (b + i * 2 + 1)))
       (filter (\<lambda>i. b + i * 2 + 4 \<le> length data) [0..<n])\<rparr>)"
proof (induction n)
  case 0
  then show ?case
    by (simp add: parse_values_def)
next
  case (Suc n)
  have "int (b + n * 2 + 2) \<le> int (length data) - 2 \<longleftrightarrow> b + n * 2 + 4 \<le> length data"
    by linarith
  with Suc show ?case
    by (simp add: parse_values_def foldE_snoc unpack_u16_def Let_def del: of_nat_add)
qed

lemma parse_data_frame_total: "20 \<le> length data \<Longrightarrow> \<exists>fr'. parse_data_frame data fr = Inr fr'"
  unfolding parse_data_frame_def Let_def
  by (simp add: unpack_u16_def byte_at_def parse_values_spec)

lemma parse_frame_total: "\<exists>r. parse_frame data = Inr r"
proof (cases "length data < 18 \<or> slice 0 2 data \<noteq> PREFIX")
  case True
  then show ?thesis
    by (auto simp: parse_frame_def HEADER_SIZE_def)
next
  case False
  then show ?thesis
    using parse_data_frame_total [of data]
    by (auto simp: parse_frame_def HEADER_SIZE_def unpack_u16_def byte_at_def Let_def bindE_def split: sum.split)
       (metis sum.distinct(1))+
qed

lemma find_frames_from_total: "\<exists>fs. find_frames_from data i = Inr fs"
proof (induction data i rule: find_frames_from.induct)
  case (1 data i)
  show ?case
  proof (cases "i + 1 < length data \<and> data ! i = PREFIX ! 0 \<and> data ! (i + 1) = PREFIX ! 1 \<and> i + 6 \<le> length data")
    case True
    then obtain l where l: "unpack_u16 data (i + 4) = Inr l"
      by (simp add: unpack_u16_def)
    obtain r where "parse_frame (slice i (i + (6 + nat l)) data) = Inr r"
      using parse_frame_total by blast
    moreover obtain fs where "i + (6 + nat l) \<le> length data \<Longrightarrow> find_frames_from data (i + (6 + nat l)) = Inr fs"
      using 1(1) True l by blast
    moreover obtain gs where "\<not> i + (6 + nat l) \<le> length data \<Longrightarrow> find_frames_from data (i + 1) = Inr gs"
      using 1(2) True l by blast
    ultimately show ?thesis
      using True l by (subst find_frames_from.simps) (cases "i + (6 + nat l) \<le> length data"; simp add: Let_def)
  next
    case False
    with 1 show ?thesis
      by (subst find_frames_from.simps) auto
  qed
qed

subsection \<open>Fields of well-formed frames\<close>

text \<open>The header and the address, function and serial bytes of a data frame with payload \<^verbatim>\<open>rest\<close>.\<close>

definition data_frame_bytes :: "int \<Rightarrow> string \<Rightarrow> int \<Rightarrow> int \<Rightarrow> string \<Rightarrow> bytes \<Rightarrow> bytes" where
  "data_frame_bytes proto ds addr func isn rest =
     packet proto TCP_FUNC_TRANSLATED_DATA ds
       (le16 (int (length rest) + 12) @ [word_of_int addr, word_of_int func] @ serial_to_bytes isn @ rest)"

definition data_frame :: "int \<Rightarrow> string \<Rightarrow> int \<Rightarrow> int \<Rightarrow> string \<Rightarrow> bytes \<Rightarrow> int \<Rightarrow> int list \<Rightarrow> int \<Rightarrow> frame" where
  "data_frame proto ds addr func isn raw reg vs wc =
     (new_frame proto TCP_FUNC_TRANSLATED_DATA (decode_serial (serial_to_bytes ds)) raw)
       \<lparr>f_address := addr, f_device_function := func,
        f_inverter_serial := decode_serial (serial_to_bytes isn),
        f_register := reg, f_values := vs, f_write_count := wc\<rparr>"

lemma uint_word_byte: "0 \<le> v \<Longrightarrow> v \<le> 255 \<Longrightarrow> uint (word_of_int v :: byte) = v"
  by (simp add: uint_word_of_int)

lemma parse_data_frame_bytes:
  fixes ds isn :: string and rest :: bytes
  assumes "0 \<le> proto" "proto \<le> 65535" "0 \<le> addr" "addr \<le> 255" "0 \<le> func" "func < 128"
    and "0 \<le> reg" "reg \<le> 65535" "int (length rest) + 28 \<le> 65535" "2 \<le> length rest"
  defines "raw \<equiv> data_frame_bytes proto ds addr func isn (le16 reg @ rest)"
  shows "parse_frame raw = Inr (Some (data_frame proto ds addr func isn raw reg
     (if func = 6 then if 4 \<le> length rest then [u16_le (rest ! 0) (rest ! 1)] else []
      else if func = 3 \<or> func = 4 then
         map (\<lambda>i. u16_le (rest ! (1 + i * 2)) (rest ! (2 + i * 2)))
           (filter (\<lambda>i. 1 + i * 2 + 4 \<le> length rest) [0..<nat (uint (rest ! 0) div 2)])
      else [])
     (if func = 16 \<and> 4 \<le> length rest then u16_le (rest ! 0) (rest ! 1) else 0)))"
proof -
  obtain a0 a1 a2 a3 a4 a5 a6 a7 a8 a9 where a: "serial_to_bytes ds = [a0, a1, a2, a3, a4, a5, a6, a7, a8, a9]"
    using list_of_length_10 [OF serial_length] by metis
  obtain b0 b1 b2 b3 b4 b5 b6 b7 b8 b9 where b: "serial_to_bytes isn = [b0, b1, b2, b3, b4, b5, b6, b7, b8, b9]"
    using list_of_length_10 [OF serial_length] by metis
  have raw: "raw = 0xA1 # 0x1A # lo_byte proto # hi_byte proto # lo_byte (28 + int (length rest))
      # hi_byte (28 + int (length rest)) # 1 # 0xC2 # a0 # a1 # a2 # a3 # a4 # a5 # a6 # a7 # a8 # a9
      # lo_byte (14 + int (length rest)) # hi_byte (14 + int (length rest)) # word_of_int addr # word_of_int func
      # b0 # b1 # b2 # b3 # b4 # b5 # b6 # b7 # b8 # b9 # lo_byte reg # hi_byte reg # rest"
    by (simp add: raw_def data_frame_bytes_def packet_def PREFIX_def le16_def a b TCP_FUNC_TRANSLATED_DATA_def algebra_simps)
  have nth: "raw ! (34 + k) = rest ! k" for k
    by (simp add: raw numeral_eq_Suc)
  have len: "length raw = 34 + length rest"
    by (simp add: raw)
  have sl: "slice 0 2 raw = PREFIX" "slice 8 18 raw = serial_to_bytes ds" "slice 22 32 raw = serial_to_bytes isn"
    by (simp_all add: raw slice_def PREFIX_def a b)
  have up: "unpack_u16 raw 2 = Inr proto" "unpack_u16 raw 4 = Inr (28 + int (length rest))"
    "unpack_u16 raw 18 = Inr (14 + int (length rest))" "unpack_u16 raw 32 = Inr reg"
    "byte_at raw 6 = Inr 1" "byte_at raw 7 = Inr 0xC2" "byte_at raw 20 = Inr addr" "byte_at raw 21 = Inr func"
    using assms(1-10) by (simp_all add: unpack_u16_def byte_at_def raw u16_le_lo_hi uint_word_byte)
  have tail: "unpack_u16 raw 34 = Inr (u16_le (rest ! 0) (rest ! 1))" "byte_at raw 34 = Inr (uint (rest ! 0))"
    using assms(10) nth [of 0] nth [of 1] by (auto simp: unpack_u16_def byte_at_def len)
  have vals: "raw ! (35 + i * 2) = rest ! (1 + i * 2)" "raw ! Suc (35 + i * 2) = rest ! (2 + i * 2)" for i
    using nth [of "1 + i * 2"] nth [of "2 + i * 2"] by simp_all
  have flt: "35 + i * 2 + 4 \<le> length raw \<longleftrightarrow> 1 + i * 2 + 4 \<le> length rest" for i
    by (simp add: len)
  note parse = parse_frame_def parse_data_frame_def Let_def len sl up tail HEADER_SIZE_def
    TCP_FUNC_TRANSLATED_DATA_def is_read_def MODBUS_READ_HOLD_def MODBUS_READ_INPUT_def
    MODBUS_WRITE_SINGLE_def MODBUS_WRITE_MULTI_def new_frame_def decode_serial_def data_frame_def
  consider "func = 6" | "func = 3 \<or> func = 4" | "func = 16" | "func \<notin> {3, 4, 6, 16}"
    by blast
  then show ?thesis
  proof cases
    case 2
    have "parse_values raw 35 (nat (uint (rest ! 0) div 2)) fr = Inr (fr\<lparr>f_values := f_values fr @
        map (\<lambda>i. u16_le (rest ! (1 + i * 2)) (rest ! (2 + i * 2)))
           (filter (\<lambda>i. 1 + i * 2 + 4 \<le> length rest) [0..<nat (uint (rest ! 0) div 2)])\<rparr>)" for fr
      by (simp only: parse_values_spec flt vals Suc_eq_plus1 [symmetric])
    with 2 assms(6,10) show ?thesis
      by (auto simp: parse)
  qed (use assms(6,10) in \<open>auto simp: parse\<close>)
qed

lemma data_frame_fields [simp]:
  "f_protocol (data_frame proto ds addr func isn raw reg vs wc) = proto"
  "f_tcp_function (data_frame proto ds addr func isn raw reg vs wc) = TCP_FUNC_TRANSLATED_DATA"
  "f_datalog_serial (data_frame proto ds addr func isn raw reg vs wc) = decode_serial (serial_to_bytes ds)"
  "f_raw (data_frame proto ds addr func isn raw reg vs wc) = raw"
  "f_address (data_frame proto ds addr func isn raw reg vs wc) = addr"
  "f_device_function (data_frame proto ds addr func isn raw reg vs wc) = func"
  "f_inverter_serial (data_frame proto ds addr func isn raw reg vs wc) = decode_serial (serial_to_bytes isn)"
  "f_register (data_frame proto ds addr func isn raw reg vs wc) = reg"
  "f_values (data_frame proto ds addr func isn raw reg vs wc) = vs"
  "f_write_count (data_frame proto ds addr func isn raw reg vs wc) = wc"
  "f_is_error (data_frame proto ds addr func isn raw reg vs wc) = False"
  "f_error_code (data_frame proto ds addr func isn raw reg vs wc) = 0"
  by (simp_all add: data_frame_def new_frame_def)

subsection \<open>Serial numbers\<close>

definition serial_ok :: "string \<Rightarrow> bool" where
  "serial_ok s \<longleftrightarrow> is_ascii s \<and> length s = 10 \<and> last s \<noteq> nul"

lemma decode_serial_to_bytes: "serial_ok s \<Longrightarrow> decode_serial (serial_to_bytes s) = s"
  by (auto simp: serial_ok_def decode_serial_def serial_to_bytes_def Let_def ascii_encode_is_ascii
      ascii_decode_encode intro!: rstrip_id)

subsection \<open>Responses\<close>

lemma le16s_nth: "i < length vs \<Longrightarrow> le16s vs ! (2 * i) = lo_byte (vs ! i) \<and> le16s vs ! (2 * i + 1) = hi_byte (vs ! i)"
proof (induction vs arbitrary: i)
  case (Cons v vs)
  then show ?case
    by (cases i) (auto simp: le16s_def le16_def)
qed simp

text \<open>The payload of a read response after its register: byte count, values, checksum.\<close>

definition read_payload :: "int list \<Rightarrow> bytes \<Rightarrow> bytes" where
  "read_payload vs crc = [word_of_int (2 * int (length vs))] @ le16s vs @ crc"

lemma parse_read_response:
  fixes ds isn :: string
  assumes "0 \<le> proto" "proto \<le> 65535" "0 \<le> addr" "addr \<le> 255" "func = 3 \<or> func = 4"
    and "0 \<le> reg" "reg \<le> 65535" "length vs \<le> 127" "u16_list vs" "length crc = 2"
  defines "raw \<equiv> data_frame_bytes proto ds addr func isn (le16 reg @ read_payload vs crc)"
  shows "parse_frame raw = Inr (Some (data_frame proto ds addr func isn raw reg vs 0))"
proof -
  define rest where "rest = read_payload vs crc"
  have len: "length rest = 3 + 2 * length vs"
    using assms(10) by (simp add: rest_def read_payload_def)
  have cnt: "nat (uint (rest ! 0) div 2) = length vs"
  proof -
    have "uint (rest ! 0) = 2 * int (length vs)"
      using uint_word_byte [of "2 * int (length vs)"] assms(8) by (simp only: rest_def read_payload_def) simp
    then show ?thesis
      by simp
  qed
  have flt: "filter (\<lambda>i. 1 + i * 2 + 4 \<le> length rest) [0..<length vs] = [0..<length vs]"
    by (auto simp: len intro!: filter_True)
  have "u16_le (rest ! (1 + i * 2)) (rest ! (2 + i * 2)) = vs ! i" if "i < length vs" for i
  proof -
    have "rest ! (1 + k) = (le16s vs @ crc) ! k" for k
      by (simp add: rest_def read_payload_def)
    from this [of "2 * i"] this [of "2 * i + 1"]
    have "rest ! (1 + i * 2) = lo_byte (vs ! i)" "rest ! (2 + i * 2) = hi_byte (vs ! i)"
      using that le16s_nth [of i vs] by (simp_all add: nth_append mult.commute)
    moreover have "0 \<le> vs ! i" "vs ! i \<le> 65535"
      using assms(9) that by (simp_all add: u16_list_def list_all_length)
    ultimately show ?thesis
      by (simp add: u16_le_lo_hi)
  qed
  then have "map (\<lambda>i. u16_le (rest ! (1 + i * 2)) (rest ! (2 + i * 2))) [0..<length vs] = vs"
    by (intro nth_equalityI) simp_all
  then show ?thesis
    using parse_data_frame_bytes [of proto addr func reg rest ds isn] assms(1-8) len
    unfolding cnt flt by (auto simp: raw_def simp flip: rest_def)
qed

text \<open>The echo of a single write carries the value in place of the byte count.\<close>

lemma parse_write_echo:
  fixes ds isn :: string
  assumes "0 \<le> proto" "proto \<le> 65535" "0 \<le> addr" "addr \<le> 255"
    and "0 \<le> reg" "reg \<le> 65535" "0 \<le> v" "v \<le> 65535" "length crc = 2"
  defines "raw \<equiv> data_frame_bytes proto ds addr 6 isn (le16 reg @ le16 v @ crc)"
  shows "parse_frame raw = Inr (Some (data_frame proto ds addr 6 isn raw reg [v] 0))"
  using parse_data_frame_bytes [of proto addr 6 reg "le16 v @ crc" ds isn] assms(1-9)
  by (simp add: raw_def le16_def u16_le_lo_hi)

lemma parse_write_multi_echo:
  fixes ds isn :: string
  assumes "0 \<le> proto" "proto \<le> 65535" "0 \<le> addr" "addr \<le> 255"
    and "0 \<le> reg" "reg \<le> 65535" "0 \<le> n" "n \<le> 65535" "2 \<le> length tl_bytes" "int (length tl_bytes) + 32 \<le> 65535"
  defines "raw \<equiv> data_frame_bytes proto ds addr 16 isn (le16 reg @ le16 n @ tl_bytes)"
  shows "parse_frame raw = Inr (Some (data_frame proto ds addr 16 isn raw reg [] n))"
  using parse_data_frame_bytes [of proto addr 16 reg "le16 n @ tl_bytes" ds isn] assms(1-10)
  by (simp add: raw_def le16_def u16_le_lo_hi)

subsection \<open>Requests read back by the parser\<close>

lemma data_packet_frame_bytes:
  "data_packet ds (data_body func isn payload) =
     data_frame_bytes 1 ds 0 func isn (payload @ le16 (uint (crc16_modbus (data_body func isn payload))))"
  by (simp add: data_packet_def data_frame_bytes_def data_body_def seal_def)

lemma parse_write_request:
  assumes "0 \<le> reg" "reg \<le> 65535" "0 \<le> v" "v \<le> 65535"
  obtains pkt where "build_write_request ds isn reg v = Inr pkt" "length pkt = 38"
    "parse_frame pkt = Inr (Some (data_frame 1 ds 0 6 isn pkt reg [v] 0))"
proof -
  define crc where "crc = le16 (uint (crc16_modbus (data_body MODBUS_WRITE_SINGLE isn (le16 reg @ le16 v))))"
  define pkt where "pkt = data_frame_bytes 1 ds 0 6 isn (le16 reg @ le16 v @ crc)"
  have "build_write_request ds isn reg v = Inr pkt"
    using assms by (simp add: build_write_request_packet data_packet_frame_bytes pkt_def crc_def)
      (simp add: MODBUS_WRITE_SINGLE_def)
  moreover have "length pkt = 38"
    by (simp add: pkt_def crc_def data_frame_bytes_def packet_def PREFIX_def)
  moreover have "parse_frame pkt = Inr (Some (data_frame 1 ds 0 6 isn pkt reg [v] 0))"
    using assms parse_write_echo [of 1 0 reg v crc ds isn] by (simp add: pkt_def crc_def)
  ultimately show ?thesis
    using that by blast
qed

lemma parse_read_request:
  assumes "func = 3 \<or> func = 4" "0 \<le> reg" "reg \<le> 65535" "0 \<le> cnt" "cnt \<le> 65535"
  obtains pkt where "build_read_request ds isn func reg cnt = Inr pkt" "length pkt = 38"
    "parse_frame pkt = Inr (Some (data_frame 1 ds 0 func isn pkt reg [] 0))"
proof -
  define crc where "crc = le16 (uint (crc16_modbus (data_body func isn (le16 reg @ le16 cnt))))"
  define pkt where "pkt = data_frame_bytes 1 ds 0 func isn (le16 reg @ le16 cnt @ crc)"
  have "build_read_request ds isn func reg cnt = Inr pkt"
    using assms by (auto simp: build_read_request_packet data_packet_frame_bytes pkt_def crc_def)
  moreover have "length pkt = 38"
    by (simp add: pkt_def crc_def data_frame_bytes_def packet_def PREFIX_def)
  moreover have "filter (\<lambda>i. 1 + i * 2 + 4 \<le> (4 :: nat)) xs = []" for xs
    by (simp add: filter_empty_conv)
  then have "parse_frame pkt = Inr (Some (data_frame 1 ds 0 func isn pkt reg [] 0))"
    using assms parse_data_frame_bytes [of 1 0 func reg "le16 cnt @ crc" ds isn]
    by (auto simp: pkt_def crc_def)
  ultimately show ?thesis
    using that by blast
qed

lemma parse_write_multi_request:
  assumes "vs \<noteq> []" "length vs \<le> 123" "u16_list vs" "0 \<le> reg" "reg \<le> 65535"
  obtains pkt where "build_write_multi_request ds isn reg vs = Inr pkt" "length pkt = 39 + 2 * length vs"
    "parse_frame pkt = Inr (Some (data_frame 1 ds 0 16 isn pkt reg [] (int (length vs))))"
proof -
  define tl_bytes where "tl_bytes = [word_of_int (2 * int (length vs))] @ le16s vs @
    le16 (uint (crc16_modbus (data_body MODBUS_WRITE_MULTI isn
      (le16 reg @ le16 (int (length vs)) @ [word_of_int (2 * int (length vs))] @ le16s vs))))"
  define pkt where "pkt = data_frame_bytes 1 ds 0 16 isn (le16 reg @ le16 (int (length vs)) @ tl_bytes)"
  have "build_write_multi_request ds isn reg vs = Inr pkt"
    using assms by (simp add: build_write_multi_request_packet data_packet_frame_bytes pkt_def tl_bytes_def)
      (simp add: MODBUS_WRITE_MULTI_def)
  moreover have "length pkt = 39 + 2 * length vs"
    by (simp add: pkt_def tl_bytes_def data_frame_bytes_def packet_def PREFIX_def)
  moreover have "parse_frame pkt = Inr (Some (data_frame 1 ds 0 16 isn pkt reg [] (int (length vs))))"
    using assms parse_write_multi_echo [of 1 0 reg "int (length vs)" tl_bytes ds isn]
    by (simp add: pkt_def tl_bytes_def)
  ultimately show ?thesis
    using that by blast
qed

end
