(* ===== verification/Scanner.thy ===== *)
theory Scanner
  imports Parsing
begin

text \<open>
  The buffer scanner: it never raises, what it returns are parsed slices of the buffer, in order and
  without overlap, each as long as its own length field says, and a buffer that is a sequence of
  well-formed packets (followed by a tail holding no frame start) yields exactly those packets.
\<close>

lemma find_frames_total: "\<exists>fs. find_frames data = Inr fs"
  unfolding find_frames_def by (rule find_frames_from_total)

text \<open>The slices of the buffer that the frames came from, as an explicit cut of the buffer.\<close>

definition declared_length :: "bytes \<Rightarrow> nat" where
  "declared_length p = 6 + nat (u16_le (p ! 4) (p ! 5))"

inductive cuts :: "bytes \<Rightarrow> nat \<Rightarrow> frame list \<Rightarrow> bool" for data where
  cuts_Nil: "cuts data i []"
| cuts_Cons: "i \<le> j \<Longrightarrow> j + n \<le> length data \<Longrightarrow> f_raw f = slice j (j + n) data
    \<Longrightarrow> n = declared_length (slice j (j + n) data) \<Longrightarrow> parse_frame (slice j (j + n) data) = Inr (Some f)
    \<Longrightarrow> cuts data (j + n) fs \<Longrightarrow> cuts data i (f # fs)"

lemma cuts_weaken: "cuts data j fs \<Longrightarrow> i \<le> j \<Longrightarrow> cuts data i fs"
proof (induction arbitrary: i rule: cuts.induct)
  case (cuts_Cons j j' n f fs)
  then show ?case
    by (intro cuts.cuts_Cons [of i j']) auto
qed (rule cuts_Nil)

lemma parse_data_frame_raw: "parse_data_frame data fr = Inr fr' \<Longrightarrow> f_raw fr' = f_raw fr"
  unfolding parse_data_frame_def Let_def
  by (simp add: unpack_u16_def byte_at_def parse_values_spec split: if_split_asm) auto

lemma parse_frame_raw: "parse_frame data = Inr (Some f) \<Longrightarrow> f_raw f = data"
  by (auto simp: parse_frame_def Let_def bindE_eq_Inr new_frame_def dest!: parse_data_frame_raw split: if_splits)

lemma find_frames_from_cuts: "find_frames_from data i = Inr fs \<Longrightarrow> cuts data i fs"
proof (induction data i arbitrary: fs rule: find_frames_from.induct)
  case (1 data i)
  show ?case
  proof (cases "i + 1 < length data \<and> data ! i = PREFIX ! 0 \<and> data ! (i + 1) = PREFIX ! 1 \<and> i + 6 \<le> length data")
    case start: True
    define n where "n = 6 + nat (u16_le (data ! (i + 4)) (data ! (i + 5)))"
    have u: "unpack_u16 data (i + 4) = Inr (u16_le (data ! (i + 4)) (data ! (i + 5)))"
      using start by (simp add: unpack_u16_def add.commute)
    show ?thesis
    proof (cases "i + n \<le> length data")
      case True
      obtain r gs where r: "parse_frame (slice i (i + n) data) = Inr r" and gs: "find_frames_from data (i + n) = Inr gs"
        using parse_frame_total find_frames_from_total by blast
      have "find_frames_from data i = Inr (case r of Some f \<Rightarrow> f # gs | None \<Rightarrow> gs)"
        using start True r gs u
        by (subst find_frames_from.simps) (simp add: Let_def flip: n_def)
      then have fs: "fs = (case r of Some f \<Rightarrow> f # gs | None \<Rightarrow> gs)"
        using 1(4) by simp
      have IH: "cuts data (i + n) gs"
        using 1(1) start u True gs by (simp add: n_def)
      have "slice i (i + n) data ! 4 = data ! (i + 4)" "slice i (i + n) data ! 5 = data ! (i + 5)"
        using True by (simp_all add: slice_def n_def)
      then have n: "n = declared_length (slice i (i + n) data)"
        by (simp only: declared_length_def) (rule n_def)
      show ?thesis
      proof (cases r)
        case None
        with fs IH show ?thesis
          by (auto intro: cuts_weaken)
      next
        case (Some f)
        with r have p: "parse_frame (slice i (i + n) data) = Inr (Some f)"
          by simp
        have "cuts data i (f # gs)"
          by (rule cuts_Cons [OF le_refl True parse_frame_raw [OF p] n p IH])
        with Some fs show ?thesis
          by simp
      qed
    next
      case False
      then have "find_frames_from data i = find_frames_from data (i + 1)"
        using start u by (subst find_frames_from.simps) (simp add: Let_def flip: n_def)
      then have "find_frames_from data (i + 1) = Inr fs"
        using 1(4) by simp
      then show ?thesis
        using 1(2) start u False by (intro cuts_weaken [of data "i + 1" fs i]) (simp_all add: n_def)
    qed
  next
    case False
    show ?thesis
    proof (cases "i + 1 < length data")
      case True
      with False have "find_frames_from data i = find_frames_from data (i + 1)"
        by (subst find_frames_from.simps) auto
      with 1(4) have "find_frames_from data (i + 1) = Inr fs"
        by simp
      then show ?thesis
        using 1(3) False True by (intro cuts_weaken [of data "i + 1" fs i]) auto
    next
      case False
      then have "find_frames_from data i = Inr []"
        by (subst find_frames_from.simps) auto
      with 1(4) have "fs = []"
        by simp
      then show ?thesis
        by (simp add: cuts_Nil)
    qed
  qed
qed

subsection \<open>Sequences of well-formed packets\<close>

definition wf_packet :: "bytes \<Rightarrow> bool" where
  "wf_packet p \<longleftrightarrow> HEADER_SIZE \<le> length p \<and> slice 0 2 p = PREFIX \<and> declared_length p = length p"

lemma slice_shift: "slice (length xs + a) (length xs + b) (xs @ ys) = slice a b ys"
  by (simp add: slice_def)

lemma find_frames_from_shift: "find_frames_from (xs @ ys) (length xs + i) = find_frames_from ys i"
proof (induction ys i rule: find_frames_from.induct)
  case (1 ys i)
  have u: "unpack_u16 (xs @ ys) (length xs + i + 4) = unpack_u16 ys (i + 4)"
    by (simp add: unpack_u16_def nth_append)
  note nth = nth_append_length_plus [of xs ys i] nth_append_length_plus [of xs ys "i + 1"]
  show ?case
  proof (cases "i + 1 < length ys \<and> ys ! i = PREFIX ! 0 \<and> ys ! (i + 1) = PREFIX ! 1 \<and> i + 6 \<le> length ys")
    case start: True
    then obtain l where l: "unpack_u16 ys (i + 4) = Inr l"
      by (simp add: unpack_u16_def)
    define n where "n = 6 + nat l"
    have sl: "slice (length xs + i) (length xs + (i + n)) (xs @ ys) = slice i (i + n) ys"
      by (rule slice_shift)
    show ?thesis
    proof (cases "i + n \<le> length ys")
      case True
      then have "find_frames_from (xs @ ys) (length xs + (i + n)) = find_frames_from ys (i + n)"
        using 1(1) start l by (simp add: n_def)
      with True start l u sl nth show ?thesis
        by (subst (1 2) find_frames_from.simps) (simp add: Let_def add.assoc flip: n_def)
    next
      case False
      then have "find_frames_from (xs @ ys) (length xs + (i + 1)) = find_frames_from ys (i + 1)"
        using 1(2) start l by (simp add: n_def)
      with False start l u nth show ?thesis
        by (subst (1 2) find_frames_from.simps) (simp add: Let_def add.assoc flip: n_def)
    qed
  next
    case False
    show ?thesis
    proof (cases "i + 1 < length ys")
      case True
      have "find_frames_from (xs @ ys) (length xs + (i + 1)) = find_frames_from ys (i + 1)"
        using 1(3) False True by blast
      with False True nth show ?thesis
        by (subst (1 2) find_frames_from.simps) auto
    next
      case False
      then show ?thesis
        by (subst (1 2) find_frames_from.simps) auto
    qed
  qed
qed

lemma wf_packet_parse: "wf_packet p \<Longrightarrow> \<exists>f. parse_frame p = Inr (Some f)"
proof -
  assume w: "wf_packet p"
  obtain r where r: "parse_frame p = Inr r"
    using parse_frame_total by blast
  have "r \<noteq> None"
    using w r by (auto simp: wf_packet_def parse_frame_def Let_def bindE_eq_Inr split: if_splits)
  with r show ?thesis
    by auto
qed

lemma find_frames_packet:
  assumes "wf_packet p" "parse_frame p = Inr (Some f)" "find_frames rest = Inr fs"
  shows "find_frames (p @ rest) = Inr (f # fs)"
proof -
  have len: "18 \<le> length p" and p: "take 2 p = PREFIX" and d: "declared_length p = length p"
    using assms(1) by (simp_all add: wf_packet_def HEADER_SIZE_def slice_def)
  have n: "(p @ rest) ! k = p ! k" if "k < 18" for k
    using that len by (simp add: nth_append)
  have "p ! 0 = PREFIX ! 0" "p ! 1 = PREFIX ! 1"
    unfolding p [symmetric] using len by simp_all
  moreover have "unpack_u16 (p @ rest) 4 = Inr (u16_le (p ! 4) (p ! 5))"
    using len n by (simp add: unpack_u16_def)
  moreover have "slice 0 (length p) (p @ rest) = p"
    by (simp add: slice_def)
  moreover have "find_frames_from (p @ rest) (length p) = Inr fs"
    using find_frames_from_shift [of p rest 0] assms(3) by (simp add: find_frames_def)
  moreover have "6 + nat (u16_le (p ! 4) (p ! 5)) = length p"
    using d by (simp add: declared_length_def)
  ultimately show ?thesis
    unfolding find_frames_def using assms(2) len n [of 0] n [of 1]
    by (subst find_frames_from.simps) (simp add: Let_def)
qed

lemma find_frames_packets:
  "list_all wf_packet ps \<Longrightarrow> find_frames rest = Inr fs
     \<Longrightarrow> find_frames (concat ps @ rest) = Inr (map (the \<circ> projr \<circ> parse_frame) ps @ fs)"
proof (induction ps)
  case (Cons p ps)
  then obtain f where "parse_frame p = Inr (Some f)"
    using wf_packet_parse by auto
  with Cons find_frames_packet [of p f "concat ps @ rest"] show ?case
    by simp
qed simp

lemma find_frames_no_start:
  assumes "0xA1 \<notin> set data"
  shows "find_frames data = Inr []"
proof -
  have "find_frames_from data i = Inr []" for i
    using assms
  proof (induction data i rule: find_frames_from.induct)
    case (1 data i)
    have "data ! i \<noteq> 0xA1" if "i + 1 < length data"
      using 1(4) that nth_mem [of i data] by (metis Suc_eq_plus1 Suc_lessD)
    with 1 show ?case
      by (subst find_frames_from.simps) (auto simp: PREFIX_def)
  qed
  then show ?thesis
    by (simp add: find_frames_def)
qed

lemma wf_packet_packet:
  assumes "length data + 12 \<le> 65535"
  shows "wf_packet (packet proto func ds data)"
proof -
  have "serial_to_bytes ds \<noteq> []"
    using serial_length [of ds] by force
  have "packet proto func ds data ! 4 = lo_byte (int (length data) + 12)"
    "packet proto func ds data ! 5 = hi_byte (int (length data) + 12)"
    by (simp_all add: packet_def PREFIX_def le16_def)
  then have "declared_length (packet proto func ds data) = 18 + length data"
    using assms u16_le_lo_hi [of "int (length data) + 12"] by (simp add: declared_length_def)
  then show ?thesis
    by (simp add: wf_packet_def HEADER_SIZE_def packet_def slice_def PREFIX_def)
qed

end
