(* ===== verification/Framing.thy ===== *)
theory Framing
  imports Scanner
begin

text \<open>
  The properties of the framing layer: every packet the builders return is a sealed, self-delimiting
  frame that the parser reads back; the parser and the scanner are total; a stream of packets is cut
  exactly at its packet boundaries; and two weaknesses of the scanner, stated as they are.
\<close>

subsection \<open>Checksum\<close>

text \<open>C4: the table-driven CRC loop computes the bit-serial CRC-16/MODBUS of every message, the residue
  of a message followed by its checksum is zero, and replacing two neighbouring bytes by different
  ones always changes the checksum.\<close>

theorem crc16_modbus_correct:
  "crc16_modbus bs = crc16_bitwise bs
   \<and> crc16_modbus (bs @ le16 (uint (crc16_modbus bs))) = 0
   \<and> (crc16_modbus (p @ [a, b] @ s) = crc16_modbus (p @ [c, d] @ s) \<longleftrightarrow> a = c \<and> b = d)"
proof (intro conjI)
  show "crc16_modbus bs = crc16_bitwise bs"
    by (simp add: crc16_modbus_bitwise)
  show "crc16_modbus (bs @ le16 (uint (crc16_modbus bs))) = 0"
    using seal_residue [of bs] by (simp add: seal_def)
  show "crc16_modbus (p @ [a, b] @ s) = crc16_modbus (p @ [c, d] @ s) \<longleftrightarrow> a = c \<and> b = d"
    unfolding crc16_modbus_run by (rule crc_run_two_bytes)
qed

subsection \<open>Packets\<close>

text \<open>The three request builders raise exactly on arguments outside their ranges (ValueError for a
  value, a function code or a value list that does not fit, struct.error for a register number) and
  otherwise return the documented layout.\<close>

lemma builders_spec:
  "build_read_request ds isn func reg cnt =
    (if \<not> (0 \<le> func \<and> func \<le> 255) then Inl ValueError
     else if \<not> (0 \<le> reg \<and> reg \<le> 65535 \<and> 0 \<le> cnt \<and> cnt \<le> 65535) then Inl StructError
     else Inr (data_packet ds (data_body func isn (le16 reg @ le16 cnt))))
   \<and> build_write_request ds isn reg v =
    (if \<not> (0 \<le> v \<and> v \<le> 65535) then Inl ValueError
     else if \<not> (0 \<le> reg \<and> reg \<le> 65535) then Inl StructError
     else Inr (data_packet ds (data_body MODBUS_WRITE_SINGLE isn (le16 reg @ le16 v))))
   \<and> build_write_multi_request ds isn reg vs =
    (if \<not> (vs \<noteq> [] \<and> length vs \<le> 123 \<and> u16_list vs) then Inl ValueError
     else if \<not> (0 \<le> reg \<and> reg \<le> 65535) then Inl StructError
     else Inr (data_packet ds (data_body MODBUS_WRITE_MULTI isn
       (le16 reg @ le16 (int (length vs)) @ [word_of_int (2 * int (length vs))] @ le16s vs))))
   \<and> build_heartbeat ds = Inr (packet 2 TCP_FUNC_HEARTBEAT ds [0])"
  unfolding build_read_request_cases build_write_request_cases build_write_multi_request_cases
    build_heartbeat_packet by auto

text \<open>Whatever request a builder returns is self-delimiting (its length field is its length) and its
  Modbus part carries a valid checksum.\<close>

lemma built_requests_sealed:
  assumes "build_read_request ds isn func reg cnt = Inr pkt \<or> build_write_request ds isn reg v = Inr pkt
     \<or> build_write_multi_request ds isn reg vs = Inr pkt"
  shows "wf_packet pkt \<and> crc16_modbus (drop 20 pkt) = 0"
proof -
  have "\<exists>body. pkt = data_packet ds body \<and> length body \<le> 1000"
    using assms by (auto simp: build_read_request_cases build_write_request_cases build_write_multi_request_cases
        data_body_def split: if_splits)
  then obtain body where body: "pkt = data_packet ds body" "length body \<le> 1000"
    by blast
  then have "wf_packet pkt"
    by (auto simp: data_packet_def seal_def intro!: wf_packet_packet)
  then show ?thesis
    using body by (simp add: data_packet_body seal_residue)
qed

text \<open>C1: a write request for a register and a value in range is built, is 38 bytes long, and parses back
  to the same serial numbers, register and value, and is not an error frame.\<close>

theorem write_request_roundtrip:
  assumes "serial_ok ds" "serial_ok isn" "0 \<le> reg" "reg \<le> 65535" "0 \<le> v" "v \<le> 65535"
  shows "\<exists>pkt f. build_write_request ds isn reg v = Inr pkt \<and> length pkt = 38
     \<and> parse_frame pkt = Inr (Some f) \<and> f_datalog_serial f = ds \<and> f_inverter_serial f = isn
     \<and> f_device_function f = MODBUS_WRITE_SINGLE \<and> f_register f = reg \<and> f_values f = [v]
     \<and> \<not> f_is_error f \<and> f_raw f = pkt"
proof -
  obtain pkt where "build_write_request ds isn reg v = Inr pkt" "length pkt = 38"
    "parse_frame pkt = Inr (Some (data_frame 1 ds 0 6 isn pkt reg [v] 0))"
    using parse_write_request [OF assms(3-6)] .
  then show ?thesis
    using assms(1,2) by (intro exI [of _ pkt] exI) (auto simp: decode_serial_to_bytes MODBUS_WRITE_SINGLE_def)
qed

theorem write_request_roundtrip_witness:
  "\<exists>pkt f. build_write_request ''BA12345678'' ''4434567890'' 67 80 = Inr pkt \<and> length pkt = 38
     \<and> parse_frame pkt = Inr (Some f) \<and> f_datalog_serial f = ''BA12345678'' \<and> f_inverter_serial f = ''4434567890''
     \<and> f_device_function f = MODBUS_WRITE_SINGLE \<and> f_register f = 67 \<and> f_values f = [80]
     \<and> \<not> f_is_error f \<and> f_raw f = pkt"
  using write_request_roundtrip [of "''BA12345678''" "''4434567890''" 67 80]
  by (simp add: serial_ok_def is_ascii_def char_code_def nul_def)

text \<open>C2: a read response carrying any list of at most 127 sixteen-bit values (as many as its count byte
  can announce) parses to exactly those values, with the register and the serial numbers of the frame,
  whatever its two checksum bytes are.\<close>

theorem read_response_parsed:
  assumes "serial_ok ds" "serial_ok isn" "0 \<le> proto" "proto \<le> 65535" "0 \<le> addr" "addr \<le> 255"
    and "func = MODBUS_READ_HOLD \<or> func = MODBUS_READ_INPUT" "0 \<le> reg" "reg \<le> 65535"
    and "length vs \<le> 127" "u16_list vs" "length crc = 2"
  shows "\<exists>f. parse_frame (data_frame_bytes proto ds addr func isn (le16 reg @ read_payload vs crc)) = Inr (Some f)
     \<and> f_datalog_serial f = ds \<and> f_inverter_serial f = isn \<and> f_device_function f = func
     \<and> f_register f = reg \<and> f_values f = vs \<and> \<not> f_is_error f"
proof -
  have "func = 3 \<or> func = 4"
    using assms(7) by (simp add: MODBUS_READ_HOLD_def MODBUS_READ_INPUT_def)
  from parse_read_response [OF assms(3-6) this assms(8-12)] show ?thesis
    using assms(1,2) by (intro exI) (auto simp: decode_serial_to_bytes)
qed

theorem read_response_parsed_witness:
  "\<exists>f. parse_frame (data_frame_bytes 2 ''BA12345678'' 1 MODBUS_READ_INPUT ''4434567890''
        (le16 40 @ read_payload [531, 0, 65535] [0xAB, 0xCD])) = Inr (Some f)
     \<and> f_datalog_serial f = ''BA12345678'' \<and> f_inverter_serial f = ''4434567890'' \<and> f_device_function f = MODBUS_READ_INPUT
     \<and> f_register f = 40 \<and> f_values f = [531, 0, 65535] \<and> \<not> f_is_error f"
  using read_response_parsed [of "''BA12345678''" "''4434567890''" 2 1 MODBUS_READ_INPUT 40 "[531, 0, 65535]" "[0xAB, 0xCD]"]
  by (simp add: serial_ok_def is_ascii_def char_code_def nul_def u16_list_def)

subsection \<open>Streams\<close>

text \<open>The scanner returns on every buffer without raising, and its result cuts the buffer: the frames
  come, in order and without overlap, from slices that are exactly as long as their own length field
  says, and each is what the parser returns on its slice.\<close>

lemma find_frames_cuts: "\<exists>fs. find_frames data = Inr fs \<and> cuts data 0 fs"
  using find_frames_total [of data] find_frames_from_cuts [of data 0] by (auto simp: find_frames_def)

text \<open>C3: a buffer that is a sequence of well-formed packets followed by bytes containing no frame start
  is scanned to exactly the frames of those packets, in order.\<close>

theorem find_frames_stream:
  assumes "list_all wf_packet ps" "0xA1 \<notin> set rest"
  shows "find_frames (concat ps @ rest) = Inr (map (the \<circ> projr \<circ> parse_frame) ps)
     \<and> list_all (\<lambda>p. \<exists>f. parse_frame p = Inr (Some f) \<and> f_raw f = p) ps"
proof
  show "find_frames (concat ps @ rest) = Inr (map (the \<circ> projr \<circ> parse_frame) ps)"
    using find_frames_packets [OF assms(1) find_frames_no_start [OF assms(2)]] by simp
  show "list_all (\<lambda>p. \<exists>f. parse_frame p = Inr (Some f) \<and> f_raw f = p) ps"
    using assms(1) by (fastforce simp: list_all_iff dest: wf_packet_parse intro: parse_frame_raw)
qed

theorem find_frames_stream_witness:
  "find_frames (concat [packet 2 TCP_FUNC_HEARTBEAT ''BA12345678'' [0], packet 2 TCP_FUNC_HEARTBEAT ''CB12345678'' [0]]
      @ [0x1A, 0])
   = Inr (map (the \<circ> projr \<circ> parse_frame)
      [packet 2 TCP_FUNC_HEARTBEAT ''BA12345678'' [0], packet 2 TCP_FUNC_HEARTBEAT ''CB12345678'' [0]])"
  using find_frames_stream [of "[packet 2 TCP_FUNC_HEARTBEAT ''BA12345678'' [0],
      packet 2 TCP_FUNC_HEARTBEAT ''CB12345678'' [0]]" "[0x1A, 0]"]
  by (simp add: wf_packet_packet)

text \<open>The parser does not check the checksum: two data frames that differ only in their last two bytes
  parse to the same frame, the raw bytes apart.\<close>

lemma parse_frame_ignores_checksum:
  assumes "0 \<le> reg" "reg \<le> 65535" "length vs \<le> 127" "u16_list vs" "length crc = 2" "length crc' = 2"
  shows "\<exists>f f'. parse_frame (data_frame_bytes 2 ds 1 MODBUS_READ_HOLD isn (le16 reg @ read_payload vs crc)) = Inr (Some f)
     \<and> parse_frame (data_frame_bytes 2 ds 1 MODBUS_READ_HOLD isn (le16 reg @ read_payload vs crc')) = Inr (Some f')
     \<and> f' = f\<lparr>f_raw := f_raw f'\<rparr> \<and> f_values f' = vs"
proof -
  have p: "parse_frame (data_frame_bytes 2 ds 1 MODBUS_READ_HOLD isn (le16 reg @ read_payload vs c))
     = Inr (Some (data_frame 2 ds 1 3 isn (data_frame_bytes 2 ds 1 3 isn (le16 reg @ read_payload vs c)) reg vs 0))"
    if "length c = 2" for c
    using parse_read_response [of 2 1 3 reg vs c ds isn] assms that by (simp add: MODBUS_READ_HOLD_def)
  show ?thesis
    using p [OF assms(5)] p [OF assms(6)] by (auto simp: data_frame_def new_frame_def)
qed

end
