(* ===== verification/Dongle.thy ===== *)
theory Dongle
  imports Framing
begin

text \<open>
  The persistent dongle connection, \<^verbatim>\<open>src/collector/comm/persistent.py\<close>.

  The network is a parameter: a \<^verbatim>\<open>peer\<close> gives the outcome of each socket call as a function of a
  world state of any type, so that it may be an emulated inverter or an adversary.  Time is counted
  in clock ticks; a \<^verbatim>\<open>recv\<close> call reports how many ticks it took, and takes at least one.  The connection
  record holds the fields of the class that the transactions use, the world, and a ghost log of the
  packets handed to \<^verbatim>\<open>sendall\<close>.  The lock serializes all operations, so each is a function of the state.
\<close>

subsection \<open>The peer and the connection\<close>

datatype probe_outcome = ProbeData | ProbeClosed | ProbeTimeout | ProbeError

datatype recv_outcome = RecvData bytes | RecvClosed | RecvTimeout | RecvError

record 'w peer =
  p_connect :: "'w \<Rightarrow> bool \<times> 'w"
  p_probe :: "'w \<Rightarrow> probe_outcome \<times> 'w"
  p_send :: "bytes \<Rightarrow> 'w \<Rightarrow> bool \<times> 'w"
  p_recv :: "'w \<Rightarrow> recv_outcome \<times> nat \<times> 'w"

record 'w dongle =
  d_datalog_serial :: string
  d_timeout :: nat
  d_max_retries :: nat
  d_sock :: bool
  d_connect_count :: nat
  d_tx_count :: nat
  d_last_resp_sig :: "bytes option"
  d_stale_count :: nat
  d_world :: 'w
  d_sent :: "bytes list"

definition stale_threshold :: nat where
  "stale_threshold = 5"

definition new_dongle :: "string \<Rightarrow> nat \<Rightarrow> nat \<Rightarrow> 'w \<Rightarrow> 'w dongle" where
  "new_dongle serial timeout max_retries w = \<lparr>d_datalog_serial = serial, d_timeout = timeout,
     d_max_retries = max_retries, d_sock = False, d_connect_count = 0, d_tx_count = 0,
     d_last_resp_sig = None, d_stale_count = 0, d_world = w, d_sent = []\<rparr>"

subsection \<open>Connecting\<close>

definition connect :: "'w peer \<Rightarrow> 'w dongle \<Rightarrow> unit result \<times> 'w dongle" where
  "connect p st =
    (let st = st\<lparr>d_sock := False\<rparr> in
     case p_connect p (d_world st) of (ok, w) \<Rightarrow>
       if ok then (Inr (), st\<lparr>d_world := w, d_sock := True, d_connect_count := d_connect_count st + 1\<rparr>)
       else (Inl OSError, st\<lparr>d_world := w\<rparr>))"

definition ensure_connected :: "'w peer \<Rightarrow> 'w dongle \<Rightarrow> unit result \<times> 'w dongle" where
  "ensure_connected p st =
    (if d_sock st then
       (case p_probe p (d_world st) of (r, w) \<Rightarrow>
         (case r of
            ProbeData \<Rightarrow> (Inr (), st\<lparr>d_world := w\<rparr>)
          | ProbeClosed \<Rightarrow> (Inr (), st\<lparr>d_world := w\<rparr>)
          | ProbeTimeout \<Rightarrow> (Inr (), st\<lparr>d_world := w\<rparr>)
          | ProbeError \<Rightarrow> connect p (st\<lparr>d_world := w, d_sock := False\<rparr>)))
     else connect p st)"

subsection \<open>Staleness\<close>

definition note_response :: "bytes \<Rightarrow> 'w dongle \<Rightarrow> 'w dongle" where
  "note_response raw st =
    (if d_last_resp_sig st = Some raw then
       let st = st\<lparr>d_stale_count := d_stale_count st + 1\<rparr> in
       if stale_threshold \<le> d_stale_count st then
         let st = st\<lparr>d_stale_count := 0\<rparr> in
         if d_sock st then st\<lparr>d_sock := False\<rparr> else st
       else st
     else st\<lparr>d_last_resp_sig := Some raw, d_stale_count := 0\<rparr>)"

subsection \<open>Transactions\<close>

text \<open>One receive loop: what ends it, and the connection afterwards.  A chunk is never empty.\<close>

datatype recv_result = Matched frame | Unmatched | SocketError | Raised py_exn

function recv_loop :: "'w peer \<Rightarrow> (frame \<Rightarrow> bool) \<Rightarrow> nat \<Rightarrow> bytes \<Rightarrow> 'w dongle \<Rightarrow> recv_result \<times> 'w dongle" where
  "recv_loop p match remaining buffer st =
    (if remaining = 0 then (Unmatched, st)
     else (case p_recv p (d_world st) of (r, dt, w) \<Rightarrow>
       let st = st\<lparr>d_world := w\<rparr> in
       (case r of
          RecvTimeout \<Rightarrow> (Unmatched, st)
        | RecvError \<Rightarrow> (SocketError, st)
        | RecvClosed \<Rightarrow> (Unmatched, st\<lparr>d_sock := False\<rparr>)
        | RecvData chunk \<Rightarrow>
            if chunk = [] then (Unmatched, st\<lparr>d_sock := False\<rparr>) else
            let buffer = buffer @ chunk in
            (case find_frames buffer of
               Inl e \<Rightarrow> (Raised e, st)
             | Inr frames \<Rightarrow>
                (case find match frames of
                   Some frame \<Rightarrow> (Matched frame, note_response (f_raw frame) st)
                 | None \<Rightarrow> recv_loop p match (remaining - max 1 dt) buffer st)))))"
  by pat_completeness auto

termination
  by (relation "measure (\<lambda>(p, match, remaining, buffer, st). remaining)") auto

declare recv_loop.simps [simp del]

fun transact_attempts :: "nat \<Rightarrow> 'w peer \<Rightarrow> bytes \<Rightarrow> (frame \<Rightarrow> bool) \<Rightarrow> nat \<Rightarrow> 'w dongle \<Rightarrow> frame option result \<times> 'w dongle" where
  "transact_attempts 0 p request match timeout st = (Inr None, st)"
| "transact_attempts (Suc n) p request match timeout st =
    (case ensure_connected p st of
       (Inl e, st) \<Rightarrow> (Inl e, st)
     | (Inr _, st) \<Rightarrow>
        if \<not> d_sock st then transact_attempts n p request match timeout st
        else
          (case p_send p request (d_world st) of (ok, w) \<Rightarrow>
            let st = st\<lparr>d_world := w, d_sent := d_sent st @ [request]\<rparr> in
            if \<not> ok then transact_attempts n p request match timeout (st\<lparr>d_sock := False\<rparr>)
            else
              (case recv_loop p match timeout [] (st\<lparr>d_tx_count := d_tx_count st + 1\<rparr>) of
                 (Matched frame, st) \<Rightarrow> (Inr (Some frame), st)
               | (Raised e, st) \<Rightarrow> (Inl e, st)
               | (SocketError, st) \<Rightarrow> transact_attempts n p request match timeout (st\<lparr>d_sock := False\<rparr>)
               | (Unmatched, st) \<Rightarrow> transact_attempts n p request match timeout st)))"

definition transact :: "'w peer \<Rightarrow> bytes \<Rightarrow> (frame \<Rightarrow> bool) \<Rightarrow> nat option \<Rightarrow> 'w dongle \<Rightarrow> frame option result \<times> 'w dongle" where
  "transact p request match timeout st =
    (let timeout = (case timeout of None \<Rightarrow> d_timeout st | Some t \<Rightarrow> if t = 0 then d_timeout st else t)
     in transact_attempts (d_max_retries st + 1) p request match timeout st)"

subsection \<open>Heartbeat\<close>

text \<open>
  One round of the heartbeat thread, at time \<^verbatim>\<open>now\<close> (in seconds), with the thread's \<^verbatim>\<open>last_rx\<close> variable.
\<close>

definition heartbeat_round :: "'w peer \<Rightarrow> int \<Rightarrow> int \<Rightarrow> 'w dongle \<Rightarrow> (int \<times> 'w dongle) result" where
  "heartbeat_round p now last_rx st =
    (if \<not> d_sock st then Inr (last_rx, st)
     else (case p_probe p (d_world st) of (r, w) \<Rightarrow>
       let st = st\<lparr>d_world := w\<rparr> in
       if r = ProbeError then Inr (last_rx, st\<lparr>d_sock := False\<rparr>)
       else if 120 \<le> now - last_rx then
         bindE (build_heartbeat (d_datalog_serial st)) (\<lambda>hb.
           case p_send p hb (d_world st) of (ok, w) \<Rightarrow>
             let st = st\<lparr>d_world := w, d_sent := d_sent st @ [hb]\<rparr> in
             if ok then Inr (now, st\<lparr>d_tx_count := d_tx_count st + 1\<rparr>)
             else Inr (now, st\<lparr>d_sock := False\<rparr>))
       else Inr (last_rx, st)))"

subsection \<open>The process-wide shared connection\<close>

text \<open>
  The module variable \<^verbatim>\<open>_shared\<close>: its key (host, port and serial numbers), the connection, and
  whether its heartbeat thread was started.  Before the first use the key is absent.
\<close>

type_synonym conn_key = "string \<times> int \<times> string \<times> string"

record 'w shared =
  sh_key :: "conn_key option"
  sh_dongle :: "'w dongle"
  sh_heartbeat :: bool

definition stop_shared :: "'w shared \<Rightarrow> 'w shared" where
  "stop_shared sh = sh\<lparr>sh_heartbeat := False, sh_dongle := (sh_dongle sh)\<lparr>d_sock := False\<rparr>\<rparr>"

definition start_shared :: "'w peer \<Rightarrow> 'w shared \<Rightarrow> unit result \<times> 'w shared" where
  "start_shared p sh = (case connect p (sh_dongle sh) of
     (Inl e, d) \<Rightarrow> (Inl e, sh\<lparr>sh_dongle := d\<rparr>)
   | (Inr _, d) \<Rightarrow> (Inr (), sh\<lparr>sh_dongle := d, sh_heartbeat := True\<rparr>))"

definition get_shared_connection :: "'w peer \<Rightarrow> conn_key \<Rightarrow> nat \<Rightarrow> 'w shared \<Rightarrow> unit result \<times> 'w shared" where
  "get_shared_connection p key timeout sh =
    (if sh_key sh \<noteq> Some key then
       let sh = (if sh_key sh \<noteq> None then stop_shared sh else sh);
           d = (new_dongle (fst (snd (snd key))) timeout 3 (d_world (sh_dongle sh)))\<lparr>d_sent := d_sent (sh_dongle sh)\<rparr>;
           sh = sh\<lparr>sh_key := Some key, sh_dongle := d, sh_heartbeat := False\<rparr>
       in start_shared p sh
     else (Inr (), sh))"

text \<open>What the register primitives do: obtain the shared connection, then run one transaction on it.\<close>

definition link_transact :: "'w peer \<Rightarrow> conn_key \<Rightarrow> nat \<Rightarrow> bytes \<Rightarrow> (frame \<Rightarrow> bool) \<Rightarrow> 'w shared
    \<Rightarrow> frame option result \<times> 'w shared" where
  "link_transact p key timeout request match sh =
    (case get_shared_connection p key timeout sh of
       (Inl e, sh) \<Rightarrow> (Inl e, sh)
     | (Inr _, sh) \<Rightarrow>
        (case transact p request match (Some timeout) (sh_dongle sh) of
           (r, d) \<Rightarrow> (r, sh\<lparr>sh_dongle := d\<rparr>)))"

end
