(* ===== verification/Dongle_Facts.thy ===== *)
theory Dongle_Facts
  imports Dongle
begin

text \<open>
  Behaviour of the persistent connection against any peer: what a transaction can return, what it puts
  on the wire, how often it retries, when the staleness guard reconnects, and the interface
  \<^verbatim>\<open>transactor\<close> through which the register primitives use it.
\<close>

subsection \<open>The receive loop\<close>

lemma note_response_fields [simp]:
  "d_sent (note_response raw st) = d_sent st" "d_world (note_response raw st) = d_world st"
  "d_max_retries (note_response raw st) = d_max_retries st" "d_timeout (note_response raw st) = d_timeout st"
  "d_tx_count (note_response raw st) = d_tx_count st" "d_connect_count (note_response raw st) = d_connect_count st"
  "d_datalog_serial (note_response raw st) = d_datalog_serial st"
  by (simp_all add: note_response_def Let_def)

text \<open>The fields no receive loop and no reconnection touches.\<close>

definition same_config :: "'w dongle \<Rightarrow> 'w dongle \<Rightarrow> bool" where
  "same_config st st' \<longleftrightarrow> d_datalog_serial st' = d_datalog_serial st \<and> d_timeout st' = d_timeout st
     \<and> d_max_retries st' = d_max_retries st"

lemma recv_loop_0 [simp]: "recv_loop p match 0 buffer st = (Unmatched, st)"
  by (simp add: recv_loop.simps)

text \<open>
  A run of the network is the list of its socket calls with their outcomes.  \<^verbatim>\<open>happens p w evs w'\<close>: from
  the world \<^verbatim>\<open>w\<close> the peer gives exactly these outcomes, one after the other, and ends in \<^verbatim>\<open>w'\<close>.
\<close>

datatype net_event = Connects bool | Probes probe_outcome | Sends bytes bool | Receives recv_outcome

fun happens :: "'w peer \<Rightarrow> 'w \<Rightarrow> net_event list \<Rightarrow> 'w \<Rightarrow> bool" where
  "happens p w [] w' \<longleftrightarrow> w' = w"
| "happens p w (Connects ok # evs) w' \<longleftrightarrow> (case p_connect p w of (ok', w1) \<Rightarrow> ok' = ok \<and> happens p w1 evs w')"
| "happens p w (Probes r # evs) w' \<longleftrightarrow> (case p_probe p w of (r', w1) \<Rightarrow> r' = r \<and> happens p w1 evs w')"
| "happens p w (Sends b ok # evs) w' \<longleftrightarrow> (case p_send p b w of (ok', w1) \<Rightarrow> ok' = ok \<and> happens p w1 evs w')"
| "happens p w (Receives r # evs) w' \<longleftrightarrow> (case p_recv p w of (r', dt, w1) \<Rightarrow> r' = r \<and> happens p w1 evs w')"

lemma happens_append:
  "happens p w evs w1 \<Longrightarrow> happens p w1 evs' w2 \<Longrightarrow> happens p w (evs @ evs') w2"
  by (induction p w evs w1 rule: happens.induct) (auto split: prod.splits)

text \<open>What a run put on the wire, how many of its packets were accepted, and its connections.\<close>

fun sent_packets :: "net_event list \<Rightarrow> bytes list" where
  "sent_packets [] = []"
| "sent_packets (Sends b ok # evs) = b # sent_packets evs"
| "sent_packets (_ # evs) = sent_packets evs"

fun accepted_packets :: "net_event list \<Rightarrow> nat" where
  "accepted_packets [] = 0"
| "accepted_packets (Sends b True # evs) = Suc (accepted_packets evs)"
| "accepted_packets (_ # evs) = accepted_packets evs"

fun connections :: "net_event list \<Rightarrow> nat" where
  "connections [] = 0"
| "connections (Connects True # evs) = Suc (connections evs)"
| "connections (_ # evs) = connections evs"

lemma run_counts_append [simp]:
  "sent_packets (evs @ evs') = sent_packets evs @ sent_packets evs'"
  "accepted_packets (evs @ evs') = accepted_packets evs + accepted_packets evs'"
  "connections (evs @ evs') = connections evs + connections evs'"
proof -
  show "sent_packets (evs @ evs') = sent_packets evs @ sent_packets evs'"
    by (induction evs rule: sent_packets.induct) simp_all
  show "accepted_packets (evs @ evs') = accepted_packets evs + accepted_packets evs'"
    by (induction evs rule: accepted_packets.induct) simp_all
  show "connections (evs @ evs') = connections evs + connections evs'"
    by (induction evs rule: connections.induct) simp_all
qed

lemma run_counts_receives [simp]:
  "sent_packets (map Receives outs) = []" "accepted_packets (map Receives outs) = 0"
  "connections (map Receives outs) = 0"
  by (induction outs) simp_all

text \<open>
  The frame is the first one the caller accepts in the chunks received: the bytes that arrived before
  the last chunk hold none.
\<close>

definition first_match :: "bytes \<Rightarrow> (frame \<Rightarrow> bool) \<Rightarrow> bytes list \<Rightarrow> frame \<Rightarrow> bool" where
  "first_match buffer match chunks f \<longleftrightarrow>
     (\<exists>fs. find_frames (buffer @ concat chunks) = Inr fs \<and> find match fs = Some f)
     \<and> (\<forall>k fs. 0 < k \<and> k < length chunks \<and> find_frames (buffer @ concat (take k chunks)) = Inr fs
          \<longrightarrow> find match fs = None)"

lemma first_match_one:
  "find_frames (buffer @ chunk) = Inr fs \<Longrightarrow> find match fs = Some f \<Longrightarrow> first_match buffer match [chunk] f"
  by (simp add: first_match_def)

lemma first_match_Cons:
  assumes "find_frames (buffer @ chunk) = Inr fs" and "find match fs = None"
    and "first_match (buffer @ chunk) match chunks f"
  shows "first_match buffer match (chunk # chunks) f"
proof -
  have none: "find match gs = None"
    if "0 < k" "k < Suc (length chunks)" "find_frames (buffer @ concat (take k (chunk # chunks))) = Inr gs" for k gs
  proof (cases "k = 1")
    case True
    then show ?thesis
      using that(3) assms(1,2) by simp
  next
    case False
    then have "k = Suc (k - 1)" "0 < k - 1"
      using that(1) by simp_all
    then show ?thesis
      using that(2,3) assms(3) by (cases k) (simp_all add: first_match_def)
  qed
  show ?thesis
    unfolding first_match_def
  proof (intro conjI allI impI)
    show "\<exists>fs. find_frames (buffer @ concat (chunk # chunks)) = Inr fs \<and> find match fs = Some f"
      using assms(3) by (simp add: first_match_def)
  next
    fix k gs
    assume k: "0 < k \<and> k < length (chunk # chunks) \<and> find_frames (buffer @ concat (take k (chunk # chunks))) = Inr gs"
    show "find match gs = None"
      by (rule none [of k]) (use k in simp_all)
  qed
qed

lemma first_match_sound: "first_match buffer match chunks f \<Longrightarrow> match f"
  by (auto simp: first_match_def find_Some_iff)

text \<open>What a receive loop does: it only receives, and the frame it returns was received.\<close>

definition loop_ok :: "'w peer \<Rightarrow> (frame \<Rightarrow> bool) \<Rightarrow> bytes \<Rightarrow> 'w dongle \<Rightarrow> recv_result \<Rightarrow> 'w dongle \<Rightarrow> bool" where
  "loop_ok p match buffer st res st' \<longleftrightarrow>
     (\<exists>outs. happens p (d_world st) (map Receives outs) (d_world st')
        \<and> (\<forall>f. res = Matched f \<longrightarrow> (\<exists>chunks. outs = map RecvData chunks \<and> first_match buffer match chunks f)))
     \<and> (\<forall>e. res \<noteq> Raised e) \<and> d_sent st' = d_sent st \<and> d_tx_count st' = d_tx_count st
     \<and> d_connect_count st' = d_connect_count st \<and> same_config st st'"

lemma loop_okI:
  assumes "happens p (d_world st) (map Receives outs) (d_world st')"
    and "\<And>f. res = Matched f \<Longrightarrow> \<exists>chunks. outs = map RecvData chunks \<and> first_match buffer match chunks f"
    and "\<And>e. res \<noteq> Raised e" "d_sent st' = d_sent st" "d_tx_count st' = d_tx_count st"
    and "d_connect_count st' = d_connect_count st" "same_config st st'"
  shows "loop_ok p match buffer st res st'"
  using assms unfolding loop_ok_def by blast

lemma recv_loop_ok:
  "recv_loop p match remaining buffer st = (res, st') \<Longrightarrow> loop_ok p match buffer st res st'"
proof (induction p match remaining buffer st arbitrary: res st' rule: recv_loop.induct)
  case (1 p match remaining buffer st)
  show ?case
  proof (cases "remaining = 0")
    case True
    with 1(2) show ?thesis
      by (intro loop_okI [where outs = "[]"]) (auto simp: same_config_def)
  next
    case False
    obtain r dt w where r: "p_recv p (d_world st) = (r, dt, w)"
      by (metis prod_cases3)
    have one: "happens p (d_world st) (map Receives [r]) w"
      using r by simp
    have stop: "loop_ok p match buffer st res st'"
      if "d_world st' = w" "\<And>f. res = Matched f \<Longrightarrow> \<exists>chunk. r = RecvData chunk \<and> first_match buffer match [chunk] f"
        "\<And>e. res \<noteq> Raised e" "d_sent st' = d_sent st" "d_tx_count st' = d_tx_count st"
        "d_connect_count st' = d_connect_count st" "same_config st st'"
    proof (rule loop_okI [where outs = "[r]"])
      show "\<exists>chunks. [r] = map RecvData chunks \<and> first_match buffer match chunks f" if "res = Matched f" for f
        using \<open>\<And>f. res = Matched f \<Longrightarrow> \<exists>chunk. r = RecvData chunk \<and> first_match buffer match [chunk] f\<close> [OF that]
        by (metis list.simps(8,9))
    qed (use that one in auto)
    show ?thesis
    proof (cases r)
      case (RecvData chunk)
      show ?thesis
      proof (cases "chunk = []")
        case True
        with 1(2) False r RecvData show ?thesis
          by (intro stop) (subst (asm) recv_loop.simps, auto simp: Let_def same_config_def)+
      next
        case chunk: False
        obtain fs where fs: "find_frames (buffer @ chunk) = Inr fs"
          using find_frames_total by blast
        show ?thesis
        proof (cases "find match fs")
          case None
          have "recv_loop p match remaining buffer st
              = recv_loop p match (remaining - max 1 dt) (buffer @ chunk) (st\<lparr>d_world := w\<rparr>)"
            using False r RecvData chunk fs None by (subst recv_loop.simps) (simp add: Let_def)
          then have "recv_loop p match (remaining - max 1 dt) (buffer @ chunk) (st\<lparr>d_world := w\<rparr>) = (res, st')"
            using 1(2) by simp
          from 1(1) [OF False r [symmetric] refl refl RecvData chunk refl fs None this]
          have ih: "loop_ok p match (buffer @ chunk) (st\<lparr>d_world := w\<rparr>) res st'" .
          then obtain outs where outs: "happens p w (map Receives outs) (d_world st')"
            "\<And>f. res = Matched f \<Longrightarrow> \<exists>chunks. outs = map RecvData chunks \<and> first_match (buffer @ chunk) match chunks f"
            unfolding loop_ok_def by auto
          show ?thesis
          proof (rule loop_okI [where outs = "RecvData chunk # outs"])
            show "happens p (d_world st) (map Receives (RecvData chunk # outs)) (d_world st')"
              using outs(1) r RecvData by simp
            show "\<exists>chunks. RecvData chunk # outs = map RecvData chunks \<and> first_match buffer match chunks f"
              if "res = Matched f" for f
              using outs(2) [OF that] first_match_Cons [OF fs None] by (metis list.simps(9))
          qed (use ih in \<open>auto simp: loop_ok_def same_config_def\<close>)
        next
          case (Some f)
          have "recv_loop p match remaining buffer st = (Matched f, note_response (f_raw f) (st\<lparr>d_world := w\<rparr>))"
            using False r RecvData chunk fs Some by (subst recv_loop.simps) (simp add: Let_def)
          then show ?thesis
            using 1(2) RecvData first_match_one [OF fs Some] by (intro stop) (auto simp: same_config_def)
        qed
      qed
    qed (use 1(2) False r in \<open>intro stop; subst (asm) recv_loop.simps; auto simp: Let_def same_config_def\<close>)+
  qed
qed

lemma connect_props:
  "connect p st = (r, st') \<Longrightarrow> d_sent st' = d_sent st \<and> d_tx_count st' = d_tx_count st
     \<and> d_connect_count st' = d_connect_count st + (if r = Inr () then 1 else 0)
     \<and> (r = Inr () \<or> r = Inl OSError) \<and> (d_sock st' \<longleftrightarrow> r = Inr ()) \<and> same_config st st'
     \<and> happens p (d_world st) [Connects (r = Inr ())] (d_world st')"
  by (auto simp: connect_def Let_def same_config_def split: prod.splits if_splits)

lemma ensure_connected_props:
  assumes "ensure_connected p st = (r, st')"
  shows "d_sent st' = d_sent st \<and> d_tx_count st' = d_tx_count st
     \<and> d_connect_count st' \<le> d_connect_count st + 1
     \<and> (r = Inr () \<or> r = Inl OSError) \<and> (d_sock st' \<longleftrightarrow> r = Inr ()) \<and> same_config st st'
     \<and> (\<exists>evs. happens p (d_world st) evs (d_world st') \<and> sent_packets evs = [] \<and> accepted_packets evs = 0
          \<and> d_connect_count st' = d_connect_count st + connections evs)"
proof (cases "d_sock st")
  case False
  then have c: "connect p st = (r, st')"
    using assms by (simp add: ensure_connected_def)
  from connect_props [OF c] show ?thesis
    by (intro conjI exI [of _ "[Connects (r = Inr ())]"]) auto
next
  case True
  obtain pr w where pr: "p_probe p (d_world st) = (pr, w)"
    by fastforce
  show ?thesis
  proof (cases "pr = ProbeError")
    case False
    then have "r = Inr ()" "st' = st\<lparr>d_world := w\<rparr>"
      using assms True pr by (auto simp: ensure_connected_def split: probe_outcome.splits)
    then show ?thesis
      using True pr by (intro conjI exI [of _ "[Probes pr]"]) (auto simp: same_config_def)
  next
    case err: True
    then have "connect p (st\<lparr>d_world := w, d_sock := False\<rparr>) = (r, st')"
      using assms True pr by (simp add: ensure_connected_def)
    from connect_props [OF this] show ?thesis
      using pr err by (intro conjI exI [of _ "[Probes ProbeError, Connects (r = Inr ())]"]) (auto simp: same_config_def)
  qed
qed

subsection \<open>Transactions\<close>

text \<open>
  A frame answers a request in a run: the run ends with the request accepted by the socket and then
  chunks of data only, and the frame is the first one the caller accepts in these chunks.  Nothing
  that was received before the request, and nothing that was sent, counts.
\<close>

definition answered :: "bytes \<Rightarrow> (frame \<Rightarrow> bool) \<Rightarrow> net_event list \<Rightarrow> frame \<Rightarrow> bool" where
  "answered request match evs f \<longleftrightarrow>
     (\<exists>before chunks. evs = before @ Sends request True # map (Receives \<circ> RecvData) chunks
        \<and> first_match [] match chunks f)"

lemma answered_append: "answered request match evs f \<Longrightarrow> answered request match (evs' @ evs) f"
  unfolding answered_def by (metis append_assoc)

lemma answered_sound: "answered request match evs f \<Longrightarrow> match f"
  unfolding answered_def by (blast dest: first_match_sound)

text \<open>
  What a transaction may do, as the run of its socket calls: the packets on the wire are copies of the
  request, one per attempt at most; a frame that is returned answers the request in this run.
\<close>

definition transaction_ok :: "nat \<Rightarrow> 'w peer \<Rightarrow> bytes \<Rightarrow> (frame \<Rightarrow> bool) \<Rightarrow> 'w dongle \<Rightarrow> frame option result \<Rightarrow> 'w dongle \<Rightarrow> bool" where
  "transaction_ok n p request match st r st' \<longleftrightarrow>
     (\<exists>evs k. happens p (d_world st) evs (d_world st')
        \<and> k \<le> n \<and> sent_packets evs = replicate k request \<and> d_sent st' = d_sent st @ sent_packets evs
        \<and> d_tx_count st' = d_tx_count st + accepted_packets evs
        \<and> d_connect_count st' = d_connect_count st + connections evs \<and> connections evs \<le> n
        \<and> (\<forall>f. r = Inr (Some f) \<longrightarrow> answered request match evs f))
     \<and> (\<forall>e. r = Inl e \<longrightarrow> e = OSError) \<and> same_config st st'"

lemma transaction_okI:
  assumes "happens p (d_world st) evs (d_world st')" "k \<le> n" "sent_packets evs = replicate k request"
    and "d_sent st' = d_sent st @ sent_packets evs" "d_tx_count st' = d_tx_count st + accepted_packets evs"
    and "d_connect_count st' = d_connect_count st + connections evs" "connections evs \<le> n"
    and "\<And>f. r = Inr (Some f) \<Longrightarrow> answered request match evs f"
    and "\<And>e. r = Inl e \<Longrightarrow> e = OSError" "same_config st st'"
  shows "transaction_ok n p request match st r st'"
  unfolding transaction_ok_def using assms by blast

lemma transaction_okE:
  assumes "transaction_ok n p request match st r st'"
  obtains evs k where "happens p (d_world st) evs (d_world st')" "k \<le> n" "sent_packets evs = replicate k request"
    "d_sent st' = d_sent st @ sent_packets evs" "d_tx_count st' = d_tx_count st + accepted_packets evs"
    "d_connect_count st' = d_connect_count st + connections evs" "connections evs \<le> n"
    "\<And>f. r = Inr (Some f) \<Longrightarrow> answered request match evs f"
    "\<And>e. r = Inl e \<Longrightarrow> e = OSError" "same_config st st'"
  using assms unfolding transaction_ok_def by blast

lemma same_config_trans: "same_config a b \<Longrightarrow> same_config b c \<Longrightarrow> same_config a c"
  by (simp add: same_config_def)

text \<open>One attempt that did not answer, followed by the remaining ones.\<close>

lemma transaction_ok_step:
  assumes "transaction_ok n p request match st1 r st'" and "same_config st st1"
    and "happens p (d_world st) evs (d_world st1)" "sent_packets evs = replicate j request" "j \<le> 1"
    and "d_sent st1 = d_sent st @ sent_packets evs" "d_tx_count st1 = d_tx_count st + accepted_packets evs"
    and "d_connect_count st1 = d_connect_count st + connections evs" "connections evs \<le> 1"
  shows "transaction_ok (Suc n) p request match st r st'"
  using assms(1)
proof (rule transaction_okE)
  fix evs2 k
  assume h: "happens p (d_world st1) evs2 (d_world st')" "k \<le> n" "sent_packets evs2 = replicate k request"
    "d_sent st' = d_sent st1 @ sent_packets evs2" "d_tx_count st' = d_tx_count st1 + accepted_packets evs2"
    "d_connect_count st' = d_connect_count st1 + connections evs2" "connections evs2 \<le> n"
    "\<And>f. r = Inr (Some f) \<Longrightarrow> answered request match evs2 f"
    "\<And>e. r = Inl e \<Longrightarrow> e = OSError" "same_config st1 st'"
  show ?thesis
  proof (rule transaction_okI [where evs = "evs @ evs2" and k = "j + k"])
    show "happens p (d_world st) (evs @ evs2) (d_world st')"
      using assms(3) h(1) by (rule happens_append)
    show "sent_packets (evs @ evs2) = replicate (j + k) request"
      using assms(4) h(3) by (simp add: replicate_add)
    show "answered request match (evs @ evs2) f" if "r = Inr (Some f)" for f
      using h(8) [OF that] by (rule answered_append)
    show "e = OSError" if "r = Inl e" for e
      using h(9) that .
    show "same_config st st'"
      using assms(2) h(10) by (rule same_config_trans)
  qed (use h assms in simp_all)
qed

lemma transact_attempts_ok:
  "transact_attempts n p request match timeout st = (r, st') \<Longrightarrow> transaction_ok n p request match st r st'"
proof (induction n p request match timeout st arbitrary: r st' rule: transact_attempts.induct)
  case (1 p request match timeout st)
  then show ?case
    by (intro transaction_okI [where evs = "[]" and k = 0]) (auto simp: same_config_def)
next
  case (2 n p request match timeout st)
  obtain rc st1 where ec: "ensure_connected p st = (rc, st1)"
    by fastforce
  obtain evs1 where ep: "happens p (d_world st) evs1 (d_world st1)" "sent_packets evs1 = []" "accepted_packets evs1 = 0"
    "d_connect_count st1 = d_connect_count st + connections evs1" "connections evs1 \<le> 1"
    "d_sent st1 = d_sent st" "d_tx_count st1 = d_tx_count st" "same_config st st1"
    "rc = Inr () \<or> rc = Inl OSError" "d_sock st1 \<longleftrightarrow> rc = Inr ()"
    using ensure_connected_props [OF ec] by auto
  show ?case
  proof (cases rc)
    case (Inl e)
    then have "r = Inl e" "st' = st1"
      using 2(5) ec by simp_all
    with ep Inl show ?thesis
      by (intro transaction_okI [where evs = evs1 and k = 0]) auto
  next
    case (Inr u)
    then have sock: "d_sock st1"
      using ep by simp
    obtain ok w where snd: "p_send p request (d_world st1) = (ok, w)"
      by fastforce
    define st2 where "st2 = st1\<lparr>d_world := w, d_sent := d_sent st1 @ [request]\<rparr>"
    have ev2: "happens p (d_world st) (evs1 @ [Sends request ok]) w"
      using ep(1) snd by (auto intro: happens_append)
    show ?thesis
    proof (cases ok)
      case False
      have tr: "transact_attempts n p request match timeout (st2\<lparr>d_sock := False\<rparr>) = (r, st')"
        using 2(5) ec Inr sock snd False by (simp add: Let_def flip: st2_def)
      have "transaction_ok n p request match (st2\<lparr>d_sock := False\<rparr>) r st'"
        using 2(2) ec Inr sock snd False tr by (simp add: st2_def)
      then show ?thesis
        by (rule transaction_ok_step [where j = 1 and evs = "evs1 @ [Sends request False]"])
          (use ev2 ep False in \<open>auto simp: st2_def same_config_def\<close>)
    next
      case True
      have tx: "d_tx_count st2 = d_tx_count st1"
        by (simp add: st2_def)
      define st3 where "st3 = st2\<lparr>d_tx_count := d_tx_count st2 + 1\<rparr>"
      obtain rr st4 where rl: "recv_loop p match timeout [] st3 = (rr, st4)"
        by fastforce
      have lo: "loop_ok p match [] st3 rr st4"
        using rl by (rule recv_loop_ok)
      then obtain outs where outs: "happens p w (map Receives outs) (d_world st4)"
        "\<And>f. rr = Matched f \<Longrightarrow> \<exists>chunks. outs = map RecvData chunks \<and> first_match [] match chunks f"
        unfolding loop_ok_def by (auto simp: st3_def st2_def)
      define evs where "evs = evs1 @ Sends request True # map Receives outs"
      have run: "happens p (d_world st) evs (d_world st4)"
        using happens_append [OF ev2 outs(1)] True by (simp add: evs_def)
      have st4: "sent_packets evs = replicate 1 request" "d_sent st4 = d_sent st @ sent_packets evs"
        "d_tx_count st4 = d_tx_count st + accepted_packets evs"
        "d_connect_count st4 = d_connect_count st + connections evs" "connections evs \<le> 1" "same_config st st4"
        using ep lo by (auto simp: st3_def st2_def evs_def loop_ok_def same_config_def)
      have body: "transact_attempts (Suc n) p request match timeout st =
        (case (rr, st4) of
                 (Matched frame, st) \<Rightarrow> (Inr (Some frame), st)
               | (Raised e, st) \<Rightarrow> (Inl e, st)
               | (SocketError, st) \<Rightarrow> transact_attempts n p request match timeout (st\<lparr>d_sock := False\<rparr>)
               | (Unmatched, st) \<Rightarrow> transact_attempts n p request match timeout st)"
        using ec Inr sock snd True rl [unfolded st3_def] tx by (simp add: Let_def flip: st2_def)
      show ?thesis
      proof (cases rr)
        case (Matched f)
        then have "r = Inr (Some f)" "st' = st4"
          using 2(5) body by simp_all
        moreover have "answered request match evs f"
          using outs(2) [OF Matched] unfolding answered_def evs_def by (metis list.map_comp)
        ultimately show ?thesis
          using run st4 by (intro transaction_okI [where evs = evs and k = 1]) auto
      next
        case Unmatched
        then have "transact_attempts n p request match timeout st4 = (r, st')"
          using 2(5) body by simp
        then have "transaction_ok n p request match st4 r st'"
          using 2(3) ec Inr sock snd True rl Unmatched by (simp add: st3_def st2_def)
        then show ?thesis
          by (rule transaction_ok_step [where j = 1 and evs = evs]) (use run st4 in auto)
      next
        case SocketError
        then have "transact_attempts n p request match timeout (st4\<lparr>d_sock := False\<rparr>) = (r, st')"
          using 2(5) body by simp
        then have "transaction_ok n p request match (st4\<lparr>d_sock := False\<rparr>) r st'"
          using 2(4) ec Inr sock snd True rl SocketError by (simp add: st3_def st2_def)
        then show ?thesis
          by (rule transaction_ok_step [where j = 1 and evs = evs]) (use run st4 in \<open>auto simp: same_config_def\<close>)
      next
        case (Raised e)
        with lo show ?thesis
          by (simp add: loop_ok_def)
      qed
    qed
  qed
qed

lemma transact_ok: "transact p request match timeout st = (r, st')
    \<Longrightarrow> transaction_ok (d_max_retries st + 1) p request match st r st'"
  unfolding transact_def Let_def by (rule transact_attempts_ok)

subsection \<open>The interface to the register primitives\<close>

text \<open>
  What a client of a link may rely on: a frame that is returned satisfies the client's predicate, and
  nothing but copies of the client's request is sent.  The laws are proved once for the persistent
  connection; the register primitives and the automation engine are verified from them.
\<close>

locale transactor =
  fixes tr :: "bytes \<Rightarrow> (frame \<Rightarrow> bool) \<Rightarrow> 's \<Rightarrow> frame option result \<times> 's"
  assumes tr_match: "tr request match s = (Inr (Some f), s') \<Longrightarrow> match f"

locale logged_transactor = transactor tr
  for tr :: "bytes \<Rightarrow> (frame \<Rightarrow> bool) \<Rightarrow> 's \<Rightarrow> frame option result \<times> 's" +
  fixes sent :: "'s \<Rightarrow> bytes list"
  assumes tr_sent: "tr request match s = (r, s') \<Longrightarrow> \<exists>k. sent s' = sent s @ replicate k request"

lemma get_shared_sent: "get_shared_connection p key timeout sh = (r, sh') \<Longrightarrow>
    d_sent (sh_dongle sh') = d_sent (sh_dongle sh)"
  by (auto simp: get_shared_connection_def Let_def start_shared_def new_dongle_def stop_shared_def
      split: prod.splits sum.splits if_splits dest!: connect_props)

lemma transaction_ok_match: "transaction_ok n p request match st (Inr (Some f)) st' \<Longrightarrow> match f"
  by (auto elim!: transaction_okE dest: answered_sound)

lemma transaction_ok_sent:
  "transaction_ok n p request match st r st' \<Longrightarrow> \<exists>k. d_sent st' = d_sent st @ replicate k request"
  by (erule transaction_okE) metis

interpretation link: logged_transactor "link_transact p key timeout" "\<lambda>sh. d_sent (sh_dongle sh)"
  for p key timeout
proof unfold_locales
  show "match f" if "link_transact p key timeout request match s = (Inr (Some f), s')" for request match s f s'
    using that by (auto simp: link_transact_def split: prod.splits sum.splits dest!: transact_ok transaction_ok_match)
  show "\<exists>k. d_sent (sh_dongle s') = d_sent (sh_dongle s) @ replicate k request"
    if "link_transact p key timeout request match s = (r, s')" for request match s r s'
  proof -
    obtain g s1 where g: "get_shared_connection p key timeout s = (g, s1)"
      by fastforce
    obtain r2 d where t: "transact p request match (Some timeout) (sh_dongle s1) = (r2, d)"
      by fastforce
    show ?thesis
    proof (cases g)
      case (Inl e)
      with that g get_shared_sent [OF g] show ?thesis
        by (auto simp: link_transact_def intro: exI [of _ 0])
    next
      case (Inr u)
      then have "s' = s1\<lparr>sh_dongle := d\<rparr>"
        using that g t by (simp add: link_transact_def)
      with transaction_ok_sent [OF transact_ok [OF t]] get_shared_sent [OF g] show ?thesis
        by simp
    qed
  qed
qed

subsection \<open>Properties\<close>

text \<open>C5: against any peer, a transaction is a run of the peer's socket calls that puts nothing on the wire
  but at most max_retries + 1 copies of the request and connects at most once per attempt.  A frame it
  returns was received in answer: the run ends with a copy of the request that the socket accepted and
  the data chunks received after it, and the frame is the first one in exactly these bytes, cut out by
  the frame scanner, that satisfies the caller's predicate.  The only exception raised is OSError.\<close>

theorem transact_safe:
  "case transact p request match timeout st of (r, st') \<Rightarrow>
     transaction_ok (d_max_retries st + 1) p request match st r st'"
proof -
  obtain r st' where e: "transact p request match timeout st = (r, st')"
    by fastforce
  from transact_ok [OF e] show ?thesis
    unfolding e prod.case .
qed

text \<open>When the connection is down and the connection attempt fails, a transaction raises OSError at
  once: it neither sends the request nor retries, whatever max_retries is.\<close>

lemma transact_connect_failure:
  assumes "\<not> d_sock st" and "p_connect p (d_world st) = (False, w)"
  shows "transact p request match timeout st = (Inl OSError, st\<lparr>d_world := w, d_sock := False\<rparr>)"
  using assms by (simp add: transact_def ensure_connected_def connect_def)

definition unreachable_peer :: "nat peer" where
  "unreachable_peer = \<lparr>p_connect = (\<lambda>n. (False, n + 1)), p_probe = (\<lambda>n. (ProbeError, n)),
     p_send = (\<lambda>_ n. (False, n)), p_recv = (\<lambda>n. (RecvError, 1, n))\<rparr>"

text \<open>The staleness guard tolerates five identical responses in a row and closes the connection on
  the sixth, resetting its counter.\<close>

lemma staleness_guard:
  assumes "d_sock st" and "d_last_resp_sig st \<noteq> Some raw" and "n \<le> 5"
  shows "(note_response raw ^^ Suc n) st =
     (if n < 5 then st\<lparr>d_last_resp_sig := Some raw, d_stale_count := n\<rparr>
      else st\<lparr>d_last_resp_sig := Some raw, d_stale_count := 0, d_sock := False\<rparr>)"
  using assms(3)
proof (induction n)
  case 0
  then show ?case
    using assms(2) by (simp add: note_response_def)
next
  case (Suc n)
  then have "(note_response raw ^^ Suc n) st = st\<lparr>d_last_resp_sig := Some raw, d_stale_count := n\<rparr>"
    by simp
  moreover have "(note_response raw ^^ Suc (Suc n)) st = note_response raw ((note_response raw ^^ Suc n) st)"
    by simp
  ultimately have "(note_response raw ^^ Suc (Suc n)) st
      = note_response raw (st\<lparr>d_last_resp_sig := Some raw, d_stale_count := n\<rparr>)"
    by (simp only:)
  moreover have "note_response raw (st\<lparr>d_last_resp_sig := Some raw, d_stale_count := n\<rparr>) =
     (if Suc n < 5 then st\<lparr>d_last_resp_sig := Some raw, d_stale_count := Suc n\<rparr>
      else st\<lparr>d_last_resp_sig := Some raw, d_stale_count := 0, d_sock := False\<rparr>)"
    using Suc.prems assms(1) by (simp add: note_response_def Let_def stale_threshold_def)
  ultimately show ?case
    by (rule trans)
qed

text \<open>The heartbeat thread's time of last reception is not moved by received data: with data waiting
  in the socket, a round less than 120 seconds after the thread's last heartbeat changes nothing but
  the world, and a round 120 seconds or later sends a heartbeat although data was just received.\<close>

lemma heartbeat_ignores_traffic:
  assumes "d_sock st" and "p_probe p (d_world st) = (ProbeData, w)"
  shows "if now - last_rx < 120 then heartbeat_round p now last_rx st = Inr (last_rx, st\<lparr>d_world := w\<rparr>)
    else \<exists>st'. heartbeat_round p now last_rx st = Inr (now, st')
       \<and> d_sent st' = d_sent st @ [packet 2 TCP_FUNC_HEARTBEAT (d_datalog_serial st) [0]]"
  using assms by (auto simp: heartbeat_round_def Let_def build_heartbeat_packet split: prod.split)

definition chatty_peer :: "unit peer" where
  "chatty_peer = \<lparr>p_connect = (\<lambda>n. (True, n)), p_probe = (\<lambda>n. (ProbeData, n)),
     p_send = (\<lambda>_ n. (True, n)), p_recv = (\<lambda>n. (RecvData [0], 1, n))\<rparr>"

end
