(* ===== verification/Binary64.thy ===== *)
theory Binary64
  imports Prelude
begin

text \<open>
  Python's \<^verbatim>\<open>float\<close>: IEEE 754 binary64 with round-to-nearest, ties to even.

  A finite float is the rational number it denotes; \<^verbatim>\<open>fl\<close> rounds a rational to 53 significant
  bits, with gradual underflow at exponent -1074, and \<^verbatim>\<open>dbl\<close> adds the overflow to the infinities at
  2 to the power 1024.  The sign of zero is not represented: nothing the program computes
  from a float distinguishes the two zeros.  A decimal literal of the source such as \<^verbatim>\<open>0.1\<close> is
  \<^verbatim>\<open>dbl (1 / 10)\<close>.  The lemmas give what the rest of the development needs: rounding is odd,
  monotone, exact on integers up to 2 to the 53, and has relative error at most 2 to the -53.
\<close>

subsection \<open>Powers of two and the binade of a rational\<close>

definition pow2 :: "int \<Rightarrow> rat" where
  "pow2 e = (if 0 \<le> e then 2 ^ nat e else 1 / 2 ^ nat (- e))"

fun ilog2 :: "nat \<Rightarrow> nat" where
  "ilog2 n = (if n < 2 then 0 else Suc (ilog2 (n div 2)))"

declare ilog2.simps [simp del]

definition binade :: "rat \<Rightarrow> int" where
  "binade x = (case quotient_of \<bar>x\<bar> of (n, d) \<Rightarrow>
     let e = int (ilog2 (nat n)) - int (ilog2 (nat d))
     in if pow2 e \<le> \<bar>x\<bar> then e else e - 1)"

definition round_half_even :: "rat \<Rightarrow> int" where
  "round_half_even x = (let f = \<lfloor>x\<rfloor>; r = x - of_int f
     in if r < 1 / 2 then f else if 1 / 2 < r then f + 1 else if even f then f else f + 1)"

definition ulp_expo :: "rat \<Rightarrow> int" where
  "ulp_expo x = max (binade x - 52) (- 1074)"

definition fl :: "rat \<Rightarrow> rat" where
  "fl x = (if x = 0 then 0
     else of_int (round_half_even (x / pow2 (ulp_expo x))) * pow2 (ulp_expo x))"

lemma pow2_pos [simp]: "0 < pow2 e" "0 \<le> pow2 e" "pow2 e \<noteq> 0"
  by (simp_all add: pow2_def)

lemma pow2_powi: "pow2 e = 2 powi e"
  by (simp add: pow2_def power_int_def field_simps)

lemma pow2_add: "pow2 (a + b) = pow2 a * pow2 b"
  by (simp add: pow2_powi power_int_add)

lemma pow2_diff: "pow2 (a - b) = pow2 a / pow2 b"
  by (simp add: pow2_powi power_int_diff)

lemma pow2_mono: "a \<le> b \<Longrightarrow> pow2 a \<le> pow2 b"
  by (simp add: pow2_powi power_int_increasing)

lemma pow2_strict: "a < b \<Longrightarrow> pow2 a < pow2 b"
  by (simp add: pow2_powi power_int_strict_increasing)

lemma pow2_less_iff: "pow2 a < pow2 b \<longleftrightarrow> a < b"
  by (meson linorder_not_le pow2_mono pow2_strict)

lemma pow2_nat: "pow2 (int n) = 2 ^ n"
  by (simp add: pow2_def)

lemma pow2_add1: "pow2 (e + 1) = 2 * pow2 e"
  by (simp add: pow2_add) (simp add: pow2_def)

lemma ilog2_bounds: "0 < n \<Longrightarrow> 2 ^ ilog2 n \<le> n \<and> n < 2 * 2 ^ ilog2 n"
proof (induction n rule: ilog2.induct)
  case (1 n)
  show ?case
  proof (cases "n < 2")
    case True
    with 1 show ?thesis
      by (simp add: ilog2.simps)
  next
    case False
    then have "2 ^ ilog2 (n div 2) \<le> n div 2 \<and> n div 2 < 2 * 2 ^ ilog2 (n div 2)"
      using 1 by simp
    with False show ?thesis
      by (subst (1 2) ilog2.simps) auto
  qed
qed

lemma binade_bounds:
  assumes "x \<noteq> 0"
  shows "pow2 (binade x) \<le> \<bar>x\<bar>" and "\<bar>x\<bar> < pow2 (binade x + 1)"
proof -
  obtain n d where q: "quotient_of \<bar>x\<bar> = (n, d)"
    by fastforce
  then have d: "0 < d" and x: "\<bar>x\<bar> = of_int n / of_int d"
    using quotient_of_denom_pos quotient_of_div by blast+
  have n: "0 < n"
  proof -
    have "0 < (of_int n / of_int d :: rat)"
      using assms x by (metis zero_less_abs_iff)
    with d show ?thesis
      by (simp add: zero_less_divide_iff)
  qed
  define a b where "a = ilog2 (nat n)" and "b = ilog2 (nat d)"
  have "2 ^ a \<le> nat n \<and> nat n < 2 * 2 ^ a" "2 ^ b \<le> nat d \<and> nat d < 2 * 2 ^ b"
    using ilog2_bounds [of "nat n"] ilog2_bounds [of "nat d"] n d by (simp_all add: a_def b_def)
  then have "2 ^ a \<le> n \<and> n < 2 * 2 ^ a" "2 ^ b \<le> d \<and> d < 2 * 2 ^ b"
    using n d by (simp_all add: nat_le_iff le_nat_iff nat_less_iff zless_nat_eq_int_zless)
  then have "of_int (2 ^ a) \<le> (of_int n :: rat)" "(of_int n :: rat) < of_int (2 * 2 ^ a)"
    and "of_int (2 ^ b) \<le> (of_int d :: rat)" "(of_int d :: rat) < of_int (2 * 2 ^ b)"
    unfolding of_int_le_iff of_int_less_iff by simp_all
  then have A: "2 ^ a \<le> (of_int n :: rat)" "(of_int n :: rat) < 2 * 2 ^ a"
    and B: "2 ^ b \<le> (of_int d :: rat)" "(of_int d :: rat) < 2 * 2 ^ b"
    by simp_all
  have P: "pow2 (int a - int b) = 2 ^ a / 2 ^ b"
    by (simp add: pow2_diff pow2_nat)
  have up: "of_int n / of_int d < 2 * pow2 (int a - int b)"
  proof -
    have "(of_int n / of_int d :: rat) < (2 * 2 ^ a) / 2 ^ b"
      using A B n by (intro frac_less) auto
    then show ?thesis
      by (simp add: P)
  qed
  have lo: "pow2 (int a - int b - 1) \<le> of_int n / of_int d"
  proof -
    have "2 ^ a / (2 * 2 ^ b) \<le> (of_int n / of_int d :: rat)"
      using A B d n by (intro frac_le) auto
    moreover have "pow2 (int a - int b - 1) = 2 ^ a / (2 * 2 ^ b)"
      using pow2_add1 [of "int a - int b - 1"] by (simp add: P)
    ultimately show ?thesis
      by simp
  qed
  have up': "of_int n / of_int d < pow2 (int a - int b + 1)"
    using up by (simp add: pow2_add1)
  have e: "binade x = (if pow2 (int a - int b) \<le> \<bar>x\<bar> then int a - int b else int a - int b - 1)"
    by (simp add: binade_def q a_def b_def Let_def)
  show "pow2 (binade x) \<le> \<bar>x\<bar>" "\<bar>x\<bar> < pow2 (binade x + 1)"
    using lo up' by (auto simp: e x)
qed

lemma binade_unique: "pow2 e \<le> \<bar>x\<bar> \<Longrightarrow> \<bar>x\<bar> < pow2 (e + 1) \<Longrightarrow> binade x = e"
proof -
  assume a: "pow2 e \<le> \<bar>x\<bar>" "\<bar>x\<bar> < pow2 (e + 1)"
  then have "x \<noteq> 0"
    using pow2_pos(1) [of e] by (metis abs_zero linorder_not_le)
  note b = binade_bounds [OF this]
  have "pow2 e < pow2 (binade x + 1)" "pow2 (binade x) < pow2 (e + 1)"
    using a b by linarith+
  then show ?thesis
    by (simp add: pow2_less_iff)
qed

lemma binade_mono: "x \<noteq> 0 \<Longrightarrow> \<bar>x\<bar> \<le> \<bar>y\<bar> \<Longrightarrow> binade x \<le> binade y"
proof -
  assume a: "x \<noteq> 0" "\<bar>x\<bar> \<le> \<bar>y\<bar>"
  then have "y \<noteq> 0"
    by auto
  then have "pow2 (binade x) < pow2 (binade y + 1)"
    using binade_bounds(1) [of x] binade_bounds(2) [of y] a by linarith
  then show ?thesis
    by (simp add: pow2_less_iff)
qed

lemma binade_minus [simp]: "binade (- x) = binade x"
  by (simp add: binade_def)

subsection \<open>Rounding to an integer\<close>

lemma round_half_even_err: "\<bar>of_int (round_half_even x) - x\<bar> \<le> 1 / 2"
proof -
  have "of_int \<lfloor>x\<rfloor> \<le> x" "x < of_int \<lfloor>x\<rfloor> + 1"
    using floor_correct [of x] by simp_all
  then show ?thesis
    by (auto simp: round_half_even_def Let_def abs_le_iff)
qed

lemma round_half_even_of_int [simp]: "round_half_even (of_int n) = n"
  by (simp add: round_half_even_def)

lemma round_half_even_unique: "\<bar>x - of_int n\<bar> < 1 / 2 \<Longrightarrow> round_half_even x = n"
proof -
  assume "\<bar>x - of_int n\<bar> < 1 / 2"
  then have "\<bar>of_int (round_half_even x) - (of_int n :: rat)\<bar> < 1"
    using round_half_even_err [of x] by linarith
  then have "\<bar>of_int (round_half_even x - n) :: rat\<bar> < 1"
    by simp
  then show ?thesis
    by (metis abs_of_nonneg abs_zero eq_iff_diff_eq_0 of_int_abs of_int_less_1_iff zabs_less_one_iff)
qed

lemma round_half_even_mono: "x \<le> y \<Longrightarrow> round_half_even x \<le> round_half_even y"
proof (cases "\<lfloor>x\<rfloor> = \<lfloor>y\<rfloor>")
  case True
  assume "x \<le> y"
  with True show ?thesis
    by (auto simp: round_half_even_def Let_def)
next
  case False
  assume "x \<le> y"
  then have "\<lfloor>x\<rfloor> + 1 \<le> \<lfloor>y\<rfloor>"
    using False floor_mono [of x y] by linarith
  moreover have "round_half_even x \<le> \<lfloor>x\<rfloor> + 1" "\<lfloor>y\<rfloor> \<le> round_half_even y"
    by (simp_all add: round_half_even_def Let_def)
  ultimately show ?thesis
    by linarith
qed

lemma round_half_even_minus: "round_half_even (- x) = - round_half_even x"
proof (cases "x \<in> \<int>")
  case True
  then obtain n where "x = of_int n"
    by (auto elim: Ints_cases)
  then show ?thesis
    using round_half_even_of_int [of "- n"] by simp
next
  case False
  then have f: "\<lfloor>- x\<rfloor> = - \<lfloor>x\<rfloor> - 1"
    by (metis add.commute ceiling_def ceiling_altdef diff_minus_eq_add floor_of_int floor_minus minus_add_distrib
        minus_diff_eq Ints_of_int uminus_add_conv_diff)
  show ?thesis
    by (auto simp: round_half_even_def Let_def f)
qed

subsection \<open>Rounding to a double\<close>

definition representable :: "rat \<Rightarrow> bool" where
  "representable x \<longleftrightarrow> (\<exists>m e. x = of_int m * pow2 e \<and> \<bar>m\<bar> \<le> 2 ^ 53 \<and> - 1074 \<le> e)"

lemma pow2_quotient: "b \<le> a \<Longrightarrow> pow2 a / pow2 b = of_int (2 ^ nat (a - b))"
  using pow2_nat [of "nat (a - b)"] by (simp add: pow2_diff [symmetric])

lemma fl_0 [simp]: "fl 0 = 0"
  by (simp add: fl_def)

lemma fl_minus: "fl (- x) = - fl x"
proof (cases "x = 0")
  case False
  have "ulp_expo (- x) = ulp_expo x"
    by (simp add: ulp_expo_def)
  with False show ?thesis
    using round_half_even_minus [of "x / pow2 (ulp_expo x)"] by (simp add: fl_def)
qed simp

lemma fl_err: "\<bar>fl x - x\<bar> \<le> pow2 (ulp_expo x) / 2"
proof (cases "x = 0")
  case False
  define u where "u = pow2 (ulp_expo x)"
  have "fl x - x = (of_int (round_half_even (x / u)) - x / u) * u"
    using False by (simp add: fl_def u_def field_simps)
  then have "\<bar>fl x - x\<bar> = \<bar>of_int (round_half_even (x / u)) - x / u\<bar> * u"
    by (simp add: abs_mult u_def)
  also have "\<dots> \<le> 1 / 2 * u"
    by (intro mult_right_mono round_half_even_err) (simp add: u_def)
  finally show ?thesis
    by (simp add: u_def)
qed (simp add: fl_def)

lemma fl_rel_err:
  assumes "pow2 (- 1022) \<le> \<bar>x\<bar>"
  shows "\<bar>fl x - x\<bar> \<le> \<bar>x\<bar> / 2 ^ 53"
proof -
  have x: "x \<noteq> 0"
    using assms pow2_pos(1) [of "- 1022"] by (metis abs_zero linorder_not_le)
  have "pow2 (- 1022) < pow2 (binade x + 1)"
    using assms binade_bounds(2) [OF x] by linarith
  then have e: "ulp_expo x = binade x - 52"
    by (simp add: pow2_less_iff ulp_expo_def)
  have "pow2 (ulp_expo x) = pow2 (binade x) / 2 ^ 52"
    unfolding e pow2_diff using pow2_nat [of 52] by simp
  then have "pow2 (ulp_expo x) / 2 = pow2 (binade x) / 2 ^ 53"
    by simp
  moreover have "pow2 (binade x) / 2 ^ 53 \<le> \<bar>x\<bar> / 2 ^ 53"
    using binade_bounds(1) [OF x] by (intro divide_right_mono) auto
  ultimately show ?thesis
    using fl_err [of x] by linarith
qed

lemma fl_representable:
  assumes "representable y"
  shows "fl y = y"
proof (cases "y = 0")
  case False
  obtain m e where y: "y = of_int m * pow2 e" and m: "\<bar>m\<bar> \<le> 2 ^ 53" and e: "- 1074 \<le> e"
    using assms by (auto simp: representable_def)
  define u where "u = ulp_expo y"
  have abs_y: "\<bar>y\<bar> = of_int \<bar>m\<bar> * pow2 e"
    by (simp add: y abs_mult)
  have M: "of_int \<bar>m\<bar> \<le> (2 ^ 53 :: rat)"
    using m by (metis of_int_le_iff of_int_numeral of_int_power)
  have "\<exists>n. y / pow2 u = of_int n"
  proof (cases "u \<le> e")
    case True
    have "y / pow2 u = of_int m * (pow2 e / pow2 u)"
      by (simp add: y)
    also have "\<dots> = of_int (m * 2 ^ nat (e - u))"
      using pow2_quotient [OF True] by simp
    finally show ?thesis ..
  next
    case False
    have "pow2 (binade y) \<le> 2 ^ 53 * pow2 e"
      using binade_bounds(1) [OF \<open>y \<noteq> 0\<close>] mult_right_mono [OF M pow2_pos(2) [of e]]
      unfolding abs_y by (rule order_trans)
    also have "\<dots> = pow2 (e + 53)"
      using pow2_nat [of 53] by (simp add: pow2_add)
    finally have b: "binade y \<le> e + 53"
      using pow2_less_iff [of "e + 53" "binade y"] by linarith
    with False e have be: "binade y = e + 53" "u = e + 1"
      by (auto simp: u_def ulp_expo_def)
    have "2 ^ 53 * pow2 e \<le> of_int \<bar>m\<bar> * pow2 e"
      using binade_bounds(1) [OF \<open>y \<noteq> 0\<close>] pow2_nat [of 53] by (simp add: be(1) pow2_add abs_y mult.commute)
    then have "(2 ^ 53 :: rat) \<le> of_int \<bar>m\<bar>"
      by (simp del: of_int_abs)
    with m have "\<bar>m\<bar> = 2 ^ 53"
      by (metis of_int_le_iff of_int_numeral of_int_power order_antisym)
    then have "m = 2 * 2 ^ 52 \<or> m = 2 * (- (2 ^ 52))"
      by (simp add: abs_if split: if_splits)
    then obtain k where "m = 2 * k"
      by blast
    then have "y / pow2 u = of_int k"
      using be(2) by (simp add: y pow2_add1)
    then show ?thesis ..
  qed
  then obtain n where n: "y / pow2 u = of_int n" ..
  have "fl y = of_int n * pow2 u"
    using False n by (simp add: fl_def flip: u_def)
  also have "\<dots> = y"
    using n by (simp add: field_simps)
  finally show ?thesis .
qed simp

lemma representable_of_int: "\<bar>n\<bar> \<le> 2 ^ 53 \<Longrightarrow> representable (of_int n)"
  unfolding representable_def by (intro exI [of _ n] exI [of _ 0]) (simp add: pow2_def)

lemma fl_of_int: "\<bar>n\<bar> \<le> 2 ^ 53 \<Longrightarrow> fl (of_int n) = of_int n"
  by (rule fl_representable [OF representable_of_int])

lemma fl_mono_pos:
  assumes "0 < x" "x \<le> y"
  shows "fl x \<le> fl y"
proof -
  have nz: "x \<noteq> 0" "y \<noteq> 0"
    using assms by auto
  define u v where "u = ulp_expo x" and "v = ulp_expo y"
  have bxy: "binade x \<le> binade y"
    using binade_mono assms by auto
  have fx: "fl x = of_int (round_half_even (x / pow2 u)) * pow2 u"
    and fy: "fl y = of_int (round_half_even (y / pow2 v)) * pow2 v"
    using nz by (simp_all add: fl_def u_def v_def)
  show ?thesis
  proof (cases "u = v")
    case True
    have "x / pow2 u \<le> y / pow2 u"
      using assms by (intro divide_right_mono) auto
    then show ?thesis
      using round_half_even_mono by (simp add: fx fy flip: True)
  next
    case False
    then have v: "v = binade y - 52" "u < v" "binade x + 1 \<le> binade y"
      using bxy by (auto simp: u_def v_def ulp_expo_def)
    define B where "B = pow2 (binade y)"
    have Bu: "B / pow2 u = of_int (2 ^ nat (binade y - u))" and Bv: "B / pow2 v = of_int (2 ^ 52)"
      using pow2_quotient [of u "binade y"] pow2_quotient [of v "binade y"] v by (simp_all add: B_def)
    have "x \<le> B"
      using binade_bounds(2) [OF nz(1)] pow2_mono [OF v(3)] assms by (simp add: B_def)
    then have "x / pow2 u \<le> of_int (2 ^ nat (binade y - u))"
      using Bu by (metis divide_right_mono pow2_pos(2))
    then have "round_half_even (x / pow2 u) \<le> 2 ^ nat (binade y - u)"
      using round_half_even_mono round_half_even_of_int by metis
    then have "of_int (round_half_even (x / pow2 u)) \<le> B / pow2 u"
      unfolding Bu of_int_le_iff .
    then have "fl x \<le> B"
      by (simp add: fx pos_le_divide_eq)
    moreover have "B \<le> y"
      using binade_bounds(1) [OF nz(2)] assms by (simp add: B_def)
    then have "of_int (2 ^ 52) \<le> y / pow2 v"
      using Bv by (metis divide_right_mono pow2_pos(2))
    then have "2 ^ 52 \<le> round_half_even (y / pow2 v)"
      using round_half_even_mono round_half_even_of_int by metis
    then have "B / pow2 v \<le> of_int (round_half_even (y / pow2 v))"
      unfolding Bv of_int_le_iff .
    then have "B \<le> fl y"
      by (simp add: fy pos_divide_le_eq)
    ultimately show ?thesis
      by linarith
  qed
qed

lemma fl_nonneg: "0 \<le> x \<Longrightarrow> 0 \<le> fl x"
proof (cases "x = 0")
  case False
  assume "0 \<le> x"
  with False have "0 \<le> x / pow2 (ulp_expo x)"
    by simp
  then have "0 \<le> round_half_even (x / pow2 (ulp_expo x))"
    using round_half_even_mono [of 0] round_half_even_of_int [of 0] by simp
  then show ?thesis
    using False by (simp add: fl_def)
qed simp

lemma fl_nonpos: "x \<le> 0 \<Longrightarrow> fl x \<le> 0"
  using fl_nonneg [of "- x"] by (simp add: fl_minus)

lemma fl_mono: "x \<le> y \<Longrightarrow> fl x \<le> fl y"
proof -
  assume xy: "x \<le> y"
  consider "0 < x" | "x \<le> 0" "0 \<le> y" | "y < 0"
    by linarith
  then show ?thesis
  proof cases
    case 1
    then show ?thesis
      by (rule fl_mono_pos) fact
  next
    case 2
    then show ?thesis
      using fl_nonneg fl_nonpos order_trans by blast
  next
    case 3
    then show ?thesis
      using fl_mono_pos [of "- y" "- x"] xy by (simp add: fl_minus)
  qed
qed

lemma fl_le_int: "\<bar>n\<bar> \<le> 2 ^ 53 \<Longrightarrow> x \<le> of_int n \<Longrightarrow> fl x \<le> of_int n"
  using fl_mono [of x "of_int n"] by (simp add: fl_of_int)

lemma fl_ge_int: "\<bar>n\<bar> \<le> 2 ^ 53 \<Longrightarrow> of_int n \<le> x \<Longrightarrow> of_int n \<le> fl x"
  using fl_mono [of "of_int n" x] by (simp add: fl_of_int)

subsection \<open>Python floats\<close>

datatype pyfloat = Fin rat | PosInf | NegInf | NaN

definition max_double :: rat where
  "max_double = 2 ^ 1024"

definition dbl :: "rat \<Rightarrow> pyfloat" where
  "dbl x = (let y = fl x in if max_double \<le> y then PosInf else if y \<le> - max_double then NegInf else Fin y)"

instantiation pyfloat :: "{zero, one, plus, uminus, minus, times, ord}"
begin

definition zero_pyfloat :: pyfloat where
  "zero_pyfloat = Fin 0"

definition one_pyfloat :: pyfloat where
  "one_pyfloat = Fin 1"

fun plus_pyfloat :: "pyfloat \<Rightarrow> pyfloat \<Rightarrow> pyfloat" where
  "plus_pyfloat (Fin a) (Fin b) = dbl (a + b)"
| "plus_pyfloat NaN y = NaN"
| "plus_pyfloat x NaN = NaN"
| "plus_pyfloat PosInf NegInf = NaN"
| "plus_pyfloat NegInf PosInf = NaN"
| "plus_pyfloat PosInf y = PosInf"
| "plus_pyfloat NegInf y = NegInf"
| "plus_pyfloat (Fin a) y = y"

fun uminus_pyfloat :: "pyfloat \<Rightarrow> pyfloat" where
  "uminus_pyfloat (Fin a) = Fin (- a)"
| "uminus_pyfloat PosInf = NegInf"
| "uminus_pyfloat NegInf = PosInf"
| "uminus_pyfloat NaN = NaN"

definition minus_pyfloat :: "pyfloat \<Rightarrow> pyfloat \<Rightarrow> pyfloat" where
  "minus_pyfloat x y = x + (- y)"

definition signed_inf :: "rat \<Rightarrow> pyfloat" where
  "signed_inf s = (if 0 < s then PosInf else if s < 0 then NegInf else NaN)"

fun times_pyfloat :: "pyfloat \<Rightarrow> pyfloat \<Rightarrow> pyfloat" where
  "times_pyfloat (Fin a) (Fin b) = dbl (a * b)"
| "times_pyfloat NaN y = NaN"
| "times_pyfloat x NaN = NaN"
| "times_pyfloat (Fin a) PosInf = signed_inf a"
| "times_pyfloat (Fin a) NegInf = signed_inf (- a)"
| "times_pyfloat PosInf (Fin b) = signed_inf b"
| "times_pyfloat NegInf (Fin b) = signed_inf (- b)"
| "times_pyfloat PosInf PosInf = PosInf"
| "times_pyfloat NegInf NegInf = PosInf"
| "times_pyfloat PosInf NegInf = NegInf"
| "times_pyfloat NegInf PosInf = NegInf"

text \<open>Comparisons are exact and false whenever an operand is not a number.\<close>

fun less_eq_pyfloat :: "pyfloat \<Rightarrow> pyfloat \<Rightarrow> bool" where
  "less_eq_pyfloat (Fin a) (Fin b) = (a \<le> b)"
| "less_eq_pyfloat NaN y = False"
| "less_eq_pyfloat x NaN = False"
| "less_eq_pyfloat NegInf y = True"
| "less_eq_pyfloat x PosInf = True"
| "less_eq_pyfloat PosInf (Fin b) = False"
| "less_eq_pyfloat PosInf NegInf = False"
| "less_eq_pyfloat (Fin a) NegInf = False"

definition less_pyfloat :: "pyfloat \<Rightarrow> pyfloat \<Rightarrow> bool" where
  "less_pyfloat x y \<longleftrightarrow> x \<le> y \<and> \<not> y \<le> x"

instance ..

end

text \<open>
  Equality, which also never holds of a value that is not a number; division, which raises on a zero
  divisor; conversion of an integer, which raises beyond the range; and the conversions back.
\<close>

definition pf_eq :: "pyfloat \<Rightarrow> pyfloat \<Rightarrow> bool" where
  "pf_eq x y \<longleftrightarrow> x \<noteq> NaN \<and> x = y"

fun pf_div :: "pyfloat \<Rightarrow> pyfloat \<Rightarrow> pyfloat result" where
  "pf_div (Fin a) (Fin b) = (if b = 0 then Inl ZeroDivisionError else Inr (dbl (a / b)))"
| "pf_div NaN (Fin b) = (if b = 0 then Inl ZeroDivisionError else Inr NaN)"
| "pf_div PosInf (Fin b) = (if b = 0 then Inl ZeroDivisionError else Inr (signed_inf b))"
| "pf_div NegInf (Fin b) = (if b = 0 then Inl ZeroDivisionError else Inr (signed_inf (- b)))"
| "pf_div (Fin a) PosInf = Inr 0"
| "pf_div (Fin a) NegInf = Inr 0"
| "pf_div x y = Inr NaN"

definition pf_of_int :: "int \<Rightarrow> pyfloat result" where
  "pf_of_int n = (case dbl (of_int n) of Fin x \<Rightarrow> Inr (Fin x) | _ \<Rightarrow> Inl OverflowError)"

fun pf_round :: "pyfloat \<Rightarrow> int result" where
  "pf_round (Fin a) = Inr (round_half_even a)"
| "pf_round NaN = Inl ValueError"
| "pf_round x = Inl OverflowError"

fun pf_trunc :: "pyfloat \<Rightarrow> int result" where
  "pf_trunc (Fin a) = Inr (if 0 \<le> a then \<lfloor>a\<rfloor> else \<lceil>a\<rceil>)"
| "pf_trunc NaN = Inl ValueError"
| "pf_trunc x = Inl OverflowError"

definition pf_is_finite :: "pyfloat \<Rightarrow> bool" where
  "pf_is_finite x = (case x of Fin _ \<Rightarrow> True | _ \<Rightarrow> False)"

text \<open>\<^verbatim>\<open>max(a, b)\<close> and \<^verbatim>\<open>min(a, b)\<close> return the first argument unless the second is strictly beyond it.\<close>

definition pf_max :: "pyfloat \<Rightarrow> pyfloat \<Rightarrow> pyfloat" where
  "pf_max a b = (if a < b then b else a)"

definition pf_min :: "pyfloat \<Rightarrow> pyfloat \<Rightarrow> pyfloat" where
  "pf_min a b = (if b < a then b else a)"

lemma pf_less_simps [simp]:
  "Fin a < Fin b \<longleftrightarrow> a < b"
  "\<not> NaN < y" "\<not> x < NaN" "\<not> PosInf < y" "\<not> x < NegInf"
  "Fin a < PosInf" "NegInf < Fin a" "NegInf < PosInf"
  by (cases x; cases y; auto simp: less_pyfloat_def)+

lemma dbl_Fin: "\<bar>fl x\<bar> < max_double \<Longrightarrow> dbl x = Fin (fl x)"
  by (auto simp: dbl_def Let_def abs_less_iff)

lemma dbl_small:
  assumes "\<bar>x\<bar> \<le> 2 ^ 53"
  shows "dbl x = Fin (fl x)" and "\<bar>fl x\<bar> \<le> 2 ^ 53"
proof -
  have "fl x \<le> of_int (2 ^ 53)" "of_int (- (2 ^ 53)) \<le> fl x"
    using assms by (intro fl_le_int fl_ge_int; simp)+
  then show b: "\<bar>fl x\<bar> \<le> 2 ^ 53"
    by (simp add: abs_le_iff)
  have "(2 :: rat) ^ 53 < max_double"
    unfolding max_double_def by (rule power_strict_increasing) simp_all
  with b show "dbl x = Fin (fl x)"
    by (intro dbl_Fin) linarith
qed

lemma dbl_of_int [simp]: "\<bar>n\<bar> \<le> 2 ^ 53 \<Longrightarrow> dbl (of_int n) = Fin (of_int n)"
proof -
  assume n: "\<bar>n\<bar> \<le> 2 ^ 53"
  then have "\<bar>of_int n :: rat\<bar> \<le> 2 ^ 53"
    by (metis of_int_abs of_int_le_iff of_int_numeral of_int_power)
  with n show ?thesis
    by (simp add: dbl_small fl_of_int)
qed

lemma pf_of_int_small: "\<bar>n\<bar> \<le> 2 ^ 53 \<Longrightarrow> pf_of_int n = Inr (Fin (of_int n))"
  by (simp add: pf_of_int_def)

end
