(* ===== verification/Text.thy ===== *)
theory Text
  imports Prelude
begin

text \<open>
  The string operations of Python that the program uses: decimal rendering and parsing of integers,
  \<^verbatim>\<open>strip\<close>, and \<^verbatim>\<open>split\<close> at the first separator.
\<close>

definition digit_char :: "nat \<Rightarrow> char" where
  "digit_char d = ''0123456789'' ! d"

fun nat_str :: "nat \<Rightarrow> string" where
  "nat_str n = (if n < 10 then [digit_char n] else nat_str (n div 10) @ [digit_char (n mod 10)])"

declare nat_str.simps [simp del]

definition int_str :: "int \<Rightarrow> string" where
  "int_str n = (if n < 0 then CHR ''-'' # nat_str (nat (- n)) else nat_str (nat n))"

definition is_digit :: "char \<Rightarrow> bool" where
  "is_digit c \<longleftrightarrow> 48 \<le> char_code c \<and> char_code c \<le> 57"

definition digit_val :: "char \<Rightarrow> nat" where
  "digit_val c = char_code c - 48"

text \<open>The white space that \<^verbatim>\<open>str.strip\<close> and \<^verbatim>\<open>int\<close> drop, on ASCII text.\<close>

definition is_space :: "char \<Rightarrow> bool" where
  "is_space c \<longleftrightarrow> char_code c = 32 \<or> (9 \<le> char_code c \<and> char_code c \<le> 13) \<or> (28 \<le> char_code c \<and> char_code c \<le> 31)"

definition lstrip :: "string \<Rightarrow> string" where
  "lstrip s = dropWhile is_space s"

definition strip :: "string \<Rightarrow> string" where
  "strip s = rev (dropWhile is_space (rev (lstrip s)))"

text \<open>
  \<^verbatim>\<open>int(s)\<close> on ASCII text: optional white space, an optional sign, and digits, where single
  underscores may stand between digits.
\<close>

fun parse_digits :: "nat \<Rightarrow> bool \<Rightarrow> string \<Rightarrow> nat option" where
  "parse_digits acc after_digit [] = (if after_digit then Some acc else None)"
| "parse_digits acc after_digit (c # cs) =
    (if is_digit c then parse_digits (10 * acc + digit_val c) True cs
     else if c = CHR ''_'' \<and> after_digit then parse_digits acc False cs
     else None)"

definition parse_int :: "string \<Rightarrow> int option" where
  "parse_int s = (case strip s of
     [] \<Rightarrow> None
   | c # cs \<Rightarrow>
      if c = CHR ''-'' then map_option (\<lambda>n. - int n) (parse_digits 0 False cs)
      else if c = CHR ''+'' then map_option int (parse_digits 0 False cs)
      else map_option int (parse_digits 0 False (c # cs)))"

text \<open>\<^verbatim>\<open>s.split(sep, 1)\<close>: the text before the first separator, and the text after it when there is one.\<close>

fun split_first :: "char \<Rightarrow> string \<Rightarrow> string \<times> string option" where
  "split_first sep [] = ([], None)"
| "split_first sep (c # cs) =
    (if c = sep then ([], Some cs)
     else (case split_first sep cs of (a, b) \<Rightarrow> (c # a, b)))"

text \<open>\<^verbatim>\<open>s.split(sep)\<close>.\<close>

fun split_all :: "char \<Rightarrow> string \<Rightarrow> string list" where
  "split_all sep [] = [[]]"
| "split_all sep (c # cs) =
    (if c = sep then [] # split_all sep cs
     else (case split_all sep cs of w # ws \<Rightarrow> (c # w) # ws | [] \<Rightarrow> [[c]]))"

definition contains_char :: "char \<Rightarrow> string \<Rightarrow> bool" where
  "contains_char c s = (c \<in> set s)"

definition starts_with :: "string \<Rightarrow> string \<Rightarrow> bool" where
  "starts_with p s \<longleftrightarrow> take (length p) s = p"

definition ends_with :: "string \<Rightarrow> string \<Rightarrow> bool" where
  "ends_with p s \<longleftrightarrow> length p \<le> length s \<and> drop (length s - length p) s = p"

text \<open>\<^verbatim>\<open>sep.join(xs)\<close>.\<close>

fun join :: "string \<Rightarrow> string list \<Rightarrow> string" where
  "join sep [] = []"
| "join sep [x] = x"
| "join sep (x # y # ys) = x @ sep @ join sep (y # ys)"

lemma digit_char_code: "d < 10 \<Longrightarrow> char_code (digit_char d) = 48 + d"
proof -
  assume "d < 10"
  then have "d \<in> {0, 1, 2, 3, 4, 5, 6, 7, 8, 9}"
    by auto
  then show ?thesis
    by (auto simp: digit_char_def char_code_def)
qed

lemma is_digit_digit_char: "d < 10 \<Longrightarrow> is_digit (digit_char d)"
  by (simp add: is_digit_def digit_char_code)

lemma digit_val_digit_char: "d < 10 \<Longrightarrow> digit_val (digit_char d) = d"
  by (simp add: digit_val_def digit_char_code)

lemma parse_digits_append:
  "list_all is_digit xs \<Longrightarrow> xs \<noteq> [] \<Longrightarrow>
     parse_digits acc b (xs @ ys) = parse_digits (foldl (\<lambda>a c. 10 * a + digit_val c) acc xs) True ys"
proof (induction xs arbitrary: acc b)
  case (Cons x xs)
  then show ?case
    by (cases "xs = []") auto
qed simp

lemma nat_str_digits: "list_all is_digit (nat_str n) \<and> nat_str n \<noteq> []
    \<and> foldl (\<lambda>a c. 10 * a + digit_val c) 0 (nat_str n) = n"
proof (induction n rule: nat_str.induct)
  case (1 n)
  then show ?case
    by (subst (1 2 3) nat_str.simps) (auto simp: is_digit_digit_char digit_val_digit_char)
qed

lemma parse_digits_nat_str: "parse_digits 0 False (nat_str n) = Some n"
  using nat_str_digits [of n] parse_digits_append [of "nat_str n" 0 False "[]"] by simp

end
