(* ===== verification/Registers.thy ===== *)
theory Registers
  imports Binary64 Text
begin

unbundle bit_operations_syntax

text \<open>
  Input registers, \<^verbatim>\<open>src/collector/registers.py\<close>: the register definition with its decoding (32-bit
  pairs, bit fields, signed words, scale), the table of the family with the per-battery block merged
  in, and the decoding of a register dictionary into named readings.
\<close>

subsection \<open>One register\<close>

record register_def =
  rd_name :: string
  rd_unit :: string
  rd_scale :: pyfloat
  rd_desc :: string
  rd_signed :: bool
  rd_bitmask :: "int option"
  rd_bitshift :: nat
  rd_pair_high :: "int option"

definition rdef :: "string \<Rightarrow> string \<Rightarrow> pyfloat \<Rightarrow> string \<Rightarrow> register_def" where
  "rdef n u s d = \<lparr>rd_name = n, rd_unit = u, rd_scale = s, rd_desc = d, rd_signed = False,
     rd_bitmask = None, rd_bitshift = 0, rd_pair_high = None\<rparr>"

definition rsigned :: "register_def \<Rightarrow> register_def" where
  "rsigned r = r\<lparr>rd_signed := True\<rparr>"

definition rmask :: "int \<Rightarrow> nat \<Rightarrow> register_def \<Rightarrow> register_def" where
  "rmask m k r = r\<lparr>rd_bitmask := Some m, rd_bitshift := k\<rparr>"

definition rpair :: "int \<Rightarrow> register_def \<Rightarrow> register_def" where
  "rpair h r = r\<lparr>rd_pair_high := Some h\<rparr>"

lemmas rdef_simps [simp] = rdef_def rsigned_def rmask_def rpair_def

text \<open>The integer part of \<^verbatim>\<open>RegisterDef.decode\<close>, and the scaled value; the conversion of the integer to
  a float may overflow.\<close>

definition decode_int :: "register_def \<Rightarrow> int \<Rightarrow> int \<Rightarrow> int" where
  "decode_int rd raw high_raw =
    (let val = (case rd_pair_high rd of
         Some _ \<Rightarrow> raw + push_bit 16 high_raw
       | None \<Rightarrow> (case rd_bitmask rd of
           Some m \<Rightarrow> drop_bit (rd_bitshift rd) (raw AND m)
         | None \<Rightarrow> raw))
     in if rd_signed rd \<and> 0x8000 \<le> val then val - 0x10000 else val)"

definition reg_decode :: "register_def \<Rightarrow> int \<Rightarrow> int \<Rightarrow> pyfloat result" where
  "reg_decode rd raw high_raw =
     bindE (pf_of_int (decode_int rd raw high_raw)) (\<lambda>v. Inr (v * rd_scale rd))"

subsection \<open>The register table\<close>

definition input_registers_1 :: "(int \<times> register_def) list" where
  "input_registers_1 = [
    (0, rdef ''state'' '''' 1 ''Operating state''),
    (1, rdef ''pv1_voltage'' ''V'' (dbl (1 / 10)) ''PV1 voltage''),
    (2, rdef ''pv2_voltage'' ''V'' (dbl (1 / 10)) ''PV2 voltage''),
    (3, rdef ''pv3_voltage'' ''V'' (dbl (1 / 10)) ''PV3 voltage''),
    (4, rdef ''battery_voltage'' ''V'' (dbl (1 / 10)) ''Battery voltage''),
    (5, rmask 0xFF 0 (rdef ''soc'' ''%'' 1 ''Battery SOC'')),
    (6, rdef ''internal_fault'' '''' 1 ''Internal fault code''),
    (7, rdef ''pv1_power'' ''W'' 1 ''PV1 power''),
    (8, rdef ''pv2_power'' ''W'' 1 ''PV2 power''),
    (9, rdef ''pv3_power'' ''W'' 1 ''PV3 power''),
    (10, rdef ''charge_power'' ''W'' 1 ''Battery charge power''),
    (11, rdef ''discharge_power'' ''W'' 1 ''Battery discharge power''),
    (12, rdef ''grid_voltage_r'' ''V'' (dbl (1 / 10)) ''Grid voltage phase R''),
    (13, rdef ''grid_voltage_s'' ''V'' (dbl (1 / 10)) ''Grid voltage phase S''),
    (14, rdef ''grid_voltage_t'' ''V'' (dbl (1 / 10)) ''Grid voltage phase T''),
    (15, rdef ''grid_frequency'' ''Hz'' (dbl (1 / 100)) ''Grid frequency''),
    (16, rdef ''inv_power'' ''W'' 1 ''Inverter output power (grid port)''),
    (17, rdef ''rec_power'' ''W'' 1 ''AC charging rectified power''),
    (18, rdef ''inv_current_rms'' ''A'' (dbl (1 / 100)) ''Inverter current RMS''),
    (19, rdef ''power_factor'' '''' (dbl (1 / 1000)) ''Power factor''),
    (20, rdef ''eps_voltage_r'' ''V'' (dbl (1 / 10)) ''EPS output voltage R''),
    (21, rdef ''eps_voltage_s'' ''V'' (dbl (1 / 10)) ''EPS output voltage S''),
    (22, rdef ''eps_voltage_t'' ''V'' (dbl (1 / 10)) ''EPS output voltage T''),
    (23, rdef ''eps_frequency'' ''Hz'' (dbl (1 / 100)) ''EPS output frequency''),
    (24, rdef ''eps_power'' ''W'' 1 ''EPS output power''),
    (25, rdef ''eps_apparent_power'' ''VA'' 1 ''EPS apparent power''),
    (26, rdef ''grid_export_power'' ''W'' 1 ''Power exported to grid''),
    (27, rdef ''grid_import_power'' ''W'' 1 ''Power imported from grid''),
    (28, rdef ''pv1_energy_today'' ''kWh'' (dbl (1 / 10)) ''PV1 energy today''),
    (29, rdef ''pv2_energy_today'' ''kWh'' (dbl (1 / 10)) ''PV2 energy today''),
    (30, rdef ''pv3_energy_today'' ''kWh'' (dbl (1 / 10)) ''PV3 energy today''),
    (31, rdef ''inv_energy_today'' ''kWh'' (dbl (1 / 10)) ''Inverter output energy today''),
    (32, rdef ''rec_energy_today'' ''kWh'' (dbl (1 / 10)) ''AC charge rectified energy today''),
    (33, rdef ''charge_energy_today'' ''kWh'' (dbl (1 / 10)) ''Charged energy today''),
    (34, rdef ''discharge_energy_today'' ''kWh'' (dbl (1 / 10)) ''Discharged energy today''),
    (35, rdef ''eps_energy_today'' ''kWh'' (dbl (1 / 10)) ''EPS output energy today''),
    (36, rdef ''grid_export_today'' ''kWh'' (dbl (1 / 10)) ''Grid export energy today''),
    (37, rdef ''grid_import_today'' ''kWh'' (dbl (1 / 10)) ''Grid import energy today''),
    (38, rdef ''bus1_voltage'' ''V'' (dbl (1 / 10)) ''Bus 1 voltage''),
    (39, rdef ''bus2_voltage'' ''V'' (dbl (1 / 10)) ''Bus 2 voltage''),
    (40, rpair 41 (rdef ''pv1_energy_total'' ''kWh'' (dbl (1 / 10)) ''PV1 total energy (low word)'')),
    (42, rpair 43 (rdef ''pv2_energy_total'' ''kWh'' (dbl (1 / 10)) ''PV2 total energy (low word)'')),
    (44, rpair 45 (rdef ''pv3_energy_total'' ''kWh'' (dbl (1 / 10)) ''PV3 total energy (low word)'')),
    (46, rpair 47 (rdef ''inv_energy_total'' ''kWh'' (dbl (1 / 10)) ''Inverter total energy (low word)'')),
    (48, rpair 49 (rdef ''rec_energy_total'' ''kWh'' (dbl (1 / 10)) ''AC charge total energy (low word)'')),
    (50, rpair 51 (rdef ''charge_energy_total'' ''kWh'' (dbl (1 / 10)) ''Charge total energy (low word)'')),
    (52, rpair 53 (rdef ''discharge_energy_total'' ''kWh'' (dbl (1 / 10)) ''Discharge total energy (low word)'')),
    (54, rpair 55 (rdef ''eps_energy_total'' ''kWh'' (dbl (1 / 10)) ''EPS total energy (low word)'')),
    (56, rpair 57 (rdef ''grid_export_total'' ''kWh'' (dbl (1 / 10)) ''Grid export total (low word)'')),
    (58, rpair 59 (rdef ''grid_import_total'' ''kWh'' (dbl (1 / 10)) ''Grid import total (low word)'')),
    (60, rpair 61 (rdef ''fault_code'' '''' 1 ''Fault code (low word)'')),
    (62, rpair 63 (rdef ''warning_code'' '''' 1 ''Warning code (low word)'')),
    (64, rdef ''temp_inverter'' ([CHR 0xC2, CHR 0xB0] @ ''C'') 1 ''Internal temperature''),
    (65, rdef ''temp_radiator_1'' ([CHR 0xC2, CHR 0xB0] @ ''C'') 1 ''Radiator temperature 1''),
    (66, rdef ''temp_radiator_2'' ([CHR 0xC2, CHR 0xB0] @ ''C'') 1 ''Radiator temperature 2''),
    (67, rdef ''temp_battery'' ([CHR 0xC2, CHR 0xB0] @ ''C'') 1 ''Battery temperature''),
    (69, rpair 70 (rdef ''runtime'' ''s'' 1 ''Runtime (low word)'')),
    (71, rdef ''auto_test'' '''' 1 ''Auto test status/step''),
    (72, rdef ''auto_test_limit'' '''' 1 ''Auto test limit''),
    (73, rdef ''auto_test_default'' ''ms'' 1 ''Auto test default time'')]"

definition input_registers_2 :: "(int \<times> register_def) list" where
  "input_registers_2 = [
    (74, rdef ''auto_test_trip'' '''' 1 ''Auto test trip value''),
    (75, rdef ''auto_test_trip_time'' ''ms'' 1 ''Auto test trip time''),
    (77, rdef ''ac_input_type'' '''' 1 ''0=Grid, 1=Generator''),
    (81, rdef ''bms_max_charge_current'' ''A'' (dbl (1 / 100)) ''BMS max charge current''),
    (82, rdef ''bms_max_discharge_current'' ''A'' (dbl (1 / 100)) ''BMS max discharge current''),
    (83, rdef ''bms_charge_voltage_ref'' ''V'' (dbl (1 / 10)) ''BMS charge voltage reference''),
    (84, rdef ''bms_discharge_cut_voltage'' ''V'' (dbl (1 / 10)) ''BMS discharge cutoff voltage''),
    (85, rdef ''bms_status_0'' '''' 1 ''BMS status 0''),
    (86, rdef ''bms_status_1'' '''' 1 ''BMS status 1''),
    (87, rdef ''bms_status_2'' '''' 1 ''BMS status 2''),
    (88, rdef ''bms_status_3'' '''' 1 ''BMS status 3''),
    (89, rdef ''bms_status_4'' '''' 1 ''BMS status 4''),
    (90, rdef ''bms_status_5'' '''' 1 ''BMS status 5''),
    (91, rdef ''bms_status_6'' '''' 1 ''BMS status 6''),
    (92, rdef ''bms_status_7'' '''' 1 ''BMS status 7''),
    (93, rdef ''bms_status_8'' '''' 1 ''BMS status 8''),
    (94, rdef ''bms_status_9'' '''' 1 ''BMS status 9''),
    (95, rdef ''bms_status_inv'' '''' 1 ''Inverter battery status summary''),
    (96, rdef ''battery_count'' '''' 1 ''Number of parallel batteries''),
    (97, rdef ''battery_capacity'' ''Ah'' 1 ''Battery capacity''),
    (98, rsigned (rdef ''battery_current'' ''A'' (dbl (1 / 10)) ''Battery current (signed)'')),
    (99, rdef ''bms_fault_code'' '''' 1 ''BMS fault code''),
    (100, rdef ''bms_warning_code'' '''' 1 ''BMS warning code''),
    (101, rdef ''cell_voltage_max'' ''V'' (dbl (1 / 1000)) ''Maximum cell voltage''),
    (102, rdef ''cell_voltage_min'' ''V'' (dbl (1 / 1000)) ''Minimum cell voltage''),
    (103, rsigned (rdef ''cell_temp_max'' ([CHR 0xC2, CHR 0xB0] @ ''C'') (dbl (1 / 10)) ''Maximum cell temperature'')),
    (104, rsigned (rdef ''cell_temp_min'' ([CHR 0xC2, CHR 0xB0] @ ''C'') (dbl (1 / 10)) ''Minimum cell temperature'')),
    (105, rdef ''bms_fw_update_state'' '''' 1 ''BMS firmware update state''),
    (106, rdef ''cycle_count'' '''' 1 ''Charge/discharge cycle count''),
    (107, rdef ''battery_voltage_inv'' ''V'' (dbl (1 / 10)) ''Inverter battery voltage sample''),
    (108, rdef ''temp_t1'' ([CHR 0xC2, CHR 0xB0] @ ''C'') (dbl (1 / 10)) ''Temperature sensor T1''),
    (109, rdef ''temp_t2'' ([CHR 0xC2, CHR 0xB0] @ ''C'') (dbl (1 / 10)) ''Temperature sensor T2''),
    (110, rdef ''temp_t3'' ([CHR 0xC2, CHR 0xB0] @ ''C'') (dbl (1 / 10)) ''Temperature sensor T3''),
    (111, rdef ''temp_t4'' ([CHR 0xC2, CHR 0xB0] @ ''C'') (dbl (1 / 10)) ''Temperature sensor T4''),
    (112, rdef ''temp_t5'' ([CHR 0xC2, CHR 0xB0] @ ''C'') (dbl (1 / 10)) ''Temperature sensor T5''),
    (113, rdef ''parallel_info'' '''' 1 ''Master/slave, phase, parallel count''),
    (120, rdef ''bus_p_voltage'' ''V'' (dbl (1 / 10)) ''Half bus voltage''),
    (121, rdef ''gen_voltage'' ''V'' (dbl (1 / 10)) ''Generator voltage''),
    (122, rdef ''gen_frequency'' ''Hz'' (dbl (1 / 100)) ''Generator frequency''),
    (123, rdef ''gen_power'' ''W'' 1 ''Generator power''),
    (124, rdef ''gen_energy_today'' ''kWh'' (dbl (1 / 10)) ''Generator energy today''),
    (125, rpair 126 (rdef ''gen_energy_total'' ''kWh'' (dbl (1 / 10)) ''Generator total energy (low word)'')),
    (127, rdef ''eps_voltage_l1n'' ''V'' (dbl (1 / 10)) ''EPS L1-N voltage''),
    (128, rdef ''eps_voltage_l2n'' ''V'' (dbl (1 / 10)) ''EPS L2-N voltage''),
    (129, rdef ''eps_power_l1'' ''W'' 1 ''EPS L1 power''),
    (130, rdef ''eps_power_l2'' ''W'' 1 ''EPS L2 power''),
    (131, rdef ''eps_apparent_l1'' ''VA'' 1 ''EPS L1 apparent power''),
    (132, rdef ''eps_apparent_l2'' ''VA'' 1 ''EPS L2 apparent power''),
    (133, rdef ''eps_energy_l1_today'' ''kWh'' (dbl (1 / 10)) ''EPS L1 energy today''),
    (134, rdef ''eps_energy_l2_today'' ''kWh'' (dbl (1 / 10)) ''EPS L2 energy today''),
    (114, rdef ''load_power_12k'' ''W'' 1 ''On-grid load power (12k)''),
    (115, rdef ''serial_ascii_0_3'' '''' 1 ''Serial number ASCII chars 0-3''),
    (116, rdef ''serial_ascii_4_5'' '''' 1 ''Serial number ASCII chars 4-5''),
    (117, rdef ''serial_ascii_6_7'' '''' 1 ''Serial number ASCII chars 6-7''),
    (118, rdef ''serial_ascii_8_9'' '''' 1 ''Serial number ASCII chars 8-9''),
    (139, rdef ''reactive_power'' ''Var'' 1 ''Reactive power''),
    (170, rdef ''load_power'' ''W'' 1 ''On-grid load power''),
    (171, rdef ''load_energy_today'' ''kWh'' (dbl (1 / 10)) ''Load energy today''),
    (172, rpair 173 (rdef ''load_energy_total'' ''kWh'' (dbl (1 / 10)) ''Load total energy (low word)'')),
    (210, rdef ''remaining_charge_time'' ''min'' 1 ''Remaining charge time (one-click)'')]"

definition input_registers_3 :: "(int \<times> register_def) list" where
  "input_registers_3 = [
    (214, rdef ''ntc_temp_indc'' ([CHR 0xC2, CHR 0xB0] @ ''C'') 1 ''NTC temperature INDC''),
    (215, rdef ''ntc_temp_dcdcl'' ([CHR 0xC2, CHR 0xB0] @ ''C'') 1 ''NTC temperature DCDCL''),
    (216, rdef ''ntc_temp_dcdch'' ([CHR 0xC2, CHR 0xB0] @ ''C'') 1 ''NTC temperature DCDCH'')]"

definition BATTERY_START :: int where
  "BATTERY_START = 5000"

definition BATTERY_BLOCK_SIZE :: int where
  "BATTERY_BLOCK_SIZE = 30"

definition BATTERY_COUNT :: nat where
  "BATTERY_COUNT = 8"

definition battery_defs :: "nat \<Rightarrow> (int \<times> register_def) list" where
  "battery_defs batt =
    (let b = nat_str batt; bat = ''battery_'' @ b @ ''_''; Bat = ''Battery '' @ b @ '' '' in
     [(3, rdef (bat @ ''capacity'') ''Ah'' 1 (Bat @ ''capacity'')),
      (5, rdef (bat @ ''max_charge_current'') ''A'' (dbl (1 / 10)) (Bat @ ''max charge current'')),
      (6, rdef (bat @ ''max_discharge_current'') ''A'' (dbl (1 / 10)) (Bat @ ''max discharge current'')),
      (8, rdef (bat @ ''voltage'') ''V'' (dbl (1 / 100)) (Bat @ ''voltage'')),
      (9, rsigned (rdef (bat @ ''current'') ''A'' (dbl (1 / 10)) (Bat @ ''current''))),
      (10, rmask 0xFF 0 (rdef (bat @ ''soc'') ''%'' 1 (Bat @ ''SOC''))),
      (11, rdef (bat @ ''cycle_count'') ''cycles'' 1 (Bat @ ''cycle count'')),
      (12, rdef (bat @ ''max_cell_temp'') ([CHR 0xC2, CHR 0xB0] @ ''C'') (dbl (1 / 10)) (Bat @ ''max cell temperature'')),
      (13, rdef (bat @ ''min_cell_temp'') ([CHR 0xC2, CHR 0xB0] @ ''C'') (dbl (1 / 10)) (Bat @ ''min cell temperature'')),
      (14, rdef (bat @ ''max_cell_voltage'') ''V'' (dbl (1 / 1000)) (Bat @ ''max cell voltage'')),
      (15, rdef (bat @ ''min_cell_voltage'') ''V'' (dbl (1 / 1000)) (Bat @ ''min cell voltage'')),
      (16, rmask 0xFF00 8 (rdef (bat @ ''max_temp_cell'') [] 1 (Bat @ ''cell with max temperature''))),
      (17, rmask 0xFF00 8 (rdef (bat @ ''max_voltage_cell'') [] 1 (Bat @ ''cell with max voltage''))),
      (18, rdef (bat @ ''firmware'') [] 1 (Bat @ ''firmware raw''))])"

definition battery_serial_defs :: "nat \<Rightarrow> (int \<times> register_def) list" where
  "battery_serial_defs batt = map (\<lambda>i. (19 + int i,
     rdef (''battery_'' @ nat_str batt @ ''_serial_'' @ nat_str i) [] 1
       (''Battery '' @ nat_str batt @ '' serial char pair '' @ nat_str i))) [0..<14]"

definition battery_base :: "nat \<Rightarrow> int" where
  "battery_base batt = BATTERY_START + (int batt - 1) * BATTERY_BLOCK_SIZE"

definition update_all :: "('k \<times> 'v) list \<Rightarrow> ('k \<times> 'v) list \<Rightarrow> ('k \<times> 'v) list" where
  "update_all m kvs = foldl (\<lambda>m kv. AList.update (fst kv) (snd kv) m) m kvs"

definition BATTERY_REGISTERS :: "(int \<times> register_def) list" where
  "BATTERY_REGISTERS = foldl (\<lambda>m batt. update_all m
     (map (\<lambda>(off, d). (battery_base batt + off, d)) (battery_defs batt @ battery_serial_defs batt)))
     [] [1..<BATTERY_COUNT + 1]"

definition input_literal :: "(int \<times> register_def) list" where
  "input_literal = input_registers_1 @ input_registers_2 @ input_registers_3"

text \<open>\<^verbatim>\<open>INPUT_REGISTERS.update(BATTERY_REGISTERS)\<close>.\<close>

definition INPUT_REGISTERS :: "(int \<times> register_def) list" where
  "INPUT_REGISTERS = update_all input_literal BATTERY_REGISTERS"

definition SOH_REGISTER :: register_def where
  "SOH_REGISTER = rmask 0xFF00 8 (rdef ''soh'' ''%'' 1 ''Battery SOH'')"

subsection \<open>Decoding a register dictionary\<close>

record reading =
  rv_value :: pyfloat
  rv_unit :: string
  rv_raw :: int
  rv_raw_high :: "int option"
  rv_desc :: string

definition decode_simple :: "(int \<times> register_def) list \<Rightarrow> (string \<times> reading) list \<Rightarrow> int \<times> int
    \<Rightarrow> (string \<times> reading) list result" where
  "decode_simple register_map res = (\<lambda>(reg_num, raw_val).
    (case map_of register_map reg_num of
       None \<Rightarrow> Inr res
     | Some rd \<Rightarrow>
        if rd_pair_high rd \<noteq> None then Inr res
        else bindE (reg_decode rd raw_val 0) (\<lambda>val.
          Inr (AList.update (rd_name rd) \<lparr>rv_value = val, rv_unit = rd_unit rd, rv_raw = raw_val,
            rv_raw_high = None, rv_desc = rd_desc rd\<rparr> res))))"

definition decode_pair :: "(int \<times> register_def) list \<Rightarrow> (int \<times> int) list \<Rightarrow> (string \<times> reading) list \<Rightarrow> int \<times> int
    \<Rightarrow> (string \<times> reading) list result" where
  "decode_pair register_map reg_values res = (\<lambda>(reg_num, raw_val).
    (case map_of register_map reg_num of
       None \<Rightarrow> Inr res
     | Some rd \<Rightarrow>
        (case rd_pair_high rd of
           None \<Rightarrow> Inr res
         | Some high_reg \<Rightarrow>
            (case map_of reg_values high_reg of
               None \<Rightarrow> Inr res
             | Some hi \<Rightarrow> bindE (reg_decode rd raw_val hi) (\<lambda>val.
                 Inr (AList.update (rd_name rd) \<lparr>rv_value = val, rv_unit = rd_unit rd, rv_raw = raw_val,
                   rv_raw_high = Some hi, rv_desc = rd_desc rd\<rparr> res))))))"

definition decode_registers :: "(int \<times> int) list \<Rightarrow> (int \<times> register_def) list \<Rightarrow> (string \<times> reading) list result" where
  "decode_registers reg_values register_map =
    bindE (foldE (decode_simple register_map) [] reg_values) (\<lambda>res.
    bindE (foldE (decode_pair register_map reg_values) res reg_values) (\<lambda>res.
    (case map_of reg_values 5 of
       None \<Rightarrow> Inr res
     | Some v \<Rightarrow> bindE (reg_decode SOH_REGISTER v 0) (\<lambda>soh_val.
         Inr (AList.update ''soh'' \<lparr>rv_value = soh_val, rv_unit = ''%'', rv_raw = v,
           rv_raw_high = None, rv_desc = ''Battery state of health''\<rparr> res)))))"

subsection \<open>Battery serial numbers\<close>

text \<open>
  The two characters of a register are code points below 256; the white space among them that
  \<^verbatim>\<open>strip\<close> removes includes U+0085 and U+00A0.  A code point from 128 on has two UTF-8 units.
\<close>

definition is_space_latin :: "int \<Rightarrow> bool" where
  "is_space_latin n \<longleftrightarrow> n = 32 \<or> (9 \<le> n \<and> n \<le> 13) \<or> (28 \<le> n \<and> n \<le> 31) \<or> n = 0x85 \<or> n = 0xA0"

definition utf8_latin :: "int \<Rightarrow> string" where
  "utf8_latin n = (if n < 128 then [char_of (nat n)]
     else [char_of (nat (192 + n div 64)), char_of (nat (128 + n mod 64))])"

definition decode_battery_serial :: "(int \<times> int) list \<Rightarrow> int \<Rightarrow> string" where
  "decode_battery_serial reg_values battery_index =
    (let base = BATTERY_START + (battery_index - 1) * BATTERY_BLOCK_SIZE;
         chars = concat (map (\<lambda>i. let raw = (case map_of reg_values (base + 19 + int i) of Some v \<Rightarrow> v | None \<Rightarrow> 0)
           in [drop_bit 8 raw AND 0xFF, raw AND 0xFF]) [0..<14]);
         no_nul = rev (dropWhile (\<lambda>n. n = 0) (rev chars));
         stripped = rev (dropWhile is_space_latin (rev (dropWhile is_space_latin no_nul)))
     in concat (map utf8_latin stripped))"

end
