(* ===== verification/Holding.thy ===== *)
theory Holding
  imports Binary64
begin

text \<open>
  The writable (holding) registers of \<^verbatim>\<open>src/collector/protocol.py\<close>: the literal table of the EG4 and
  LuxPower family, the generated seven-day schedule block merged into it, the display labels, and
  the reverse lookup by name.  A row of the Python dictionary is a record \<^verbatim>\<open>holding_meta\<close>; the table
  is an association list in the dictionary's insertion order.  An absent \<^verbatim>\<open>capabilities\<close> entry is the
  empty list, which the capability layer treats in the same way.
\<close>

record holding_meta =
  hm_name :: string
  hm_unit :: string
  hm_scale :: pyfloat
  hm_desc :: string
  hm_min :: "int option"
  hm_max :: "int option"
  hm_caps :: "string list"

definition hmeta :: "string \<Rightarrow> string \<Rightarrow> pyfloat \<Rightarrow> string \<Rightarrow> int option \<Rightarrow> int option \<Rightarrow> string list \<Rightarrow> holding_meta" where
  "hmeta n u s d lo hi c = \<lparr>hm_name = n, hm_unit = u, hm_scale = s, hm_desc = d, hm_min = lo, hm_max = hi, hm_caps = c\<rparr>"

lemma hmeta_simps [simp]:
  "hm_name (hmeta n u s d lo hi c) = n" "hm_unit (hmeta n u s d lo hi c) = u"
  "hm_scale (hmeta n u s d lo hi c) = s" "hm_desc (hmeta n u s d lo hi c) = d"
  "hm_min (hmeta n u s d lo hi c) = lo" "hm_max (hmeta n u s d lo hi c) = hi"
  "hm_caps (hmeta n u s d lo hi c) = c"
  by (simp_all add: hmeta_def)

subsection \<open>The literal table\<close>

definition holding_registers_1 :: "(int \<times> holding_meta) list" where
  "holding_registers_1 = [
    (60, hmeta ''active_power_percent'' ''%'' 1
     ''Active power command percent'' (Some 0) (Some 100) []),
    (61, hmeta ''reactive_power_percent'' ''%'' 1
     ''Reactive power command percent'' (Some 0) (Some 100) []),
    (62, hmeta ''power_factor_command'' '''' 1
     ''Power factor command'' (Some (- 100)) (Some 100) []),
    (63, hmeta ''soft_start_slope'' ''%/s'' 1
     ''Soft start slope'' (Some 0) (Some 100) []),
    (64, hmeta ''charge_power_percent'' ''%'' 1
     ''Charge power percent'' (Some 0) (Some 100) []),
    (65, hmeta ''discharge_power_percent'' ''%'' 1
     ''Discharge power percent'' (Some 0) (Some 100) []),
    (66, hmeta ''ac_charge_power_percent'' ''%'' 1
     ''AC charge power command percent'' (Some 0) (Some 100) []),
    (67, hmeta ''ac_charge_soc_limit'' ''%'' 1
     ''AC charge SOC limit'' (Some 0) (Some 100) []),
    (68, hmeta ''ac_charge_period_1_start'' ''time'' 1
     ''AC charge period 1 start (min<<8)|hour'' (Some 0) (Some 15127) []),
    (69, hmeta ''ac_charge_period_1_end'' ''time'' 1
     ''AC charge period 1 end (min<<8)|hour'' (Some 0) (Some 15127) []),
    (70, hmeta ''ac_charge_period_2_start'' ''time'' 1
     ''AC charge period 2 start (min<<8)|hour'' (Some 0) (Some 15127) []),
    (71, hmeta ''ac_charge_period_2_end'' ''time'' 1
     ''AC charge period 2 end (min<<8)|hour'' (Some 0) (Some 15127) []),
    (72, hmeta ''ac_charge_period_3_start'' ''time'' 1
     ''AC charge period 3 start (min<<8)|hour'' (Some 0) (Some 15127) []),
    (73, hmeta ''ac_charge_period_3_end'' ''time'' 1
     ''AC charge period 3 end (min<<8)|hour'' (Some 0) (Some 15127) []),
    (74, hmeta ''forced_charge_power'' ''A'' 1
     ''Forced charge current'' (Some 0) (Some 140) []),
    (75, hmeta ''forced_charge_soc_limit'' ''%'' 1
     ''Forced charge SOC limit'' (Some 0) (Some 100) []),
    (76, hmeta ''forced_charge_period_1_start'' ''time'' 1
     ''Forced charge period 1 start'' (Some 0) (Some 15127) []),
    (77, hmeta ''forced_charge_period_1_end'' ''time'' 1
     ''Forced charge period 1 end'' (Some 0) (Some 15127) []),
    (78, hmeta ''forced_charge_period_2_start'' ''time'' 1
     ''Forced charge period 2 start'' (Some 0) (Some 15127) []),
    (79, hmeta ''forced_charge_period_2_end'' ''time'' 1
     ''Forced charge period 2 end'' (Some 0) (Some 15127) []),
    (80, hmeta ''forced_charge_period_3_start'' ''time'' 1
     ''Forced charge period 3 start'' (Some 0) (Some 15127) []),
    (81, hmeta ''forced_charge_period_3_end'' ''time'' 1
     ''Forced charge period 3 end'' (Some 0) (Some 15127) []),
    (82, hmeta ''forced_discharge_power'' ''A'' 1
     ''Forced discharge current'' (Some 0) (Some 140) []),
    (83, hmeta ''forced_discharge_soc_limit'' ''%'' 1
     ''Forced discharge SOC limit'' (Some 0) (Some 100) []),
    (84, hmeta ''forced_discharge_period_1_start'' ''time'' 1
     ''Forced discharge period 1 start'' (Some 0) (Some 15127) []),
    (85, hmeta ''forced_discharge_period_1_end'' ''time'' 1
     ''Forced discharge period 1 end'' (Some 0) (Some 15127) []),
    (86, hmeta ''forced_discharge_period_2_start'' ''time'' 1
     ''Forced discharge period 2 start'' (Some 0) (Some 15127) []),
    (87, hmeta ''forced_discharge_period_2_end'' ''time'' 1
     ''Forced discharge period 2 end'' (Some 0) (Some 15127) []),
    (88, hmeta ''forced_discharge_period_3_start'' ''time'' 1
     ''Forced discharge period 3 start'' (Some 0) (Some 15127) []),
    (89, hmeta ''forced_discharge_period_3_end'' ''time'' 1
     ''Forced discharge period 3 end'' (Some 0) (Some 15127) []),
    (90, hmeta ''eps_voltage_set'' ''V'' (dbl (1 / 10))
     ''EPS output voltage setpoint'' (Some 0) (Some 3000) []),
    (91, hmeta ''eps_frequency_set'' ''Hz'' (dbl (1 / 100))
     ''EPS output frequency setpoint'' (Some 0) (Some 6000) []),
    (99, hmeta ''lead_acid_charge_voltage'' ''V'' (dbl (1 / 10))
     ''Lead-acid charge voltage reference'' (Some 50) (Some 58) []),
    (100, hmeta ''lead_acid_discharge_cut_voltage'' ''V'' (dbl (1 / 10))
     ''Lead-acid discharge cutoff voltage'' (Some 40) (Some 56) []),
    (101, hmeta ''lead_acid_charge_rate'' ''A'' 1
     ''Lead-acid charge rate'' (Some 0) (Some 4480) []),
    (102, hmeta ''lead_acid_discharge_rate'' ''A'' 1
     ''Lead-acid discharge rate'' (Some 0) (Some 4480) []),
    (103, hmeta ''feed_in_grid_power_percent'' ''%'' 1
     ''Feed-in grid power percent'' (Some 0) (Some 255) []),
    (105, hmeta ''discharge_cutoff_soc_eod'' ''%'' 1
     ''Discharge cutoff SOC (end of discharge)'' (Some 10) (Some 90) []),
    (125, hmeta ''soc_low_limit_eps_discharge'' ''%'' 1
     ''SOC low limit for EPS discharge'' (Some 0) (Some 90) []),
    (144, hmeta ''floating_voltage'' ''V'' (dbl (1 / 10))
     ''Floating voltage'' (Some 50) (Some 58) [])]"

definition holding_registers_2 :: "(int \<times> holding_meta) list" where
  "holding_registers_2 = [
    (146, hmeta ''ac_input_range'' '''' 1
     ''AC input range (0=APL, 1=UPS)'' (Some 0) (Some 1) []),
    (147, hmeta ''battery_capacity'' ''Ah'' 1
     ''Battery capacity'' (Some 1) (Some 65535) []),
    (148, hmeta ''nominal_battery_voltage'' ''V'' (dbl (1 / 10))
     ''Nominal battery voltage'' (Some 0) (Some 600) []),
    (149, hmeta ''equalization_voltage'' ''V'' (dbl (1 / 10))
     ''Equalization voltage'' (Some 50) (Some 59) []),
    (150, hmeta ''equalization_period'' ''days'' 1
     ''Equalization period'' (Some 0) (Some 365) []),
    (151, hmeta ''equalization_time'' ''h'' 1
     ''Equalization time'' (Some 0) (Some 24) []),
    (152, hmeta ''ac_first_period_1_start'' ''time'' 1
     ''AC first period 1 start (min<<8)|hour'' (Some 0) (Some 15127) []),
    (153, hmeta ''ac_first_period_1_end'' ''time'' 1
     ''AC first period 1 end (min<<8)|hour'' (Some 0) (Some 15127) []),
    (154, hmeta ''ac_first_period_2_start'' ''time'' 1
     ''AC first period 2 start (min<<8)|hour'' (Some 0) (Some 15127) []),
    (155, hmeta ''ac_first_period_2_end'' ''time'' 1
     ''AC first period 2 end (min<<8)|hour'' (Some 0) (Some 15127) []),
    (156, hmeta ''ac_first_period_3_start'' ''time'' 1
     ''AC first period 3 start (min<<8)|hour'' (Some 0) (Some 15127) []),
    (157, hmeta ''ac_first_period_3_end'' ''time'' 1
     ''AC first period 3 end (min<<8)|hour'' (Some 0) (Some 15127) []),
    (158, hmeta ''ac_charge_start_battery_voltage'' ''V'' (dbl (1 / 10))
     ''AC charge start battery voltage'' (Some 0) (Some 600) []),
    (159, hmeta ''ac_charge_end_battery_voltage'' ''V'' (dbl (1 / 10))
     ''AC charge end battery voltage'' (Some 0) (Some 600) []),
    (160, hmeta ''ac_charge_start_battery_soc'' ''%'' 1
     ''AC charge start battery SOC'' (Some 0) (Some 100) []),
    (161, hmeta ''ac_charge_end_battery_soc'' ''%'' 1
     ''AC charge end battery SOC'' (Some 0) (Some 100) []),
    (162, hmeta ''battery_warning_voltage'' ''V'' (dbl (1 / 10))
     ''Battery warning voltage'' (Some 0) (Some 600) []),
    (163, hmeta ''battery_warning_recovery_voltage'' ''V'' (dbl (1 / 10))
     ''Battery warning recovery voltage'' (Some 0) (Some 600) []),
    (164, hmeta ''battery_warning_soc'' ''%'' 1
     ''Battery warning SOC'' (Some 0) (Some 100) []),
    (165, hmeta ''battery_warning_recovery_soc'' ''%'' 1
     ''Battery warning recovery SOC'' (Some 0) (Some 100) []),
    (166, hmeta ''battery_low_to_utility_voltage'' ''V'' (dbl (1 / 10))
     ''Battery low-to-utility voltage'' (Some 0) (Some 600) []),
    (167, hmeta ''battery_low_to_utility_soc'' ''%'' 1
     ''Battery low-to-utility SOC'' (Some 0) (Some 100) []),
    (168, hmeta ''ac_charge_battery_current'' ''A'' 1
     ''AC charge battery current (amps)'' (Some 0) (Some 125) []),
    (169, hmeta ''on_grid_eod_voltage'' ''V'' (dbl (1 / 10))
     ''On-grid end-of-discharge voltage'' (Some 40) (Some 58) []),
    (177, hmeta ''max_generator_input_power'' ''W'' 1
     ''Max generator input power'' (Some 0) (Some 65534) [''generator'']),
    (233, hmeta ''function_enable_5'' '''' 1
     ''Function enable 5 (bitfield: bit0=quick charge start, bit1=battery backup, bit2=maintenance, bit3=7-day work mode, bit4=dry contactor multiplex, bit5=external CT position, bit6=overfrequency f-stop)'' (Some 0) (Some 65535) []),
    (234, hmeta ''quick_charge_duration'' ''min'' 1
     ''Quick charge duration (minutes, 0=stop)'' (Some 0) (Some 1440) []),
    (15, hmeta ''modbus_comm_address'' '''' 1
     ''Modbus communication address'' (Some 0) (Some 150) []),
    (20, hmeta ''pv_input_model'' '''' 1
     ''PV input configuration (0=no PV, 1=PV1, 2=PV2, 3=PV1&2 parallel, 4=PV1&2 separate)'' (Some 0) (Some 7) []),
    (22, hmeta ''pv_start_voltage'' ''V'' (dbl (1 / 10))
     ''PV working starting voltage'' (Some 90) (Some 500) []),
    (23, hmeta ''on_grid_wait_time'' ''s'' 1
     ''On-grid wait time'' (Some 30) (Some 600) []),
    (24, hmeta ''reconnect_wait_time'' ''s'' 1
     ''Reconnect on-grid wait time'' (Some 0) (Some 900) []),
    (25, hmeta ''grid_volt_connect_low'' ''V'' (dbl (1 / 10))
     ''Lower limit of allowed on-grid voltage'' (Some 0) (Some 600) []),
    (26, hmeta ''grid_volt_connect_high'' ''V'' (dbl (1 / 10))
     ''Upper limit of allowed on-grid voltage'' (Some 0) (Some 600) []),
    (27, hmeta ''grid_freq_connect_low'' ''Hz'' (dbl (1 / 100))
     ''Lower limit of allowed on-grid frequency'' (Some 0) (Some 7000) []),
    (28, hmeta ''grid_freq_connect_high'' ''Hz'' (dbl (1 / 100))
     ''Upper limit of allowed on-grid frequency'' (Some 0) (Some 7000) []),
    (29, hmeta ''grid_volt_limit_1_low'' ''V'' (dbl (1 / 10))
     ''Grid voltage level 1 undervoltage protection point'' (Some 0) (Some 600) []),
    (30, hmeta ''grid_volt_limit_1_high'' ''V'' (dbl (1 / 10))
     ''Grid voltage level 1 overvoltage protection point'' (Some 0) (Some 600) []),
    (31, hmeta ''grid_volt_limit_1_low_time'' '''' 1
     ''Grid voltage level 1 undervoltage protection time'' (Some 0) (Some 65535) []),
    (32, hmeta ''grid_volt_limit_1_high_time'' '''' 1
     ''Grid voltage level 1 overvoltage protection time'' (Some 0) (Some 65535) [])]"

definition holding_registers_3 :: "(int \<times> holding_meta) list" where
  "holding_registers_3 = [
    (33, hmeta ''grid_volt_limit_2_low'' ''V'' (dbl (1 / 10))
     ''Grid voltage level 2 undervoltage protection point'' (Some 0) (Some 600) []),
    (34, hmeta ''grid_volt_limit_2_high'' ''V'' (dbl (1 / 10))
     ''Grid voltage level 2 overvoltage protection point'' (Some 0) (Some 600) []),
    (35, hmeta ''grid_volt_limit_2_low_time'' '''' 1
     ''Grid voltage level 2 undervoltage protection time'' (Some 0) (Some 65535) []),
    (36, hmeta ''grid_volt_limit_2_high_time'' '''' 1
     ''Grid voltage level 2 overvoltage protection time'' (Some 0) (Some 65535) []),
    (37, hmeta ''grid_volt_limit_3_low'' ''V'' (dbl (1 / 10))
     ''Grid voltage level 3 undervoltage protection point'' (Some 0) (Some 600) []),
    (38, hmeta ''grid_volt_limit_3_high'' ''V'' (dbl (1 / 10))
     ''Grid voltage level 3 overvoltage protection point'' (Some 0) (Some 600) []),
    (39, hmeta ''grid_volt_limit_3_low_time'' '''' 1
     ''Grid voltage level 3 undervoltage protection time'' (Some 0) (Some 65535) []),
    (40, hmeta ''grid_volt_limit_3_high_time'' '''' 1
     ''Grid voltage level 3 overvoltage protection time'' (Some 0) (Some 65535) []),
    (41, hmeta ''grid_volt_moving_avg_high'' ''V'' (dbl (1 / 10))
     ''Grid voltage sliding average overvoltage protection point'' (Some 0) (Some 600) []),
    (42, hmeta ''grid_freq_limit_1_low'' ''Hz'' (dbl (1 / 100))
     ''Grid frequency level 1 underfrequency protection point'' (Some 0) (Some 7000) []),
    (43, hmeta ''grid_freq_limit_1_high'' ''Hz'' (dbl (1 / 100))
     ''Grid frequency level 1 overfrequency protection point'' (Some 0) (Some 7000) []),
    (44, hmeta ''grid_freq_limit_1_low_time'' '''' 1
     ''Grid frequency level 1 underfrequency protection time'' (Some 0) (Some 65535) []),
    (45, hmeta ''grid_freq_limit_1_high_time'' '''' 1
     ''Grid frequency level 1 overfrequency protection time'' (Some 0) (Some 65535) []),
    (46, hmeta ''grid_freq_limit_2_low'' ''Hz'' (dbl (1 / 100))
     ''Grid frequency level 2 underfrequency protection point'' (Some 0) (Some 7000) []),
    (47, hmeta ''grid_freq_limit_2_high'' ''Hz'' (dbl (1 / 100))
     ''Grid frequency level 2 overfrequency protection point'' (Some 0) (Some 7000) []),
    (48, hmeta ''grid_freq_limit_2_low_time'' '''' 1
     ''Grid frequency level 2 underfrequency protection time'' (Some 0) (Some 65535) []),
    (49, hmeta ''grid_freq_limit_2_high_time'' '''' 1
     ''Grid frequency level 2 overfrequency protection time'' (Some 0) (Some 65535) []),
    (50, hmeta ''grid_freq_limit_3_low'' ''Hz'' (dbl (1 / 100))
     ''Grid frequency level 3 underfrequency protection point'' (Some 0) (Some 7000) []),
    (51, hmeta ''grid_freq_limit_3_high'' ''Hz'' (dbl (1 / 100))
     ''Grid frequency level 3 overfrequency protection point'' (Some 0) (Some 7000) []),
    (52, hmeta ''grid_freq_limit_3_low_time'' '''' 1
     ''Grid frequency level 3 underfrequency protection time'' (Some 0) (Some 65535) []),
    (53, hmeta ''grid_freq_limit_3_high_time'' '''' 1
     ''Grid frequency level 3 overfrequency protection time'' (Some 0) (Some 65535) []),
    (54, hmeta ''qv_max_q_percent'' ''%'' 1
     ''Max Q% for Q(V) curve'' (Some 0) (Some 100) [''qv_curve'']),
    (55, hmeta ''qv_curve_v2l'' ''V'' (dbl (1 / 10))
     ''Q(V) curve V2L'' (Some 0) (Some 600) [''qv_curve'']),
    (56, hmeta ''qv_curve_v1l'' ''V'' (dbl (1 / 10))
     ''Q(V) curve V1L'' (Some 0) (Some 600) [''qv_curve'']),
    (57, hmeta ''qv_curve_v1h'' ''V'' (dbl (1 / 10))
     ''Q(V) curve V1H'' (Some 0) (Some 600) [''qv_curve'']),
    (58, hmeta ''qv_curve_v2h'' ''V'' (dbl (1 / 10))
     ''Q(V) curve V2H'' (Some 0) (Some 600) [''qv_curve'']),
    (59, hmeta ''reactive_power_command_type'' '''' 1
     ''Reactive power command type (0-7)'' (Some 0) (Some 7) []),
    (92, hmeta ''cosphi_p_lock_in_voltage'' ''V'' (dbl (1 / 10))
     ''cosphi(P) lock-in voltage'' (Some 230) (Some 300) [''qp_curve'']),
    (93, hmeta ''cosphi_p_lock_out_voltage'' ''V'' (dbl (1 / 10))
     ''cosphi(P) lock-out voltage'' (Some 150) (Some 300) [''qp_curve'']),
    (94, hmeta ''qv_lock_in_power'' ''%'' 1
     ''Q(V) lock-in power'' (Some 0) (Some 100) [''qv_curve'']),
    (95, hmeta ''qv_lock_out_power'' ''%'' 1
     ''Q(V) lock-out power'' (Some 0) (Some 100) [''qv_curve'']),
    (96, hmeta ''qv_delay'' '''' 1
     ''Q(V) delay (main period)'' (Some 0) (Some 2000) [''qv_curve'']),
    (97, hmeta ''overfrequency_derate_delay'' '''' 1
     ''Overfrequency derate delay (main period)'' (Some 0) (Some 1000) []),
    (106, hmeta ''lead_acid_discharge_temp_low'' ([CHR 0xC2, CHR 0xB0] @ ''C'') (dbl (1 / 10))
     ''Lead-acid discharge temperature low (signed)'' (Some (- 200)) (Some 600) []),
    (107, hmeta ''lead_acid_discharge_temp_high'' ([CHR 0xC2, CHR 0xB0] @ ''C'') (dbl (1 / 10))
     ''Lead-acid discharge temperature high'' (Some 0) (Some 600) []),
    (108, hmeta ''lead_acid_charge_temp_low'' ([CHR 0xC2, CHR 0xB0] @ ''C'') (dbl (1 / 10))
     ''Lead-acid charge temperature low (signed)'' (Some (- 200)) (Some 600) []),
    (109, hmeta ''lead_acid_charge_temp_high'' ([CHR 0xC2, CHR 0xB0] @ ''C'') (dbl (1 / 10))
     ''Lead-acid charge temperature high'' (Some 0) (Some 600) []),
    (112, hmeta ''system_type'' '''' 1
     ''System type (0=single, 1=parallel P, 2=parallel S, 3=3-phase M, 4=2x208 M)'' (Some 0) (Some 4) []),
    (115, hmeta ''overfrequency_derate_start'' ''Hz'' (dbl (1 / 100))
     ''Overfrequency derate start'' (Some 5000) (Some 5200) []),
    (116, hmeta ''start_discharge_threshold'' ''W'' 1
     ''Start discharge threshold'' (Some 0) (Some 65535) [])]"

definition holding_registers_4 :: "(int \<times> holding_meta) list" where
  "holding_registers_4 = [
    (117, hmeta ''start_charge_threshold'' ''W'' 1
     ''Start charge threshold (signed)'' (Some (- 65535)) (Some 65535) []),
    (118, hmeta ''battery_voltage_derate_start'' ''V'' (dbl (1 / 10))
     ''Battery voltage derate start'' (Some 0) (Some 600) []),
    (119, hmeta ''external_ct_power_offset'' ''W'' 1
     ''External CT power offset (signed)'' (Some (- 65535)) (Some 65535) []),
    (124, hmeta ''overfrequency_derate_end'' ''Hz'' (dbl (1 / 100))
     ''Overfrequency derate end'' (Some 5000) (Some 5200) []),
    (132, hmeta ''battery_cell_voltage_limit'' ''V'' (dbl (1 / 10))
     ''Battery cell voltage limit'' (Some 0) (Some 600) []),
    (133, hmeta ''battery_cell_count'' '''' 1
     ''Battery cell count (series/parallel)'' (Some 0) (Some 65535) []),
    (134, hmeta ''underfrequency_derate_start'' ''Hz'' (dbl (1 / 100))
     ''Underfrequency derate start'' (Some 4500) (Some 5000) []),
    (135, hmeta ''underfrequency_derate_end'' ''Hz'' (dbl (1 / 100))
     ''Underfrequency derate end'' (Some 4500) (Some 5000) []),
    (136, hmeta ''underfrequency_derate_ratio'' ''%Pm/Hz'' 1
     ''Underfrequency derate ratio'' (Some 1) (Some 100) []),
    (137, hmeta ''specific_load_compensation'' ''W'' 1
     ''Specific load compensation'' (Some 0) (Some 65535) []),
    (138, hmeta ''charge_power_percent_precise'' ''%'' (dbl (1 / 10))
     ''Charge power % (precise)'' (Some 0) (Some 100) []),
    (139, hmeta ''discharge_power_percent_precise'' ''%'' (dbl (1 / 10))
     ''Discharge power % (precise)'' (Some 0) (Some 100) []),
    (140, hmeta ''ac_charge_percent_precise'' ''%'' (dbl (1 / 10))
     ''AC charge % (precise)'' (Some 0) (Some 100) []),
    (141, hmeta ''charge_priority_percent_precise'' ''%'' (dbl (1 / 10))
     ''Charge priority % (precise)'' (Some 0) (Some 100) []),
    (142, hmeta ''forced_discharge_percent_precise'' ''%'' (dbl (1 / 10))
     ''Forced discharge % (precise)'' (Some 0) (Some 100) []),
    (143, hmeta ''active_power_percent_precise'' ''%'' (dbl (1 / 10))
     ''Active power % (precise)'' (Some 0) (Some 100) []),
    (145, hmeta ''output_priority'' '''' 1
     ''Output priority (0=battery, 1=PV, 2=AC)'' (Some 0) (Some 2) []),
    (171, hmeta ''soc_curve_battery_volt_1'' ''V'' (dbl (1 / 10))
     ''SOC curve battery voltage 1'' (Some 40) (Some 60) []),
    (172, hmeta ''soc_curve_battery_volt_2'' ''V'' (dbl (1 / 10))
     ''SOC curve battery voltage 2'' (Some 40) (Some 60) []),
    (173, hmeta ''soc_curve_soc_1'' ''%'' 1
     ''SOC curve SOC 1'' (Some 0) (Some 100) []),
    (174, hmeta ''soc_curve_soc_2'' ''%'' 1
     ''SOC curve SOC 2'' (Some 0) (Some 100) []),
    (175, hmeta ''battery_inner_resistance'' ([CHR 0xC2, CHR 0xB5, CHR 0xCE, CHR 0xA9]) 1
     ''Battery inner resistance'' (Some 0) (Some 100) []),
    (176, hmeta ''max_grid_import_power'' ''kW'' (dbl (1 / 10))
     ''Max grid import power'' (Some 0) (Some 6553) []),
    (180, hmeta ''afci_arc_threshold'' ''A'' 1
     ''AFCI arc threshold'' (Some 0) (Some 65535) [''afci'']),
    (181, hmeta ''voltwatt_v1'' ''V'' (dbl (1 / 10))
     ''VoltWatt V1'' (Some 0) (Some 600) [''volt_watt'']),
    (182, hmeta ''voltwatt_v2'' ''V'' (dbl (1 / 10))
     ''VoltWatt V2'' (Some 0) (Some 600) [''volt_watt'']),
    (183, hmeta ''voltwatt_delay'' ''ms'' 1
     ''VoltWatt delay'' (Some 500) (Some 60000) [''volt_watt'']),
    (184, hmeta ''voltwatt_p2'' ''%'' 1
     ''VoltWatt P2'' (Some 0) (Some 100) [''volt_watt'']),
    (185, hmeta ''vref_qv'' ''V'' (dbl (1 / 10))
     ''Vref QV'' (Some 0) (Some 600) [''qv_curve'']),
    (186, hmeta ''vref_filter_time'' ''s'' 1
     ''Vref filter time'' (Some 0) (Some 65535) [''qv_curve'']),
    (187, hmeta ''q3_qv'' ''%'' 1
     ''Q3 QV'' (Some 0) (Some 100) [''qv_curve'']),
    (188, hmeta ''q4_qv'' ''%'' 1
     ''Q4 QV'' (Some 0) (Some 100) [''qv_curve'']),
    (189, hmeta ''qp_curve_p1'' ''%'' 1
     ''QP curve P1'' (Some 0) (Some 100) [''qp_curve'']),
    (190, hmeta ''qp_curve_p2'' ''%'' 1
     ''QP curve P2'' (Some 0) (Some 100) [''qp_curve'']),
    (191, hmeta ''qp_curve_p3'' ''%'' 1
     ''QP curve P3'' (Some 0) (Some 100) [''qp_curve'']),
    (192, hmeta ''qp_curve_p4'' ''%'' 1
     ''QP curve P4'' (Some 0) (Some 100) [''qp_curve'']),
    (193, hmeta ''underfrequency_ramp_rate'' ''%Pm/Hz'' 1
     ''Underfrequency ramp rate'' (Some 1) (Some 100) []),
    (194, hmeta ''generator_charge_start_voltage'' ''V'' (dbl (1 / 10))
     ''Generator charge start voltage'' (Some 384) (Some 520) [''generator'']),
    (195, hmeta ''generator_charge_end_voltage'' ''V'' (dbl (1 / 10))
     ''Generator charge end voltage'' (Some 480) (Some 590) [''generator'']),
    (196, hmeta ''generator_charge_start_soc'' ''%'' 1
     ''Generator charge start SOC'' (Some 0) (Some 90) [''generator''])]"

definition holding_registers_5 :: "(int \<times> holding_meta) list" where
  "holding_registers_5 = [
    (197, hmeta ''generator_charge_end_soc'' ''%'' 1
     ''Generator charge end SOC'' (Some 20) (Some 100) [''generator'']),
    (198, hmeta ''max_generator_charge_current'' ''A'' 1
     ''Max generator charge current'' (Some 0) (Some 60) [''generator'']),
    (199, hmeta ''overtemperature_derate_point'' ([CHR 0xC2, CHR 0xB0] @ ''C'') (dbl (1 / 10))
     ''Overtemperature derate point'' (Some 60) (Some 90) []),
    (201, hmeta ''charge_priority_end_voltage'' ''V'' (dbl (1 / 10))
     ''Charge priority end voltage'' (Some 480) (Some 595) []),
    (202, hmeta ''forced_discharge_end_voltage'' ''V'' (dbl (1 / 10))
     ''Forced discharge end voltage'' (Some 400) (Some 560) []),
    (204, hmeta ''lead_acid_capacity'' ''Ah'' 1
     ''Lead-acid capacity'' (Some 50) (Some 5000) []),
    (205, hmeta ''grid_type'' '''' 1
     ''Grid type (split/3-phase)'' (Some 0) (Some 1) []),
    (206, hmeta ''grid_peak_shaving_power'' ''W'' 1
     ''Grid peak shaving power'' (Some 0) (Some 65535) [''grid_peak_shaving'']),
    (207, hmeta ''grid_peak_shaving_soc'' ''%'' 1
     ''Grid peak shaving SOC'' (Some 0) (Some 100) [''grid_peak_shaving'']),
    (208, hmeta ''grid_peak_shaving_voltage'' ''V'' (dbl (1 / 10))
     ''Grid peak shaving voltage'' (Some 480) (Some 590) [''grid_peak_shaving'']),
    (209, hmeta ''peak_shaving_period_1_start'' ''time'' 1
     ''Peak shaving period 1 start'' (Some 0) (Some 15127) [''grid_peak_shaving'']),
    (210, hmeta ''peak_shaving_period_1_end'' ''time'' 1
     ''Peak shaving period 1 end'' (Some 0) (Some 15127) [''grid_peak_shaving'']),
    (211, hmeta ''peak_shaving_period_2_start'' ''time'' 1
     ''Peak shaving period 2 start'' (Some 0) (Some 15127) [''grid_peak_shaving'']),
    (212, hmeta ''peak_shaving_period_2_end'' ''time'' 1
     ''Peak shaving period 2 end'' (Some 0) (Some 15127) [''grid_peak_shaving'']),
    (213, hmeta ''smart_load_on_voltage'' ''V'' (dbl (1 / 10))
     ''Smart load on voltage'' (Some 480) (Some 590) [''smart_load'']),
    (214, hmeta ''smart_load_off_voltage'' ''V'' (dbl (1 / 10))
     ''Smart load off voltage'' (Some 400) (Some 520) [''smart_load'']),
    (215, hmeta ''smart_load_on_soc'' ''%'' 1
     ''Smart load on SOC'' (Some 0) (Some 100) [''smart_load'']),
    (216, hmeta ''smart_load_off_soc'' ''%'' 1
     ''Smart load off SOC'' (Some 0) (Some 100) [''smart_load'']),
    (217, hmeta ''start_pv_power'' ''kW'' (dbl (1 / 10))
     ''Start PV power'' (Some 0) (Some 12) []),
    (218, hmeta ''grid_peak_shaving_soc_1'' ''%'' 1
     ''Grid peak shaving SOC 1'' (Some 0) (Some 100) [''grid_peak_shaving'']),
    (219, hmeta ''grid_peak_shaving_volt_1'' ''V'' (dbl (1 / 10))
     ''Grid peak shaving voltage 1'' (Some 480) (Some 590) [''grid_peak_shaving'']),
    (220, hmeta ''ac_couple_start_soc'' ''%'' 1
     ''AC couple start SOC'' (Some 0) (Some 100) [''ac_couple'']),
    (221, hmeta ''ac_couple_end_soc'' ''%'' 1
     ''AC couple end SOC'' (Some 0) (Some 255) [''ac_couple'']),
    (222, hmeta ''ac_couple_start_volt'' ''V'' (dbl (1 / 10))
     ''AC couple start voltage'' (Some 400) (Some 595) [''ac_couple'']),
    (223, hmeta ''ac_couple_end_volt'' ''V'' (dbl (1 / 10))
     ''AC couple end voltage'' (Some 420) (Some 800) [''ac_couple'']),
    (227, hmeta ''battery_stop_charge_soc'' ''%'' 1
     ''Battery stop charge SOC'' (Some 10) (Some 101) []),
    (228, hmeta ''battery_stop_charge_voltage'' ''V'' (dbl (1 / 10))
     ''Battery stop charge voltage'' (Some 400) (Some 595) []),
    (232, hmeta ''grid_peak_shaving_power_1'' ''W'' 1
     ''Grid peak shaving power 1'' (Some 0) (Some 65535) [''grid_peak_shaving'']),
    (235, hmeta ''no_full_charge_day_config'' '''' 1
     ''No-full-charge day config'' (Some 0) (Some 65535) []),
    (236, hmeta ''float_charge_threshold'' ''C'' (dbl (1 / 100))
     ''Float charge threshold'' (Some 1) (Some 255) []),
    (237, hmeta ''generator_cooldown_time'' ''min'' (dbl (1 / 10))
     ''Generator cool-down time'' (Some 1) (Some 255) [''generator'']),
    (242, hmeta ''npe_threshold'' ''V'' (dbl (1 / 10))
     ''NPE threshold'' (Some 0) (Some 65535) []),
    (248, hmeta ''wattnode_ct_amps_phase_1'' ''A'' 1
     ''WattNode CT amps phase 1'' (Some 0) (Some 65535) [''wattnode'']),
    (249, hmeta ''wattnode_ct_amps_phase_2'' ''A'' 1
     ''WattNode CT amps phase 2'' (Some 0) (Some 65535) [''wattnode'']),
    (250, hmeta ''wattnode_ct_amps_phase_3'' ''A'' 1
     ''WattNode CT amps phase 3'' (Some 0) (Some 65535) [''wattnode'']),
    (252, hmeta ''nec_120_bus_bar_limit'' ''W'' 1
     ''NEC 120% bus bar limit'' (Some 0) (Some 65535) []),
    (253, hmeta ''soc_delta_hysteresis'' ''%'' 1
     ''SOC delta/hysteresis'' (Some 0) (Some 100) []),
    (254, hmeta ''voltage_delta_hysteresis'' ''V'' (dbl (1 / 10))
     ''Voltage delta/hysteresis'' (Some 0) (Some 100) []),
    (260, hmeta ''bus_voltage_high_limit'' ''V'' (dbl (1 / 10))
     ''Bus voltage high limit'' (Some 0) (Some 800) []),
    (261, hmeta ''discharge_recovery'' ''%'' 1
     ''Discharge recovery'' (Some 0) (Some 100) [])]"

definition holding_registers_6 :: "(int \<times> holding_meta) list" where
  "holding_registers_6 = [
    (21, hmeta ''function_enable_1'' '''' 1
     ''Function enable 1 (bitfield: EPS, derate, DRMS, LVRT, anti-island, neutral detect, soft start, AC charge, seamless switch, standby, forced dischg/chg, ISO, GFCI, DCI, grid export)'' (Some 0) (Some 65535) []),
    (110, hmeta ''function_enable_3'' '''' 1
     ''Function enable 3 (bitfield: PV grid-off, fast zero-export, micro-grid, battery shared, charge-last, CT sample ratio, buzzer, PV CT type, take-load-together, on-grid mode, green/eco mode)'' (Some 0) (Some 65535) []),
    (120, hmeta ''system_enable_2'' '''' 1
     ''System enable 2 (bitfield of system-level toggles)'' (Some 0) (Some 65535) []),
    (179, hmeta ''function_enable_4'' '''' 1
     ''Function enable 4 (bitfield of function toggles)'' (Some 0) (Some 65535) []),
    (126, hmeta ''optimal_chg_dischg_0_3'' '''' 1
     ''Optimal charge/discharge marks 00:00-03:30 (2 bits per half-hour: 0=off, 1=AC chg, 2=PV chg, 3=dischg)'' (Some 0) (Some 65535) []),
    (127, hmeta ''optimal_chg_dischg_4_7'' '''' 1
     ''Optimal charge/discharge marks 04:00-07:30'' (Some 0) (Some 65535) []),
    (128, hmeta ''optimal_chg_dischg_8_11'' '''' 1
     ''Optimal charge/discharge marks 08:00-11:30'' (Some 0) (Some 65535) []),
    (129, hmeta ''optimal_chg_dischg_12_15'' '''' 1
     ''Optimal charge/discharge marks 12:00-15:30'' (Some 0) (Some 65535) []),
    (130, hmeta ''optimal_chg_dischg_16_19'' '''' 1
     ''Optimal charge/discharge marks 16:00-19:30'' (Some 0) (Some 65535) []),
    (131, hmeta ''optimal_chg_dischg_20_23'' '''' 1
     ''Optimal charge/discharge marks 20:00-23:30'' (Some 0) (Some 65535) []),
    (203, hmeta ''grid_regulation'' '''' 1
     ''Grid regulation settings (bitfield)'' (Some 0) (Some 65535) []),
    (225, hmeta ''lcd_password'' '''' 1
     ''LCD advanced-page password'' (Some 0) (Some 65535) []),
    (230, hmeta ''meter_config'' '''' 1
     ''Meter config (meter count, measure type, install phase)'' (Some 0) (Some 65535) [''wattnode'']),
    (251, hmeta ''wattnode_ct_directions'' '''' 1
     ''WattNode CT direction and frequency settings (bitfield)'' (Some 0) (Some 65535) [''wattnode'']),
    (256, hmeta ''generator_start_time'' ''time'' 1
     ''Generator start time (hour+minute)'' (Some 0) (Some 15127) [''generator'']),
    (257, hmeta ''generator_end_time'' ''time'' 1
     ''Generator end time (hour+minute)'' (Some 0) (Some 15127) [''generator'']),
    (258, hmeta ''generator_start_time_1'' ''time'' 1
     ''Generator period 1 start time (hour+minute)'' (Some 0) (Some 15127) [''generator'']),
    (259, hmeta ''generator_end_time_1'' ''time'' 1
     ''Generator period 1 end time (hour+minute)'' (Some 0) (Some 15127) [''generator''])]"

definition holding_literal :: "(int \<times> holding_meta) list" where
  "holding_literal = holding_registers_1 @ holding_registers_2 @ holding_registers_3
     @ holding_registers_4 @ holding_registers_5 @ holding_registers_6"

subsection \<open>The seven-day schedule block\<close>

text \<open>\<^verbatim>\<open>str.title()\<close> on ASCII text: a letter is upper case after a non-letter and lower case after a letter.\<close>

definition is_lower :: "char \<Rightarrow> bool" where
  "is_lower c \<longleftrightarrow> 97 \<le> char_code c \<and> char_code c \<le> 122"

definition is_upper :: "char \<Rightarrow> bool" where
  "is_upper c \<longleftrightarrow> 65 \<le> char_code c \<and> char_code c \<le> 90"

definition to_upper :: "char \<Rightarrow> char" where
  "to_upper c = (if is_lower c then char_of (char_code c - 32) else c)"

definition to_lower :: "char \<Rightarrow> char" where
  "to_lower c = (if is_upper c then char_of (char_code c + 32) else c)"

fun title_from :: "bool \<Rightarrow> string \<Rightarrow> string" where
  "title_from prev [] = []"
| "title_from prev (c # cs) = (if prev then to_lower c else to_upper c)
     # title_from (is_lower c \<or> is_upper c) cs"

definition py_title :: "string \<Rightarrow> string" where
  "py_title s = title_from False s"

definition replace_underscores :: "string \<Rightarrow> string" where
  "replace_underscores s = map (\<lambda>c. if c = CHR ''_'' then CHR '' '' else c) s"

definition DAYS :: "string list" where
  "DAYS = [''mon'', ''tue'', ''wed'', ''thu'', ''fri'', ''sat'', ''sun'']"

definition SCHEDULE_MODULES :: "(string \<times> int \<times> string) list" where
  "SCHEDULE_MODULES = [
    (''ac_charge'', 500, ''% / SOC''),
    (''forced_charge'', 556, ''A / SOC''),
    (''forced_discharge'', 612, ''A / SOC''),
    (''peak_shaving'', 668, ''W / SOC'')]"

definition seven_day_period :: "string \<Rightarrow> int \<Rightarrow> string \<Rightarrow> nat \<Rightarrow> string \<Rightarrow> nat \<Rightarrow> (int \<times> holding_meta) list" where
  "seven_day_period modname base power_unit day_idx day period =
    (let day_base = base + int day_idx * 8;
         period_base = day_base + (int period - 1) * 4;
         p = (if period = 1 then ''1'' else ''2'');
         stem = modname @ ''_schedule_'' @ day @ ''_p'' @ p;
         human = py_title (replace_underscores modname) @ '' '' @ py_title day @ '' period '' @ p
     in [(period_base + 0, hmeta (stem @ ''_power_soc'') power_unit 1
            (human @ '' power/SOC setpoint'') (Some 0) (Some 65535) [''seven_day_schedule'']),
         (period_base + 1, hmeta (stem @ ''_voltage'') ''V'' (dbl (1 / 10))
            (human @ '' voltage'') (Some 0) (Some 6000) [''seven_day_schedule'']),
         (period_base + 2, hmeta (stem @ ''_start'') ''time'' 1
            (human @ '' start (min<<8)|hour'') (Some 0) (Some 15127) [''seven_day_schedule'']),
         (period_base + 3, hmeta (stem @ ''_end'') ''time'' 1
            (human @ '' end (min<<8)|hour'') (Some 0) (Some 15127) [''seven_day_schedule''])])"

definition seven_day_registers :: "(int \<times> holding_meta) list" where
  "seven_day_registers = concat (map (\<lambda>(modname, base, power_unit).
     concat (map (\<lambda>(day_idx, day).
       concat (map (\<lambda>period. seven_day_period modname base power_unit day_idx day period) [1, 2]))
       (zip [0..<7] DAYS)))
     SCHEDULE_MODULES)"

text \<open>\<^verbatim>\<open>HOLDING_REGISTERS.update(_SEVEN_DAY_REGISTERS)\<close>.\<close>

definition HOLDING_REGISTERS :: "(int \<times> holding_meta) list" where
  "HOLDING_REGISTERS = foldl (\<lambda>m kv. AList.update (fst kv) (snd kv) m) holding_literal seven_day_registers"

subsection \<open>Labels and reverse lookup\<close>

definition HOLDING_LABELS :: "(string \<times> string) list" where
  "HOLDING_LABELS = [
    (''lead_acid_charge_voltage'', ''Absorption charge voltage''),
    (''floating_voltage'', ''Float charge voltage''),
    (''lead_acid_charge_rate'', ''Max charge current''),
    (''ac_charge_battery_current'', ''Grid charge current''),
    (''lead_acid_discharge_rate'', ''Max discharge current''),
    (''lead_acid_discharge_cut_voltage'', ''Stop discharge voltage''),
    (''battery_warning_voltage'', ''Warning start voltage''),
    (''battery_warning_recovery_voltage'', ''Warning recovery voltage''),
    (''battery_low_to_utility_voltage'', ''Shutdown battery voltage''),
    (''on_grid_eod_voltage'', ''On-grid end-of-discharge voltage''),
    (''ac_charge_start_battery_voltage'', ''Grid charge start voltage''),
    (''ac_charge_end_battery_voltage'', ''Grid charge stop voltage''),
    (''ac_charge_start_battery_soc'', ''Grid charge start capacity''),
    (''ac_charge_end_battery_soc'', ''Grid charge stop capacity''),
    (''battery_warning_soc'', ''Warning start capacity''),
    (''battery_warning_recovery_soc'', ''Warning recovery capacity''),
    (''battery_low_to_utility_soc'', ''Shutdown battery capacity''),
    (''discharge_cutoff_soc_eod'', ''Stop discharge capacity''),
    (''soc_low_limit_eps_discharge'', ''SOC low limit (EPS discharge)''),
    (''equalization_voltage'', ''Equalization voltage''),
    (''equalization_period'', ''Equalization period''),
    (''equalization_time'', ''Equalization time''),
    (''ac_input_range'', ''AC input range''),
    (''battery_capacity'', ''Battery capacity''),
    (''nominal_battery_voltage'', ''Nominal battery voltage''),
    (''max_generator_input_power'', ''Generator power''),
    (''function_enable_5'', (''Function enable 5 (quick charge, 7-day mode, '' @ [CHR 0xE2, CHR 0x80, CHR 0xA6] @ '')'')),
    (''quick_charge_duration'', ''Quick charge duration''),
    (''forced_charge_power'', ''Forced charge current''),
    (''forced_discharge_power'', ''Forced discharge current''),
    (''feed_in_grid_power_percent'', ''Export power rate''),
    (''active_power_percent'', ''Active power command''),
    (''reactive_power_percent'', ''Reactive power command''),
    (''power_factor_command'', ''Power factor command''),
    (''charge_power_percent'', ''Charge power command''),
    (''discharge_power_percent'', ''Discharge power command''),
    (''ac_charge_power_percent'', ''AC charge power command''),
    (''ac_charge_soc_limit'', ''AC charge SOC limit''),
    (''forced_charge_soc_limit'', ''Forced charge SOC limit''),
    (''forced_discharge_soc_limit'', ''Forced discharge SOC limit''),
    (''soft_start_slope'', ''Soft start slope''),
    (''eps_voltage_set'', ''EPS output voltage''),
    (''eps_frequency_set'', ''EPS output frequency'')]"

text \<open>The dictionary comprehension keeps the last register of a repeated name.\<close>

definition HOLDING_BY_NAME :: "(string \<times> int) list" where
  "HOLDING_BY_NAME = foldl (\<lambda>m (reg, info). AList.update (hm_name info) reg m) [] HOLDING_REGISTERS"

definition holding_label :: "string \<Rightarrow> string result" where
  "holding_label name =
     (case map_of HOLDING_LABELS name of
        Some l \<Rightarrow> Inr l
      | None \<Rightarrow> (case map_of HOLDING_BY_NAME name of
          Some reg \<Rightarrow> (case map_of HOLDING_REGISTERS reg of
              Some info \<Rightarrow> Inr (hm_desc info)
            | None \<Rightarrow> Inl KeyError)
        | None \<Rightarrow> Inr name))"

end
