(* ===== verification/Holding_Facts.thy ===== *)
theory Holding_Facts
  imports Holding
begin

text \<open>
  What the rest of the development relies on about the register tables: the numbers and the names of
  the holding registers are distinct, the seven-day block is exactly registers 500 to 723, lookup by
  name inverts the name of a register, and every entry has one of the three scales of the family.
  Names are compared through a numeric key, so that the kernel evaluates one number per name and
  compares numbers.
\<close>

lemmas holding_rows =
  holding_registers_1_def holding_registers_2_def holding_registers_3_def
  holding_registers_4_def holding_registers_5_def holding_registers_6_def

subsection \<open>Register numbers\<close>

lemma literal_regs_below_500: "list_all (\<lambda>r. 0 \<le> r \<and> r < 500) (map fst holding_literal)"
  by (simp add: holding_literal_def holding_rows)

lemma distinct_literal_regs: "distinct (map fst holding_literal)"
  by (simp add: holding_literal_def holding_rows)

lemma literal_caps: "list_all (\<lambda>i. \<not> List.member (hm_caps i) ''seven_day_schedule'') (map snd holding_literal)"
  by (simp add: holding_literal_def holding_rows)

lemma literal_scales: "list_all (\<lambda>i. hm_scale i \<in> {1, dbl (1 / 10), dbl (1 / 100)}) (map snd holding_literal)"
  by (simp add: holding_literal_def holding_rows)

lemma literal_bounds: "list_all (\<lambda>i. \<exists>lo hi. hm_min i = Some lo \<and> hm_max i = Some hi \<and> - 65535 \<le> lo \<and> lo \<le> hi \<and> hi \<le> 65535)
    (map snd holding_literal)"
  by (simp add: holding_literal_def holding_rows)

subsection \<open>The seven-day block\<close>

lemma seven_day_registers_regs: "map fst seven_day_registers = [500..723]"
proof -
  have "map fst (concat (map (\<lambda>(day_idx, day).
       concat (map (\<lambda>period. seven_day_period m base u day_idx day period) [1, 2])) (zip [0..<7] DAYS)))
     = [base..base + 55]" for m base u
    by (simp add: DAYS_def upt_rec seven_day_period_def Let_def upto_rec1)
  then show ?thesis
    by (simp add: seven_day_registers_def SCHEDULE_MODULES_def)
qed

lemma foldl_update_fresh:
  assumes "distinct (map fst ys)" and "set (map fst xs) \<inter> set (map fst ys) = {}"
  shows "foldl (\<lambda>m kv. AList.update (fst kv) (snd kv) m) xs ys = xs @ ys"
  using assms
proof (induction ys arbitrary: xs)
  case (Cons y ys)
  have fresh: "AList.update k v xs = xs @ [(k, v)]" if "k \<notin> set (map fst xs)" for k v
    using that by (induction xs) auto
  have "foldl (\<lambda>m kv. AList.update (fst kv) (snd kv) m) (xs @ [y]) ys = (xs @ [y]) @ ys"
    using Cons.prems by (intro Cons.IH) auto
  then show ?case
    using Cons.prems by (simp add: fresh)
qed simp

lemma set_seven_day_regs: "set (map fst seven_day_registers) = {500..723}"
  by (simp only: seven_day_registers_regs set_upto)

lemma set_literal_regs: "r \<in> set (map fst holding_literal) \<Longrightarrow> 0 \<le> r \<and> r < 500"
  using literal_regs_below_500 unfolding list_all_iff by blast

lemma literal_seven_disjoint: "set (map fst holding_literal) \<inter> set (map fst seven_day_registers) = {}"
  unfolding set_seven_day_regs disjoint_iff
  by (meson atLeastAtMost_iff linorder_not_less set_literal_regs)

lemma distinct_seven_day_regs: "distinct (map fst seven_day_registers)"
  by (simp only: seven_day_registers_regs distinct_upto)

lemma HOLDING_REGISTERS_eq: "HOLDING_REGISTERS = holding_literal @ seven_day_registers"
  unfolding HOLDING_REGISTERS_def
  by (rule foldl_update_fresh [OF distinct_seven_day_regs literal_seven_disjoint])

lemma distinct_HOLDING_REGISTERS: "distinct (map fst HOLDING_REGISTERS)"
  unfolding HOLDING_REGISTERS_eq map_append distinct_append
  using distinct_literal_regs distinct_seven_day_regs literal_seven_disjoint by blast

subsection \<open>Register names\<close>

fun name_key :: "string \<Rightarrow> nat" where
  "name_key [] = 0"
| "name_key (c # cs) = of_char c + 256 * name_key cs"

lemma distinct_by_key: "distinct (map name_key xs) \<Longrightarrow> distinct xs"
  by (simp add: distinct_map)

lemma distinct_literal_names: "distinct (map (\<lambda>(r, i). hm_name i) holding_literal)"
proof (rule distinct_by_key)
  show "distinct (map name_key (map (\<lambda>(r, i). hm_name i) holding_literal))"
    by (simp add: holding_literal_def holding_rows)
qed

text \<open>A seven-day name is its module's name followed by one of 56 day, period and field suffixes.\<close>

definition seven_day_suffixes :: "string list" where
  "seven_day_suffixes = concat (map (\<lambda>day. concat (map (\<lambda>p. map (\<lambda>f. ''_schedule_'' @ day @ ''_p'' @ p @ f)
     [''_power_soc'', ''_voltage'', ''_start'', ''_end'']) [''1'', ''2''])) DAYS)"

definition module_names :: "string list" where
  "module_names = [''ac_charge'', ''forced_charge'', ''forced_discharge'', ''peak_shaving'']"

lemma seven_day_names:
  "map (\<lambda>(r, i). hm_name i) seven_day_registers
     = concat (map (\<lambda>m. map (\<lambda>s. m @ s) seven_day_suffixes) module_names)"
proof -
  have "map (\<lambda>(r, i). hm_name i) (concat (map (\<lambda>(day_idx, day).
       concat (map (\<lambda>period. seven_day_period m base u day_idx day period) [1, 2])) (zip [0..<7] DAYS)))
     = map (\<lambda>s. m @ s) seven_day_suffixes" for m base u
    by (simp add: DAYS_def upt_rec seven_day_period_def Let_def seven_day_suffixes_def)
  then show ?thesis
    by (simp add: seven_day_registers_def SCHEDULE_MODULES_def module_names_def)
qed

lemma distinct_seven_day_suffixes: "distinct seven_day_suffixes"
proof (rule distinct_by_key)
  show "distinct (map name_key seven_day_suffixes)"
    by (simp add: seven_day_suffixes_def DAYS_def)
qed

lemma distinct_seven_day_names: "distinct (map (\<lambda>(r, i). hm_name i) seven_day_registers)"
proof -
  have inj: "distinct (map (\<lambda>s. m @ s) seven_day_suffixes)" for m
    by (simp add: distinct_map distinct_seven_day_suffixes inj_on_def)
  have apart: "x \<noteq> y" if "x \<in> (\<lambda>s. m @ s) ` set seven_day_suffixes" "y \<in> (\<lambda>s. n @ s) ` set seven_day_suffixes"
      "take 8 m \<noteq> take 8 n" "8 \<le> length m" "8 \<le> length n" for x y m n
    using that by (auto dest: arg_cong [where f = "take 8"])
  show ?thesis
    unfolding seven_day_names
    by (simp add: module_names_def inj) (intro conjI equals0I; fastforce dest: apart)
qed

definition schedule_name :: "string \<Rightarrow> bool" where
  "schedule_name s \<longleftrightarrow> list_ex (\<lambda>m. take (length m + 10) s = m @ ''_schedule_'') module_names"

lemma literal_not_schedule: "list_all (\<lambda>(r, i). \<not> schedule_name (hm_name i)) holding_literal"
  by (simp add: holding_literal_def holding_rows schedule_name_def module_names_def)

lemma seven_day_schedule_name: "s \<in> set (map (\<lambda>(r, i). hm_name i) seven_day_registers) \<Longrightarrow> schedule_name s"
  unfolding seven_day_names
  by (auto simp: schedule_name_def module_names_def seven_day_suffixes_def DAYS_def)

lemma distinct_holding_names: "distinct (map (\<lambda>(r, i). hm_name i) HOLDING_REGISTERS)"
proof -
  have "\<not> schedule_name s" if "s \<in> set (map (\<lambda>(r, i). hm_name i) holding_literal)" for s
    using that literal_not_schedule by (auto simp: list_all_iff)
  then show ?thesis
    unfolding HOLDING_REGISTERS_eq map_append distinct_append
    using distinct_literal_names distinct_seven_day_names seven_day_schedule_name by blast
qed

lemma HOLDING_BY_NAME_eq: "HOLDING_BY_NAME = map (\<lambda>(r, i). (hm_name i, r)) HOLDING_REGISTERS"
proof -
  have "foldl (\<lambda>m (reg, info). AList.update (hm_name info) reg m) [] xs
      = foldl (\<lambda>m kv. AList.update (fst kv) (snd kv) m) [] (map (\<lambda>(r, i). (hm_name i, r)) xs)"
    for xs :: "(int \<times> holding_meta) list"
    by (induction xs rule: rev_induct) auto
  moreover have "foldl (\<lambda>m kv. AList.update (fst kv) (snd kv) m) [] (map (\<lambda>(r, i). (hm_name i, r)) HOLDING_REGISTERS)
      = [] @ map (\<lambda>(r, i). (hm_name i, r)) HOLDING_REGISTERS"
    using distinct_holding_names by (intro foldl_update_fresh) (auto simp: comp_def case_prod_unfold)
  ultimately show ?thesis
    by (simp add: HOLDING_BY_NAME_def)
qed

end
