(* ===== verification/Register_Facts.thy ===== *)
theory Register_Facts
  imports Registers Holding_Facts
begin

text \<open>
  Facts about the input register table (distinct numbers, distinct names, where the battery block
  lies) and the behaviour of the decoder on 16-bit raw values.
\<close>

lemmas input_rows = input_registers_1_def input_registers_2_def input_registers_3_def

subsection \<open>The table\<close>

lemma update_all_append: "update_all m (xs @ ys) = update_all (update_all m xs) ys"
  by (simp add: update_all_def)

lemma update_all_fresh:
  "distinct (map fst ys) \<Longrightarrow> set (map fst xs) \<inter> set (map fst ys) = {} \<Longrightarrow> update_all xs ys = xs @ ys"
  unfolding update_all_def by (rule foldl_update_fresh)

lemma foldl_update_all: "foldl (\<lambda>m b. update_all m (blk b)) m bs = update_all m (concat (map blk bs))"
  by (induction bs arbitrary: m) (simp_all add: update_all_append, simp add: update_all_def)

definition battery_block :: "nat \<Rightarrow> (int \<times> register_def) list" where
  "battery_block batt = map (\<lambda>(off, d). (battery_base batt + off, d)) (battery_defs batt @ battery_serial_defs batt)"

definition battery_list :: "(int \<times> register_def) list" where
  "battery_list = concat (map battery_block [1..<9])"

lemma battery_offsets: "map fst (battery_defs b @ battery_serial_defs b) =
    [3, 5, 6, 8, 9, 10, 11, 12, 13, 14, 15, 16, 17, 18, 19, 20, 21, 22, 23, 24, 25, 26, 27, 28, 29, 30, 31, 32]"
  by (simp add: battery_defs_def Let_def battery_serial_defs_def upt_rec)

lemma battery_block_regs: "map fst (battery_block b) = map (\<lambda>off. battery_base b + off) (map fst (battery_defs b @ battery_serial_defs b))"
  by (simp add: battery_block_def comp_def case_prod_unfold)

lemma battery_list_increasing: "successively (<) (map fst battery_list)"
proof -
  have "map fst battery_list = concat (map (\<lambda>b. map (\<lambda>off. battery_base b + off) (map fst (battery_defs b @ battery_serial_defs b))) [1..<9])"
    by (simp only: battery_list_def map_concat list.map_comp comp_def battery_block_regs)
  then show ?thesis
    unfolding battery_offsets by (simp add: upt_rec battery_base_def BATTERY_START_def BATTERY_BLOCK_SIZE_def)
qed

lemma battery_list_range: "list_all (\<lambda>r. 5003 \<le> r \<and> r \<le> 5242) (map fst battery_list)"
proof -
  have "map fst battery_list = concat (map (\<lambda>b. map (\<lambda>off. battery_base b + off) (map fst (battery_defs b @ battery_serial_defs b))) [1..<9])"
    by (simp only: battery_list_def map_concat list.map_comp comp_def battery_block_regs)
  then show ?thesis
    unfolding battery_offsets by (simp add: upt_rec battery_base_def BATTERY_START_def BATTERY_BLOCK_SIZE_def)
qed

lemma successively_less_distinct: "successively (<) (xs :: int list) \<Longrightarrow> distinct xs"
  by (simp add: successively_iff_sorted_wrt_strong strict_sorted_iff)

lemma distinct_battery_list: "distinct (map fst battery_list)"
  by (rule successively_less_distinct [OF battery_list_increasing])

lemma literal_input_below: "list_all (\<lambda>r. 0 \<le> r \<and> r \<le> 216) (map fst input_literal)"
  by (simp add: input_literal_def input_rows)

lemma distinct_literal_input: "distinct (map fst input_literal)"
  by (simp add: input_literal_def input_rows)

lemma BATTERY_REGISTERS_eq: "BATTERY_REGISTERS = battery_list"
proof -
  have "BATTERY_REGISTERS = update_all [] (concat (map battery_block [1..<9]))"
    unfolding BATTERY_REGISTERS_def battery_block_def [symmetric] foldl_update_all by (simp add: BATTERY_COUNT_def)
  also have "\<dots> = battery_list"
    using update_all_fresh [OF distinct_battery_list, of "[]"] by (simp add: battery_list_def)
  finally show ?thesis .
qed

lemma literal_battery_disjoint: "set (map fst input_literal) \<inter> set (map fst battery_list) = {}"
  using literal_input_below battery_list_range unfolding list_all_iff by force

lemma INPUT_REGISTERS_eq: "INPUT_REGISTERS = input_literal @ battery_list"
  unfolding INPUT_REGISTERS_def BATTERY_REGISTERS_eq
  by (rule update_all_fresh [OF distinct_battery_list literal_battery_disjoint])

lemma distinct_INPUT_REGISTERS: "distinct (map fst INPUT_REGISTERS)"
  unfolding INPUT_REGISTERS_eq map_append distinct_append
  using distinct_literal_input distinct_battery_list literal_battery_disjoint by blast

subsection \<open>Names\<close>

definition names_of :: "(int \<times> register_def) list \<Rightarrow> string list" where
  "names_of m = map (\<lambda>(r, d). rd_name d) m"

definition battery_fields :: "string list" where
  "battery_fields = [''capacity'', ''max_charge_current'', ''max_discharge_current'', ''voltage'', ''current'',
     ''soc'', ''cycle_count'', ''max_cell_temp'', ''min_cell_temp'', ''max_cell_voltage'', ''min_cell_voltage'',
     ''max_temp_cell'', ''max_voltage_cell'', ''firmware''] @ map (\<lambda>i. ''serial_'' @ nat_str i) [0..<14]"

lemma distinct_literal_input_names: "distinct (names_of input_literal)"
proof (rule distinct_by_key)
  show "distinct (map name_key (names_of input_literal))"
    by (simp add: names_of_def input_literal_def input_rows)
qed

lemma battery_block_names: "names_of (battery_block b) = map (\<lambda>f. ''battery_'' @ nat_str b @ ''_'' @ f) battery_fields"
  by (simp add: names_of_def battery_block_def battery_defs_def Let_def battery_serial_defs_def battery_fields_def upt_rec)

lemma distinct_battery_fields: "distinct battery_fields"
proof (rule distinct_by_key)
  show "distinct (map name_key battery_fields)"
    by (simp add: battery_fields_def upt_rec nat_str.simps digit_char_def)
qed

lemma battery_list_names: "names_of battery_list
    = concat (map (\<lambda>d. map (\<lambda>f. ''battery_'' @ [d] @ ''_'' @ f) battery_fields) ''12345678'')"
proof -
  have "names_of battery_list = concat (map (\<lambda>b. names_of (battery_block b)) [1..<9])"
    by (simp add: names_of_def battery_list_def map_concat comp_def)
  then show ?thesis
    unfolding battery_block_names by (simp add: upt_rec nat_str.simps digit_char_def)
qed

lemma distinct_concat_prefix:
  assumes "distinct fs" and "distinct ds"
  shows "distinct (concat (map (\<lambda>d. map (\<lambda>f. pre @ [d] @ f) fs) ds))"
  using assms(2)
proof (induction ds)
  case (Cons d ds)
  have "distinct (map (\<lambda>f. pre @ [d] @ f) fs)"
    using assms(1) by (simp add: distinct_map inj_on_def)
  moreover have "x \<notin> set (concat (map (\<lambda>d. map (\<lambda>f. pre @ [d] @ f) fs) ds))"
    if "x \<in> set (map (\<lambda>f. pre @ [d] @ f) fs)" for x
    using that Cons.prems by auto
  ultimately show ?case
    using Cons by auto
qed simp

lemma distinct_battery_names: "distinct (names_of battery_list)"
proof -
  have "distinct (map (\<lambda>f. ''_'' @ f) battery_fields)"
    using distinct_battery_fields by (simp add: distinct_map)
  from distinct_concat_prefix [OF this, of "''12345678''" "''battery_''"] show ?thesis
    unfolding battery_list_names by (simp add: comp_def)
qed

definition numbered_name :: "string \<Rightarrow> bool" where
  "numbered_name s \<longleftrightarrow> take 8 s = ''battery_'' \<and> take 1 (drop 9 s) = ''_'' \<and> list_ex (\<lambda>c. take 1 (drop 8 s) = [c]) ''12345678''"

lemma battery_numbered: "s \<in> set (names_of battery_list) \<Longrightarrow> numbered_name s"
  unfolding battery_list_names by (auto simp: numbered_name_def)

lemma literal_not_numbered: "list_all (\<lambda>s. \<not> numbered_name s) (names_of input_literal)"
  by (simp add: names_of_def input_literal_def input_rows numbered_name_def)

lemma names_of_INPUT: "names_of INPUT_REGISTERS = names_of input_literal @ names_of battery_list"
  by (simp add: names_of_def INPUT_REGISTERS_eq)

lemma distinct_input_names: "distinct (names_of INPUT_REGISTERS)"
proof -
  have "set (names_of input_literal) \<inter> set (names_of battery_list) = {}"
    using literal_not_numbered battery_numbered by (auto simp: list_all_iff)
  then show ?thesis
    using distinct_literal_input_names distinct_battery_names by (simp add: names_of_INPUT)
qed

lemma literal_no_special: "list_all (\<lambda>s. s \<noteq> ''soh'' \<and> s \<noteq> ''grid_voltage'') (names_of input_literal)"
  by (simp add: names_of_def input_literal_def input_rows)

lemma input_no_special: "''soh'' \<notin> set (names_of INPUT_REGISTERS)" "''grid_voltage'' \<notin> set (names_of INPUT_REGISTERS)"
proof -
  have "\<not> numbered_name ''soh''" "\<not> numbered_name ''grid_voltage''"
    by (simp_all add: numbered_name_def)
  then have "''soh'' \<notin> set (names_of battery_list)" "''grid_voltage'' \<notin> set (names_of battery_list)"
    using battery_numbered by blast+
  then show "''soh'' \<notin> set (names_of INPUT_REGISTERS)" "''grid_voltage'' \<notin> set (names_of INPUT_REGISTERS)"
    using literal_no_special unfolding names_of_INPUT set_append list_all_iff by blast+
qed

subsection \<open>Decoding one register\<close>

definition u16 :: "int \<Rightarrow> bool" where
  "u16 v \<longleftrightarrow> 0 \<le> v \<and> v \<le> 65535"

definition regdef_ok :: "register_def \<Rightarrow> bool" where
  "regdef_ok rd \<longleftrightarrow> (\<forall>m. rd_bitmask rd = Some m \<longrightarrow> 0 \<le> m)"

lemma and_range: "0 \<le> (a :: int) \<Longrightarrow> 0 \<le> a AND b" "0 \<le> a \<Longrightarrow> a AND b \<le> a"
  by (simp_all add: AND_upper1)

lemma drop_bit_range: "0 \<le> (a :: int) \<Longrightarrow> 0 \<le> drop_bit n a \<and> drop_bit n a \<le> a"
proof -
  assume "0 \<le> a"
  moreover have "a div 2 ^ n \<le> a"
    using \<open>0 \<le> a\<close> by (metis div_by_1 one_le_power one_le_numeral zdiv_mono2 zero_less_one)
  moreover have "0 \<le> drop_bit n a"
    using \<open>0 \<le> a\<close> by simp
  ultimately show ?thesis
    by (simp add: drop_bit_eq_div)
qed

lemma decode_int_range: "u16 raw \<Longrightarrow> u16 hi \<Longrightarrow> - 32768 \<le> decode_int rd raw hi \<and> decode_int rd raw hi < 2 ^ 32"
proof -
  assume a: "u16 raw" "u16 hi"
  define v where "v = (case rd_pair_high rd of Some _ \<Rightarrow> raw + push_bit 16 hi
       | None \<Rightarrow> (case rd_bitmask rd of Some m \<Rightarrow> drop_bit (rd_bitshift rd) (raw AND m) | None \<Rightarrow> raw))"
  have p: "0 \<le> raw + push_bit 16 hi" "raw + push_bit 16 hi < 2 ^ 32"
    using a by (simp_all add: u16_def push_bit_eq_mult)
  have "0 \<le> drop_bit k (raw AND m) \<and> drop_bit k (raw AND m) \<le> 65535" for k m
    using a drop_bit_range [of "raw AND m" k] and_range [of raw m] unfolding u16_def by linarith
  then have m: "0 \<le> drop_bit k (raw AND m)" "drop_bit k (raw AND m) < 2 ^ 32" for k m
    by (meson order_le_less_trans less_numeral_extra | simp add: order_le_less_trans [of _ 65535])+
  have "0 \<le> v \<and> v < 2 ^ 32"
    using a p m unfolding v_def u16_def by (simp split: option.split)
  then show ?thesis
    by (auto simp: decode_int_def Let_def simp flip: v_def)
qed

lemma reg_decode_u16: "u16 raw \<Longrightarrow> u16 hi \<Longrightarrow>
    reg_decode rd raw hi = Inr (Fin (of_int (decode_int rd raw hi)) * rd_scale rd)"
proof -
  assume "u16 raw" "u16 hi"
  from decode_int_range [OF this, of rd] have "\<bar>decode_int rd raw hi\<bar> \<le> 2 ^ 53"
    by (simp add: abs_le_iff)
  then show ?thesis
    by (simp add: reg_decode_def pf_of_int_small)
qed

text \<open>A signed register is the two's complement reading of its 16-bit word; the low and high byte
  fields of a register split it; a pair is the 32-bit value of its two words.\<close>

lemma decode_int_signed:
  assumes "rd_signed rd" "rd_bitmask rd = None" "rd_pair_high rd = None"
  shows "decode_int rd (uint (w :: 16 word)) hi = sint w"
proof -
  have w: "0 \<le> uint w" "uint w < 65536"
    using uint_lt2p [of w] by simp_all
  have "sint w = (uint w + 32768) mod 65536 - 32768"
    by (simp add: sint_uint signed_take_bit_eq_take_bit_shift take_bit_eq_mod)
  also have "\<dots> = (if 0x8000 \<le> uint w then uint w - 0x10000 else uint w)"
  proof (cases "0x8000 \<le> uint w")
    case True
    then have "(uint w + 32768) mod 65536 = uint w + 32768 - 65536"
      using w minus_mod_self2 [of "uint w + 32768" 65536] by (simp add: mod_pos_pos_trivial)
    with True show ?thesis
      by simp
  next
    case False
    with w show ?thesis
      by simp
  qed
  finally show ?thesis
    using assms by (simp add: decode_int_def)
qed

lemma byte_fields:
  assumes "u16 raw"
  shows "raw AND 0xFF = raw mod 256" "drop_bit 8 (raw AND 0xFF00) = raw div 256"
proof -
  have m: "(0xFF :: int) = mask 8"
    by (simp add: mask_eq_exp_minus_1)
  show "raw AND 0xFF = raw mod 256"
    by (simp only: m take_bit_eq_mask [symmetric] take_bit_eq_mod) simp
  have "drop_bit 8 (raw AND 0xFF00) = drop_bit 8 raw AND drop_bit 8 0xFF00"
    by (rule drop_bit_and)
  also have "drop_bit 8 0xFF00 = (mask 8 :: int)"
    by (simp add: mask_eq_exp_minus_1 drop_bit_eq_div)
  also have "drop_bit 8 raw AND mask 8 = (raw div 256) mod 256"
    by (simp add: take_bit_eq_mask [symmetric] take_bit_eq_mod drop_bit_eq_div)
  also have "\<dots> = raw div 256"
  proof (rule mod_pos_pos_trivial)
    show "0 \<le> raw div 256"
      using assms by (simp add: u16_def pos_imp_zdiv_nonneg_iff)
    have "raw div 256 \<le> 65535 div 256"
      using assms by (intro zdiv_mono1) (simp_all add: u16_def)
    then show "raw div 256 < 256"
      by simp
  qed
  finally show "drop_bit 8 (raw AND 0xFF00) = raw div 256" .
qed

subsection \<open>Decoding a dictionary\<close>

text \<open>A pass over the raw values that records a named entry for some of them.\<close>

definition record_pass :: "('x \<Rightarrow> (string \<times> 'r) option) \<Rightarrow> (string \<times> 'r) list \<Rightarrow> 'x list \<Rightarrow> (string \<times> 'r) list" where
  "record_pass g res xs = foldl (\<lambda>res x. case g x of Some (n, y) \<Rightarrow> AList.update n y res | None \<Rightarrow> res) res xs"

lemma record_pass_Nil [simp]: "record_pass g res [] = res"
  by (simp add: record_pass_def)

lemma record_pass_snoc: "record_pass g res (xs @ [x]) =
    (case g x of Some (n, y) \<Rightarrow> AList.update n y (record_pass g res xs) | None \<Rightarrow> record_pass g res xs)"
  by (simp only: record_pass_def foldl_append foldl.simps)

lemma record_pass_other:
  "(\<And>x y. x \<in> set xs \<Longrightarrow> g x \<noteq> Some (n, y)) \<Longrightarrow> map_of (record_pass g res xs) n = map_of res n"
proof (induction xs rule: rev_induct)
  case (snoc x xs)
  have IH: "map_of (record_pass g res xs) n = map_of res n"
    using snoc by simp
  show ?case
  proof (cases "g x")
    case (Some ny)
    then obtain m y where g: "g x = Some (m, y)"
      by (cases ny) simp
    then have "m \<noteq> n"
      using snoc.prems [of x y] by auto
    with g IH show ?thesis
      by (simp add: record_pass_snoc update_conv')
  qed (simp add: record_pass_snoc IH)
qed simp

lemma record_pass_hit:
  "x0 \<in> set xs \<Longrightarrow> g x0 = Some (n, y) \<Longrightarrow> (\<And>x y'. x \<in> set xs \<Longrightarrow> g x = Some (n, y') \<Longrightarrow> y' = y)
     \<Longrightarrow> map_of (record_pass g res xs) n = Some y"
proof (induction xs rule: rev_induct)
  case (snoc x xs)
  show ?case
  proof (cases "\<exists>y'. g x = Some (n, y')")
    case True
    then obtain y' where g: "g x = Some (n, y')"
      by blast
    moreover have "y' = y"
      using g by (intro snoc.prems(3) [of x]) simp_all
    ultimately show ?thesis
      by (simp add: record_pass_snoc update_conv')
  next
    case False
    then have "x0 \<in> set xs"
      using snoc.prems(1,2) by auto
    then have IH: "map_of (record_pass g res xs) n = Some y"
      using snoc.prems(2,3) by (intro snoc.IH) auto
    show ?thesis
    proof (cases "g x")
      case (Some ny)
      then obtain m z where g: "g x = Some (m, z)"
        by (cases ny) simp
      then have "m \<noteq> n"
        using False by auto
      with g IH show ?thesis
        by (simp add: record_pass_snoc update_conv')
    qed (simp add: record_pass_snoc IH)
  qed
qed simp

lemma record_pass_keys:
  "n \<in> fst ` set (record_pass g res xs) \<Longrightarrow> n \<in> fst ` set res \<or> (\<exists>x\<in>set xs. \<exists>y. g x = Some (n, y))"
proof (induction xs rule: rev_induct)
  case (snoc x xs)
  show ?case
  proof (cases "g x")
    case None
    then show ?thesis
      using snoc.IH snoc.prems by (auto simp add: record_pass_snoc)
  next
    case (Some ny)
    then obtain m y where g: "g x = Some (m, y)"
      by (cases ny) simp
    then have "n = m \<or> n \<in> fst ` set (record_pass g res xs)"
      using snoc.prems by (simp add: record_pass_snoc dom_update)
    with g snoc.IH show ?thesis
      by (cases "n = m") auto
  qed
qed simp

definition simple_reading :: "register_def \<Rightarrow> int \<Rightarrow> reading" where
  "simple_reading rd raw = \<lparr>rv_value = Fin (of_int (decode_int rd raw 0)) * rd_scale rd, rv_unit = rd_unit rd,
     rv_raw = raw, rv_raw_high = None, rv_desc = rd_desc rd\<rparr>"

definition pair_reading :: "register_def \<Rightarrow> int \<Rightarrow> int \<Rightarrow> reading" where
  "pair_reading rd raw hi = \<lparr>rv_value = Fin (of_int (decode_int rd raw hi)) * rd_scale rd, rv_unit = rd_unit rd,
     rv_raw = raw, rv_raw_high = Some hi, rv_desc = rd_desc rd\<rparr>"

definition soh_reading :: "int \<Rightarrow> reading" where
  "soh_reading raw = (simple_reading SOH_REGISTER raw)\<lparr>rv_desc := ''Battery state of health''\<rparr>"

text \<open>The reading a register definition should have: none when its register, or the high word of a
  pair, was not received.\<close>

definition expected_reading :: "(int \<times> int) list \<Rightarrow> int \<Rightarrow> register_def \<Rightarrow> reading option" where
  "expected_reading rvals reg rd = (case map_of rvals reg of
     None \<Rightarrow> None
   | Some raw \<Rightarrow> (case rd_pair_high rd of
       None \<Rightarrow> Some (simple_reading rd raw)
     | Some h \<Rightarrow> map_option (pair_reading rd raw) (map_of rvals h)))"

definition raws_ok :: "(int \<times> int) list \<Rightarrow> bool" where
  "raws_ok rvals \<longleftrightarrow> distinct (map fst rvals) \<and> list_all (\<lambda>(r, v). u16 v) rvals"

definition first_pass :: "(int \<times> register_def) list \<Rightarrow> int \<times> int \<Rightarrow> (string \<times> reading) option" where
  "first_pass rm = (\<lambda>(reg, raw). case map_of rm reg of None \<Rightarrow> None
     | Some rd \<Rightarrow> if rd_pair_high rd = None then Some (rd_name rd, simple_reading rd raw) else None)"

definition second_pass :: "(int \<times> register_def) list \<Rightarrow> (int \<times> int) list \<Rightarrow> int \<times> int \<Rightarrow> (string \<times> reading) option" where
  "second_pass rm rvals = (\<lambda>(reg, raw). case map_of rm reg of None \<Rightarrow> None
     | Some rd \<Rightarrow> (case rd_pair_high rd of None \<Rightarrow> None
       | Some h \<Rightarrow> map_option (\<lambda>hi. (rd_name rd, pair_reading rd raw hi)) (map_of rvals h)))"

lemma raws_u16: "raws_ok rvals \<Longrightarrow> map_of rvals r = Some v \<Longrightarrow> u16 v"
  by (auto simp: raws_ok_def list_all_iff dest!: map_of_SomeD)

lemma u16_0 [simp]: "u16 0"
  by (simp add: u16_def)

lemma decode_registers_passes:
  assumes "raws_ok rvals"
  shows "decode_registers rvals rm = Inr (let res = record_pass (second_pass rm rvals)
      (record_pass (first_pass rm) [] rvals) rvals
    in case map_of rvals 5 of None \<Rightarrow> res | Some v \<Rightarrow> AList.update ''soh'' (soh_reading v) res)"
proof -
  have u: "u16 v" if "(r, v) \<in> set rvals" for r v
    using assms that by (auto simp: raws_ok_def list_all_iff)
  have "foldE (decode_simple rm) res0 rvals = Inr (record_pass (first_pass rm) res0 rvals)" for res0
    unfolding record_pass_def
    by (rule foldE_total) (auto simp: decode_simple_def first_pass_def reg_decode_u16 u simple_reading_def split: option.split)
  moreover have "foldE (decode_pair rm rvals) res0 rvals = Inr (record_pass (second_pass rm rvals) res0 rvals)" for res0
    unfolding record_pass_def
    by (rule foldE_total)
      (auto simp: decode_pair_def second_pass_def reg_decode_u16 u raws_u16 [OF assms] pair_reading_def split: option.split)
  moreover have "reg_decode SOH_REGISTER v 0 = Inr (rv_value (soh_reading v))" if "map_of rvals 5 = Some v" for v
    using raws_u16 [OF assms that] by (simp add: reg_decode_u16 soh_reading_def simple_reading_def)
  ultimately show ?thesis
    by (auto simp: decode_registers_def Let_def soh_reading_def simple_reading_def SOH_REGISTER_def split: option.split)
qed

end
