(* ===== verification/Decoding.thy ===== *)
theory Decoding
  imports Register_Facts
begin

text \<open>
  Properties of the input register decoder: on 16-bit raw values it never raises, it produces exactly
  the readings the register definitions prescribe, a signed register is read as two's complement, and
  the fields packed into one register recompose it.
\<close>

lemma decode_registers_lookup:
  assumes ok: "raws_ok rvals" and dr: "distinct (map fst rm)" and dn: "distinct (names_of rm)"
    and soh: "''soh'' \<notin> set (names_of rm)"
  obtains res where "decode_registers rvals rm = Inr res"
    and "\<And>reg rd. (reg, rd) \<in> set rm \<Longrightarrow> map_of res (rd_name rd) = expected_reading rvals reg rd"
    and "map_of res ''soh'' = map_option soh_reading (map_of rvals 5)"
    and "\<And>n. n \<notin> set (names_of rm) \<Longrightarrow> n \<noteq> ''soh'' \<Longrightarrow> map_of res n = None"
proof -
  define r1 where "r1 = record_pass (first_pass rm) [] rvals"
  define r2 where "r2 = record_pass (second_pass rm rvals) r1 rvals"
  define res where "res = (case map_of rvals 5 of None \<Rightarrow> r2 | Some v \<Rightarrow> AList.update ''soh'' (soh_reading v) r2)"
  have res: "decode_registers rvals rm = Inr res"
    unfolding res_def r2_def r1_def using decode_registers_passes [OF ok, of rm] by (simp add: Let_def)
  have inj: "reg = reg' \<and> rd = rd'" if "(reg, rd) \<in> set rm" "(reg', rd') \<in> set rm" "rd_name rd = rd_name rd'" for reg rd reg' rd'
    using dn that by (auto simp: names_of_def distinct_map dest: inj_onD [where x = "(reg, rd)" and y = "(reg', rd')"])
  have mo: "map_of rm reg = Some rd \<longleftrightarrow> (reg, rd) \<in> set rm" for reg rd
    using dr by (rule map_of_eq_Some_iff)
  have mv: "map_of rvals reg = Some v \<longleftrightarrow> (reg, v) \<in> set rvals" for reg v
    using ok by (intro map_of_eq_Some_iff) (simp add: raws_ok_def)
  have uniq: "map_of rm r = Some rd' \<Longrightarrow> rd_name rd' = rd_name rd \<Longrightarrow> r = reg \<and> rd' = rd"
    if "(reg, rd) \<in> set rm" for r rd' reg rd
    using that inj mo by blast
  have f1: "first_pass rm x = Some (rd_name rd, y) \<longleftrightarrow> rd_pair_high rd = None \<and> fst x = reg \<and> y = simple_reading rd (snd x)"
    if m: "(reg, rd) \<in> set rm" for x reg rd y
  proof (cases "fst x = reg")
    case True
    then have "map_of rm (fst x) = Some rd"
      using m mo by simp
    with True show ?thesis
      by (cases x) (auto simp: first_pass_def)
  next
    case False
    show ?thesis
    proof (cases "map_of rm (fst x)")
      case (Some rd')
      then have "rd_name rd' \<noteq> rd_name rd"
        using uniq [OF m] False by blast
      with Some False show ?thesis
        by (cases x) (auto simp: first_pass_def)
    qed (use False in \<open>cases x; simp add: first_pass_def\<close>)
  qed
  have f2: "second_pass rm rvals x = Some (rd_name rd, y) \<longleftrightarrow>
      (\<exists>h hi. rd_pair_high rd = Some h \<and> fst x = reg \<and> map_of rvals h = Some hi \<and> y = pair_reading rd (snd x) hi)"
    if m: "(reg, rd) \<in> set rm" for x reg rd y
  proof (cases "fst x = reg")
    case True
    then have "map_of rm (fst x) = Some rd"
      using m mo by simp
    with True show ?thesis
      by (cases x) (auto simp: second_pass_def split: option.splits)
  next
    case False
    show ?thesis
    proof (cases "map_of rm (fst x)")
      case (Some rd')
      then have "rd_name rd' \<noteq> rd_name rd"
        using uniq [OF m] False by blast
      with Some False show ?thesis
        by (cases x) (auto simp: second_pass_def split: option.splits)
    qed (use False in \<open>cases x; simp add: second_pass_def\<close>)
  qed
  have keys: "n \<in> set (names_of rm)" if "first_pass rm x = Some (n, y) \<or> second_pass rm rvals x = Some (n, y)" for x n y
    using that by (cases x) (force simp: first_pass_def second_pass_def mo names_of_def split: option.splits if_splits)
  have r2: "map_of r2 (rd_name rd) = expected_reading rvals reg rd" if m: "(reg, rd) \<in> set rm" for reg rd
  proof (cases "map_of rvals reg")
    case None
    then have "fst x \<noteq> reg" if "x \<in> set rvals" for x
      using that by (auto simp: map_of_eq_None_iff)
    then have "map_of r2 (rd_name rd) = None"
      unfolding r2_def r1_def by (simp add: record_pass_other f1 [OF m] f2 [OF m])
    with None show ?thesis
      by (simp add: expected_reading_def)
  next
    case (Some raw)
    then have raw: "(reg, raw) \<in> set rvals"
      using mv by simp
    have only: "snd x = raw" if "x \<in> set rvals" "fst x = reg" for x
    proof -
      have "map_of rvals (fst x) = Some (snd x)"
        unfolding mv using that(1) by simp
      with that Some show ?thesis
        by simp
    qed
    show ?thesis
    proof (cases "rd_pair_high rd")
      case None
      have "map_of r1 (rd_name rd) = Some (simple_reading rd raw)"
        unfolding r1_def by (rule record_pass_hit [OF raw]) (auto simp: f1 [OF m] None only)
      moreover have "map_of r2 (rd_name rd) = map_of r1 (rd_name rd)"
        unfolding r2_def by (rule record_pass_other) (simp add: f2 [OF m] None)
      ultimately show ?thesis
        using Some None by (simp add: expected_reading_def)
    next
      case (Some h)
      have r1: "map_of r1 (rd_name rd) = None"
        unfolding r1_def by (subst record_pass_other) (simp_all add: f1 [OF m] Some)
      show ?thesis
      proof (cases "map_of rvals h")
        case None
        then have "map_of r2 (rd_name rd) = map_of r1 (rd_name rd)"
          unfolding r2_def by (intro record_pass_other) (simp add: f2 [OF m] Some)
        then show ?thesis
          using r1 None Some \<open>map_of rvals reg = Some raw\<close> by (simp add: expected_reading_def)
      next
        case hi: (Some hi)
        have "map_of r2 (rd_name rd) = Some (pair_reading rd raw hi)"
          unfolding r2_def by (rule record_pass_hit [OF raw]) (auto simp: f2 [OF m] Some hi only)
        then show ?thesis
          using hi Some \<open>map_of rvals reg = Some raw\<close> by (simp add: expected_reading_def)
      qed
    qed
  qed
  have other: "map_of r2 n = None" if "n \<notin> set (names_of rm)" for n
  proof -
    have "map_of r1 n = None"
      unfolding r1_def using that keys by (subst record_pass_other) auto
    then show ?thesis
      unfolding r2_def using that keys by (subst record_pass_other) auto
  qed
  show ?thesis
  proof (rule that [OF res])
    show "map_of res (rd_name rd) = expected_reading rvals reg rd" if m: "(reg, rd) \<in> set rm" for reg rd
    proof -
      have "rd_name rd \<noteq> ''soh''"
        using soh m by (force simp: names_of_def)
      then show ?thesis
        using r2 [OF m] by (simp add: res_def update_conv' split: option.split)
    qed
    show "map_of res ''soh'' = map_option soh_reading (map_of rvals 5)"
      using other [OF soh] by (simp add: res_def update_conv' split: option.split)
    show "map_of res n = None" if "n \<notin> set (names_of rm)" "n \<noteq> ''soh''" for n
      using other that by (simp add: res_def update_conv' split: option.split)
  qed
qed

lemma input_map_ok: "distinct (map fst INPUT_REGISTERS)" "distinct (names_of INPUT_REGISTERS)"
  "''soh'' \<notin> set (names_of INPUT_REGISTERS)"
  by (rule distinct_INPUT_REGISTERS distinct_input_names input_no_special)+

text \<open>C6: decoding any dictionary of 16-bit raw values with the family's register map never raises; each
  mapped register yields the reading its definition prescribes (a pair only when its high word was
  received as well), the state of health is split off register 5, and no other name appears.\<close>

theorem decode_registers_exact:
  assumes "raws_ok rvals"
  shows "\<exists>res. decode_registers rvals INPUT_REGISTERS = Inr res
     \<and> (\<forall>(reg, rd) \<in> set INPUT_REGISTERS. map_of res (rd_name rd) = expected_reading rvals reg rd)
     \<and> map_of res ''soh'' = map_option soh_reading (map_of rvals 5)
     \<and> (\<forall>n. n \<notin> set (names_of INPUT_REGISTERS) \<longrightarrow> n \<noteq> ''soh'' \<longrightarrow> map_of res n = None)"
  by (rule decode_registers_lookup [OF assms input_map_ok]) (intro exI conjI ballI allI impI; auto)

theorem decode_registers_exact_witness:
  "\<exists>res. decode_registers [(4, 531), (5, 25687), (98, 65436)] INPUT_REGISTERS = Inr res
     \<and> (\<forall>(reg, rd) \<in> set INPUT_REGISTERS. map_of res (rd_name rd) = expected_reading [(4, 531), (5, 25687), (98, 65436)] reg rd)
     \<and> map_of res ''soh'' = Some (soh_reading 25687)"
  using decode_registers_exact [of "[(4, 531), (5, 25687), (98, 65436)]"]
  by (auto simp: raws_ok_def u16_def)

text \<open>What a definition does to a 16-bit word: a signed register is the two's complement value of the
  word, an unsigned one the word itself, a pair the 32-bit number of its two words, and the low and
  high byte fields (state of charge and state of health) recompose the register.\<close>

lemma decode_int_meaning:
  fixes w hi :: "16 word"
  shows "decode_int (rsigned (rdef n u s d)) (uint w) 0 = sint w
    \<and> decode_int (rdef n u s d) (uint w) 0 = uint w
    \<and> decode_int (rpair h (rdef n u s d)) (uint w) (uint hi) = uint w + 65536 * uint hi
    \<and> decode_int (rmask 0xFF 0 (rdef n u s d)) (uint w) 0
        + 256 * decode_int SOH_REGISTER (uint w) 0 = uint w"
proof (intro conjI)
  have w: "u16 (uint w)" "u16 (uint hi)"
    using uint_lt2p [of w] uint_lt2p [of hi] by (simp_all add: u16_def)
  show "decode_int (rsigned (rdef n u s d)) (uint w) 0 = sint w"
    by (rule decode_int_signed) simp_all
  show "decode_int (rdef n u s d) (uint w) 0 = uint w"
    by (simp add: decode_int_def)
  show "decode_int (rpair h (rdef n u s d)) (uint w) (uint hi) = uint w + 65536 * uint hi"
    by (simp add: decode_int_def push_bit_eq_mult mult.commute)
  show "decode_int (rmask 0xFF 0 (rdef n u s d)) (uint w) 0 + 256 * decode_int SOH_REGISTER (uint w) 0 = uint w"
    using byte_fields [OF w(1)] by (simp add: decode_int_def SOH_REGISTER_def)
qed

end
