(* ===== verification/Capabilities.thy ===== *)
theory Capabilities
  imports Holding_Facts
begin

text \<open>
  Model capabilities, \<^verbatim>\<open>src/collector/capabilities.py\<close>: which hardware features each inverter model has
  and the filter of the holding-register map by the features a register requires.  A frozen set of
  flags is a list without repetition.
\<close>

definition SNA_CAPS :: "string list" where
  "SNA_CAPS = [''pv1'', ''pv2'', ''single_phase'', ''battery_bms'']"

definition KPV18_CAPS :: "string list" where
  "KPV18_CAPS = [''pv1'', ''pv2'', ''pv3'', ''pv4'', ''pv5'', ''pv6'', ''split_phase'', ''afci'', ''generator'',
     ''smart_load'', ''ac_couple'', ''wattnode'', ''grid_peak_shaving'', ''volt_watt'', ''qv_curve'',
     ''qp_curve'', ''seven_day_schedule'', ''battery_bms'']"

definition KPV12_CAPS :: "string list" where
  "KPV12_CAPS = [''pv1'', ''pv2'', ''pv3'', ''split_phase'', ''generator'', ''smart_load'', ''ac_couple'',
     ''grid_peak_shaving'', ''volt_watt'', ''qv_curve'', ''qp_curve'', ''seven_day_schedule'', ''battery_bms'']"

definition MODEL_CAPABILITIES :: "(string \<times> string list) list" where
  "MODEL_CAPABILITIES = [
    (''eg4_6000xp'', SNA_CAPS), (''luxpower_sna'', SNA_CAPS), (''eg4_12000xp'', SNA_CAPS),
    (''eg4_6500ex'', SNA_CAPS), (''eg4_3000ehv'', SNA_CAPS), (''lxp_6k'', SNA_CAPS),
    (''bigbattery_sna_6k'', SNA_CAPS), (''eg4_18kpv'', KPV18_CAPS), (''lxp_18k'', KPV18_CAPS),
    (''fortress_envy_12k'', KPV18_CAPS), (''eg4_12kpv'', KPV12_CAPS), (''lxp_12k'', KPV12_CAPS)]"

definition DEFAULT_CAPABILITIES :: "string list" where
  "DEFAULT_CAPABILITIES = KPV18_CAPS"

definition capabilities_for :: "string \<Rightarrow> string list" where
  "capabilities_for model = (case map_of MODEL_CAPABILITIES model of Some c \<Rightarrow> c | None \<Rightarrow> DEFAULT_CAPABILITIES)"

definition register_applies :: "string list \<Rightarrow> string list \<Rightarrow> bool" where
  "register_applies capabilities required =
    (if required = [] then True else list_all (\<lambda>c. c \<in> set capabilities) required)"

definition filter_holding_registers :: "(int \<times> holding_meta) list \<Rightarrow> string \<Rightarrow> (int \<times> holding_meta) list" where
  "filter_holding_registers regs model =
    (let caps = capabilities_for model
     in filter (\<lambda>(reg, info). register_applies caps (hm_caps info)) regs)"

lemma register_applies_iff: "register_applies caps req \<longleftrightarrow> set req \<subseteq> set caps"
  by (auto simp: register_applies_def list_all_iff)

lemma capabilities_cases: "capabilities_for m \<in> {SNA_CAPS, KPV18_CAPS, KPV12_CAPS}"
  by (simp add: capabilities_for_def MODEL_CAPABILITIES_def DEFAULT_CAPABILITIES_def)

lemma filter_lookup:
  assumes "distinct (map fst regs)"
  shows "map_of (filter_holding_registers regs model) reg =
    (case map_of regs reg of Some info \<Rightarrow> if set (hm_caps info) \<subseteq> set (capabilities_for model) then Some info else None
     | None \<Rightarrow> None)"
proof -
  have d: "distinct (map fst (filter_holding_registers regs model))"
    using assms by (simp add: filter_holding_registers_def Let_def distinct_map_filter)
  have "map_of (filter_holding_registers regs model) reg = Some info \<longleftrightarrow>
      map_of regs reg = Some info \<and> set (hm_caps info) \<subseteq> set (capabilities_for model)" for info
    unfolding map_of_eq_Some_iff [OF d] map_of_eq_Some_iff [OF assms]
    by (auto simp: filter_holding_registers_def Let_def register_applies_iff)
  then have eq: "map_of (filter_holding_registers regs model) reg = Some info \<longleftrightarrow>
      (case map_of regs reg of Some info \<Rightarrow> if set (hm_caps info) \<subseteq> set (capabilities_for model) then Some info else None
       | None \<Rightarrow> None) = Some info" for info
    by (auto split: option.split)
  show ?thesis
    by (rule option.expand) (use eq in fastforce)+
qed

text \<open>The filtered map of a model is the sub-map of the registers all of whose required features the
  model has, an unknown model is given every register of the largest model, the 12 kPV family never
  sees more than the 18 kPV family and the SNA family never sees a register that requires a
  generator, the AFCI or the seven-day schedule.\<close>

lemma holding_filter_spec:
  "map_of (filter_holding_registers HOLDING_REGISTERS model) reg =
     (case map_of HOLDING_REGISTERS reg of
        Some info \<Rightarrow> if set (hm_caps info) \<subseteq> set (capabilities_for model) then Some info else None
      | None \<Rightarrow> None)
   \<and> (map_of MODEL_CAPABILITIES model = None \<longrightarrow>
        filter_holding_registers HOLDING_REGISTERS model = filter_holding_registers HOLDING_REGISTERS ''eg4_18kpv'')
   \<and> set (filter_holding_registers HOLDING_REGISTERS ''eg4_12kpv'') \<subseteq> set (filter_holding_registers HOLDING_REGISTERS ''eg4_18kpv'')
   \<and> (\<forall>(r, info) \<in> set (filter_holding_registers HOLDING_REGISTERS ''eg4_6000xp'').
        ''generator'' \<notin> set (hm_caps info) \<and> ''afci'' \<notin> set (hm_caps info) \<and> ''seven_day_schedule'' \<notin> set (hm_caps info))"
proof (intro conjI)
  show "map_of (filter_holding_registers HOLDING_REGISTERS model) reg =
     (case map_of HOLDING_REGISTERS reg of
        Some info \<Rightarrow> if set (hm_caps info) \<subseteq> set (capabilities_for model) then Some info else None
      | None \<Rightarrow> None)"
    by (rule filter_lookup [OF distinct_HOLDING_REGISTERS])
  have k: "capabilities_for ''eg4_18kpv'' = KPV18_CAPS" "capabilities_for ''eg4_12kpv'' = KPV12_CAPS"
    "capabilities_for ''eg4_6000xp'' = SNA_CAPS"
    by (simp_all add: capabilities_for_def MODEL_CAPABILITIES_def)
  show "map_of MODEL_CAPABILITIES model = None \<longrightarrow>
      filter_holding_registers HOLDING_REGISTERS model = filter_holding_registers HOLDING_REGISTERS ''eg4_18kpv''"
    unfolding filter_holding_registers_def k by (simp add: capabilities_for_def DEFAULT_CAPABILITIES_def)
  have "set KPV12_CAPS \<subseteq> set KPV18_CAPS"
    by (simp add: KPV12_CAPS_def KPV18_CAPS_def)
  then show "set (filter_holding_registers HOLDING_REGISTERS ''eg4_12kpv'') \<subseteq> set (filter_holding_registers HOLDING_REGISTERS ''eg4_18kpv'')"
    by (auto simp: filter_holding_registers_def k register_applies_iff)
  have no: "c \<notin> set SNA_CAPS" if "c \<in> {''generator'', ''afci'', ''seven_day_schedule''}" for c
    using that by (auto simp: SNA_CAPS_def)
  show "\<forall>(r, info) \<in> set (filter_holding_registers HOLDING_REGISTERS ''eg4_6000xp'').
        ''generator'' \<notin> set (hm_caps info) \<and> ''afci'' \<notin> set (hm_caps info) \<and> ''seven_day_schedule'' \<notin> set (hm_caps info)"
    using no by (auto simp: filter_holding_registers_def k register_applies_iff)
qed

text \<open>The registers from 500 on are exactly 500 to 723 (the seven-day block); the
  numbers and names of all holding registers are distinct, and the reverse lookup returns, for the
  name of a register, that register.\<close>

lemma holding_names_roundtrip:
  "distinct (map fst HOLDING_REGISTERS)
   \<and> (map_of HOLDING_BY_NAME name = Some reg \<longleftrightarrow> (\<exists>info. map_of HOLDING_REGISTERS reg = Some info \<and> hm_name info = name))
   \<and> (\<forall>r. (\<exists>info. map_of HOLDING_REGISTERS r = Some info \<and> 500 \<le> r) \<longleftrightarrow> 500 \<le> r \<and> r \<le> 723)"
proof (intro conjI)
  show "distinct (map fst HOLDING_REGISTERS)"
    by (rule distinct_HOLDING_REGISTERS)
  have "distinct (map fst HOLDING_BY_NAME)"
    using distinct_holding_names by (simp add: HOLDING_BY_NAME_eq comp_def case_prod_unfold)
  then show "map_of HOLDING_BY_NAME name = Some reg \<longleftrightarrow> (\<exists>info. map_of HOLDING_REGISTERS reg = Some info \<and> hm_name info = name)"
    unfolding map_of_eq_Some_iff [OF distinct_HOLDING_REGISTERS]
    by (subst map_of_eq_Some_iff) (auto simp: HOLDING_BY_NAME_eq)
  have "(\<exists>info. map_of HOLDING_REGISTERS r = Some info) \<longleftrightarrow> r \<in> set (map fst HOLDING_REGISTERS)" for r
    by (metis map_of_eq_None_iff not_Some_eq set_map)
  then show "\<forall>r. (\<exists>info. map_of HOLDING_REGISTERS r = Some info \<and> 500 \<le> r) \<longleftrightarrow> 500 \<le> r \<and> r \<le> 723"
    unfolding HOLDING_REGISTERS_eq map_append set_append set_seven_day_regs
    using set_literal_regs by force
qed

end
