(* ===== verification/Drivers.thy ===== *)
theory Drivers
  imports Decoding Capabilities
begin

text \<open>
  Model drivers, \<^verbatim>\<open>src/collector/drivers/\<close>: the driver record, the two register families, the aliases and
  the registry.  The decoding function of a driver is \<^verbatim>\<open>decode_registers\<close> over its own map, so the
  record keeps the map and \<^verbatim>\<open>driver_decode\<close> is the function.
\<close>

record model_driver =
  md_name :: string
  md_label :: string
  md_input_registers :: "(int \<times> register_def) list"
  md_batches :: "(int \<times> int) list"

definition driver_decode :: "model_driver \<Rightarrow> (int \<times> int) list \<Rightarrow> (string \<times> reading) list result" where
  "driver_decode d raw = decode_registers raw (md_input_registers d)"

definition total_registers :: "model_driver \<Rightarrow> int" where
  "total_registers d = (case md_input_registers d of [] \<Rightarrow> 0
     | m \<Rightarrow> foldl max (fst (hd m)) (map fst m) + 1)"

subsection \<open>Luxpower SNA\<close>

definition BATTERY_BATCHES :: "(int \<times> int) list" where
  "BATTERY_BATCHES = [(5000, 40), (5040, 40), (5080, 40), (5120, 40), (5160, 40), (5200, 40)]"

definition SNA_BATCHES :: "(int \<times> int) list" where
  "SNA_BATCHES = [(0, 40), (40, 40), (80, 40)] @ BATTERY_BATCHES"

definition luxpower_sna :: model_driver where
  "luxpower_sna = \<lparr>md_name = ''luxpower_sna'', md_label = ''Luxpower SNA'',
     md_input_registers = INPUT_REGISTERS, md_batches = SNA_BATCHES\<rparr>"

subsection \<open>EG4 18KPV\<close>

definition eg4_18kpv_extra :: "(int \<times> register_def) list" where
  "eg4_18kpv_extra = [
    (140, rdef ''afci_current_ch1'' ''mA'' 1 ''AFCI current CH1''),
    (141, rdef ''afci_current_ch2'' ''mA'' 1 ''AFCI current CH2''),
    (142, rdef ''afci_current_ch3'' ''mA'' 1 ''AFCI current CH3''),
    (143, rdef ''afci_current_ch4'' ''mA'' 1 ''AFCI current CH4''),
    (144, rdef ''afci_flag'' '''' 1 ''AFCI arc alarm / self-test flags''),
    (145, rdef ''afci_arc_ch1'' '''' 1 ''AFCI real-time arc CH1''),
    (146, rdef ''afci_arc_ch2'' '''' 1 ''AFCI real-time arc CH2''),
    (147, rdef ''afci_arc_ch3'' '''' 1 ''AFCI real-time arc CH3''),
    (148, rdef ''afci_arc_ch4'' '''' 1 ''AFCI real-time arc CH4''),
    (149, rdef ''afci_max_arc_ch1'' '''' 1 ''AFCI max arc CH1''),
    (150, rdef ''afci_max_arc_ch2'' '''' 1 ''AFCI max arc CH2''),
    (151, rdef ''afci_max_arc_ch3'' '''' 1 ''AFCI max arc CH3''),
    (152, rdef ''afci_max_arc_ch4'' '''' 1 ''AFCI max arc CH4''),
    (135, rpair 136 (rdef ''eps_energy_l1_total'' ''kWh'' (dbl (1 / 10)) ''EPS L1 total energy (low word)'')),
    (137, rpair 138 (rdef ''eps_energy_l2_total'' ''kWh'' (dbl (1 / 10)) ''EPS L2 total energy (low word)'')),
    (153, rdef ''ac_couple_power'' ''W'' 1 ''AC couple power''),
    (206, rdef ''ac_couple_power_s'' ''W'' 1 ''AC couple power S-phase''),
    (207, rdef ''ac_couple_power_t'' ''W'' 1 ''AC couple power T-phase''),
    (193, rdef ''grid_voltage_l1n'' ''V'' (dbl (1 / 10)) ''Grid L1-N voltage''),
    (194, rdef ''grid_voltage_l2n'' ''V'' (dbl (1 / 10)) ''Grid L2-N voltage''),
    (195, rdef ''gen_voltage_l1n'' ''V'' (dbl (1 / 10)) ''Generator L1-N voltage''),
    (196, rdef ''gen_voltage_l2n'' ''V'' (dbl (1 / 10)) ''Generator L2-N voltage''),
    (197, rdef ''inv_power_l1n'' ''W'' 1 ''Inverting power L1-N''),
    (198, rdef ''inv_power_l2n'' ''W'' 1 ''Inverting power L2-N''),
    (199, rdef ''rec_power_l1n'' ''W'' 1 ''Rectifying power L1-N''),
    (200, rdef ''rec_power_l2n'' ''W'' 1 ''Rectifying power L2-N''),
    (201, rdef ''grid_export_l1n'' ''W'' 1 ''Grid export L1-N''),
    (202, rdef ''grid_export_l2n'' ''W'' 1 ''Grid export L2-N''),
    (203, rdef ''grid_import_l1n'' ''W'' 1 ''Grid import L1-N''),
    (204, rdef ''grid_import_l2n'' ''W'' 1 ''Grid import L2-N''),
    (217, rdef ''pv4_voltage'' ''V'' (dbl (1 / 10)) ''PV4 voltage''),
    (218, rdef ''pv5_voltage'' ''V'' (dbl (1 / 10)) ''PV5 voltage''),
    (219, rdef ''pv6_voltage'' ''V'' (dbl (1 / 10)) ''PV6 voltage''),
    (220, rdef ''pv4_power'' ''W'' 1 ''PV4 power''),
    (221, rdef ''pv5_power'' ''W'' 1 ''PV5 power''),
    (222, rdef ''pv6_power'' ''W'' 1 ''PV6 power''),
    (223, rdef ''pv4_energy_today'' ''kWh'' (dbl (1 / 10)) ''PV4 energy today''),
    (224, rpair 225 (rdef ''pv4_energy_total'' ''kWh'' (dbl (1 / 10)) ''PV4 total energy (low word)'')),
    (226, rdef ''pv5_energy_today'' ''kWh'' (dbl (1 / 10)) ''PV5 energy today''),
    (227, rpair 228 (rdef ''pv5_energy_total'' ''kWh'' (dbl (1 / 10)) ''PV5 total energy (low word)'')),
    (229, rdef ''pv6_energy_today'' ''kWh'' (dbl (1 / 10)) ''PV6 energy today''),
    (230, rpair 231 (rdef ''pv6_energy_total'' ''kWh'' (dbl (1 / 10)) ''PV6 total energy (low word)'')),
    (232, rdef ''smart_load_power'' ''W'' 1 ''Smart load power'')]"

definition KPV18_INPUT_REGISTERS :: "(int \<times> register_def) list" where
  "KPV18_INPUT_REGISTERS = update_all INPUT_REGISTERS eg4_18kpv_extra"

definition KPV18_BATCHES :: "(int \<times> int) list" where
  "KPV18_BATCHES = [(0, 40), (40, 40), (80, 40), (120, 40), (160, 40), (200, 40)] @ BATTERY_BATCHES"

definition eg4_18kpv :: model_driver where
  "eg4_18kpv = \<lparr>md_name = ''eg4_18kpv'', md_label = ''EG4 18KPV'',
     md_input_registers = KPV18_INPUT_REGISTERS, md_batches = KPV18_BATCHES\<rparr>"

subsection \<open>Aliases and registry\<close>

definition renamed :: "model_driver \<Rightarrow> string \<Rightarrow> string \<Rightarrow> model_driver" where
  "renamed d n l = d\<lparr>md_name := n, md_label := l\<rparr>"

definition eg4_6000xp :: model_driver where
  "eg4_6000xp = renamed luxpower_sna ''eg4_6000xp'' ''EG4 6000XP''"

definition eg4_12000xp :: model_driver where
  "eg4_12000xp = renamed luxpower_sna ''eg4_12000xp'' ''EG4 12000XP''"

definition eg4_6500ex :: model_driver where
  "eg4_6500ex = renamed luxpower_sna ''eg4_6500ex'' ''EG4 6500EX-48''"

definition eg4_3000ehv :: model_driver where
  "eg4_3000ehv = renamed luxpower_sna ''eg4_3000ehv'' ''EG4 3000EHV-48''"

definition lxp_6k :: model_driver where
  "lxp_6k = renamed luxpower_sna ''lxp_6k'' ''LuxPower LXP 6K''"

definition bigbattery_sna_6k :: model_driver where
  "bigbattery_sna_6k = renamed luxpower_sna ''bigbattery_sna_6k'' ''BigBattery SNA-US 6K''"

definition eg4_12kpv :: model_driver where
  "eg4_12kpv = renamed eg4_18kpv ''eg4_12kpv'' ''EG4 12kPV''"

definition lxp_12k :: model_driver where
  "lxp_12k = renamed eg4_18kpv ''lxp_12k'' ''LuxPower LXP 12K''"

definition lxp_18k :: model_driver where
  "lxp_18k = renamed eg4_18kpv ''lxp_18k'' ''LuxPower LXP 18K''"

definition fortress_envy_12k :: model_driver where
  "fortress_envy_12k = renamed eg4_18kpv ''fortress_envy_12k'' ''Fortress Envy True 12K''"

definition DRIVERS :: "(string \<times> model_driver) list" where
  "DRIVERS = [
    (''eg4_6000xp'', eg4_6000xp), (''luxpower_sna'', luxpower_sna), (''eg4_12000xp'', eg4_12000xp),
    (''eg4_6500ex'', eg4_6500ex), (''eg4_3000ehv'', eg4_3000ehv), (''eg4_18kpv'', eg4_18kpv),
    (''eg4_12kpv'', eg4_12kpv), (''lxp_6k'', lxp_6k), (''lxp_12k'', lxp_12k), (''lxp_18k'', lxp_18k),
    (''fortress_envy_12k'', fortress_envy_12k), (''bigbattery_sna_6k'', bigbattery_sna_6k)]"

definition DEFAULT_MODEL :: string where
  "DEFAULT_MODEL = ''eg4_6000xp''"

definition get_driver :: "string \<Rightarrow> model_driver result" where
  "get_driver model = (case map_of DRIVERS model of None \<Rightarrow> Inl ValueError | Some d \<Rightarrow> Inr d)"

subsection \<open>Properties\<close>

definition polled :: "model_driver \<Rightarrow> int \<Rightarrow> bool" where
  "polled d r \<longleftrightarrow> list_ex (\<lambda>(start, cnt). start \<le> r \<and> r < start + cnt) (md_batches d)"

lemma polled_sna: "polled luxpower_sna r \<longleftrightarrow> 0 \<le> r \<and> r < 120 \<or> 5000 \<le> r \<and> r < 5240"
  by (simp add: polled_def luxpower_sna_def SNA_BATCHES_def BATTERY_BATCHES_def) arith

lemma polled_18kpv: "polled eg4_18kpv r \<longleftrightarrow> 0 \<le> r \<and> r < 240 \<or> 5000 \<le> r \<and> r < 5240"
  by (simp add: polled_def eg4_18kpv_def KPV18_BATCHES_def BATTERY_BATCHES_def) arith

text \<open>The registry and the capability table know the same models, an unknown model is refused with a
  ValueError, and the driver of a model carries the model's own name and one of the two families'
  register map and polling batches.\<close>

lemma get_driver_facts:
  "(get_driver m = Inl ValueError \<longleftrightarrow> map_of MODEL_CAPABILITIES m = None)
   \<and> (get_driver m = Inr d \<longrightarrow> md_name d = m
       \<and> (md_input_registers d = INPUT_REGISTERS \<and> md_batches d = SNA_BATCHES \<and> capabilities_for m = SNA_CAPS
          \<or> md_input_registers d = KPV18_INPUT_REGISTERS \<and> md_batches d = KPV18_BATCHES
            \<and> (capabilities_for m = KPV18_CAPS \<or> capabilities_for m = KPV12_CAPS)))"
proof -
  have keys: "map_of DRIVERS m = None \<longleftrightarrow> map_of MODEL_CAPABILITIES m = None"
    by (auto simp: DRIVERS_def MODEL_CAPABILITIES_def split: if_splits)
  have entry: "md_name d = m
       \<and> (md_input_registers d = INPUT_REGISTERS \<and> md_batches d = SNA_BATCHES \<and> capabilities_for m = SNA_CAPS
          \<or> md_input_registers d = KPV18_INPUT_REGISTERS \<and> md_batches d = KPV18_BATCHES
            \<and> (capabilities_for m = KPV18_CAPS \<or> capabilities_for m = KPV12_CAPS))" if "(m, d) \<in> set DRIVERS" for d
  proof -
    have "list_all (\<lambda>(m, d). md_name d = m
       \<and> (md_input_registers d = INPUT_REGISTERS \<and> md_batches d = SNA_BATCHES \<and> capabilities_for m = SNA_CAPS
          \<or> md_input_registers d = KPV18_INPUT_REGISTERS \<and> md_batches d = KPV18_BATCHES
            \<and> (capabilities_for m = KPV18_CAPS \<or> capabilities_for m = KPV12_CAPS))) DRIVERS"
      unfolding DRIVERS_def
      by (simp add: eg4_6000xp_def eg4_12000xp_def eg4_6500ex_def eg4_3000ehv_def lxp_6k_def
          bigbattery_sna_6k_def eg4_12kpv_def lxp_12k_def lxp_18k_def fortress_envy_12k_def renamed_def
          luxpower_sna_def eg4_18kpv_def capabilities_for_def MODEL_CAPABILITIES_def)
    from this [unfolded list_all_iff, THEN bspec, OF that] show ?thesis
      by (simp only: prod.case)
  qed
  show ?thesis
  proof (cases "map_of DRIVERS m")
    case None
    with keys show ?thesis
      by (simp add: get_driver_def)
  next
    case (Some d')
    have mem: "(m, d') \<in> set DRIVERS"
      using Some by (rule map_of_SomeD)
    have g: "get_driver m = Inr d'"
      using Some by (simp add: get_driver_def)
    show ?thesis
    proof (intro conjI impI)
      show "get_driver m = Inl ValueError \<longleftrightarrow> map_of MODEL_CAPABILITIES m = None"
        using g keys Some by simp
      assume "get_driver m = Inr d"
      then have "d = d'"
        using g by simp
      show "md_name d = m"
        unfolding \<open>d = d'\<close> using entry [OF mem] by (rule conjunct1)
      show "md_input_registers d = INPUT_REGISTERS \<and> md_batches d = SNA_BATCHES \<and> capabilities_for m = SNA_CAPS
          \<or> md_input_registers d = KPV18_INPUT_REGISTERS \<and> md_batches d = KPV18_BATCHES
            \<and> (capabilities_for m = KPV18_CAPS \<or> capabilities_for m = KPV12_CAPS)"
        unfolding \<open>d = d'\<close> using entry [OF mem] by (rule conjunct2)
    qed
  qed
qed

lemma extra_regs_range: "list_all (\<lambda>r. 135 \<le> r \<and> r \<le> 232) (map fst eg4_18kpv_extra)"
  by (simp add: eg4_18kpv_extra_def)

lemma update_all_keys: "set (map fst (update_all m xs)) = set (map fst m) \<union> set (map fst xs)"
  by (induction xs arbitrary: m) (auto simp: update_all_def dom_update)

lemma kpv18_regs: "r \<in> set (map fst KPV18_INPUT_REGISTERS) \<Longrightarrow> 0 \<le> r \<and> r < 240 \<or> 5000 \<le> r \<and> r \<le> 5242"
proof -
  assume "r \<in> set (map fst KPV18_INPUT_REGISTERS)"
  then have "r \<in> set (map fst INPUT_REGISTERS) \<or> r \<in> set (map fst eg4_18kpv_extra)"
    by (simp only: KPV18_INPUT_REGISTERS_def update_all_keys) blast
  then have "r \<in> set (map fst input_literal) \<or> r \<in> set (map fst battery_list) \<or> r \<in> set (map fst eg4_18kpv_extra)"
    by (auto simp: INPUT_REGISTERS_eq)
  then show ?thesis
    using literal_input_below battery_list_range extra_regs_range unfolding list_all_iff by fastforce
qed

text \<open>The polling batches of the 18 kPV family cover every register of its map except the last three
  words of the eighth battery's serial number; those of the SNA family also leave out every mapped
  register from 120 to 216, among them the generator voltage at 121 and the temperature at 214.\<close>

lemma polling_coverage:
  "(\<forall>r \<in> set (map fst KPV18_INPUT_REGISTERS). polled eg4_18kpv r \<or> r \<in> {5240, 5241, 5242})
   \<and> (\<forall>r \<in> set (map fst INPUT_REGISTERS). polled luxpower_sna r \<or> 120 \<le> r \<and> r \<le> 216 \<or> r \<in> {5240, 5241, 5242})
   \<and> {121, 214, 5240, 5241, 5242} \<subseteq> set (map fst INPUT_REGISTERS)
   \<and> \<not> polled luxpower_sna 121 \<and> \<not> polled luxpower_sna 214 \<and> \<not> polled eg4_18kpv 5240"
proof (intro conjI ballI)
  show "polled eg4_18kpv r \<or> r \<in> {5240, 5241, 5242}" if "r \<in> set (map fst KPV18_INPUT_REGISTERS)" for r
    using kpv18_regs [OF that] unfolding polled_18kpv by auto
  show "polled luxpower_sna r \<or> 120 \<le> r \<and> r \<le> 216 \<or> r \<in> {5240, 5241, 5242}" if "r \<in> set (map fst INPUT_REGISTERS)" for r
  proof -
    have "0 \<le> r \<and> r \<le> 216 \<or> 5003 \<le> r \<and> r \<le> 5242"
      using that literal_input_below battery_list_range unfolding INPUT_REGISTERS_eq list_all_iff by auto
    then show ?thesis
      unfolding polled_sna by auto
  qed
  have "121 \<in> set (map fst input_literal)" "214 \<in> set (map fst input_literal)"
    by (simp_all add: input_literal_def input_rows)
  moreover have "{5240, 5241, 5242} \<subseteq> set (map fst (battery_block 8))"
    unfolding battery_block_regs battery_offsets by (simp add: battery_base_def BATTERY_START_def BATTERY_BLOCK_SIZE_def)
  moreover have "set (map fst (battery_block 8)) \<subseteq> set (map fst battery_list)"
  proof -
    have "battery_block 8 \<in> set (map battery_block [1..<9])"
      by simp
    then show ?thesis
      unfolding battery_list_def set_map set_concat by blast
  qed
  ultimately show "{121, 214, 5240, 5241, 5242} \<subseteq> set (map fst INPUT_REGISTERS)"
    by (auto simp: INPUT_REGISTERS_eq)
qed (simp_all add: polled_sna polled_18kpv)

end
