(* ===== verification/Transports.thy ===== *)
theory Transports
  imports Dongle_Facts Drivers
begin

text \<open>
  The transports that feed the collector, \<^verbatim>\<open>src/collector/comm/tcp_passive.py\<close>, \<^verbatim>\<open>replay.py\<close> and
  \<^verbatim>\<open>tcp_active.py\<close>: the buffer handling of the listening transports and the polling loop of the active
  one, as functions from the events of the socket (or the result of a transaction) to the frames
  delivered and the new state.
\<close>

subsection \<open>Consuming a buffer\<close>

text \<open>\<^verbatim>\<open>bytes.find\<close>: the first position of a pattern.\<close>

fun find_sub :: "'a list \<Rightarrow> 'a list \<Rightarrow> nat option" where
  "find_sub pat xs = (if take (length pat) xs = pat then Some 0
     else (case xs of [] \<Rightarrow> None | _ # ys \<Rightarrow> map_option Suc (find_sub pat ys)))"

declare find_sub.simps [simp del]

definition bytes_find :: "bytes \<Rightarrow> bytes \<Rightarrow> int" where
  "bytes_find buffer pat = (case find_sub pat buffer of Some i \<Rightarrow> int i | None \<Rightarrow> - 1)"

definition consume_frames :: "bytes \<Rightarrow> (frame list \<times> bytes) result" where
  "consume_frames buffer =
    bindE (find_frames buffer) (\<lambda>frames.
      if frames \<noteq> [] then
        let last_frame = last frames;
            last_pos = bytes_find buffer (f_raw last_frame) + int (length (f_raw last_frame))
        in Inr (frames, drop (nat last_pos) buffer)
      else Inr ([], buffer))"

text \<open>The passive listener: a chunk is appended, frames are consumed, and an overlong remainder is cut at
  the next frame start after its first byte, or dropped.\<close>

definition trim_buffer :: "bytes \<Rightarrow> bytes" where
  "trim_buffer buffer =
    (if 8192 < length buffer then
       (case find_sub PREFIX (drop 1 buffer) of Some i \<Rightarrow> drop (i + 1) buffer | None \<Rightarrow> [])
     else buffer)"

record listener =
  ps_sock :: bool
  ps_buffer :: bytes
  ps_frames_received :: nat

datatype passive_event = ConnectOk | ConnectFail | Received recv_outcome

definition passive_step :: "listener \<Rightarrow> passive_event \<Rightarrow> (frame list \<times> listener) result" where
  "passive_step st ev =
    (if \<not> ps_sock st then
       (case ev of ConnectOk \<Rightarrow> Inr ([], st\<lparr>ps_sock := True, ps_buffer := []\<rparr>) | _ \<Rightarrow> Inr ([], st))
     else
       (case ev of
          Received (RecvData chunk) \<Rightarrow>
            if chunk = [] then Inr ([], st\<lparr>ps_sock := False\<rparr>)
            else bindE (consume_frames (ps_buffer st @ chunk)) (\<lambda>(frames, buffer).
              Inr (frames, st\<lparr>ps_buffer := trim_buffer buffer,
                ps_frames_received := ps_frames_received st + length frames\<rparr>))
        | Received _ \<Rightarrow> Inr ([], st\<lparr>ps_sock := False\<rparr>)
        | _ \<Rightarrow> Inr ([], st)))"

text \<open>The replay transport: the capture file in chunks through the same consumption.\<close>

fun replay_chunks :: "bytes \<Rightarrow> bytes list \<Rightarrow> (frame list \<times> bytes) result" where
  "replay_chunks buffer [] = Inr ([], buffer)"
| "replay_chunks buffer (c # cs) =
    bindE (consume_frames (buffer @ c)) (\<lambda>(frames, buffer).
    bindE (replay_chunks buffer cs) (\<lambda>(more_frames, buffer).
      Inr (frames @ more_frames, buffer)))"

subsection \<open>The polling transport\<close>

record active =
  ac_batches :: "(int \<times> int) list"
  ac_batch_idx :: nat
  ac_frames_received :: nat
  ac_poll_requests :: nat

definition build_requests :: "string \<Rightarrow> string \<Rightarrow> (int \<times> int) list \<Rightarrow> bytes list result" where
  "build_requests ds isn batches =
     mapE (\<lambda>(start, cnt). build_read_request ds isn MODBUS_READ_INPUT start cnt) batches"

definition poll_match :: "int \<Rightarrow> frame \<Rightarrow> bool" where
  "poll_match start f \<longleftrightarrow> f_is_error f \<or> (is_read_input f \<and> f_register f = start)"

text \<open>One round of the polling loop over a transaction function; an exception of the transaction leaves
  the loop, whose thread has no handler.\<close>

definition active_round :: "(bytes \<Rightarrow> (frame \<Rightarrow> bool) \<Rightarrow> 's \<Rightarrow> frame option result \<times> 's)
    \<Rightarrow> bytes list \<Rightarrow> active \<Rightarrow> 's \<Rightarrow> (frame list \<times> active) result \<times> 's" where
  "active_round tr requests st s =
    (let request = requests ! ac_batch_idx st;
         start = fst (ac_batches st ! ac_batch_idx st);
         next_idx = (ac_batch_idx st + 1) mod length (ac_batches st) in
     case tr request (poll_match start) s of
       (Inl e, s) \<Rightarrow> (Inl e, s)
     | (Inr None, s) \<Rightarrow> (Inr ([], st\<lparr>ac_batch_idx := next_idx\<rparr>), s)
     | (Inr (Some frame), s) \<Rightarrow>
         let st = st\<lparr>ac_poll_requests := ac_poll_requests st + 1, ac_batch_idx := next_idx\<rparr> in
         if f_is_error frame then (Inr ([], st), s)
         else (Inr ([frame], st\<lparr>ac_frames_received := ac_frames_received st + 1\<rparr>), s))"

subsection \<open>Search\<close>

lemma find_sub_Some: "find_sub pat xs = Some i \<Longrightarrow>
    take (length pat) (drop i xs) = pat \<and> (\<forall>j < i. take (length pat) (drop j xs) \<noteq> pat)"
proof (induction xs arbitrary: i)
  case Nil
  then show ?case
    by (subst (asm) find_sub.simps) (auto split: if_splits)
next
  case (Cons x xs)
  show ?case
  proof (cases "take (length pat) (x # xs) = pat")
    case True
    with Cons.prems show ?thesis
      by (subst (asm) find_sub.simps) auto
  next
    case False
    with Cons.prems obtain k where k: "i = Suc k" "find_sub pat xs = Some k"
      by (subst (asm) find_sub.simps) auto
    have "take (length pat) (drop j (x # xs)) \<noteq> pat" if "j < i" for j
      using that False Cons.IH [OF k(2)] k(1) by (cases j) auto
    with Cons.IH [OF k(2)] k(1) show ?thesis
      by simp
  qed
qed

lemma find_sub_first:
  "take (length pat) (drop i xs) = pat \<Longrightarrow> (\<And>j. j < i \<Longrightarrow> take (length pat) (drop j xs) \<noteq> pat)
     \<Longrightarrow> find_sub pat xs = Some i"
proof (induction xs arbitrary: i)
  case Nil
  then show ?case
    by (cases i) (subst find_sub.simps; auto)+
next
  case (Cons x xs)
  show ?case
  proof (cases i)
    case 0
    with Cons.prems(1) show ?thesis
      by (subst find_sub.simps) simp
  next
    case (Suc k)
    have "take (length pat) (drop j xs) \<noteq> pat" if "j < k" for j
      using Cons.prems(2) [of "Suc j"] that Suc by simp
    then have "find_sub pat xs = Some k"
      using Cons.IH [of k] Cons.prems(1) Suc by simp
    then show ?thesis
      using Cons.prems(2) [of 0] Suc by (subst find_sub.simps) simp
  qed
qed

subsection \<open>Properties\<close>

lemma frames_of_nonempty: "ps \<noteq> [] \<Longrightarrow> last (map (the \<circ> projr \<circ> parse_frame) ps) = (the \<circ> projr \<circ> parse_frame) (last ps)"
  by (simp add: last_map)

lemma wf_frame: "wf_packet p \<Longrightarrow> \<exists>f. parse_frame p = Inr (Some f) \<and> f_raw f = p"
  using wf_packet_parse parse_frame_raw by blast

text \<open>A buffer that is a sequence of well-formed packets followed by bytes without a frame start is
  consumed completely: every packet is delivered once, in order, and exactly the trailing bytes are
  kept, provided the bytes of the last packet do not occur earlier in the buffer.\<close>

lemma consume_stream:
  assumes "list_all wf_packet (qs @ [p])" "0xA1 \<notin> set rest"
    and "\<And>j. j < length (concat qs) \<Longrightarrow> take (length p) (drop j (concat qs @ p @ rest)) \<noteq> p"
  shows "consume_frames (concat (qs @ [p]) @ rest) = Inr (map (the \<circ> projr \<circ> parse_frame) (qs @ [p]), rest)"
proof -
  obtain f where f: "parse_frame p = Inr (Some f)" "f_raw f = p"
    using assms(1) wf_frame by auto
  have "find_frames (concat (qs @ [p]) @ rest) = Inr (map (the \<circ> projr \<circ> parse_frame) (qs @ [p]))"
    using find_frames_packets [OF assms(1) find_frames_no_start [OF assms(2)]] by simp
  moreover have "find_sub p (concat qs @ p @ rest) = Some (length (concat qs))"
    using assms(3) by (intro find_sub_first) simp_all
  ultimately show ?thesis
    using f by (simp add: consume_frames_def bytes_find_def nat_int_add)
qed

text \<open>Two identical packets in one buffer: both are delivered, but the second one stays in the buffer
  (the search for the last frame's bytes finds the first copy), and the next consumption delivers it
  again.\<close>

lemma duplicate_packet_redelivered:
  assumes "wf_packet p" "parse_frame p = Inr (Some f)"
  shows "consume_frames (p @ p) = Inr ([f, f], p) \<and> (\<exists>fs rest. consume_frames (p @ chunk) = Inr (f # fs, rest))"
proof
  have raw: "f_raw f = p"
    using parse_frame_raw [OF assms(2)] .
  have "find_frames (p @ p @ []) = Inr (map (the \<circ> projr \<circ> parse_frame) [p, p] @ [])"
    using find_frames_packets [of "[p, p]" "[]"] assms(1) find_frames_no_start [of "[]"] by simp
  moreover have "find_sub p (p @ p) = Some 0"
    by (subst find_sub.simps) simp
  ultimately show "consume_frames (p @ p) = Inr ([f, f], p)"
    using assms(2) raw by (simp add: consume_frames_def bytes_find_def)
  obtain gs where "find_frames chunk = Inr gs"
    using find_frames_total by blast
  then have "find_frames (p @ chunk) = Inr (f # gs)"
    using find_frames_packet assms by blast
  then show "\<exists>fs rest. consume_frames (p @ chunk) = Inr (f # fs, rest)"
    by (simp add: consume_frames_def Let_def)
qed

text \<open>The polling loop over any transactor.\<close>

context transactor
begin

lemma active_round_sound:
  assumes "active_round tr requests st s = (Inr (frames, st'), s')" and "frame \<in> set frames"
  shows "is_read_input frame \<and> f_register frame = fst (ac_batches st ! ac_batch_idx st) \<and> \<not> f_is_error frame"
proof -
  define start where "start = fst (ac_batches st ! ac_batch_idx st)"
  obtain r s1 where t: "tr (requests ! ac_batch_idx st) (poll_match start) s = (r, s1)"
    by fastforce
  have "r = Inr (Some frame) \<and> \<not> f_is_error frame"
    using assms t by (auto simp: active_round_def Let_def start_def split: sum.splits option.splits if_splits)
  then have "poll_match start frame" "\<not> f_is_error frame"
    using tr_match [OF t [unfolded conjunct1 [OF \<open>r = Inr (Some frame) \<and> \<not> f_is_error frame\<close>]]] by auto
  then show ?thesis
    by (simp add: poll_match_def start_def)
qed

lemma active_round_index:
  "active_round tr requests st s = (Inr (frames, st'), s') \<Longrightarrow>
     ac_batch_idx st' = (ac_batch_idx st + 1) mod length (ac_batches st) \<and> ac_batches st' = ac_batches st"
  by (auto simp: active_round_def Let_def split: prod.splits sum.splits option.splits if_splits)

end

lemma build_requests_ok:
  "list_all (\<lambda>(start, cnt). 0 \<le> start \<and> start \<le> 65535 \<and> 0 \<le> cnt \<and> cnt \<le> 65535) batches \<Longrightarrow>
     build_requests ds isn batches = Inr (map (\<lambda>(start, cnt).
       data_packet ds (data_body MODBUS_READ_INPUT isn (le16 start @ le16 cnt))) batches)"
  unfolding build_requests_def
  by (rule mapE_total) (auto simp: list_all_iff build_read_request_cases MODBUS_READ_INPUT_def)

text \<open>Polling over the persistent connection of any supported model: its batch requests can all be
  built, a frame is delivered only if it is a good read-input response for the start register of the
  batch just requested, and the loop then moves to the next batch, cyclically.\<close>

lemma active_polling:
  assumes "get_driver m = Inr d"
  shows "\<exists>requests. build_requests ds isn (md_batches d) = Inr requests \<and> length requests = length (md_batches d)
     \<and> (\<forall>st s frames st' s'. ac_batches st = md_batches d
          \<longrightarrow> active_round (link_transact p key timeout) requests st s = (Inr (frames, st'), s')
          \<longrightarrow> ac_batch_idx st' = (ac_batch_idx st + 1) mod length (md_batches d)
            \<and> (\<forall>frame \<in> set frames. is_read_input frame \<and> \<not> f_is_error frame
                 \<and> f_register frame = fst (md_batches d ! ac_batch_idx st)))"
proof -
  have "md_batches d = SNA_BATCHES \<or> md_batches d = KPV18_BATCHES"
    using get_driver_facts [of m d] assms by blast
  then have "list_all (\<lambda>(start, cnt). 0 \<le> start \<and> start \<le> 65535 \<and> 0 \<le> cnt \<and> cnt \<le> 65535) (md_batches d)"
    by (auto simp: SNA_BATCHES_def KPV18_BATCHES_def BATTERY_BATCHES_def)
  note reqs = build_requests_ok [OF this, of ds isn]
  show ?thesis
  proof (intro exI conjI allI impI ballI)
    show "build_requests ds isn (md_batches d) = Inr (map (\<lambda>(start, cnt).
       data_packet ds (data_body MODBUS_READ_INPUT isn (le16 start @ le16 cnt))) (md_batches d))"
      by (rule reqs)
    fix st s frames st' s'
    assume b: "ac_batches st = md_batches d"
      and r: "active_round (link_transact p key timeout) (map (\<lambda>(start, cnt).
       data_packet ds (data_body MODBUS_READ_INPUT isn (le16 start @ le16 cnt))) (md_batches d)) st s = (Inr (frames, st'), s')"
    show "ac_batch_idx st' = (ac_batch_idx st + 1) mod length (md_batches d)"
      using link.active_round_index [OF r] b by simp
    fix frame
    assume "frame \<in> set frames"
    from link.active_round_sound [OF r this] b
    show "is_read_input frame" "\<not> f_is_error frame" "f_register frame = fst (md_batches d ! ac_batch_idx st)"
      by simp_all
  qed simp
qed

end
