(* ===== verification/Fault_Codes.thy ===== *)
theory Fault_Codes
  imports Text
begin

unbundle bit_operations_syntax

text \<open>
  Fault and warning codes, \<^verbatim>\<open>src/collector/fault_codes.py\<close>: the two tables and the decoding of a raw code
  into descriptions, with what it returns for each kind of code.
\<close>

definition FAULT_CODES :: "(int \<times> string) list" where
  "FAULT_CODES = [
    (0, ''Internal communication failure 1''),
    (1, ''Model fault''),
    (8, ''Parallel CAN communication failure''),
    (9, ''The host is missing''),
    (10, ''Inconsistent rated power''),
    (11, ''Inconsistent AC or safety settings''),
    (12, ''UPS short circuit''),
    (13, ''UPS reverse current''),
    (14, ''BUS short circuit''),
    (15, ''Abnormal phase in three-phase system''),
    (16, ''Relay failure''),
    (17, ''Internal communication failure 2''),
    (18, ''Internal communication failure 3''),
    (19, ''BUS overvoltage''),
    (20, ''EPS connection fault''),
    (21, ''PV overvoltage''),
    (22, ''Overcurrent protection''),
    (23, ''Neutral fault''),
    (24, ''PV short circuit''),
    (25, ''Heatsink temperature out of range''),
    (26, ''Internal failure''),
    (27, ''Consistency failure''),
    (28, ''Inconsistent generator connection''),
    (29, ''Parallel sync signal loss''),
    (31, ''Internal communication failure 4'')]"

definition WARNING_CODES :: "(int \<times> string) list" where
  "WARNING_CODES = [
    (0, ''Battery communication failed''),
    (1, ''AFCI communication failure''),
    (2, ''Battery low temperature''),
    (3, ''Meter communication failed''),
    (4, ''Battery cannot be charged/discharged''),
    (5, ''Automated test failed''),
    (6, ''RSD active''),
    (7, ''LCD communication failure''),
    (8, ''Software version mismatch''),
    (9, ''Fan is stuck''),
    (10, ''Grid overload''),
    (11, ''Parallel secondaries exceed limit''),
    (12, ''Battery reverse MOS abnormal''),
    (13, ''Radiator temperature out of range''),
    (14, ''Multiple primary units in parallel''),
    (15, ''Battery reverse''),
    (16, ''No grid connection''),
    (17, ''Grid voltage out of range''),
    (18, ''Grid frequency out of range''),
    (20, ''Insulation resistance low''),
    (21, ''Leakage current too high''),
    (22, ''DCI exceeded standard''),
    (23, ''PV short circuit''),
    (25, ''Battery overvoltage''),
    (26, ''Battery undervoltage''),
    (27, ''Battery open circuit''),
    (28, ''EPS overload''),
    (29, ''EPS voltage high''),
    (30, ''Meter reversed''),
    (31, ''DCV exceeded standard'')]"

definition decode_bits :: "int option \<Rightarrow> (int \<times> string) list \<Rightarrow> string list" where
  "decode_bits v table =
    (case v of
       None \<Rightarrow> []
     | Some value \<Rightarrow>
        if value = 0 then []
        else (case map_of table value of
            Some s \<Rightarrow> [s]
          | None \<Rightarrow> foldl (\<lambda>names b.
              if value AND push_bit b 1 \<noteq> 0 then
                (case map_of table (int b) of
                   Some name \<Rightarrow> if name \<noteq> [] then names @ [name] else names
                 | None \<Rightarrow> names)
              else names) [] [0..<32]))"

definition decode_fault_code :: "int option \<Rightarrow> string list" where
  "decode_fault_code v = decode_bits v FAULT_CODES"

definition decode_warning_code :: "int option \<Rightarrow> string list" where
  "decode_warning_code v = decode_bits v WARNING_CODES"

definition fault_code_text :: "int option \<Rightarrow> string" where
  "fault_code_text v = join '', '' (decode_fault_code v)"

definition warning_code_text :: "int option \<Rightarrow> string" where
  "warning_code_text v = join '', '' (decode_warning_code v)"

subsection \<open>What is returned\<close>

lemma bit_test: "(v AND push_bit b 1 \<noteq> (0 :: int)) \<longleftrightarrow> bit v b"
  "(v AND 2 ^ b \<noteq> (0 :: int)) \<longleftrightarrow> bit v b"
  by (simp_all add: and_exp_eq_0_iff_not_bit push_bit_eq_mult)

definition bit_names :: "int \<Rightarrow> (int \<times> string) list \<Rightarrow> string list" where
  "bit_names v table = List.map_filter (\<lambda>b. if bit v b then map_of table (int b) else None) [0..<32]"

lemma foldl_collect:
  assumes "\<And>b s. g b = Some s \<Longrightarrow> s \<noteq> []"
  shows "foldl (\<lambda>names b. if P b then (case g b of Some name \<Rightarrow> if name \<noteq> [] then names @ [name] else names | None \<Rightarrow> names) else names) acc bs
    = acc @ List.map_filter (\<lambda>b. if P b then g b else None) bs"
  using assms by (induction bs arbitrary: acc) (auto simp: map_filter_simps split: option.split)

lemma table_names_nonempty:
  "list_all (\<lambda>(k, s). s \<noteq> []) table \<Longrightarrow> map_of table k = Some s \<Longrightarrow> s \<noteq> []"
  by (auto simp: list_all_iff dest: map_of_SomeD)

lemma decode_bits_spec:
  assumes "list_all (\<lambda>(k, s). s \<noteq> []) table"
  shows "decode_bits (Some v) table =
    (if v = 0 then [] else case map_of table v of Some s \<Rightarrow> [s] | None \<Rightarrow> bit_names v table)"
proof -
  have "foldl (\<lambda>names b. if bit v b then (case map_of table (int b) of
      Some name \<Rightarrow> if name \<noteq> [] then names @ [name] else names | None \<Rightarrow> names) else names) [] [0..<32]
    = [] @ bit_names v table"
    unfolding bit_names_def using table_names_nonempty [OF assms] by (rule foldl_collect)
  then show ?thesis
    by (simp add: decode_bits_def bit_test split: option.split)
qed

lemma fault_tables_nonempty:
  "list_all (\<lambda>(k, s). s \<noteq> []) FAULT_CODES" "list_all (\<lambda>(k, s). s \<noteq> []) WARNING_CODES"
  by (simp_all add: FAULT_CODES_def WARNING_CODES_def)

lemma fault_keys: "map_of FAULT_CODES v \<noteq> None \<Longrightarrow> 0 \<le> v \<and> v < 32"
    "map_of WARNING_CODES v \<noteq> None \<Longrightarrow> 0 \<le> v \<and> v < 32"
  by (auto simp: FAULT_CODES_def WARNING_CODES_def split: if_splits)

text \<open>A fault or warning word is decoded by direct lookup when the whole word is a code of the table,
  and otherwise to the descriptions of its set bits, lowest first; every word of 32 or more is
  decoded by its bits.  Hence the bit-packed fault word whose only set bit is bit 0 (internal
  communication failure 1) is reported as fault 1 (model fault), the word with only bit 3 as fault 8
  (parallel CAN failure), and the word with only bit 4 as fault 16 (relay failure).\<close>

lemma decode_codes_spec:
  "decode_fault_code (Some v) =
     (if v = 0 then [] else if 32 \<le> v \<or> v < 0 then bit_names v FAULT_CODES
      else case map_of FAULT_CODES v of Some s \<Rightarrow> [s] | None \<Rightarrow> bit_names v FAULT_CODES)
   \<and> decode_warning_code (Some v) =
     (if v = 0 then [] else if 32 \<le> v \<or> v < 0 then bit_names v WARNING_CODES
      else case map_of WARNING_CODES v of Some s \<Rightarrow> [s] | None \<Rightarrow> bit_names v WARNING_CODES)
   \<and> decode_fault_code None = [] \<and> decode_warning_code None = []
   \<and> map_of FAULT_CODES 0 = Some ''Internal communication failure 1'' \<and> map_of FAULT_CODES 4 = None
   \<and> decode_fault_code (Some (2 ^ 0)) = [''Model fault'']
   \<and> decode_fault_code (Some (2 ^ 3)) = [''Parallel CAN communication failure'']
   \<and> decode_fault_code (Some (2 ^ 4)) = [''Relay failure'']"
proof -
  have low: "map_of FAULT_CODES 0 = Some ''Internal communication failure 1''" "map_of FAULT_CODES 4 = None"
    "decode_fault_code (Some (2 ^ 0)) = [''Model fault'']"
    "decode_fault_code (Some (2 ^ 3)) = [''Parallel CAN communication failure'']"
    "decode_fault_code (Some (2 ^ 4)) = [''Relay failure'']"
    by (simp_all add: decode_fault_code_def decode_bits_def FAULT_CODES_def)
  have "map_of FAULT_CODES v = None \<and> map_of WARNING_CODES v = None" if "32 \<le> v \<or> v < 0"
    using fault_keys [of v] that by force
  then show ?thesis
    using low unfolding decode_fault_code_def decode_warning_code_def
    by (auto simp: decode_bits_spec fault_tables_nonempty) (simp_all add: decode_bits_def)
qed

end
