(* ===== verification/Values.thy ===== *)
theory Values
  imports Text Binary64
begin

text \<open>
  Dynamically typed Python values: what \<^verbatim>\<open>json.loads\<close> returns and what a decoded snapshot holds, with the
  conversions the program applies to them (\<^verbatim>\<open>bool\<close>, \<^verbatim>\<open>float\<close>, \<^verbatim>\<open>int\<close>, \<^verbatim>\<open>str\<close>, \<^verbatim>\<open>list\<close>, \<^verbatim>\<open>.get\<close>), and the
  textual form of floats.  A dictionary is an association list with distinct keys.
\<close>

subsection \<open>Floats as text\<close>

definition pow10 :: "int \<Rightarrow> rat" where
  "pow10 e = (if 0 \<le> e then 10 ^ nat e else 1 / 10 ^ nat (- e))"

text \<open>
  \<^verbatim>\<open>float(s)\<close>: white space around, a sign, then \<^verbatim>\<open>inf\<close>, \<^verbatim>\<open>infinity\<close>, \<^verbatim>\<open>nan\<close> in any case, or a decimal number with
  an optional exponent; an underscore may stand between two digits.
\<close>

definition lower_char :: "char \<Rightarrow> char" where
  "lower_char c = (if 65 \<le> char_code c \<and> char_code c \<le> 90 then char_of (char_code c + 32) else c)"

definition lower :: "string \<Rightarrow> string" where
  "lower s = map lower_char s"

fun drop_underscores :: "bool \<Rightarrow> string \<Rightarrow> string option" where
  "drop_underscores after_digit [] = Some []"
| "drop_underscores after_digit (c # cs) =
    (if c = CHR ''_'' then
       (if after_digit \<and> cs \<noteq> [] \<and> is_digit (hd cs) then drop_underscores False cs else None)
     else map_option ((#) c) (drop_underscores (is_digit c) cs))"

definition digits_val :: "string \<Rightarrow> int" where
  "digits_val ds = int (foldl (\<lambda>a c. 10 * a + digit_val c) 0 ds)"

definition parse_exponent :: "string \<Rightarrow> int option" where
  "parse_exponent s = (case s of
     [] \<Rightarrow> Some 0
   | c # cs \<Rightarrow>
      if lower_char c = CHR ''e'' then
        (let (sg, ds) = (case cs of d # ds \<Rightarrow> if d = CHR ''-'' then (- 1, ds) else if d = CHR ''+'' then (1, ds) else (1, cs)
                         | [] \<Rightarrow> (1, [])) in
         if ds \<noteq> [] \<and> list_all is_digit ds then Some (sg * digits_val ds) else None)
      else None)"

definition parse_decimal :: "string \<Rightarrow> rat option" where
  "parse_decimal s =
    (let ip = takeWhile is_digit s;
         rest = dropWhile is_digit s;
         (fp, rest) = (case rest of c # cs \<Rightarrow> if c = CHR ''.'' then (takeWhile is_digit cs, dropWhile is_digit cs) else ([], rest)
                       | [] \<Rightarrow> ([], [])) in
     if ip @ fp = [] then None
     else map_option (\<lambda>e. of_int (digits_val (ip @ fp)) * pow10 (e - int (length fp))) (parse_exponent rest))"

definition parse_unsigned :: "string \<Rightarrow> pyfloat option" where
  "parse_unsigned s =
    (if lower s = ''inf'' \<or> lower s = ''infinity'' then Some PosInf
     else if lower s = ''nan'' then Some NaN
     else map_option dbl (Option.bind (drop_underscores False s) parse_decimal))"

definition parse_float :: "string \<Rightarrow> pyfloat option" where
  "parse_float s = (case strip s of
     [] \<Rightarrow> None
   | c # cs \<Rightarrow>
      if c = CHR ''-'' then map_option uminus (parse_unsigned cs)
      else if c = CHR ''+'' then parse_unsigned cs
      else parse_unsigned (c # cs))"

text \<open>
  \<^verbatim>\<open>repr\<close> of a float: the shortest decimal that reads back as the same float, the closest one when there
  are two, in scientific form below 1e-4 and from 1e16 on.  Seventeen digits always suffice.
\<close>

fun ndigits :: "nat \<Rightarrow> nat" where
  "ndigits n = (if n = 0 then 0 else Suc (ndigits (n div 10)))"

declare ndigits.simps [simp del]

definition dec_expo :: "rat \<Rightarrow> int" where
  "dec_expo x = (if 1 \<le> x then int (ndigits (nat \<lfloor>x\<rfloor>)) - 1 else - int (ndigits (nat (\<lceil>1 / x\<rceil> - 1))))"

definition decimal_candidate :: "rat \<Rightarrow> int \<Rightarrow> int option" where
  "decimal_candidate x k =
    (let y = x * pow10 k; lo = \<lfloor>y\<rfloor>; hi = \<lceil>y\<rceil>;
         ok_lo = (fl (of_int lo * pow10 (- k)) = x); ok_hi = (fl (of_int hi * pow10 (- k)) = x) in
     if ok_lo \<and> (\<not> ok_hi \<or> y - of_int lo \<le> of_int hi - y) then Some lo
     else if ok_hi then Some hi else None)"

fun shortest_digits :: "nat \<Rightarrow> rat \<Rightarrow> int \<Rightarrow> nat \<Rightarrow> int \<times> int" where
  "shortest_digits 0 x e n = (round_half_even (x * pow10 (16 - e)), 16 - e)"
| "shortest_digits (Suc fuel) x e n =
    (case decimal_candidate x (int n - 1 - e) of
       Some m \<Rightarrow> (m, int n - 1 - e)
     | None \<Rightarrow> shortest_digits fuel x e (Suc n))"

definition exponent_str :: "int \<Rightarrow> string" where
  "exponent_str e = (if e < 0 then ''-'' else ''+'') @ (if \<bar>e\<bar> < 10 then ''0'' else '''') @ nat_str (nat \<bar>e\<bar>)"

definition format_digits :: "string \<Rightarrow> int \<Rightarrow> string" where
  "format_digits ds decpt =
    (if - 4 < decpt \<and> decpt \<le> 16 then
       (if decpt \<le> 0 then ''0.'' @ replicate (nat (- decpt)) (CHR ''0'') @ ds
        else if int (length ds) \<le> decpt then ds @ replicate (nat decpt - length ds) (CHR ''0'') @ ''.0''
        else take (nat decpt) ds @ ''.'' @ drop (nat decpt) ds)
     else take 1 ds @ (if 1 < length ds then ''.'' @ drop 1 ds else '''') @ ''e'' @ exponent_str (decpt - 1))"

definition rat_repr :: "rat \<Rightarrow> string" where
  "rat_repr x = (if x = 0 then ''0.0'' else
     (case shortest_digits 17 \<bar>x\<bar> (dec_expo \<bar>x\<bar>) 1 of (m, k) \<Rightarrow>
       let ds = nat_str (nat m); decpt = int (length ds) - k in
       (if x < 0 then ''-'' else '''') @ format_digits (rstrip (CHR ''0'') ds) decpt))"

fun float_repr :: "pyfloat \<Rightarrow> string" where
  "float_repr (Fin x) = rat_repr x"
| "float_repr PosInf = ''inf''"
| "float_repr NegInf = ''-inf''"
| "float_repr NaN = ''nan''"

subsection \<open>Values\<close>

datatype json =
    JNull
  | JBool bool
  | JInt int
  | JFloat pyfloat
  | JStr string
  | JList "json list"
  | JDict "(string \<times> json) list"

fun truthy :: "json \<Rightarrow> bool" where
  "truthy JNull = False"
| "truthy (JBool b) = b"
| "truthy (JInt n) = (n \<noteq> 0)"
| "truthy (JFloat x) = (x \<noteq> Fin 0)"
| "truthy (JStr s) = (s \<noteq> [])"
| "truthy (JList xs) = (xs \<noteq> [])"
| "truthy (JDict kvs) = (kvs \<noteq> [])"

text \<open>\<^verbatim>\<open>repr\<close> and \<^verbatim>\<open>str\<close>; a character outside ASCII is kept, which is what Python does for a printable one.\<close>

definition hex_digit :: "nat \<Rightarrow> char" where
  "hex_digit d = ''0123456789abcdef'' ! d"

definition escape_char :: "char \<Rightarrow> char \<Rightarrow> string" where
  "escape_char q c =
    (if c = q \<or> c = CHR 0x5C then [CHR 0x5C, c]
     else if char_code c = 9 then [CHR 0x5C, CHR ''t'']
     else if char_code c = 10 then [CHR 0x5C, CHR ''n'']
     else if char_code c = 13 then [CHR 0x5C, CHR ''r'']
     else if char_code c < 32 \<or> char_code c = 127
       then [CHR 0x5C, CHR ''x'', hex_digit (char_code c div 16), hex_digit (char_code c mod 16)]
     else [c])"

definition str_repr :: "string \<Rightarrow> string" where
  "str_repr s = (let q = (if CHR 0x27 \<in> set s \<and> CHR 0x22 \<notin> set s then CHR 0x22 else CHR 0x27) in
     [q] @ concat (map (escape_char q) s) @ [q])"

fun py_repr :: "json \<Rightarrow> string" where
  "py_repr JNull = ''None''"
| "py_repr (JBool b) = (if b then ''True'' else ''False'')"
| "py_repr (JInt n) = int_str n"
| "py_repr (JFloat x) = float_repr x"
| "py_repr (JStr s) = str_repr s"
| "py_repr (JList xs) = ''['' @ join '', '' (map py_repr xs) @ '']''"
| "py_repr (JDict kvs) = ''{'' @ join '', '' (map (\<lambda>(k, v). str_repr k @ '': '' @ py_repr v) kvs) @ ''}''"

definition py_str :: "json \<Rightarrow> string" where
  "py_str v = (case v of JStr s \<Rightarrow> s | _ \<Rightarrow> py_repr v)"

text \<open>\<^verbatim>\<open>float(v)\<close>, \<^verbatim>\<open>int(v)\<close>.\<close>

fun py_float :: "json \<Rightarrow> pyfloat result" where
  "py_float (JBool b) = Inr (if b then 1 else 0)"
| "py_float (JInt n) = pf_of_int n"
| "py_float (JFloat x) = Inr x"
| "py_float (JStr s) = (case parse_float s of Some x \<Rightarrow> Inr x | None \<Rightarrow> Inl ValueError)"
| "py_float v = Inl TypeError"

fun py_int :: "json \<Rightarrow> int result" where
  "py_int (JBool b) = Inr (if b then 1 else 0)"
| "py_int (JInt n) = Inr n"
| "py_int (JFloat x) = pf_trunc x"
| "py_int (JStr s) = (case parse_int s of Some n \<Rightarrow> Inr n | None \<Rightarrow> Inl ValueError)"
| "py_int v = Inl TypeError"

text \<open>Iteration over a value: a string gives its characters (code points), a dictionary its keys.\<close>

function code_points :: "string \<Rightarrow> string list" where
  "code_points [] = []"
| "code_points (c # cs) = (c # takeWhile (\<lambda>d. 128 \<le> char_code d \<and> char_code d < 192) cs)
     # code_points (dropWhile (\<lambda>d. 128 \<le> char_code d \<and> char_code d < 192) cs)"
  by pat_completeness auto

termination
  by (relation "measure length") (auto simp: length_dropWhile_le le_imp_less_Suc)

fun py_iter :: "json \<Rightarrow> json list result" where
  "py_iter (JList xs) = Inr xs"
| "py_iter (JStr s) = Inr (map JStr (code_points s))"
| "py_iter (JDict kvs) = Inr (map (\<lambda>(k, v). JStr k) kvs)"
| "py_iter v = Inl TypeError"

text \<open>\<^verbatim>\<open>d.get(k)\<close>, \<^verbatim>\<open>d.get(k, default)\<close> on a value: not a dictionary, no method.\<close>

fun jget :: "json \<Rightarrow> string \<Rightarrow> json result" where
  "jget (JDict kvs) k = Inr (case map_of kvs k of Some v \<Rightarrow> v | None \<Rightarrow> JNull)"
| "jget v k = Inl AttributeError"

fun jget_or :: "json \<Rightarrow> string \<Rightarrow> json \<Rightarrow> json result" where
  "jget_or (JDict kvs) k d = Inr (case map_of kvs k of Some v \<Rightarrow> v | None \<Rightarrow> d)"
| "jget_or v k d = Inl AttributeError"

text \<open>Looking a value up in a dictionary with string keys: a list or a dictionary cannot be hashed.\<close>

fun key_lookup :: "(string \<times> 'a) list \<Rightarrow> json \<Rightarrow> 'a option result" where
  "key_lookup m (JStr s) = Inr (map_of m s)"
| "key_lookup m (JList xs) = Inl TypeError"
| "key_lookup m (JDict kvs) = Inl TypeError"
| "key_lookup m v = Inr None"

lemma key_lookup_Some: "key_lookup m v = Inr (Some x) \<Longrightarrow> \<exists>s. v = JStr s \<and> map_of m s = Some x"
  by (cases v) auto

end
