(* ===== verification/Effects.thy ===== *)
theory Effects
  imports Prelude
begin

text \<open>
  Stateful Python code that may raise: an operation maps the state to a result (an exception or a value)
  and the new state.  What was done to the state before an exception stays done, as in Python.
\<close>

type_synonym ('s, 'a) op = "'s \<Rightarrow> 'a result \<times> 's"

definition returnS :: "'a \<Rightarrow> ('s, 'a) op" where
  "returnS x s = (Inr x, s)"

definition raiseS :: "py_exn \<Rightarrow> ('s, 'a) op" where
  "raiseS e s = (Inl e, s)"

definition bindS :: "('s, 'a) op \<Rightarrow> ('a \<Rightarrow> ('s, 'b) op) \<Rightarrow> ('s, 'b) op" where
  "bindS m f s = (case m s of (Inl e, s') \<Rightarrow> (Inl e, s') | (Inr x, s') \<Rightarrow> f x s')"

text \<open>A computation without effects, used as an operation.\<close>

definition liftS :: "'a result \<Rightarrow> ('s, 'a) op" where
  "liftS r s = (r, s)"

definition modifyS :: "('s \<Rightarrow> 's) \<Rightarrow> ('s, unit) op" where
  "modifyS g s = (Inr (), g s)"

definition getS :: "('s \<Rightarrow> 'a) \<Rightarrow> ('s, 'a) op" where
  "getS g s = (Inr (g s), s)"

text \<open>\<^verbatim>\<open>try: m except Exception: log\<close>: the exception is dropped, the state is kept.\<close>

definition swallowS :: "('s, unit) op \<Rightarrow> ('s, unit) op" where
  "swallowS m s = (Inr (), snd (m s))"

text \<open>An operation on a part of the state.\<close>

definition on_part :: "('s \<Rightarrow> 't) \<Rightarrow> ('t \<Rightarrow> 's \<Rightarrow> 's) \<Rightarrow> ('t, 'a) op \<Rightarrow> ('s, 'a) op" where
  "on_part g p m s = (case m (g s) of (r, t) \<Rightarrow> (r, p t s))"

text \<open>A Python \<^verbatim>\<open>for\<close> loop.\<close>

fun forS :: "'a list \<Rightarrow> ('a \<Rightarrow> ('s, unit) op) \<Rightarrow> ('s, unit) op" where
  "forS [] f = returnS ()"
| "forS (x # xs) f = bindS (f x) (\<lambda>_. forS xs f)"

lemmas op_defs = returnS_def raiseS_def bindS_def liftS_def modifyS_def getS_def swallowS_def on_part_def

lemma bindS_return [simp]: "bindS (returnS x) f = f x"
  by (rule ext) (simp add: bindS_def returnS_def)

lemma bindS_raise [simp]: "bindS (raiseS e) f = raiseS e"
  by (rule ext) (simp add: bindS_def raiseS_def)

lemma bindS_lift [simp]: "bindS (liftS (Inl e)) f = raiseS e" "bindS (liftS (Inr x)) f = f x"
  by (rule ext, simp add: bindS_def raiseS_def liftS_def)+

lemma bindS_eq:
  "bindS m f s = (r, s') \<longleftrightarrow> (\<exists>e. m s = (Inl e, s') \<and> r = Inl e) \<or> (\<exists>x s1. m s = (Inr x, s1) \<and> f x s1 = (r, s'))"
  by (cases "m s"; cases "fst (m s)") (auto simp: bindS_def)

lemma bindS_eq_Inr:
  "bindS m f s = (Inr y, s') \<longleftrightarrow> (\<exists>x s1. m s = (Inr x, s1) \<and> f x s1 = (Inr y, s'))"
  by (auto simp: bindS_eq)

lemma forS_returns: "(\<And>x s. fst (f x s) = Inr ()) \<Longrightarrow> fst (forS xs f s) = Inr ()"
proof (induction xs arbitrary: s)
  case (Cons x xs)
  obtain s1 where "f x s = (Inr (), s1)"
    using Cons.prems by (metis prod.collapse)
  then show ?case
    using Cons.IH [of s1] Cons.prems by (simp add: bindS_def)
qed (simp add: returnS_def)

text \<open>
  A transition property: what every run of an operation does to the state.  It is closed under
  sequencing, loops and dropped exceptions when the relation is reflexive and transitive.
\<close>

definition transits :: "('s \<Rightarrow> 's \<Rightarrow> bool) \<Rightarrow> ('s, 'a) op \<Rightarrow> bool" where
  "transits R m \<longleftrightarrow> (\<forall>s. R s (snd (m s)))"

named_theorems transits_intros "operations that satisfy a transition property"

locale transition =
  fixes R :: "'s \<Rightarrow> 's \<Rightarrow> bool"
  assumes refl: "R s s" and trans: "R s t \<Longrightarrow> R t u \<Longrightarrow> R s u"
begin

lemma returnS: "transits R (returnS x)"
  by (simp add: transits_def returnS_def refl)

lemma raiseS: "transits R (raiseS e)"
  by (simp add: transits_def raiseS_def refl)

lemma liftS: "transits R (liftS r)"
  by (simp add: transits_def liftS_def refl)

lemma getS: "transits R (getS g)"
  by (simp add: transits_def getS_def refl)

lemma bindS: "transits R m \<Longrightarrow> (\<And>x. transits R (f x)) \<Longrightarrow> transits R (bindS m f)"
  unfolding transits_def bindS_def using trans
  by (auto split: prod.split sum.split) (metis snd_conv)+

lemma swallowS: "transits R m \<Longrightarrow> transits R (swallowS m)"
  by (simp add: transits_def swallowS_def)

lemma forS: "(\<And>x. transits R (f x)) \<Longrightarrow> transits R (forS xs f)"
  by (induction xs) (auto intro: returnS bindS)

lemmas intros = returnS raiseS liftS getS bindS swallowS forS

end

lemma transitsD: "transits R m \<Longrightarrow> m s = (r, s') \<Longrightarrow> R s s'"
  unfolding transits_def by (metis snd_conv)

lemma transitsI: "(\<And>s r s'. m s = (r, s') \<Longrightarrow> R s s') \<Longrightarrow> transits R m"
  unfolding transits_def by (metis prod.collapse)

end
