(* ===== verification/Link.thy ===== *)
theory Link
  imports Dongle_Facts Values Holding_Facts Effects
begin

text \<open>
  The register primitives of \<^verbatim>\<open>src/collector/automation.py\<close>, shared by the automation engine, quick charge,
  the MQTT commands and the API: conversion between engineering units and raw register values, and the
  read and write of holding registers over the shared dongle connection.  The connection is a
  transactor \<^verbatim>\<open>tr\<close>, the composition of \<^verbatim>\<open>get_shared_connection\<close> and \<^verbatim>\<open>transact\<close> for one host, port and pair of
  serial numbers; \<^verbatim>\<open>link_transact\<close> is the one of the program.
\<close>

type_synonym 's transact_op = "bytes \<Rightarrow> (frame \<Rightarrow> bool) \<Rightarrow> ('s, frame option) op"

subsection \<open>Units\<close>

definition effective_scale :: "holding_meta \<Rightarrow> pyfloat" where
  "effective_scale meta = (if hm_scale meta = 0 then 1 else hm_scale meta)"

definition engineering_to_raw :: "pyfloat \<Rightarrow> holding_meta \<Rightarrow> int option" where
  "engineering_to_raw v meta =
     (case bindE (pf_div v (effective_scale meta)) pf_round of Inl e \<Rightarrow> None | Inr raw \<Rightarrow> Some raw)"

definition raw_to_engineering :: "int \<Rightarrow> holding_meta \<Rightarrow> pyfloat result" where
  "raw_to_engineering raw meta = bindE (pf_of_int raw) (\<lambda>x. Inr (x * effective_scale meta))"

subsection \<open>Reads and writes\<close>

definition list_repr :: "int list \<Rightarrow> string" where
  "list_repr vs = ''['' @ join '', '' (map int_str vs) @ '']''"

definition write_match :: "int \<Rightarrow> int \<Rightarrow> frame \<Rightarrow> bool" where
  "write_match func register frame \<longleftrightarrow>
     f_is_error frame \<or> (f_device_function frame = func \<and> f_register frame = register)"

definition read_match :: "int \<Rightarrow> frame \<Rightarrow> bool" where
  "read_match register frame \<longleftrightarrow>
     f_is_error frame \<or> (is_read_hold frame \<and> f_register frame = register \<and> f_values frame \<noteq> [])"

definition write_holding_register :: "'s transact_op \<Rightarrow> string \<Rightarrow> string \<Rightarrow> int \<Rightarrow> int \<Rightarrow> ('s, bool \<times> string) op" where
  "write_holding_register tr datalog_serial inverter_serial register v =
     bindS (liftS (build_write_request datalog_serial inverter_serial register v)) (\<lambda>req.
     bindS (tr req (write_match MODBUS_WRITE_SINGLE register)) (\<lambda>frame.
     case frame of
       None \<Rightarrow> returnS (False, ''No valid write response received'')
     | Some frame \<Rightarrow>
        if f_is_error frame then returnS (False, ''Modbus error response: code '' @ int_str (f_error_code frame))
        else if f_values frame \<noteq> [] \<and> hd (f_values frame) = v
        then returnS (True, ''Wrote register '' @ int_str register @ '' = '' @ int_str v)
        else returnS (True, ''Write accepted (echo value '' @ list_repr (f_values frame) @ '')'')))"

definition write_holding_registers :: "'s transact_op \<Rightarrow> string \<Rightarrow> string \<Rightarrow> int \<Rightarrow> int list \<Rightarrow> ('s, bool \<times> string) op" where
  "write_holding_registers tr datalog_serial inverter_serial start_register vs =
     bindS (liftS (build_write_multi_request datalog_serial inverter_serial start_register vs)) (\<lambda>req.
     bindS (tr req (write_match MODBUS_WRITE_MULTI start_register)) (\<lambda>frame.
     case frame of
       None \<Rightarrow> returnS (False, ''No valid write response received'')
     | Some frame \<Rightarrow>
        if f_is_error frame then returnS (False, ''Modbus error response: code '' @ int_str (f_error_code frame))
        else if f_write_count frame = int (length vs)
        then returnS (True, ''Wrote '' @ int_str (int (length vs)) @ '' registers starting at '' @ int_str start_register)
        else returnS (True, ''Write accepted (echo count '' @ int_str (f_write_count frame) @ '')'')))"

definition read_holding_register :: "'s transact_op \<Rightarrow> string \<Rightarrow> string \<Rightarrow> int \<Rightarrow> ('s, bool \<times> int option \<times> string) op" where
  "read_holding_register tr datalog_serial inverter_serial register =
     bindS (liftS (build_read_request datalog_serial inverter_serial MODBUS_READ_HOLD register 1)) (\<lambda>req.
     bindS (tr req (read_match register)) (\<lambda>frame.
     case frame of
       None \<Rightarrow> returnS (False, None, ''No valid read response received'')
     | Some frame \<Rightarrow>
        if f_is_error frame then returnS (False, None, ''Modbus error response: code '' @ int_str (f_error_code frame))
        else (case f_values frame of
           [] \<Rightarrow> raiseS IndexError
         | v # _ \<Rightarrow> returnS (True, Some v, ''Read back '' @ int_str register @ '' = '' @ int_str v))))"

text \<open>
  The read-back loop that follows a write in the automation engine and in quick charge: up to \<^verbatim>\<open>n\<close> reads,
  stopping at the first that returns the expected value.
\<close>

fun verify_reads :: "nat \<Rightarrow> ('s, bool \<times> int option \<times> string) op \<Rightarrow> int \<Rightarrow> ('s, bool) op" where
  "verify_reads 0 rd raw = returnS False"
| "verify_reads (Suc n) rd raw = bindS rd (\<lambda>(ok, v, _).
     if ok \<and> v = Some raw then returnS True else verify_reads n rd raw)"

subsection \<open>What the primitives put on the wire\<close>

definition read_request :: "string \<Rightarrow> string \<Rightarrow> int \<Rightarrow> bytes" where
  "read_request ds isn reg = data_packet ds (data_body MODBUS_READ_HOLD isn (le16 reg @ le16 1))"

definition write_request :: "string \<Rightarrow> string \<Rightarrow> int \<Rightarrow> int \<Rightarrow> bytes" where
  "write_request ds isn reg v = data_packet ds (data_body MODBUS_WRITE_SINGLE isn (le16 reg @ le16 v))"

text \<open>The log of the wire grew by packets of the given set.\<close>

definition sends :: "('s \<Rightarrow> bytes list) \<Rightarrow> bytes set \<Rightarrow> 's \<Rightarrow> 's \<Rightarrow> bool" where
  "sends sent P s s' \<longleftrightarrow> (\<exists>ps. sent s' = sent s @ ps \<and> set ps \<subseteq> P)"

lemma sends_mono: "sends sent P s s' \<Longrightarrow> P \<subseteq> Q \<Longrightarrow> sends sent Q s s'"
  by (auto simp: sends_def)

lemma sends_empty: "sends sent {} s s' \<longleftrightarrow> sent s' = sent s"
  by (auto simp: sends_def)

interpretation sends: transition "sends sent P" for sent :: "'s \<Rightarrow> bytes list" and P
proof unfold_locales
  show "sends sent P s s" for s
    by (simp add: sends_def)
  show "sends sent P s u" if st: "sends sent P s t" and tu: "sends sent P t u" for s t u
  proof -
    obtain ps qs where "sent t = sent s @ ps" "set ps \<subseteq> P" "sent u = sent t @ qs" "set qs \<subseteq> P"
      using st tu unfolding sends_def by blast
    then have "sent u = sent s @ (ps @ qs)" "set (ps @ qs) \<subseteq> P"
      by simp_all
    then show ?thesis
      unfolding sends_def by blast
  qed
qed

lemma build_read_request_hold:
  "build_read_request ds isn MODBUS_READ_HOLD reg 1 =
     (if 0 \<le> reg \<and> reg \<le> 65535 then Inr (read_request ds isn reg) else Inl StructError)"
  using build_read_request_cases [of ds isn MODBUS_READ_HOLD reg 1] 
  by (simp add: MODBUS_READ_HOLD_def read_request_def)

end
