(* ===== verification/Automation_Data.thy ===== *)
theory Automation_Data
  imports Link
begin

text \<open>
  The data of the automation engine, \<^verbatim>\<open>src/collector/automation.py\<close>: the map from setting names to holding
  registers, the condition kinds and their sensors, the automation records with their conversion to
  and from JSON values, and the conditions.  Fields the program copies from JSON without conversion
  keep their dynamic type.
\<close>

subsection \<open>Settings and condition kinds\<close>

definition SETTING_NAME_TO_REGISTER :: "(string \<times> string option) list" where
  "SETTING_NAME_TO_REGISTER = [
    (''absorption_charge_voltage'', Some ''lead_acid_charge_voltage''),
    (''float_charge_voltage'', Some ''floating_voltage''),
    (''equalization_voltage'', Some ''equalization_voltage''),
    (''grid_charge'', None),
    (''grid_charge_according_to'', None),
    (''grid_charge_current'', Some ''ac_charge_battery_current''),
    (''grid_charge_slot_1_start'', Some ''ac_charge_period_1_start''),
    (''grid_charge_slot_1_end'', Some ''ac_charge_period_1_end''),
    (''grid_charge_slot_2_start'', Some ''ac_charge_period_2_start''),
    (''grid_charge_slot_2_end'', Some ''ac_charge_period_2_end''),
    (''grid_charge_slot_3_start'', Some ''ac_charge_period_3_start''),
    (''grid_charge_slot_3_end'', Some ''ac_charge_period_3_end''),
    (''grid_charge_start_capacity'', Some ''ac_charge_start_battery_soc''),
    (''grid_charge_start_voltage'', Some ''ac_charge_start_battery_voltage''),
    (''grid_charge_stop_capacity'', Some ''ac_charge_end_battery_soc''),
    (''grid_charge_stop_voltage'', Some ''ac_charge_end_battery_voltage''),
    (''grid_first_slot_1_start'', Some ''ac_first_period_1_start''),
    (''grid_first_slot_1_end'', Some ''ac_first_period_1_end''),
    (''grid_first_slot_2_start'', Some ''ac_first_period_2_start''),
    (''grid_first_slot_2_end'', Some ''ac_first_period_2_end''),
    (''grid_first_slot_3_start'', Some ''ac_first_period_3_start''),
    (''grid_first_slot_3_end'', Some ''ac_first_period_3_end''),
    (''max_charge_current'', Some ''ac_charge_battery_current''),
    (''max_discharge_current'', Some ''lead_acid_discharge_rate''),
    (''force_off_grid'', None),
    (''on-grid_mode'', None),
    (''ac_couple'', None),
    (''combine_pv/ac_supply'', None),
    (''export_to_grid'', None),
    (''export_power_rate'', Some ''feed_in_grid_power_percent''),
    (''discharge_according_to'', None),
    (''stop_discharge_voltage'', Some ''lead_acid_discharge_cut_voltage''),
    (''stop_discharge_capacity'', Some ''discharge_cutoff_soc_eod''),
    (''shutdown_battery_voltage'', Some ''battery_low_to_utility_voltage''),
    (''shutdown_battery_capacity'', Some ''battery_low_to_utility_soc''),
    (''warning_start_voltage'', Some ''battery_warning_voltage''),
    (''warning_start_capacity'', Some ''battery_warning_soc''),
    (''generator_charge_according_to'', None),
    (''generator_charge_current'', Some ''forced_charge_power''),
    (''generator_charge_start_voltage'', None),
    (''generator_charge_start_capacity'', None),
    (''generator_charge_stop_voltage'', None),
    (''generator_charge_stop_capacity'', None),
    (''generator_power'', Some ''max_generator_input_power''),
    (''smart_load'', None),
    (''smart_load_start_pv_power'', None),
    (''smart_load_start_capacity'', None),
    (''smart_load_start_voltage'', None),
    (''smart_load_stop_capacity'', None),
    (''smart_load_stop_voltage'', None),
    (''soft_start_slope'', Some ''soft_start_slope''),
    (''active_power_percent'', Some ''active_power_percent''),
    (''reactive_power_percent'', Some ''reactive_power_percent''),
    (''power_factor_command'', Some ''power_factor_command''),
    (''charge_power_percent'', Some ''charge_power_percent''),
    (''discharge_power_percent'', Some ''discharge_power_percent''),
    (''ac_charge_power_percent'', Some ''ac_charge_power_percent'')]"

text \<open>The comprehension inverts the map; when two settings share a register the later one wins.\<close>

definition REGISTER_TO_SETTING_NAME :: "(string \<times> string) list" where
  "REGISTER_TO_SETTING_NAME = foldl (\<lambda>m (sa_name, reg_name). case reg_name of
      None \<Rightarrow> m | Some r \<Rightarrow> if r \<noteq> [] then AList.update r sa_name m else m) [] SETTING_NAME_TO_REGISTER"

record condition_kind =
  ck_label :: string
  ck_unit :: string
  ck_value_type :: string
  ck_options :: "string list"

definition CONDITION_KINDS :: "(string \<times> condition_kind) list" where
  "CONDITION_KINDS = [
    (''time_of_day'', \<lparr>ck_label = ''Time of day'', ck_unit = '''', ck_value_type = ''time'', ck_options = []\<rparr>),
    (''day_of_week'', \<lparr>ck_label = ''Day of week'', ck_unit = '''', ck_value_type = ''select'', ck_options = [''Mon'', ''Tue'', ''Wed'', ''Thu'', ''Fri'', ''Sat'', ''Sun'']\<rparr>),
    (''month_of_year'', \<lparr>ck_label = ''Month of year'', ck_unit = '''', ck_value_type = ''select'', ck_options = [''Jan'', ''Feb'', ''Mar'', ''Apr'', ''May'', ''Jun'', ''Jul'', ''Aug'', ''Sep'', ''Oct'', ''Nov'', ''Dec'']\<rparr>),
    (''battery_voltage'', \<lparr>ck_label = ''Battery voltage'', ck_unit = ''V'', ck_value_type = ''number'', ck_options = []\<rparr>),
    (''battery_soc'', \<lparr>ck_label = ''Battery state of charge'', ck_unit = ''%'', ck_value_type = ''number'', ck_options = []\<rparr>),
    (''battery_current'', \<lparr>ck_label = ''Battery current'', ck_unit = ''A'', ck_value_type = ''number'', ck_options = []\<rparr>),
    (''grid_voltage'', \<lparr>ck_label = ''Grid voltage'', ck_unit = ''V'', ck_value_type = ''number'', ck_options = []\<rparr>),
    (''grid_frequency'', \<lparr>ck_label = ''Grid frequency'', ck_unit = ''Hz'', ck_value_type = ''number'', ck_options = []\<rparr>),
    (''pv_energy_progress'', \<lparr>ck_label = ''PV energy progress'', ck_unit = ''%'', ck_value_type = ''number'', ck_options = []\<rparr>),
    (''pv_energy_remaining_today'', \<lparr>ck_label = ''PV energy remaining today'', ck_unit = ''%'', ck_value_type = ''number'', ck_options = []\<rparr>),
    (''load_power'', \<lparr>ck_label = ''Load power'', ck_unit = ''W'', ck_value_type = ''number'', ck_options = []\<rparr>),
    (''inverter_temp'', \<lparr>ck_label = ''Inverter temperature'', ck_unit = ([CHR 0xC2, CHR 0xB0] @ ''C''), ck_value_type = ''number'', ck_options = []\<rparr>),
    (''battery_temp'', \<lparr>ck_label = ''Battery temperature'', ck_unit = ([CHR 0xC2, CHR 0xB0] @ ''C''), ck_value_type = ''number'', ck_options = []\<rparr>)]"

definition CONDITION_SENSOR :: "(string \<times> string option) list" where
  "CONDITION_SENSOR = [
    (''time_of_day'', None),
    (''day_of_week'', None),
    (''month_of_year'', None),
    (''battery_voltage'', Some ''battery_voltage''),
    (''battery_soc'', Some ''soc''),
    (''battery_current'', Some ''battery_current''),
    (''grid_voltage'', Some ''grid_voltage''),
    (''grid_frequency'', Some ''grid_frequency''),
    (''pv_energy_progress'', None),
    (''pv_energy_remaining_today'', None),
    (''load_power'', Some ''eps_power''),
    (''inverter_temp'', Some ''temp_inverter''),
    (''battery_temp'', Some ''temp_battery'')]"

definition EXTRA_CONDITION_KINDS :: "(string \<times> condition_kind) list" where
  "EXTRA_CONDITION_KINDS = [
    (''pv_power'', \<lparr>ck_label = ''Solar PV power'', ck_unit = ''W'', ck_value_type = ''number'', ck_options = []\<rparr>),
    (''grid_power'', \<lparr>ck_label = ''Grid power'', ck_unit = ''W'', ck_value_type = ''number'', ck_options = []\<rparr>)]"

definition EXTRA_CONDITION_SENSOR :: "(string \<times> string option) list" where
  "EXTRA_CONDITION_SENSOR = [
    (''pv_power'', Some ''pv1_power''),
    (''grid_power'', Some ''grid_import_power'')]"

text \<open>\<^verbatim>\<open>{**a, **b}\<close>.\<close>

definition dict_merge :: "('k \<times> 'v) list \<Rightarrow> ('k \<times> 'v) list \<Rightarrow> ('k \<times> 'v) list" where
  "dict_merge a b = foldl (\<lambda>m (k, v). AList.update k v m) a b"

definition ALL_CONDITION_KINDS :: "(string \<times> condition_kind) list" where
  "ALL_CONDITION_KINDS = dict_merge CONDITION_KINDS EXTRA_CONDITION_KINDS"

definition ALL_CONDITION_SENSOR :: "(string \<times> string option) list" where
  "ALL_CONDITION_SENSOR = dict_merge CONDITION_SENSOR EXTRA_CONDITION_SENSOR"

definition TYPE_RULE_TABLE :: string where
  "TYPE_RULE_TABLE = ''rule_table''"

definition TYPE_BATTERY_SOC :: string where
  "TYPE_BATTERY_SOC = ''battery_soc''"

definition TYPE_BATTERY_PROTECTION :: string where
  "TYPE_BATTERY_PROTECTION = ''battery_protection''"

definition TYPE_NOTIFY :: string where
  "TYPE_NOTIFY = ''notify''"

subsection \<open>Automations\<close>

definition to_float :: "json \<Rightarrow> pyfloat option result" where
  "to_float v =
    (if v = JNull \<or> v = JStr [] then Inr None
     else (case py_float v of
        Inr x \<Rightarrow> Inr (Some x)
      | Inl e \<Rightarrow> if e = TypeError \<or> e = ValueError then Inr None else Inl e))"

definition float_json :: "pyfloat option \<Rightarrow> json" where
  "float_json x = (case x of None \<Rightarrow> JNull | Some y \<Rightarrow> JFloat y)"

record condition =
  c_kind :: json
  c_min :: "pyfloat option"
  c_max :: "pyfloat option"
  c_value :: json

definition condition_to_dict :: "condition \<Rightarrow> json" where
  "condition_to_dict c = JDict [(''kind'', c_kind c), (''min'', float_json (c_min c)),
     (''max'', float_json (c_max c)), (''value'', c_value c)]"

definition condition_from_dict :: "json \<Rightarrow> condition result" where
  "condition_from_dict data =
    bindE (jget_or data ''kind'' (JStr ''time_of_day'')) (\<lambda>kind.
    bindE (bindE (jget data ''min'') to_float) (\<lambda>mn.
    bindE (bindE (jget data ''max'') to_float) (\<lambda>mx.
    bindE (jget data ''value'') (\<lambda>v.
    Inr \<lparr>c_kind = kind, c_min = mn, c_max = mx, c_value = v\<rparr>))))"

record rule_range =
  r_condition :: condition
  r_action_value :: "pyfloat option"

definition range_to_dict :: "rule_range \<Rightarrow> json" where
  "range_to_dict r = JDict [(''condition'', condition_to_dict (r_condition r)), (''action_value'', float_json (r_action_value r))]"

definition range_from_dict :: "json \<Rightarrow> rule_range result" where
  "range_from_dict data =
    bindE (bindE (jget_or data ''condition'' (JDict [])) condition_from_dict) (\<lambda>c.
    bindE (bindE (jget data ''action_value'') to_float) (\<lambda>a.
    Inr \<lparr>r_condition = c, r_action_value = a\<rparr>))"

record rule_group =
  g_condition :: condition
  g_ranges :: "rule_range list"

definition group_to_dict :: "rule_group \<Rightarrow> json" where
  "group_to_dict g = JDict [(''condition'', condition_to_dict (g_condition g)), (''ranges'', JList (map range_to_dict (g_ranges g)))]"

definition group_from_dict :: "json \<Rightarrow> rule_group result" where
  "group_from_dict data =
    bindE (bindE (jget_or data ''condition'' (JDict [])) condition_from_dict) (\<lambda>c.
    bindE (bindE (bindE (jget_or data ''ranges'' (JList [])) py_iter) (mapE range_from_dict)) (\<lambda>rs.
    Inr \<lparr>g_condition = c, g_ranges = rs\<rparr>))"

record automation =
  au_id :: string
  au_name :: json
  au_type :: json
  au_enabled :: bool
  au_disabled_until :: pyfloat
  au_setting :: json
  au_group_kind :: json
  au_range_kind :: json
  au_groups :: "rule_group list"
  au_conditions :: "condition list"
  au_action_value :: "pyfloat option"
  au_restore_value :: "pyfloat option"
  au_points :: "json list"
  au_threshold :: "pyfloat option"
  au_notify_message :: json

definition automation_to_dict :: "automation \<Rightarrow> json" where
  "automation_to_dict a = JDict [
     (''id'', JStr (au_id a)), (''name'', au_name a), (''type'', au_type a), (''enabled'', JBool (au_enabled a)),
     (''disabled_until'', JFloat (au_disabled_until a)), (''setting'', au_setting a),
     (''group_kind'', au_group_kind a), (''range_kind'', au_range_kind a),
     (''groups'', JList (map group_to_dict (au_groups a))),
     (''conditions'', JList (map condition_to_dict (au_conditions a))),
     (''action_value'', float_json (au_action_value a)), (''restore_value'', float_json (au_restore_value a)),
     (''points'', JList (au_points a)), (''threshold'', float_json (au_threshold a)),
     (''notify_message'', au_notify_message a)]"

definition automation_from_dict :: "json \<Rightarrow> automation result" where
  "automation_from_dict data =
    bindE (jget_or data ''id'' (JStr [])) (\<lambda>ident.
    bindE (jget_or data ''name'' (JStr [])) (\<lambda>name.
    bindE (jget_or data ''type'' (JStr TYPE_RULE_TABLE)) (\<lambda>typ.
    bindE (jget_or data ''enabled'' (JBool True)) (\<lambda>enabled.
    bindE (bindE (jget_or data ''disabled_until'' (JFloat 0)) (\<lambda>v. py_float (if truthy v then v else JFloat 0))) (\<lambda>until.
    bindE (jget data ''setting'') (\<lambda>setting.
    bindE (jget data ''group_kind'') (\<lambda>gk.
    bindE (jget data ''range_kind'') (\<lambda>rk.
    bindE (bindE (bindE (jget_or data ''groups'' (JList [])) py_iter) (mapE group_from_dict)) (\<lambda>groups.
    bindE (bindE (bindE (jget_or data ''conditions'' (JList [])) py_iter) (mapE condition_from_dict)) (\<lambda>conds.
    bindE (bindE (jget data ''action_value'') to_float) (\<lambda>av.
    bindE (bindE (jget data ''restore_value'') to_float) (\<lambda>rv.
    bindE (bindE (jget_or data ''points'' (JList [])) py_iter) (\<lambda>points.
    bindE (bindE (jget data ''threshold'') to_float) (\<lambda>th.
    bindE (jget_or data ''notify_message'' (JStr [])) (\<lambda>msg.
    Inr \<lparr>au_id = py_str ident, au_name = name, au_type = typ, au_enabled = truthy enabled,
      au_disabled_until = until, au_setting = setting, au_group_kind = gk, au_range_kind = rk,
      au_groups = groups, au_conditions = conds, au_action_value = av, au_restore_value = rv,
      au_points = points, au_threshold = th, au_notify_message = msg\<rparr>)))))))))))))))"

subsection \<open>Conditions\<close>

text \<open>
  The clock of the configured time zone (\<^verbatim>\<open>_now_in_tz\<close>): hour, minute and the abbreviated names of the
  day and the month, as \<^verbatim>\<open>strftime\<close> gives them.
\<close>

record wall_clock =
  w_hour :: int
  w_minute :: int
  w_day :: string
  w_month :: string

definition current_minutes :: "wall_clock \<Rightarrow> int" where
  "current_minutes now = w_hour now * 60 + w_minute now"

definition parse_hhmm :: "string \<Rightarrow> int option" where
  "parse_hhmm v = (case split_first (CHR '':'') (strip v) of
     (h, Some m) \<Rightarrow> (case (parse_int h, parse_int m) of (Some h, Some m) \<Rightarrow> Some (h * 60 + m) | _ \<Rightarrow> None)
   | (_, None) \<Rightarrow> None)"

definition time_matches :: "json \<Rightarrow> string \<Rightarrow> wall_clock \<Rightarrow> bool" where
  "time_matches v kind now =
    (if kind = ''time_of_day'' then
       let txt = (if truthy v then py_str v else []) in
       (case split_first (CHR ''-'') txt of
          (_, None) \<Rightarrow> False
        | (start, Some finish) \<Rightarrow>
           (case (parse_hhmm start, parse_hhmm finish) of
              (Some start_mins, Some end_mins) \<Rightarrow>
                let current = current_minutes now in
                if start_mins \<le> end_mins then start_mins \<le> current \<and> current \<le> end_mins
                else start_mins \<le> current \<or> current \<le> end_mins
            | _ \<Rightarrow> False))
     else if kind = ''day_of_week'' then w_day now = py_str v
     else if kind = ''month_of_year'' then w_month now = py_str v
     else False)"

type_synonym snapshot = "(string \<times> json) list"

definition sensor_value :: "snapshot \<Rightarrow> string \<Rightarrow> pyfloat option result" where
  "sensor_value snap sensor = (case map_of snap sensor of
     None \<Rightarrow> Inr None
   | Some val \<Rightarrow>
      (case val of
         JDict kvs \<Rightarrow> bindE (jget_or val ''value'' (JInt 0)) (\<lambda>v. bindE (py_float v) (\<lambda>x. Inr (Some x)))
       | _ \<Rightarrow> (case py_float val of Inr x \<Rightarrow> Inr (Some x) | Inl e \<Rightarrow> Inr None)))"

text \<open>The kind of a condition is looked up in a dictionary: a list or a dictionary as kind raises.\<close>

definition condition_matches :: "condition \<Rightarrow> snapshot \<Rightarrow> wall_clock \<Rightarrow> bool result" where
  "condition_matches c snap now =
    (if c_kind c \<in> {JStr ''time_of_day'', JStr ''day_of_week'', JStr ''month_of_year''}
     then Inr (time_matches (c_value c) (py_str (c_kind c)) now)
     else bindE (key_lookup ALL_CONDITION_SENSOR (c_kind c)) (\<lambda>sensor.
       case sensor of
         Some (Some sensor) \<Rightarrow>
           bindE (sensor_value snap sensor) (\<lambda>v. case v of
               None \<Rightarrow> Inr False
             | Some x \<Rightarrow>
                if (case c_min c of Some lo \<Rightarrow> x < lo | None \<Rightarrow> False) then Inr False
                else if (case c_max c of Some hi \<Rightarrow> hi < x | None \<Rightarrow> False) then Inr False
                else Inr True)
       | _ \<Rightarrow> Inr False))"

fun allE :: "('a \<Rightarrow> bool result) \<Rightarrow> 'a list \<Rightarrow> bool result" where
  "allE f [] = Inr True"
| "allE f (x # xs) = bindE (f x) (\<lambda>b. if b then allE f xs else Inr False)"

definition all_conditions_match :: "condition list \<Rightarrow> snapshot \<Rightarrow> wall_clock \<Rightarrow> bool result" where
  "all_conditions_match cs snap now = (if cs = [] then Inr True else allE (\<lambda>c. condition_matches c snap now) cs)"

fun first_range :: "rule_range list \<Rightarrow> snapshot \<Rightarrow> wall_clock \<Rightarrow> rule_range option result" where
  "first_range [] snap now = Inr None"
| "first_range (r # rs) snap now =
     bindE (condition_matches (r_condition r) snap now) (\<lambda>b. if b then Inr (Some r) else first_range rs snap now)"

fun first_group :: "rule_group list \<Rightarrow> snapshot \<Rightarrow> wall_clock \<Rightarrow> (rule_group \<times> rule_range) option result" where
  "first_group [] snap now = Inr None"
| "first_group (g # gs) snap now =
     bindE (condition_matches (g_condition g) snap now) (\<lambda>b.
       if \<not> b then first_group gs snap now
       else bindE (first_range (g_ranges g) snap now) (\<lambda>r. case r of
           Some r \<Rightarrow> Inr (Some (g, r))
         | None \<Rightarrow> first_group gs snap now))"

definition find_matching_range :: "automation \<Rightarrow> snapshot \<Rightarrow> wall_clock \<Rightarrow> (rule_group \<times> rule_range) option result" where
  "find_matching_range auto snap now = first_group (au_groups auto) snap now"

text \<open>The bounds are those of the table, taken as engineering values as the code does.\<close>

definition clamp_to_register :: "pyfloat \<Rightarrow> holding_meta \<Rightarrow> pyfloat result" where
  "clamp_to_register v meta =
    bindE (case hm_min meta of None \<Rightarrow> Inr v | Some lo \<Rightarrow> bindE (pf_of_int lo) (\<lambda>lo. Inr (pf_max v lo))) (\<lambda>v.
    case hm_max meta of None \<Rightarrow> Inr v | Some hi \<Rightarrow> bindE (pf_of_int hi) (\<lambda>hi. Inr (pf_min v hi)))"

end
