(* ===== verification/Automation.thy ===== *)
theory Automation
  imports Automation_Data Capabilities Drivers
begin

text \<open>
  The automation engine, \<^verbatim>\<open>AutomationEngine\<close> in \<^verbatim>\<open>src/collector/automation.py\<close>: one evaluation of every
  automation over a snapshot, the writes it makes over the dongle link and the log entries it leaves.
  The settings table is a function from names to stored values (absent on a failed read), the clock and
  \<^verbatim>\<open>time.time()\<close> are arguments of one evaluation, and the notifiers are an optional function that tells
  whether sending succeeds.  A log message is kept as the template it was built from, with its fields.
\<close>

subsection \<open>State\<close>

datatype log_message =
    Plain json
  | NotMapped json
  | NotFound string
  | NotSupported string
  | NotConverted pyfloat string
  | DryRun json pyfloat string int int
  | NotConfirmed string
  | SocDecision json pyfloat

record log_entry =
  le_id :: string
  le_name :: json
  le_register :: json
  le_raw :: "int option"
  le_scaled :: "pyfloat option"
  le_dry_run :: bool
  le_success :: bool
  le_message :: log_message

record 's engine =
  eg_link :: 's
  eg_last_eval :: "string \<rightharpoonup> bool"
  eg_last_notify :: "string \<rightharpoonup> pyfloat"
  eg_log :: "log_entry list"
  eg_notes :: "(string \<times> pyfloat \<times> json \<times> json) list"

text \<open>
  \<^verbatim>\<open>eg_notes\<close> is a ghost: the notifications handed to the notifiers, with the automation and the time.
  What an evaluation reads and does not change is the environment.
\<close>

record automation_env =
  ev_settings :: "string \<Rightarrow> string option"
  ev_clock :: wall_clock
  ev_time :: pyfloat
  ev_notifiers :: "(json \<Rightarrow> json \<Rightarrow> bool) option"
  ev_datalog_serial :: string
  ev_inverter_serial :: string

definition get_setting :: "(string \<Rightarrow> string option) \<Rightarrow> string \<Rightarrow> string \<Rightarrow> string" where
  "get_setting settings name default_value = (case settings name of Some v \<Rightarrow> v | None \<Rightarrow> default_value)"

definition resolve_model :: "(string \<Rightarrow> string option) \<Rightarrow> string" where
  "resolve_model settings = get_setting settings ''inverter_model'' DEFAULT_MODEL"

definition register_supported :: "(string \<Rightarrow> string option) \<Rightarrow> int \<Rightarrow> bool" where
  "register_supported settings reg =
     (map_of (filter_holding_registers HOLDING_REGISTERS (resolve_model settings)) reg \<noteq> None)"

definition flag_on :: "string \<Rightarrow> bool" where
  "flag_on s \<longleftrightarrow> List.member [''true'', ''1'', ''yes''] (lower s)"

definition automation_enabled :: "(string \<Rightarrow> string option) \<Rightarrow> bool" where
  "automation_enabled settings = flag_on (get_setting settings ''automation_enabled'' ''false'')"

definition global_dry_run :: "(string \<Rightarrow> string option) \<Rightarrow> bool" where
  "global_dry_run settings = flag_on (get_setting settings ''automation_global_dry_run'' ''true'')"

definition add_log :: "log_entry \<Rightarrow> ('s engine, unit) op" where
  "add_log e = modifyS (\<lambda>st. st\<lparr>eg_log := eg_log st @ [e]\<rparr>)"

definition set_last_eval :: "string \<Rightarrow> bool \<Rightarrow> ('s engine, unit) op" where
  "set_last_eval ident b = modifyS (\<lambda>st. st\<lparr>eg_last_eval := (eg_last_eval st)(ident \<mapsto> b)\<rparr>)"

definition was_active :: "string \<Rightarrow> 's engine \<Rightarrow> bool" where
  "was_active ident st = (eg_last_eval st ident = Some True)"

definition on_link :: "('s, 'a) op \<Rightarrow> ('s engine, 'a) op" where
  "on_link = on_part eg_link (\<lambda>l st. st\<lparr>eg_link := l\<rparr>)"

subsection \<open>Writing a setting\<close>

definition write_target :: "(string \<Rightarrow> string option) \<Rightarrow> json \<Rightarrow> (log_message + string \<times> int \<times> holding_meta) result" where
  "write_target settings setting =
    bindE (key_lookup SETTING_NAME_TO_REGISTER setting) (\<lambda>entry.
    case entry of
      Some (Some reg_name) \<Rightarrow>
        (case map_of HOLDING_BY_NAME reg_name of
           None \<Rightarrow> Inr (Inl (NotFound reg_name))
         | Some reg_addr \<Rightarrow>
            if \<not> register_supported settings reg_addr then Inr (Inl (NotSupported reg_name))
            else (case map_of HOLDING_REGISTERS reg_addr of
                    None \<Rightarrow> Inl KeyError
                  | Some meta \<Rightarrow> Inr (Inr (reg_name, reg_addr, meta))))
    | _ \<Rightarrow> Inr (Inl (NotMapped setting)))"

definition do_write :: "'s transact_op \<Rightarrow> automation_env \<Rightarrow> string \<Rightarrow> json \<Rightarrow> json \<Rightarrow> pyfloat \<Rightarrow> bool \<Rightarrow> ('s engine, unit) op" where
  "do_write tr env ident name setting v dry_run =
    (let ds = ev_datalog_serial env; isn = ev_inverter_serial env;
         entry = (\<lambda>raw scaled dry ok msg. \<lparr>le_id = ident, le_name = name, le_register = setting, le_raw = raw,
            le_scaled = scaled, le_dry_run = dry, le_success = ok, le_message = msg\<rparr>) in
     bindS (liftS (write_target (ev_settings env) setting)) (\<lambda>target.
     case target of
       Inl msg \<Rightarrow> add_log (entry None (Some v) dry_run False msg)
     | Inr (reg_name, reg_addr, meta) \<Rightarrow>
        bindS (liftS (clamp_to_register v meta)) (\<lambda>clamped.
        case engineering_to_raw clamped meta of
          None \<Rightarrow> add_log (entry None (Some v) dry_run False (NotConverted clamped reg_name))
        | Some raw \<Rightarrow>
           if dry_run then add_log (entry (Some raw) (Some clamped) True True (DryRun setting clamped reg_name reg_addr raw))
           else
           bindS (on_link (read_holding_register tr ds isn reg_addr)) (\<lambda>(read_ok, current_raw, _).
           if read_ok \<and> current_raw = Some raw then returnS ()
           else
           bindS (on_link (write_holding_register tr ds isn reg_addr raw)) (\<lambda>(ok, msg).
           if \<not> ok then add_log (entry (Some raw) (Some clamped) False False (Plain (JStr msg)))
           else
           bindS (on_link (verify_reads 4 (read_holding_register tr ds isn reg_addr) raw)) (\<lambda>verified.
           if \<not> verified then add_log (entry (Some raw) (Some clamped) False False (NotConfirmed reg_name))
           else add_log (entry (Some raw) (Some clamped) False True (Plain (JStr msg)))))))))"

subsection \<open>Notifications\<close>

text \<open>\<^verbatim>\<open>auto.notify_message or f"Automation '{auto.name}' condition matched"\<close>.\<close>

definition notification_text :: "automation \<Rightarrow> json" where
  "notification_text auto = (if truthy (au_notify_message auto) then au_notify_message auto
     else JStr (''Automation '' @ [CHR 0x27] @ py_str (au_name auto) @ [CHR 0x27] @ '' condition matched''))"

definition send_notification :: "automation_env \<Rightarrow> automation \<Rightarrow> ('s engine, unit) op" where
  "send_notification env auto st =
    (case ev_notifiers env of
       None \<Rightarrow> (Inr (), st)
     | Some send \<Rightarrow>
        let last = (case eg_last_notify st (au_id auto) of Some t \<Rightarrow> t | None \<Rightarrow> 0) in
        if ev_time env - last < Fin 300 then (Inr (), st)
        else
        let st = st\<lparr>eg_last_notify := (eg_last_notify st)(au_id auto \<mapsto> ev_time env)\<rparr>;
            msg = notification_text auto in
        if send (au_name auto) msg
        then add_log \<lparr>le_id = au_id auto, le_name = au_name auto, le_register = JStr ''notify'', le_raw = None,
               le_scaled = None, le_dry_run = False, le_success = True, le_message = Plain msg\<rparr>
             (st\<lparr>eg_notes := eg_notes st @ [(au_id auto, ev_time env, au_name auto, msg)]\<rparr>)
        else (Inr (), st))"

subsection \<open>Battery state of charge control\<close>

text \<open>
  The points sorted by their time of day (a stable sort, unreadable times counting as midnight), and
  the first interval that contains the current time; a point with an unreadable time is skipped.
\<close>

definition point_time :: "json \<Rightarrow> int option result" where
  "point_time p = bindE (jget_or p ''time'' (JStr ''00:00'')) (\<lambda>t. Inr (parse_hhmm (py_str t)))"

fun source_at :: "int \<Rightarrow> (json \<times> int option) list \<Rightarrow> int option list \<Rightarrow> json result" where
  "source_at now [] nexts = Inr (JStr ''battery'')"
| "source_at now ((p, t) # ps) nexts =
    (let nexts' = tl nexts in
     case t of
       None \<Rightarrow> source_at now ps nexts'
     | Some t \<Rightarrow>
        let next_t = (case hd nexts of Some n \<Rightarrow> n | None \<Rightarrow> t) in
        if (if t \<le> next_t then t \<le> now \<and> now < next_t else t \<le> now \<or> now < next_t)
        then jget_or p ''source'' (JStr ''battery'')
        else source_at now ps nexts')"

definition target_source :: "json list \<Rightarrow> int \<Rightarrow> json result" where
  "target_source points now =
    (if points = [] then Inr (JStr ''battery'')
     else bindE (mapE (\<lambda>p. bindE (point_time p) (\<lambda>t. Inr (p, t))) points) (\<lambda>timed.
       let sorted_points = sort_key (\<lambda>(p, t). case t of Some t \<Rightarrow> t | None \<Rightarrow> 0) timed
       in source_at now sorted_points (rotate1 (map snd sorted_points))))"

definition evaluate_battery_soc :: "automation_env \<Rightarrow> automation \<Rightarrow> snapshot \<Rightarrow> bool \<Rightarrow> ('s engine, unit) op" where
  "evaluate_battery_soc env auto snap dry_run =
    bindS (liftS (sensor_value snap ''soc'')) (\<lambda>soc.
    case soc of
      None \<Rightarrow> returnS ()
    | Some soc \<Rightarrow>
       bindS (liftS (target_source (au_points auto) (current_minutes (ev_clock env)))) (\<lambda>src.
       add_log \<lparr>le_id = au_id auto, le_name = au_name auto, le_register = JStr ''battery_source'', le_raw = None,
         le_scaled = None, le_dry_run = dry_run, le_success = True, le_message = SocDecision src soc\<rparr>))"

subsection \<open>Evaluation\<close>

definition evaluate_battery_protection :: "'s transact_op \<Rightarrow> automation_env \<Rightarrow> automation \<Rightarrow> snapshot \<Rightarrow> bool \<Rightarrow> ('s engine, unit) op" where
  "evaluate_battery_protection tr env auto snap dry_run =
    bindS (liftS (sensor_value snap ''soc'')) (\<lambda>soc.
    case (soc, au_threshold auto) of
      (Some soc, Some threshold) \<Rightarrow>
        bindS (getS (was_active (au_id auto))) (\<lambda>active.
        if soc \<le> threshold then
          bindS (case au_action_value auto of
                   Some v \<Rightarrow> do_write tr env (au_id auto) (au_name auto) (JStr ''shutdown_battery_voltage'') v dry_run
                 | None \<Rightarrow> returnS ()) (\<lambda>_.
          set_last_eval (au_id auto) True)
        else
          bindS (if active then
                   (case au_restore_value auto of
                      Some v \<Rightarrow> do_write tr env (au_id auto) (au_name auto) (JStr ''shutdown_battery_voltage'') v dry_run
                    | None \<Rightarrow> returnS ())
                 else returnS ()) (\<lambda>_.
          set_last_eval (au_id auto) False))
    | _ \<Rightarrow> returnS ())"

definition evaluate_rule_table :: "'s transact_op \<Rightarrow> automation_env \<Rightarrow> automation \<Rightarrow> snapshot \<Rightarrow> bool \<Rightarrow> bool \<Rightarrow> ('s engine, unit) op" where
  "evaluate_rule_table tr env auto snap dry_run active =
    bindS (liftS (find_matching_range auto snap (ev_clock env))) (\<lambda>m.
    case (if au_setting auto \<noteq> JNull then Option.bind m (\<lambda>(_, rng). r_action_value rng) else None) of
      Some v \<Rightarrow>
        bindS (do_write tr env (au_id auto) (au_name auto) (au_setting auto) v dry_run) (\<lambda>_.
        set_last_eval (au_id auto) True)
    | None \<Rightarrow>
        bindS (if active \<and> au_setting auto \<noteq> JNull then
                 (case au_restore_value auto of
                    Some v \<Rightarrow> do_write tr env (au_id auto) (au_name auto) (au_setting auto) v dry_run
                  | None \<Rightarrow> returnS ())
               else returnS ()) (\<lambda>_.
        set_last_eval (au_id auto) False))"

definition evaluate_one :: "'s transact_op \<Rightarrow> automation_env \<Rightarrow> automation \<Rightarrow> snapshot \<Rightarrow> bool \<Rightarrow> ('s engine, unit) op" where
  "evaluate_one tr env auto snap dry_run =
    bindS (liftS (all_conditions_match (au_conditions auto) snap (ev_clock env))) (\<lambda>matched.
    bindS (getS (was_active (au_id auto))) (\<lambda>active.
    if au_type auto = JStr TYPE_NOTIFY then
      bindS (if matched \<and> \<not> active then send_notification env auto else returnS ()) (\<lambda>_.
      set_last_eval (au_id auto) matched)
    else if au_type auto = JStr TYPE_BATTERY_PROTECTION then evaluate_battery_protection tr env auto snap dry_run
    else if au_type auto = JStr TYPE_BATTERY_SOC then evaluate_battery_soc env auto snap dry_run
    else evaluate_rule_table tr env auto snap dry_run active))"

definition evaluate_and_apply :: "'s transact_op \<Rightarrow> automation_env \<Rightarrow> automation list \<Rightarrow> snapshot \<Rightarrow> ('s engine, unit) op" where
  "evaluate_and_apply tr env automations snap =
    (let enabled = automation_enabled (ev_settings env);
         dry_run = global_dry_run (ev_settings env);
         now = ev_time env in
     forS automations (\<lambda>auto.
       if \<not> enabled \<or> \<not> au_enabled auto then returnS ()
       else if au_disabled_until auto \<noteq> 0 \<and> now < au_disabled_until auto then returnS ()
       else swallowS (evaluate_one tr env auto snap dry_run)))"

end
