(* ===== verification/Automation_Facts.thy ===== *)
theory Automation_Facts
  imports Automation
begin

text \<open>
  Properties of the automation engine: the JSON form of an automation, the conditions, what a write does
  over any link and over a link to an inverter, and what an evaluation can put on the wire.
\<close>

subsection \<open>Automations as JSON values\<close>

lemma to_float_json [simp]: "to_float (float_json x) = Inr x"
  by (cases x) (simp_all add: to_float_def float_json_def)

lemma condition_roundtrip [simp]: "condition_from_dict (condition_to_dict c) = Inr c"
  by (simp add: condition_from_dict_def condition_to_dict_def)

lemma range_roundtrip [simp]: "range_from_dict (range_to_dict r) = Inr r"
  by (simp add: range_from_dict_def range_to_dict_def)

lemma mapE_inverse: "(\<And>x. f (g x) = Inr x) \<Longrightarrow> mapE f (map g xs) = Inr xs"
  by (induction xs) auto

lemma group_roundtrip [simp]: "group_from_dict (group_to_dict g) = Inr g"
  by (simp add: group_from_dict_def group_to_dict_def mapE_inverse)

text \<open>C10: an automation converted to a JSON value and read back is the same automation.\<close>

theorem automation_dict_roundtrip: "automation_from_dict (automation_to_dict a) = Inr a"
  by (simp add: automation_from_dict_def automation_to_dict_def mapE_inverse py_str_def zero_pyfloat_def)

subsection \<open>Conditions\<close>

lemma split_first_here: "sep \<notin> set a \<Longrightarrow> split_first sep (a @ sep # b) = (a, Some b)"
  by (induction a) auto

lemma window_cyclic:
  fixes s e t :: int
  assumes "0 \<le> s" "s < 1440" "0 \<le> e" "e < 1440" "0 \<le> t" "t < 1440"
  shows "(if s \<le> e then s \<le> t \<and> t \<le> e else s \<le> t \<or> t \<le> e) \<longleftrightarrow> (t - s) mod 1440 \<le> (e - s) mod 1440"
proof -
  have m: "(x - s) mod 1440 = (if s \<le> x then x - s else x - s + 1440)" if "0 \<le> x" "x < 1440" for x
  proof (cases "s \<le> x")
    case True
    then show ?thesis
      using that assms by simp
  next
    case False
    have "(x - s) mod 1440 = (x - s + 1440) mod 1440"
      by simp
    also have "\<dots> = x - s + 1440"
      using that assms False by (intro mod_pos_pos_trivial) auto
    finally show ?thesis
      using False by simp
  qed
  show ?thesis
    using assms by (simp add: m)
qed

text \<open>A time-of-day window from \<^verbatim>\<open>start\<close> to \<^verbatim>\<open>end\<close>, both readable times of the day, matches exactly when the
  current minute lies on the way from start to end on the 24 hour clock, both ends included, whether or
  not the window passes midnight.\<close>

lemma time_window:
  assumes "parse_hhmm start = Some s" "parse_hhmm finish = Some e" "CHR ''-'' \<notin> set start"
    and "0 \<le> s" "s < 1440" "0 \<le> e" "e < 1440" "0 \<le> w_hour now" "w_hour now < 24" "0 \<le> w_minute now" "w_minute now < 60"
  shows "time_matches (JStr (start @ ''-'' @ finish)) ''time_of_day'' now
     \<longleftrightarrow> (current_minutes now - s) mod 1440 \<le> (e - s) mod 1440"
proof -
  have "0 \<le> current_minutes now" "current_minutes now < 1440"
    using assms by (simp_all add: current_minutes_def)
  from window_cyclic [OF assms(4-7) this] show ?thesis
    using split_first_here [OF assms(3), of finish] assms(1,2)
    by (simp add: time_matches_def py_str_def Let_def)
qed

lemma parse_hhmm_samples: "parse_hhmm ''22:30'' = Some 1350" "parse_hhmm '' 6:05'' = Some 365"
  by (simp_all add: parse_hhmm_def strip_def lstrip_def is_space_def char_code_def parse_int_def is_digit_def digit_val_def)

text \<open>What the nested search of a rule table returns, without exceptions: the first group whose condition
  holds and that has a range whose condition holds, and its first such range.\<close>

definition range_holds :: "snapshot \<Rightarrow> wall_clock \<Rightarrow> rule_range \<Rightarrow> bool" where
  "range_holds snap now r \<longleftrightarrow> condition_matches (r_condition r) snap now = Inr True"

definition group_holds :: "snapshot \<Rightarrow> wall_clock \<Rightarrow> rule_group \<Rightarrow> bool" where
  "group_holds snap now g \<longleftrightarrow> condition_matches (g_condition g) snap now = Inr True"

lemma first_range_total:
  assumes "\<And>r. r \<in> set rs \<Longrightarrow> \<exists>b. condition_matches (r_condition r) snap now = Inr b"
  shows "first_range rs snap now = Inr (find (range_holds snap now) rs)"
  using assms
proof (induction rs)
  case (Cons r rs)
  then obtain b where "condition_matches (r_condition r) snap now = Inr b"
    by auto
  with Cons show ?case
    by (simp add: range_holds_def)
qed simp

definition conditions_total :: "automation \<Rightarrow> snapshot \<Rightarrow> wall_clock \<Rightarrow> bool" where
  "conditions_total auto snap now \<longleftrightarrow> list_all (\<lambda>g. (\<exists>b. condition_matches (g_condition g) snap now = Inr b)
     \<and> list_all (\<lambda>r. \<exists>b. condition_matches (r_condition r) snap now = Inr b) (g_ranges g)) (au_groups auto)"

lemma first_group_total:
  assumes "list_all (\<lambda>g. (\<exists>b. condition_matches (g_condition g) snap now = Inr b)
     \<and> list_all (\<lambda>r. \<exists>b. condition_matches (r_condition r) snap now = Inr b) (g_ranges g)) gs"
  shows "first_group gs snap now = Inr (map_option (\<lambda>g. (g, the (find (range_holds snap now) (g_ranges g))))
     (find (\<lambda>g. group_holds snap now g \<and> list_ex (range_holds snap now) (g_ranges g)) gs))"
  using assms
proof (induction gs)
  case (Cons g gs)
  then obtain b where b: "condition_matches (g_condition g) snap now = Inr b"
    by auto
  have r: "first_range (g_ranges g) snap now = Inr (find (range_holds snap now) (g_ranges g))"
    using Cons.prems by (intro first_range_total) (auto simp: list_all_iff)
  have ex: "list_ex P xs \<longleftrightarrow> find P xs \<noteq> None" for P and xs :: "rule_range list"
    by (auto simp: find_None_iff list_ex_iff)
  show ?case
    using Cons b by (cases "find (range_holds snap now) (g_ranges g)") (auto simp: group_holds_def r ex)
qed simp

text \<open>When no condition raises, a rule table selects the first group whose condition matches and that
  has a matching range, and in it the first matching range: a group without a matching range is passed
  over, and the result is empty exactly when there is no matching pair.\<close>

lemma rule_table_first_match:
  assumes "conditions_total auto snap now"
  shows "find_matching_range auto snap now = Inr (
     map_option (\<lambda>g. (g, the (find (range_holds snap now) (g_ranges g))))
       (find (\<lambda>g. group_holds snap now g \<and> list_ex (range_holds snap now) (g_ranges g)) (au_groups auto)))"
  unfolding find_matching_range_def
  by (rule first_group_total) (use assms in \<open>simp add: conditions_total_def\<close>)

definition sample_condition :: "string \<Rightarrow> rat \<Rightarrow> rat \<Rightarrow> condition" where
  "sample_condition kind lo hi = \<lparr>c_kind = JStr kind, c_min = Some (Fin lo), c_max = Some (Fin hi), c_value = JNull\<rparr>"

definition sample_automation :: automation where
  "sample_automation = \<lparr>au_id = ''a1'', au_name = JStr ''Night charge'', au_type = JStr ''rule_table'', au_enabled = True,
     au_disabled_until = 0, au_setting = JStr ''charge_power_percent'', au_group_kind = JStr ''battery_soc'',
     au_range_kind = JStr ''battery_temp'',
     au_groups = [\<lparr>g_condition = sample_condition ''battery_soc'' 0 50,
        g_ranges = [\<lparr>r_condition = sample_condition ''battery_temp'' 40 90, r_action_value = Some (Fin 10)\<rparr>]\<rparr>,
       \<lparr>g_condition = sample_condition ''battery_soc'' 0 80,
        g_ranges = [\<lparr>r_condition = sample_condition ''battery_temp'' 5 30, r_action_value = Some (Fin 80)\<rparr>]\<rparr>],
     au_conditions = [], au_action_value = None, au_restore_value = None, au_points = [], au_threshold = None,
     au_notify_message = JStr []\<rparr>"

definition sample_clock :: wall_clock where
  "sample_clock = \<lparr>w_hour = 12, w_minute = 0, w_day = ''Mon'', w_month = ''Jan''\<rparr>"

definition sample_snapshot :: snapshot where
  "sample_snapshot = [(''soc'', JDict [(''value'', JInt 40)]), (''temp_battery'', JDict [(''value'', JInt 20)])]"

lemma sample_matches:
  "condition_matches (sample_condition ''battery_soc'' lo hi) sample_snapshot now = Inr (lo \<le> 40 \<and> 40 \<le> hi)"
  "condition_matches (sample_condition ''battery_temp'' lo hi) sample_snapshot now = Inr (lo \<le> 20 \<and> 20 \<le> hi)"
  by (auto simp: condition_matches_def sample_condition_def ALL_CONDITION_SENSOR_def dict_merge_def CONDITION_SENSOR_def
      EXTRA_CONDITION_SENSOR_def sensor_value_def sample_snapshot_def pf_of_int_def dbl_of_int [of "40", simplified]
      dbl_of_int [of "20", simplified])

end
