(* ===== verification/Link_Facts.thy ===== *)
theory Link_Facts
  imports Link
begin

text \<open>
  What the register primitives guarantee over any transactor, and over a link to an inverter that obeys
  the protocol.  The latter is a hypothesis, \<^verbatim>\<open>honest_link\<close>, which an emulated inverter behind the persistent
  connection of the program is shown to satisfy.
\<close>

subsection \<open>Over any transactor\<close>

lemma build_write_request_single:
  "build_write_request ds isn reg v =
     (if \<not> (0 \<le> v \<and> v \<le> 65535) then Inl ValueError
      else if \<not> (0 \<le> reg \<and> reg \<le> 65535) then Inl StructError else Inr (write_request ds isn reg v))"
  by (simp add: build_write_request_cases write_request_def)

context transactor
begin

lemma read_result:
  assumes "read_holding_register tr ds isn reg s = (r, s')"
  shows "(\<exists>e. r = Inl e \<and> (e = StructError \<or> (\<exists>s1. tr (read_request ds isn reg) (read_match reg) s = (Inl e, s1))))
    \<or> (\<exists>msg. r = Inr (False, None, msg))
    \<or> (\<exists>v msg f. r = Inr (True, Some v, msg) \<and> tr (read_request ds isn reg) (read_match reg) s = (Inr (Some f), s')
         \<and> \<not> f_is_error f \<and> is_read_hold f \<and> f_register f = reg \<and> f_values f \<noteq> [] \<and> hd (f_values f) = v)"
proof (cases "0 \<le> reg \<and> reg \<le> 65535")
  case False
  with assms show ?thesis
    by (auto simp: read_holding_register_def build_read_request_hold op_defs)
next
  case True
  obtain r1 s1 where t: "tr (read_request ds isn reg) (read_match reg) s = (r1, s1)"
    by fastforce
  show ?thesis
  proof (cases "\<exists>f. r1 = Inr (Some f)")
    case False
    with assms True t show ?thesis
      by (cases r1) (auto simp: read_holding_register_def build_read_request_hold op_defs split: option.splits)
  next
    case f: True
    then obtain f where f: "r1 = Inr (Some f)"
      by blast
    have "read_match reg f"
      using tr_match [OF t [unfolded f]] .
    with assms True t f show ?thesis
      by (cases "f_values f")
        (auto simp: read_holding_register_def build_read_request_hold op_defs read_match_def split: if_splits)
  qed
qed

end

context logged_transactor
begin

lemma tr_sends: "req \<in> P \<Longrightarrow> transits (sends sent P) (tr req match)"
proof (rule transitsI)
  fix s r s'
  assume "req \<in> P" "tr req match s = (r, s')"
  then obtain k where "sent s' = sent s @ replicate k req"
    using tr_sent by blast
  moreover have "set (replicate k req) \<subseteq> P"
    using \<open>req \<in> P\<close> by auto
  ultimately show "sends sent P s s'"
    unfolding sends_def by blast
qed

lemma read_sends: "read_request ds isn reg \<in> P \<Longrightarrow> transits (sends sent P) (read_holding_register tr ds isn reg)"
  by (cases "0 \<le> reg \<and> reg \<le> 65535")
    (auto simp: read_holding_register_def build_read_request_hold
      intro!: sends.bindS tr_sends sends.returnS sends.raiseS split: option.split list.split)

lemma write_sends:
  assumes "0 \<le> v \<and> v \<le> 65535 \<and> 0 \<le> reg \<and> reg \<le> 65535 \<Longrightarrow> write_request ds isn reg v \<in> P"
  shows "transits (sends sent P) (write_holding_register tr ds isn reg v)"
proof (cases "0 \<le> v \<and> v \<le> 65535 \<and> 0 \<le> reg \<and> reg \<le> 65535")
  case True
  with assms show ?thesis
    by (auto simp: write_holding_register_def build_write_request_single
        intro!: sends.bindS tr_sends sends.returnS split: option.split)
next
  case False
  then show ?thesis
    by (auto simp: write_holding_register_def build_write_request_single intro!: sends.raiseS)
qed

end

lemma verify_reads_transits:
  assumes "transits (sends sent P) rd"
  shows "transits (sends sent P) (verify_reads n rd raw)"
  by (induction n) (auto intro!: sends.bindS sends.returnS assms)

text \<open>A verification succeeds only when one of the reads returned the expected value.\<close>

lemma verify_reads_True:
  "verify_reads n rd raw s = (Inr True, s') \<Longrightarrow> \<exists>s1 msg. rd s1 = (Inr (True, Some raw, msg), s')"
  by (induction n arbitrary: s) (auto simp: bindS_eq returnS_def split: if_splits)

subsection \<open>Over a link to an inverter\<close>

text \<open>
  The documented behaviour of an inverter on the link: a read request of a holding register is answered
  with a read response carrying its content, and a single write stores the value and is echoed.  The
  registers from 500 on, the seven-day schedule, are excepted: the inverter takes them by multi-register
  writes only.
\<close>

definition honest_link :: "'s transact_op \<Rightarrow> string \<Rightarrow> string \<Rightarrow> ('s \<Rightarrow> int \<Rightarrow> int) \<Rightarrow> bool" where
  "honest_link tr ds isn regs \<longleftrightarrow>
     (\<forall>s reg. 0 \<le> reg \<and> reg \<le> 65535 \<longrightarrow>
        (\<exists>f s'. tr (read_request ds isn reg) (read_match reg) s = (Inr (Some f), s')
           \<and> \<not> f_is_error f \<and> f_values f = [regs s reg] \<and> regs s' = regs s))
   \<and> (\<forall>s reg v. 0 \<le> reg \<and> reg < 500 \<and> 0 \<le> v \<and> v \<le> 65535 \<longrightarrow>
        (\<exists>f s'. tr (write_request ds isn reg v) (write_match MODBUS_WRITE_SINGLE reg) s = (Inr (Some f), s')
           \<and> \<not> f_is_error f \<and> f_values f = [v] \<and> regs s' = (regs s)(reg := v)))"

lemma honest_read:
  assumes "honest_link tr ds isn regs" "0 \<le> reg" "reg \<le> 65535"
  shows "\<exists>msg s'. read_holding_register tr ds isn reg s = (Inr (True, Some (regs s reg), msg), s') \<and> regs s' = regs s"
proof -
  obtain f s' where "tr (read_request ds isn reg) (read_match reg) s = (Inr (Some f), s')"
    "\<not> f_is_error f" "f_values f = [regs s reg]" "regs s' = regs s"
    using assms unfolding honest_link_def by blast
  then show ?thesis
    using assms(2,3) by (simp add: read_holding_register_def build_read_request_hold op_defs)
qed

lemma honest_write:
  assumes "honest_link tr ds isn regs" "0 \<le> reg" "reg < 500" "0 \<le> v" "v \<le> 65535"
  shows "\<exists>msg s'. write_holding_register tr ds isn reg v s = (Inr (True, msg), s') \<and> regs s' = (regs s)(reg := v)"
proof -
  obtain f s' where "tr (write_request ds isn reg v) (write_match MODBUS_WRITE_SINGLE reg) s = (Inr (Some f), s')"
    "\<not> f_is_error f" "f_values f = [v]" "regs s' = (regs s)(reg := v)"
    using assms unfolding honest_link_def by blast
  then show ?thesis
    using assms(2-) by (simp add: write_holding_register_def build_write_request_single op_defs)
qed

lemma honest_verify:
  assumes "honest_link tr ds isn regs" "0 \<le> reg" "reg \<le> 65535" "regs s reg = raw"
  shows "\<exists>s'. verify_reads (Suc n) (read_holding_register tr ds isn reg) raw s = (Inr True, s') \<and> regs s' = regs s"
proof -
  obtain msg s' where "read_holding_register tr ds isn reg s = (Inr (True, Some raw, msg), s')" "regs s' = regs s"
    using honest_read [OF assms(1-3), of s] assms(4) by blast
  then show ?thesis
    by (simp add: op_defs)
qed

subsection \<open>An inverter behind the persistent connection\<close>

text \<open>An emulated inverter as the peer of the connection: it answers reads of one or more registers, and
  stores and echoes single writes outside of the schedule.  The count is read from the request itself.\<close>

record inverter_world =
  iw_regs :: "int \<Rightarrow> 16 word"
  iw_pending :: bytes

definition block_request :: "string \<Rightarrow> string \<Rightarrow> int \<Rightarrow> int \<Rightarrow> bytes" where
  "block_request ds isn start count = data_packet ds (data_body MODBUS_READ_HOLD isn (le16 start @ le16 count))"

lemma read_request_block: "read_request ds isn reg = block_request ds isn reg 1"
  by (simp add: read_request_def block_request_def)

definition read_answer :: "string \<Rightarrow> string \<Rightarrow> int \<Rightarrow> int list \<Rightarrow> bytes" where
  "read_answer ds isn reg vs =
     data_packet ds (data_body MODBUS_READ_HOLD isn (le16 reg @ [word_of_int (2 * int (length vs))] @ le16s vs))"

definition iw_block :: "inverter_world \<Rightarrow> int \<Rightarrow> int \<Rightarrow> int list" where
  "iw_block w start count = map (\<lambda>reg. uint (iw_regs w reg)) [start..start + count - 1]"

definition inverter_answer :: "bytes \<Rightarrow> inverter_world \<Rightarrow> inverter_world" where
  "inverter_answer request w = (case (parse_frame request, unpack_u16 request 34) of
     (Inr (Some f), Inr count) \<Rightarrow>
       if f_device_function f = MODBUS_READ_HOLD
       then w\<lparr>iw_pending := read_answer (f_datalog_serial f) (f_inverter_serial f) (f_register f) (iw_block w (f_register f) count)\<rparr>
       else if f_device_function f = MODBUS_WRITE_SINGLE \<and> f_register f < 500
       then w\<lparr>iw_pending := request, iw_regs := (iw_regs w)(f_register f := word_of_int (hd (f_values f)))\<rparr>
       else w\<lparr>iw_pending := []\<rparr>
   | _ \<Rightarrow> w\<lparr>iw_pending := []\<rparr>)"

definition inverter_peer :: "inverter_world peer" where
  "inverter_peer = \<lparr>p_connect = (\<lambda>w. (True, w)), p_probe = (\<lambda>w. (ProbeTimeout, w)),
     p_send = (\<lambda>req w. (True, inverter_answer req w)),
     p_recv = (\<lambda>w. if iw_pending w = [] then (RecvTimeout, 1, w) else (RecvData (iw_pending w), 1, w\<lparr>iw_pending := []\<rparr>))\<rparr>"

definition inverter_regs :: "inverter_world shared \<Rightarrow> int \<Rightarrow> int" where
  "inverter_regs sh reg = uint (iw_regs (d_world (sh_dongle sh)) reg)"

text \<open>A peer that answers every request with one well-formed packet completes a transaction at once.\<close>

lemma find_frames_single:
  assumes "wf_packet p" "parse_frame p = Inr (Some f)"
  shows "find_frames p = Inr [f]"
  using find_frames_packets [of "[p]" "[]" "[]"] find_frames_no_start [of "[]"] assms by simp

lemma recv_loop_answer:
  assumes "iw_pending (d_world st) = p" "wf_packet p" "parse_frame p = Inr (Some f)" "match f" "0 < t"
  shows "recv_loop inverter_peer match t [] st =
    (Matched f, note_response (f_raw f) (st\<lparr>d_world := (d_world st)\<lparr>iw_pending := []\<rparr>\<rparr>))"
proof -
  have "p \<noteq> []"
    using assms(2) by (auto simp: wf_packet_def HEADER_SIZE_def)
  with assms find_frames_single [OF assms(2,3)] show ?thesis
    by (subst recv_loop.simps) (simp add: inverter_peer_def Let_def)
qed

lemma ensure_connected_inverter:
  "\<exists>st'. ensure_connected inverter_peer st = (Inr (), st') \<and> d_sock st' \<and> d_world st' = d_world st"
  by (cases "d_sock st") (simp_all add: ensure_connected_def connect_def inverter_peer_def)

lemma transact_inverter:
  assumes "iw_pending (inverter_answer req (d_world st)) = p" "wf_packet p" "parse_frame p = Inr (Some f)" "match f" "0 < t"
  shows "\<exists>st'. transact inverter_peer req match (Some t) st = (Inr (Some f), st')
    \<and> d_world st' = (inverter_answer req (d_world st))\<lparr>iw_pending := []\<rparr>"
proof -
  obtain st1 where e: "ensure_connected inverter_peer st = (Inr (), st1)" "d_sock st1" "d_world st1 = d_world st"
    using ensure_connected_inverter by blast
  define st2 where "st2 = st1\<lparr>d_world := inverter_answer req (d_world st), d_sent := d_sent st1 @ [req],
      d_tx_count := d_tx_count st1 + 1\<rparr>"
  have "iw_pending (d_world st2) = p"
    by (simp add: st2_def assms(1))
  from recv_loop_answer [where match = match and t = t, OF this assms(2-5)]
  have "transact_attempts (Suc n) inverter_peer req match t st =
      (Inr (Some f), note_response (f_raw f) (st2\<lparr>d_world := (d_world st2)\<lparr>iw_pending := []\<rparr>\<rparr>))" for n
    using e by (simp add: inverter_peer_def Let_def st2_def)
  then show ?thesis
    using assms(5) by (simp add: transact_def st2_def)
qed

lemma link_transact_inverter:
  assumes "\<And>w. w = d_world (sh_dongle sh) \<Longrightarrow> iw_pending (inverter_answer req w) = p"
    and "wf_packet p" "parse_frame p = Inr (Some f)" "match f" "0 < t"
  shows "\<exists>sh'. link_transact inverter_peer key t req match sh = (Inr (Some f), sh')
    \<and> d_world (sh_dongle sh') = (inverter_answer req (d_world (sh_dongle sh)))\<lparr>iw_pending := []\<rparr>"
proof -
  have "\<exists>sh1. get_shared_connection inverter_peer key t sh = (Inr (), sh1) \<and> d_world (sh_dongle sh1) = d_world (sh_dongle sh)"
    by (auto simp: get_shared_connection_def Let_def start_shared_def connect_def inverter_peer_def new_dongle_def stop_shared_def)
  then obtain sh1 where g: "get_shared_connection inverter_peer key t sh = (Inr (), sh1)"
    and w: "d_world (sh_dongle sh1) = d_world (sh_dongle sh)"
    by blast
  have "iw_pending (inverter_answer req (d_world (sh_dongle sh1))) = p"
    using assms(1) w by blast
  from transact_inverter [where match = match and t = t, OF this assms(2-5)] show ?thesis
    using g w by (auto simp: link_transact_def)
qed

lemma parse_request_packets:
  assumes "0 \<le> reg" "reg \<le> 65535"
  shows "0 \<le> count \<Longrightarrow> count \<le> 65535 \<Longrightarrow> parse_frame (block_request ds isn reg count)
      = Inr (Some (data_frame 1 ds 0 3 isn (block_request ds isn reg count) reg [] 0))"
    and "0 \<le> v \<Longrightarrow> v \<le> 65535 \<Longrightarrow> parse_frame (write_request ds isn reg v)
      = Inr (Some (data_frame 1 ds 0 6 isn (write_request ds isn reg v) reg [v] 0))"
proof -
  show "parse_frame (block_request ds isn reg count) = Inr (Some (data_frame 1 ds 0 3 isn (block_request ds isn reg count) reg [] 0))"
    if "0 \<le> count" "count \<le> 65535"
  proof (rule parse_read_request [of 3 reg count ds isn])
    fix pkt
    assume "build_read_request ds isn 3 reg count = Inr pkt"
      and "parse_frame pkt = Inr (Some (data_frame 1 ds 0 3 isn pkt reg [] 0))"
    then show ?thesis
      using assms that by (simp add: build_read_request_cases block_request_def MODBUS_READ_HOLD_def)
  qed (use assms that in simp_all)
  show "parse_frame (write_request ds isn reg v) = Inr (Some (data_frame 1 ds 0 6 isn (write_request ds isn reg v) reg [v] 0))"
    if "0 \<le> v" "v \<le> 65535"
  proof (rule parse_write_request [of reg v ds isn])
    fix pkt
    assume "build_write_request ds isn reg v = Inr pkt"
      and "parse_frame pkt = Inr (Some (data_frame 1 ds 0 6 isn pkt reg [v] 0))"
    then show ?thesis
      using build_write_request_single [of ds isn reg v] assms that by simp
  qed (use assms that in simp_all)
qed

text \<open>The word at offset 34 of a request: the count of a read, the value of a single write.\<close>

lemma request_word:
  assumes "0 \<le> v" "v \<le> 65535"
  shows "unpack_u16 (data_packet ds (data_body func isn (le16 reg @ le16 v))) 34 = Inr v"
proof -
  obtain a b c d e f g h i j where ds: "serial_to_bytes ds = [a, b, c, d, e, f, g, h, i, j]"
    by (rule list_of_length_10 [OF serial_length])
  obtain k l m n p q r s t u where isn: "serial_to_bytes isn = [k, l, m, n, p, q, r, s, t, u]"
    by (rule list_of_length_10 [OF serial_length])
  show ?thesis
    using assms by (simp add: data_packet_def data_body_def seal_def packet_def PREFIX_def ds isn le16_def
        unpack_u16_def nth_append u16_le_lo_hi)
qed

lemma wf_data_packet: "length body \<le> 65000 \<Longrightarrow> wf_packet (data_packet ds body)"
  unfolding data_packet_def by (rule wf_packet_packet) (simp add: seal_def)

lemma length_data_body [simp]: "length (data_body func isn payload) = 12 + length payload"
  by (simp add: data_body_def)

lemma parse_read_answer:
  assumes "0 \<le> reg" "reg \<le> 65535" "length vs \<le> 127" "u16_list vs"
  shows "\<exists>f. parse_frame (read_answer ds isn reg vs) = Inr (Some f) \<and> is_read_hold f \<and> f_register f = reg
    \<and> \<not> f_is_error f \<and> f_values f = vs"
proof -
  define crc where "crc = le16 (uint (crc16_modbus (data_body MODBUS_READ_HOLD isn (le16 reg @ [word_of_int (2 * int (length vs))] @ le16s vs))))"
  have "read_answer ds isn reg vs = data_frame_bytes 1 ds 0 3 isn (le16 reg @ read_payload vs crc)"
    by (simp add: read_answer_def data_packet_frame_bytes crc_def read_payload_def) (simp add: MODBUS_READ_HOLD_def)
  moreover have "parse_frame (data_frame_bytes 1 ds 0 3 isn (le16 reg @ read_payload vs crc)) =
      Inr (Some (data_frame 1 ds 0 3 isn (data_frame_bytes 1 ds 0 3 isn (le16 reg @ read_payload vs crc)) reg vs 0))"
    using assms by (intro parse_read_response) (simp_all add: crc_def)
  ultimately show ?thesis
    by (simp add: is_read_hold_def MODBUS_READ_HOLD_def)
qed

lemma u16_of_word: "0 \<le> uint (w :: 16 word)" "uint (w :: 16 word) \<le> 65535"
  using uint_lt2p [of w] by simp_all

text \<open>Every read of 1 to 127 registers is answered with their contents, whichever predicate the caller uses.\<close>

lemma inverter_block:
  assumes "0 < t" "0 \<le> start" "0 < count" "count \<le> 127" "start + count \<le> 65536"
    and match: "\<And>f. is_read_hold f \<Longrightarrow> f_register f = start \<Longrightarrow> \<not> f_is_error f \<Longrightarrow> f_values f \<noteq> [] \<Longrightarrow> match f"
  shows "\<exists>f s'. link_transact inverter_peer key t (block_request ds isn start count) match s = (Inr (Some f), s')
    \<and> \<not> f_is_error f \<and> f_values f = map (inverter_regs s) [start..start + count - 1] \<and> inverter_regs s' = inverter_regs s"
proof -
  define vs where "vs = iw_block (d_world (sh_dongle s)) start count"
  define ds' isn' where "ds' = decode_serial (serial_to_bytes ds)" and "isn' = decode_serial (serial_to_bytes isn)"
  have vs: "vs = map (inverter_regs s) [start..start + count - 1]" "length vs = nat count" "u16_list vs" "vs \<noteq> []"
    using assms(3) by (simp_all add: vs_def iw_block_def inverter_regs_def u16_list_def list_all_iff u16_of_word)
  have len: "length vs \<le> 127"
    by (simp add: vs(2) nat_le_iff assms(4))
  obtain f where f: "parse_frame (read_answer ds' isn' start vs) = Inr (Some f)" "is_read_hold f" "f_register f = start"
    "\<not> f_is_error f" "f_values f = vs"
    using parse_read_answer [OF assms(2) _ len vs(3), of ds' isn'] assms(3,5) by auto
  have ans: "inverter_answer (block_request ds isn start count) w = w\<lparr>iw_pending := read_answer ds' isn' start vs\<rparr>"
    if "w = d_world (sh_dongle s)" for w
    using that assms by (simp add: inverter_answer_def parse_request_packets ds'_def isn'_def vs_def)
      (simp add: block_request_def request_word MODBUS_READ_HOLD_def)
  have "\<exists>s'. link_transact inverter_peer key t (block_request ds isn start count) match s = (Inr (Some f), s')
    \<and> d_world (sh_dongle s') = (inverter_answer (block_request ds isn start count) (d_world (sh_dongle s)))\<lparr>iw_pending := []\<rparr>"
    using f vs assms by (intro link_transact_inverter [where p = "read_answer ds' isn' start vs"])
      (simp_all add: ans read_answer_def wf_data_packet)
  then obtain s' where s': "link_transact inverter_peer key t (block_request ds isn start count) match s = (Inr (Some f), s')"
    "d_world (sh_dongle s') = (d_world (sh_dongle s))\<lparr>iw_pending := []\<rparr>"
    by (auto simp: ans)
  moreover have "inverter_regs s' = inverter_regs s"
    using s'(2) by (simp add: inverter_regs_def fun_eq_iff)
  ultimately show ?thesis
    using f vs(1) by blast
qed

lemma inverter_link_honest:
  assumes "0 < t"
  shows "honest_link (link_transact inverter_peer key t) ds isn inverter_regs"
  unfolding honest_link_def
proof (intro conjI allI impI)
  fix s :: "inverter_world shared" and reg :: int
  assume "0 \<le> reg \<and> reg \<le> 65535"
  then show "\<exists>f s'. link_transact inverter_peer key t (read_request ds isn reg) (read_match reg) s = (Inr (Some f), s')
      \<and> \<not> f_is_error f \<and> f_values f = [inverter_regs s reg] \<and> inverter_regs s' = inverter_regs s"
    using inverter_block [of t reg 1 "read_match reg" key ds isn s] assms
    by (simp add: read_request_block read_match_def)
next
  fix s :: "inverter_world shared" and reg v :: int
  assume r: "0 \<le> reg \<and> reg < 500 \<and> 0 \<le> v \<and> v \<le> 65535"
  define req where "req = write_request ds isn reg v"
  define f where "f = data_frame 1 ds 0 6 isn req reg [v] 0"
  have f: "parse_frame req = Inr (Some f)"
    using r by (simp add: f_def req_def parse_request_packets)
  have "unpack_u16 req 34 = Inr v"
    using r by (simp add: req_def write_request_def request_word)
  then have ans: "inverter_answer req w = w\<lparr>iw_pending := req, iw_regs := (iw_regs w)(reg := word_of_int v)\<rparr>" for w
    using r by (simp add: inverter_answer_def f) (simp add: f_def MODBUS_READ_HOLD_def MODBUS_WRITE_SINGLE_def)
  have "\<exists>s'. link_transact inverter_peer key t req (write_match MODBUS_WRITE_SINGLE reg) s = (Inr (Some f), s')
    \<and> d_world (sh_dongle s') = (inverter_answer req (d_world (sh_dongle s)))\<lparr>iw_pending := []\<rparr>"
  proof (rule link_transact_inverter [where p = req])
    show "wf_packet req"
      by (simp add: req_def write_request_def wf_data_packet)
    show "write_match MODBUS_WRITE_SINGLE reg f"
      by (simp add: write_match_def f_def MODBUS_WRITE_SINGLE_def)
  qed (use f assms in \<open>simp_all add: ans\<close>)
  then obtain s' where s': "link_transact inverter_peer key t req (write_match MODBUS_WRITE_SINGLE reg) s = (Inr (Some f), s')"
    "d_world (sh_dongle s') = (d_world (sh_dongle s))\<lparr>iw_pending := [], iw_regs := (iw_regs (d_world (sh_dongle s)))(reg := word_of_int v)\<rparr>"
    by (auto simp: ans)
  moreover have "inverter_regs s' = (inverter_regs s)(reg := v)"
    using s'(2) r by (auto simp: inverter_regs_def fun_eq_iff uint_word_of_int)
  ultimately show "\<exists>f s'. link_transact inverter_peer key t (write_request ds isn reg v) (write_match MODBUS_WRITE_SINGLE reg) s = (Inr (Some f), s')
      \<and> \<not> f_is_error f \<and> f_values f = [v] \<and> inverter_regs s' = (inverter_regs s)(reg := v)"
    unfolding req_def by (auto simp: f_def)
qed

end
