(* ===== verification/Units.thy ===== *)
theory Units
  imports Link
begin

text \<open>
  Conversion between raw register values and engineering units: every scale of the register table is
  close to 1, 1/10 or 1/100, and the two conversions are inverse on 16-bit raw values in spite of the
  two roundings to doubles.
\<close>

subsection \<open>Scales and bounds of the register table\<close>

lemma seven_day_rows:
  "list_all (\<lambda>i. hm_scale i \<in> {1, dbl (1 / 10), dbl (1 / 100)}
     \<and> (\<exists>lo hi. hm_min i = Some lo \<and> hm_max i = Some hi \<and> - 65535 \<le> lo \<and> lo \<le> hi \<and> hi \<le> 65535)) (map snd seven_day_registers)"
  by (auto simp: seven_day_registers_def seven_day_period_def Let_def list_all_iff)

lemma holding_row:
  assumes "map_of HOLDING_REGISTERS reg = Some meta"
  shows "hm_scale meta \<in> {1, dbl (1 / 10), dbl (1 / 100)}"
    and "\<exists>lo hi. hm_min meta = Some lo \<and> hm_max meta = Some hi \<and> - 65535 \<le> lo \<and> lo \<le> hi \<and> hi \<le> 65535"
    and "0 \<le> reg" and "reg \<le> 723"
proof -
  have mem: "(reg, meta) \<in> set holding_literal \<or> (reg, meta) \<in> set seven_day_registers"
    using map_of_SomeD [OF assms] by (auto simp: HOLDING_REGISTERS_eq)
  then have "meta \<in> set (map snd holding_literal) \<or> meta \<in> set (map snd seven_day_registers)"
    by force
  then show "hm_scale meta \<in> {1, dbl (1 / 10), dbl (1 / 100)}"
    "\<exists>lo hi. hm_min meta = Some lo \<and> hm_max meta = Some hi \<and> - 65535 \<le> lo \<and> lo \<le> hi \<and> hi \<le> 65535"
    using literal_scales literal_bounds seven_day_rows unfolding list_all_iff by blast+
  have "reg \<in> set (map fst holding_literal) \<or> reg \<in> {500..723}"
    using mem unfolding set_seven_day_regs [symmetric] by force
  then have "0 \<le> reg \<and> reg \<le> 723"
    using set_literal_regs [of reg] by fastforce
  then show "0 \<le> reg" "reg \<le> 723"
    by blast+
qed

lemma tenth_bounds:
  assumes "x = 1 / 10 \<or> x = 1 / 100"
  shows "1 / 200 \<le> fl x" "fl x \<le> 1" "dbl x = Fin (fl x)"
proof -
  have "pow2 (- 1022) \<le> pow2 (- 7)"
    by (rule pow2_mono) simp
  also have "pow2 (- 7) \<le> \<bar>x\<bar>"
    using assms by (auto simp: pow2_def)
  finally have "\<bar>fl x - x\<bar> \<le> \<bar>x\<bar> / 2 ^ 53"
    by (rule fl_rel_err)
  also have "\<dots> \<le> 1 / 200"
    using assms by auto
  finally have "fl x \<le> x + 1 / 200" "x - 1 / 200 \<le> fl x"
    by (simp_all only: abs_le_iff) linarith+
  then show "1 / 200 \<le> fl x" "fl x \<le> 1"
    using assms by auto
  show "dbl x = Fin (fl x)"
    using assms by (intro dbl_small) auto
qed

lemma scale_fin:
  assumes "s \<in> {1, dbl (1 / 10), dbl (1 / 100)}"
  obtains q where "s = Fin q" "1 / 200 \<le> q" "q \<le> 1"
proof (cases "s = 1")
  case True
  then show ?thesis
    using that [of 1] by (simp add: one_pyfloat_def)
next
  case False
  then obtain x where "s = dbl x" "x = 1 / 10 \<or> x = 1 / 100"
    using assms by auto
  then show ?thesis
    using that [of "fl x"] tenth_bounds [of x] by simp
qed

lemma holding_scale:
  assumes "map_of HOLDING_REGISTERS reg = Some meta"
  obtains q where "effective_scale meta = Fin q" "1 / 200 \<le> q" "q \<le> 1"
proof -
  obtain q where "hm_scale meta = Fin q" "1 / 200 \<le> q" "q \<le> 1"
    using holding_row(1) [OF assms] scale_fin by metis
  then show ?thesis
    using that [of q] by (auto simp: effective_scale_def zero_pyfloat_def)
qed

subsection \<open>Round trip\<close>

lemma fl_close:
  assumes "1 / 400 \<le> x" "x \<le> 2 ^ 40"
  shows "\<bar>fl x - x\<bar> \<le> x / 2 ^ 53"
proof -
  have "pow2 (- 1022) \<le> pow2 (- 9)"
    by (rule pow2_mono) simp
  also have "pow2 (- 9) \<le> \<bar>x\<bar>"
    using assms by (simp add: pow2_def)
  finally show ?thesis
    using fl_rel_err [of x] assms by simp
qed

lemma scale_roundtrip:
  assumes "1 / 200 \<le> q" "q \<le> 1" "0 \<le> raw" "raw \<le> (65535 :: int)"
  defines "y \<equiv> fl (of_int raw * q)"
  shows "\<bar>fl (y / q) - of_int raw\<bar> < 1 / 2" and "\<bar>y\<bar> \<le> 2 ^ 20" and "\<bar>y / q\<bar> \<le> 2 ^ 40"
proof -
  consider "raw = 0" | "1 \<le> raw"
    using assms(3) by linarith
  then have "\<bar>fl (y / q) - of_int raw\<bar> < 1 / 2 \<and> \<bar>y\<bar> \<le> 2 ^ 20 \<and> \<bar>y / q\<bar> \<le> 2 ^ 40"
  proof cases
    case 1
    then show ?thesis
      by (simp add: y_def)
  next
    case 2
    define n where "n = (of_int raw :: rat)"
    have n: "1 \<le> n" "n \<le> 65535"
      using 2 assms(4) by (simp_all add: n_def)
    have q: "0 < q"
      using assms(1) by linarith
    have lo: "1 / 200 \<le> n * q"
      using mult_mono [of 1 n "1 / 200" q] n assms(1) by simp
    have hi: "n * q \<le> 65535"
      using mult_mono [of n 65535 q 1] n assms(2) q by simp
    have "\<bar>y - n * q\<bar> \<le> n * q / 2 ^ 53"
      using fl_close [of "n * q"] lo hi by (simp add: y_def n_def)
    moreover have "\<bar>y / q - n\<bar> = \<bar>y - n * q\<bar> / q"
    proof -
      have "y / q - n = (y - n * q) / q"
        using q by (simp add: diff_divide_distrib)
      then show ?thesis
        using q by (simp add: abs_divide)
    qed
    ultimately have "\<bar>y / q - n\<bar> \<le> n / 2 ^ 53"
      using q by (simp add: field_simps)
    moreover have "n / 2 ^ 53 \<le> 1 / 1000"
      using n by simp
    ultimately have d: "\<bar>y / q - n\<bar> \<le> 1 / 1000"
      by linarith
    then have z: "1 / 400 \<le> y / q" "y / q \<le> 65536"
      using n by linarith+
    moreover have "(65536 :: rat) \<le> 2 ^ 40"
      by simp
    ultimately have "\<bar>fl (y / q) - y / q\<bar> \<le> y / q / 2 ^ 53"
      by (intro fl_close) linarith+
    also have "\<dots> \<le> 1 / 1000"
    proof -
      have "u / 2 ^ 53 \<le> 1 / 1000" if "u \<le> 65536" for u :: rat
        using that by simp
      then show ?thesis
        using z(2) .
    qed
    finally have "\<bar>fl (y / q) - n\<bar> < 1 / 2"
      using d by linarith
    moreover have "\<bar>y\<bar> \<le> 2 ^ 20"
    proof -
      have "n * q / 2 ^ 53 \<le> 1"
        using hi by simp
      with \<open>\<bar>y - n * q\<bar> \<le> n * q / 2 ^ 53\<close> lo hi have "\<bar>y\<bar> \<le> 65536"
        by linarith
      then show ?thesis
        by simp
    qed
    moreover have "\<bar>y / q\<bar> \<le> 2 ^ 40"
    proof -
      have "(65536 :: rat) \<le> 2 ^ 40"
        by simp
      with z show ?thesis
        by linarith
    qed
    ultimately show ?thesis
      by (simp add: n_def)
  qed
  then show "\<bar>fl (y / q) - of_int raw\<bar> < 1 / 2" "\<bar>y\<bar> \<le> 2 ^ 20" "\<bar>y / q\<bar> \<le> 2 ^ 40"
    by simp_all
qed

text \<open>C7: a 16-bit raw value of a holding register, converted to engineering units and back, is the same
  value: the two roundings to binary doubles never move it by half a unit.\<close>

theorem units_roundtrip:
  assumes "map_of HOLDING_REGISTERS reg = Some meta" "0 \<le> raw" "raw \<le> 65535"
  shows "\<exists>x. raw_to_engineering raw meta = Inr x \<and> engineering_to_raw x meta = Some raw"
proof -
  obtain q where q: "effective_scale meta = Fin q" "1 / 200 \<le> q" "q \<le> 1"
    by (rule holding_scale [OF assms(1)])
  note rt = scale_roundtrip [OF q(2,3) assms(2,3)]
  have q_abs: "\<bar>of_int raw * q\<bar> \<le> 2 ^ 53"
    using mult_mono [of "\<bar>of_int raw\<bar>" 65535 "\<bar>q\<bar>" 1] q(2,3) assms(2,3) by (simp add: abs_mult)
  have "raw_to_engineering raw meta = Inr (Fin (fl (of_int raw * q)))"
    using assms(2,3) q_abs by (simp add: raw_to_engineering_def pf_of_int_small q(1) dbl_small)
  moreover have "engineering_to_raw (Fin (fl (of_int raw * q))) meta = Some raw"
    using q(2) rt round_half_even_unique [OF rt(1)] by (simp add: engineering_to_raw_def q(1) dbl_small)
  ultimately show ?thesis
    by blast
qed

text \<open>The first rows of the table, for evaluation at a concrete register.\<close>

lemma map_of_holding_first:
  "map_of HOLDING_REGISTERS 64 = Some (hmeta ''charge_power_percent'' ''%'' 1 ''Charge power percent'' (Some 0) (Some 100) [])"
  by (simp add: HOLDING_REGISTERS_eq holding_literal_def holding_registers_1_def)

theorem units_roundtrip_witness:
  "map_of HOLDING_REGISTERS 64 \<noteq> None \<and>
   (\<exists>x. raw_to_engineering 77 (the (map_of HOLDING_REGISTERS 64)) = Inr x
      \<and> engineering_to_raw x (the (map_of HOLDING_REGISTERS 64)) = Some 77)"
  using units_roundtrip [OF map_of_holding_first, of 77] by (simp add: map_of_holding_first)

end
