(* ===== verification/Automation_Writes.thy ===== *)
theory Automation_Writes
  imports Automation_Facts Link_Facts Units
begin

text \<open>
  What the automation engine writes: which packets an evaluation can put on the wire, what a success
  entry of the log means, and that a write over a link to an inverter assigns the register.
\<close>

subsection \<open>Targets and values\<close>

lemma holding_name_reg:
  assumes "map_of HOLDING_BY_NAME name = Some reg"
  obtains meta where "map_of HOLDING_REGISTERS reg = Some meta"
proof -
  obtain meta where "(reg, meta) \<in> set HOLDING_REGISTERS"
    using map_of_SomeD [OF assms] by (auto simp: HOLDING_BY_NAME_eq)
  then show ?thesis
    using that map_of_is_SomeI [OF distinct_HOLDING_REGISTERS] by blast
qed

definition write_target_of :: "(string \<Rightarrow> string option) \<Rightarrow> json \<Rightarrow> int \<Rightarrow> holding_meta \<Rightarrow> bool" where
  "write_target_of settings setting reg meta \<longleftrightarrow>
     (\<exists>s reg_name. setting = JStr s \<and> map_of SETTING_NAME_TO_REGISTER s = Some (Some reg_name)
        \<and> map_of HOLDING_BY_NAME reg_name = Some reg \<and> register_supported settings reg
        \<and> map_of HOLDING_REGISTERS reg = Some meta)"

lemma write_target_cases:
  "(\<exists>e. write_target settings setting = Inl e \<and> e = TypeError) \<or> (\<exists>msg. write_target settings setting = Inr (Inl msg))
   \<or> (\<exists>name reg meta. write_target settings setting = Inr (Inr (name, reg, meta)) \<and> write_target_of settings setting reg meta)"
proof (cases "key_lookup SETTING_NAME_TO_REGISTER setting")
  case (Inl e)
  then show ?thesis
    by (cases setting) (simp_all add: write_target_def)
next
  case (Inr entry)
  show ?thesis
  proof (cases "\<exists>name. entry = Some (Some name)")
    case False
    then have "(case entry of Some (Some n) \<Rightarrow> f n | _ \<Rightarrow> d) = d" for f :: "string \<Rightarrow> (log_message + string \<times> int \<times> holding_meta) result" and d
      by (auto split: option.split)
    then show ?thesis
      by (simp add: write_target_def Inr)
  next
    case True
    then obtain name where name: "entry = Some (Some name)"
      by blast
    obtain s where s: "setting = JStr s" "map_of SETTING_NAME_TO_REGISTER s = Some (Some name)"
      using key_lookup_Some [OF Inr [unfolded name]] by blast
    show ?thesis
    proof (cases "map_of HOLDING_BY_NAME name")
      case None
      then show ?thesis
        by (simp add: write_target_def Inr name)
    next
      case (Some reg)
      obtain meta where "map_of HOLDING_REGISTERS reg = Some meta"
        by (rule holding_name_reg [OF Some])
      note meta = this
      have "write_target settings setting = (if register_supported settings reg then Inr (Inr (name, reg, meta))
          else Inr (Inl (NotSupported name)))"
        by (simp only: write_target_def Inr bindE_Inr name option.case Some meta if_not_P if_P split: if_split) simp
      moreover have "write_target_of settings setting reg meta" if "register_supported settings reg"
        unfolding write_target_of_def using s Some meta that by blast
      ultimately show ?thesis
        by (cases "register_supported settings reg") auto
    qed
  qed
qed

lemma clamp_total: "map_of HOLDING_REGISTERS reg = Some meta \<Longrightarrow> \<exists>lo hi. hm_min meta = Some lo \<and> hm_max meta = Some hi
    \<and> lo \<le> hi \<and> clamp_to_register v meta = Inr (pf_min (pf_max v (Fin (of_int lo))) (Fin (of_int hi)))"
proof -
  assume "map_of HOLDING_REGISTERS reg = Some meta"
  from holding_row(2) [OF this] obtain lo hi where
    b: "hm_min meta = Some lo" "hm_max meta = Some hi" "- 65535 \<le> lo" "lo \<le> hi" "hi \<le> 65535"
    by blast
  then have "pf_of_int lo = Inr (Fin (of_int lo))" "pf_of_int hi = Inr (Fin (of_int hi))"
    by (intro pf_of_int_small; simp)+
  with b show ?thesis
    by (simp add: clamp_to_register_def)
qed

text \<open>A clamped value that converts to a raw value is a number between the bounds of the register.\<close>

lemma clamp_bounds:
  assumes "map_of HOLDING_REGISTERS reg = Some meta" "clamp_to_register v meta = Inr c" "engineering_to_raw c meta = Some raw"
  shows "\<exists>x lo hi. c = Fin x \<and> hm_min meta = Some lo \<and> hm_max meta = Some hi \<and> of_int lo \<le> x \<and> x \<le> of_int hi"
proof -
  obtain lo hi where b: "hm_min meta = Some lo" "hm_max meta = Some hi" "lo \<le> hi"
    and c: "c = pf_min (pf_max v (Fin (of_int lo))) (Fin (of_int hi))"
    using clamp_total [OF assms(1), of v] assms(2) by auto
  obtain q where q: "effective_scale meta = Fin q" "1 / 200 \<le> q" "q \<le> 1"
    by (rule holding_scale [OF assms(1)])
  show ?thesis
  proof (cases v)
    case NaN
    then have "c = NaN"
      by (simp add: c pf_min_def pf_max_def less_pyfloat_def)
    with assms(3) q show ?thesis
      by (simp add: engineering_to_raw_def)
  qed (use b c in \<open>auto simp: pf_min_def pf_max_def less_pyfloat_def\<close>)
qed

text \<open>The conversion is monotone, so a number between the bounds becomes a raw value between the
  converted bounds.\<close>

lemma engineering_to_raw_small:
  assumes "effective_scale meta = Fin q" "1 / 200 \<le> q" "q \<le> 1" "\<bar>x\<bar> \<le> 65535"
  shows "engineering_to_raw (Fin x) meta = Some (round_half_even (fl (x / q)))"
proof -
  have "\<bar>x\<bar> / q \<le> 65535 / (1 / 200)"
    by (rule frac_le) (use assms in auto)
  then have "\<bar>x / q\<bar> \<le> 65535 / (1 / 200)"
    using assms(2) by (simp add: abs_divide)
  then have "\<bar>x / q\<bar> \<le> 2 ^ 53"
    by simp
  then show ?thesis
    using assms(1,2) by (simp add: engineering_to_raw_def dbl_small)
qed

lemma engineering_to_raw_between:
  assumes "map_of HOLDING_REGISTERS reg = Some meta" "hm_min meta = Some lo" "hm_max meta = Some hi"
    and "of_int lo \<le> x" "x \<le> of_int hi" "engineering_to_raw (Fin x) meta = Some raw"
  shows "\<exists>raw_lo raw_hi. engineering_to_raw (Fin (of_int lo)) meta = Some raw_lo
    \<and> engineering_to_raw (Fin (of_int hi)) meta = Some raw_hi \<and> raw_lo \<le> raw \<and> raw \<le> raw_hi"
proof -
  obtain q where q: "effective_scale meta = Fin q" "1 / 200 \<le> q" "q \<le> 1"
    by (rule holding_scale [OF assms(1)])
  have "- 65535 \<le> lo" "hi \<le> 65535"
    using holding_row(2) [OF assms(1)] assms(2,3) by auto
  then have b: "- 65535 \<le> (of_int lo :: rat)" "(of_int hi :: rat) \<le> 65535"
    by linarith+
  note conv = engineering_to_raw_small [OF q]
  have "engineering_to_raw (Fin (of_int lo)) meta = Some (round_half_even (fl (of_int lo / q)))"
    "engineering_to_raw (Fin (of_int hi)) meta = Some (round_half_even (fl (of_int hi / q)))"
    "raw = round_half_even (fl (x / q))"
    using conv [of "of_int lo"] conv [of "of_int hi"] conv [of x] assms(4-6) b by simp_all
  moreover have "of_int lo / q \<le> x / q" "x / q \<le> of_int hi / q"
    using assms(4,5) q(2) by (simp_all add: divide_right_mono)
  ultimately show ?thesis
    by (auto intro!: round_half_even_mono fl_mono)
qed

text \<open>
  The packets that a write of a setting may send.  The numbers of the table bound the value in
  engineering units here, and the raw value lies between their conversions; whether the table means
  them so is another matter (lemma \<open>clamp_mixes_units\<close>).
\<close>

definition setting_packets :: "automation_env \<Rightarrow> bytes set" where
  "setting_packets env = {p. \<exists>setting reg meta. write_target_of (ev_settings env) setting reg meta
     \<and> (p = read_request (ev_datalog_serial env) (ev_inverter_serial env) reg
       \<or> (\<exists>x raw lo hi raw_lo raw_hi. hm_min meta = Some lo \<and> hm_max meta = Some hi \<and> of_int lo \<le> x \<and> x \<le> of_int hi
            \<and> engineering_to_raw (Fin x) meta = Some raw
            \<and> engineering_to_raw (Fin (of_int lo)) meta = Some raw_lo
            \<and> engineering_to_raw (Fin (of_int hi)) meta = Some raw_hi
            \<and> raw_lo \<le> raw \<and> raw \<le> raw_hi \<and> 0 \<le> raw \<and> raw \<le> 65535
            \<and> p = write_request (ev_datalog_serial env) (ev_inverter_serial env) reg raw))}"

lemma setting_packets_read:
  "write_target_of (ev_settings env) setting reg meta \<Longrightarrow>
     read_request (ev_datalog_serial env) (ev_inverter_serial env) reg \<in> setting_packets env"
  unfolding setting_packets_def by blast

lemma setting_packets_write:
  assumes "write_target_of (ev_settings env) setting reg meta" "clamp_to_register v meta = Inr c"
    "engineering_to_raw c meta = Some raw" "0 \<le> raw" "raw \<le> 65535"
  shows "write_request (ev_datalog_serial env) (ev_inverter_serial env) reg raw \<in> setting_packets env"
proof -
  have row: "map_of HOLDING_REGISTERS reg = Some meta"
    using assms(1) by (auto simp: write_target_of_def)
  from clamp_bounds [OF this assms(2,3)] obtain x lo hi where
    x: "c = Fin x" "hm_min meta = Some lo" "hm_max meta = Some hi" "of_int lo \<le> x" "x \<le> of_int hi"
    by blast
  from engineering_to_raw_between [OF row x(2-5) assms(3) [unfolded x(1)]] obtain raw_lo raw_hi where
    "engineering_to_raw (Fin (of_int lo)) meta = Some raw_lo" "engineering_to_raw (Fin (of_int hi)) meta = Some raw_hi"
    "raw_lo \<le> raw" "raw \<le> raw_hi"
    by blast
  with x assms(1,3-5) show ?thesis
    unfolding setting_packets_def by blast
qed

subsection \<open>What is put on the wire\<close>

lemma on_link_sends:
  "transits (sends sent P) m \<Longrightarrow> transits (sends (\<lambda>st. sent (eg_link st)) P) (on_link m)"
  by (auto simp: transits_def on_link_def on_part_def sends_def split: prod.split) (metis snd_conv)

lemma add_log_sends: "transits (sends (\<lambda>st. sent (eg_link st)) P) (add_log e)"
  by (simp add: transits_def add_log_def modifyS_def sends_def)

lemma set_last_eval_sends: "transits (sends (\<lambda>st. sent (eg_link st)) P) (set_last_eval i b)"
  by (simp add: transits_def set_last_eval_def modifyS_def sends_def)

lemma send_notification_sends: "transits (sends (\<lambda>st. sent (eg_link st)) P) (send_notification env auto)"
  by (auto simp: transits_def send_notification_def add_log_def modifyS_def sends_def Let_def split: option.split)

definition packets_of :: "automation_env \<Rightarrow> bool \<Rightarrow> bytes set" where
  "packets_of env dry_run = (if dry_run then {} else setting_packets env)"

context logged_transactor
begin

lemmas engine_intros = sends.bindS sends.returnS sends.raiseS sends.liftS sends.getS sends.swallowS sends.forS
  add_log_sends set_last_eval_sends send_notification_sends on_link_sends

lemma do_write_sends:
  "transits (sends (\<lambda>st. sent (eg_link st)) (packets_of env dry_run)) (do_write tr env ident name setting v dry_run)"
proof -
  consider "write_target (ev_settings env) setting = Inl TypeError"
    | msg where "write_target (ev_settings env) setting = Inr (Inl msg)"
    | rn reg meta where "write_target (ev_settings env) setting = Inr (Inr (rn, reg, meta))"
        "write_target_of (ev_settings env) setting reg meta"
    using write_target_cases by blast
  then show ?thesis
  proof cases
    case 3
    obtain c where c: "clamp_to_register v meta = Inr c"
      using clamp_total 3(2) unfolding write_target_of_def by blast
    show ?thesis
    proof (cases "engineering_to_raw c meta")
      case None
      then show ?thesis
        by (simp add: do_write_def Let_def 3(1) c add_log_sends)
    next
      case (Some raw)
      have rd: "transits (sends sent (setting_packets env)) (read_holding_register tr (ev_datalog_serial env) (ev_inverter_serial env) reg)"
        by (rule read_sends [OF setting_packets_read [OF 3(2)]])
      have wr: "transits (sends sent (setting_packets env)) (write_holding_register tr (ev_datalog_serial env) (ev_inverter_serial env) reg raw)"
        by (rule write_sends) (rule setting_packets_write [OF 3(2) c Some], auto)
      show ?thesis
        using rd wr verify_reads_transits [OF rd]
        by (auto simp: do_write_def Let_def 3(1) c Some packets_of_def intro!: engine_intros)
    qed
  qed (simp_all add: do_write_def Let_def sends.raiseS add_log_sends)
qed

lemma evaluate_one_sends:
  "transits (sends (\<lambda>st. sent (eg_link st)) (packets_of env dry_run)) (evaluate_one tr env auto snap dry_run)"
  by (auto simp: evaluate_one_def evaluate_battery_protection_def evaluate_battery_soc_def evaluate_rule_table_def
      split: option.split intro!: engine_intros do_write_sends)

lemma evaluate_and_apply_sends:
  "transits (sends (\<lambda>st. sent (eg_link st))
     (if automation_enabled (ev_settings env) then packets_of env (global_dry_run (ev_settings env)) else {}))
     (evaluate_and_apply tr env automations snap)"
  by (auto simp: evaluate_and_apply_def Let_def intro!: engine_intros evaluate_one_sends)

end

text \<open>C8: whatever the stored automations and the snapshot are and whatever the peer answers, an evaluation
  over the persistent connection puts on the wire only reads of registers that some setting is mapped
  to and the active model supports, and writes of such a register with a 16-bit raw value.  The raw
  value is converted from a value in engineering units between the numbers that the table gives as
  minimum and maximum, and lies between the conversions of these two; where the scale of the register is
  not 1 this is not the raw range that the table documents (lemma clamp_mixes_units).  When automation
  is disabled or in dry run nothing is sent.\<close>

theorem evaluation_sends_only_settings:
  "case evaluate_and_apply (link_transact p key timeout) env automations snap st of (r, st') \<Rightarrow>
     r = Inr () \<and>
     (\<exists>ps. d_sent (sh_dongle (eg_link st')) = d_sent (sh_dongle (eg_link st)) @ ps
        \<and> set ps \<subseteq> (if automation_enabled (ev_settings env) \<and> \<not> global_dry_run (ev_settings env)
             then setting_packets env else {}))"
proof -
  obtain r st' where e: "evaluate_and_apply (link_transact p key timeout) env automations snap st = (r, st')"
    by fastforce
  have "fst (evaluate_and_apply (link_transact p key timeout) env automations snap st) = Inr ()"
    unfolding evaluate_and_apply_def Let_def by (rule forS_returns) (simp add: returnS_def swallowS_def)
  then have "r = Inr ()"
    by (simp add: e)
  moreover have "sends (\<lambda>st. d_sent (sh_dongle (eg_link st)))
     (if automation_enabled (ev_settings env) then packets_of env (global_dry_run (ev_settings env)) else {}) st st'"
    by (rule transitsD [OF link.evaluate_and_apply_sends e])
  ultimately show ?thesis
    unfolding e prod.case sends_def packets_of_def by (auto split: if_splits)
qed

subsection \<open>A single write\<close>

lemma write_target_eq:
  assumes "write_target_of settings setting reg meta"
  obtains name where "write_target settings setting = Inr (Inr (name, reg, meta))"
proof -
  obtain s name where t: "setting = JStr s" "map_of SETTING_NAME_TO_REGISTER s = Some (Some name)"
    "map_of HOLDING_BY_NAME name = Some reg" "register_supported settings reg" "map_of HOLDING_REGISTERS reg = Some meta"
    using assms unfolding write_target_of_def by blast
  have "write_target settings setting = Inr (Inr (name, reg, meta))"
    by (simp only: write_target_def t key_lookup.simps bindE_Inr option.case if_False not_True_eq_False)
  then show ?thesis
    by (rule that)
qed

lemma on_link_eq: "on_link m st = (r, st') \<longleftrightarrow> (\<exists>l. m (eg_link st) = (r, l) \<and> st' = st\<lparr>eg_link := l\<rparr>)"
  by (auto simp: on_link_def on_part_def split: prod.split)

text \<open>A live write either leaves the log as it is or appends one entry, which is a success only after the
  register was read back with the value.\<close>

lemma do_write_log:
  assumes "do_write tr env ident name setting v False st = (r, st')"
  shows "eg_log st' = eg_log st \<or> (\<exists>e. eg_log st' = eg_log st @ [e] \<and> \<not> le_success e) \<or>
    (\<exists>e reg meta raw s1 msg. eg_log st' = eg_log st @ [e] \<and> write_target_of (ev_settings env) setting reg meta
        \<and> le_raw e = Some raw \<and> read_holding_register tr (ev_datalog_serial env) (ev_inverter_serial env) reg s1
            = (Inr (True, Some raw, msg), eg_link st'))"
proof -
  consider "write_target (ev_settings env) setting = Inl TypeError"
    | msg where "write_target (ev_settings env) setting = Inr (Inl msg)"
    | rn reg meta where "write_target (ev_settings env) setting = Inr (Inr (rn, reg, meta))"
        "write_target_of (ev_settings env) setting reg meta"
    using write_target_cases by blast
  then show ?thesis
  proof cases
    case 3
    obtain c where c: "clamp_to_register v meta = Inr c"
      using clamp_total 3(2) unfolding write_target_of_def by blast
    show ?thesis
    proof (cases "engineering_to_raw c meta")
      case None
      with assms show ?thesis
        by (auto simp: do_write_def Let_def 3(1) c add_log_def modifyS_def)
    next
      case (Some raw)
      define rd where "rd = read_holding_register tr (ev_datalog_serial env) (ev_inverter_serial env) reg"
      define wr where "wr = write_holding_register tr (ev_datalog_serial env) (ev_inverter_serial env) reg raw"
      obtain r1 l1 where 1: "rd (eg_link st) = (r1, l1)"
        by fastforce
      obtain r2 l2 where 2: "wr l1 = (r2, l2)"
        by fastforce
      obtain r3 l3 where v: "verify_reads 4 rd raw l2 = (r3, l3)"
        by fastforce
      note eval = do_write_def Let_def 3(1) c Some bindS_def on_link_def on_part_def add_log_def modifyS_def returnS_def
        rd_def [symmetric] wr_def [symmetric] 1 2 v
      show ?thesis
      proof (cases "r1 \<noteq> Inl (projl r1) \<and> \<not> (fst (projr r1) \<and> fst (snd (projr r1)) = Some raw) \<and> r2 \<noteq> Inl (projl r2) \<and> fst (projr r2) \<and> r3 = Inr True")
        case True
        then have "verify_reads 4 rd raw l2 = (Inr True, l3)"
          using v by simp
        then obtain s1 msg where "rd s1 = (Inr (True, Some raw, msg), l3)"
          using verify_reads_True by fast
        moreover have "\<exists>e. eg_log st' = eg_log st @ [e] \<and> le_raw e = Some raw" "eg_link st' = l3"
          using assms True by (cases r1; cases r2; auto simp: eval split: if_splits)+
        ultimately show ?thesis
          using 3(2) unfolding rd_def by blast
      next
        case False
        then show ?thesis
          using assms by (cases r1; cases r2; cases r3; auto simp: eval split: if_splits)
      qed
    qed
  qed (use assms in \<open>auto simp: do_write_def Let_def add_log_def modifyS_def raiseS_def\<close>)
qed

text \<open>C9: over the persistent connection and any peer, a live write appends at most one log entry, and a
  success entry means that afterwards the register was read back: the peer sent a read response for the
  very register whose first value is the raw value in the entry.  An acknowledged write alone is never
  logged as a success.\<close>

theorem success_means_read_back:
  assumes "do_write (link_transact p key timeout) env ident name setting v False st = (r, st')" "eg_log st' \<noteq> eg_log st"
  shows "\<exists>e. eg_log st' = eg_log st @ [e] \<and> (le_success e \<longrightarrow>
    (\<exists>reg meta raw f s1. write_target_of (ev_settings env) setting reg meta \<and> le_raw e = Some raw
       \<and> link_transact p key timeout (read_request (ev_datalog_serial env) (ev_inverter_serial env) reg) (read_match reg) s1
           = (Inr (Some f), eg_link st')
       \<and> \<not> f_is_error f \<and> is_read_hold f \<and> f_register f = reg \<and> hd (f_values f) = raw))"
proof -
  from do_write_log [OF assms(1)] assms(2)
  consider e where "eg_log st' = eg_log st @ [e]" "\<not> le_success e"
    | e reg meta raw s1 msg where "eg_log st' = eg_log st @ [e]" "write_target_of (ev_settings env) setting reg meta"
        "le_raw e = Some raw" "read_holding_register (link_transact p key timeout) (ev_datalog_serial env) (ev_inverter_serial env) reg s1
            = (Inr (True, Some raw, msg), eg_link st')"
    by blast
  then show ?thesis
  proof cases
    case 2
    from link.read_result [OF 2(4)] 2 show ?thesis
      by auto
  qed blast
qed

subsection \<open>Over a link to an inverter\<close>

lemma do_write_honest:
  assumes "honest_link tr (ev_datalog_serial env) (ev_inverter_serial env) regs"
    and "write_target_of (ev_settings env) setting reg meta" "clamp_to_register v meta = Inr c"
    and "engineering_to_raw c meta = Some raw" "0 \<le> raw" "raw \<le> 65535" "reg < 500"
  shows "\<exists>st'. do_write tr env ident name setting v False st = (Inr (), st')
    \<and> regs (eg_link st') = (regs (eg_link st))(reg := raw)
    \<and> (if regs (eg_link st) reg = raw then eg_log st' = eg_log st
       else \<exists>msg. eg_log st' = eg_log st @ [\<lparr>le_id = ident, le_name = name, le_register = setting, le_raw = Some raw,
            le_scaled = Some c, le_dry_run = False, le_success = True, le_message = msg\<rparr>])"
proof -
  define ds isn where "ds = ev_datalog_serial env" and "isn = ev_inverter_serial env"
  note honest = assms(1) [folded ds_def isn_def]
  obtain rn where t: "write_target (ev_settings env) setting = Inr (Inr (rn, reg, meta))"
    by (rule write_target_eq [OF assms(2)])
  have "map_of HOLDING_REGISTERS reg = Some meta"
    using assms(2) unfolding write_target_of_def by blast
  then have reg: "0 \<le> reg" "reg \<le> 65535"
    using holding_row(3,4) by (blast, fastforce)
  obtain m1 s1 where rd: "read_holding_register tr ds isn reg (eg_link st) = (Inr (True, Some (regs (eg_link st) reg), m1), s1)"
    "regs s1 = regs (eg_link st)"
    using honest_read [OF honest reg] by blast
  show ?thesis
  proof (cases "regs (eg_link st) reg = raw")
    case True
    with t assms(3,4) rd show ?thesis
      by (auto simp: do_write_def Let_def bindS_eq on_link_eq ds_def isn_def returnS_def)
  next
    case False
    obtain m2 s2 where wr: "write_holding_register tr ds isn reg raw s1 = (Inr (True, m2), s2)" "regs s2 = (regs s1)(reg := raw)"
      using honest_write [OF honest reg(1) assms(7,5,6)] by blast
    then obtain s3 where vf: "verify_reads 4 (read_holding_register tr ds isn reg) raw s2 = (Inr True, s3)" "regs s3 = regs s2"
      using honest_verify [OF honest reg, of s2 raw 3] by auto
    from False t assms(3,4) rd wr vf show ?thesis
      by (auto simp: do_write_def Let_def bindS_def on_link_def on_part_def ds_def isn_def add_log_def modifyS_def)
  qed
qed

text \<open>Over a link to an inverter that obeys the protocol, a live write of a mapped and supported setting
  outside of the schedule is the assignment of one register: it ends without an exception, the register holds the raw value,
  every other register is as before, and the log records a success exactly when the register changed.\<close>

lemma write_assigns_register:
  assumes "honest_link tr (ev_datalog_serial env) (ev_inverter_serial env) regs"
    and "write_target_of (ev_settings env) setting reg meta" "clamp_to_register v meta = Inr c"
    and "engineering_to_raw c meta = Some raw" "0 \<le> raw" "raw \<le> 65535" "reg < 500"
  shows "\<exists>st'. do_write tr env ident name setting v False st = (Inr (), st')
    \<and> regs (eg_link st') = (regs (eg_link st))(reg := raw)
    \<and> (if regs (eg_link st) reg = raw then eg_log st' = eg_log st
       else \<exists>msg. eg_log st' = eg_log st @ [\<lparr>le_id = ident, le_name = name, le_register = setting, le_raw = Some raw,
            le_scaled = Some c, le_dry_run = False, le_success = True, le_message = msg\<rparr>])"
  by (rule do_write_honest [OF assms])

lemma holding_by_name:
  "map_of HOLDING_REGISTERS reg = Some meta \<Longrightarrow> map_of HOLDING_BY_NAME (hm_name meta) = Some reg"
proof (rule map_of_is_SomeI)
  show "distinct (map fst HOLDING_BY_NAME)"
    using distinct_holding_names by (simp add: HOLDING_BY_NAME_eq comp_def case_prod_unfold)
  show "(hm_name meta, reg) \<in> set HOLDING_BY_NAME" if "map_of HOLDING_REGISTERS reg = Some meta"
    using map_of_SomeD [OF that] by (force simp: HOLDING_BY_NAME_eq)
qed

lemma write_target_ofI:
  assumes "map_of SETTING_NAME_TO_REGISTER s = Some (Some (hm_name meta))" "map_of HOLDING_REGISTERS reg = Some meta"
    "hm_caps meta = []"
  shows "write_target_of settings (JStr s) reg meta"
  unfolding write_target_of_def register_supported_def filter_lookup [OF distinct_HOLDING_REGISTERS]
  using assms holding_by_name [OF assms(2)] by simp

lemma charge_power_target:
  "write_target_of settings (JStr ''charge_power_percent'') 64 (hmeta ''charge_power_percent'' ''%'' 1 ''Charge power percent'' (Some 0) (Some 100) [])"
  by (rule write_target_ofI) (simp_all add: map_of_holding_first SETTING_NAME_TO_REGISTER_def)

definition sample_env :: automation_env where
  "sample_env = \<lparr>ev_settings = (\<lambda>n. if n = ''automation_enabled'' then Some ''true'' else if n = ''automation_global_dry_run'' then Some ''false'' else None),
     ev_clock = sample_clock, ev_time = Fin 1000, ev_notifiers = None,
     ev_datalog_serial = ''BA12345678'', ev_inverter_serial = ''4434567890''\<rparr>"

definition sample_link :: "inverter_world shared" where
  "sample_link = \<lparr>sh_key = None, sh_dongle = new_dongle ''BA12345678'' 10 3 \<lparr>iw_regs = (\<lambda>_. 50), iw_pending = []\<rparr>, sh_heartbeat = False\<rparr>"

definition sample_engine :: "inverter_world shared engine" where
  "sample_engine = \<lparr>eg_link = sample_link, eg_last_eval = Map.empty, eg_last_notify = Map.empty, eg_log = [], eg_notes = []\<rparr>"

lemma percent_meta_values:
  "clamp_to_register (Fin 250) (hmeta n u 1 d (Some 0) (Some 100) c) = Inr (Fin 100)"
  "engineering_to_raw (Fin 100) (hmeta n u 1 d (Some 0) (Some 100) c) = Some 100"
  using dbl_of_int [of 100] dbl_of_int [of 0] round_half_even_of_int [of 100]
  by (simp_all add: clamp_to_register_def pf_of_int_def pf_max_def pf_min_def engineering_to_raw_def effective_scale_def
      one_pyfloat_def zero_pyfloat_def)

subsection \<open>The bounds of the table are raw values\<close>

text \<open>
  The table of the holding registers documents its values as raw (\<^verbatim>\<open>protocol.py\<close>, and the API compares
  raw values with the bounds), but the engine clamps the value in engineering units with them.  The
  shutdown voltage of the battery has scale 0.1 and bounds 0 to 600, that is 0 to 60 V: a value of
  600 V passes the clamp and the register receives 6000.
\<close>

lemma map_of_holding_166:
  "map_of HOLDING_REGISTERS 166 = Some (hmeta ''battery_low_to_utility_voltage'' ''V'' (dbl (1 / 10))
     ''Battery low-to-utility voltage'' (Some 0) (Some 600) [])"
  by (simp add: HOLDING_REGISTERS_eq holding_literal_def holding_registers_1_def holding_registers_2_def)

lemma shutdown_voltage_target:
  "write_target_of settings (JStr ''shutdown_battery_voltage'') 166 (hmeta ''battery_low_to_utility_voltage'' ''V'' (dbl (1 / 10))
     ''Battery low-to-utility voltage'' (Some 0) (Some 600) [])"
  by (rule write_target_ofI) (simp_all add: map_of_holding_166 SETTING_NAME_TO_REGISTER_def)

lemma shutdown_voltage_raw:
  "clamp_to_register (Fin 600) (hmeta n u s d (Some 0) (Some 600) c) = Inr (Fin 600)"
  "engineering_to_raw (Fin 600) (hmeta n u (dbl (1 / 10)) d lo hi c) = Some 6000"
proof -
  show "clamp_to_register (Fin 600) (hmeta n u s d (Some 0) (Some 600) c) = Inr (Fin 600)"
    using dbl_of_int [of 600] dbl_of_int [of 0]
    by (simp add: clamp_to_register_def pf_of_int_def pf_max_def pf_min_def)
  show "engineering_to_raw (Fin 600) (hmeta n u (dbl (1 / 10)) d lo hi c) = Some 6000"
  proof -
    define q where "q = fl (1 / 10)"
    have q: "\<bar>q - 1 / 10\<bar> \<le> 1 / 10 / 2 ^ 53"
      unfolding q_def by (rule fl_close) simp_all
    have "(1 :: rat) / 10 / 2 ^ 53 \<le> 1 / 20"
      by simp
    with q have "\<bar>q - 1 / 10\<bar> \<le> 1 / 20"
      by (rule order_trans)
    then have q_bounds: "1 / 200 \<le> q" "q \<le> 1"
      by (simp_all only: abs_le_iff) linarith+
    have scale: "effective_scale (hmeta n u (dbl (1 / 10)) d lo hi c) = Fin q"
      using q_bounds by (simp add: effective_scale_def dbl_small q_def zero_pyfloat_def)
    have "600 / q - 6000 = 6000 * (1 / 10 - q) / q"
      using q_bounds by (simp add: field_simps)
    moreover have "\<bar>6000 * (1 / 10 - q)\<bar> / q \<le> 6000 * (1 / 10 / 2 ^ 53) / (1 / 200)"
    proof (rule frac_le)
      show "\<bar>6000 * (1 / 10 - q)\<bar> \<le> 6000 * (1 / 10 / 2 ^ 53)"
        using mult_left_mono [OF q, of 6000] by (simp only: abs_mult abs_minus_commute [of "1 / 10" q] abs_numeral)
    qed (use q_bounds in simp_all)
    moreover have "\<bar>6000 * (1 / 10 - q) / q\<bar> = \<bar>6000 * (1 / 10 - q)\<bar> / q"
      using q_bounds by (simp add: abs_divide)
    moreover have "6000 * (1 / 10 / 2 ^ 53) / (1 / 200) < (1 / 8 :: rat)"
      by simp
    ultimately have z: "\<bar>600 / q - 6000\<bar> < 1 / 8"
      by linarith
    then have range: "1 / 400 \<le> 600 / q" "600 / q \<le> 8000"
      by linarith+
    have big: "(8000 :: rat) \<le> 2 ^ 40" "(8000 :: rat) / 2 ^ 53 \<le> 1 / 8"
      by simp_all
    have "\<bar>fl (600 / q) - 600 / q\<bar> \<le> 600 / q / 2 ^ 53"
      using range(1) order_trans [OF range(2) big(1)] by (rule fl_close)
    also have "\<dots> \<le> 8000 / 2 ^ 53"
      using range(2) by (rule divide_right_mono) simp
    also note big(2)
    finally have "\<bar>fl (600 / q) - of_int 6000\<bar> < 1 / 2"
      using z by (simp only: abs_le_iff abs_less_iff of_int_numeral) linarith
    from round_half_even_unique [OF this] show ?thesis
      using engineering_to_raw_small [OF scale q_bounds, of 600] by simp
  qed
qed

lemma clamp_mixes_units:
  assumes "honest_link tr (ev_datalog_serial env) (ev_inverter_serial env) regs"
  shows "\<exists>meta st'. write_target_of (ev_settings env) (JStr ''shutdown_battery_voltage'') 166 meta \<and> hm_max meta = Some 600
    \<and> do_write tr env ident name (JStr ''shutdown_battery_voltage'') (Fin 600) False st = (Inr (), st')
    \<and> regs (eg_link st') 166 = 6000"
  using do_write_honest [OF assms shutdown_voltage_target shutdown_voltage_raw, of ident name st]
    shutdown_voltage_target [of "ev_settings env"] by fastforce

theorem success_means_read_back_witness:
  "\<exists>st' e. do_write (link_transact inverter_peer (''10.0.0.9'', 8000, ''BA12345678'', ''4434567890'') 10) sample_env
      ''a1'' (JStr ''Night charge'') (JStr ''charge_power_percent'') (Fin 250) False sample_engine = (Inr (), st')
    \<and> eg_log st' = [e] \<and> le_success e \<and> (\<exists>raw f s1. le_raw e = Some raw
       \<and> link_transact inverter_peer (''10.0.0.9'', 8000, ''BA12345678'', ''4434567890'') 10
           (read_request ''BA12345678'' ''4434567890'' 64) (read_match 64) s1 = (Inr (Some f), eg_link st'))"
proof -
  have h: "honest_link (link_transact inverter_peer (''10.0.0.9'', 8000, ''BA12345678'', ''4434567890'') 10)
      (ev_datalog_serial sample_env) (ev_inverter_serial sample_env) inverter_regs"
    by (rule inverter_link_honest) simp
  have r: "inverter_regs (eg_link sample_engine) 64 = 50" "eg_log sample_engine = []"
    by (simp_all add: sample_engine_def sample_link_def inverter_regs_def new_dongle_def)
  obtain st' e where d: "do_write (link_transact inverter_peer (''10.0.0.9'', 8000, ''BA12345678'', ''4434567890'') 10) sample_env
      ''a1'' (JStr ''Night charge'') (JStr ''charge_power_percent'') (Fin 250) False sample_engine = (Inr (), st')"
    and e: "eg_log st' = [e]" "le_success e"
    using do_write_honest [OF h charge_power_target percent_meta_values, of "''a1''" "JStr ''Night charge''" sample_engine] r by auto
  have "reg = 64" if "write_target_of (ev_settings sample_env) (JStr ''charge_power_percent'') reg meta" for reg meta
    using that charge_power_target [of "ev_settings sample_env"] unfolding write_target_of_def by auto
  with success_means_read_back [OF d] e r(2) show ?thesis
    using d by (fastforce simp: sample_env_def)
qed

end
