(* ===== verification/Automation_Control.thy ===== *)
theory Automation_Control
  imports Automation_Writes "HOL-Library.Multiset"
begin

text \<open>
  The battery state of charge control against its description, the rate limit of notifications over
  whole runs of the engine, and a setting whose negative values cannot be written.
\<close>

subsection \<open>The active point\<close>

text \<open>The scan over timed points, the last interval ending at \<^verbatim>\<open>t0\<close>.\<close>

definition point_source :: "json \<Rightarrow> json result" where
  "point_source p = jget_or p ''source'' (JStr ''battery'')"

definition soc_scan :: "int \<Rightarrow> (json \<times> int) list \<Rightarrow> int \<Rightarrow> json result" where
  "soc_scan now ps t0 = source_at now (map (\<lambda>(p, t). (p, Some t)) ps) (map (Some \<circ> snd) (tl ps) @ [Some t0])"

definition in_interval :: "int \<Rightarrow> int \<Rightarrow> int \<Rightarrow> bool" where
  "in_interval now t u = (if t \<le> u then t \<le> now \<and> now < u else t \<le> now \<or> now < u)"

lemma soc_scan_simps:
  "soc_scan now [(p, t)] t0 = (if in_interval now t t0 then point_source p else Inr (JStr ''battery''))"
  "soc_scan now ((p, t) # (q, u) # ps) t0 = (if in_interval now t u then point_source p else soc_scan now ((q, u) # ps) t0)"
  by (simp_all add: soc_scan_def Let_def in_interval_def point_source_def)

lemma soc_scan_after:
  assumes "sorted_wrt (<) (t # map snd ps)" "t0 \<le> t" "ps = [] \<Longrightarrow> t0 < t" "t \<le> now"
  shows "\<exists>x \<in> set ((p, t) # ps). soc_scan now ((p, t) # ps) t0 = point_source (fst x) \<and> snd x \<le> now
     \<and> (\<forall>y \<in> set ((p, t) # ps). snd y \<le> now \<longrightarrow> snd y \<le> snd x)"
  using assms
proof (induction ps arbitrary: p t)
  case Nil
  then show ?case
    by (simp add: soc_scan_simps in_interval_def)
next
  case (Cons q ps)
  obtain q' u where q: "q = (q', u)"
    by fastforce
  have tu: "t < u" and sorted: "sorted_wrt (<) (u # map snd ps)" and later: "\<forall>y \<in> set ps. u < snd y"
    using Cons.prems(1) q by auto
  show ?case
  proof (cases "now < u")
    case True
    have "y = (p, t)" if "y \<in> set ((p, t) # q # ps)" "snd y \<le> now" for y
      using that True later q by fastforce
    then have "\<forall>y \<in> set ((p, t) # q # ps). snd y \<le> now \<longrightarrow> snd y \<le> t"
      by fastforce
    then show ?thesis
      using Cons.prems(4) True tu by (intro bexI [of _ "(p, t)"]) (simp_all add: q soc_scan_simps in_interval_def)
  next
    case False
    have "t0 \<le> u" "ps = [] \<Longrightarrow> t0 < u" "u \<le> now"
      using False tu Cons.prems(2) by auto
    from Cons.IH [OF sorted this, of q'] obtain x where
      x: "x \<in> set ((q', u) # ps)" "soc_scan now ((q', u) # ps) t0 = point_source (fst x)" "snd x \<le> now"
        "\<forall>y \<in> set ((q', u) # ps). snd y \<le> now \<longrightarrow> snd y \<le> snd x"
      by blast
    have "t \<le> snd x"
      using x(4) False tu by force
    moreover have "soc_scan now ((p, t) # q # ps) t0 = soc_scan now ((q', u) # ps) t0"
      using False tu by (simp add: q soc_scan_simps in_interval_def)
    ultimately show ?thesis
      using x q by (intro bexI [of _ x]) simp_all
  qed
qed

lemma soc_scan_before:
  assumes "sorted_wrt (<) (t # map snd ps)" "t0 \<le> t" "ps = [] \<Longrightarrow> t0 < t" "now < t0"
  shows "\<exists>x \<in> set ((p, t) # ps). soc_scan now ((p, t) # ps) t0 = point_source (fst x)
     \<and> (\<forall>y \<in> set ((p, t) # ps). snd y \<le> snd x)"
  using assms
proof (induction ps arbitrary: p t)
  case Nil
  then show ?case
    by (simp add: soc_scan_simps in_interval_def)
next
  case (Cons q ps)
  obtain q' u where q: "q = (q', u)"
    by fastforce
  have tu: "t < u" and sorted: "sorted_wrt (<) (u # map snd ps)"
    using Cons.prems(1) q by auto
  have "t0 \<le> u" "ps = [] \<Longrightarrow> t0 < u"
    using tu Cons.prems(2) by auto
  from Cons.IH [OF sorted this Cons.prems(4), of q'] obtain x where
    x: "x \<in> set ((q', u) # ps)" "soc_scan now ((q', u) # ps) t0 = point_source (fst x)" "\<forall>y \<in> set ((q', u) # ps). snd y \<le> snd x"
    by blast
  have "t \<le> snd x"
    using x(3) tu by force
  moreover have "soc_scan now ((p, t) # q # ps) t0 = soc_scan now ((q', u) # ps) t0"
    using tu Cons.prems(2,4) by (simp add: q soc_scan_simps in_interval_def)
  ultimately show ?case
    using x q by (intro bexI [of _ x]) simp_all
qed

lemma timed_points:
  "mapE point_time points = Inr (map Some ts) \<Longrightarrow>
     mapE (\<lambda>p. bindE (point_time p) (\<lambda>t. Inr (p, t))) points = Inr (map (\<lambda>(p, t). (p, Some t)) (zip points ts)) \<and> length ts = length points"
proof (induction points arbitrary: ts)
  case (Cons p points)
  then obtain t us where "ts = t # us" "point_time p = Inr (Some t)" "mapE point_time points = Inr (map Some us)"
    by (auto simp: bindE_eq_Inr Cons_eq_map_conv)
  with Cons.IH show ?case
    by simp
qed simp

lemma sort_key_timed:
  fixes ps :: "(json \<times> int) list"
  shows "sort_key (\<lambda>(p, t). case t of Some t \<Rightarrow> t | None \<Rightarrow> 0) (map (\<lambda>(p, t). (p, Some t)) ps)
     = map (\<lambda>(p, t). (p, Some t)) (sort_key snd ps)"
proof -
  have ins: "insort_key (\<lambda>(p, t). case t of Some t \<Rightarrow> t | None \<Rightarrow> 0) (p, Some t) (map (\<lambda>(p, t). (p, Some t)) qs)
      = map (\<lambda>(p, t). (p, Some t)) (insort_key snd (p, t) qs)" for p :: json and t :: int and qs
    by (induction qs) auto
  show ?thesis
    by (induction ps) (auto simp: sort_key_simps ins)
qed

lemma passed_point:
  assumes "mapE point_time points = Inr (map Some ts)" "distinct ts" "2 \<le> length points"
  shows "\<exists>i < length points. target_source points now = jget_or (points ! i) ''source'' (JStr ''battery'') \<and>
     (if \<exists>j < length points. ts ! j \<le> now
      then ts ! i \<le> now \<and> (\<forall>j < length points. ts ! j \<le> now \<longrightarrow> ts ! j \<le> ts ! i)
      else (\<forall>j < length points. ts ! j \<le> ts ! i))"
proof -
  note tp = timed_points [OF assms(1)]
  define xs where "xs = sort_key snd (zip points ts)"
  have set_xs: "set xs = set (zip points ts)"
    by (simp add: xs_def)
  have "mset (map snd xs) = mset (map snd (zip points ts))"
    by (simp add: xs_def)
  also have "map snd (zip points ts) = ts"
    using tp by simp
  finally have "distinct (map snd xs)"
    using assms(2) mset_eq_imp_distinct_iff by blast
  then have sorted: "sorted_wrt (<) (map snd xs)"
    by (simp add: strict_sorted_iff xs_def sorted_sort_key)
  have "length xs = length points"
    using tp by (simp add: xs_def)
  then obtain p0 t0 q ps where xs: "xs = (p0, t0) # q # ps"
    using assms(3) by (cases xs; cases "tl xs") auto
  have t0: "t0 < snd q" "\<forall>y \<in> set ps. t0 < snd y"
    using sorted by (auto simp: xs)
  have "rotate1 (map snd (map (\<lambda>(p, t). (p, Some t)) xs)) = map (Some \<circ> snd) (tl xs) @ [Some t0]"
    by (simp add: xs case_prod_unfold comp_def)
  moreover have "points \<noteq> []"
    using assms(3) by auto
  ultimately have run: "target_source points now = soc_scan now xs t0"
    using tp by (simp add: target_source_def Let_def sort_key_timed soc_scan_def flip: xs_def)
  have mem: "y \<in> set xs \<longleftrightarrow> (\<exists>j < length points. y = (points ! j, ts ! j))" for y
    using tp by (auto simp: set_xs set_zip)
  have some: "(\<exists>j < length points. ts ! j \<le> now) \<longleftrightarrow> t0 \<le> now"
  proof
    assume "\<exists>j < length points. ts ! j \<le> now"
    then obtain j where "j < length points" "ts ! j \<le> now"
      by blast
    moreover from this have "(points ! j, ts ! j) \<in> set xs"
      using mem by blast
    ultimately show "t0 \<le> now"
      using t0 by (auto simp: xs)
  next
    assume "t0 \<le> now"
    moreover obtain j where "j < length points" "(p0, t0) = (points ! j, ts ! j)"
      using mem [of "(p0, t0)"] by (auto simp: xs)
    ultimately show "\<exists>j < length points. ts ! j \<le> now"
      by auto
  qed
  obtain x where x: "x \<in> set xs" "target_source points now = point_source (fst x)"
    "if t0 \<le> now then snd x \<le> now \<and> (\<forall>y \<in> set xs. snd y \<le> now \<longrightarrow> snd y \<le> snd x) else (\<forall>y \<in> set xs. snd y \<le> snd x)"
  proof (cases "t0 \<le> now")
    case True
    have "\<exists>x \<in> set ((p0, t0) # q # ps). soc_scan now ((p0, t0) # q # ps) t0 = point_source (fst x) \<and> snd x \<le> now \<and> (\<forall>y \<in> set ((p0, t0) # q # ps). snd y \<le> now \<longrightarrow> snd y \<le> snd x)"
      by (rule soc_scan_after) (use sorted True in \<open>auto simp: xs\<close>)
    then obtain x where
      "x \<in> set xs" "soc_scan now xs t0 = point_source (fst x)" "snd x \<le> now" "\<forall>y \<in> set xs. snd y \<le> now \<longrightarrow> snd y \<le> snd x"
      unfolding xs [symmetric] by blast
    with True show ?thesis
      using that run by simp
  next
    case False
    have "\<exists>x \<in> set ((p0, t0) # q # ps). soc_scan now ((p0, t0) # q # ps) t0 = point_source (fst x) \<and> (\<forall>y \<in> set ((p0, t0) # q # ps). snd y \<le> snd x)"
      by (rule soc_scan_before) (use sorted False in \<open>auto simp: xs\<close>)
    then obtain x where
      "x \<in> set xs" "soc_scan now xs t0 = point_source (fst x)" "\<forall>y \<in> set xs. snd y \<le> snd x"
      unfolding xs [symmetric] by blast
    with False show ?thesis
      using that run by simp
  qed
  then obtain i where i: "i < length points" "x = (points ! i, ts ! i)"
    using mem by blast
  have elem: "(points ! j, ts ! j) \<in> set xs" if "j < length points" for j
    using that mem by blast
  have bound: "ts ! j \<le> ts ! i" if "j < length points" "t0 \<le> now \<longrightarrow> ts ! j \<le> now" for j
  proof (cases "t0 \<le> now")
    case True
    then have "\<forall>y \<in> set xs. snd y \<le> now \<longrightarrow> snd y \<le> snd x"
      using x(3) by simp
    from bspec [OF this elem [OF that(1)]] show ?thesis
      using that(2) True i(2) by simp
  next
    case False
    then have "\<forall>y \<in> set xs. snd y \<le> snd x"
      using x(3) by simp
    from bspec [OF this elem [OF that(1)]] show ?thesis
      using i(2) by simp
  qed
  show ?thesis
    using x(2,3) i bound unfolding some
    by (intro exI [of _ i] conjI) (auto simp: point_source_def split: if_splits)
qed

text \<open>With at least two points whose times are readable and different, the control selects the source
  of the point that was passed last: the one with the greatest time not after the current minute, or,
  before the first point of the day, the one with the greatest time of all.  A single point is never
  active: whatever source it names and whatever the time is, the control selects the battery.\<close>

lemma soc_control_source:
  assumes "mapE point_time points = Inr (map Some ts)" "distinct ts" "points \<noteq> []"
  shows "if length points = 1 then target_source points now = Inr (JStr ''battery'')
     else \<exists>i < length points. target_source points now = jget_or (points ! i) ''source'' (JStr ''battery'') \<and>
     (if \<exists>j < length points. ts ! j \<le> now
      then ts ! i \<le> now \<and> (\<forall>j < length points. ts ! j \<le> now \<longrightarrow> ts ! j \<le> ts ! i)
      else (\<forall>j < length points. ts ! j \<le> ts ! i))"
proof (cases "length points = 1")
  case True
  then obtain p where p: "points = [p]"
    by (auto simp: length_Suc_conv)
  then obtain t where "point_time p = Inr (Some t)"
    using assms(1) by (cases ts) (auto simp: bindE_eq_Inr)
  then have "target_source points now = Inr (JStr ''battery'')"
    by (auto simp: p target_source_def Let_def)
  then show ?thesis
    using True by simp
next
  case False
  then have "2 \<le> length points"
    using assms(3) by (cases points; cases "tl points") auto
  from passed_point [OF assms(1,2) this, of now] show ?thesis
    using False by simp
qed

definition sample_points :: "json list" where
  "sample_points = [JDict [(''time'', JStr ''07:00''), (''source'', JStr ''grid'')],
     JDict [(''time'', JStr ''22:30''), (''source'', JStr ''battery'')]]"

lemma sample_point_times: "mapE point_time sample_points = Inr (map Some [420, 1350])"
  by (simp add: sample_points_def point_time_def py_str_def parse_hhmm_def strip_def lstrip_def is_space_def char_code_def
      parse_int_def is_digit_def digit_val_def)

subsection \<open>Notifications\<close>

lemma dbl_mono: "x \<le> y \<Longrightarrow> dbl x \<le> dbl y"
  using fl_mono [of x y] by (auto simp: dbl_def Let_def max_double_def)

lemma minus_Fin_mono: "a \<le> b \<Longrightarrow> Fin t - Fin b \<le> Fin t - Fin a"
  by (simp add: minus_pyfloat_def dbl_mono)

lemma less_pyfloat_trans: "x \<le> y \<Longrightarrow> y < Fin z \<Longrightarrow> x < Fin z"
  by (cases x; cases y; auto simp: less_pyfloat_def)

text \<open>
  The state after evaluations up to time \<^verbatim>\<open>now\<close>: the remembered time of an automation is not later, none
  of its notifications is later than the remembered time, and two of them are at least 300 seconds
  apart in the arithmetic of the program.
\<close>

definition apart :: "(string \<times> pyfloat \<times> json \<times> json) list \<Rightarrow> bool" where
  "apart notes \<longleftrightarrow> sorted_wrt (\<lambda>(i, t, _) (j, u, _). i = j \<longrightarrow> \<not> u - t < Fin 300) notes"

definition notes_ok :: "rat \<Rightarrow> 's engine \<Rightarrow> bool" where
  "notes_ok now st \<longleftrightarrow> apart (eg_notes st)
     \<and> (\<forall>i t. eg_last_notify st i = Some t \<longrightarrow> (\<exists>x. t = Fin x \<and> x \<le> now))
     \<and> (\<forall>(i, t, _) \<in> set (eg_notes st). \<exists>x y. t = Fin x \<and> eg_last_notify st i = Some (Fin y) \<and> x \<le> y)"

definition keeps_notes :: "rat \<Rightarrow> 's engine \<Rightarrow> 's engine \<Rightarrow> bool" where
  "keeps_notes now st st' \<longleftrightarrow> (notes_ok now st \<longrightarrow> notes_ok now st')"

interpretation keeps_notes: transition "keeps_notes now" for now
  by unfold_locales (simp_all add: keeps_notes_def)

lemma keeps_notes_same:
  "(\<And>st. eg_notes (snd (m st)) = eg_notes st \<and> eg_last_notify (snd (m st)) = eg_last_notify st) \<Longrightarrow> transits (keeps_notes now) m"
  by (simp add: transits_def keeps_notes_def notes_ok_def)

lemma keeps_notes_parts:
  "transits (keeps_notes now) (add_log e)" "transits (keeps_notes now) (set_last_eval i b)" "transits (keeps_notes now) (on_link m)"
  by (rule keeps_notes_same; simp add: add_log_def set_last_eval_def modifyS_def on_link_def on_part_def split: prod.split)+

lemma keeps_notes_do_write: "transits (keeps_notes now) (do_write tr env ident name setting v dry_run)"
  by (auto simp: do_write_def Let_def split: sum.split option.split
      intro!: keeps_notes.intros keeps_notes_parts)

lemma send_notification_keeps:
  assumes "ev_time env = Fin now"
  shows "transits (keeps_notes now) (send_notification env auto)"
proof (rule transitsI)
  fix st r st'
  assume run: "send_notification env auto st = (r, st')"
  show "keeps_notes now st st'"
    unfolding keeps_notes_def
  proof
    assume ok: "notes_ok now st"
    define last where "last = (case eg_last_notify st (au_id auto) of Some t \<Rightarrow> t | None \<Rightarrow> 0)"
    consider "eg_notes st' = eg_notes st" "eg_last_notify st' = eg_last_notify st"
      | "\<not> Fin now - last < Fin 300" "eg_last_notify st' = (eg_last_notify st)(au_id auto \<mapsto> Fin now)"
        "eg_notes st' = eg_notes st \<or> (\<exists>n m. eg_notes st' = eg_notes st @ [(au_id auto, Fin now, n, m)])"
      using run assms by (auto simp: send_notification_def Let_def add_log_def modifyS_def last_def [symmetric] split: option.splits if_splits)
    then show "notes_ok now st'"
    proof cases
      case 2
      have old: "\<exists>x y. t = Fin x \<and> eg_last_notify st i = Some (Fin y) \<and> x \<le> y \<and> y \<le> now" if "(i, t, nm) \<in> set (eg_notes st)" for i t nm
        using that ok unfolding notes_ok_def by fastforce
      have far: "\<not> Fin now - t < Fin 300" if n: "(au_id auto, t, nm) \<in> set (eg_notes st)" for t nm
      proof -
        obtain x y where "t = Fin x" "eg_last_notify st (au_id auto) = Some (Fin y)" "x \<le> y"
          using old [OF n] by blast
        then have "Fin now - last \<le> Fin now - t"
          by (simp add: last_def minus_Fin_mono)
        with 2(1) less_pyfloat_trans show ?thesis
          by blast
      qed
      have "apart (eg_notes st')"
        using 2(3) ok far by (fastforce simp: apart_def notes_ok_def sorted_wrt_append)
      moreover have "\<forall>i t. eg_last_notify st' i = Some t \<longrightarrow> (\<exists>x. t = Fin x \<and> x \<le> now)"
        using ok 2(2) by (auto simp: notes_ok_def)
      moreover have "\<exists>x y. t = Fin x \<and> eg_last_notify st' i = Some (Fin y) \<and> x \<le> y" if "(i, t, nm) \<in> set (eg_notes st')" for i t nm
      proof (cases "(i, t, nm) \<in> set (eg_notes st)")
        case True
        from old [OF this] show ?thesis
          using 2(2) by auto
      next
        case False
        then show ?thesis
          using that 2 by auto
      qed
      ultimately show ?thesis
        unfolding notes_ok_def by blast
    qed (use ok in \<open>simp add: notes_ok_def\<close>)
  qed
qed

lemma evaluation_keeps_notes:
  assumes "ev_time env = Fin now"
  shows "transits (keeps_notes now) (evaluate_and_apply tr env automations snap)"
  by (auto simp: evaluate_and_apply_def Let_def evaluate_one_def evaluate_battery_protection_def evaluate_battery_soc_def
      evaluate_rule_table_def split: option.split
      intro!: keeps_notes.intros keeps_notes_parts keeps_notes_do_write send_notification_keeps [OF assms])

text \<open>A run of the engine: evaluations at increasing times, with any automations and snapshots.\<close>

fun engine_run :: "'s transact_op \<Rightarrow> (automation_env \<times> automation list \<times> snapshot) list \<Rightarrow> 's engine \<Rightarrow> 's engine" where
  "engine_run tr [] st = st"
| "engine_run tr ((env, automations, snap) # evs) st = engine_run tr evs (snd (evaluate_and_apply tr env automations snap st))"

lemma engine_run_notes:
  assumes "map (\<lambda>(env, _). ev_time env) evs = map Fin instants" "sorted instants" "notes_ok t0 st" "\<forall>t \<in> set instants. t0 \<le> t"
  shows "apart (eg_notes (engine_run tr evs st))"
  using assms
proof (induction evs arbitrary: instants st t0)
  case Nil
  then show ?case
    by (simp add: notes_ok_def)
next
  case (Cons ev evs)
  obtain env automations snap where ev: "ev = (env, automations, snap)"
    by (cases ev) auto
  obtain t ts where instants: "instants = t # ts" "ev_time env = Fin t" "map (\<lambda>(env, _). ev_time env) evs = map Fin ts"
    using Cons.prems(1) ev by (cases instants) auto
  have "notes_ok t st"
    using Cons.prems(3,4) instants unfolding notes_ok_def by fastforce
  then have "notes_ok t (snd (evaluate_and_apply tr env automations snap st))"
    using evaluation_keeps_notes [OF instants(2), of tr automations snap] unfolding transits_def keeps_notes_def by blast
  then show ?case
    using Cons.IH [OF instants(3), where ?t0.0 = t] Cons.prems(2) instants by (simp add: ev)
qed

text \<open>C11: from a fresh engine, over any sequence of evaluations at non-decreasing times, with whatever
  automations, snapshots and failures of the notifiers, two notifications of one automation are never
  less than 300 seconds apart.\<close>

theorem notifications_rate_limited:
  assumes "map (\<lambda>(env, _). ev_time env) evs = map Fin instants" "sorted instants"
    and "eg_notes st = []" "eg_last_notify st = Map.empty"
    and "i < j" "j < length (eg_notes (engine_run tr evs st))"
    and "eg_notes (engine_run tr evs st) ! i = (a, t, n)" "eg_notes (engine_run tr evs st) ! j = (a, u, m)"
  shows "\<not> u - t < Fin 300"
proof -
  have "apart (eg_notes (engine_run tr evs st))"
    using assms(1-4) by (intro engine_run_notes [of evs instants "hd (instants @ [0])"]; cases instants) (auto simp: notes_ok_def apart_def)
  then show ?thesis
    using assms(5-8) by (auto simp: apart_def dest: sorted_wrt_nth_less)
qed

definition notify_automation :: automation where
  "notify_automation = sample_automation\<lparr>au_id := ''n1'', au_type := JStr TYPE_NOTIFY, au_groups := [],
     au_conditions := [sample_condition ''battery_soc'' 0 50]\<rparr>"

definition notify_env :: "rat \<Rightarrow> automation_env" where
  "notify_env t = sample_env\<lparr>ev_time := Fin t, ev_notifiers := Some (\<lambda>_ _. True)\<rparr>"

definition notify_run :: "(automation_env \<times> automation list \<times> snapshot) list" where
  "notify_run = [(notify_env 1000, [notify_automation], sample_snapshot), (notify_env 1100, [notify_automation], []),
     (notify_env 1400, [notify_automation], sample_snapshot)]"

lemma small_differences: "Fin 1000 - 0 = Fin 1000" "Fin 1400 - Fin 1000 = Fin 400"
  using dbl_of_int [of 1000] dbl_of_int [of 400] by (simp_all add: minus_pyfloat_def zero_pyfloat_def)

lemma notify_step:
  "evaluate_and_apply tr (notify_env t) [notify_automation] snap st =
    (Inr (), snd (evaluate_one tr (notify_env t) notify_automation snap False st))"
proof -
  have "automation_enabled (ev_settings (notify_env t))" "\<not> global_dry_run (ev_settings (notify_env t))"
    by (simp_all add: automation_enabled_def global_dry_run_def flag_on_def get_setting_def notify_env_def sample_env_def
        lower_def lower_char_def char_code_def)
  moreover have "au_enabled notify_automation" "au_disabled_until notify_automation = 0"
    by (simp_all add: notify_automation_def sample_automation_def)
  ultimately show ?thesis
    by (simp add: evaluate_and_apply_def Let_def bindS_def swallowS_def returnS_def)
qed

lemma notify_condition:
  "all_conditions_match (au_conditions notify_automation) sample_snapshot now = Inr True"
  "all_conditions_match (au_conditions notify_automation) [] now = Inr False"
  by (simp_all add: notify_automation_def all_conditions_match_def sample_matches)
    (simp add: condition_matches_def sample_condition_def ALL_CONDITION_SENSOR_def dict_merge_def CONDITION_SENSOR_def
      EXTRA_CONDITION_SENSOR_def sensor_value_def)

lemma notify_run_notes:
  "map (\<lambda>(i, t, _). (i, t)) (eg_notes (engine_run tr notify_run (st\<lparr>eg_last_eval := Map.empty, eg_last_notify := Map.empty, eg_log := [], eg_notes := []\<rparr>)))
     = [(''n1'', Fin 1000), (''n1'', Fin 1400)]"
proof -
  have n: "au_id notify_automation = ''n1''" "au_type notify_automation = JStr TYPE_NOTIFY"
    by (simp_all add: notify_automation_def)
  have e: "ev_time (notify_env t) = Fin t" "ev_notifiers (notify_env t) = Some (\<lambda>_ _. True)" for t
    by (simp_all add: notify_env_def)
  show ?thesis
    by (simp add: notify_run_def notify_step evaluate_one_def notify_condition n e bindS_def liftS_def getS_def was_active_def
        send_notification_def small_differences Let_def add_log_def modifyS_def set_last_eval_def returnS_def)
qed

text \<open>A run of three evaluations on the program's link to the emulated inverter, at the instants 1000, 1100
  and 1400, whose first and last notify.\<close>

theorem notifications_rate_limited_witness:
  "let notes = eg_notes (engine_run (link_transact inverter_peer (''10.0.0.9'', 8000, ''BA12345678'', ''4434567890'') 10)
       notify_run sample_engine)
   in map (\<lambda>(i, t, _). (i, t)) notes = [(''n1'', Fin 1000), (''n1'', Fin 1400)]
     \<and> \<not> fst (snd (notes ! 1)) - fst (snd (notes ! 0)) < Fin 300"
proof -
  have fresh: "eg_notes sample_engine = []" "eg_last_notify sample_engine = Map.empty"
    by (simp_all add: sample_engine_def)
  have "sample_engine\<lparr>eg_last_eval := Map.empty, eg_last_notify := Map.empty, eg_log := [], eg_notes := []\<rparr> = sample_engine"
    by (simp add: sample_engine_def)
  note run = notify_run_notes [of "link_transact inverter_peer (''10.0.0.9'', 8000, ''BA12345678'', ''4434567890'') 10" sample_engine,
    unfolded this]
  have t: "map (\<lambda>(env, _). ev_time env) notify_run = map Fin [1000, 1100, 1400]"
    by (simp add: notify_run_def notify_env_def)
  obtain n m where log: "eg_notes (engine_run (link_transact inverter_peer (''10.0.0.9'', 8000, ''BA12345678'', ''4434567890'') 10)
      notify_run sample_engine) = [(''n1'', Fin 1000, n), (''n1'', Fin 1400, m)]"
    using run by (auto simp: map_eq_Cons_conv)
  have "\<not> Fin 1400 - Fin 1000 < Fin 300"
    by (rule notifications_rate_limited [OF t _ fresh, where i = 0 and j = 1 and a = "''n1''" and n = n and m = m
          and tr = "link_transact inverter_peer (''10.0.0.9'', 8000, ''BA12345678'', ''4434567890'') 10"])
      (simp_all add: log)
  then show ?thesis
    by (simp add: log Let_def)
qed

subsection \<open>A setting with negative values\<close>

lemma map_of_holding_62:
  "map_of HOLDING_REGISTERS 62 = Some (hmeta ''power_factor_command'' '''' 1 ''Power factor command'' (Some (- 100)) (Some 100) [])"
  by (simp add: HOLDING_REGISTERS_eq holding_literal_def holding_registers_1_def)

lemma power_factor_target:
  "write_target_of settings (JStr ''power_factor_command'') 62 (hmeta ''power_factor_command'' '''' 1 ''Power factor command'' (Some (- 100)) (Some 100) [])"
  by (rule write_target_ofI) (simp_all add: map_of_holding_62 SETTING_NAME_TO_REGISTER_def)

lemma negative_raw:
  assumes "1 \<le> n" "n \<le> 100"
  shows "clamp_to_register (Fin (of_int (- n))) (hmeta nm u 1 d (Some (- 100)) (Some 100) c) = Inr (Fin (of_int (- n)))"
    and "engineering_to_raw (Fin (of_int (- n))) (hmeta nm u 1 d (Some (- 100)) (Some 100) c) = Some (- n)"
proof -
  have b: "dbl (of_int (- n)) = Fin (of_int (- n))" "dbl (of_int (- 100)) = Fin (of_int (- 100))" "dbl (of_int 100) = Fin (of_int 100)"
    using assms by (intro dbl_of_int; simp)+
  have le: "(of_int n :: rat) \<le> 100" "1 \<le> (of_int n :: rat)"
    using assms by simp_all
  show "clamp_to_register (Fin (of_int (- n))) (hmeta nm u 1 d (Some (- 100)) (Some 100) c) = Inr (Fin (of_int (- n)))"
    using b le by (simp add: clamp_to_register_def pf_of_int_def pf_max_def pf_min_def)
  have "round_half_even (of_int (- n)) = - n"
    by (rule round_half_even_of_int)
  with b(1) show "engineering_to_raw (Fin (of_int (- n))) (hmeta nm u 1 d (Some (- 100)) (Some 100) c) = Some (- n)"
    by (simp add: engineering_to_raw_def effective_scale_def one_pyfloat_def zero_pyfloat_def)
qed

text \<open>The power factor command is a mapped setting whose bounds are -100 to 100, but a negative value of
  it can never be written: over a link to an inverter a live write reads the register, then raises a
  ValueError, with the register unchanged and nothing in the log.\<close>

lemma negative_power_factor_unwritable:
  assumes "honest_link tr (ev_datalog_serial env) (ev_inverter_serial env) regs" "1 \<le> n" "n \<le> 100"
    and "0 \<le> regs (eg_link st) 62"
  shows "\<exists>st'. do_write tr env ident name (JStr ''power_factor_command'') (Fin (of_int (- n))) False st = (Inl ValueError, st')
     \<and> regs (eg_link st') = regs (eg_link st) \<and> eg_log st' = eg_log st"
proof -
  obtain rn where t: "write_target (ev_settings env) (JStr ''power_factor_command'')
      = Inr (Inr (rn, 62, hmeta ''power_factor_command'' '''' 1 ''Power factor command'' (Some (- 100)) (Some 100) []))"
    by (rule write_target_eq [OF power_factor_target])
  obtain m s1 where rd: "read_holding_register tr (ev_datalog_serial env) (ev_inverter_serial env) 62 (eg_link st)
      = (Inr (True, Some (regs (eg_link st) 62), m), s1)" "regs s1 = regs (eg_link st)"
    using honest_read [OF assms(1), of 62 "eg_link st"] by auto
  have "write_holding_register tr (ev_datalog_serial env) (ev_inverter_serial env) 62 (- n) s1 = (Inl ValueError, s1)"
    using assms(2) by (simp add: write_holding_register_def build_write_request_single raiseS_def)
  then show ?thesis
    using t rd assms(2,4) negative_raw [OF assms(2,3)]
    by (simp add: do_write_def Let_def bindS_def on_link_def on_part_def liftS_def)
qed

end
