(* ===== verification/Quick_Charge.thy ===== *)
theory Quick_Charge
  imports Link Holding_Facts
begin

unbundle bit_operations_syntax

text \<open>
  Quick charge, \<^verbatim>\<open>src/collector/quick_charge.py\<close>: the timed charge driven by two registers, the duration
  and bit 0 of an enable bit field, with its persistent state.  The settings table is assumed to work;
  the stored state is the JSON document last saved (absent when there is none or when its text is not
  JSON), the log is a list of entries, and a returned dictionary is a value of \<^verbatim>\<open>qc_result\<close>.
\<close>

subsection \<open>State\<close>

definition QC_ENABLE_NAME :: string where
  "QC_ENABLE_NAME = ''function_enable_5''"

definition QC_DURATION_NAME :: string where
  "QC_DURATION_NAME = ''quick_charge_duration''"

definition QC_ENABLE_REG :: int where
  "QC_ENABLE_REG = the (map_of HOLDING_BY_NAME QC_ENABLE_NAME)"

definition QC_DURATION_REG :: int where
  "QC_DURATION_REG = the (map_of HOLDING_BY_NAME QC_DURATION_NAME)"

definition QC_MIN_MINUTES :: int where
  "QC_MIN_MINUTES = 1"

definition QC_MAX_MINUTES :: int where
  "QC_MAX_MINUTES = 1440"

record qc_state =
  qs_active :: bool
  qs_minutes :: int
  qs_deadline :: pyfloat
  qs_started_at :: string

definition qc_idle :: qc_state where
  "qc_idle = \<lparr>qs_active = False, qs_minutes = 0, qs_deadline = 0, qs_started_at = []\<rparr>"

definition qc_to_dict :: "qc_state \<Rightarrow> json" where
  "qc_to_dict q = JDict [(''active'', JBool (qs_active q)), (''minutes'', JInt (qs_minutes q)),
     (''deadline_ts'', JFloat (qs_deadline q)), (''started_at'', JStr (qs_started_at q))]"

definition qc_from_dict :: "json \<Rightarrow> qc_state result" where
  "qc_from_dict d =
    bindE (jget_or d ''active'' (JBool False)) (\<lambda>active.
    bindE (bindE (jget_or d ''minutes'' (JInt 0)) py_int) (\<lambda>minutes.
    bindE (bindE (jget_or d ''deadline_ts'' (JFloat 0)) py_float) (\<lambda>deadline.
    bindE (jget_or d ''started_at'' (JStr [])) (\<lambda>started.
    Inr \<lparr>qs_active = truthy active, qs_minutes = minutes, qs_deadline = deadline, qs_started_at = py_str started\<rparr>))))"

record qc_log_entry =
  ql_register :: string
  ql_raw :: "int option"
  ql_scaled :: int
  ql_success :: bool
  ql_message :: string

record 's qc =
  qc_link :: 's
  qc_stored :: "json option"
  qc_minutes :: "string option"
  qc_log :: "qc_log_entry list"

datatype qc_result =
    QcError string
  | QcDryStart int int
  | QcStarted int int pyfloat
  | QcDryStop bool
  | QcStopped

fun qc_ok :: "qc_result \<Rightarrow> bool" where
  "qc_ok (QcError msg) = False"
| "qc_ok r = True"

definition qc_load_state :: "('s qc, qc_state) op" where
  "qc_load_state st = (case qc_stored st of
     None \<Rightarrow> (Inr qc_idle, st)
   | Some d \<Rightarrow> (case qc_from_dict d of
        Inr q \<Rightarrow> (Inr q, st)
      | Inl e \<Rightarrow> if e = TypeError \<or> e = ValueError then (Inr qc_idle, st) else (Inl e, st)))"

definition qc_save_state :: "qc_state \<Rightarrow> ('s qc, unit) op" where
  "qc_save_state q = modifyS (\<lambda>st. st\<lparr>qc_stored := Some (qc_to_dict q)\<rparr>)"

definition qc_add_log :: "string \<Rightarrow> int option \<Rightarrow> int \<Rightarrow> bool \<Rightarrow> string \<Rightarrow> ('s qc, unit) op" where
  "qc_add_log reg raw scaled ok msg = modifyS (\<lambda>st. st\<lparr>qc_log := qc_log st @
     [\<lparr>ql_register = reg, ql_raw = raw, ql_scaled = scaled, ql_success = ok, ql_message = msg\<rparr>]\<rparr>)"

definition qc_on_link :: "('s, 'a) op \<Rightarrow> ('s qc, 'a) op" where
  "qc_on_link = on_part qc_link (\<lambda>l st. st\<lparr>qc_link := l\<rparr>)"

text \<open>\<^verbatim>\<open>int(self._get_setting(QC_MINUTES_KEY) or "60")\<close>.\<close>

definition qc_default_minutes :: "'s qc \<Rightarrow> int result" where
  "qc_default_minutes st =
     (let s = (case qc_minutes st of Some s \<Rightarrow> if s = [] then ''60'' else s | None \<Rightarrow> ''60'') in
      case parse_int s of Some n \<Rightarrow> Inr n | None \<Rightarrow> Inl ValueError)"

subsection \<open>Operations\<close>

definition set_enable_bit :: "'s transact_op \<Rightarrow> string \<Rightarrow> string \<Rightarrow> bool \<Rightarrow> ('s, bool \<times> string \<times> int option) op" where
  "set_enable_bit tr ds isn enable =
    bindS (read_holding_register tr ds isn QC_ENABLE_REG) (\<lambda>(ok, cur, msg).
    if \<not> ok then returnS (False, ''Failed to read enable register: '' @ msg, None)
    else case cur of
      None \<Rightarrow> raiseS TypeError
    | Some cur \<Rightarrow>
       let new = (if enable then cur OR 1 else cur AND NOT 1) in
       bindS (write_holding_register tr ds isn QC_ENABLE_REG new) (\<lambda>(ok, msg).
       if \<not> ok then returnS (False, msg, None)
       else
       bindS (verify_reads 4 (read_holding_register tr ds isn QC_ENABLE_REG) new) (\<lambda>verified.
       if \<not> verified
       then returnS (False, ''Enable register write not confirmed on inverter (echoed but read-back mismatch)'', None)
       else returnS (True, ''bit 0 '' @ (if enable then ''set'' else ''cleared'') @ '' (was '' @ int_str cur
              @ '', now '' @ int_str new @ '')'', Some new))))"

definition qc_duration_raw :: "int \<Rightarrow> int option result" where
  "qc_duration_raw minutes = (case map_of HOLDING_REGISTERS QC_DURATION_REG of
     None \<Rightarrow> Inl KeyError
   | Some meta \<Rightarrow> Inr (case pf_of_int minutes of Inr x \<Rightarrow> engineering_to_raw x meta | Inl e \<Rightarrow> None))"

definition qc_start :: "'s transact_op \<Rightarrow> string \<Rightarrow> string \<Rightarrow> int option \<Rightarrow> bool \<Rightarrow> pyfloat \<Rightarrow> string \<Rightarrow> ('s qc, qc_result) op" where
  "qc_start tr ds isn minutes dry_run now started_at =
    bindS (case minutes of Some m \<Rightarrow> returnS m | None \<Rightarrow> (\<lambda>st. (qc_default_minutes st, st))) (\<lambda>minutes.
    let minutes = max QC_MIN_MINUTES (min QC_MAX_MINUTES minutes) in
    bindS (liftS (qc_duration_raw minutes)) (\<lambda>dur_raw.
    case dur_raw of
      None \<Rightarrow> returnS (QcError (''Invalid duration '' @ int_str minutes))
    | Some dur_raw \<Rightarrow>
       if dry_run then
         bindS (qc_add_log QC_DURATION_NAME (Some dur_raw) minutes True
           (''DRY-RUN would set duration='' @ int_str minutes @ ''min then enable quick charge'')) (\<lambda>_.
         returnS (QcDryStart minutes dur_raw))
       else
       bindS (qc_on_link (write_holding_register tr ds isn QC_DURATION_REG dur_raw)) (\<lambda>(ok, msg).
       if \<not> ok then
         bindS (qc_add_log QC_DURATION_NAME (Some dur_raw) minutes False msg) (\<lambda>_.
         returnS (QcError (''Failed to set duration: '' @ msg)))
       else
       bindS (qc_add_log QC_DURATION_NAME (Some dur_raw) minutes True
         (''Quick charge duration set to '' @ int_str minutes @ ''min'')) (\<lambda>_.
       bindS (qc_on_link (set_enable_bit tr ds isn True)) (\<lambda>(ok, msg, new_raw).
       if \<not> ok then
         bindS (qc_add_log QC_ENABLE_NAME None 1 False msg) (\<lambda>_.
         returnS (QcError (''Failed to enable quick charge: '' @ msg)))
       else
       bindS (qc_add_log QC_ENABLE_NAME new_raw 1 True ''Quick charge enabled (bit 0 set)'') (\<lambda>_.
       bindS (liftS (pf_of_int (minutes * 60))) (\<lambda>secs.
       let deadline = now + secs in
       bindS (qc_save_state \<lparr>qs_active = True, qs_minutes = minutes, qs_deadline = deadline, qs_started_at = started_at\<rparr>) (\<lambda>_.
       returnS (QcStarted minutes dur_raw deadline)))))))))"

definition qc_stop :: "'s transact_op \<Rightarrow> string \<Rightarrow> string \<Rightarrow> bool \<Rightarrow> ('s qc, qc_result) op" where
  "qc_stop tr ds isn dry_run =
    bindS qc_load_state (\<lambda>state.
    if dry_run then
      bindS (qc_add_log QC_ENABLE_NAME (Some 0) 0 True ''DRY-RUN would disable quick charge and clear duration'') (\<lambda>_.
      returnS (QcDryStop (qs_active state)))
    else
    bindS (qc_on_link (set_enable_bit tr ds isn False)) (\<lambda>(ok, msg, new_raw).
    if \<not> ok then
      bindS (qc_add_log QC_ENABLE_NAME None 0 False msg) (\<lambda>_.
      returnS (QcError (''Failed to disable quick charge: '' @ msg)))
    else
    bindS (qc_add_log QC_ENABLE_NAME new_raw 0 True ''Quick charge disabled (bit 0 cleared)'') (\<lambda>_.
    bindS (liftS (qc_duration_raw 0)) (\<lambda>dur_raw.
    case dur_raw of
      None \<Rightarrow> raiseS TypeError
    | Some dur_raw \<Rightarrow>
       bindS (qc_on_link (write_holding_register tr ds isn QC_DURATION_REG dur_raw)) (\<lambda>(ok, msg).
       if \<not> ok then
         bindS (qc_add_log QC_DURATION_NAME (Some dur_raw) 0 False msg) (\<lambda>_.
         returnS (QcError (''Failed to clear duration: '' @ msg)))
       else
       bindS (qc_add_log QC_DURATION_NAME (Some dur_raw) 0 True ''Quick charge duration cleared'') (\<lambda>_.
       bindS (qc_save_state (state\<lparr>qs_active := False\<rparr>)) (\<lambda>_.
       returnS QcStopped)))))))"

definition qc_tick :: "'s transact_op \<Rightarrow> string \<Rightarrow> string \<Rightarrow> pyfloat \<Rightarrow> ('s qc, qc_result option) op" where
  "qc_tick tr ds isn now =
    bindS qc_load_state (\<lambda>state.
    if \<not> qs_active state then returnS None
    else if now < qs_deadline state then returnS None
    else
    bindS (qc_stop tr ds isn False) (\<lambda>r.
    if qc_ok r then
      bindS (qc_add_log QC_DURATION_NAME (Some 0) 0 True
        (''Quick charge expired after '' @ int_str (qs_minutes state) @ ''min, stopped'')) (\<lambda>_.
      returnS (Some r))
    else returnS (Some r)))"

record qc_status =
  qt_state :: qc_state
  qt_default_minutes :: int
  qt_min_minutes :: int
  qt_max_minutes :: int
  qt_enable_register :: string
  qt_enable_address :: int
  qt_duration_register :: string
  qt_duration_address :: int

definition qc_get_status :: "('s qc, qc_status) op" where
  "qc_get_status =
    bindS qc_load_state (\<lambda>state.
    bindS (\<lambda>st. (qc_default_minutes st, st)) (\<lambda>minutes.
    returnS \<lparr>qt_state = state, qt_default_minutes = minutes, qt_min_minutes = QC_MIN_MINUTES,
      qt_max_minutes = QC_MAX_MINUTES, qt_enable_register = QC_ENABLE_NAME, qt_enable_address = QC_ENABLE_REG,
      qt_duration_register = QC_DURATION_NAME, qt_duration_address = QC_DURATION_REG\<rparr>))"

end
