(* ===== verification/Collector.thy ===== *)
theory Collector
  imports Automation Quick_Charge
begin

text \<open>
  The collector, \<^verbatim>\<open>PassiveCollector\<close> in \<^verbatim>\<open>src/collector/collector.py\<close>: the raw registers it keeps from the
  frames of the transport, and one iteration of the writer loop (decode, clamp, output, quick charge,
  automation).  Decoded readings handed to
  the output backends are kept in a list; the backends, the alerts, the snapshot callback and the
  forecast refresh do not feed back into this state.
\<close>

subsection \<open>State\<close>

record 's collector =
  co_driver :: model_driver
  co_input_raw :: "(int \<times> int) list"
  co_hold_raw :: "(int \<times> int) list"
  co_decoded :: "(string \<times> reading) list"
  co_engine :: "'s engine"
  co_quick_charge :: "'s qc"
  co_link :: 's
  co_outputs :: "(string \<times> reading) list list"

definition new_collector :: "model_driver \<Rightarrow> 's \<Rightarrow> 's collector" where
  "new_collector drv link = \<lparr>co_driver = drv, co_input_raw = [], co_hold_raw = [], co_decoded = [],
     co_engine = \<lparr>eg_link = link, eg_last_eval = Map.empty, eg_last_notify = Map.empty, eg_log = [], eg_notes = []\<rparr>,
     co_quick_charge = \<lparr>qc_link = link, qc_stored = None, qc_minutes = None, qc_log = []\<rparr>,
     co_link = link, co_outputs = []\<rparr>"

subsection \<open>Frames\<close>

text \<open>Storing the values of a read response under consecutive register numbers.\<close>

definition store_values :: "int \<Rightarrow> int list \<Rightarrow> (int \<times> int) list \<Rightarrow> (int \<times> int) list" where
  "store_values reg vs raw = foldl (\<lambda>m (i, v). AList.update (reg + int i) v m) raw (zip [0..<length vs] vs)"

definition handle_frame :: "frame \<Rightarrow> 's collector \<Rightarrow> 's collector" where
  "handle_frame frame st =
    (if \<not> is_translated_data frame then st
     else if is_read_input frame then st\<lparr>co_input_raw := store_values (f_register frame) (f_values frame) (co_input_raw st)\<rparr>
     else if is_read_hold frame then st\<lparr>co_hold_raw := store_values (f_register frame) (f_values frame) (co_hold_raw st)\<rparr>
     else st)"

subsection \<open>Sanity limits\<close>

definition SANITY_LIMITS :: "(string \<times> rat) list" where
  "SANITY_LIMITS = [
    (''pv1_power'', 8000),
    (''pv2_power'', 8000),
    (''grid_import_power'', 6000),
    (''grid_export_power'', 6000),
    (''charge_power'', 5000),
    (''discharge_power'', 5000),
    (''eps_power'', 6000),
    (''battery_voltage'', 65),
    (''battery_current'', 150),
    (''temp_inverter'', 100),
    (''temp_battery'', 80),
    (''temp_radiator_1'', 100),
    (''temp_radiator_2'', 100),
    (''soc'', 100),
    (''soh'', 100)]"

definition SIGNED_FIELDS :: "string list" where
  "SIGNED_FIELDS = [''battery_current'']"

definition clamp_value :: "string \<Rightarrow> rat \<Rightarrow> pyfloat \<Rightarrow> pyfloat" where
  "clamp_value key limit v =
    (if v < Fin 0 \<and> \<not> List.member SIGNED_FIELDS key then Fin 0
     else if Fin limit < v then Fin limit else v)"

definition clamp_values :: "(string \<times> reading) list \<Rightarrow> (string \<times> reading) list" where
  "clamp_values decoded = foldl (\<lambda>m (key, limit). case map_of m key of
      None \<Rightarrow> m
    | Some r \<Rightarrow> AList.update key (r\<lparr>rv_value := clamp_value key limit (rv_value r)\<rparr>) m) decoded SANITY_LIMITS"

subsection \<open>The writer loop\<close>

text \<open>A decoded reading as the automation engine sees it.\<close>

definition reading_json :: "reading \<Rightarrow> json" where
  "reading_json r = JDict ([(''value'', JFloat (rv_value r)), (''unit'', JStr (rv_unit r)), (''raw'', JInt (rv_raw r))]
     @ (case rv_raw_high r of Some h \<Rightarrow> [(''raw_high'', JInt h)] | None \<Rightarrow> [])
     @ [(''desc'', JStr (rv_desc r))])"

definition snapshot_of :: "(string \<times> reading) list \<Rightarrow> snapshot" where
  "snapshot_of decoded = map (\<lambda>(n, r). (n, reading_json r)) decoded"

text \<open>Quick charge and automation work on the one shared link.\<close>

definition collector_tick :: "'s transact_op \<Rightarrow> automation_env \<Rightarrow> ('s collector, qc_result option) op" where
  "collector_tick tr env st =
    (case qc_tick tr (ev_datalog_serial env) (ev_inverter_serial env) (ev_time env)
        ((co_quick_charge st)\<lparr>qc_link := co_link st\<rparr>) of
       (r, q) \<Rightarrow> (r, st\<lparr>co_quick_charge := q, co_link := qc_link q\<rparr>))"

definition collector_automate :: "'s transact_op \<Rightarrow> automation_env \<Rightarrow> automation list \<Rightarrow> ('s collector, unit) op" where
  "collector_automate tr env automations st =
    (case evaluate_and_apply tr env automations (snapshot_of (co_decoded st)) ((co_engine st)\<lparr>eg_link := co_link st\<rparr>) of
       (r, g) \<Rightarrow> (r, st\<lparr>co_engine := g, co_link := eg_link g\<rparr>))"

text \<open>
  One iteration after the configuration check; \<^verbatim>\<open>outputs_ok\<close> tells whether the output backends and the
  alerts returned.  A failed decode leaves the previous readings, a failed output skips the rest; the
  exceptions of quick charge and automation are dropped.
\<close>

definition writer_cycle :: "'s transact_op \<Rightarrow> automation_env \<Rightarrow> automation list \<Rightarrow> bool \<Rightarrow> 's collector \<Rightarrow> 's collector" where
  "writer_cycle tr env automations outputs_ok st =
    (if co_input_raw st = [] then st
     else if map_of (co_input_raw st) 4 = None then st
     else (case driver_decode (co_driver st) (co_input_raw st) of
        Inl e \<Rightarrow> st
      | Inr decoded \<Rightarrow>
         let decoded = clamp_values decoded;
             st = st\<lparr>co_decoded := decoded, co_outputs := co_outputs st @ [decoded]\<rparr>;
             serials = (outputs_ok \<and> ev_datalog_serial env \<noteq> [] \<and> ev_inverter_serial env \<noteq> []);
             st = (if serials then snd (collector_tick tr env st) else st)
         in if serials then snd (collector_automate tr env automations st) else st))"

end
