(* ===== verification/Quick_Charge_Facts.thy ===== *)
theory Quick_Charge_Facts
  imports Quick_Charge Automation_Control
begin

unbundle bit_operations_syntax

text \<open>
  Quick charge over a link to an inverter: the whole life of a charge as an update of two registers,
  and what a failure in the middle of a start leaves behind.
\<close>

subsection \<open>The two registers\<close>

lemma holding_first_row: "(reg, meta) \<in> set holding_registers_2 \<Longrightarrow> map_of HOLDING_REGISTERS reg = Some meta"
  by (rule map_of_is_SomeI [OF distinct_HOLDING_REGISTERS]) (simp add: HOLDING_REGISTERS_eq holding_literal_def)

lemma qc_enable_meta:
  "map_of HOLDING_REGISTERS 233 = Some (hmeta ''function_enable_5'' '''' 1 ''Function enable 5 (bitfield: bit0=quick charge start, bit1=battery backup, bit2=maintenance, bit3=7-day work mode, bit4=dry contactor multiplex, bit5=external CT position, bit6=overfrequency f-stop)'' (Some 0) (Some 65535) [])"
  by (rule holding_first_row) (simp add: holding_registers_2_def)

lemma qc_duration_meta:
  "map_of HOLDING_REGISTERS 234 = Some (hmeta ''quick_charge_duration'' ''min'' 1 ''Quick charge duration (minutes, 0=stop)'' (Some 0) (Some 1440) [])"
  by (rule holding_first_row) (simp add: holding_registers_2_def)

lemma qc_regs [simp]: "QC_ENABLE_REG = 233" "QC_DURATION_REG = 234"
  using holding_by_name [OF qc_enable_meta] holding_by_name [OF qc_duration_meta]
  by (simp_all add: QC_ENABLE_REG_def QC_DURATION_REG_def QC_ENABLE_NAME_def QC_DURATION_NAME_def)

lemma qc_duration_raw_small: "\<bar>m\<bar> \<le> 2 ^ 20 \<Longrightarrow> qc_duration_raw m = Inr (Some m)"
proof -
  assume "\<bar>m\<bar> \<le> 2 ^ 20"
  then have b: "\<bar>m\<bar> \<le> 2 ^ 53"
    by simp
  with dbl_of_int [OF b] show ?thesis
    by (simp add: qc_duration_raw_def qc_duration_meta pf_of_int_def engineering_to_raw_def effective_scale_def one_pyfloat_def zero_pyfloat_def)
qed

lemma qc_state_roundtrip: "qc_from_dict (qc_to_dict q) = Inr q"
  by (simp add: qc_from_dict_def qc_to_dict_def py_str_def)

lemma set_bit_range:
  fixes x :: int
  assumes "0 \<le> x" "x \<le> 65535"
  shows "0 \<le> x OR 1" "x OR 1 \<le> 65535" "0 \<le> x AND NOT 1" "x AND NOT 1 \<le> 65535"
    and "(x OR 1) AND NOT 1 = x AND NOT 1"
proof -
  show "0 \<le> x OR 1"
    using assms(1) by simp
  show "x OR 1 \<le> 65535"
    using OR_upper [of x 16 1] assms by simp
  show "0 \<le> x AND NOT 1" "x AND NOT 1 \<le> 65535"
    using assms AND_upper1 [of x "NOT 1"] by simp_all
  show "(x OR 1) AND NOT 1 = x AND NOT 1"
    by (rule bit_eqI) (auto simp: bit_simps)
qed

subsection \<open>Over a link to an inverter\<close>

lemma set_enable_bit_honest:
  fixes enable :: bool
  assumes "honest_link tr ds isn regs" "0 \<le> regs s 233" "regs s 233 \<le> 65535"
  defines "new \<equiv> (if enable then regs s 233 OR 1 else regs s 233 AND NOT 1)"
  shows "\<exists>msg s'. set_enable_bit tr ds isn enable s = (Inr (True, msg, Some new), s') \<and> regs s' = (regs s)(233 := new)"
proof -
  have new: "0 \<le> new" "new \<le> 65535"
    using set_bit_range [OF assms(2,3)] by (simp_all add: new_def)
  obtain m1 s1 where rd: "read_holding_register tr ds isn 233 s = (Inr (True, Some (regs s 233), m1), s1)" "regs s1 = regs s"
    using honest_read [OF assms(1), of 233 s] by auto
  obtain m2 s2 where wr: "write_holding_register tr ds isn 233 new s1 = (Inr (True, m2), s2)" "regs s2 = (regs s1)(233 := new)"
    using honest_write [OF assms(1), of 233 new s1] new by auto
  obtain s3 where vf: "verify_reads 4 (read_holding_register tr ds isn 233) new s2 = (Inr True, s3)" "regs s3 = regs s2"
    using honest_verify [OF assms(1), of 233 s2 new 3] wr(2) by auto
  show ?thesis
    using rd wr vf unfolding set_enable_bit_def by (simp add: bindS_def returnS_def flip: new_def)
qed

lemma qc_start_honest:
  fixes minutes :: int
  assumes "honest_link tr ds isn regs" "0 \<le> regs (qc_link st) 233" "regs (qc_link st) 233 \<le> 65535"
  defines "m \<equiv> max 1 (min 1440 minutes)"
  shows "\<exists>st1. qc_start tr ds isn (Some minutes) False now started_at st = (Inr (QcStarted m m (now + Fin (of_int (m * 60)))), st1)
     \<and> regs (qc_link st1) = (regs (qc_link st))(234 := m, 233 := regs (qc_link st) 233 OR 1)
     \<and> qc_stored st1 = Some (qc_to_dict \<lparr>qs_active = True, qs_minutes = m, qs_deadline = now + Fin (of_int (m * 60)), qs_started_at = started_at\<rparr>)"
proof -
  have m: "1 \<le> m" "m \<le> 1440"
    by (simp_all add: m_def)
  have raw: "qc_duration_raw m = Inr (Some m)"
    using m by (intro qc_duration_raw_small) simp
  have secs: "pf_of_int (m * 60) = Inr (Fin (of_int (m * 60)))"
    using m by (intro pf_of_int_small) simp
  obtain m1 s1 where wr: "write_holding_register tr ds isn 234 m (qc_link st) = (Inr (True, m1), s1)"
    "regs s1 = (regs (qc_link st))(234 := m)"
    using honest_write [OF assms(1), of 234 m "qc_link st"] m by auto
  have "regs s1 233 = regs (qc_link st) 233"
    by (simp add: wr(2))
  then obtain m2 s2 where en: "set_enable_bit tr ds isn True s1 = (Inr (True, m2, Some (regs (qc_link st) 233 OR 1)), s2)"
    "regs s2 = (regs s1)(233 := regs (qc_link st) 233 OR 1)"
    using set_enable_bit_honest [OF assms(1), of s1 True] assms(2,3) by auto
  show ?thesis
    using raw secs wr en
    unfolding qc_start_def QC_MIN_MINUTES_def QC_MAX_MINUTES_def
    by (simp add: bindS_def returnS_def liftS_def qc_on_link_def on_part_def qc_add_log_def qc_save_state_def modifyS_def Let_def
        flip: m_def)
qed

lemma qc_stop_honest:
  assumes "honest_link tr ds isn regs" "0 \<le> regs (qc_link st) 233" "regs (qc_link st) 233 \<le> 65535"
    and "qc_stored st = Some (qc_to_dict q)"
  shows "\<exists>st1. qc_stop tr ds isn False st = (Inr QcStopped, st1)
     \<and> regs (qc_link st1) = (regs (qc_link st))(233 := regs (qc_link st) 233 AND NOT 1, 234 := 0)
     \<and> qc_stored st1 = Some (qc_to_dict (q\<lparr>qs_active := False\<rparr>))"
proof -
  obtain m1 s1 where en: "set_enable_bit tr ds isn False (qc_link st) = (Inr (True, m1, Some (regs (qc_link st) 233 AND NOT 1)), s1)"
    "regs s1 = (regs (qc_link st))(233 := regs (qc_link st) 233 AND NOT 1)"
    using set_enable_bit_honest [OF assms(1), of "qc_link st" False] assms(2,3) by auto
  obtain m2 s2 where wr: "write_holding_register tr ds isn 234 0 s1 = (Inr (True, m2), s2)" "regs s2 = (regs s1)(234 := 0)"
    using honest_write [OF assms(1), of 234 0 s1] by auto
  have raw: "qc_duration_raw 0 = Inr (Some 0)"
    by (rule qc_duration_raw_small) simp
  show ?thesis
    using en wr raw assms(4) unfolding qc_stop_def
    by (simp add: bindS_def returnS_def liftS_def qc_on_link_def on_part_def qc_add_log_def qc_save_state_def modifyS_def
        qc_load_state_def qc_state_roundtrip)
qed

text \<open>C12: the whole life of a quick charge over a link to an inverter.  A start for any number of minutes
  clamps them to 1..1440, writes them to the duration register and sets bit 0 of the enable register,
  all other bits and registers unchanged.  Ticks before the deadline do nothing.  The first tick from
  the deadline on clears bit 0 and the duration, leaves every other register as it was before the
  charge, and later ticks do nothing.\<close>

theorem quick_charge_lifecycle:
  fixes minutes :: int
  assumes "honest_link tr ds isn regs" "0 \<le> regs (qc_link st) 233" "regs (qc_link st) 233 \<le> 65535"
  defines "m \<equiv> max 1 (min 1440 minutes)" and "r \<equiv> regs (qc_link st)"
  shows "\<exists>st1. qc_start tr ds isn (Some minutes) False now started_at st = (Inr (QcStarted m m (now + Fin (of_int (m * 60)))), st1)
     \<and> regs (qc_link st1) = r(234 := m, 233 := r 233 OR 1)
     \<and> (\<forall>later. if later < now + Fin (of_int (m * 60)) then qc_tick tr ds isn later st1 = (Inr None, st1)
          else \<exists>st2. qc_tick tr ds isn later st1 = (Inr (Some QcStopped), st2)
             \<and> regs (qc_link st2) = r(234 := 0, 233 := r 233 AND NOT 1)
             \<and> (\<forall>t. qc_tick tr ds isn t st2 = (Inr None, st2)))"
proof -
  define q where "q = \<lparr>qs_active = True, qs_minutes = m, qs_deadline = now + Fin (of_int (m * 60)), qs_started_at = started_at\<rparr>"
  obtain st1 where st1: "qc_start tr ds isn (Some minutes) False now started_at st = (Inr (QcStarted m m (now + Fin (of_int (m * 60)))), st1)"
    "regs (qc_link st1) = r(234 := m, 233 := r 233 OR 1)" "qc_stored st1 = Some (qc_to_dict q)"
    using qc_start_honest [OF assms(1-3), of minutes now started_at] unfolding m_def r_def q_def by blast
  have load: "qc_load_state st = (Inr q', st)" if "qc_stored st = Some (qc_to_dict q')" for st :: "'a qc" and q'
    using that by (simp add: qc_load_state_def qc_state_roundtrip)
  have early: "qc_tick tr ds isn later st1 = (Inr None, st1)" if "later < now + Fin (of_int (m * 60))" for later
    using that load [OF st1(3)] by (simp add: qc_tick_def bindS_def returnS_def q_def)
  have late: "\<exists>st2. qc_tick tr ds isn later st1 = (Inr (Some QcStopped), st2)
             \<and> regs (qc_link st2) = r(234 := 0, 233 := r 233 AND NOT 1)
             \<and> (\<forall>t. qc_tick tr ds isn t st2 = (Inr None, st2))" if "\<not> later < now + Fin (of_int (m * 60))" for later
  proof -
    have b: "0 \<le> regs (qc_link st1) 233" "regs (qc_link st1) 233 \<le> 65535"
      using set_bit_range [OF assms(2,3)] by (simp_all add: st1(2) r_def)
    obtain st2 where st2: "qc_stop tr ds isn False st1 = (Inr QcStopped, st2)"
      "regs (qc_link st2) = (regs (qc_link st1))(233 := regs (qc_link st1) 233 AND NOT 1, 234 := 0)"
      "qc_stored st2 = Some (qc_to_dict (q\<lparr>qs_active := False\<rparr>))"
      using qc_stop_honest [OF assms(1) b st1(3)] by blast
    have "\<not> later < qs_deadline q" "qs_active q"
      using that by (simp_all add: q_def)
    then obtain st3 where st3: "qc_tick tr ds isn later st1 = (Inr (Some QcStopped), st3)" "qc_link st3 = qc_link st2" "qc_stored st3 = qc_stored st2"
      using load [OF st1(3)] st2(1) by (simp add: qc_tick_def bindS_def returnS_def qc_add_log_def modifyS_def)
    have "regs (qc_link st3) = r(234 := 0, 233 := r 233 AND NOT 1)"
      using set_bit_range(5) [OF assms(2,3)] by (auto simp: st3(2) st2(2) st1(2) r_def fun_eq_iff)
    moreover have "qc_tick tr ds isn t st3 = (Inr None, st3)" for t
      using load [of st3 "q\<lparr>qs_active := False\<rparr>"] st2(3) st3(3) by (simp add: qc_tick_def bindS_def returnS_def)
    ultimately show ?thesis
      using st3(1) by blast
  qed
  show ?thesis
    using st1(1,2) early late by (intro exI [of _ st1]) simp
qed

definition sample_qc :: "inverter_world shared qc" where
  "sample_qc = \<lparr>qc_link = sample_link, qc_stored = None, qc_minutes = None, qc_log = []\<rparr>"

lemma lifecycle_at:
  assumes "\<exists>st1. A st1 \<and> R st1 \<and> (\<forall>later. if later < d then B later st1 else \<exists>st2. C later st1 st2 \<and> S st2 \<and> E st2)"
    and "\<not> (t :: pyfloat) < d" "\<And>st. R st \<Longrightarrow> R' st" "\<And>st. S st \<Longrightarrow> S' st"
  shows "\<exists>st1. A st1 \<and> R' st1 \<and> (\<exists>st2. C t st1 st2 \<and> S' st2)"
  using assms by metis

theorem quick_charge_lifecycle_witness:
  "\<exists>st1. qc_start (link_transact inverter_peer (''10.0.0.9'', 8000, ''BA12345678'', ''4434567890'') 10) ''BA12345678'' ''4434567890''
      (Some 9999) False (Fin 1000) ''2026-01-01'' sample_qc = (Inr (QcStarted (max 1 (min 1440 9999)) (max 1 (min 1440 9999))
        (Fin 1000 + Fin (of_int (max 1 (min 1440 9999) * 60)))), st1)
    \<and> (inverter_regs (qc_link st1) 234 = 1440 \<and> inverter_regs (qc_link st1) 233 = 51 \<and> inverter_regs (qc_link st1) 64 = 50)
    \<and> (\<exists>st2. qc_tick (link_transact inverter_peer (''10.0.0.9'', 8000, ''BA12345678'', ''4434567890'') 10) ''BA12345678'' ''4434567890''
          (Fin 87400) st1 = (Inr (Some QcStopped), st2) \<and> (inverter_regs (qc_link st2) 234 = 0 \<and> inverter_regs (qc_link st2) 233 = 50))"
proof -
  have h: "honest_link (link_transact inverter_peer (''10.0.0.9'', 8000, ''BA12345678'', ''4434567890'') 10)
      ''BA12345678'' ''4434567890'' inverter_regs"
    by (rule inverter_link_honest) simp
  have r: "inverter_regs (qc_link sample_qc) = (\<lambda>_. 50)"
    by (simp add: sample_qc_def sample_link_def inverter_regs_def new_dongle_def fun_eq_iff)
  have d: "dbl 87400 = Fin 87400"
    using dbl_of_int [of 87400] by simp
  have b: "0 \<le> inverter_regs (qc_link sample_qc) 233" "inverter_regs (qc_link sample_qc) 233 \<le> 65535"
    by (simp_all add: r)
  show ?thesis
    by (rule lifecycle_at [OF quick_charge_lifecycle [OF h b, of 9999 "Fin 1000" "''2026-01-01''"]]) (simp_all add: r d)
qed

end
