(* ===== verification/Collector_Facts.thy ===== *)
theory Collector_Facts
  imports Collector Quick_Charge_Facts Decoding Transports
begin

text \<open>
  Properties of the collector: the sanity limits, and the path of a reading from the bytes on the wire
  to the decoded snapshot.
\<close>

subsection \<open>Sanity limits\<close>

lemma limit_keys_distinct: "distinct (map fst SANITY_LIMITS)"
  by (simp add: SANITY_LIMITS_def)

definition limited :: "string \<Rightarrow> reading \<Rightarrow> reading" where
  "limited key r = (case map_of SANITY_LIMITS key of
     None \<Rightarrow> r | Some limit \<Rightarrow> r\<lparr>rv_value := clamp_value key limit (rv_value r)\<rparr>)"

lemma clamp_fold_lookup:
  assumes "distinct (map fst limits)"
  shows "map_of (foldl (\<lambda>m (key, limit). case map_of m key of
      None \<Rightarrow> m | Some r \<Rightarrow> AList.update key (r\<lparr>rv_value := clamp_value key limit (rv_value r)\<rparr>) m) m limits) n
    = (case map_of limits n of None \<Rightarrow> map_of m n
       | Some limit \<Rightarrow> map_option (\<lambda>r. r\<lparr>rv_value := clamp_value n limit (rv_value r)\<rparr>) (map_of m n))"
  using assms
proof (induction limits arbitrary: m)
  case (Cons kl limits)
  obtain k l where kl: "kl = (k, l)"
    by fastforce
  define m' where "m' = (case map_of m k of None \<Rightarrow> m | Some r \<Rightarrow> AList.update k (r\<lparr>rv_value := clamp_value k l (rv_value r)\<rparr>) m)"
  have m': "map_of m' x = (if x = k then map_option (\<lambda>r. r\<lparr>rv_value := clamp_value k l (rv_value r)\<rparr>) (map_of m k) else map_of m x)" for x
    by (auto simp: m'_def update_conv' split: option.split)
  have "k \<notin> set (map fst limits)" "distinct (map fst limits)"
    using Cons.prems kl by simp_all
  then have "map_of limits k = None"
    by (simp add: map_of_eq_None_iff)
  with Cons.IH [OF \<open>distinct (map fst limits)\<close>, of m'] m' show ?case
    by (cases "n = k") (auto simp: kl m'_def split: option.split)
qed simp

lemma clamp_values_lookup: "map_of (clamp_values decoded) n = map_option (limited n) (map_of decoded n)"
  unfolding clamp_values_def clamp_fold_lookup [OF limit_keys_distinct] limited_def
  by (cases "map_of SANITY_LIMITS n") (simp_all add: option.map_id0 [unfolded id_def])

lemma limits_nonneg: "map_of SANITY_LIMITS n = Some l \<Longrightarrow> 0 \<le> l"
  by (drule map_of_SomeD) (auto simp: SANITY_LIMITS_def)

lemma limited_idem: "limited n (limited n r) = limited n r"
  using limits_nonneg [of n] by (auto simp: limited_def clamp_value_def split: option.split)

text \<open>Clamping changes nothing but the values of the limited readings, each of which becomes the value
  clamped on its own; a reading that is not signed ends between zero and its limit, a signed one (the
  battery current) is only limited from above, and clamping again changes nothing.\<close>

lemma clamp_values_spec:
  "map_of (clamp_values decoded) n = map_option (limited n) (map_of decoded n)
   \<and> map_of (clamp_values (clamp_values decoded)) n = map_of (clamp_values decoded) n
   \<and> (\<forall>limit v. map_of SANITY_LIMITS n = Some limit \<longrightarrow> v \<noteq> NaN \<longrightarrow>
        clamp_value n limit v \<le> Fin limit \<and> (n \<noteq> ''battery_current'' \<longrightarrow> Fin 0 \<le> clamp_value n limit v)
        \<and> (n = ''battery_current'' \<longrightarrow> v \<le> Fin limit \<longrightarrow> clamp_value n limit v = v))"
proof (intro conjI allI impI)
  show "map_of (clamp_values decoded) n = map_option (limited n) (map_of decoded n)"
    by (rule clamp_values_lookup)
  show "map_of (clamp_values (clamp_values decoded)) n = map_of (clamp_values decoded) n"
    by (cases "map_of decoded n") (simp_all add: clamp_values_lookup limited_idem)
  fix limit v
  assume l: "map_of SANITY_LIMITS n = Some limit" and v: "v \<noteq> NaN"
  note pos = limits_nonneg [OF l]
  show "clamp_value n limit v \<le> Fin limit"
    using pos v by (cases v) (auto simp: clamp_value_def less_pyfloat_def)
  show "Fin 0 \<le> clamp_value n limit v" if "n \<noteq> ''battery_current''"
    using pos v that by (cases v) (auto simp: clamp_value_def less_pyfloat_def SIGNED_FIELDS_def)
  show "clamp_value n limit v = v" if "n = ''battery_current''" "v \<le> Fin limit"
    using that by (auto simp: clamp_value_def less_pyfloat_def SIGNED_FIELDS_def)
qed

subsection \<open>From the wire to the snapshot\<close>

lemma zip_upt_snoc: "zip [0..<length (vs @ [v])] (vs @ [v]) = zip [0..<length vs] vs @ [(length vs, v)]"
  by simp

lemma store_values_lookup:
  "map_of (store_values reg vs raw) r =
     (if reg \<le> r \<and> r < reg + int (length vs) then Some (vs ! nat (r - reg)) else map_of raw r)"
proof (induction vs rule: rev_induct)
  case (snoc v vs)
  have "store_values reg (vs @ [v]) raw = AList.update (reg + int (length vs)) v (store_values reg vs raw)"
    unfolding store_values_def zip_upt_snoc by simp
  with snoc show ?case
    by (auto simp: update_conv' nth_append)
qed (auto simp: store_values_def)

lemma store_values_keys: "distinct (map fst raw) \<Longrightarrow> distinct (map fst (store_values reg vs raw))"
proof (induction vs rule: rev_induct)
  case (snoc v vs)
  have "store_values reg (vs @ [v]) raw = AList.update (reg + int (length vs)) v (store_values reg vs raw)"
    unfolding store_values_def zip_upt_snoc by simp
  with snoc show ?case
    by (simp add: distinct_update)
qed (simp add: store_values_def)

lemma raws_ok_iff: "raws_ok rvals \<longleftrightarrow> distinct (map fst rvals) \<and> (\<forall>r v. map_of rvals r = Some v \<longrightarrow> u16 v)"
  unfolding raws_ok_def list_all_iff by (auto dest: map_of_SomeD)

lemma store_values_ok:
  assumes "raws_ok raw" "u16_list vs"
  shows "raws_ok (store_values reg vs raw)"
proof -
  have "u16 (vs ! i)" if "i < length vs" for i
    using assms(2) that by (simp add: u16_list_def u16_def list_all_length)
  then have "u16 v" if "map_of (store_values reg vs raw) r = Some v" for r v
    using that assms(1) by (auto simp: store_values_lookup raws_ok_iff split: if_splits)
  then show ?thesis
    using assms(1) store_values_keys by (simp add: raws_ok_iff)
qed

lemma tick_automate_decoded:
  "co_decoded (snd (collector_tick tr env st)) = co_decoded st" "co_outputs (snd (collector_tick tr env st)) = co_outputs st"
  "co_decoded (snd (collector_automate tr env automations st)) = co_decoded st"
  "co_outputs (snd (collector_automate tr env automations st)) = co_outputs st"
  by (simp_all add: collector_tick_def collector_automate_def split: prod.split)

lemma writer_cycle_decoded:
  assumes "driver_decode (co_driver st) (co_input_raw st) = Inr res" "map_of (co_input_raw st) 4 \<noteq> None"
  shows "co_decoded (writer_cycle tr env automations outputs_ok st) = clamp_values res"
    and "co_outputs (writer_cycle tr env automations outputs_ok st) = co_outputs st @ [clamp_values res]"
  using assms by (auto simp: writer_cycle_def Let_def tick_automate_decoded)

lemma consume_single:
  assumes "wf_packet p" "parse_frame p = Inr (Some f)"
  shows "consume_frames p = Inr ([f], [])"
proof -
  have "find_sub p p = Some 0"
    by (subst find_sub.simps) simp
  with find_frames_single [OF assms] parse_frame_raw [OF assms(2)] show ?thesis
    by (simp add: consume_frames_def bytes_find_def)
qed

definition input_response :: "string \<Rightarrow> string \<Rightarrow> int \<Rightarrow> int list \<Rightarrow> bytes \<Rightarrow> bytes" where
  "input_response ds isn reg vs crc = data_frame_bytes 1 ds 1 4 isn (le16 reg @ read_payload vs crc)"

lemma input_response_consumed:
  assumes "0 \<le> reg" "reg \<le> 65535" "length vs \<le> 127" "u16_list vs" "length crc = 2"
  obtains f where "consume_frames (input_response ds isn reg vs crc) = Inr ([f], [])"
    "is_translated_data f" "is_read_input f" "f_register f = reg" "f_values f = vs"
proof -
  define f where "f = data_frame 1 ds 1 4 isn (input_response ds isn reg vs crc) reg vs 0"
  have "parse_frame (input_response ds isn reg vs crc) = Inr (Some f)"
    unfolding f_def input_response_def using assms by (intro parse_read_response) simp_all
  moreover have "wf_packet (input_response ds isn reg vs crc)"
    unfolding input_response_def data_frame_bytes_def
    using assms by (intro wf_packet_packet) (simp add: read_payload_def)
  ultimately show ?thesis
    using that [of f] consume_single by (simp add: f_def is_translated_data_def is_read_input_def MODBUS_READ_INPUT_def)
qed

text \<open>From the wire to the snapshot.  A read-input response with the values of consecutive registers, in
  one chunk, is cut and parsed to one frame; after it is handled, the next writer iteration of an SNA
  collector hands to the outputs, for every register definition, the prescribed reading of the value
  just received (or of the value known before, for a register outside the response), limited to its
  sanity bounds.\<close>

lemma telemetry_end_to_end:
  assumes "0 \<le> reg" "reg \<le> 4" "4 < reg + int (length vs)" "length vs \<le> 127" "u16_list vs" "length crc = 2"
    and "co_driver st = luxpower_sna" "raws_ok (co_input_raw st)"
  shows "\<exists>f raws decoded. consume_frames (input_response ds isn reg vs crc) = Inr ([f], [])
     \<and> (\<forall>r. map_of raws r = (if reg \<le> r \<and> r < reg + int (length vs) then Some (vs ! nat (r - reg)) else map_of (co_input_raw st) r))
     \<and> co_outputs (writer_cycle tr env automations outputs_ok (handle_frame f st)) = co_outputs st @ [decoded]
     \<and> (\<forall>(r, rd) \<in> set INPUT_REGISTERS. map_of decoded (rd_name rd) = map_option (limited (rd_name rd)) (expected_reading raws r rd))"
proof -
  obtain f where f: "consume_frames (input_response ds isn reg vs crc) = Inr ([f], [])"
    "is_translated_data f" "is_read_input f" "f_register f = reg" "f_values f = vs"
    using input_response_consumed [of reg vs crc ds isn] assms by auto
  define st1 where "st1 = handle_frame f st"
  define raws where "raws = store_values reg vs (co_input_raw st)"
  have st1: "co_input_raw st1 = raws" "co_outputs st1 = co_outputs st" "co_driver st1 = luxpower_sna"
    using f assms(7) by (simp_all add: st1_def handle_frame_def raws_def)
  have ok: "raws_ok raws"
    unfolding raws_def by (rule store_values_ok [OF assms(8,5)])
  show ?thesis
  proof (rule decode_registers_lookup [OF ok input_map_ok])
    fix res
    assume res: "decode_registers raws INPUT_REGISTERS = Inr res"
      and look: "\<And>r rd. (r, rd) \<in> set INPUT_REGISTERS \<Longrightarrow> map_of res (rd_name rd) = expected_reading raws r rd"
    have "driver_decode (co_driver st1) (co_input_raw st1) = Inr res"
      using res by (simp add: driver_decode_def st1 luxpower_sna_def)
    moreover have "map_of (co_input_raw st1) 4 \<noteq> None"
      using assms(2,3) by (simp add: st1 raws_def store_values_lookup)
    ultimately have "co_outputs (writer_cycle tr env automations outputs_ok st1) = co_outputs st @ [clamp_values res]"
      using writer_cycle_decoded(2) st1(2) by metis
    moreover have "\<forall>(r, rd) \<in> set INPUT_REGISTERS. map_of (clamp_values res) (rd_name rd) = map_option (limited (rd_name rd)) (expected_reading raws r rd)"
      using look by (auto simp: clamp_values_lookup)
    moreover have "\<forall>r. map_of raws r = (if reg \<le> r \<and> r < reg + int (length vs) then Some (vs ! nat (r - reg)) else map_of (co_input_raw st) r)"
      by (simp add: raws_def store_values_lookup)
    ultimately show ?thesis
      using f(1) unfolding st1_def by blast
  qed
qed

end
