(* ===== verification/Settings.thy ===== *)
theory Settings
  imports Drivers Values "HOL-Library.List_Lexorder" "HOL-Library.Char_ord"
begin

text \<open>
  The settings store, \<^verbatim>\<open>src/collector/settings.py\<close>: the mapping from settings to environment variables, the
  defaults, the metadata of the settings page, and the functions that read, write and seed the table.
  The table is an association list from names to values (its value column is not nullable; names and
  values are compared exactly); a query on a database that is not readable raises, and every function
  here catches that exception.  The environment is a parameter.
\<close>

subsection \<open>Environment variables and defaults\<close>

datatype cast = CastStr | CastBool | CastInt | CastFloat

definition SETTING_ENV :: "(string \<times> string \<times> cast) list" where
  "SETTING_ENV = [
    (''inverter_model'', ''LUX_INVERTER_MODEL'', CastStr),
    (''dongle_host'', ''LUX_DONGLE_HOST'', CastStr),
    (''dongle_port'', ''LUX_DONGLE_PORT'', CastInt),
    (''datalog_serial'', ''LUX_DATALOG_SERIAL'', CastStr),
    (''inverter_serial'', ''LUX_INVERTER_SERIAL'', CastStr),
    (''write_interval_sec'', ''LUX_WRITE_INTERVAL'', CastInt),
    (''transport'', ''LUX_TRANSPORT'', CastStr),
    (''influx_enabled'', ''LUX_INFLUX_ENABLED'', CastBool),
    (''influx_url'', ''LUX_INFLUX_URL'', CastStr),
    (''influx_database'', ''LUX_INFLUX_DATABASE'', CastStr),
    (''influx_token'', ''LUX_INFLUX_TOKEN'', CastStr),
    (''influx_org'', ''LUX_INFLUX_ORG'', CastStr),
    (''influx_username'', ''LUX_INFLUX_USERNAME'', CastStr),
    (''influx_password'', ''LUX_INFLUX_PASSWORD'', CastStr),
    (''mqtt_enabled'', ''LUX_MQTT_ENABLED'', CastBool),
    (''mqtt_host'', ''LUX_MQTT_HOST'', CastStr),
    (''mqtt_port'', ''LUX_MQTT_PORT'', CastInt),
    (''mqtt_username'', ''LUX_MQTT_USERNAME'', CastStr),
    (''mqtt_password'', ''LUX_MQTT_PASSWORD'', CastStr),
    (''mqtt_topic_prefix'', ''LUX_MQTT_TOPIC_PREFIX'', CastStr),
    (''mqtt_ha_discovery'', ''LUX_MQTT_HA_DISCOVERY'', CastBool),
    (''mqtt_device_name'', ''LUX_MQTT_DEVICE_NAME'', CastStr),
    (''mqtt_device_id'', ''LUX_MQTT_DEVICE_ID'', CastStr),
    (''temperature_unit'', ''LUX_TEMPERATURE_UNIT'', CastStr),
    (''alerts_enabled'', ''LUX_ALERTS_ENABLED'', CastBool),
    (''alerts_soc_low'', ''LUX_ALERTS_SOC_LOW'', CastFloat),
    (''alerts_soc_critical'', ''LUX_ALERTS_SOC_CRITICAL'', CastFloat),
    (''alerts_battery_temp_high'', ''LUX_ALERTS_BATTERY_TEMP_HIGH'', CastFloat),
    (''alerts_inverter_temp_high'', ''LUX_ALERTS_INVERTER_TEMP_HIGH'', CastFloat),
    (''alerts_grid_lost_threshold_sec'', ''LUX_ALERTS_GRID_LOST_THRESHOLD_SEC'', CastFloat),
    (''alerts_email_enabled'', ''LUX_ALERTS_EMAIL_ENABLED'', CastBool),
    (''alerts_email_smtp_host'', ''LUX_ALERTS_EMAIL_SMTP_HOST'', CastStr),
    (''alerts_email_smtp_port'', ''LUX_ALERTS_EMAIL_SMTP_PORT'', CastInt),
    (''alerts_email_username'', ''LUX_ALERTS_EMAIL_USERNAME'', CastStr),
    (''alerts_email_password'', ''LUX_ALERTS_EMAIL_PASSWORD'', CastStr),
    (''alerts_email_from'', ''LUX_ALERTS_EMAIL_FROM'', CastStr),
    (''alerts_email_to'', ''LUX_ALERTS_EMAIL_TO'', CastStr),
    (''alerts_email_tls'', ''LUX_ALERTS_EMAIL_TLS'', CastBool),
    (''alerts_webhook_enabled'', ''LUX_ALERTS_WEBHOOK_ENABLED'', CastBool),
    (''alerts_webhook_url'', ''LUX_ALERTS_WEBHOOK_URL'', CastStr)]"

definition DEFAULTS :: "(string \<times> string) list" where
  "DEFAULTS = [
    (''inverter_model'', ''eg4_6000xp''),
    (''pv_max_power'', ''8000''),
    (''grid_max_power'', ''6000''),
    (''eps_max_power'', ''6000''),
    (''charge_max_power'', ''5000''),
    (''discharge_max_power'', ''5000''),
    (''battery_type'', ''inverter''),
    (''battery_capacity'', ''200''),
    (''battery_metric'', ''soc''),
    (''grid_provider'', ''default''),
    (''dashboard_refresh_sec'', ''5''),
    (''chart_default_hours'', ''6''),
    (''timezone'', ''America/Chicago''),
    (''temperature_unit'', ''fahrenheit''),
    (''write_interval_sec'', ''5''),
    (''transport'', ''tcp_active''),
    (''dongle_host'', ''192.168.1.100''),
    (''dongle_port'', ''8000''),
    (''datalog_serial'', ''''),
    (''inverter_serial'', ''''),
    (''influx_enabled'', ''false''),
    (''influx_url'', ''http://localhost:8086''),
    (''influx_database'', ''luxmon''),
    (''influx_token'', ''''),
    (''influx_org'', ''luxmon''),
    (''influx_username'', ''''),
    (''influx_password'', ''''),
    (''mqtt_enabled'', ''false''),
    (''mqtt_host'', ''localhost''),
    (''mqtt_port'', ''1883''),
    (''mqtt_username'', ''''),
    (''mqtt_password'', ''''),
    (''mqtt_topic_prefix'', ''luxmon''),
    (''mqtt_ha_discovery'', ''true''),
    (''mqtt_device_name'', ''luxmon''),
    (''mqtt_device_id'', ''luxmon_solar''),
    (''alerts_enabled'', ''false''),
    (''alerts_soc_low'', ''20''),
    (''alerts_soc_critical'', ''10''),
    (''alerts_battery_temp_high'', ''50''),
    (''alerts_inverter_temp_high'', ''60''),
    (''alerts_grid_lost_threshold_sec'', ''30''),
    (''alerts_email_enabled'', ''false''),
    (''alerts_email_smtp_host'', ''''),
    (''alerts_email_smtp_port'', ''587''),
    (''alerts_email_username'', ''''),
    (''alerts_email_password'', ''''),
    (''alerts_email_from'', ''''),
    (''alerts_email_to'', ''''),
    (''alerts_email_tls'', ''true''),
    (''alerts_webhook_enabled'', ''false''),
    (''alerts_webhook_url'', ''''),
    (''automation_enabled'', ''false''),
    (''automation_global_dry_run'', ''true''),
    (''automations_v2'', ''[]''),
    (''quick_charge_minutes'', ''60''),
    (''quick_charge_state'', ''{}''),
    (''forecast_enabled'', ''false''),
    (''forecast_latitude'', ''30.0591''),
    (''forecast_longitude'', ''-95.9324''),
    (''array_kwp'', ''1.56''),
    (''array_azimuth'', ''180''),
    (''array_tilt'', ''21''),
    (''array_bifacial_gain'', ''0.10''),
    (''forecast_provider'', ''open-meteo''),
    (''forecast_hours'', ''48''),
    (''forecast_refresh_min'', ''120''),
    (''forecast_bias_enabled'', ''true''),
    (''forecast_bias_lookback_days'', ''7''),
    (''forecast_bias_min_samples'', ''3'')]"

subsection \<open>Metadata\<close>

text \<open>The dropdown of models, sorted by name, from the driver registry.\<close>

definition inverter_model_options :: "(string \<times> string) list" where
  "inverter_model_options = map (\<lambda>name. (name, case map_of DRIVERS name of Some drv \<Rightarrow> md_label drv | None \<Rightarrow> name))
     (sort (map fst DRIVERS))"

record setting_meta =
  sm_label :: string
  sm_type :: string
  sm_section :: string
  sm_min :: "json option"
  sm_max :: "json option"
  sm_step :: "json option"
  sm_options :: "(string \<times> string) list"
  sm_hint :: string

definition smeta :: "string \<Rightarrow> string \<Rightarrow> string \<Rightarrow> json option \<Rightarrow> json option \<Rightarrow> json option
    \<Rightarrow> (string \<times> string) list \<Rightarrow> string \<Rightarrow> setting_meta" where
  "smeta label type section mn mx step options hint = \<lparr>sm_label = label, sm_type = type, sm_section = section,
     sm_min = mn, sm_max = mx, sm_step = step, sm_options = options, sm_hint = hint\<rparr>"

definition setting_meta_1 :: "(string \<times> setting_meta) list" where
  "setting_meta_1 = [
    (''inverter_model'', smeta ''Model'' ''select'' ''inverter''
       (None) (None) (None) inverter_model_options
       ''Inverter model (Luxpower SNA / 18KPV families only)''),
    (''pv_max_power'', smeta ''Max Solar PV Power'' ''number'' ''inverter''
       (Some (JInt 10)) (Some (JInt 1000000)) (None) []
       (''Watts '' @ [CHR 0xE2, CHR 0x80, CHR 0x94] @ '' gauge ceiling for solar input'')),
    (''grid_max_power'', smeta ''Max Grid Power'' ''number'' ''inverter''
       (Some (JInt 10)) (Some (JInt 1000000)) (None) []
       (''Watts '' @ [CHR 0xE2, CHR 0x80, CHR 0x94] @ '' max grid pass-through'')),
    (''eps_max_power'', smeta ''Max EPS Power'' ''number'' ''inverter''
       (Some (JInt 10)) (Some (JInt 1000000)) (None) []
       (''Watts '' @ [CHR 0xE2, CHR 0x80, CHR 0x94] @ '' max backup output'')),
    (''charge_max_power'', smeta ''Max Charge Power'' ''number'' ''inverter''
       (Some (JInt 10)) (Some (JInt 1000000)) (None) []
       (''Watts '' @ [CHR 0xE2, CHR 0x80, CHR 0x94] @ '' max battery charge rate'')),
    (''discharge_max_power'', smeta ''Max Discharge Power'' ''number'' ''inverter''
       (Some (JInt 10)) (Some (JInt 1000000)) (None) []
       (''Watts '' @ [CHR 0xE2, CHR 0x80, CHR 0x94] @ '' max battery discharge rate'')),
    (''battery_type'', smeta ''Battery'' ''select'' ''battery''
       (None) (None) (None) [(''inverter'', ''Use inverter values''), (''emulated'', ''Emulated BMS''), (''daly'', ''USB Daly UART/RS485''), (''jbd'', ''USB JBD RS485''), (''jk'', ''USB JK RS485''), (''modbus'', ''USB Modbus RS232/485''), (''narada'', ''USB Narada RS485''), (''pylontech'', ''USB PylonTech/Pytes console''), (''serial'', ''USB Serial RS232/485''), (''voltronic_lib'', ''USB Voltronic LIB RS485''), (''ve_direct'', ''USB Victron VE.Direct''), (''can'', ''USB CAN bus'')]
       ''Battery data source / BMS driver''),
    (''battery_capacity'', smeta ''Capacity'' ''number'' ''battery''
       (Some (JFloat (dbl (1 / 10)))) (Some (JInt 100000)) (Some (JFloat (dbl (1 / 10)))) []
       (''Amp-hours '' @ [CHR 0xE2, CHR 0x80, CHR 0x94] @ '' rated battery capacity'')),
    (''battery_metric'', smeta ''Battery Metric'' ''select'' ''battery''
       (None) (None) (None) [(''soc'', ''State of Charge''), (''voltage'', ''Voltage''), (''both'', ''Both'')]
       ''Primary battery display metric on dashboard''),
    (''grid_provider'', smeta ''Provider'' ''select'' ''grid''
       (None) (None) (None) [(''default'', ''Default''), (''eskom'', (''South Africa '' @ [CHR 0xE2, CHR 0x80, CHR 0x94] @ '' Eskom'')), (''epex'', (''Europe '' @ [CHR 0xE2, CHR 0x80, CHR 0x94] @ '' EPEX'')), (''nordpool'', (''Europe '' @ [CHR 0xE2, CHR 0x80, CHR 0x94] @ '' NordPool''))]
       ''Grid provider for regional settings''),
    (''dashboard_refresh_sec'', smeta ''Refresh Interval'' ''number'' ''dashboard''
       (Some (JInt 1)) (Some (JInt 60)) (None) []
       ''Seconds between dashboard updates''),
    (''chart_default_hours'', smeta ''Default Chart Range'' ''number'' ''dashboard''
       (Some (JInt 1)) (Some (JInt 168)) (None) []
       ''Hours shown on initial chart load''),
    (''timezone'', smeta ''Timezone'' ''select'' ''system''
       (None) (None) (None) [(''America/Chicago'', ''America/Chicago''), (''America/New_York'', ''America/New_York''), (''America/Denver'', ''America/Denver''), (''America/Los_Angeles'', ''America/Los_Angeles''), (''America/Phoenix'', ''America/Phoenix''), (''America/Anchorage'', ''America/Anchorage''), (''Pacific/Honolulu'', ''Pacific/Honolulu''), (''Europe/London'', ''Europe/London''), (''Europe/Berlin'', ''Europe/Berlin''), (''Europe/Paris'', ''Europe/Paris''), (''Asia/Tokyo'', ''Asia/Tokyo''), (''Asia/Shanghai'', ''Asia/Shanghai''), (''Asia/Kolkata'', ''Asia/Kolkata''), (''Australia/Sydney'', ''Australia/Sydney''), (''Pacific/Auckland'', ''Pacific/Auckland''), (''UTC'', ''UTC'')]
       ''IANA timezone for timestamps and scheduling''),
    (''temperature_unit'', smeta ''Temperature Unit'' ''select'' ''system''
       (None) (None) (None) [(''fahrenheit'', ([CHR 0xC2, CHR 0xB0] @ ''Fahrenheit'')), (''celsius'', ([CHR 0xC2, CHR 0xB0] @ ''Celsius''))]
       ''Temperature display unit throughout dashboard'')]"

definition setting_meta_2 :: "(string \<times> setting_meta) list" where
  "setting_meta_2 = [
    (''write_interval_sec'', smeta ''Write Interval'' ''number'' ''collector''
       (Some (JInt 1)) (Some (JInt 300)) (None) []
       ''Seconds between MariaDB writes''),
    (''transport'', smeta ''Transport'' ''select'' ''collector''
       (None) (None) (None) [(''tcp_active'', ''Active polling (Modbus TCP)''), (''tcp_passive'', ''Passive broadcast stream''), (''replay'', ''Replay capture file'')]
       ''How the collector reads inverter data''),
    (''dongle_host'', smeta ''Dongle Host'' ''text'' ''collector''
       (None) (None) (None) []
       ''IP address of the WiFi dongle''),
    (''dongle_port'', smeta ''Dongle Port'' ''number'' ''collector''
       (Some (JInt 1)) (Some (JInt 65535)) (None) []
       ''TCP port of the WiFi dongle''),
    (''datalog_serial'', smeta ''Dongle Serial'' ''text'' ''collector''
       (None) (None) (None) []
       ''WiFi dongle / datalog serial number (required for active polling)''),
    (''inverter_serial'', smeta ''Inverter Serial'' ''text'' ''collector''
       (None) (None) (None) []
       ''Inverter serial number (required for active polling)''),
    (''influx_enabled'', smeta ''Enable InfluxDB'' ''checkbox'' ''influxdb''
       (None) (None) (None) []
       ''Write SolarAssistant-compatible measurements to InfluxDB''),
    (''influx_url'', smeta ''InfluxDB URL'' ''text'' ''influxdb''
       (None) (None) (None) []
       ''e.g. http://localhost:8086''),
    (''influx_database'', smeta ''Database / Bucket'' ''text'' ''influxdb''
       (None) (None) (None) []
       ''InfluxDB v1 database name or v2 bucket''),
    (''influx_token'', smeta ''InfluxDB Token'' ''password'' ''influxdb''
       (None) (None) (None) []
       ''InfluxDB v2 token (leave blank for v1)''),
    (''influx_org'', smeta ''InfluxDB Org'' ''text'' ''influxdb''
       (None) (None) (None) []
       ''InfluxDB v2 organization''),
    (''influx_username'', smeta ''InfluxDB Username'' ''text'' ''influxdb''
       (None) (None) (None) []
       ''InfluxDB v1 username (optional)''),
    (''influx_password'', smeta ''InfluxDB Password'' ''password'' ''influxdb''
       (None) (None) (None) []
       ''InfluxDB v1 password (optional)''),
    (''mqtt_enabled'', smeta ''Enable MQTT'' ''checkbox'' ''mqtt''
       (None) (None) (None) []
       ''Publish state and Home Assistant discovery configs''),
    (''mqtt_host'', smeta ''MQTT Host'' ''text'' ''mqtt''
       (None) (None) (None) []
       ''Broker hostname or IP''),
    (''mqtt_port'', smeta ''MQTT Port'' ''number'' ''mqtt''
       (Some (JInt 1)) (Some (JInt 65535)) (None) []
       ''Broker port (usually 1883)''),
    (''mqtt_username'', smeta ''MQTT Username'' ''text'' ''mqtt''
       (None) (None) (None) []
       ''Leave blank for anonymous''),
    (''mqtt_password'', smeta ''MQTT Password'' ''password'' ''mqtt''
       (None) (None) (None) []
       ''Leave blank for anonymous''),
    (''mqtt_topic_prefix'', smeta ''Topic Prefix'' ''text'' ''mqtt''
       (None) (None) (None) []
       ''e.g. luxmon''),
    (''mqtt_ha_discovery'', smeta ''Home Assistant Discovery'' ''checkbox'' ''mqtt''
       (None) (None) (None) []
       ''Publish MQTT discovery configs for Home Assistant''),
    (''mqtt_device_name'', smeta ''Device Name'' ''text'' ''mqtt''
       (None) (None) (None) []
       ''Friendly name shown in Home Assistant'')]"

definition setting_meta_3 :: "(string \<times> setting_meta) list" where
  "setting_meta_3 = [
    (''mqtt_device_id'', smeta ''Device ID'' ''text'' ''mqtt''
       (None) (None) (None) []
       ''Unique ID for the HA device''),
    (''alerts_enabled'', smeta ''Enable Alerts'' ''checkbox'' ''alerts''
       (None) (None) (None) []
       ''Evaluate alert rules on every snapshot''),
    (''alerts_soc_low'', smeta ''SOC Low Threshold'' ''number'' ''alerts''
       (Some (JInt 0)) (Some (JInt 100)) (None) []
       ''Battery SOC % that triggers a low alert''),
    (''alerts_soc_critical'', smeta ''SOC Critical Threshold'' ''number'' ''alerts''
       (Some (JInt 0)) (Some (JInt 100)) (None) []
       ''Battery SOC % that triggers a critical alert''),
    (''alerts_battery_temp_high'', smeta ''Battery High Temp'' ''number'' ''alerts''
       (Some (JInt 0)) (Some (JInt 100)) (None) []
       (''Battery temperature ('' @ [CHR 0xC2, CHR 0xB0] @ ''C) that triggers a high temp alert'')),
    (''alerts_inverter_temp_high'', smeta ''Inverter High Temp'' ''number'' ''alerts''
       (Some (JInt 0)) (Some (JInt 100)) (None) []
       (''Inverter heatsink temperature ('' @ [CHR 0xC2, CHR 0xB0] @ ''C) that triggers a high temp alert'')),
    (''alerts_grid_lost_threshold_sec'', smeta ''Grid Loss Delay'' ''number'' ''alerts''
       (Some (JInt 0)) (Some (JInt 600)) (None) []
       ''Seconds grid voltage/frequency must be absent before a grid-loss alert fires''),
    (''alerts_email_enabled'', smeta ''Enable Email Alerts'' ''checkbox'' ''alerts''
       (None) (None) (None) []
       ''Send alert state changes via authenticated SMTP relay''),
    (''alerts_email_smtp_host'', smeta ''SMTP Host'' ''text'' ''alerts''
       (None) (None) (None) []
       (''e.g. smtp.gmail.com '' @ [CHR 0xE2, CHR 0x80, CHR 0x94] @ '' authenticated relay only, never direct delivery'')),
    (''alerts_email_smtp_port'', smeta ''SMTP Port'' ''number'' ''alerts''
       (Some (JInt 1)) (Some (JInt 65535)) (None) []
       ''587 for STARTTLS, 465 for SSL/TLS''),
    (''alerts_email_username'', smeta ''SMTP Username'' ''text'' ''alerts''
       (None) (None) (None) []
       ''Usually the full email address''),
    (''alerts_email_password'', smeta ''SMTP Password / App Token'' ''password'' ''alerts''
       (None) (None) (None) []
       ''Use an app-specific password for Gmail / Outlook''),
    (''alerts_email_from'', smeta ''From Address'' ''text'' ''alerts''
       (None) (None) (None) []
       ''Sender email address''),
    (''alerts_email_to'', smeta ''To Address(es)'' ''text'' ''alerts''
       (None) (None) (None) []
       ''Comma-separated recipient addresses''),
    (''alerts_email_tls'', smeta ''Use TLS'' ''checkbox'' ''alerts''
       (None) (None) (None) []
       ''Always enable TLS/STARTTLS for SMTP relay''),
    (''alerts_webhook_enabled'', smeta ''Enable Webhook Alerts'' ''checkbox'' ''alerts''
       (None) (None) (None) []
       ''POST JSON alert events to a custom URL''),
    (''alerts_webhook_url'', smeta ''Webhook URL'' ''text'' ''alerts''
       (None) (None) (None) []
       ''HTTPS endpoint that receives POST JSON payloads''),
    (''automation_enabled'', smeta ''Enable Automation Engine'' ''checkbox'' ''automation''
       (None) (None) (None) []
       ''Globally enable/disable all automations''),
    (''automation_global_dry_run'', smeta ''Global Dry Run'' ''checkbox'' ''automation''
       (None) (None) (None) []
       ''When enabled, automations log what they would write but never send Modbus commands''),
    (''automations_v2'', smeta ''Automations (JSON)'' ''textarea'' ''automation''
       (None) (None) (None) []
       ''JSON array managed by the Automations page; do not hand-edit unless you know the schema''),
    (''quick_charge_minutes'', smeta ''Quick Charge Duration'' ''number'' ''quick_charge''
       (Some (JInt 1)) (Some (JInt 240)) (None) []
       (''Minutes '' @ [CHR 0xE2, CHR 0x80, CHR 0x94] @ '' how long the quick charge runs (1'' @ [CHR 0xE2, CHR 0x80, CHR 0x93] @ ''240)''))]"

definition setting_meta_4 :: "(string \<times> setting_meta) list" where
  "setting_meta_4 = [
    (''forecast_enabled'', smeta ''Enable Solar Forecast'' ''select'' ''forecast''
       (None) (None) (None) [(''false'', ''Disabled''), (''true'', ''Enabled'')]
       ''Fetch and store a PV production forecast''),
    (''forecast_latitude'', smeta ''Latitude'' ''number'' ''forecast''
       (Some (JInt (- 90))) (Some (JInt 90)) (Some (JFloat (dbl (1 / 10000)))) []
       ''Site latitude (degrees North)''),
    (''forecast_longitude'', smeta ''Longitude'' ''number'' ''forecast''
       (Some (JInt (- 180))) (Some (JInt 180)) (Some (JFloat (dbl (1 / 10000)))) []
       ''Site longitude (degrees East)''),
    (''array_kwp'', smeta ''Array Capacity'' ''number'' ''forecast''
       (Some (JFloat (dbl (1 / 10)))) (Some (JInt 1000)) (Some (JFloat (dbl (1 / 100)))) []
       (''kWp '' @ [CHR 0xE2, CHR 0x80, CHR 0x94] @ '' rated array capacity (front-side)'')),
    (''array_azimuth'', smeta ''Array Azimuth'' ''number'' ''forecast''
       (Some (JInt 0)) (Some (JInt 360)) (Some (JInt 1)) []
       (''Degrees '' @ [CHR 0xE2, CHR 0x80, CHR 0x94] @ '' panel facing (180 = due south)'')),
    (''array_tilt'', smeta ''Array Tilt'' ''number'' ''forecast''
       (Some (JInt 0)) (Some (JInt 90)) (Some (JInt 1)) []
       (''Degrees '' @ [CHR 0xE2, CHR 0x80, CHR 0x94] @ '' panel tilt from horizontal'')),
    (''array_bifacial_gain'', smeta ''Bifacial Gain'' ''number'' ''forecast''
       (Some (JInt 0)) (Some (JFloat (dbl (1 / 2)))) (Some (JFloat (dbl (1 / 100)))) []
       (''Fraction '' @ [CHR 0xE2, CHR 0x80, CHR 0x94] @ '' back-side gain (0.10 = +10%)'')),
    (''forecast_provider'', smeta ''Forecast Provider'' ''select'' ''forecast''
       (None) (None) (None) [(''open-meteo'', ''Open-Meteo (free, no key)''), (''forecast.solar'', ''Forecast.Solar (free, no key)'')]
       ''Weather/irradiance data source''),
    (''forecast_hours'', smeta ''Forecast Horizon'' ''number'' ''forecast''
       (Some (JInt 1)) (Some (JInt 168)) (Some (JInt 1)) []
       (''Hours '' @ [CHR 0xE2, CHR 0x80, CHR 0x94] @ '' how far ahead to forecast'')),
    (''forecast_refresh_min'', smeta ''Refresh Interval'' ''number'' ''forecast''
       (Some (JInt 15)) (Some (JInt 1440)) (Some (JInt 5)) []
       (''Minutes '' @ [CHR 0xE2, CHR 0x80, CHR 0x94] @ '' how often to refresh the forecast'')),
    (''forecast_bias_enabled'', smeta ''Historical Calibration'' ''select'' ''forecast''
       (None) (None) (None) [(''true'', ''Enabled''), (''false'', ''Disabled'')]
       (''Correct today'' @ [CHR 0x27] @ ''s forecast using recent actual-vs-forecast error'')),
    (''forecast_bias_lookback_days'', smeta ''Calibration Lookback'' ''number'' ''forecast''
       (Some (JInt 1)) (Some (JInt 30)) (Some (JInt 1)) []
       (''Days '' @ [CHR 0xE2, CHR 0x80, CHR 0x94] @ '' how much history to average for the correction'')),
    (''forecast_bias_min_samples'', smeta ''Min Samples Per Bucket'' ''number'' ''forecast''
       (Some (JInt 1)) (Some (JInt 30)) (Some (JInt 1)) []
       ''Minimum hourly samples before a bucket is trusted'')]"

definition SETTING_META :: "(string \<times> setting_meta) list" where
  "SETTING_META = setting_meta_1 @ setting_meta_2 @ setting_meta_3 @ setting_meta_4"

subsection \<open>Effective values\<close>

text \<open>The value of an environment variable in the requested type; a value that does not convert stays text.\<close>

definition cast_env :: "string \<Rightarrow> cast \<Rightarrow> json" where
  "cast_env value c = (case c of
     CastInt \<Rightarrow> (case parse_int value of Some n \<Rightarrow> JInt n | None \<Rightarrow> JStr value)
   | CastFloat \<Rightarrow> (case parse_float value of Some x \<Rightarrow> JFloat x | None \<Rightarrow> JStr value)
   | CastBool \<Rightarrow> JBool (List.member [''1'', ''true'', ''yes''] (lower value))
   | CastStr \<Rightarrow> JStr value)"

type_synonym environment = "string \<Rightarrow> string option"

definition stored_or_default :: "string \<Rightarrow> string option \<Rightarrow> json" where
  "stored_or_default name db_value =
    (if db_value \<noteq> None \<and> db_value \<noteq> Some [] then JStr (the db_value)
     else JStr (case map_of DEFAULTS name of Some v \<Rightarrow> v | None \<Rightarrow> []))"

definition effective_value :: "environment \<Rightarrow> string \<Rightarrow> string option \<Rightarrow> json" where
  "effective_value env name db_value = (case map_of SETTING_ENV name of
     Some (env_var, c) \<Rightarrow> (case env env_var of
        Some raw \<Rightarrow> if raw \<noteq> [] then cast_env raw c else stored_or_default name db_value
      | None \<Rightarrow> stored_or_default name db_value)
   | None \<Rightarrow> stored_or_default name db_value)"

subsection \<open>The table\<close>

type_synonym settings_table = "(string \<times> string) list"

text \<open>What an open connection reaches.\<close>

datatype database = Unreadable | Readable settings_table

definition get_all :: "database \<Rightarrow> settings_table" where
  "get_all conn = (case conn of Unreadable \<Rightarrow> DEFAULTS | Readable rows \<Rightarrow> update_all DEFAULTS rows)"

definition settings_get :: "database \<Rightarrow> string \<Rightarrow> string option" where
  "settings_get conn name = (case conn of
     Readable rows \<Rightarrow> (case map_of rows name of Some v \<Rightarrow> Some v | None \<Rightarrow> map_of DEFAULTS name)
   | Unreadable \<Rightarrow> map_of DEFAULTS name)"

definition settings_set :: "string \<Rightarrow> string \<Rightarrow> database \<Rightarrow> database" where
  "settings_set name value conn = (case conn of
     Readable rows \<Rightarrow> Readable (AList.update name value rows)
   | Unreadable \<Rightarrow> Unreadable)"

text \<open>Seeding with the defaults returns the number of rows inserted.\<close>

definition insert_ignore :: "string \<Rightarrow> string \<Rightarrow> settings_table \<times> nat \<Rightarrow> settings_table \<times> nat" where
  "insert_ignore name value = (\<lambda>(rows, count).
     if map_of rows name = None then (rows @ [(name, value)], count + 1) else (rows, count))"

definition seed_defaults :: "database \<Rightarrow> nat \<times> database" where
  "seed_defaults conn = (case conn of
     Readable rows \<Rightarrow> (case foldl (\<lambda>acc (name, value). insert_ignore name value acc) (rows, 0) DEFAULTS of
        (rows, count) \<Rightarrow> (count, Readable rows))
   | Unreadable \<Rightarrow> (0, Unreadable))"

text \<open>Seeding from the environment fills missing and empty rows; its row count only goes to the log.\<close>

definition insert_or_fill :: "string \<Rightarrow> string \<Rightarrow> settings_table \<Rightarrow> settings_table" where
  "insert_or_fill name raw rows = (case map_of rows name of
     None \<Rightarrow> rows @ [(name, raw)]
   | Some v \<Rightarrow> if v = [] then AList.update name raw rows else rows)"

definition seed_row :: "environment \<Rightarrow> settings_table \<Rightarrow> string \<times> string \<times> cast \<Rightarrow> settings_table" where
  "seed_row env rows = (\<lambda>(name, env_var, _). case env env_var of
     None \<Rightarrow> rows
   | Some raw \<Rightarrow> if raw = [] then rows else insert_or_fill name raw rows)"

definition seed_from_env :: "environment \<Rightarrow> database \<Rightarrow> database" where
  "seed_from_env env conn = (case conn of
     Readable rows \<Rightarrow> Readable (foldl (seed_row env) rows SETTING_ENV)
   | Unreadable \<Rightarrow> Unreadable)"

subsection \<open>Lookups\<close>

lemma update_all_lookup: "map_of (update_all m xs) k = (case map_of (rev xs) k of Some v \<Rightarrow> Some v | None \<Rightarrow> map_of m k)"
proof (induction xs rule: rev_induct)
  case (snoc x xs)
  then show ?case
    by (cases x) (simp add: update_all_append, simp add: update_all_def update_conv')
qed (simp add: update_all_def)

lemma map_of_rev_distinct: "distinct (map fst xs) \<Longrightarrow> map_of (rev xs) = map_of xs"
  by (rule map_of_eqI) (auto simp: rev_map [symmetric] map_of_eq_None_iff dest!: map_of_SomeD intro!: map_of_is_SomeI)

lemma settings_get_get_all: "distinct (map fst rows) \<Longrightarrow> settings_get (Readable rows) k = map_of (get_all (Readable rows)) k"
  by (simp add: settings_get_def get_all_def update_all_lookup map_of_rev_distinct)

lemma settings_get_set: "settings_get (settings_set k v (Readable rows)) k' = (if k' = k then Some v else settings_get (Readable rows) k')"
  by (simp add: settings_get_def settings_set_def update_conv')

lemma insert_or_fill_lookup:
  "map_of (insert_or_fill k raw rows) k' = (if k' = k \<and> (map_of rows k = None \<or> map_of rows k = Some []) then Some raw else map_of rows k')"
  by (auto simp: insert_or_fill_def update_conv' map_add_def split: option.split)

lemma setting_env_distinct: "distinct (map fst SETTING_ENV)"
  by (simp add: SETTING_ENV_def)

text \<open>What seeding leaves under a name: a non-empty row is kept, a missing or empty one takes a non-empty
  environment value.\<close>

definition env_value :: "environment \<Rightarrow> string \<Rightarrow> string" where
  "env_value env name = (case map_of SETTING_ENV name of
     Some (env_var, _) \<Rightarrow> (case env env_var of Some raw \<Rightarrow> raw | None \<Rightarrow> [])
   | None \<Rightarrow> [])"

definition seeded :: "string option \<Rightarrow> string \<Rightarrow> string option" where
  "seeded row raw = (if (row = None \<or> row = Some []) \<and> raw \<noteq> [] then Some raw else row)"

lemma seed_row_lookup:
  "map_of (seed_row env rows (k, var, c)) k' = (if k' = k then seeded (map_of rows k) (case env var of Some raw \<Rightarrow> raw | None \<Rightarrow> []) else map_of rows k')"
  by (auto simp: seed_row_def insert_or_fill_lookup seeded_def split: option.split)

lemma seed_rows_lookup:
  assumes "distinct (map fst es)"
  shows "map_of (foldl (seed_row env) rows es) k = (case map_of es k of
     Some (var, c) \<Rightarrow> seeded (map_of rows k) (case env var of Some raw \<Rightarrow> raw | None \<Rightarrow> []) | None \<Rightarrow> map_of rows k)"
  using assms
proof (induction es arbitrary: rows)
  case (Cons e es)
  obtain k0 var c where e: "e = (k0, var, c)"
    by (cases e) auto
  have "map_of es k0 = None"
    using Cons.prems e by (simp add: map_of_eq_None_iff)
  with Cons show ?case
    by (auto simp: e seed_row_lookup split: option.split)
qed simp

lemma seed_from_env_lookup:
  "settings_get (seed_from_env env (Readable rows)) k = (case seeded (map_of rows k) (env_value env k) of
     Some v \<Rightarrow> Some v | None \<Rightarrow> map_of DEFAULTS k)"
  unfolding seed_from_env_def settings_get_def env_value_def
  by (auto simp: seed_rows_lookup [OF setting_env_distinct] seeded_def split: option.split)

end
