(* ===== verification/Configuration.thy ===== *)
theory Configuration
  imports Settings
begin

text \<open>
  The configuration of the collector, \<^verbatim>\<open>src/collector/collector.py\<close>: reading it from the environment,
  overriding it from the settings table, what \<^verbatim>\<open>run_collector\<close> determines before it starts the threads, the
  choice of the transport, and the detection of configuration changes while it runs.  A database is
  given by what a fresh connection finds: none when connecting fails.
\<close>

subsection \<open>The environment\<close>

text \<open>
  A configuration object is the dictionary of its attributes.  A variable that is not set leaves the
  default; the value of one that is set is converted, and a conversion that fails raises.
\<close>

type_synonym attributes = "(string \<times> json) list"

definition attr :: "attributes \<Rightarrow> string \<Rightarrow> json" where
  "attr cfg k = (case map_of cfg k of Some v \<Rightarrow> v | None \<Rightarrow> JNull)"

lemma attr_update: "attr (AList.update n v cfg) n' = (if n' = n then v else attr cfg n')"
  by (simp add: attr_def update_conv')

definition cast_result :: "string \<Rightarrow> cast \<Rightarrow> json result" where
  "cast_result v c = (case c of
     CastInt \<Rightarrow> (case parse_int v of Some n \<Rightarrow> Inr (JInt n) | None \<Rightarrow> Inl ValueError)
   | CastFloat \<Rightarrow> (case parse_float v of Some x \<Rightarrow> Inr (JFloat x) | None \<Rightarrow> Inl ValueError)
   | _ \<Rightarrow> Inr (JStr v))"

definition env_or :: "environment \<Rightarrow> string \<Rightarrow> json \<Rightarrow> cast \<Rightarrow> json result" where
  "env_or env key dflt c = (case env key of None \<Rightarrow> Inr dflt | Some v \<Rightarrow> cast_result v c)"

definition env_bool :: "environment \<Rightarrow> string \<Rightarrow> bool \<Rightarrow> bool" where
  "env_bool env key dflt =
    (let val = lower (case env key of Some v \<Rightarrow> v | None \<Rightarrow> []) in
     if val \<noteq> [] then List.member [''1'', ''true'', ''yes''] val else dflt)"

fun env_attributes :: "environment \<Rightarrow> (string \<times> string \<times> json \<times> cast) list \<Rightarrow> attributes result" where
  "env_attributes env [] = Inr []"
| "env_attributes env ((name, key, dflt, c) # rest) =
    bindE (case c of
        CastBool \<Rightarrow> Inr (JBool (env_bool env key (dflt = JBool True)))
      | _ \<Rightarrow> env_or env key dflt c) (\<lambda>v.
    bindE (env_attributes env rest) (\<lambda>vs. Inr ((name, v) # vs)))"

definition COLLECTOR_ENV :: "(string \<times> string \<times> json \<times> cast) list" where
  "COLLECTOR_ENV = [
    (''dongle_host'', ''LUX_DONGLE_HOST'', JStr ''192.168.1.100'', CastStr),
    (''dongle_port'', ''LUX_DONGLE_PORT'', JInt 8000, CastInt),
    (''read_timeout'', ''LUX_READ_TIMEOUT'', JFloat (Fin 60), CastFloat),
    (''reconnect_delay'', ''LUX_RECONNECT_DELAY'', JFloat (Fin 5), CastFloat),
    (''write_interval'', ''LUX_WRITE_INTERVAL'', JInt 30, CastInt),
    (''replay_file'', ''LUX_REPLAY_FILE'', JNull, CastStr),
    (''transport'', ''LUX_TRANSPORT'', JStr ''tcp_active'', CastStr),
    (''poll_interval'', ''LUX_POLL_INTERVAL'', JFloat (Fin 2), CastFloat),
    (''poll_register_start'', ''LUX_POLL_REG_START'', JInt 0, CastInt),
    (''poll_register_count'', ''LUX_POLL_REG_COUNT'', JInt 40, CastInt),
    (''datalog_serial'', ''LUX_DATALOG_SERIAL'', JStr '''', CastStr),
    (''inverter_serial'', ''LUX_INVERTER_SERIAL'', JStr '''', CastStr)]"

definition OUTPUT_ENV :: "(string \<times> string \<times> json \<times> cast) list" where
  "OUTPUT_ENV = [
    (''mariadb_host'', ''LUX_MARIADB_HOST'', JStr ''localhost'', CastStr),
    (''mariadb_port'', ''LUX_MARIADB_PORT'', JInt 3306, CastInt),
    (''mariadb_user'', ''LUX_MARIADB_USER'', JStr ''luxmon'', CastStr),
    (''mariadb_password'', ''LUX_MARIADB_PASSWORD'', JStr ''luxmon'', CastStr),
    (''mariadb_database'', ''LUX_MARIADB_DATABASE'', JStr ''luxmon'', CastStr),
    (''mariadb_table_prefix'', ''LUX_MARIADB_TABLE_PREFIX'', JStr ''lux_'', CastStr),
    (''influx_url'', ''LUX_INFLUX_URL'', JStr ''http://localhost:8086'', CastStr),
    (''influx_token'', ''LUX_INFLUX_TOKEN'', JStr '''', CastStr),
    (''influx_org'', ''LUX_INFLUX_ORG'', JStr ''luxmon'', CastStr),
    (''influx_bucket'', ''LUX_INFLUX_BUCKET'', JStr ''solar'', CastStr),
    (''influx_username'', ''LUX_INFLUX_USERNAME'', JStr '''', CastStr),
    (''influx_password'', ''LUX_INFLUX_PASSWORD'', JStr '''', CastStr),
    (''influx_database'', ''LUX_INFLUX_DATABASE'', JStr ''luxmon'', CastStr),
    (''mqtt_enabled'', ''LUX_MQTT_ENABLED'', JBool False, CastBool),
    (''mqtt_host'', ''LUX_MQTT_HOST'', JStr ''localhost'', CastStr),
    (''mqtt_port'', ''LUX_MQTT_PORT'', JInt 1883, CastInt),
    (''mqtt_username'', ''LUX_MQTT_USERNAME'', JStr '''', CastStr),
    (''mqtt_password'', ''LUX_MQTT_PASSWORD'', JStr '''', CastStr),
    (''mqtt_topic_prefix'', ''LUX_MQTT_TOPIC_PREFIX'', JStr ''luxmon'', CastStr),
    (''mqtt_ha_discovery'', ''LUX_MQTT_HA_DISCOVERY'', JBool True, CastBool),
    (''mqtt_ha_prefix'', ''LUX_MQTT_HA_PREFIX'', JStr ''homeassistant'', CastStr),
    (''mqtt_device_name'', ''LUX_MQTT_DEVICE_NAME'', JStr ''luxmon'', CastStr),
    (''mqtt_device_id'', ''LUX_MQTT_DEVICE_ID'', JStr ''luxmon_solar'', CastStr),
    (''temperature_unit'', ''LUX_TEMPERATURE_UNIT'', JStr ''celsius'', CastStr),
    (''alerts_enabled'', ''LUX_ALERTS_ENABLED'', JBool False, CastBool),
    (''alerts_soc_low'', ''LUX_ALERTS_SOC_LOW'', JFloat (Fin 20), CastFloat),
    (''alerts_soc_critical'', ''LUX_ALERTS_SOC_CRITICAL'', JFloat (Fin 10), CastFloat),
    (''alerts_battery_temp_high'', ''LUX_ALERTS_BATTERY_TEMP_HIGH'', JFloat (Fin 50), CastFloat),
    (''alerts_inverter_temp_high'', ''LUX_ALERTS_INVERTER_TEMP_HIGH'', JFloat (Fin 60), CastFloat),
    (''alerts_grid_lost_threshold_sec'', ''LUX_ALERTS_GRID_LOST_THRESHOLD_SEC'', JFloat (Fin 30), CastFloat),
    (''alerts_email_enabled'', ''LUX_ALERTS_EMAIL_ENABLED'', JBool False, CastBool),
    (''alerts_email_smtp_host'', ''LUX_ALERTS_EMAIL_SMTP_HOST'', JStr '''', CastStr),
    (''alerts_email_smtp_port'', ''LUX_ALERTS_EMAIL_SMTP_PORT'', JInt 587, CastInt),
    (''alerts_email_username'', ''LUX_ALERTS_EMAIL_USERNAME'', JStr '''', CastStr),
    (''alerts_email_password'', ''LUX_ALERTS_EMAIL_PASSWORD'', JStr '''', CastStr),
    (''alerts_email_from'', ''LUX_ALERTS_EMAIL_FROM'', JStr '''', CastStr),
    (''alerts_email_to'', ''LUX_ALERTS_EMAIL_TO'', JStr '''', CastStr),
    (''alerts_email_tls'', ''LUX_ALERTS_EMAIL_TLS'', JBool True, CastBool),
    (''alerts_webhook_enabled'', ''LUX_ALERTS_WEBHOOK_ENABLED'', JBool False, CastBool),
    (''alerts_webhook_url'', ''LUX_ALERTS_WEBHOOK_URL'', JStr '''', CastStr)]"

text \<open>The legacy storage type selects the back end that is on by default.\<close>

definition legacy_influx :: "environment \<Rightarrow> bool" where
  "legacy_influx env = (env ''LUX_STORAGE_TYPE'' = Some ''influxdb'')"

definition config_from_env :: "environment \<Rightarrow> (attributes \<times> attributes) result" where
  "config_from_env env =
    bindE (env_attributes env COLLECTOR_ENV) (\<lambda>cfg.
    bindE (env_attributes env OUTPUT_ENV) (\<lambda>out.
    Inr (cfg, (''mariadb_enabled'', JBool (\<not> legacy_influx env))
            # (''influx_enabled'', JBool (env_bool env ''LUX_INFLUX_ENABLED'' (legacy_influx env))) # out)))"

subsection \<open>Loading settings\<close>

text \<open>
  The database is authoritative: a value that is present and not empty overrides the attribute; one that
  does not convert is ignored.
\<close>

definition convert_setting :: "string \<Rightarrow> cast \<Rightarrow> json \<Rightarrow> json" where
  "convert_setting v c current = (case c of
     CastBool \<Rightarrow> JBool (List.member [''1'', ''true'', ''yes''] (lower v))
   | CastInt \<Rightarrow> (case parse_int v of Some n \<Rightarrow> JInt n | None \<Rightarrow> current)
   | CastFloat \<Rightarrow> (case parse_float v of Some x \<Rightarrow> JFloat x | None \<Rightarrow> current)
   | CastStr \<Rightarrow> JStr v)"

definition override :: "database \<Rightarrow> string \<Rightarrow> json \<Rightarrow> cast \<Rightarrow> json" where
  "override conn key current c = (case settings_get conn key of
     None \<Rightarrow> current
   | Some v \<Rightarrow> if v = [] then current else convert_setting v c current)"

text \<open>Assigning one attribute after the other.\<close>

definition load_settings :: "database \<Rightarrow> (string \<times> string \<times> cast) list \<Rightarrow> attributes \<Rightarrow> attributes" where
  "load_settings conn settings cfg =
    foldl (\<lambda>cfg (name, key, c). AList.update name (override conn key (attr cfg name) c) cfg) cfg settings"

definition OUTPUT_SETTINGS :: "(string \<times> cast) list" where
  "OUTPUT_SETTINGS = [
    (''mariadb_enabled'', CastBool),
    (''influx_enabled'', CastBool),
    (''influx_url'', CastStr),
    (''influx_database'', CastStr),
    (''influx_token'', CastStr),
    (''influx_org'', CastStr),
    (''influx_username'', CastStr),
    (''influx_password'', CastStr),
    (''mqtt_enabled'', CastBool),
    (''mqtt_host'', CastStr),
    (''mqtt_port'', CastInt),
    (''mqtt_username'', CastStr),
    (''mqtt_password'', CastStr),
    (''mqtt_topic_prefix'', CastStr),
    (''mqtt_ha_discovery'', CastBool),
    (''mqtt_device_name'', CastStr),
    (''mqtt_device_id'', CastStr),
    (''temperature_unit'', CastStr),
    (''alerts_enabled'', CastBool),
    (''alerts_soc_low'', CastFloat),
    (''alerts_soc_critical'', CastFloat),
    (''alerts_battery_temp_high'', CastFloat),
    (''alerts_inverter_temp_high'', CastFloat),
    (''alerts_grid_lost_threshold_sec'', CastFloat),
    (''alerts_email_enabled'', CastBool),
    (''alerts_email_smtp_host'', CastStr),
    (''alerts_email_smtp_port'', CastInt),
    (''alerts_email_username'', CastStr),
    (''alerts_email_password'', CastStr),
    (''alerts_email_from'', CastStr),
    (''alerts_email_to'', CastStr),
    (''alerts_email_tls'', CastBool),
    (''alerts_webhook_enabled'', CastBool),
    (''alerts_webhook_url'', CastStr)]"

definition load_db_output_settings :: "database option \<Rightarrow> attributes \<Rightarrow> attributes" where
  "load_db_output_settings db out = (case db of
     None \<Rightarrow> out
   | Some conn \<Rightarrow> load_settings conn (map (\<lambda>(key, c). (key, key, c)) OUTPUT_SETTINGS) out)"

definition CORE_SETTINGS :: "(string \<times> string \<times> cast) list" where
  "CORE_SETTINGS = [
    (''dongle_host'', ''dongle_host'', CastStr),
    (''dongle_port'', ''dongle_port'', CastInt),
    (''write_interval'', ''write_interval_sec'', CastInt),
    (''transport'', ''transport'', CastStr)]"

definition load_db_core_settings :: "database option \<Rightarrow> attributes \<Rightarrow> attributes" where
  "load_db_core_settings db cfg = (case db of None \<Rightarrow> cfg | Some conn \<Rightarrow> load_settings conn CORE_SETTINGS cfg)"

definition SERIAL_SETTINGS :: "(string \<times> string \<times> cast) list" where
  "SERIAL_SETTINGS = [(''datalog_serial'', ''datalog_serial'', CastStr), (''inverter_serial'', ''inverter_serial'', CastStr)]"

definition load_db_serials :: "database option \<Rightarrow> attributes \<Rightarrow> attributes" where
  "load_db_serials db cfg = (case db of None \<Rightarrow> cfg | Some conn \<Rightarrow> load_settings conn SERIAL_SETTINGS cfg)"

definition load_db_setting :: "string \<Rightarrow> database option \<Rightarrow> string option" where
  "load_db_setting name db = (case db of None \<Rightarrow> None | Some conn \<Rightarrow> settings_get conn name)"

subsection \<open>The start of the collector\<close>

text \<open>
  What \<^verbatim>\<open>run_collector\<close> determines before it starts the threads, without a configuration file: the two
  attribute dictionaries, the driver, and the seeded database, which is the same for all connections
  of the start.  An override applies to an attribute the configuration has.
\<close>

definition apply_overrides :: "(string \<times> json) list \<Rightarrow> attributes \<Rightarrow> attributes" where
  "apply_overrides overrides cfg = foldl (\<lambda>cfg (key, value).
     if value \<noteq> JNull \<and> map_of cfg key \<noteq> None then AList.update key value cfg else cfg) cfg overrides"

definition poll_mode :: "environment \<Rightarrow> bool" where
  "poll_mode env = List.member [''1'', ''true'', ''yes''] (lower (case env ''LUX_POLL_MODE'' of Some v \<Rightarrow> v | None \<Rightarrow> []))"

definition chosen_model :: "environment \<Rightarrow> database option \<Rightarrow> string" where
  "chosen_model env db =
    (let stored = (case load_db_setting ''inverter_model'' db of Some v \<Rightarrow> v | None \<Rightarrow> []);
         named = (case env ''LUX_INVERTER_MODEL'' of Some v \<Rightarrow> v | None \<Rightarrow> []) in
     if stored \<noteq> [] then stored else if named \<noteq> [] then named else DEFAULT_MODEL)"

definition start_driver :: "string \<Rightarrow> model_driver result" where
  "start_driver model = (case get_driver model of Inr drv \<Rightarrow> Inr drv | Inl ValueError \<Rightarrow> get_driver DEFAULT_MODEL | Inl e \<Rightarrow> Inl e)"

definition start_configuration :: "environment \<Rightarrow> (string \<times> json) list \<Rightarrow> database option
    \<Rightarrow> (attributes \<times> attributes \<times> model_driver) result \<times> database option" where
  "start_configuration env overrides db =
    (case config_from_env env of
       Inl e \<Rightarrow> (Inl e, db)
     | Inr (cfg, out) \<Rightarrow>
        let db = map_option (seed_from_env env) db;
            cfg = load_db_core_settings db (load_db_serials db (apply_overrides overrides cfg));
            out = load_db_output_settings db out;
            cfg = (if poll_mode env \<and> attr cfg ''transport'' = JStr ''tcp_passive''
                   then AList.update ''transport'' (JStr ''tcp_active'') cfg else cfg)
        in (bindE (start_driver (chosen_model env db)) (\<lambda>drv. Inr (cfg, out, drv)), db))"

subsection \<open>Choosing the transport\<close>

datatype transport_choice = ReplayChoice | PassiveChoice | ActiveChoice

definition create_transport :: "attributes \<Rightarrow> transport_choice result" where
  "create_transport cfg =
    (let transport = lower (py_str (attr cfg ''transport'')) in
     if transport = ''replay'' then
       (if \<not> truthy (attr cfg ''replay_file'') then Inl ValueError else Inr ReplayChoice)
     else if transport = ''tcp_passive'' then Inr PassiveChoice
     else if transport = ''tcp_active'' then
       (if \<not> truthy (attr cfg ''datalog_serial'') \<or> \<not> truthy (attr cfg ''inverter_serial'') then Inl ValueError else Inr ActiveChoice)
     else Inl ValueError)"

subsection \<open>Configuration changes\<close>

text \<open>
  The settings read from the database (none when the read failed), the fingerprint of the relevant ones
  (\<^verbatim>\<open>digest\<close> stands for SHA-256 over the sorted JSON text), the values loaded for the settings that need
  a restart, and the stop flag.  \<^verbatim>\<open>cw_reloads\<close> counts the reloads.
\<close>

definition LIVE_SAFE_KEYS :: "string list" where
  "LIVE_SAFE_KEYS = [''dongle_host'', ''dongle_port'', ''datalog_serial'', ''inverter_serial'', ''write_interval_sec'',
     ''influx_enabled'', ''influx_url'', ''influx_database'', ''influx_token'', ''influx_org'', ''influx_username'', ''influx_password'',
     ''mqtt_enabled'', ''mqtt_host'', ''mqtt_port'', ''mqtt_username'', ''mqtt_password'', ''mqtt_topic_prefix'', ''mqtt_ha_discovery'',
     ''mqtt_device_name'', ''mqtt_device_id'', ''temperature_unit'',
     ''alerts_enabled'', ''alerts_soc_low'', ''alerts_soc_critical'', ''alerts_battery_temp_high'', ''alerts_inverter_temp_high'',
     ''alerts_grid_lost_threshold_sec'', ''alerts_email_enabled'', ''alerts_email_smtp_host'', ''alerts_email_smtp_port'',
     ''alerts_email_username'', ''alerts_email_password'', ''alerts_email_from'', ''alerts_email_to'', ''alerts_email_tls'',
     ''alerts_webhook_enabled'', ''alerts_webhook_url'']"

definition RESTART_KEYS :: "string list" where
  "RESTART_KEYS = [''transport'', ''inverter_model'']"

definition read_db_settings :: "database option \<Rightarrow> settings_table" where
  "read_db_settings db = (case db of Some conn \<Rightarrow> get_all conn | None \<Rightarrow> [])"

definition db_value :: "settings_table \<Rightarrow> string \<Rightarrow> string" where
  "db_value s k = (case map_of s k of Some v \<Rightarrow> v | None \<Rightarrow> [])"

definition relevant_settings :: "settings_table \<Rightarrow> settings_table" where
  "relevant_settings s = map (\<lambda>k. (k, db_value s k)) (LIVE_SAFE_KEYS @ RESTART_KEYS)"

text \<open>The running configuration, its transport, and what is remembered of the database.\<close>

record config_watch =
  cw_fingerprint :: "string option"
  cw_restart_values :: settings_table
  cw_cfg :: attributes
  cw_out :: attributes
  cw_transport :: "transport_choice option"
  cw_stopped :: bool
  cw_reloads :: nat

definition config_fingerprint :: "(settings_table \<Rightarrow> string) \<Rightarrow> database option \<Rightarrow> string" where
  "config_fingerprint digest db = digest (relevant_settings (read_db_settings db))"

text \<open>
  Reloading loads the settings in place, rebuilds the outputs and replaces the transport.  \<^verbatim>\<open>outputs_ok\<close> and
  \<^verbatim>\<open>start_ok\<close> tell whether building the outputs and starting the transport return; when a step raises, the
  effects of the steps before it stay.
\<close>

definition reload_config :: "database option \<Rightarrow> bool \<Rightarrow> bool \<Rightarrow> config_watch \<Rightarrow> bool \<times> config_watch" where
  "reload_config db outputs_ok start_ok w =
    (let w = w\<lparr>cw_cfg := load_db_serials db (cw_cfg w)\<rparr>;
         w = w\<lparr>cw_out := load_db_output_settings db (cw_out w)\<rparr>;
         w = w\<lparr>cw_cfg := load_db_core_settings db (cw_cfg w)\<rparr> in
     if \<not> outputs_ok then (False, w)
     else (case create_transport (cw_cfg w) of
        Inl e \<Rightarrow> (False, w)
      | Inr t \<Rightarrow>
         let w = w\<lparr>cw_transport := Some t\<rparr> in
         if \<not> start_ok then (False, w) else (True, w\<lparr>cw_reloads := cw_reloads w + 1\<rparr>)))"

text \<open>One check: a read for the fingerprint, one for the restart values, and those of the reload.\<close>

definition check_config_change :: "(settings_table \<Rightarrow> string) \<Rightarrow> database option \<Rightarrow> database option \<Rightarrow> database option
    \<Rightarrow> bool \<Rightarrow> bool \<Rightarrow> config_watch \<Rightarrow> config_watch" where
  "check_config_change digest db1 db2 db3 outputs_ok start_ok w =
    (case cw_fingerprint w of
       None \<Rightarrow> w
     | Some loaded \<Rightarrow>
        let new_fp = config_fingerprint digest db1 in
        if new_fp = loaded then w
        else
        let settings = read_db_settings db2 in
        if list_ex (\<lambda>k. db_value settings k \<noteq> db_value (cw_restart_values w) k) RESTART_KEYS
        then w\<lparr>cw_stopped := True\<rparr>
        else (case reload_config db3 outputs_ok start_ok w of (ok, w) \<Rightarrow>
          if ok
          then w\<lparr>cw_fingerprint := Some new_fp, cw_restart_values := map (\<lambda>k. (k, db_value settings k)) RESTART_KEYS\<rparr>
          else w))"

text \<open>
  Starting chooses the transport, which may raise, and reads the database for the fingerprint and once
  for every key that needs a restart.
\<close>

definition start_watch :: "(settings_table \<Rightarrow> string) \<Rightarrow> database option \<Rightarrow> (string \<Rightarrow> database option)
    \<Rightarrow> attributes \<Rightarrow> attributes \<Rightarrow> config_watch result" where
  "start_watch digest db reads cfg out =
    bindE (create_transport cfg) (\<lambda>t.
    Inr \<lparr>cw_fingerprint = Some (config_fingerprint digest db),
     cw_restart_values = map (\<lambda>k. (k, db_value (read_db_settings (reads k)) k)) RESTART_KEYS,
     cw_cfg = cfg, cw_out = out, cw_transport = Some t, cw_stopped = False, cw_reloads = 0\<rparr>)"

end
