(* ===== verification/Configuration_Facts.thy ===== *)
theory Configuration_Facts
  imports Configuration
begin

text \<open>
  Properties of the configuration: which source of a setting wins at the start and on the settings page,
  the errors of the start, and the reaction to changed settings and to database failures.
\<close>

subsection \<open>Loading\<close>

lemma load_settings_attr:
  assumes "distinct (map fst settings)"
  shows "attr (load_settings conn settings cfg) n = (case map_of settings n of
     Some (key, c) \<Rightarrow> override conn key (attr cfg n) c | None \<Rightarrow> attr cfg n)"
  using assms
proof (induction settings arbitrary: cfg)
  case (Cons e settings)
  obtain m key c where e: "e = (m, key, c)"
    by (cases e) auto
  have "map_of settings m = None"
    using Cons.prems e by (simp add: map_of_eq_None_iff)
  with Cons show ?case
    by (auto simp: load_settings_def e attr_update split: option.split)
qed (simp add: load_settings_def)

lemma override_idem: "override conn key (override conn key v c) c = override conn key v c"
  by (auto simp: override_def convert_setting_def split: option.split cast.split)

definition load_core :: "database \<Rightarrow> attributes \<Rightarrow> attributes" where
  "load_core conn cfg = load_db_core_settings (Some conn) (load_db_serials (Some conn) cfg)"

definition load_outputs :: "database \<Rightarrow> attributes \<Rightarrow> attributes" where
  "load_outputs conn out = load_db_output_settings (Some conn) out"

lemma load_core_eq: "load_core conn = load_settings conn (SERIAL_SETTINGS @ CORE_SETTINGS)"
  by (auto simp: load_core_def load_db_core_settings_def load_db_serials_def load_settings_def)

lemma load_outputs_eq: "load_outputs conn = load_settings conn (map (\<lambda>(key, c). (key, key, c)) OUTPUT_SETTINGS)"
  by (auto simp: load_outputs_def load_db_output_settings_def)

lemma core_names_distinct: "distinct (map fst (SERIAL_SETTINGS @ CORE_SETTINGS))"
  by (simp add: SERIAL_SETTINGS_def CORE_SETTINGS_def)

lemma output_names_distinct: "distinct (map fst OUTPUT_SETTINGS)"
  by (simp add: OUTPUT_SETTINGS_def)

lemma output_keys_distinct: "distinct (map fst (map (\<lambda>(key, c). (key, key, c)) OUTPUT_SETTINGS))"
  using output_names_distinct by (simp add: comp_def case_prod_unfold)

lemma load_core_attr: "attr (load_core conn cfg) n = (case map_of (SERIAL_SETTINGS @ CORE_SETTINGS) n of
     Some (key, c) \<Rightarrow> override conn key (attr cfg n) c | None \<Rightarrow> attr cfg n)"
  unfolding load_core_eq by (rule load_settings_attr [OF core_names_distinct])

lemma map_of_doubled: "map_of (map (\<lambda>(key, c). (key, key, c)) xs) n = map_option (Pair n) (map_of xs n)"
  by (induction xs) auto

lemma load_outputs_attr: "attr (load_outputs conn out) n = (case map_of OUTPUT_SETTINGS n of
     Some c \<Rightarrow> override conn n (attr out n) c | None \<Rightarrow> attr out n)"
  unfolding load_outputs_eq load_settings_attr [OF output_keys_distinct] map_of_doubled by (simp split: option.split)

lemma load_cong:
  "attr cfg = attr cfg' \<Longrightarrow> attr (load_core conn cfg) = attr (load_core conn cfg')"
  "attr cfg = attr cfg' \<Longrightarrow> attr (load_outputs conn cfg) = attr (load_outputs conn cfg')"
  by (rule ext, simp only: load_core_attr load_outputs_attr)+

lemma load_idem:
  "attr (load_core conn (load_core conn cfg)) = attr (load_core conn cfg)"
  "attr (load_outputs conn (load_outputs conn cfg)) = attr (load_outputs conn cfg)"
  by (rule ext, auto simp: load_core_attr load_outputs_attr override_idem split: option.split)+

lemma create_transport_cong: "attr cfg = attr cfg' \<Longrightarrow> create_transport cfg = create_transport cfg'"
  by (simp only: create_transport_def)

subsection \<open>Configuration changes\<close>

text \<open>The state while a change to \<^verbatim>\<open>s'\<close> waits to be applied.\<close>

definition change_pending :: "string \<Rightarrow> settings_table \<Rightarrow> database \<Rightarrow> attributes \<Rightarrow> attributes \<Rightarrow> config_watch \<Rightarrow> bool" where
  "change_pending fp kept s' cfg out w \<longleftrightarrow> cw_fingerprint w = Some fp \<and> cw_restart_values w = kept
     \<and> \<not> cw_stopped w \<and> cw_reloads w = 0
     \<and> attr (load_core s' (cw_cfg w)) = attr (load_core s' cfg) \<and> attr (load_outputs s' (cw_out w)) = attr (load_outputs s' out)"

lemma reload_facts:
  assumes "create_transport (load_core s' cfg) = Inr t" "change_pending fp kept s' cfg out w"
  shows "change_pending fp kept s' cfg out (snd (reload_config (Some s') outputs_ok start_ok w)) = (\<not> (outputs_ok \<and> start_ok))"
    and "fst (reload_config (Some s') outputs_ok start_ok w) \<longleftrightarrow> outputs_ok \<and> start_ok"
    and "outputs_ok \<Longrightarrow> start_ok \<Longrightarrow> snd (reload_config (Some s') outputs_ok start_ok w)
      = w\<lparr>cw_cfg := load_core s' (cw_cfg w), cw_out := load_outputs s' (cw_out w), cw_transport := Some t, cw_reloads := 1\<rparr>"
proof -
  have same: "attr (load_core s' (cw_cfg w)) = attr (load_core s' cfg)" "attr (load_outputs s' (cw_out w)) = attr (load_outputs s' out)"
    "cw_reloads w = 0" "\<not> cw_stopped w" "cw_fingerprint w = Some fp" "cw_restart_values w = kept"
    using assms(2) by (simp_all add: change_pending_def)
  have t: "create_transport (load_core s' (cw_cfg w)) = Inr t"
    using create_transport_cong [OF same(1)] assms(1) by simp
  note defs = reload_config_def Let_def load_core_def [symmetric] load_outputs_def [symmetric] t
  show "change_pending fp kept s' cfg out (snd (reload_config (Some s') outputs_ok start_ok w)) = (\<not> (outputs_ok \<and> start_ok))"
    using same by (auto simp: defs change_pending_def load_idem)
  show "fst (reload_config (Some s') outputs_ok start_ok w) \<longleftrightarrow> outputs_ok \<and> start_ok"
    by (auto simp: defs)
  show "outputs_ok \<Longrightarrow> start_ok \<Longrightarrow> snd (reload_config (Some s') outputs_ok start_ok w)
      = w\<lparr>cw_cfg := load_core s' (cw_cfg w), cw_out := load_outputs s' (cw_out w), cw_transport := Some t, cw_reloads := 1\<rparr>"
    using same by (simp add: defs)
qed

lemma start_watch_pending:
  assumes "start_watch digest (Some s) (\<lambda>_. Some s) cfg out = Inr w"
  shows "change_pending (config_fingerprint digest (Some s)) (map (\<lambda>k. (k, db_value (get_all s) k)) RESTART_KEYS) s' cfg out w"
  using assms by (auto simp: start_watch_def change_pending_def read_db_settings_def bindE_eq_Inr)

lemma check_pending:
  assumes "create_transport (load_core s' cfg) = Inr t"
    and "config_fingerprint digest (Some s') \<noteq> fp" "\<forall>k \<in> set RESTART_KEYS. db_value (get_all s') k = db_value kept k"
    and "change_pending fp kept s' cfg out w"
  shows "\<not> (outputs_ok \<and> start_ok) \<Longrightarrow>
      change_pending fp kept s' cfg out (check_config_change digest (Some s') (Some s') (Some s') outputs_ok start_ok w)"
    and "check_config_change digest (Some s') (Some s') (Some s') True True w
      = w\<lparr>cw_cfg := load_core s' (cw_cfg w), cw_out := load_outputs s' (cw_out w), cw_transport := Some t, cw_reloads := 1,
          cw_fingerprint := Some (config_fingerprint digest (Some s')),
          cw_restart_values := map (\<lambda>k. (k, db_value (get_all s') k)) RESTART_KEYS\<rparr>"
proof -
  have no_restart: "\<not> list_ex (\<lambda>k. db_value (get_all s') k \<noteq> db_value (cw_restart_values w) k) RESTART_KEYS"
    using assms(3,4) by (auto simp: list_ex_iff change_pending_def)
  have fp: "cw_fingerprint w = Some fp"
    using assms(4) by (simp add: change_pending_def)
  note defs = check_config_change_def fp assms(2) Let_def read_db_settings_def no_restart
  show "check_config_change digest (Some s') (Some s') (Some s') True True w
      = w\<lparr>cw_cfg := load_core s' (cw_cfg w), cw_out := load_outputs s' (cw_out w), cw_transport := Some t, cw_reloads := 1,
          cw_fingerprint := Some (config_fingerprint digest (Some s')),
          cw_restart_values := map (\<lambda>k. (k, db_value (get_all s') k)) RESTART_KEYS\<rparr>"
    using reload_facts(2,3) [OF assms(1,4), of True True] by (simp add: defs case_prod_unfold)
  assume "\<not> (outputs_ok \<and> start_ok)"
  then show "change_pending fp kept s' cfg out (check_config_change digest (Some s') (Some s') (Some s') outputs_ok start_ok w)"
    using reload_facts(1,2) [OF assms(1,4), of outputs_ok start_ok] by (auto simp: defs case_prod_unfold)
qed

text \<open>C14: a change of live-safe settings only is applied exactly once.  After a start on the database \<^verbatim>\<open>s\<close>,
  let the settings become \<^verbatim>\<open>s'\<close>, with the same restart values and another fingerprint.  However many
  checks fail to rebuild the outputs or to start the transport, the collector does not stop, and the
  first check that succeeds leaves it running with every attribute as \<^verbatim>\<open>s'\<close> prescribes, on the transport
  chosen for them; every later check against \<^verbatim>\<open>s'\<close> changes nothing.\<close>

theorem live_change_applied_once:
  assumes "start_watch digest (Some s) (\<lambda>_. Some s) cfg out = Inr w"
    and "config_fingerprint digest (Some s') \<noteq> config_fingerprint digest (Some s)"
    and "\<forall>k \<in> set RESTART_KEYS. db_value (get_all s') k = db_value (get_all s) k"
    and "create_transport (load_db_core_settings (Some s') (load_db_serials (Some s') cfg)) = Inr t"
    and "\<forall>(outputs_ok, start_ok) \<in> set failures. \<not> (outputs_ok \<and> start_ok)"
  defines "check \<equiv> \<lambda>outputs_ok start_ok. check_config_change digest (Some s') (Some s') (Some s') outputs_ok start_ok"
  defines "tried \<equiv> foldl (\<lambda>w (outputs_ok, start_ok). check outputs_ok start_ok w) w failures"
  defines "changed \<equiv> check True True tried"
  shows "\<not> cw_stopped tried \<and> cw_reloads tried = 0 \<and> \<not> cw_stopped changed \<and> cw_reloads changed = 1
     \<and> attr (cw_cfg changed) = attr (load_db_core_settings (Some s') (load_db_serials (Some s') cfg))
     \<and> attr (cw_out changed) = attr (load_db_output_settings (Some s') out)
     \<and> cw_transport changed = Some t \<and> (check outputs_ok start_ok ^^ n) changed = changed"
proof -
  define kept where "kept = map (\<lambda>k. (k, db_value (get_all s) k)) RESTART_KEYS"
  define fp where "fp = config_fingerprint digest (Some s)"
  have t: "create_transport (load_core s' cfg) = Inr t"
    using assms(4) by (simp add: load_core_def)
  have fp': "config_fingerprint digest (Some s') \<noteq> fp"
    using assms(2) by (simp add: fp_def)
  have vals: "\<forall>k \<in> set RESTART_KEYS. db_value (get_all s') k = db_value kept k"
    using assms(3) by (auto simp: kept_def db_value_def RESTART_KEYS_def)
  have "change_pending fp kept s' cfg out tried"
    using start_watch_pending [OF assms(1), of s'] assms(5) unfolding tried_def fp_def [symmetric] kept_def [symmetric]
  proof (induction failures arbitrary: w)
    case (Cons f failures)
    then show ?case
      using check_pending(1) [OF t fp' vals, of out w "fst f" "snd f"] by (auto simp: check_def case_prod_unfold)
  qed simp
  note pending = this
  have changed: "changed = tried\<lparr>cw_cfg := load_core s' (cw_cfg tried), cw_out := load_outputs s' (cw_out tried),
      cw_transport := Some t, cw_reloads := 1, cw_fingerprint := Some (config_fingerprint digest (Some s')),
      cw_restart_values := map (\<lambda>k. (k, db_value (get_all s') k)) RESTART_KEYS\<rparr>"
    unfolding changed_def check_def by (rule check_pending(2) [OF t fp' vals pending])
  have "check outputs_ok start_ok changed = changed"
    by (simp add: changed check_def check_config_change_def)
  then have "(check outputs_ok start_ok ^^ n) changed = changed"
    by (induction n) simp_all
  then show ?thesis
    using pending by (simp add: changed change_pending_def load_core_def load_outputs_def)
qed

definition settings_digest :: "settings_table \<Rightarrow> string" where
  "settings_digest s = concat (map (\<lambda>(k, v). k @ ''='' @ v @ '';'') s)"

definition sample_before :: database where
  "sample_before = Readable [(''datalog_serial'', ''BA12345678''), (''inverter_serial'', ''4434567890'')]"

definition sample_after :: database where
  "sample_after = Readable [(''datalog_serial'', ''BA12345678''), (''inverter_serial'', ''4434567890''), (''mqtt_host'', ''broker'')]"

lemma get_all_lookup: "map_of (get_all (Readable rows)) k = (case map_of (rev rows) k of Some v \<Rightarrow> Some v | None \<Rightarrow> map_of DEFAULTS k)"
  by (simp add: get_all_def update_all_lookup)

lemma sample_values: "db_value (get_all sample_after) k = (if k = ''mqtt_host'' then ''broker'' else db_value (get_all sample_before) k)"
  by (simp add: db_value_def get_all_lookup sample_after_def sample_before_def)

lemma sample_host: "db_value (get_all sample_before) ''mqtt_host'' = ''localhost''"
  by (simp add: db_value_def get_all_lookup sample_before_def DEFAULTS_def)

lemma sample_transport: "db_value (get_all sample_before) ''transport'' = ''tcp_active''"
  by (simp add: db_value_def get_all_lookup sample_before_def DEFAULTS_def)

lemma keys_split: "LIVE_SAFE_KEYS @ RESTART_KEYS = take 13 LIVE_SAFE_KEYS @ ''mqtt_host'' # drop 14 LIVE_SAFE_KEYS @ RESTART_KEYS"
  by (simp add: LIVE_SAFE_KEYS_def)

lemma sample_fingerprints:
  "config_fingerprint settings_digest (Some sample_after) \<noteq> config_fingerprint settings_digest (Some sample_before)"
  "config_fingerprint settings_digest None \<noteq> config_fingerprint settings_digest (Some sample_before)"
proof -
  have "''mqtt_host'' \<notin> set (take 13 LIVE_SAFE_KEYS)"
    by (simp add: LIVE_SAFE_KEYS_def)
  then have pre: "map (\<lambda>k. (k, db_value (get_all sample_after) k)) (take 13 LIVE_SAFE_KEYS)
      = map (\<lambda>k. (k, db_value (get_all sample_before) k)) (take 13 LIVE_SAFE_KEYS)"
    by (intro map_cong) (auto simp: sample_values)
  show "config_fingerprint settings_digest (Some sample_after) \<noteq> config_fingerprint settings_digest (Some sample_before)"
    unfolding config_fingerprint_def relevant_settings_def keys_split read_db_settings_def option.case map_append pre settings_digest_def
    by (simp add: sample_values sample_host)
  have "db_value (get_all sample_before) ''dongle_host'' = ''192.168.1.100''"
    by (simp add: db_value_def get_all_lookup sample_before_def DEFAULTS_def)
  then show "config_fingerprint settings_digest None \<noteq> config_fingerprint settings_digest (Some sample_before)"
    unfolding config_fingerprint_def relevant_settings_def read_db_settings_def LIVE_SAFE_KEYS_def
    by (simp add: settings_digest_def db_value_def [of "[]"])
qed

lemma lower_tcp: "lower ''tcp_active'' = ''tcp_active''" "lower ''tcp_passive'' = ''tcp_passive''"
  by (simp_all add: lower_def lower_char_def char_code_def)

definition sample_cfg :: attributes where
  "sample_cfg = [(''transport'', JStr ''tcp_passive''), (''replay_file'', JNull)]"

lemma sample_get:
  "settings_get sample_after ''transport'' = Some ''tcp_active''"
  "settings_get sample_after ''datalog_serial'' = Some ''BA12345678''"
  "settings_get sample_after ''inverter_serial'' = Some ''4434567890''"
  "settings_get sample_after ''mqtt_host'' = Some ''broker''"
  by (simp_all add: settings_get_def sample_after_def DEFAULTS_def)

lemma sample_reload: "create_transport (load_core sample_after sample_cfg) = Inr ActiveChoice"
proof -
  have "attr (load_core sample_after sample_cfg) ''transport'' = JStr ''tcp_active''"
    "attr (load_core sample_after sample_cfg) ''datalog_serial'' = JStr ''BA12345678''"
    "attr (load_core sample_after sample_cfg) ''inverter_serial'' = JStr ''4434567890''"
    by (simp_all add: load_core_attr SERIAL_SETTINGS_def CORE_SETTINGS_def override_def sample_get convert_setting_def)
  then show ?thesis
    by (simp add: create_transport_def py_str_def lower_tcp)
qed

theorem live_change_applied_once_witness:
  "\<exists>w. start_watch settings_digest (Some sample_before) (\<lambda>_. Some sample_before) sample_cfg [] = Inr w
     \<and> cw_reloads (check_config_change settings_digest (Some sample_after) (Some sample_after) (Some sample_after) True True
          (check_config_change settings_digest (Some sample_after) (Some sample_after) (Some sample_after) True False w)) = 1"
proof -
  have "create_transport sample_cfg = Inr PassiveChoice"
    by (simp add: create_transport_def sample_cfg_def attr_def py_str_def lower_tcp)
  then obtain w where w: "start_watch settings_digest (Some sample_before) (\<lambda>_. Some sample_before) sample_cfg [] = Inr w"
    by (simp add: start_watch_def)
  have restart: "\<forall>k \<in> set RESTART_KEYS. db_value (get_all sample_after) k = db_value (get_all sample_before) k"
    by (auto simp: sample_values RESTART_KEYS_def)
  from live_change_applied_once [OF w sample_fingerprints(1) restart sample_reload [unfolded load_core_def], of "[(True, False)]"] w
  show ?thesis
    by auto
qed

text \<open>C15: a database that cannot be reached is taken for a configuration change: when a transport or an inverter
  model was loaded at the start (the defaults name both), the first check during an outage stops the
  collector.\<close>

theorem db_outage_stops_collector:
  assumes "start_watch digest (Some s) (\<lambda>_. Some s) cfg out = Inr w"
    and "config_fingerprint digest None \<noteq> config_fingerprint digest (Some s)"
    and "db_value (get_all s) ''transport'' \<noteq> [] \<or> db_value (get_all s) ''inverter_model'' \<noteq> []"
  shows "cw_stopped (check_config_change digest None None db3 outputs_ok start_ok w)"
proof -
  have "list_ex (\<lambda>k. db_value [] k \<noteq> db_value (map (\<lambda>k. (k, db_value (get_all s) k)) RESTART_KEYS) k) RESTART_KEYS"
    using assms(3) by (auto simp: RESTART_KEYS_def db_value_def)
  moreover have "cw_fingerprint w = Some (config_fingerprint digest (Some s))"
    "cw_restart_values w = map (\<lambda>k. (k, db_value (get_all s) k)) RESTART_KEYS"
    using start_watch_pending [OF assms(1)] by (simp_all add: change_pending_def)
  ultimately show ?thesis
    using assms(2) by (simp add: check_config_change_def Let_def read_db_settings_def)
qed

theorem db_outage_stops_collector_witness:
  "\<exists>w. start_watch settings_digest (Some sample_before) (\<lambda>_. Some sample_before) sample_cfg [] = Inr w
     \<and> cw_stopped (check_config_change settings_digest None None None True True w)"
proof -
  have "create_transport sample_cfg = Inr PassiveChoice"
    by (simp add: create_transport_def sample_cfg_def attr_def py_str_def lower_tcp)
  then obtain w where w: "start_watch settings_digest (Some sample_before) (\<lambda>_. Some sample_before) sample_cfg [] = Inr w"
    by (simp add: start_watch_def)
  with db_outage_stops_collector [OF w sample_fingerprints(2)] sample_transport show ?thesis
    by auto
qed

text \<open>The setting a reload applies but the fingerprint does not watch.\<close>

lemma unwatched_settings:
  "filter (\<lambda>k. \<not> List.member (LIVE_SAFE_KEYS @ RESTART_KEYS) k)
     (map fst OUTPUT_SETTINGS @ map (fst \<circ> snd) (SERIAL_SETTINGS @ CORE_SETTINGS)) = [''mariadb_enabled'']"
  by (simp add: LIVE_SAFE_KEYS_def RESTART_KEYS_def OUTPUT_SETTINGS_def CORE_SETTINGS_def SERIAL_SETTINGS_def)

subsection \<open>The start\<close>

lemma start_driver_total: "\<exists>drv. start_driver model = Inr drv
    \<and> (get_driver model = Inr drv \<or> get_driver model = Inl ValueError \<and> get_driver DEFAULT_MODEL = Inr drv)"
proof -
  have "get_driver DEFAULT_MODEL = Inr eg4_6000xp"
    by (simp add: get_driver_def DRIVERS_def DEFAULT_MODEL_def)
  then show ?thesis
    by (simp add: start_driver_def get_driver_def split: option.split)
qed

text \<open>The legacy poll mode turns the passive transport into the active one.\<close>

definition poll_transport :: "environment \<Rightarrow> string \<Rightarrow> json \<Rightarrow> json" where
  "poll_transport env name v =
    (if name = ''transport'' \<and> poll_mode env \<and> v = JStr ''tcp_passive'' then JStr ''tcp_active'' else v)"

lemma start_configuration_cases:
  "(case config_from_env env of
      Inl e \<Rightarrow> start_configuration env overrides db = (Inl e, db)
    | Inr (cfg0, out0) \<Rightarrow> \<exists>cfg drv. start_configuration env overrides db
         = (Inr (cfg, load_db_output_settings (map_option (seed_from_env env) db) out0, drv), map_option (seed_from_env env) db)
       \<and> start_driver (chosen_model env (map_option (seed_from_env env) db)) = Inr drv
       \<and> (\<forall>n. attr cfg n = poll_transport env n
            (attr (load_db_core_settings (map_option (seed_from_env env) db) (load_db_serials (map_option (seed_from_env env) db) (apply_overrides overrides cfg0))) n)))"
proof (cases "config_from_env env")
  case (Inr p)
  obtain drv where "start_driver (chosen_model env (map_option (seed_from_env env) db)) = Inr drv"
    using start_driver_total by blast
  then show ?thesis
    by (cases p) (auto simp: Inr start_configuration_def Let_def attr_update poll_transport_def)
qed (simp add: start_configuration_def)

text \<open>The text that decides a setting: its row, else its environment variable, else its default; an empty
  row without a variable decides nothing.\<close>

definition default_text :: "string \<Rightarrow> string" where
  "default_text key = (case map_of DEFAULTS key of Some v \<Rightarrow> v | None \<Rightarrow> [])"

definition deciding_text :: "environment \<Rightarrow> settings_table \<Rightarrow> string \<Rightarrow> string" where
  "deciding_text env rows key = (case map_of rows key of
     Some v \<Rightarrow> if v \<noteq> [] then v else env_value env key
   | None \<Rightarrow> if env_value env key \<noteq> [] then env_value env key else default_text key)"

definition decided :: "string \<Rightarrow> cast \<Rightarrow> json \<Rightarrow> json" where
  "decided v c current = (if v = [] then current else convert_setting v c current)"

lemma seeded_get:
  "(case settings_get (seed_from_env env (Readable rows)) key of Some v \<Rightarrow> v | None \<Rightarrow> []) = deciding_text env rows key"
  by (auto simp: seed_from_env_lookup deciding_text_def default_text_def seeded_def split: option.split)

lemma override_decided: "override conn key current c = decided (case settings_get conn key of Some v \<Rightarrow> v | None \<Rightarrow> []) c current"
  by (simp add: override_def decided_def split: option.split)

lemma override_seeded: "override (seed_from_env env (Readable rows)) key current c = decided (deciding_text env rows key) c current"
  unfolding override_decided seeded_get ..

lemma chosen_seeded: "chosen_model env (Some (seed_from_env env (Readable rows)))
    = (if deciding_text env rows ''inverter_model'' = [] then DEFAULT_MODEL else deciding_text env rows ''inverter_model'')"
proof -
  have "map_of SETTING_ENV ''inverter_model'' = Some (''LUX_INVERTER_MODEL'', CastStr)"
    by (simp add: SETTING_ENV_def)
  then have "env_value env ''inverter_model'' = (case env ''LUX_INVERTER_MODEL'' of Some v \<Rightarrow> v | None \<Rightarrow> [])"
    by (simp add: env_value_def split: option.split)
  moreover have "env_value env ''inverter_model'' \<noteq> [] \<Longrightarrow> deciding_text env rows ''inverter_model'' \<noteq> []"
    by (auto simp: deciding_text_def split: option.split)
  ultimately show ?thesis
    using seeded_get [of env rows "''inverter_model''"] by (auto simp: chosen_model_def load_db_setting_def Let_def)
qed

lemma core_entry: "(name, key, c) \<in> set (SERIAL_SETTINGS @ CORE_SETTINGS) \<Longrightarrow> attr (load_core conn cfg) name = override conn key (attr cfg name) c"
  using map_of_is_SomeI [OF core_names_distinct] by (simp add: load_core_attr del: map_of_append)

lemma output_entry: "(key, c) \<in> set OUTPUT_SETTINGS \<Longrightarrow> attr (load_outputs conn out) key = override conn key (attr out key) c"
  using map_of_is_SomeI [OF output_names_distinct] by (simp add: load_outputs_attr)

text \<open>C16: a start on a readable settings table never fails once the environment has been read, and every setting
  is decided by its row if that is not empty, else by its environment variable if that is set and not
  empty, else, without a row, by its default; the deciding text is converted to the type of the
  attribute, and one that does not convert leaves the attribute as read from the environment (after the
  overrides of the command line).  The legacy poll mode then turns the passive transport into the active
  one.  The driver is that of the decided model, or of the default model when
  the decided one is unknown.\<close>

theorem startup_precedence:
  assumes "config_from_env env = Inr (cfg0, out0)"
  shows "\<exists>cfg out drv. start_configuration env overrides (Some (Readable rows)) = (Inr (cfg, out, drv), Some (seed_from_env env (Readable rows)))
     \<and> (\<forall>(key, c) \<in> set OUTPUT_SETTINGS. attr out key = decided (deciding_text env rows key) c (attr out0 key))
     \<and> (\<forall>(name, key, c) \<in> set (SERIAL_SETTINGS @ CORE_SETTINGS). 
          attr cfg name = poll_transport env name (decided (deciding_text env rows key) c (attr (apply_overrides overrides cfg0) name)))
     \<and> (let model = (if deciding_text env rows ''inverter_model'' = [] then DEFAULT_MODEL else deciding_text env rows ''inverter_model'') in
          get_driver model = Inr drv \<or> get_driver model = Inl ValueError \<and> get_driver DEFAULT_MODEL = Inr drv)"
proof -
  let ?conn = "seed_from_env env (Readable rows)"
  obtain cfg drv where start: "start_configuration env overrides (Some (Readable rows)) = (Inr (cfg, load_outputs ?conn out0, drv), Some ?conn)"
    and drv: "start_driver (chosen_model env (Some ?conn)) = Inr drv"
    and cfg: "\<forall>n. attr cfg n = poll_transport env n (attr (load_core ?conn (apply_overrides overrides cfg0)) n)"
    using start_configuration_cases [of env overrides "Some (Readable rows)"] assms
    by (auto simp: load_outputs_def load_core_def)
  have "\<forall>(key, c) \<in> set OUTPUT_SETTINGS. attr (load_outputs ?conn out0) key = decided (deciding_text env rows key) c (attr out0 key)"
    by (auto simp: output_entry override_seeded)
  moreover have "\<forall>(name, key, c) \<in> set (SERIAL_SETTINGS @ CORE_SETTINGS). 
      attr cfg name = poll_transport env name (decided (deciding_text env rows key) c (attr (apply_overrides overrides cfg0) name))"
    using cfg core_entry override_seeded by fastforce
  moreover have "let model = (if deciding_text env rows ''inverter_model'' = [] then DEFAULT_MODEL else deciding_text env rows ''inverter_model'') in
      get_driver model = Inr drv \<or> get_driver model = Inl ValueError \<and> get_driver DEFAULT_MODEL = Inr drv"
    using start_driver_total [of "chosen_model env (Some ?conn)"] drv unfolding Let_def chosen_seeded by auto
  ultimately show ?thesis
    using start by blast
qed

definition broker_env :: environment where
  "broker_env k = (if k = ''LUX_MQTT_HOST'' then Some ''broker-a'' else None)"

lemma broker_env_config: "\<exists>p. config_from_env broker_env = Inr p"
  by (simp add: config_from_env_def COLLECTOR_ENV_def OUTPUT_ENV_def env_or_def broker_env_def cast_result_def)

lemma mqtt_host_setting: "(''mqtt_host'', CastStr) \<in> set OUTPUT_SETTINGS"
  by (simp add: OUTPUT_SETTINGS_def)

theorem startup_precedence_witness:
  "\<exists>cfg out drv db. start_configuration broker_env [] (Some (Readable [(''mqtt_host'', ''broker-b'')])) = (Inr (cfg, out, drv), db)
     \<and> attr out ''mqtt_host'' = JStr ''broker-b''
   \<and> (\<exists>cfg out drv db. start_configuration broker_env [] (Some (Readable [])) = (Inr (cfg, out, drv), db)
     \<and> attr out ''mqtt_host'' = JStr ''broker-a'')"
proof -
  obtain cfg0 out0 where "config_from_env broker_env = Inr (cfg0, out0)"
    using broker_env_config by auto
  note start = startup_precedence [OF this, of "[]"]
  have env: "env_value broker_env ''mqtt_host'' = ''broker-a''"
    by (simp add: env_value_def SETTING_ENV_def broker_env_def)
  have "decided (deciding_text broker_env [(''mqtt_host'', ''broker-b'')] ''mqtt_host'') CastStr v = JStr ''broker-b''"
    "decided (deciding_text broker_env [] ''mqtt_host'') CastStr v = JStr ''broker-a''" for v
    by (simp_all add: decided_def deciding_text_def env convert_setting_def)
  note texts = this
  obtain cfg1 out1 drv1 where 1: "start_configuration broker_env [] (Some (Readable [(''mqtt_host'', ''broker-b'')]))
      = (Inr (cfg1, out1, drv1), Some (seed_from_env broker_env (Readable [(''mqtt_host'', ''broker-b'')])))"
    and o1: "\<forall>(key, c) \<in> set OUTPUT_SETTINGS. attr out1 key = decided (deciding_text broker_env [(''mqtt_host'', ''broker-b'')] key) c (attr out0 key)"
    using start [of "[(''mqtt_host'', ''broker-b'')]"] by blast
  obtain cfg2 out2 drv2 where 2: "start_configuration broker_env [] (Some (Readable []))
      = (Inr (cfg2, out2, drv2), Some (seed_from_env broker_env (Readable [])))"
    and o2: "\<forall>(key, c) \<in> set OUTPUT_SETTINGS. attr out2 key = decided (deciding_text broker_env [] key) c (attr out0 key)"
    using start [of "[]"] by blast
  show ?thesis
    using 1 2 bspec [OF o1 mqtt_host_setting] bspec [OF o2 mqtt_host_setting] by (simp add: texts)
qed

text \<open>The settings page computes its value with the environment first.  When the variable of a setting is set
  and its row is not empty, the page shows the variable, but the collector runs with the row.\<close>

lemma settings_page_shows_environment:
  assumes "config_from_env env = Inr (cfg0, out0)" "(key, c) \<in> set OUTPUT_SETTINGS"
    and "map_of SETTING_ENV key = Some (var, c')" "env var = Some raw" "raw \<noteq> []" "map_of rows key = Some v" "v \<noteq> []"
  shows "\<exists>cfg out drv. fst (start_configuration env overrides (Some (Readable rows))) = Inr (cfg, out, drv)
     \<and> effective_value env key (settings_get (seed_from_env env (Readable rows)) key) = cast_env raw c'
     \<and> attr out key = convert_setting v c (attr out0 key)"
proof -
  let ?conn = "seed_from_env env (Readable rows)"
  obtain cfg drv where "start_configuration env overrides (Some (Readable rows)) = (Inr (cfg, load_outputs ?conn out0, drv), Some ?conn)"
    using start_configuration_cases [of env overrides "Some (Readable rows)"] assms(1) by (auto simp: load_outputs_def)
  moreover have "attr (load_outputs ?conn out0) key = convert_setting v c (attr out0 key)"
    using assms(6,7) by (simp add: output_entry [OF assms(2)] override_seeded decided_def deciding_text_def)
  moreover have "effective_value env key (settings_get ?conn key) = cast_env raw c'"
    using assms(3-5) by (simp add: effective_value_def)
  ultimately show ?thesis
    by simp
qed

text \<open>When the database can be reached but its settings table cannot be read (as on the first start, before
  the table exists), every setting that has a default takes the default, whatever the environment says:
  a collector told to use another dongle host polls the default address.\<close>

lemma unreadable_settings_override_environment:
  assumes "config_from_env env = Inr (cfg0, out0)"
  shows "\<exists>cfg out drv. start_configuration env overrides (Some Unreadable) = (Inr (cfg, out, drv), Some Unreadable)
     \<and> (\<forall>(key, c) \<in> set OUTPUT_SETTINGS. attr out key = decided (default_text key) c (attr out0 key))
     \<and> attr cfg ''dongle_host'' = JStr ''192.168.1.100'' \<and> md_name drv = ''eg4_6000xp''"
proof -
  have conn: "seed_from_env env Unreadable = Unreadable"
    by (simp add: seed_from_env_def)
  obtain cfg drv where start: "start_configuration env overrides (Some Unreadable) = (Inr (cfg, load_outputs Unreadable out0, drv), Some Unreadable)"
    and drv: "start_driver (chosen_model env (Some Unreadable)) = Inr drv"
    and cfg: "\<forall>n. attr cfg n = poll_transport env n (attr (load_core Unreadable (apply_overrides overrides cfg0)) n)"
    using start_configuration_cases [of env overrides "Some Unreadable"] assms conn by (auto simp: load_outputs_def load_core_def)
  have get: "(case settings_get Unreadable key of Some v \<Rightarrow> v | None \<Rightarrow> []) = default_text key" for key
    by (simp add: settings_get_def default_text_def)
  have "\<forall>(key, c) \<in> set OUTPUT_SETTINGS. attr (load_outputs Unreadable out0) key = decided (default_text key) c (attr out0 key)"
    by (auto simp: output_entry override_decided get)
  moreover have "default_text ''dongle_host'' = ''192.168.1.100''" "default_text ''inverter_model'' = ''eg4_6000xp''"
    by (simp_all add: default_text_def DEFAULTS_def)
  then have host: "attr cfg ''dongle_host'' = JStr ''192.168.1.100''" and "chosen_model env (Some Unreadable) = ''eg4_6000xp''"
    using cfg core_entry [of "''dongle_host''" "''dongle_host''" CastStr Unreadable "apply_overrides overrides cfg0"] get [of "''inverter_model''"]
    by (simp_all add: poll_transport_def override_decided get decided_def convert_setting_def CORE_SETTINGS_def chosen_model_def load_db_setting_def)
  then have "drv = eg4_6000xp"
    using drv by (simp add: start_driver_def get_driver_def DRIVERS_def)
  ultimately show ?thesis
    using start host by (auto simp: eg4_6000xp_def renamed_def)
qed

text \<open>A numeric variable whose text does not convert.\<close>

definition unusable :: "environment \<Rightarrow> string \<times> string \<times> json \<times> cast \<Rightarrow> bool" where
  "unusable env = (\<lambda>(name, key, dflt, c). case env key of
     None \<Rightarrow> False
   | Some v \<Rightarrow> c = CastInt \<and> parse_int v = None \<or> c = CastFloat \<and> parse_float v = None)"

lemma env_or_error: "env_or env key dflt c = Inl e \<longleftrightarrow> e = ValueError \<and> unusable env (name, key, dflt, c)"
  by (cases c) (auto simp: env_or_def cast_result_def unusable_def split: option.split)

lemma env_value_error:
  "(case c of CastBool \<Rightarrow> Inr (JBool b) | _ \<Rightarrow> env_or env key dflt c) = Inl e \<longleftrightarrow> e = ValueError \<and> unusable env (name, key, dflt, c)"
  by (cases c) (simp_all add: env_or_error [where name = name], simp add: unusable_def split: option.split)

lemma bindE_error: "bindE m f = Inl e \<longleftrightarrow> m = Inl e \<or> (\<exists>x. m = Inr x \<and> f x = Inl e)"
  by (simp add: bindE_def split: sum.split)

lemma is_Inr: "(\<exists>x. m = Inr x) \<longleftrightarrow> \<not> (\<exists>e. m = Inl e)"
  by (cases m) auto

lemma env_attributes_error: "env_attributes env rows = Inl e \<longleftrightarrow> e = ValueError \<and> list_ex (unusable env) rows"
proof (induction rows arbitrary: e)
  case (Cons row rows)
  obtain name key dflt c where row: "row = (name, key, dflt, c)"
    by (cases row) auto
  have "(\<exists>x. (case c of CastBool \<Rightarrow> Inr (JBool b) | _ \<Rightarrow> env_or env key dflt c) = Inr x) \<longleftrightarrow> \<not> unusable env row" for b
    unfolding is_Inr row using env_value_error [where name = name] by metis
  then show ?case
    by (auto simp: row bindE_error env_value_error [where name = name] Cons.IH)
qed simp

lemma bind_two_error: "bindE m (\<lambda>x. bindE m' (\<lambda>y. Inr (f x y))) = Inl e \<longleftrightarrow> m = Inl e \<or> \<not> (\<exists>e. m = Inl e) \<and> m' = Inl e"
  by (cases m; cases m') auto

lemma config_from_env_error: "config_from_env env = Inl e \<longleftrightarrow> e = ValueError \<and> list_ex (unusable env) (COLLECTOR_ENV @ OUTPUT_ENV)"
  unfolding config_from_env_def bind_two_error env_attributes_error list_ex_append by blast

text \<open>A start raises exactly when a numeric environment variable is set to a text that is not a number, also
  when it is set to the empty text; the error is a ValueError, and the database is not touched.\<close>

lemma startup_errors:
  "(fst (start_configuration env overrides db) = Inl e \<longleftrightarrow> e = ValueError \<and> list_ex (unusable env) (COLLECTOR_ENV @ OUTPUT_ENV))
   \<and> (fst (start_configuration env overrides db) = Inl e \<longrightarrow> snd (start_configuration env overrides db) = db)
   \<and> fst (start_configuration (\<lambda>key. if key = ''LUX_DONGLE_PORT'' then Some [] else None) overrides db) = Inl ValueError"
proof -
  have start: "fst (start_configuration env overrides db) = Inl e \<longleftrightarrow> config_from_env env = Inl e"
    "fst (start_configuration env overrides db) = Inl e \<Longrightarrow> snd (start_configuration env overrides db) = db" for env e
    using start_configuration_cases [of env overrides db] by (auto split: sum.splits)
  have "parse_int [] = None"
    by code_simp
  then have "config_from_env (\<lambda>key. if key = ''LUX_DONGLE_PORT'' then Some [] else None) = Inl ValueError"
    unfolding config_from_env_error by (simp add: COLLECTOR_ENV_def unusable_def)
  then show ?thesis
    using start config_from_env_error by blast
qed

end
