(* ===== verification/Mqtt_Commands.thy ===== *)
theory Mqtt_Commands
  imports Configuration Effects
begin

text \<open>
  Commands over MQTT, \<^verbatim>\<open>src/collector/mqtt_commands.py\<close>: the settings that may be changed, the validation and
  conversion of a new value by the metadata of its setting, and the two message handlers.  The broker's
  client is the list of what was published, as topic and JSON value; the payload of a message is its
  decoded text.  The running configuration is the dictionary of the output settings.
\<close>

subsection \<open>Settings\<close>

definition CONTROLLABLE_SETTINGS :: "string list" where
  "CONTROLLABLE_SETTINGS = [
    ''pv_max_power'',
    ''grid_max_power'',
    ''eps_max_power'',
    ''charge_max_power'',
    ''discharge_max_power'',
    ''battery_capacity'',
    ''battery_metric'',
    ''dashboard_refresh_sec'',
    ''chart_default_hours'',
    ''temperature_unit'',
    ''alerts_enabled'',
    ''alerts_soc_low'',
    ''alerts_soc_critical'',
    ''alerts_battery_temp_high'',
    ''alerts_inverter_temp_high'',
    ''alerts_grid_lost_threshold_sec'',
    ''alerts_email_enabled'',
    ''alerts_email_smtp_host'',
    ''alerts_email_smtp_port'',
    ''alerts_email_username'',
    ''alerts_email_password'',
    ''alerts_email_from'',
    ''alerts_email_to'',
    ''alerts_email_tls'',
    ''alerts_webhook_enabled'',
    ''alerts_webhook_url'']"

subsection \<open>Validation\<close>

text \<open>A bound or step of the metadata as a number; integers compare with floats exactly.\<close>

definition meta_number :: "json \<Rightarrow> pyfloat" where
  "meta_number v = (case v of JInt n \<Rightarrow> Fin (of_int n) | JFloat x \<Rightarrow> x | _ \<Rightarrow> NaN)"

definition below_min :: "setting_meta \<Rightarrow> pyfloat \<Rightarrow> bool" where
  "below_min meta value = (case sm_min meta of None \<Rightarrow> False | Some mn \<Rightarrow> value < meta_number mn)"

definition above_max :: "setting_meta \<Rightarrow> pyfloat \<Rightarrow> bool" where
  "above_max meta value = (case sm_max meta of None \<Rightarrow> False | Some mx \<Rightarrow> meta_number mx < value)"

text \<open>\<^verbatim>\<open>x == int(x)\<close>, where the conversion may raise.\<close>

definition is_whole :: "pyfloat \<Rightarrow> bool result" where
  "is_whole x = bindE (pf_trunc x) (\<lambda>n. Inr (x = Fin (of_int n)))"

definition whole_step :: "setting_meta \<Rightarrow> bool result" where
  "whole_step meta = (case sm_step meta of None \<Rightarrow> Inr False | Some step \<Rightarrow> is_whole (meta_number step))"

definition number_text :: "setting_meta \<Rightarrow> pyfloat \<Rightarrow> string result" where
  "number_text meta value =
    bindE (whole_step meta) (\<lambda>ws.
    bindE (if ws then is_whole value else Inr False) (\<lambda>whole.
    if whole then bindE (pf_trunc value) (\<lambda>n. Inr (int_str n)) else Inr (float_repr value)))"

text \<open>The converted value, or the message for the sender; the conversion of a number may raise.\<close>

datatype validation = Accepted string | Rejected string

definition validate_and_convert :: "string \<Rightarrow> string \<Rightarrow> validation result" where
  "validate_and_convert name raw = (case map_of SETTING_META name of
     None \<Rightarrow> Inr (Accepted raw)
   | Some meta \<Rightarrow>
      if sm_type meta = ''number'' then
        (case parse_float raw of
           None \<Rightarrow> Inr (Rejected (name @ '' must be a number''))
         | Some value \<Rightarrow>
            if below_min meta value then Inr (Rejected (name @ '' must be >= '' @ py_str (the (sm_min meta))))
            else if above_max meta value then Inr (Rejected (name @ '' must be <= '' @ py_str (the (sm_max meta))))
            else bindE (number_text meta value) (\<lambda>text. Inr (Accepted text)))
      else if sm_type meta = ''select'' then
        (if raw \<notin> set (map fst (sm_options meta))
         then Inr (Rejected (name @ '' must be one of '' @ py_str (JList (map JStr (sort (remdups (map fst (sm_options meta))))))))
         else Inr (Accepted raw))
      else if sm_type meta = ''checkbox'' then
        (if \<not> List.member [''true'', ''false'', ''1'', ''0'', ''on'', ''off''] (lower raw)
         then Inr (Rejected (name @ '' must be a boolean''))
         else Inr (Accepted (if List.member [''true'', ''1'', ''on''] (lower raw) then ''true'' else ''false'')))
      else Inr (Accepted raw))"

subsection \<open>The handlers\<close>

record mqtt_commands =
  mq_prefix :: string
  mq_device_id :: string
  mq_set_topic :: string
  mq_inverter_topic :: string
  mq_ack_topic :: string
  mq_error_topic :: string
  mq_cfg :: attributes
  mq_db :: "database option"
  mq_subscribed :: "string list"
  mq_published :: "(string \<times> json) list"

definition new_mqtt_commands :: "string \<Rightarrow> string \<Rightarrow> attributes \<Rightarrow> database option \<Rightarrow> mqtt_commands" where
  "new_mqtt_commands prefix device_id cfg db =
    (let base = prefix @ ''/'' @ device_id in
     \<lparr>mq_prefix = prefix, mq_device_id = device_id, mq_set_topic = base @ ''/set/+'', mq_inverter_topic = base @ ''/inverter/+'',
      mq_ack_topic = base @ ''/ack'', mq_error_topic = base @ ''/error'', mq_cfg = cfg, mq_db = db,
      mq_subscribed = [base @ ''/set/#'', base @ ''/inverter/#''], mq_published = []\<rparr>)"

definition publish :: "string \<Rightarrow> json \<Rightarrow> mqtt_commands \<Rightarrow> mqtt_commands" where
  "publish topic payload st = st\<lparr>mq_published := mq_published st @ [(topic, payload)]\<rparr>"

definition last_segment :: "string \<Rightarrow> string" where
  "last_segment topic = last (split_all (CHR ''/'') topic)"

text \<open>
  A message on the topic of a setting.  \<^verbatim>\<open>conn_error\<close> is the text of the exception when the database cannot
  be reached; a write that fails on an open connection is swallowed by the settings module.
\<close>

definition on_set :: "string \<Rightarrow> string \<Rightarrow> string \<Rightarrow> (mqtt_commands, unit) op" where
  "on_set conn_error topic payload st =
    (let name = last_segment topic; raw = strip payload;
         fail = (\<lambda>error. publish (mq_error_topic st) (JDict [(''name'', JStr name), (''error'', JStr error)])) in
     if \<not> List.member CONTROLLABLE_SETTINGS name then (Inr (), fail ''unknown or read-only setting'' st)
     else (case validate_and_convert name raw of
        Inl e \<Rightarrow> (Inl e, st)
      | Inr (Rejected error) \<Rightarrow> (Inr (), fail error st)
      | Inr (Accepted value) \<Rightarrow>
         (case mq_db st of
            None \<Rightarrow> (Inr (), fail conn_error st)
          | Some conn \<Rightarrow>
             let st = st\<lparr>mq_db := Some (settings_set name value conn)\<rparr>;
                 st = (if map_of (mq_cfg st) name \<noteq> None then st\<lparr>mq_cfg := AList.update name (JStr value) (mq_cfg st)\<rparr> else st)
             in (Inr (), publish (mq_ack_topic st)
                  (JDict [(''name'', JStr name), (''value'', JStr value), (''source'', JStr ''mqtt'')]) st))))"

definition on_inverter :: "string \<Rightarrow> string \<Rightarrow> mqtt_commands \<Rightarrow> mqtt_commands" where
  "on_inverter topic payload st =
    publish (mq_error_topic st) (JDict [(''param'', JStr (last_segment topic)),
      (''error'', JStr ''inverter writes not yet implemented''), (''value'', JStr (strip payload))]) st"

end
