(* ===== verification/Mqtt_Facts.thy ===== *)
theory Mqtt_Facts
  imports Mqtt_Commands Configuration_Facts
begin

text \<open>
  Properties of the MQTT commands: what a message can change and how it is answered, the bounds of the
  stored values, and the fate of a stored number that the collector reads back as an integer.
\<close>

subsection \<open>Texts that are not integers\<close>

lemma in_dropWhile: "c \<in> set xs \<Longrightarrow> \<not> P c \<Longrightarrow> c \<in> set (dropWhile P xs)"
  by (induction xs) auto

lemma in_strip: "c \<in> set s \<Longrightarrow> \<not> is_space c \<Longrightarrow> c \<in> set (strip s)"
  by (simp add: strip_def lstrip_def in_dropWhile)

definition foreign :: "char \<Rightarrow> bool" where
  "foreign c \<longleftrightarrow> \<not> is_digit c \<and> c \<notin> {CHR ''_'', CHR ''-'', CHR ''+''} \<and> \<not> is_space c"

lemma parse_digits_foreign: "c \<in> set s \<Longrightarrow> foreign c \<Longrightarrow> parse_digits acc b s = None"
  by (induction acc b s rule: parse_digits.induct) (auto simp: foreign_def)

lemma parse_int_foreign:
  assumes "c \<in> set s" "foreign c"
  shows "parse_int s = None"
proof -
  have "c \<in> set (strip s)"
    using assms by (simp add: in_strip foreign_def)
  then show ?thesis
    using assms(2) parse_digits_foreign [of c]
    by (auto simp: parse_int_def foreign_def split: list.split)
qed

lemma foreign_marks: "foreign (CHR ''.'')" "foreign (CHR ''e'')" "foreign (CHR ''n'')"
  by (simp_all add: foreign_def is_digit_def is_space_def char_code_def)

lemma format_digits_mark: "CHR ''.'' \<in> set (format_digits ds decpt) \<or> CHR ''e'' \<in> set (format_digits ds decpt)"
  by (simp add: format_digits_def)

lemma rat_repr_mark: "CHR ''.'' \<in> set (rat_repr x) \<or> CHR ''e'' \<in> set (rat_repr x)"
proof (cases "x = 0")
  case False
  obtain m k where "shortest_digits 17 \<bar>x\<bar> (dec_expo \<bar>x\<bar>) 1 = (m, k)"
    by fastforce
  then show ?thesis
    using False format_digits_mark [of "rstrip (CHR ''0'') (nat_str (nat m))" "int (length (nat_str (nat m))) - k"]
    by (auto simp: rat_repr_def Let_def)
qed (simp add: rat_repr_def)

lemma float_repr_not_int: "parse_int (float_repr x) = None"
proof -
  have "CHR ''.'' \<in> set (float_repr x) \<or> CHR ''e'' \<in> set (float_repr x) \<or> CHR ''n'' \<in> set (float_repr x)"
    using rat_repr_mark by (cases x) auto
  then show ?thesis
    using parse_int_foreign foreign_marks by blast
qed

subsection \<open>Controllable settings\<close>

lemma tenth: "0 < fl (1 / 10)" "fl (1 / 10) < 1"
proof -
  have "pow2 (- 4) = 1 / 16"
    by (simp add: pow2_def)
  then have "pow2 (- 1022) \<le> \<bar>1 / 10\<bar>"
    using pow2_mono [of "- 1022" "- 4"] by simp
  from fl_rel_err [OF this] have "\<bar>fl (1 / 10) - 1 / 10\<bar> \<le> 1 / 20"
    by simp
  then show "0 < fl (1 / 10)" "fl (1 / 10) < 1"
    by linarith+
qed

lemma tenth_not_whole: "is_whole (dbl (1 / 10)) = Inr False"
proof -
  have "\<lfloor>fl (1 / 10)\<rfloor> = 0"
    using tenth by (simp add: floor_eq_iff)
  then show ?thesis
    using tenth dbl_small(1) [of "1 / 10"] by (simp add: is_whole_def)
qed

lemma steps_whole:
  "list_all (\<lambda>(k, meta). whole_step meta = Inr False) setting_meta_1"
  "list_all (\<lambda>(k, meta). whole_step meta = Inr False) setting_meta_2"
  "list_all (\<lambda>(k, meta). whole_step meta = Inr False) setting_meta_3"
  by (simp_all add: setting_meta_1_def setting_meta_2_def setting_meta_3_def smeta_def whole_step_def meta_number_def tenth_not_whole)

lemma controllable_named: "set CONTROLLABLE_SETTINGS \<subseteq> set (map fst (setting_meta_1 @ setting_meta_3))"
  by (simp add: CONTROLLABLE_SETTINGS_def setting_meta_1_def setting_meta_3_def)

lemma controllable_meta:
  assumes "name \<in> set CONTROLLABLE_SETTINGS"
  obtains meta where "map_of SETTING_META name = Some meta" "whole_step meta = Inr False"
proof -
  have "name \<in> set (map fst (setting_meta_1 @ setting_meta_2 @ setting_meta_3))"
    using assms controllable_named by auto
  then obtain meta where "map_of (setting_meta_1 @ setting_meta_2 @ setting_meta_3) name = Some meta"
    by (metis map_of_eq_None_iff not_Some_eq set_map)
  moreover from map_of_SomeD [OF this] have "whole_step meta = Inr False"
    using steps_whole by (auto simp: list_all_iff)
  ultimately show ?thesis
    using that by (simp add: SETTING_META_def map_add_Some_iff del: map_of_append) (metis append_assoc map_add_find_right map_of_append)
qed

subsection \<open>Messages\<close>

text \<open>The values that may be stored under a setting when \<^verbatim>\<open>raw\<close> was sent.\<close>

definition within_bounds :: "setting_meta \<Rightarrow> pyfloat \<Rightarrow> bool" where
  "within_bounds meta x \<longleftrightarrow> x = NaN \<or> (sm_min meta = None \<or> meta_number (the (sm_min meta)) = NaN \<or> meta_number (the (sm_min meta)) \<le> x)
     \<and> (sm_max meta = None \<or> meta_number (the (sm_max meta)) = NaN \<or> x \<le> meta_number (the (sm_max meta)))"

definition admissible :: "setting_meta \<Rightarrow> string \<Rightarrow> string \<Rightarrow> bool" where
  "admissible meta raw v \<longleftrightarrow>
     (if sm_type meta = ''number'' then (case parse_float raw of None \<Rightarrow> False | Some x \<Rightarrow> v = float_repr x \<and> within_bounds meta x)
      else if sm_type meta = ''select'' then v = raw \<and> raw \<in> set (map fst (sm_options meta))
      else if sm_type meta = ''checkbox'' then v = ''true'' \<and> lower raw \<in> {''true'', ''1'', ''on''} \<or> v = ''false'' \<and> lower raw \<in> {''false'', ''0'', ''off''}
      else v = raw)"

lemma pf_not_less: "\<not> x < (y :: pyfloat) \<longleftrightarrow> x = NaN \<or> y = NaN \<or> y \<le> x"
  by (cases x; cases y) (auto simp: less_pyfloat_def)

lemma bounds_checked: "within_bounds meta x \<longleftrightarrow> \<not> below_min meta x \<and> \<not> above_max meta x"
  by (cases "sm_min meta"; cases "sm_max meta") (auto simp: below_min_def above_max_def within_bounds_def pf_not_less)

lemma validate_controllable:
  assumes "map_of SETTING_META name = Some meta" "whole_step meta = Inr False"
  obtains v where "validate_and_convert name raw = Inr (Accepted v)" "admissible meta raw v"
  | error where "validate_and_convert name raw = Inr (Rejected error)" "\<nexists>v. admissible meta raw v"
proof (cases "validate_and_convert name raw")
  case (Inl e)
  then show ?thesis
    using assms by (auto simp: validate_and_convert_def number_text_def split: if_splits option.splits)
next
  case (Inr r)
  note facts = validate_and_convert_def admissible_def number_text_def assms bounds_checked
  show ?thesis
  proof (cases r)
    case (Accepted v)
    have "admissible meta raw v"
      using Inr Accepted by (auto simp: facts split: if_splits option.splits)
    then show ?thesis
      using that(1) Inr Accepted by simp
  next
    case (Rejected error)
    have "\<nexists>v. admissible meta raw v"
      using Inr Rejected by (auto simp: facts split: if_splits option.splits)
    then show ?thesis
      using that(2) Inr Rejected by simp
  qed
qed

text \<open>C17: a message on a setting's topic never raises and is answered by exactly one publication.  It is
  acknowledged exactly when the setting is controllable, its metadata admits the stripped payload and the
  database can be reached; then the converted value, and nothing else, is written to the setting's row
  and, if the running configuration has such an attribute, to that attribute.  Otherwise the answer is on
  the error topic and nothing changes.\<close>

theorem mqtt_set_spec:
  fixes topic payload conn_error :: string and st :: mqtt_commands
  defines "name \<equiv> last_segment topic"
  shows "\<exists>t p. fst (on_set conn_error topic payload st) = Inr ()
     \<and> mq_published (snd (on_set conn_error topic payload st)) = mq_published st @ [(t, p)]
     \<and> (if name \<in> set CONTROLLABLE_SETTINGS \<and> mq_db st \<noteq> None
          \<and> (\<exists>v. admissible (the (map_of SETTING_META name)) (strip payload) v)
        then t = mq_ack_topic st \<and> (\<exists>v. admissible (the (map_of SETTING_META name)) (strip payload) v
          \<and> p = JDict [(''name'', JStr name), (''value'', JStr v), (''source'', JStr ''mqtt'')]
          \<and> mq_db (snd (on_set conn_error topic payload st)) = Some (settings_set name v (the (mq_db st)))
          \<and> (\<forall>n. attr (mq_cfg (snd (on_set conn_error topic payload st))) n
               = (if n = name \<and> map_of (mq_cfg st) n \<noteq> None then JStr v else attr (mq_cfg st) n)))
        else t = mq_error_topic st \<and> mq_db (snd (on_set conn_error topic payload st)) = mq_db st
          \<and> mq_cfg (snd (on_set conn_error topic payload st)) = mq_cfg st)"
proof (cases "name \<in> set CONTROLLABLE_SETTINGS")
  case False
  then show ?thesis
    by (simp add: on_set_def name_def [symmetric] Let_def publish_def)
next
  case True
  then obtain meta where meta: "map_of SETTING_META name = Some meta" "whole_step meta = Inr False"
    using controllable_meta by blast
  from meta show ?thesis
  proof (cases rule: validate_controllable [where raw = "strip payload"])
    case (1 v)
    then show ?thesis
      using True meta(1) by (cases "mq_db st")
        (auto simp: on_set_def name_def [symmetric] Let_def publish_def attr_update)
  next
    case (2 error)
    then show ?thesis
      using True meta(1) by (auto simp: on_set_def name_def [symmetric] Let_def publish_def)
  qed
qed

subsection \<open>Numbers read back as integers\<close>

lemma smtp_port_meta: "\<exists>meta. map_of SETTING_META ''alerts_email_smtp_port'' = Some meta \<and> sm_type meta = ''number''
    \<and> sm_min meta = Some (JInt 1) \<and> sm_max meta = Some (JInt 65535)"
proof -
  have "map_of setting_meta_3 ''alerts_email_smtp_port'' \<noteq> None" "map_of setting_meta_1 ''alerts_email_smtp_port'' = None"
    "map_of setting_meta_2 ''alerts_email_smtp_port'' = None"
    by (simp_all add: setting_meta_1_def setting_meta_2_def setting_meta_3_def)
  then have "map_of SETTING_META ''alerts_email_smtp_port'' = map_of setting_meta_3 ''alerts_email_smtp_port''"
    by (auto simp: SETTING_META_def map_add_def split: option.split)
  then show ?thesis
    by (simp add: setting_meta_3_def smeta_def)
qed

text \<open>The port of the mail server cannot be changed over MQTT.  Every number from 1 to 65535 is acknowledged and
  stored, but as the text of a float, which the collector does not read as an integer: loading the
  settings keeps the old port.\<close>

lemma mqtt_port_change_lost:
  assumes "last_segment topic = ''alerts_email_smtp_port''" "parse_float (strip payload) = Some x"
    and "Fin 1 \<le> x" "x \<le> Fin 65535" "mq_db st = Some (Readable rows)"
  shows "\<exists>rows'. mq_db (snd (on_set conn_error topic payload st)) = Some (Readable rows')
     \<and> map_of rows' ''alerts_email_smtp_port'' = Some (float_repr x)
     \<and> mq_published (snd (on_set conn_error topic payload st)) = mq_published st @ [(mq_ack_topic st,
          JDict [(''name'', JStr ''alerts_email_smtp_port''), (''value'', JStr (float_repr x)), (''source'', JStr ''mqtt'')])]
     \<and> attr (load_db_output_settings (Some (Readable rows')) out) ''alerts_email_smtp_port'' = attr out ''alerts_email_smtp_port''"
proof -
  have named: "''alerts_email_smtp_port'' \<in> set CONTROLLABLE_SETTINGS" "(''alerts_email_smtp_port'', CastInt) \<in> set OUTPUT_SETTINGS"
    by (simp_all add: CONTROLLABLE_SETTINGS_def OUTPUT_SETTINGS_def)
  obtain meta where meta: "map_of SETTING_META ''alerts_email_smtp_port'' = Some meta" "sm_type meta = ''number''"
    "sm_min meta = Some (JInt 1)" "sm_max meta = Some (JInt 65535)"
    using smtp_port_meta by blast
  have "whole_step meta = Inr False"
    using controllable_meta [OF named(1)] meta(1) by auto
  moreover have "within_bounds meta x"
    using assms(3,4) meta(3,4) by (simp add: within_bounds_def meta_number_def)
  ultimately have valid: "validate_and_convert ''alerts_email_smtp_port'' (strip payload) = Inr (Accepted (float_repr x))"
    using meta assms(2) by (simp add: validate_and_convert_def number_text_def bounds_checked)
  let ?rows = "AList.update ''alerts_email_smtp_port'' (float_repr x) rows"
  have "override (Readable ?rows) ''alerts_email_smtp_port'' current CastInt = current" for current
    by (simp add: override_def settings_get_def update_conv' convert_setting_def float_repr_not_int)
  then have "attr (load_db_output_settings (Some (Readable ?rows)) out) ''alerts_email_smtp_port'' = attr out ''alerts_email_smtp_port''"
    using output_entry [OF named(2)] by (simp add: load_outputs_def)
  moreover have "mq_db (snd (on_set conn_error topic payload st)) = Some (Readable ?rows)
     \<and> mq_published (snd (on_set conn_error topic payload st)) = mq_published st @ [(mq_ack_topic st,
          JDict [(''name'', JStr ''alerts_email_smtp_port''), (''value'', JStr (float_repr x)), (''source'', JStr ''mqtt'')])]"
    using assms(5) named(1) by (simp add: on_set_def assms(1) valid Let_def publish_def settings_set_def)
  ultimately show ?thesis
    by (auto simp: update_conv')
qed

end
