(* ===== verification/Notifiers.thy ===== *)
theory Notifiers
  imports Configuration
begin

text \<open>
  E-mail and webhook notifications, \<^verbatim>\<open>src/collector/notifiers.py\<close>.  The configuration is a dictionary of
  attributes; the clock and the formatted time stamps are parameters.  What is handed to the mail server
  or the webhook is kept in a list; the outcome of a delivery does not feed back into the state, and an
  exception of a delivery is dropped after the throttle has been set.
\<close>

subsection \<open>Reading the configuration\<close>

definition getattr :: "attributes \<Rightarrow> string \<Rightarrow> json \<Rightarrow> json" where
  "getattr cfg name dflt = (case map_of cfg name of Some v \<Rightarrow> v | None \<Rightarrow> dflt)"

definition cfg_bool :: "attributes \<Rightarrow> string \<Rightarrow> bool \<Rightarrow> bool" where
  "cfg_bool cfg name dflt = (case getattr cfg name (JBool dflt) of
     JBool b \<Rightarrow> b
   | v \<Rightarrow> List.member [''true'', ''1'', ''yes'', ''on''] (lower (py_str v)))"

definition cfg_str :: "attributes \<Rightarrow> string \<Rightarrow> string" where
  "cfg_str cfg name = (case getattr cfg name (JStr []) of JNull \<Rightarrow> [] | v \<Rightarrow> py_str v)"

definition cfg_int :: "attributes \<Rightarrow> string \<Rightarrow> int \<Rightarrow> int result" where
  "cfg_int cfg name dflt =
    (let v = getattr cfg name (JInt dflt) in
     case (if truthy v then py_int v else Inr dflt) of
       Inr n \<Rightarrow> Inr n
     | Inl TypeError \<Rightarrow> Inr dflt
     | Inl ValueError \<Rightarrow> Inr dflt
     | Inl e \<Rightarrow> Inl e)"

subsection \<open>Texts\<close>

definition newline :: string where
  "newline = [CHR 0x0A]"

definition format_alert :: "string \<Rightarrow> string \<Rightarrow> bool \<Rightarrow> pyfloat \<Rightarrow> string \<Rightarrow> string \<times> string" where
  "format_alert ts alert_name active amount message =
    (let state_str = (if active then ''ACTIVE'' else ''CLEARED'') in
     (''[lux-mon] '' @ py_title (replace_underscores alert_name) @ '' '' @ state_str,
      ''lux-mon alert notification'' @ newline
      @ ''-------------------------'' @ newline
      @ ''Alert:    '' @ alert_name @ newline
      @ ''State:    '' @ state_str @ newline
      @ ''Value:    '' @ float_repr amount @ newline
      @ ''Message:  '' @ message @ newline
      @ ''Time:     '' @ ts @ newline))"

subsection \<open>Throttling\<close>

record mail =
  ml_host :: string
  ml_port :: int
  ml_starttls :: bool
  ml_username :: string
  ml_password :: string
  ml_from :: string
  ml_recipients :: "string list"
  ml_subject :: string
  ml_body :: string

datatype delivery = Mail mail | Post string json

text \<open>A delivery is kept with the time and the alert and state it is about.\<close>

record notifiers =
  nt_cfg :: attributes
  nt_last_sent :: "string \<Rightarrow> pyfloat option"
  nt_deliveries :: "(pyfloat \<times> string \<times> bool \<times> delivery) list"

definition new_notifiers :: "attributes \<Rightarrow> notifiers" where
  "new_notifiers cfg = \<lparr>nt_cfg = cfg, nt_last_sent = Map.empty, nt_deliveries = []\<rparr>"

text \<open>The clock readings of one evaluation: seconds, and three formatted time stamps.\<close>

record alert_clock =
  ac_now :: pyfloat
  ac_local :: string
  ac_zoned :: string
  ac_iso :: string

definition min_interval_sec :: pyfloat where
  "min_interval_sec = Fin 300"

definition rate_ok :: "pyfloat \<Rightarrow> string \<Rightarrow> notifiers \<Rightarrow> bool \<times> notifiers" where
  "rate_ok now name st =
    (let last = (case nt_last_sent st name of Some t \<Rightarrow> t | None \<Rightarrow> 0) in
     if now - last < min_interval_sec then (False, st)
     else (True, st\<lparr>nt_last_sent := (nt_last_sent st)(name \<mapsto> now)\<rparr>))"

definition deliver :: "alert_clock \<Rightarrow> string \<Rightarrow> bool \<Rightarrow> delivery \<Rightarrow> notifiers \<Rightarrow> notifiers" where
  "deliver clock alert_name active d st = st\<lparr>nt_deliveries := nt_deliveries st @ [(ac_now clock, alert_name, active, d)]\<rparr>"

subsection \<open>E-mail\<close>

fun split_addresses :: "string \<Rightarrow> string list" where
  "split_addresses [] = [[]]"
| "split_addresses (c # cs) =
    (if c = CHR '','' \<or> c = CHR '';'' then [] # split_addresses cs
     else (case split_addresses cs of w # ws \<Rightarrow> (c # w) # ws | [] \<Rightarrow> [[c]]))"

definition recipients_of :: "string \<Rightarrow> string list" where
  "recipients_of to_addrs = filter (\<lambda>a. a \<noteq> []) (map strip (split_addresses to_addrs))"

definition send_email :: "alert_clock \<Rightarrow> string \<Rightarrow> string \<Rightarrow> string \<Rightarrow> bool \<Rightarrow> notifiers \<Rightarrow> notifiers" where
  "send_email clock subject body alert_name active st =
    (let cfg = nt_cfg st;
         host = cfg_str cfg ''alerts_email_smtp_host'';
         username = cfg_str cfg ''alerts_email_username'';
         password = cfg_str cfg ''alerts_email_password'';
         from_addr = cfg_str cfg ''alerts_email_from'';
         to_addrs = cfg_str cfg ''alerts_email_to'' in
     case cfg_int cfg ''alerts_email_smtp_port'' 587 of
       Inl e \<Rightarrow> st
     | Inr port \<Rightarrow>
        if host = [] \<or> username = [] \<or> password = [] \<or> from_addr = [] \<or> to_addrs = [] then st
        else (case rate_ok (ac_now clock) (''email:'' @ alert_name) st of (ok, st) \<Rightarrow>
          if \<not> ok then st
          else
          let recipients = recipients_of to_addrs in
          if recipients = [] then st
          else deliver clock alert_name active (Mail \<lparr>ml_host = host, ml_port = port,
             ml_starttls = (cfg_bool cfg ''alerts_email_tls'' True \<and> port \<noteq> 465), ml_username = username, ml_password = password,
             ml_from = from_addr, ml_recipients = recipients, ml_subject = subject, ml_body = body\<rparr>) st))"

subsection \<open>Webhook\<close>

definition send_webhook :: "alert_clock \<Rightarrow> string \<Rightarrow> bool \<Rightarrow> pyfloat \<Rightarrow> string \<Rightarrow> string \<Rightarrow> string \<Rightarrow> notifiers \<Rightarrow> notifiers" where
  "send_webhook clock alert_name active amount message subject body st =
    (let url = cfg_str (nt_cfg st) ''alerts_webhook_url'' in
     if url = [] then st
     else (case rate_ok (ac_now clock) (''webhook:'' @ alert_name) st of (ok, st) \<Rightarrow>
       if \<not> ok then st
       else deliver clock alert_name active (Post url (JDict [
         (''alert'', JStr alert_name), (''active'', JBool active), (''state'', JStr (if active then ''ON'' else ''OFF'')),
         (''value'', JFloat amount), (''message'', JStr message), (''subject'', JStr subject), (''body'', JStr body),
         (''ts'', JStr (ac_iso clock))])) st))"

definition notifiers_send :: "alert_clock \<Rightarrow> string \<Rightarrow> bool \<Rightarrow> pyfloat \<Rightarrow> string \<Rightarrow> notifiers \<Rightarrow> notifiers" where
  "notifiers_send clock alert_name active amount message st =
    (if \<not> cfg_bool (nt_cfg st) ''alerts_enabled'' False then st
     else (case format_alert (ac_zoned clock) alert_name active amount message of (subject, body) \<Rightarrow>
       let st = (if cfg_bool (nt_cfg st) ''alerts_email_enabled'' False then send_email clock subject body alert_name active st else st)
       in if cfg_bool (nt_cfg st) ''alerts_webhook_enabled'' False
          then send_webhook clock alert_name active amount message subject body st else st))"

end
