(* ===== verification/Alerts.thy ===== *)
theory Alerts
  imports Notifiers Registers
begin

text \<open>
  The alerts, \<^verbatim>\<open>src/collector/alerts.py\<close>: the rules over a decoded snapshot, the timer of the grid loss, the
  state of each alert, and the publication of its changes to MQTT, the alert table and the notifiers.
  The MQTT client and the database connection are present or not; what they accept is kept in lists.
  Every call of the client and every INSERT may raise, which \<^verbatim>\<open>_publish\<close> catches: the outcomes of the next
  calls are part of the state, and calls beyond them succeed.  A ghost list keeps each change that
  \<^verbatim>\<open>evaluate\<close> hands to \<^verbatim>\<open>_publish\<close>, whatever becomes of it.
\<close>

subsection \<open>State\<close>

type_synonym alert_change = "alert_clock \<times> string \<times> bool \<times> pyfloat \<times> string"

record alerts =
  al_cfg :: attributes
  al_mqtt :: bool
  al_db :: bool
  al_notifiers :: notifiers
  al_state :: "string \<Rightarrow> bool option"
  al_grid_lost_since :: "pyfloat option"
  al_ha_announced :: "string list"
  al_messages :: "(string \<times> json) list"
  al_rows :: "(string \<times> string \<times> pyfloat \<times> string) list"
  al_mqtt_ok :: "bool list"
  al_discovery_ok :: "bool list"
  al_db_ok :: "bool list"
  al_changes :: "alert_change list"

text \<open>The client and the connection are those of the outputs; connecting a client of its own, when the
  outputs have none, is left to the caller.\<close>

definition new_alerts :: "attributes \<Rightarrow> bool \<Rightarrow> bool \<Rightarrow> alerts" where
  "new_alerts cfg mqtt db = \<lparr>al_cfg = cfg, al_mqtt = mqtt, al_db = db, al_notifiers = new_notifiers cfg,
     al_state = Map.empty, al_grid_lost_since = None, al_ha_announced = [], al_messages = [], al_rows = [],
     al_mqtt_ok = [], al_discovery_ok = [], al_db_ok = [], al_changes = []\<rparr>"

subsection \<open>Readings and thresholds\<close>

definition reading_num :: "(string \<times> reading) list \<Rightarrow> string \<Rightarrow> pyfloat option" where
  "reading_num decoded key = map_option rv_value (map_of decoded key)"

definition cfg_float :: "attributes \<Rightarrow> string \<Rightarrow> pyfloat \<Rightarrow> pyfloat result" where
  "cfg_float cfg name dflt =
    (let v = getattr cfg name (JFloat dflt) in
     case (if truthy v then py_float v else Inr dflt) of
       Inr x \<Rightarrow> Inr x
     | Inl TypeError \<Rightarrow> Inr dflt
     | Inl ValueError \<Rightarrow> Inr dflt
     | Inl e \<Rightarrow> Inl e)"

definition num_true :: "pyfloat option \<Rightarrow> bool" where
  "num_true x \<longleftrightarrow> x \<noteq> None \<and> x \<noteq> Some (Fin 0)"

definition or_zero :: "pyfloat option \<Rightarrow> pyfloat" where
  "or_zero x = (if num_true x then the x else Fin 0)"

definition num_str :: "pyfloat option \<Rightarrow> string" where
  "num_str x = (case x of Some v \<Rightarrow> float_repr v | None \<Rightarrow> ''None'')"

text \<open>\<^verbatim>\<open>f"{x:.0f}"\<close>.\<close>

definition whole_str :: "pyfloat \<Rightarrow> string" where
  "whole_str x = (case pf_round x of Inr n \<Rightarrow> int_str n | Inl _ \<Rightarrow> float_repr x)"

definition celsius :: string where
  "celsius = [CHR 0xC2, CHR 0xB0, CHR ''C'']"

subsection \<open>Rules\<close>

text \<open>The result of a rule: whether the alert is active, its value and its message.\<close>

type_synonym rule_result = "bool \<times> pyfloat \<times> string"

definition at_or_below :: "string \<Rightarrow> string \<Rightarrow> pyfloat option \<Rightarrow> pyfloat \<Rightarrow> rule_result" where
  "at_or_below what unit x limit =
    ((case x of Some v \<Rightarrow> v \<le> limit | None \<Rightarrow> False), or_zero x,
     what @ '' '' @ num_str x @ unit @ '' at or below '' @ float_repr limit @ unit)"

definition at_or_above :: "string \<Rightarrow> string \<Rightarrow> pyfloat option \<Rightarrow> pyfloat \<Rightarrow> rule_result" where
  "at_or_above what unit x limit =
    ((case x of Some v \<Rightarrow> limit \<le> v | None \<Rightarrow> False), or_zero x,
     what @ '' '' @ num_str x @ unit @ '' at or above '' @ float_repr limit @ unit)"

definition grid_present :: "(string \<times> reading) list \<Rightarrow> bool" where
  "grid_present decoded \<longleftrightarrow>
    (case reading_num decoded ''grid_voltage_r'' of Some v \<Rightarrow> Fin 80 < v | None \<Rightarrow> False)
    \<and> (case reading_num decoded ''grid_frequency'' of Some f \<Rightarrow> Fin 45 < f | None \<Rightarrow> False)"

text \<open>The grid rule with its timer: the time since which the grid is absent.\<close>

definition grid_rule :: "pyfloat \<Rightarrow> pyfloat \<Rightarrow> (string \<times> reading) list \<Rightarrow> pyfloat option \<Rightarrow> rule_result \<times> pyfloat option" where
  "grid_rule now threshold decoded lost_since =
    (let grid_v = reading_num decoded ''grid_voltage_r'' in
     if grid_present decoded then ((False, or_zero grid_v, ''Grid present''), None)
     else
     let since = (case lost_since of None \<Rightarrow> now | Some t \<Rightarrow> t);
         lost_for = now - since in
     ((threshold \<le> lost_for, or_zero grid_v, ''Grid absent for '' @ whole_str lost_for @ ''s''), Some since))"

definition fault_reading :: "(string \<times> reading) list \<Rightarrow> pyfloat option" where
  "fault_reading decoded =
    (let fault = reading_num decoded ''fault''; code = reading_num decoded ''fault_code'' in
     if num_true fault then fault else if num_true code then code else reading_num decoded ''error'')"

definition fault_rule :: "(string \<times> reading) list \<Rightarrow> rule_result" where
  "fault_rule decoded =
    (let fault = fault_reading decoded in
     if num_true fault then (True, the fault, ''Fault code '' @ num_str fault @ '' active'')
     else (False, or_zero fault, ''No active fault''))"

subsection \<open>Publication\<close>

definition cfg_text :: "attributes \<Rightarrow> string \<Rightarrow> string \<Rightarrow> string" where
  "cfg_text cfg name dflt = (let v = getattr cfg name (JStr dflt) in if truthy v then py_str v else dflt)"

definition alert_topic :: "attributes \<Rightarrow> string \<Rightarrow> string" where
  "alert_topic cfg name = cfg_text cfg ''mqtt_topic_prefix'' ''luxmon'' @ ''/'' @ cfg_text cfg ''mqtt_device_id'' ''luxmon_solar''
     @ ''/alert/'' @ name"

definition discovery_config :: "attributes \<Rightarrow> string \<Rightarrow> json" where
  "discovery_config cfg name =
    (let device_id = cfg_text cfg ''mqtt_device_id'' ''luxmon_solar'' in
     JDict [
      (''name'', JStr (py_title (replace_underscores name))),
      (''unique_id'', JStr (device_id @ ''_alert_'' @ name)),
      (''state_topic'', JStr (alert_topic cfg name)),
      (''value_template'', JStr ''{{ value_json.state }}''),
      (''payload_on'', JStr ''ON''),
      (''payload_off'', JStr ''OFF''),
      (''device_class'', JStr ''problem''),
      (''device'', JDict [
        (''identifiers'', JList [JStr device_id]),
        (''name'', JStr (cfg_text cfg ''mqtt_device_name'' ''luxmon'')),
        (''model'', JStr ''lux-mon''),
        (''manufacturer'', JStr ''lux-mon'')])])"

text \<open>Whether the next call succeeds.\<close>

definition call_ok :: "bool list \<Rightarrow> bool" where
  "call_ok outcomes = (case outcomes of [] \<Rightarrow> True | ok # _ \<Rightarrow> ok)"

definition publish_ha_discovery :: "string \<Rightarrow> alerts \<Rightarrow> alerts" where
  "publish_ha_discovery name st =
    (if List.member (al_ha_announced st) name then st
     else
     let ok = call_ok (al_discovery_ok st);
         st = st\<lparr>al_ha_announced := name # al_ha_announced st, al_discovery_ok := tl (al_discovery_ok st)\<rparr> in
     if ok then st\<lparr>al_messages := al_messages st @ [(cfg_text (al_cfg st) ''mqtt_ha_prefix'' ''homeassistant'' @ ''/binary_sensor/''
         @ cfg_text (al_cfg st) ''mqtt_device_id'' ''luxmon_solar'' @ ''_alert_'' @ name @ ''/config'', discovery_config (al_cfg st) name)]\<rparr>
     else st)"

definition state_str :: "bool \<Rightarrow> string" where
  "state_str active = (if active then ''ON'' else ''OFF'')"

definition alert_payload :: "alert_clock \<Rightarrow> bool \<Rightarrow> pyfloat \<Rightarrow> string \<Rightarrow> json" where
  "alert_payload clock active amount message = JDict [(''state'', JStr (state_str active)), (''value'', JFloat amount),
     (''message'', JStr message), (''ts'', JStr (ac_iso clock))]"

definition publish_state :: "alert_clock \<Rightarrow> string \<Rightarrow> bool \<Rightarrow> pyfloat \<Rightarrow> string \<Rightarrow> alerts \<Rightarrow> alerts" where
  "publish_state clock name active amount message st =
    (let ok = call_ok (al_mqtt_ok st);
         st = st\<lparr>al_mqtt_ok := tl (al_mqtt_ok st)\<rparr> in
     if ok then st\<lparr>al_messages := al_messages st @ [(alert_topic (al_cfg st) name, alert_payload clock active amount message)]\<rparr>
     else st)"

definition insert_alert :: "string \<Rightarrow> bool \<Rightarrow> pyfloat \<Rightarrow> string \<Rightarrow> alerts \<Rightarrow> alerts" where
  "insert_alert name active amount message st =
    (let ok = call_ok (al_db_ok st);
         st = st\<lparr>al_db_ok := tl (al_db_ok st)\<rparr> in
     if ok then st\<lparr>al_rows := al_rows st @ [(name, state_str active, amount, message)]\<rparr> else st)"

definition publish_alert :: "alert_clock \<Rightarrow> string \<Rightarrow> bool \<Rightarrow> pyfloat \<Rightarrow> string \<Rightarrow> alerts \<Rightarrow> alerts" where
  "publish_alert clock name active amount message st =
    (let st = st\<lparr>al_changes := al_changes st @ [(clock, name, active, amount, message)]\<rparr>;
         st = (if al_mqtt st then
           (let st = publish_state clock name active amount message st in
            if cfg_bool (al_cfg st) ''mqtt_ha_discovery'' True then publish_ha_discovery name st else st)
         else st)
     in if al_db st then insert_alert name active amount message st else st)"

subsection \<open>Evaluation\<close>

record alert_status =
  as_active :: bool
  as_value :: pyfloat
  as_message :: string
  as_since :: string

text \<open>One alert: store its state, publish and notify when it changed.\<close>

definition update_alert :: "alert_clock \<Rightarrow> string \<times> rule_result \<Rightarrow> alerts \<Rightarrow> alerts" where
  "update_alert clock = (\<lambda>(name, is_active, amount, message) st.
    let was_active = (case al_state st name of Some b \<Rightarrow> b | None \<Rightarrow> False);
        st = st\<lparr>al_state := (al_state st)(name \<mapsto> is_active)\<rparr> in
    if is_active \<noteq> was_active then
      (let st = publish_alert clock name is_active amount message st in
       st\<lparr>al_notifiers := notifiers_send clock name is_active amount message (al_notifiers st)\<rparr>)
    else st)"

definition status_of :: "alert_clock \<Rightarrow> string \<times> rule_result \<Rightarrow> string \<times> alert_status" where
  "status_of clock = (\<lambda>(name, is_active, amount, message).
    (name, \<lparr>as_active = is_active, as_value = amount, as_message = message, as_since = ac_local clock\<rparr>))"

record alert_limits =
  li_soc_low :: pyfloat
  li_soc_critical :: pyfloat
  li_battery_temp :: pyfloat
  li_inverter_temp :: pyfloat
  li_grid_lost :: pyfloat

definition alert_thresholds :: "attributes \<Rightarrow> alert_limits result" where
  "alert_thresholds cfg =
    bindE (cfg_float cfg ''alerts_soc_low'' (Fin 20)) (\<lambda>soc_low.
    bindE (cfg_float cfg ''alerts_soc_critical'' (Fin 10)) (\<lambda>soc_critical.
    bindE (cfg_float cfg ''alerts_battery_temp_high'' (Fin 50)) (\<lambda>bat_temp_high.
    bindE (cfg_float cfg ''alerts_inverter_temp_high'' (Fin 60)) (\<lambda>inv_temp_high.
    bindE (cfg_float cfg ''alerts_grid_lost_threshold_sec'' (Fin 30)) (\<lambda>grid_threshold.
    Inr \<lparr>li_soc_low = soc_low, li_soc_critical = soc_critical, li_battery_temp = bat_temp_high,
      li_inverter_temp = inv_temp_high, li_grid_lost = grid_threshold\<rparr>)))))"

definition alert_results :: "alert_limits \<Rightarrow> (string \<times> reading) list \<Rightarrow> rule_result \<Rightarrow> (string \<times> rule_result) list" where
  "alert_results limits decoded grid = [
     (''battery_soc_low'', at_or_below ''Battery SOC'' ''%'' (reading_num decoded ''soc'') (li_soc_low limits)),
     (''battery_soc_critical'', at_or_below ''Battery SOC'' ''%'' (reading_num decoded ''soc'') (li_soc_critical limits)),
     (''battery_temp_high'', at_or_above ''Battery temperature'' celsius (reading_num decoded ''temp_battery'') (li_battery_temp limits)),
     (''inverter_temp_high'', at_or_above ''Inverter temperature'' celsius (reading_num decoded ''temp_inverter'') (li_inverter_temp limits)),
     (''grid_loss'', grid),
     (''fault_active'', fault_rule decoded)]"

definition evaluate_alerts :: "alert_clock \<Rightarrow> (string \<times> reading) list \<Rightarrow> alerts
    \<Rightarrow> (string \<times> alert_status) list result \<times> alerts" where
  "evaluate_alerts clock decoded st =
    (if \<not> cfg_bool (al_cfg st) ''alerts_enabled'' False then (Inr [], st)
     else (case alert_thresholds (al_cfg st) of
        Inl e \<Rightarrow> (Inl e, st)
      | Inr limits \<Rightarrow>
         (case grid_rule (ac_now clock) (li_grid_lost limits) decoded (al_grid_lost_since st) of (grid, since) \<Rightarrow>
           let results = alert_results limits decoded grid;
               st = foldl (\<lambda>st r. update_alert clock r st) (st\<lparr>al_grid_lost_since := since\<rparr>) results in
           (Inr (map (status_of clock) results), st))))"

end
