(* ===== verification/Alerts_Facts.thy ===== *)
theory Alerts_Facts
  imports Alerts
begin

text \<open>
  Properties of the alerts over sequences of evaluations: the published changes of each alert alternate,
  the grid timer, and what the throttling of notifications does to a change that comes soon after
  another one.
\<close>

fun alert_run :: "(alert_clock \<times> (string \<times> reading) list) list \<Rightarrow> alerts \<Rightarrow> alerts" where
  "alert_run [] st = st"
| "alert_run ((clock, decoded) # evs) st = alert_run evs (snd (evaluate_alerts clock decoded st))"

lemma alert_run_append: "alert_run (xs @ ys) st = alert_run ys (alert_run xs st)"
  by (induction xs st rule: alert_run.induct) simp_all

subsection \<open>One update\<close>

text \<open>The calls that succeed, given the outcomes of the calls in order.\<close>

fun succeeded :: "bool list \<Rightarrow> 'a list \<Rightarrow> 'a list" where
  "succeeded outcomes [] = []"
| "succeeded outcomes (x # xs) = (if call_ok outcomes then [x] else []) @ succeeded (tl outcomes) xs"

lemma call_ok_Nil [simp]: "call_ok []"
  by (simp add: call_ok_def)

lemma succeeded_snoc:
  "succeeded outcomes (xs @ [x]) = succeeded outcomes xs @ (if call_ok (drop (length xs) outcomes) then [x] else [])"
  by (induction outcomes xs rule: succeeded.induct) (simp_all add: drop_Suc)

lemma succeeded_all: "succeeded [] xs = xs"
  by (induction xs) simp_all

text \<open>The row and the message of a change; a message of the state is told from a discovery message by
  its first key.\<close>

fun change_row :: "alert_change \<Rightarrow> string \<times> string \<times> pyfloat \<times> string" where
  "change_row (c, n, a, v, m) = (n, state_str a, v, m)"

fun change_message :: "attributes \<Rightarrow> alert_change \<Rightarrow> string \<times> json" where
  "change_message cfg (c, n, a, v, m) = (alert_topic cfg n, alert_payload c a v m)"

fun state_message :: "string \<times> json \<Rightarrow> bool" where
  "state_message (t, JDict ((k, _) # _)) \<longleftrightarrow> k = ''state''"
| "state_message _ \<longleftrightarrow> False"

lemma state_messages [simp]: "state_message (change_message cfg ch)" "\<not> state_message (t, discovery_config cfg n)"
  by (cases ch; simp add: alert_payload_def) (simp add: discovery_config_def Let_def)

lemma publish_state_parts [simp]:
  "al_cfg (publish_state c n a v m st) = al_cfg st" "al_db (publish_state c n a v m st) = al_db st"
  "al_mqtt (publish_state c n a v m st) = al_mqtt st" "al_state (publish_state c n a v m st) = al_state st"
  "al_notifiers (publish_state c n a v m st) = al_notifiers st" "al_changes (publish_state c n a v m st) = al_changes st"
  "al_grid_lost_since (publish_state c n a v m st) = al_grid_lost_since st"
  "al_rows (publish_state c n a v m st) = al_rows st" "al_db_ok (publish_state c n a v m st) = al_db_ok st"
  "al_mqtt_ok (publish_state c n a v m st) = tl (al_mqtt_ok st)"
  "filter state_message (al_messages (publish_state c n a v m st)) = filter state_message (al_messages st)
     @ (if call_ok (al_mqtt_ok st) then [change_message (al_cfg st) (c, n, a, v, m)] else [])"
  using state_messages(1) [of "al_cfg st" "(c, n, a, v, m)"] by (simp_all add: publish_state_def Let_def)

lemma publish_ha_discovery_parts [simp]:
  "al_cfg (publish_ha_discovery n st) = al_cfg st" "al_db (publish_ha_discovery n st) = al_db st"
  "al_mqtt (publish_ha_discovery n st) = al_mqtt st" "al_state (publish_ha_discovery n st) = al_state st"
  "al_notifiers (publish_ha_discovery n st) = al_notifiers st" "al_changes (publish_ha_discovery n st) = al_changes st"
  "al_grid_lost_since (publish_ha_discovery n st) = al_grid_lost_since st"
  "al_rows (publish_ha_discovery n st) = al_rows st" "al_db_ok (publish_ha_discovery n st) = al_db_ok st"
  "al_mqtt_ok (publish_ha_discovery n st) = al_mqtt_ok st"
  "filter state_message (al_messages (publish_ha_discovery n st)) = filter state_message (al_messages st)"
  by (simp_all add: publish_ha_discovery_def Let_def)

lemma insert_alert_parts [simp]:
  "al_cfg (insert_alert n a v m st) = al_cfg st" "al_db (insert_alert n a v m st) = al_db st"
  "al_mqtt (insert_alert n a v m st) = al_mqtt st" "al_state (insert_alert n a v m st) = al_state st"
  "al_notifiers (insert_alert n a v m st) = al_notifiers st" "al_changes (insert_alert n a v m st) = al_changes st"
  "al_grid_lost_since (insert_alert n a v m st) = al_grid_lost_since st"
  "al_rows (insert_alert n a v m st) = al_rows st @ (if call_ok (al_db_ok st) then [(n, state_str a, v, m)] else [])"
  "al_db_ok (insert_alert n a v m st) = tl (al_db_ok st)" "al_mqtt_ok (insert_alert n a v m st) = al_mqtt_ok st"
  "al_messages (insert_alert n a v m st) = al_messages st"
  by (simp_all add: insert_alert_def Let_def)

lemma publish_parts:
  "al_cfg (publish_alert c n a v m st) = al_cfg st" "al_db (publish_alert c n a v m st) = al_db st"
  "al_mqtt (publish_alert c n a v m st) = al_mqtt st"
  "al_state (publish_alert c n a v m st) = al_state st" "al_notifiers (publish_alert c n a v m st) = al_notifiers st"
  "al_grid_lost_since (publish_alert c n a v m st) = al_grid_lost_since st"
  "al_changes (publish_alert c n a v m st) = al_changes st @ [(c, n, a, v, m)]"
  "al_rows (publish_alert c n a v m st) = al_rows st
     @ (if al_db st \<and> call_ok (al_db_ok st) then [change_row (c, n, a, v, m)] else [])"
  "al_db_ok (publish_alert c n a v m st) = (if al_db st then tl (al_db_ok st) else al_db_ok st)"
  "filter state_message (al_messages (publish_alert c n a v m st)) = filter state_message (al_messages st)
     @ (if al_mqtt st \<and> call_ok (al_mqtt_ok st) then [change_message (al_cfg st) (c, n, a, v, m)] else [])"
  "al_mqtt_ok (publish_alert c n a v m st) = (if al_mqtt st then tl (al_mqtt_ok st) else al_mqtt_ok st)"
  by (simp_all only: publish_alert_def Let_def simp_thms if_True if_False split: if_split) simp_all

definition was_on :: "alerts \<Rightarrow> string \<Rightarrow> bool" where
  "was_on st n = (case al_state st n of Some b \<Rightarrow> b | None \<Rightarrow> False)"

lemma update_parts:
  "al_cfg (update_alert c r st) = al_cfg st" "al_db (update_alert c r st) = al_db st" "al_mqtt (update_alert c r st) = al_mqtt st"
  "al_grid_lost_since (update_alert c r st) = al_grid_lost_since st"
  "al_state (update_alert c (n, a, v, m) st) = (al_state st)(n \<mapsto> a)"
  "al_changes (update_alert c (n, a, v, m) st) = al_changes st @ (if a \<noteq> was_on st n then [(c, n, a, v, m)] else [])"
  "al_notifiers (update_alert c (n, a, v, m) st) = (if a \<noteq> was_on st n then notifiers_send c n a v m (al_notifiers st) else al_notifiers st)"
  by (simp_all add: update_alert_def publish_parts Let_def was_on_def split: prod.split)

text \<open>An evaluation is either without effect, or a sequence of updates, one for each of the six alerts.\<close>

lemma evaluate_cases:
  obtains "snd (evaluate_alerts clock decoded st) = st"
      "\<not> cfg_bool (al_cfg st) ''alerts_enabled'' False \<or> (\<exists>e. alert_thresholds (al_cfg st) = Inl e)"
  | limits grid since where "cfg_bool (al_cfg st) ''alerts_enabled'' False" "alert_thresholds (al_cfg st) = Inr limits"
      "grid_rule (ac_now clock) (li_grid_lost limits) decoded (al_grid_lost_since st) = (grid, since)"
      "evaluate_alerts clock decoded st = (Inr (map (status_of clock) (alert_results limits decoded grid)),
         foldl (\<lambda>st r. update_alert clock r st) (st\<lparr>al_grid_lost_since := since\<rparr>) (alert_results limits decoded grid))"
proof (cases "cfg_bool (al_cfg st) ''alerts_enabled'' False")
  case True
  show ?thesis
  proof (cases "alert_thresholds (al_cfg st)")
    case (Inl e)
    then show ?thesis
      using that(1) True by (simp add: evaluate_alerts_def)
  next
    case (Inr limits)
    obtain grid since where "grid_rule (ac_now clock) (li_grid_lost limits) decoded (al_grid_lost_since st) = (grid, since)"
      by fastforce
    then show ?thesis
      using that(2) True Inr by (simp add: evaluate_alerts_def Let_def)
  qed
qed (use that(1) in \<open>simp add: evaluate_alerts_def\<close>)

lemma evaluate_preserves:
  assumes "P st" "\<And>st c r. P st \<Longrightarrow> P (update_alert c r st)" "\<And>st since. P st \<Longrightarrow> P (st\<lparr>al_grid_lost_since := since\<rparr>)"
  shows "P (snd (evaluate_alerts clock decoded st))"
proof (rule evaluate_cases [of clock decoded st])
  fix limits grid since
  have "P (foldl (\<lambda>st r. update_alert clock r st) s rs)" if "P s" for s rs
    using that assms(2) by (induction rs arbitrary: s) simp_all
  moreover assume "evaluate_alerts clock decoded st = (Inr (map (status_of clock) (alert_results limits decoded grid)),
         foldl (\<lambda>st r. update_alert clock r st) (st\<lparr>al_grid_lost_since := since\<rparr>) (alert_results limits decoded grid))"
  ultimately show ?thesis
    using assms(1,3) by simp
qed (use assms(1) in simp)

lemma run_preserves:
  assumes "P st" "\<And>st c r. P st \<Longrightarrow> P (update_alert c r st)" "\<And>st since. P st \<Longrightarrow> P (st\<lparr>al_grid_lost_since := since\<rparr>)"
  shows "P (alert_run evs st)"
  using assms(1) by (induction evs st rule: alert_run.induct) (simp_all add: evaluate_preserves assms(2,3))

subsection \<open>Alternation\<close>

fun alternating :: "bool \<Rightarrow> bool list \<Rightarrow> bool" where
  "alternating b [] = True"
| "alternating b (x # xs) = (x = b \<and> alternating (\<not> b) xs)"

lemma alternating_snoc: "alternating b (xs @ [x]) \<longleftrightarrow> alternating b xs \<and> (x = (if even (length xs) then b else \<not> b))"
  by (induction b xs rule: alternating.induct) auto

lemma alternating_last: "alternating b xs \<Longrightarrow> xs \<noteq> [] \<Longrightarrow> last xs = (if even (length xs) then \<not> b else b)"
  by (induction b xs rule: alternating.induct) auto

text \<open>The changes of one alert, and the two invariants: they alternate and agree with the state, and what
  the broker and the database hold is what succeeded of them.\<close>

definition change_states :: "alerts \<Rightarrow> string \<Rightarrow> bool list" where
  "change_states st n = map (\<lambda>(_, _, a, _). a) (filter (\<lambda>(_, m, _). m = n) (al_changes st))"

definition alternates :: "alerts \<Rightarrow> bool" where
  "alternates st \<longleftrightarrow> (\<forall>n. alternating True (change_states st n) \<and> (was_on st n \<longleftrightarrow> odd (length (change_states st n))))"

lemma update_alternates:
  assumes "alternates st"
  shows "alternates (update_alert c r st)"
proof -
  obtain n a v m where r: "r = (n, a, v, m)"
    by (cases r) auto
  have on: "was_on (update_alert c r st) k = (if k = n then a else was_on st k)" for k
    by (simp add: r was_on_def update_parts)
  have "change_states (update_alert c r st) k = change_states st k @ (if k = n \<and> a \<noteq> was_on st n then [a] else [])" for k
    by (auto simp: change_states_def r update_parts)
  then show ?thesis
    using assms on by (auto simp: alternates_def alternating_snoc)
qed

definition delivered :: "bool list \<Rightarrow> bool list \<Rightarrow> alerts \<Rightarrow> bool" where
  "delivered mqtt_ok db_ok st \<longleftrightarrow>
     (al_db st \<longrightarrow> al_db_ok st = drop (length (al_changes st)) db_ok)
     \<and> (al_mqtt st \<longrightarrow> al_mqtt_ok st = drop (length (al_changes st)) mqtt_ok)
     \<and> al_rows st = (if al_db st then succeeded db_ok (map change_row (al_changes st)) else [])
     \<and> filter state_message (al_messages st)
         = (if al_mqtt st then succeeded mqtt_ok (map (change_message (al_cfg st)) (al_changes st)) else [])"

lemma publish_delivered:
  assumes "delivered ms ds st"
  shows "delivered ms ds (publish_alert c n a v m st)"
  using assms by (simp add: delivered_def publish_parts succeeded_snoc tl_drop drop_Suc)

lemma update_delivered:
  assumes "delivered ms ds st"
  shows "delivered ms ds (update_alert c r st)"
proof -
  obtain n a v m where r: "r = (n, a, v, m)"
    by (cases r) auto
  have state: "delivered ms ds (s\<lparr>al_state := x\<rparr>) = delivered ms ds s"
    and notifiers: "delivered ms ds (s\<lparr>al_notifiers := y\<rparr>) = delivered ms ds s" for s x y
    by (simp_all add: delivered_def)
  show ?thesis
    unfolding r update_alert_def prod.case Let_def
    by (cases "a = was_on st n") (simp_all add: state notifiers publish_delivered assms flip: was_on_def)
qed

text \<open>C18: over any sequence of evaluations, with or without a broker and a database and whichever of their
  calls fail, the changes published for an alert are a strict alternation of ON and OFF that begins with
  ON, and the alert is on exactly when the last of them is ON.  The rows of the alert table are the
  changes whose INSERT succeeded and the state messages are the changes whose publication succeeded, in
  the order of the changes: a failed call loses its change for good, and when none fails every change is
  there.\<close>

theorem alert_events_alternate:
  "let st = alert_run evs ((new_alerts cfg mqtt db)\<lparr>al_mqtt_ok := ms, al_discovery_ok := hs, al_db_ok := ds\<rparr>)
   in alternating True (change_states st name)
     \<and> (was_on st name \<longleftrightarrow> change_states st name \<noteq> [] \<and> last (change_states st name))
     \<and> al_rows st = (if db then succeeded ds (map change_row (al_changes st)) else [])
     \<and> filter state_message (al_messages st) = (if mqtt then succeeded ms (map (change_message cfg) (al_changes st)) else [])"
proof -
  define st0 where "st0 = (new_alerts cfg mqtt db)\<lparr>al_mqtt_ok := ms, al_discovery_ok := hs, al_db_ok := ds\<rparr>"
  define st where "st = alert_run evs st0"
  have "alternates st0"
    by (simp add: alternates_def st0_def new_alerts_def change_states_def was_on_def)
  then have alt: "alternates st"
    unfolding st_def
    by (rule run_preserves) (erule update_alternates, simp add: alternates_def change_states_def was_on_def)
  have states: "alternating True (change_states st name)" "was_on st name \<longleftrightarrow> odd (length (change_states st name))"
    using alt by (simp_all add: alternates_def)
  have last: "was_on st name \<longleftrightarrow> change_states st name \<noteq> [] \<and> last (change_states st name)"
    using alternating_last [OF states(1)] states(2) by (cases "change_states st name = []") auto
  have "delivered ms ds st0"
    by (simp add: delivered_def st0_def new_alerts_def)
  then have del: "delivered ms ds st"
    unfolding st_def by (rule run_preserves) (erule update_delivered, simp add: delivered_def)
  have same: "al_cfg st = cfg \<and> al_db st = db \<and> al_mqtt st = mqtt"
    unfolding st_def
    by (rule run_preserves) (simp_all add: st0_def new_alerts_def update_parts)
  have rows: "al_rows st = (if db then succeeded ds (map change_row (al_changes st)) else [])"
    and messages: "filter state_message (al_messages st) = (if mqtt then succeeded ms (map (change_message cfg) (al_changes st)) else [])"
    using del same by (simp_all add: delivered_def)
  show ?thesis
    unfolding Let_def st0_def [symmetric] st_def [symmetric] using states(1) last rows messages by blast
qed

text \<open>Without failures the rows of an alert alternate as well.\<close>

lemma rows_without_failures:
  "al_rows (alert_run evs (new_alerts cfg mqtt True)) = map change_row (al_changes (alert_run evs (new_alerts cfg mqtt True)))"
proof -
  have "delivered [] [] (new_alerts cfg mqtt True)"
    by (simp add: delivered_def new_alerts_def)
  then have "delivered [] [] (alert_run evs (new_alerts cfg mqtt True))"
    by (rule run_preserves) (erule update_delivered, simp add: delivered_def)
  moreover have "al_db (alert_run evs (new_alerts cfg mqtt True))"
    by (rule run_preserves) (simp_all add: new_alerts_def update_parts)
  ultimately show ?thesis
    by (simp add: delivered_def succeeded_all)
qed

subsection \<open>The grid timer\<close>

lemma run_config: "al_cfg (alert_run evs st) = al_cfg st"
  by (rule run_preserves [where P = "\<lambda>s. al_cfg s = al_cfg st"]) (simp_all add: update_parts)

lemma updates_state:
  "distinct (map fst rs) \<Longrightarrow> al_state (foldl (\<lambda>st r. update_alert c r st) st rs) n
     = (case map_of rs n of Some (a, _) \<Rightarrow> Some a | None \<Rightarrow> al_state st n)"
proof (induction rs arbitrary: st)
  case (Cons r rs)
  obtain k a v m where r: "r = (k, a, v, m)"
    by (cases r) auto
  have "map_of rs k = None"
    using Cons.prems r by (simp add: map_of_eq_None_iff)
  with Cons show ?case
    by (auto simp: r update_parts split: option.split)
qed simp

lemma updates_since: "al_grid_lost_since (foldl (\<lambda>st r. update_alert c r st) st rs) = al_grid_lost_since st"
  by (induction rs arbitrary: st) (simp_all add: update_parts)

lemma results_distinct: "distinct (map fst (alert_results limits decoded grid))"
  by (simp add: alert_results_def)

lemma evaluate_grid:
  fixes clock :: alert_clock and decoded :: "(string \<times> reading) list" and st :: alerts and limits :: alert_limits
  assumes "cfg_bool (al_cfg st) ''alerts_enabled'' False" "alert_thresholds (al_cfg st) = Inr limits"
  defines "grid \<equiv> grid_rule (ac_now clock) (li_grid_lost limits) decoded (al_grid_lost_since st)"
  shows "al_grid_lost_since (snd (evaluate_alerts clock decoded st)) = snd grid"
    and "al_state (snd (evaluate_alerts clock decoded st)) ''grid_loss'' = Some (fst (fst grid))"
proof -
  have "\<exists>a v m. fst grid = (a, v, m)"
    by (cases "fst grid") auto
  then obtain a v m since where grid: "grid = ((a, v, m), since)"
    by (cases grid) auto
  have ev: "snd (evaluate_alerts clock decoded st)
      = foldl (\<lambda>st r. update_alert clock r st) (st\<lparr>al_grid_lost_since := since\<rparr>) (alert_results limits decoded (a, v, m))"
    using assms(1,2) grid by (simp add: evaluate_alerts_def grid_def Let_def)
  show "al_grid_lost_since (snd (evaluate_alerts clock decoded st)) = snd grid"
    by (simp add: ev updates_since grid)
  show "al_state (snd (evaluate_alerts clock decoded st)) ''grid_loss'' = Some (fst (fst grid))"
    unfolding ev updates_state [OF results_distinct] by (simp add: alert_results_def grid)
qed

text \<open>The evaluations since the grid was last seen, the latest first.\<close>

definition outage :: "(alert_clock \<times> (string \<times> reading) list) list \<Rightarrow> (alert_clock \<times> (string \<times> reading) list) list" where
  "outage evs = takeWhile (\<lambda>(_, decoded). \<not> grid_present decoded) (rev evs)"

lemma outage_snoc: "outage (evs @ [(c, d)]) = (if grid_present d then [] else (c, d) # outage evs)"
  by (simp add: outage_def)

lemma run_since:
  assumes "cfg_bool cfg ''alerts_enabled'' False" "alert_thresholds cfg = Inr limits"
  shows "al_grid_lost_since (alert_run evs (new_alerts cfg mqtt db))
    = (if outage evs = [] then None else Some (ac_now (fst (last (outage evs)))))"
proof (induction evs rule: rev_induct)
  case Nil
  then show ?case
    by (simp add: outage_def new_alerts_def)
next
  case (snoc ev evs)
  obtain c d where ev: "ev = (c, d)"
    by fastforce
  have cfg: "al_cfg (alert_run evs (new_alerts cfg mqtt db)) = cfg"
    by (simp add: run_config) (simp add: new_alerts_def)
  show ?case
    using snoc evaluate_grid(1) [of "alert_run evs (new_alerts cfg mqtt db)" limits c d] assms
    by (simp add: alert_run_append ev cfg outage_snoc grid_rule_def Let_def)
qed

text \<open>The grid alert is a function of the history alone.  After any sequence of evaluations that ends with
  one at time \<^verbatim>\<open>t\<close>, it is on exactly when that evaluation saw no grid and the first of the consecutive
  evaluations without grid that lead up to it lies at least the configured time before \<^verbatim>\<open>t\<close>; a single
  evaluation that sees the grid starts the count anew.\<close>

lemma grid_loss_timer:
  assumes "cfg_bool cfg ''alerts_enabled'' False" "alert_thresholds cfg = Inr limits"
  shows "was_on (alert_run (evs @ [(clock, decoded)]) (new_alerts cfg mqtt db)) ''grid_loss''
    \<longleftrightarrow> \<not> grid_present decoded \<and> li_grid_lost limits \<le> ac_now clock - ac_now (fst (last (outage (evs @ [(clock, decoded)]))))"
proof -
  have cfg: "al_cfg (alert_run evs (new_alerts cfg mqtt db)) = cfg"
    by (simp add: run_config) (simp add: new_alerts_def)
  show ?thesis
    using evaluate_grid(2) [of "alert_run evs (new_alerts cfg mqtt db)" limits clock decoded] assms
      run_since [OF assms, of evs mqtt db]
    by (simp add: alert_run_append cfg was_on_def outage_snoc grid_rule_def Let_def)
qed

definition alert_clock_at :: "rat \<Rightarrow> alert_clock" where
  "alert_clock_at t = \<lparr>ac_now = Fin t, ac_local = ''2025-06-01 12:00:00'', ac_zoned = ''2025-06-01 12:00:00 UTC'', ac_iso = ''2025-06-01T12:00:00''\<rparr>"

definition alert_cfg :: attributes where
  "alert_cfg = [(''alerts_enabled'', JBool True), (''alerts_email_enabled'', JBool True),
     (''alerts_email_smtp_host'', JStr ''mail''), (''alerts_email_smtp_port'', JInt 587), (''alerts_email_username'', JStr ''u''),
     (''alerts_email_password'', JStr ''p''), (''alerts_email_from'', JStr ''a@b''), (''alerts_email_to'', JStr ''c@d'')]"

lemma alert_cfg_facts:
  "cfg_bool alert_cfg ''alerts_enabled'' False"
  "alert_thresholds alert_cfg = Inr \<lparr>li_soc_low = Fin 20, li_soc_critical = Fin 10, li_battery_temp = Fin 50, li_inverter_temp = Fin 60, li_grid_lost = Fin 30\<rparr>"
  by (simp_all add: alert_cfg_def cfg_bool_def getattr_def alert_thresholds_def cfg_float_def Let_def)

subsection \<open>Throttled notifications\<close>

definition about :: "string \<Rightarrow> notifiers \<Rightarrow> (pyfloat \<times> string \<times> bool \<times> delivery) list" where
  "about n nt = filter (\<lambda>(_, m, _, _). m = n) (nt_deliveries nt)"

definition recently :: "pyfloat \<Rightarrow> string \<Rightarrow> notifiers \<Rightarrow> bool" where
  "recently now key nt \<longleftrightarrow> (\<exists>t. nt_last_sent nt key = Some t \<and> now - t < min_interval_sec)"

text \<open>Every enabled channel has sent something about the alert less than 300 seconds ago.\<close>

definition throttled :: "pyfloat \<Rightarrow> string \<Rightarrow> notifiers \<Rightarrow> bool" where
  "throttled now n nt \<longleftrightarrow>
     (cfg_bool (nt_cfg nt) ''alerts_email_enabled'' False \<longrightarrow> recently now (''email:'' @ n) nt)
     \<and> (cfg_bool (nt_cfg nt) ''alerts_webhook_enabled'' False \<longrightarrow> recently now (''webhook:'' @ n) nt)"

lemma rate_ok_recent: "recently now key nt \<Longrightarrow> rate_ok now key nt = (False, nt)"
  by (auto simp: recently_def rate_ok_def)

lemma send_email_other:
  assumes "k \<noteq> n"
  shows "about k (send_email c s b n a nt) = about k nt \<and> nt_cfg (send_email c s b n a nt) = nt_cfg nt
     \<and> recently now (''email:'' @ k) (send_email c s b n a nt) = recently now (''email:'' @ k) nt
     \<and> recently now (''webhook:'' @ k) (send_email c s b n a nt) = recently now (''webhook:'' @ k) nt"
  using assms by (auto simp: send_email_def Let_def rate_ok_def deliver_def about_def recently_def split: sum.split)

lemma send_webhook_other:
  assumes "k \<noteq> n"
  shows "about k (send_webhook c n a v m s b nt) = about k nt \<and> nt_cfg (send_webhook c n a v m s b nt) = nt_cfg nt
     \<and> recently now (''email:'' @ k) (send_webhook c n a v m s b nt) = recently now (''email:'' @ k) nt
     \<and> recently now (''webhook:'' @ k) (send_webhook c n a v m s b nt) = recently now (''webhook:'' @ k) nt"
  using assms by (auto simp: send_webhook_def Let_def rate_ok_def deliver_def about_def recently_def)

lemma send_other:
  assumes "k \<noteq> n"
  shows "about k (notifiers_send c n a v m nt) = about k nt"
    and "throttled now k nt \<Longrightarrow> throttled now k (notifiers_send c n a v m nt)"
  by (simp_all add: notifiers_send_def Let_def throttled_def send_email_other [OF assms, simplified] send_webhook_other [OF assms, simplified]
      split: prod.split)

lemma send_throttled:
  assumes "throttled (ac_now c) n nt"
  shows "notifiers_send c n a v m nt = nt"
proof -
  have "send_email c s b n a nt = nt" if "cfg_bool (nt_cfg nt) ''alerts_email_enabled'' False" for s b
    using assms that by (auto simp: throttled_def send_email_def Let_def rate_ok_recent split: sum.split)
  moreover have "send_webhook c n a v m s b nt = nt" if "cfg_bool (nt_cfg nt) ''alerts_webhook_enabled'' False" for s b
    using assms that by (auto simp: throttled_def send_webhook_def Let_def rate_ok_recent)
  ultimately show ?thesis
    by (simp add: notifiers_send_def Let_def split: prod.split)
qed

lemma updates_about:
  assumes "distinct (map fst rs)"
    and "throttled (ac_now c) n (al_notifiers st) \<or> (\<forall>a v m. (n, a, v, m) \<in> set rs \<longrightarrow> a = was_on st n)"
  shows "about n (al_notifiers (foldl (\<lambda>st r. update_alert c r st) st rs)) = about n (al_notifiers st)"
  using assms
proof (induction rs arbitrary: st)
  case (Cons r rs)
  obtain k a v m where r: "r = (k, a, v, m)"
    by (cases r) auto
  have here: "about n (al_notifiers (update_alert c r st)) = about n (al_notifiers st)"
    using Cons.prems(2) by (cases "k = n") (auto simp: r update_parts send_other send_throttled)
  have "throttled (ac_now c) n (al_notifiers (update_alert c r st)) \<or> (\<forall>a v m. (n, a, v, m) \<in> set rs \<longrightarrow> a = was_on (update_alert c r st) n)"
  proof (cases "k = n")
    case True
    then have "(n, a, v, m) \<notin> set rs" for a v m
      using Cons.prems(1) by (force simp: r)
    then show ?thesis
      by blast
  next
    case False
    then have "was_on (update_alert c r st) n = was_on st n"
      by (simp add: was_on_def r update_parts)
    then show ?thesis
      using Cons.prems(2) False by (auto simp: r update_parts send_other)
  qed
  with Cons here show ?case
    by simp
qed simp

lemma evaluate_about:
  assumes "throttled (ac_now c) n (al_notifiers st) \<or> was_on (snd (evaluate_alerts c d st)) n = was_on st n"
  shows "about n (al_notifiers (snd (evaluate_alerts c d st))) = about n (al_notifiers st)"
proof (rule evaluate_cases [of c d st])
  fix limits grid since
  assume ev: "evaluate_alerts c d st = (Inr (map (status_of c) (alert_results limits d grid)),
         foldl (\<lambda>st r. update_alert c r st) (st\<lparr>al_grid_lost_since := since\<rparr>) (alert_results limits d grid))"
  let ?st = "st\<lparr>al_grid_lost_since := since\<rparr>"
  have "a = was_on ?st n" if "(n, a, v, m) \<in> set (alert_results limits d grid)" "was_on (snd (evaluate_alerts c d st)) n = was_on st n" for a v m
    using that map_of_is_SomeI [OF results_distinct that(1)] updates_state [OF results_distinct [of limits d grid], of c ?st n]
    by (simp add: ev was_on_def)
  then have "throttled (ac_now c) n (al_notifiers ?st) \<or> (\<forall>a v m. (n, a, v, m) \<in> set (alert_results limits d grid) \<longrightarrow> a = was_on ?st n)"
    using assms by auto
  from updates_about [OF results_distinct this] show ?thesis
    by (simp add: ev)
qed simp_all

text \<open>A change that comes while the alert is throttled is never notified.  If every enabled channel has sent
  something about an alert less than 300 seconds before the evaluation that clears it, nothing is sent
  then, and nothing is sent by any later evaluation as long as the alert stays off: the last thing the
  recipient was told remains that the alert is active.\<close>

lemma throttled_clear_never_notified:
  assumes "throttled (ac_now clock) name (al_notifiers st)"
    and "\<forall>k \<le> length evs. \<not> was_on (alert_run (take k evs) (snd (evaluate_alerts clock decoded st))) name"
  shows "about name (al_notifiers (alert_run evs (snd (evaluate_alerts clock decoded st)))) = about name (al_notifiers st)"
  using assms(2)
proof (induction evs rule: rev_induct)
  case Nil
  then show ?case
    using assms(1) by (simp add: evaluate_about)
next
  case (snoc ev evs)
  obtain c d where ev: "ev = (c, d)"
    by fastforce
  have "\<not> was_on (alert_run (take k evs) (snd (evaluate_alerts clock decoded st))) name" if "k \<le> length evs" for k
    using spec [OF snoc.prems, of k] that by simp
  note IH = snoc.IH [OF allI [OF impI [OF this]]]
  let ?s = "alert_run evs (snd (evaluate_alerts clock decoded st))"
  have "\<not> was_on ?s name" "\<not> was_on (snd (evaluate_alerts c d ?s)) name"
    using spec [OF snoc.prems, of "length evs"] spec [OF snoc.prems, of "Suc (length evs)"] by (simp_all add: ev alert_run_append)
  then show ?case
    using IH evaluate_about [of c name ?s d] by (simp add: ev alert_run_append)
qed

definition fault_snapshot :: "(string \<times> reading) list" where
  "fault_snapshot = [(''fault_code'', \<lparr>rv_value = Fin 5, rv_unit = [], rv_raw = 5, rv_raw_high = Some 0, rv_desc = []\<rparr>)]"

lemma differences: "Fin 1000 - 0 = Fin 1000" "Fin 1000 - Fin 1000 = Fin 0" "Fin 1100 - Fin 1000 = Fin 100"
  using dbl_of_int [of 1000] dbl_of_int [of 0] dbl_of_int [of 100] by (simp_all add: minus_pyfloat_def zero_pyfloat_def)

lemma alert_mail:
  "\<exists>d. notifiers_send (alert_clock_at 1000) n True v m (new_notifiers alert_cfg)
     = \<lparr>nt_cfg = alert_cfg, nt_last_sent = [''email:'' @ n \<mapsto> Fin 1000], nt_deliveries = [(Fin 1000, n, True, d)]\<rparr>"
proof -
  have c: "cfg_bool alert_cfg ''alerts_enabled'' False" "cfg_bool alert_cfg ''alerts_email_enabled'' False"
    "\<not> cfg_bool alert_cfg ''alerts_webhook_enabled'' False" "cfg_int alert_cfg ''alerts_email_smtp_port'' 587 = Inr 587"
    "cfg_str alert_cfg ''alerts_email_smtp_host'' = ''mail''" "cfg_str alert_cfg ''alerts_email_username'' = ''u''"
    "cfg_str alert_cfg ''alerts_email_password'' = ''p''" "cfg_str alert_cfg ''alerts_email_from'' = ''a@b''"
    "cfg_str alert_cfg ''alerts_email_to'' = ''c@d''"
    by (simp_all add: alert_cfg_def cfg_bool_def cfg_int_def cfg_str_def getattr_def py_str_def Let_def)
  have r: "recipients_of ''c@d'' = [''c@d'']"
    by code_simp
  show ?thesis
    by (auto simp: notifiers_send_def c new_notifiers_def send_email_def Let_def r rate_ok_def deliver_def alert_clock_at_def
        differences min_interval_sec_def split: prod.split)
qed

lemma fault_run:
  defines "st \<equiv> snd (evaluate_alerts (alert_clock_at 1000) fault_snapshot (new_alerts alert_cfg True True))"
  shows "al_cfg st = alert_cfg" "was_on st ''fault_active''" "throttled (Fin 1100) ''fault_active'' (al_notifiers st)"
    "\<exists>d. about ''fault_active'' (al_notifiers st) = [(Fin 1000, ''fault_active'', True, d)]"
proof -
  have start: "al_cfg (new_alerts alert_cfg True True) = alert_cfg" "al_state (new_alerts alert_cfg True True) = Map.empty"
    "al_grid_lost_since (new_alerts alert_cfg True True) = None" "al_notifiers (new_alerts alert_cfg True True) = new_notifiers alert_cfg"
    by (simp_all add: new_alerts_def)
  have nums: "reading_num fault_snapshot ''soc'' = None" "reading_num fault_snapshot ''temp_battery'' = None"
    "reading_num fault_snapshot ''temp_inverter'' = None" "fault_reading fault_snapshot = Some (Fin 5)" "\<not> grid_present fault_snapshot"
    by (simp_all add: reading_num_def fault_snapshot_def fault_reading_def num_true_def grid_present_def)
  obtain m where not: "al_notifiers st = notifiers_send (alert_clock_at 1000) ''fault_active'' True (Fin 5) m (new_notifiers alert_cfg)"
    and on: "was_on st ''fault_active''" and cfg: "al_cfg st = alert_cfg"
    by (simp add: st_def evaluate_alerts_def start alert_cfg_facts grid_rule_def nums Let_def alert_results_def update_parts was_on_def
        at_or_below_def at_or_above_def fault_rule_def num_true_def alert_clock_at_def differences)
  show "al_cfg st = alert_cfg" "was_on st ''fault_active''"
    by (rule cfg, rule on)
  obtain d where sent: "al_notifiers st = \<lparr>nt_cfg = alert_cfg, nt_last_sent = [''email:'' @ ''fault_active'' \<mapsto> Fin 1000],
      nt_deliveries = [(Fin 1000, ''fault_active'', True, d)]\<rparr>"
    unfolding not using alert_mail by blast
  have "\<not> cfg_bool alert_cfg ''alerts_webhook_enabled'' False"
    by (simp add: alert_cfg_def cfg_bool_def getattr_def py_str_def)
  then show "throttled (Fin 1100) ''fault_active'' (al_notifiers st)"
    by (simp add: sent throttled_def recently_def min_interval_sec_def differences)
  show "\<exists>d. about ''fault_active'' (al_notifiers st) = [(Fin 1000, ''fault_active'', True, d)]"
    by (simp add: sent about_def)
qed

lemma clear_evaluation:
  assumes "al_cfg st = alert_cfg"
  shows "\<not> was_on (snd (evaluate_alerts c [] st)) ''fault_active''"
proof -
  have none: "reading_num [] k = None" for k
    by (simp add: reading_num_def)
  show ?thesis
    unfolding was_on_def evaluate_alerts_def
    by (auto simp: assms alert_cfg_facts Let_def updates_state [OF results_distinct] split: prod.split)
      (auto simp: alert_results_def fault_rule_def fault_reading_def none num_true_def)
qed

end
