(* ===== verification/Rs485.thy ===== *)
theory Rs485
  imports Configuration Crc
begin

text \<open>
  The common part of the serial collector, \<^verbatim>\<open>src/collector/rs485/__init__.py\<close>, \<^verbatim>\<open>registry.py\<close>, \<^verbatim>\<open>raw.py\<close>,
  \<^verbatim>\<open>modbus_rtu.py\<close> and \<^verbatim>\<open>src/collector/rs485_collector.py\<close>: big-endian reads from a buffer, the snapshot of a
  device, its configuration and the registry, the raw and the generic Modbus device, and the polling
  loop with its filter.  The serial port and the Modbus client are parameters: what a read returns.
\<close>

subsection \<open>Big-endian reads\<close>

text \<open>By \<^verbatim>\<open>struct.unpack_from\<close>, and by indexing, which raise different exceptions beyond the end.\<close>

definition be16 :: "byte \<Rightarrow> byte \<Rightarrow> int" where
  "be16 hi lo = 256 * uint hi + uint lo"

definition to_signed16 :: "int \<Rightarrow> int" where
  "to_signed16 v = (if 0x8000 \<le> v then v - 0x10000 else v)"

definition unpack_be16 :: "bytes \<Rightarrow> nat \<Rightarrow> int result" where
  "unpack_be16 d off = (if off + 2 \<le> length d then Inr (be16 (d ! off) (d ! (off + 1))) else Inl StructError)"

definition unpack_be32 :: "bytes \<Rightarrow> nat \<Rightarrow> int result" where
  "unpack_be32 d off = (if off + 4 \<le> length d
     then Inr (65536 * be16 (d ! off) (d ! (off + 1)) + be16 (d ! (off + 2)) (d ! (off + 3))) else Inl StructError)"

definition get_be16 :: "bytes \<Rightarrow> nat \<Rightarrow> int result" where
  "get_be16 d off = bindE (byte_at d off) (\<lambda>hi. bindE (byte_at d (off + 1)) (\<lambda>lo. Inr (256 * hi + lo)))"

definition get_be32 :: "bytes \<Rightarrow> nat \<Rightarrow> int result" where
  "get_be32 d off = bindE (get_be16 d off) (\<lambda>hi. bindE (get_be16 d (off + 2)) (\<lambda>lo. Inr (65536 * hi + lo)))"

definition be16s :: "int \<Rightarrow> bytes" where
  "be16s v = [hi_byte v, lo_byte v]"

definition be32s :: "int \<Rightarrow> bytes" where
  "be32s v = be16s (v div 65536) @ be16s (v mod 65536)"

text \<open>\<^verbatim>\<open>round(x, n)\<close>: the nearest decimal with n digits after the point, ties to even, as a float.\<close>

fun round_digits :: "nat \<Rightarrow> pyfloat \<Rightarrow> pyfloat" where
  "round_digits n (Fin x) = dbl (of_int (round_half_even (x * 10 ^ n)) / 10 ^ n)"
| "round_digits n x = x"

subsection \<open>Snapshots\<close>

text \<open>A snapshot maps a field to its value and unit.\<close>

type_synonym fields = "(string \<times> json \<times> string) list"

definition put :: "string \<Rightarrow> json \<Rightarrow> string \<Rightarrow> fields \<Rightarrow> fields" where
  "put name v unit fs = AList.update name (v, unit) fs"

text \<open>A float of an integer that is known to be small.\<close>

definition flt :: "int \<Rightarrow> pyfloat" where
  "flt n = dbl (of_int n)"

definition pf_abs :: "pyfloat \<Rightarrow> pyfloat" where
  "pf_abs x = (case x of Fin a \<Rightarrow> Fin \<bar>a\<bar> | NegInf \<Rightarrow> PosInf | y \<Rightarrow> y)"

definition degrees :: string where
  "degrees = [CHR 0xC2, CHR 0xB0, CHR ''C'']"

subsection \<open>Configuration\<close>

record rs485_config =
  rc_port :: string
  rc_baudrate :: int
  rc_timeout :: pyfloat
  rc_poll_interval :: pyfloat
  rc_device_type :: string
  rc_slave_id :: int
  rc_modbus_start :: int
  rc_modbus_count :: int
  rc_modbus_function :: string

definition rs485_env :: "environment \<Rightarrow> string \<Rightarrow> json \<Rightarrow> cast \<Rightarrow> json result" where
  "rs485_env env key dflt c = env_or env (''LUX_RS485_'' @ key) dflt c"

definition json_int :: "json \<Rightarrow> int" where
  "json_int v = (case v of JInt n \<Rightarrow> n | _ \<Rightarrow> 0)"

definition json_float :: "json \<Rightarrow> pyfloat" where
  "json_float v = (case v of JFloat x \<Rightarrow> x | _ \<Rightarrow> 0)"

definition rs485_config_from_env :: "environment \<Rightarrow> rs485_config result" where
  "rs485_config_from_env env =
    bindE (rs485_env env ''PORT'' (JStr ''/dev/ttyUSB0'') CastStr) (\<lambda>port.
    bindE (rs485_env env ''BAUD'' (JInt 115200) CastInt) (\<lambda>baud.
    bindE (rs485_env env ''TIMEOUT'' (JFloat (Fin 1)) CastFloat) (\<lambda>timeout.
    bindE (rs485_env env ''POLL_INTERVAL'' (JFloat (Fin 2)) CastFloat) (\<lambda>poll.
    bindE (rs485_env env ''DEVICE_TYPE'' (JStr ''jk_bms'') CastStr) (\<lambda>type.
    bindE (rs485_env env ''SLAVE_ID'' (JInt 1) CastInt) (\<lambda>slave.
    bindE (rs485_env env ''MODBUS_START'' (JInt 0) CastInt) (\<lambda>start.
    bindE (rs485_env env ''MODBUS_COUNT'' (JInt 40) CastInt) (\<lambda>count.
    bindE (rs485_env env ''MODBUS_FUNCTION'' (JStr ''input'') CastStr) (\<lambda>func.
    Inr \<lparr>rc_port = py_str port, rc_baudrate = json_int baud, rc_timeout = json_float timeout, rc_poll_interval = json_float poll,
      rc_device_type = py_str type, rc_slave_id = json_int slave, rc_modbus_start = json_int start, rc_modbus_count = json_int count,
      rc_modbus_function = (if func = JStr ''input'' then ''input'' else ''holding'')\<rparr>)))))))))"

subsection \<open>Registry\<close>

text \<open>
  The drivers whose modules can be imported (\<^verbatim>\<open>installed\<close> tells which third-party packages are), in order.
  The EG4 LL driver leaves the abstract method \<^verbatim>\<open>read\<close> undefined, so its class cannot be instantiated.
\<close>

datatype device_kind = Eg4A5Device | Eg4Device | JkDevice | ModbusRtuKind | RawDevice

definition candidates :: "(string \<times> string option \<times> device_kind) list" where
  "candidates = [
    (''eg4_a5_bms'', Some ''serial'', Eg4A5Device),
    (''eg4_bms'', None, Eg4Device),
    (''jk_bms'', Some ''serial'', JkDevice),
    (''modbus_rtu'', Some ''pymodbus'', ModbusRtuKind),
    (''raw'', Some ''serial'', RawDevice)]"

definition driver_factories :: "(string \<Rightarrow> bool) \<Rightarrow> (string \<times> device_kind) list" where
  "driver_factories installed = map (\<lambda>(name, _, kind). (name, kind))
     (filter (\<lambda>(_, package, _). case package of None \<Rightarrow> True | Some p \<Rightarrow> installed p) candidates)"

definition list_devices :: "(string \<Rightarrow> bool) \<Rightarrow> string list" where
  "list_devices installed = map fst (driver_factories installed)"

definition get_device :: "(string \<Rightarrow> bool) \<Rightarrow> rs485_config \<Rightarrow> device_kind result" where
  "get_device installed cfg =
    (let device_type = lower (if rc_device_type cfg = [] then ''jk_bms'' else rc_device_type cfg) in
     case map_of (driver_factories installed) device_type of
       None \<Rightarrow> Inl ValueError
     | Some Eg4Device \<Rightarrow> Inl TypeError
     | Some kind \<Rightarrow> Inr kind)"

subsection \<open>The raw device\<close>

definition hex_text :: "bytes \<Rightarrow> string" where
  "hex_text d = concat (map (\<lambda>b. [hex_digit (unat b div 16), hex_digit (unat b mod 16)]) d)"

definition raw_read :: "bytes \<Rightarrow> fields" where
  "raw_read d = [(''raw_hex'', JStr (hex_text d), ''hex''), (''raw_length'', JFloat (flt (int (length d))), ''bytes'')]"

subsection \<open>The generic Modbus device\<close>

text \<open>
  An entry of the scale map is a dictionary or a list; only the registers of a successful response reach
  the decoding, and the code gives the device no options, so its map is empty.  The general entry is a
  record with the defaults filled in.
\<close>

record scale_info =
  si_name :: string
  si_unit :: string
  si_scale :: pyfloat
  si_signed :: bool

definition modbus_value :: "bool \<Rightarrow> int \<Rightarrow> int" where
  "modbus_value is_neg raw = (if \<not> is_neg then raw else if 0x8000 \<le> raw then raw - 0x10000 else raw)"

definition modbus_decode :: "(nat \<Rightarrow> scale_info option) \<Rightarrow> int \<Rightarrow> int list \<Rightarrow> fields" where
  "modbus_decode scale_map start registers = foldl (\<lambda>result (i, raw). case scale_map i of
      Some si \<Rightarrow> put (si_name si) (JFloat (flt (modbus_value (si_signed si) raw) * si_scale si)) (si_unit si) result
    | None \<Rightarrow> put (''register_'' @ int_str (start + int i)) (JFloat (flt raw)) [] result)
    [] (zip [0..<length registers] registers)"

text \<open>The outcome of the client: no connection, no or an error response, or registers.\<close>

datatype modbus_outcome = NotConnected | NoResponse | ErrorResponse | ClientException | Registers "int list"

definition modbus_read :: "(nat \<Rightarrow> scale_info option) \<Rightarrow> int \<Rightarrow> modbus_outcome \<Rightarrow> fields" where
  "modbus_read scale_map start outcome = (case outcome of Registers rs \<Rightarrow> modbus_decode scale_map start rs | _ \<Rightarrow> [])"

subsection \<open>The polling loop\<close>

definition prefix_keys :: "fields \<Rightarrow> string \<Rightarrow> fields" where
  "prefix_keys data prefix =
    (if prefix = [] then data
     else foldl (\<lambda>m (key, info). AList.update (if starts_with (prefix @ ''_'') key then key else prefix @ ''_'' @ key) info m) [] data)"

definition is_numeric :: "json \<Rightarrow> bool result" where
  "is_numeric v = (case v of JBool _ \<Rightarrow> Inr True
    | _ \<Rightarrow> (case py_float v of Inr _ \<Rightarrow> Inr True | Inl TypeError \<Rightarrow> Inr False | Inl ValueError \<Rightarrow> Inr False | Inl e \<Rightarrow> Inl e))"

fun numeric_values :: "fields \<Rightarrow> fields result" where
  "numeric_values [] = Inr []"
| "numeric_values ((key, v, unit) # rest) =
    bindE (is_numeric v) (\<lambda>ok. bindE (numeric_values rest) (\<lambda>fs. Inr (if ok then (key, v, unit) # fs else fs)))"

record rs485_loop =
  rl_prefix :: string
  rl_write_interval :: pyfloat
  rl_latest :: fields
  rl_next_write :: pyfloat
  rl_written :: "fields list"

text \<open>
  One round: the result of reading the device, the time of the write check and the time after the
  write.  An exception of the reading skips the rest; one of the writing is dropped.
\<close>

definition poll_round :: "fields result \<Rightarrow> pyfloat \<Rightarrow> pyfloat \<Rightarrow> rs485_loop \<Rightarrow> rs485_loop" where
  "poll_round data now after st = (case data of
     Inl e \<Rightarrow> st
   | Inr d \<Rightarrow>
      let st = (if d \<noteq> [] then st\<lparr>rl_latest := d\<rparr> else st) in
      if rl_latest st \<noteq> [] \<and> rl_next_write st \<le> now then
        (let st = (case numeric_values (prefix_keys (rl_latest st) (rl_prefix st)) of
             Inr numeric \<Rightarrow> if numeric \<noteq> [] then st\<lparr>rl_written := rl_written st @ [numeric]\<rparr> else st
           | Inl e \<Rightarrow> st)
         in st\<lparr>rl_next_write := after + rl_write_interval st\<rparr>)
      else st)"

end
