(* ===== verification/Eg4_Bms.thy ===== *)
theory Eg4_Bms
  imports Rs485
begin

unbundle bit_operations_syntax

text \<open>
  The Modbus protocol of the EG4 LL batteries, \<^verbatim>\<open>src/collector/rs485/eg4_bms.py\<close>: the request, the check of
  a response, and the decoding of its five blocks.  The checksum \<^verbatim>\<open>_crc16\<close>, which shifts bit by bit, is
  \<^verbatim>\<open>crc16_bitwise\<close>.
\<close>

definition FUNC_READ_HOLDING :: int where
  "FUNC_READ_HOLDING = 3"

definition DEFAULT_SLAVE_ADDRESS :: int where
  "DEFAULT_SLAVE_ADDRESS = 0x10"

definition POLL_SEQUENCE :: "(int \<times> int) list" where
  "POLL_SEQUENCE = [(0x0000, 0x12), (0x0012, 0x15), (0x0069, 0x0B), (0x0075, 0x03), (0x0078, 0x08)]"

subsection \<open>Requests\<close>

text \<open>\<^verbatim>\<open>struct.pack\<close> raises when a value does not fit.\<close>

definition bms_read_request :: "int \<Rightarrow> int \<Rightarrow> int \<Rightarrow> bytes result" where
  "bms_read_request slave start count =
    (if 0 \<le> slave \<and> slave \<le> 255 \<and> 0 \<le> start \<and> start \<le> 65535 \<and> 0 \<le> count \<and> count \<le> 65535
     then (let pdu = [word_of_int slave, word_of_int FUNC_READ_HOLDING] @ be16s start @ be16s count in
           Inr (pdu @ le16 (uint (crc16_bitwise pdu))))
     else Inl StructError)"

record eg4_bms =
  eb_slave :: int
  eb_poll_index :: nat

definition poll_request :: "eg4_bms \<Rightarrow> bytes result \<times> eg4_bms" where
  "poll_request st = (case POLL_SEQUENCE ! eb_poll_index st of (start, count) \<Rightarrow>
     (bms_read_request (eb_slave st) start count,
      st\<lparr>eb_poll_index := (eb_poll_index st + 1) mod length POLL_SEQUENCE\<rparr>))"

subsection \<open>Flag words\<close>

definition bms_flags :: "(int \<times> string) list \<Rightarrow> int \<Rightarrow> string" where
  "bms_flags flags word =
    (if word = 0 then ''None''
     else (let names = join ''; '' (map snd (filter (\<lambda>(m, _). word AND m \<noteq> 0) flags)) in
           if names = [] then ''Unknown('' @ int_str word @ '')'' else names))"

definition decode_status :: "int \<Rightarrow> string" where
  "decode_status status =
    (let state = status AND 0x000F in
     (if status AND 0x8000 \<noteq> 0 then ''Heating+'' else [])
     @ (case map_of [(0, ''Standby''), (1, ''Charging''), (2, ''Discharging''), (4, ''Protect''), (8, ''Charging Limited'')] state of
          Some s \<Rightarrow> s | None \<Rightarrow> ''Unknown('' @ int_str state @ '')''))"

definition WARNING_FLAGS :: "(int \<times> string) list" where
  "WARNING_FLAGS = [
     (0x0001, ''Pack OV''), (0x0002, ''Cell OV''), (0x0004, ''Pack UV''),
     (0x0008, ''Cell UV''), (0x0010, ''Charge OC''), (0x0020, ''Discharge OC''),
     (0x0040, ''Abnormal Temp''), (0x0080, ''MOS Overheat''),
     (0x0100, ''Charge OT''), (0x0200, ''Discharge OT''),
     (0x0400, ''Charge UT''), (0x0800, ''Discharge UT''),
     (0x1000, ''Low Capacity''), (0x2000, ''Float Stopped'')]"

definition PROTECTION_FLAGS :: "(int \<times> string) list" where
  "PROTECTION_FLAGS = [
     (0x0001, ''Pack OV''), (0x0002, ''Cell OV''), (0x0004, ''Pack UV''),
     (0x0008, ''Cell UV''), (0x0010, ''Charge OC''), (0x0020, ''Discharge OC''),
     (0x0040, ''Abnormal Temp''), (0x0080, ''MOS Overheat''),
     (0x0100, ''Charge OT''), (0x0200, ''Discharge OT''),
     (0x0400, ''Charge UT''), (0x0800, ''Discharge UT''),
     (0x1000, ''Low Capacity''), (0x2000, ''Discharge SC'')]"

definition ERROR_FLAGS :: "(int \<times> string) list" where
  "ERROR_FLAGS = [
     (0x0001, ''Voltage Error''), (0x0002, ''Temperature Error''),
     (0x0004, ''Current Flow Error''), (0x0010, ''Cell Unbalance'')]"

subsection \<open>Texts\<close>

definition is_printable :: "byte \<Rightarrow> bool" where
  "is_printable b \<longleftrightarrow> 0x20 \<le> b \<and> b \<le> 0x7E"

definition extract_ascii :: "bytes \<Rightarrow> string" where
  "extract_ascii d = rev (dropWhile is_space (rev (map byte_char (filter is_printable (takeWhile (\<lambda>b. b \<noteq> 0) d)))))"

subsection \<open>The main block\<close>

text \<open>The running extremes over the cells: smallest and largest voltage with their numbers, sum and count.\<close>

record cell_scan =
  cs_min :: pyfloat
  cs_max :: pyfloat
  cs_sum :: pyfloat
  cs_min_num :: int
  cs_max_num :: int
  cs_valid :: int

definition cell_start :: cell_scan where
  "cell_start = \<lparr>cs_min = Fin 10, cs_max = Fin 0, cs_sum = Fin 0, cs_min_num = 0, cs_max_num = 0, cs_valid = 0\<rparr>"

definition milli :: pyfloat where
  "milli = dbl (1 / 1000)"

definition centi :: pyfloat where
  "centi = dbl (1 / 100)"

definition cell_field :: "nat \<Rightarrow> string" where
  "cell_field i = ''cell_'' @ int_str (int i + 1) @ ''_voltage''"

definition scan_cell :: "bytes \<Rightarrow> fields \<times> cell_scan \<Rightarrow> nat \<Rightarrow> (fields \<times> cell_scan) result" where
  "scan_cell payload = (\<lambda>(fs, cs) i.
    bindE (unpack_be16 payload (4 + i * 2)) (\<lambda>mv.
    if 0 < mv \<and> mv < 5000 then
      (let v = flt mv * milli;
           fs = put (cell_field i) (JFloat (round_digits 3 v)) ''V'' fs;
           cs = (if v < cs_min cs then cs\<lparr>cs_min := v, cs_min_num := int i + 1\<rparr> else cs);
           cs = (if cs_max cs < v then cs\<lparr>cs_max := v, cs_max_num := int i + 1\<rparr> else cs) in
       Inr (fs, cs\<lparr>cs_sum := cs_sum cs + v, cs_valid := cs_valid cs + 1\<rparr>))
    else Inr (put (cell_field i) JNull ''V'' fs, cs)))"

definition main_block :: "bytes \<Rightarrow> fields result" where
  "main_block payload =
    bindE (unpack_be16 payload 0) (\<lambda>tv.
    bindE (unpack_be16 payload 2) (\<lambda>cr.
    let total_voltage = flt tv * centi;
        current = flt (to_signed16 cr) * centi;
        power = round_digits 2 (total_voltage * current);
        fs = put ''voltage'' (JFloat (round_digits 2 total_voltage)) ''V'' [];
        fs = put ''current'' (JFloat (round_digits 2 current)) ''A'' fs;
        fs = put ''power'' (JFloat power) ''W'' fs in
    bindE (foldE (scan_cell payload) (fs, cell_start) [0..<16]) (\<lambda>(fs, cs).
    if cs_valid cs = 0 then Inr fs
    else
    bindE (pf_div (cs_sum cs) (flt (cs_valid cs))) (\<lambda>avg.
    let fs = put ''cell_min_voltage'' (JFloat (round_digits 3 (cs_min cs))) ''V'' fs;
        fs = put ''cell_max_voltage'' (JFloat (round_digits 3 (cs_max cs))) ''V'' fs;
        fs = put ''cell_delta_voltage'' (JFloat (round_digits 3 (cs_max cs - cs_min cs))) ''V'' fs;
        fs = put ''cell_avg_voltage'' (JFloat (round_digits 3 avg)) ''V'' fs;
        fs = put ''cell_min_number'' (JInt (cs_min_num cs)) [] fs in
    Inr (put ''cell_max_number'' (JInt (cs_max_num cs)) [] fs)))))"

subsection \<open>The status block\<close>

definition signed_byte :: "byte \<Rightarrow> int" where
  "signed_byte b = (if 128 \<le> uint b then uint b - 256 else uint b)"

text \<open>\<^verbatim>\<open>int.from_bytes(payload[a:a + 1], "big", signed=True)\<close>: an empty slice is zero.\<close>

definition byte_from :: "bytes \<Rightarrow> nat \<Rightarrow> int" where
  "byte_from d a = (case slice a (a + 1) d of [] \<Rightarrow> 0 | b # _ \<Rightarrow> signed_byte b)"

definition flag_int :: "bool \<Rightarrow> json" where
  "flag_int b = JInt (if b then 1 else 0)"

definition status_block :: "bytes \<Rightarrow> fields result" where
  "status_block payload =
    bindE (unpack_be16 payload 0) (\<lambda>pcb.
    bindE (unpack_be16 payload 2) (\<lambda>avg.
    bindE (unpack_be16 payload 4) (\<lambda>mx.
    bindE (unpack_be16 payload 6) (\<lambda>remaining.
    bindE (unpack_be16 payload 8) (\<lambda>charge.
    bindE (unpack_be16 payload 10) (\<lambda>soh.
    bindE (unpack_be16 payload 12) (\<lambda>soc.
    bindE (unpack_be16 payload 14) (\<lambda>status.
    bindE (unpack_be16 payload 16) (\<lambda>warnings.
    bindE (unpack_be16 payload 18) (\<lambda>protection.
    bindE (unpack_be16 payload 20) (\<lambda>error.
    bindE (unpack_be32 payload 22) (\<lambda>cycles.
    bindE (unpack_be16 payload 38) (\<lambda>full_capacity.
    let fs = [
      (''pcb_temperature'', JInt (to_signed16 pcb), degrees),
      (''avg_temperature'', JInt (to_signed16 avg), degrees),
      (''max_temperature'', JInt (to_signed16 mx), degrees),
      (''remaining_capacity'', JInt remaining, ''Ah''),
      (''max_charge_current'', JInt charge, ''A''),
      (''soh'', JInt soh, ''%''),
      (''soc'', JInt soc, ''%''),
      (''status_word'', JInt status, []),
      (''status_text'', JStr (decode_status status), []),
      (''heating'', flag_int (status AND 0x8000 \<noteq> 0), []),
      (''warnings_word'', JInt warnings, []),
      (''warnings_text'', JStr (bms_flags WARNING_FLAGS warnings), []),
      (''protection_word'', JInt protection, []),
      (''protection_text'', JStr (bms_flags PROTECTION_FLAGS protection), []),
      (''charging_allowed'', flag_int (protection AND 0x0503 = 0), []),
      (''discharging_allowed'', flag_int (protection AND 0x2E0C = 0), []),
      (''error_word'', JInt error, []),
      (''error_text'', JStr (bms_flags ERROR_FLAGS error), []),
      (''cycle_count'', JInt cycles, [])]
      @ map (\<lambda>i. (''temperature_'' @ int_str (int i + 1), JInt (byte_from payload (30 + i)), degrees)) [0..<6] in
    Inr (fs @ [(''full_capacity'', JFloat (round_digits 1 (flt full_capacity * dbl (1 / 10))), ''Ah'')]))))))))))))))"

subsection \<open>Responses\<close>

definition decode_block :: "int \<Rightarrow> bytes \<Rightarrow> fields result" where
  "decode_block byte_count payload =
    (if byte_count = 0x24 then main_block payload
     else if byte_count = 0x2A then status_block payload
     else if byte_count = 0x16 then Inr [(''model'', JStr (extract_ascii payload), [])]
     else if byte_count = 0x06 then Inr [(''firmware'', JStr (extract_ascii payload), [])]
     else if byte_count = 0x10 then Inr [(''serial'', JStr (extract_ascii payload), [])]
     else Inr [])"

text \<open>The checksum is computed over all but the last two bytes of what was received.\<close>

definition parse_response :: "int \<Rightarrow> bytes \<Rightarrow> fields option result" where
  "parse_response own_slave d =
    (if length d < 5 then Inr None
     else if uint (d ! 0) \<noteq> own_slave then Inr None
     else if uint (d ! 1) AND 0x80 \<noteq> 0 then Inr (Some [(''modbus_error'', JInt (uint (d ! 1)), ''code'')])
     else if uint (d ! 1) \<noteq> FUNC_READ_HOLDING then Inr None
     else
     let byte_count = unat (d ! 2) in
     if length d < 3 + byte_count + 2 then Inr None
     else
     let payload = slice 3 (3 + byte_count) d in
     if uint (crc16_bitwise (take (length d - 2) d)) \<noteq> u16_le (d ! (length d - 2)) (d ! (length d - 1)) then Inr None
     else bindE (decode_block (int byte_count) payload) (\<lambda>fs. Inr (Some fs)))"

end
