(* ===== verification/Eg4_A5.thy ===== *)
theory Eg4_A5
  imports Rs485 Automation_Data
begin

text \<open>
  The broadcast protocol of the EG4 rack batteries, \<^verbatim>\<open>src/collector/rs485/eg4_a5_bms.py\<close>: splitting a stream
  into length-delimited frames, the two payloads that are decoded, and one read, which is given by the
  chunks the port delivers while the device listens.  The values read so far stay in the device.
\<close>

subsection \<open>Frames\<close>

definition MAGIC_A5 :: bytes where
  "MAGIC_A5 = [0xA5, 0x5A]"

definition CMD_STATUS :: "byte \<times> byte" where
  "CMD_STATUS = (0x82, 0x10)"

definition CMD_CELLS :: "byte \<times> byte" where
  "CMD_CELLS = (0x82, 0x11)"

definition POLL_STATUS :: bytes where
  "POLL_STATUS = [0xA5, 0x5A, 0x05, 0x82, 0x21, 0x13, 0x00, 0x00]"

definition POLL_CELLS :: bytes where
  "POLL_CELLS = [0xA5, 0x5A, 0x05, 0x82, 0x21, 0x23, 0x00, 0x00]"

function split_from :: "bytes \<Rightarrow> nat \<Rightarrow> bytes list" where
  "split_from d i =
    (if i + 2 < length d then
       (let end_ix = i + 3 + unat (d ! (i + 2)) in
        if slice i (i + 2) d = MAGIC_A5 \<and> end_ix \<le> length d then slice i end_ix d # split_from d end_ix
        else split_from d (i + 1))
     else [])"
  by pat_completeness auto

termination
  by (relation "measure (\<lambda>(d, i). length d - i)") auto

declare split_from.simps [simp del]

definition split_frames :: "bytes \<Rightarrow> bytes list" where
  "split_frames d = split_from d 0"

subsection \<open>Payloads\<close>

text \<open>A value is an integer or a float; the map of the values read so far.\<close>

type_synonym a5_values = "(string \<times> json) list"

definition u16_be :: "bytes \<Rightarrow> nat \<Rightarrow> int result" where
  "u16_be = get_be16"

definition s16_be :: "bytes \<Rightarrow> nat \<Rightarrow> int result" where
  "s16_be d off = bindE (u16_be d off) (\<lambda>v. Inr (if 0x8000 \<le> v then v - 0x10000 else v))"

definition raw_words :: "(string \<times> nat) list" where
  "raw_words = [(''field_7_8'', 7), (''field_9_10'', 9), (''field_11_12'', 11), (''field_13_14'', 13), (''field_15_16'', 15),
     (''avg_cell_voltage'', 17), (''field_19_20'', 19), (''status_word'', 21), (''protection_word'', 23), (''field_25_26'', 25),
     (''error_word'', 27), (''field_29_30'', 29), (''field_31_32'', 31), (''field_33_34'', 33)]"

definition a5_status :: "bytes \<Rightarrow> a5_values option result" where
  "a5_status payload =
    (if length payload < 35 then Inr None
     else
     bindE (u16_be payload 1) (\<lambda>voltage_raw.
     bindE (s16_be payload 3) (\<lambda>current_raw.
     bindE (u16_be payload 5) (\<lambda>temperature.
     bindE (mapE (\<lambda>(name, off). bindE (u16_be payload off) (\<lambda>v. Inr (name, JInt v))) raw_words) (\<lambda>words.
     let voltage = round_digits 2 (flt voltage_raw * dbl (1 / 100));
         current = round_digits 2 (flt current_raw * dbl (1 / 100)) in
     Inr (Some ([(''voltage_raw'', JInt voltage_raw), (''current_raw'', JInt current_raw), (''voltage'', JFloat voltage),
       (''current'', JFloat current), (''power'', JFloat (round_digits 2 (voltage * current))), (''temperature_pcb'', JInt temperature)]
       @ words)))))))"

record a5_scan =
  ax_cells :: "int list"
  ax_min :: int
  ax_max :: int
  ax_min_idx :: int
  ax_max_idx :: int
  ax_sum :: int

definition a5_start :: a5_scan where
  "a5_start = \<lparr>ax_cells = [], ax_min = 10000, ax_max = 0, ax_min_idx = 0, ax_max_idx = 0, ax_sum = 0\<rparr>"

definition a5_cell :: "bytes \<Rightarrow> a5_scan \<Rightarrow> nat \<Rightarrow> a5_scan result" where
  "a5_cell payload s i =
    bindE (u16_be payload (1 + i * 2)) (\<lambda>mv.
    let s = s\<lparr>ax_cells := ax_cells s @ [mv], ax_sum := ax_sum s + mv\<rparr>;
        s = (if mv < ax_min s then s\<lparr>ax_min := mv, ax_min_idx := int i + 1\<rparr> else s) in
    Inr (if ax_max s < mv then s\<lparr>ax_max := mv, ax_max_idx := int i + 1\<rparr> else s))"

definition a5_volts :: "int \<Rightarrow> json" where
  "a5_volts mv = JFloat (round_digits 3 (flt mv * dbl (1 / 1000)))"

definition a5_cell_field :: "nat \<Rightarrow> string" where
  "a5_cell_field i = ''cell_'' @ int_str (int i + 1) @ ''_voltage''"

definition a5_cells :: "bytes \<Rightarrow> a5_values option result" where
  "a5_cells payload =
    (if length payload < 33 then Inr None
     else
     bindE (foldE (a5_cell payload) a5_start [0..<16]) (\<lambda>s.
     bindE (pf_div (flt (ax_sum s)) (Fin 16)) (\<lambda>avg.
     Inr (Some ([(''cell_count'', JInt 16)]
       @ map (\<lambda>(i, mv). (a5_cell_field i, a5_volts mv)) (zip [0..<16] (ax_cells s))
       @ [(''cell_min_voltage'', a5_volts (ax_min s)),
          (''cell_max_voltage'', a5_volts (ax_max s)),
          (''cell_avg_voltage'', JFloat (round_digits 3 (avg * dbl (1 / 1000)))),
          (''cell_delta_voltage'', a5_volts (ax_max s - ax_min s)),
          (''cell_min_index'', JFloat (flt (ax_min_idx s))),
          (''cell_max_index'', JFloat (flt (ax_max_idx s)))])))))"

subsection \<open>The device\<close>

definition A5_MAPPING :: "(string \<times> string \<times> string) list" where
  "A5_MAPPING = [
    (''voltage'', ''voltage'', ''V''),
    (''current'', ''current'', ''A''),
    (''power'', ''power'', ''W''),
    (''temperature_pcb'', ''temperature_pcb'', degrees),
    (''avg_cell_voltage'', ''avg_cell_voltage'', ''mV''),
    (''field_25_26'', ''field_25_26'', []),
    (''error_word'', ''error_word'', []),
    (''cell_count'', ''cell_count'', []),
    (''cell_min_voltage'', ''cell_min_voltage'', ''V''),
    (''cell_max_voltage'', ''cell_max_voltage'', ''V''),
    (''cell_avg_voltage'', ''cell_avg_voltage'', ''V''),
    (''cell_delta_voltage'', ''cell_delta_voltage'', ''V''),
    (''cell_min_index'', ''cell_min_index'', []),
    (''cell_max_index'', ''cell_max_index'', []),
    (''status_word'', ''status_word'', []),
    (''protection_word'', ''protection_word'', []),
    (''field_7_8'', ''field_7_8'', []),
    (''field_9_10'', ''field_9_10'', []),
    (''field_11_12'', ''field_11_12'', []),
    (''field_13_14'', ''field_13_14'', []),
    (''field_15_16'', ''field_15_16'', []),
    (''field_19_20'', ''field_19_20'', []),
    (''field_29_30'', ''field_29_30'', []),
    (''field_31_32'', ''field_31_32'', []),
    (''field_33_34'', ''field_33_34'', [])]"

definition build_result :: "a5_values \<Rightarrow> fields result" where
  "build_result latest =
    bindE (foldE (\<lambda>fs (key, out_key, unit). case map_of latest key of
        None \<Rightarrow> Inr fs
      | Some v \<Rightarrow> bindE (py_float v) (\<lambda>x. Inr (put out_key (JFloat x) unit fs))) [] A5_MAPPING) (\<lambda>fs.
    foldE (\<lambda>fs i. case map_of latest (a5_cell_field i) of
        None \<Rightarrow> Inr fs
      | Some v \<Rightarrow> bindE (py_float v) (\<lambda>x. Inr (put (a5_cell_field i) (JFloat x) ''V'' fs))) fs [0..<16])"

definition take_frame :: "a5_values \<Rightarrow> bytes \<Rightarrow> a5_values result" where
  "take_frame latest frame =
    (if length frame < 5 then Inr latest
     else
     let cmd = (frame ! 3, frame ! 4); payload = drop 5 frame in
     if cmd = CMD_STATUS then
       bindE (a5_status payload) (\<lambda>r. Inr (case r of Some vs \<Rightarrow> dict_merge latest vs | None \<Rightarrow> latest))
     else if cmd = CMD_CELLS then
       bindE (a5_cells payload) (\<lambda>r. Inr (case r of Some vs \<Rightarrow> dict_merge latest vs | None \<Rightarrow> latest))
     else Inr latest)"

text \<open>One read, from the bytes received in the time window (none when no chunk arrived), on the values kept in
  the device; an exception leaves the values taken from the frames before.\<close>

fun take_frames :: "bytes list \<Rightarrow> a5_values \<Rightarrow> unit result \<times> a5_values" where
  "take_frames [] latest = (Inr (), latest)"
| "take_frames (f # fs) latest = (case take_frame latest f of Inl e \<Rightarrow> (Inl e, latest) | Inr l \<Rightarrow> take_frames fs l)"

definition a5_read :: "bytes \<Rightarrow> a5_values \<Rightarrow> fields result \<times> a5_values" where
  "a5_read raw latest =
    (if raw = [] then (Inr [], latest)
     else if split_frames raw = [] then (Inr [], latest)
     else (case take_frames (split_frames raw) latest of
        (Inl e, latest) \<Rightarrow> (Inl e, latest)
      | (Inr _, latest) \<Rightarrow> (if latest = [] then (Inr [], latest) else (build_result latest, latest))))"

end
