(* ===== verification/Rs485_Facts.thy ===== *)
theory Rs485_Facts
  imports Eg4_Bms Eg4_A5
begin

text \<open>
  Properties of the EG4 battery protocols: what the checksum of a Modbus response protects and what it
  does not, the splitting of a broadcast stream into frames, and the extremes over the cells.
\<close>

subsection \<open>Big-endian words\<close>

lemma be16_bounds: "0 \<le> be16 hi lo" "be16 hi lo \<le> 65535"
  using byte_bounds [of hi] byte_bounds [of lo] by (simp_all add: be16_def)

lemma be16_be16s: "0 \<le> v \<Longrightarrow> v \<le> 65535 \<Longrightarrow> be16 (hi_byte v) (lo_byte v) = v"
  using u16_le_lo_hi [of v] by (simp add: be16_def u16_le_def)

lemma get_be16_ok: "off + 2 \<le> length d \<Longrightarrow> get_be16 d off = Inr (be16 (d ! off) (d ! (off + 1)))"
  by (simp add: get_be16_def byte_at_def be16_def)

lemma get_be32_ok: "off + 4 \<le> length d \<Longrightarrow> get_be32 d off
    = Inr (65536 * be16 (d ! off) (d ! (off + 1)) + be16 (d ! (off + 2)) (d ! (off + 3)))"
proof -
  assume "off + 4 \<le> length d"
  moreover have "off + 2 + 1 = off + 3"
    by simp
  ultimately show ?thesis
    by (simp only: get_be32_def get_be16_ok) (simp add: get_be16_ok)
qed

lemma length_be16s [simp]: "length (be16s v) = 2"
  by (simp add: be16s_def)

subsection \<open>Modbus responses\<close>

text \<open>The checksum field matches exactly when the checksum over everything is zero.\<close>

lemma crc_residue_iff: "crc_run c [a, b] = 0 \<longleftrightarrow> uint c = u16_le a b"
proof -
  have "crc_run c [a, b] = 0 \<longleftrightarrow> c = byte_pair a b"
    by (simp only: crc_run_pair crc_bits_eq_0 xor_eq_0)
  then show ?thesis
    by (simp add: word_uint_eq_iff byte_pair_uint)
qed

lemma split_last_two: "2 \<le> length d \<Longrightarrow> d = take (length d - 2) d @ [d ! (length d - 2), d ! (length d - 1)]"
proof -
  assume two: "2 \<le> length d"
  have "drop (length d - 2) d = [d ! (length d - 2), d ! (length d - 1)]"
    using two by (intro nth_equalityI) (auto simp: less_2_cases_iff)
  then show ?thesis
    by (metis append_take_drop_id)
qed

lemma crc_field_iff:
  "2 \<le> length d \<Longrightarrow> uint (crc16_bitwise (take (length d - 2) d)) = u16_le (d ! (length d - 2)) (d ! (length d - 1)) \<longleftrightarrow> crc_run 0xFFFF d = 0"
proof -
  assume two: "2 \<le> length d"
  have run: "crc16_bitwise bs = crc_run 0xFFFF bs" for bs
    by (simp add: crc16_bitwise_def crc_run_def)
  have "crc_run 0xFFFF d = crc_run (crc_run 0xFFFF (take (length d - 2) d)) [d ! (length d - 2), d ! (length d - 1)]"
    by (subst (1) split_last_two [OF two]) (simp only: crc_run_append)
  then show ?thesis
    by (simp only: crc_residue_iff run)
qed

definition bms_response :: "int \<Rightarrow> bytes \<Rightarrow> bytes" where
  "bms_response slave payload =
    (let body = [word_of_int slave, 0x03, word_of_nat (length payload)] @ payload in body @ le16 (uint (crc16_bitwise body)))"

text \<open>Whatever the body, a message followed by its own checksum runs to zero.\<close>

lemma crc_residue_message: "crc_run 0xFFFF (body @ le16 (uint (crc16_bitwise body))) = 0"
proof -
  have "crc16_bitwise body = crc_run 0xFFFF body"
    by (simp add: crc16_bitwise_def crc_run_def)
  then show ?thesis
    by (simp only: crc_run_append le16_def crc_residue)
qed

lemma bms_response_residue: "crc_run 0xFFFF (bms_response slave payload) = 0"
  unfolding bms_response_def Let_def by (rule crc_residue_message)

lemma bms_response_nth:
  "length (bms_response slave payload) = 5 + length payload"
  "bms_response slave payload ! 0 = word_of_int slave"
  "bms_response slave payload ! Suc 0 = 3"
  "bms_response slave payload ! 2 = word_of_nat (length payload)"
  by (simp_all add: bms_response_def Let_def le16_def nth_append)

lemma bms_response_payload: "slice 3 (3 + length payload) (bms_response slave payload) = payload"
  by (simp add: bms_response_def Let_def slice_def numeral_3_eq_3)

text \<open>No bytes make the parser raise: each block is read within the bytes its length announces.\<close>

lemma unpack_be16_ok: "off + 2 \<le> length d \<Longrightarrow> unpack_be16 d off = Inr (be16 (d ! off) (d ! (off + 1)))"
  by (simp add: unpack_be16_def)

lemma unpack_be32_ok: "off + 4 \<le> length d \<Longrightarrow> \<exists>v. unpack_be32 d off = Inr v"
  by (simp add: unpack_be32_def)

lemma foldE_invariant:
  "P s \<Longrightarrow> (\<And>s x. x \<in> set xs \<Longrightarrow> P s \<Longrightarrow> \<exists>s'. f s x = Inr s' \<and> P s') \<Longrightarrow> \<exists>s'. foldE f s xs = Inr s' \<and> P s'"
proof (induction xs arbitrary: s)
  case (Cons x xs)
  then show ?case
    by (metis bindE_Inr foldE.simps(2) list.set_intros(1,2))
qed simp

lemma flt_pos: "0 < n \<Longrightarrow> n \<le> 65535 \<Longrightarrow> flt n = Fin (of_int n)"
  by (simp add: flt_def)

lemma pf_div_pos: "0 < n \<Longrightarrow> n \<le> 65535 \<Longrightarrow> \<exists>q. pf_div x (flt n) = Inr q"
  by (cases x) (simp_all add: flt_pos)

lemma scan_cell_total:
  assumes "i < 16" "length payload = 36" "0 \<le> cs_valid (snd s)" "cs_valid (snd s) \<le> int k"
  shows "\<exists>s'. scan_cell payload s i = Inr s' \<and> 0 \<le> cs_valid (snd s') \<and> cs_valid (snd s') \<le> int (Suc k)"
  using assms by (cases s) (auto simp: scan_cell_def unpack_be16_ok Let_def)

lemma scan_cells_total:
  "length payload = 36 \<Longrightarrow> n \<le> 16 \<Longrightarrow> \<exists>s'. foldE (scan_cell payload) (fs, cell_start) [0..<n] = Inr s'
     \<and> 0 \<le> cs_valid (snd s') \<and> cs_valid (snd s') \<le> int n"
proof (induction n)
  case 0
  then show ?case
    by (simp add: cell_start_def)
next
  case (Suc n)
  then obtain s where s: "foldE (scan_cell payload) (fs, cell_start) [0..<n] = Inr s" "0 \<le> cs_valid (snd s)"
      "cs_valid (snd s) \<le> int n"
    by auto
  then show ?case
    using scan_cell_total [of n payload s n] Suc.prems by (auto simp: foldE_append)
qed

lemma bindE_total: "\<exists>x. m = Inr x \<and> P x \<Longrightarrow> (\<And>x. P x \<Longrightarrow> \<exists>y. f x = Inr y) \<Longrightarrow> \<exists>y. bindE m f = Inr y"
  by auto

lemma main_block_total: "length payload = 36 \<Longrightarrow> \<exists>fs. main_block payload = Inr fs"
proof -
  assume len: "length payload = 36"
  have scan: "\<exists>s. foldE (scan_cell payload) (fs, cell_start) [0..<16] = Inr s \<and> 0 \<le> cs_valid (snd s) \<and> cs_valid (snd s) \<le> 16" for fs
    using scan_cells_total [OF len order_refl, of fs] by simp
  have avg: "\<exists>q. pf_div x (flt (cs_valid cs)) = Inr q \<and> True"
    if "0 \<le> cs_valid cs" "cs_valid cs \<le> 16" "cs_valid cs \<noteq> 0" for x and cs :: cell_scan
    using pf_div_pos [of "cs_valid cs" x] that by simp
  show ?thesis
    unfolding main_block_def Let_def unpack_be16_ok [of 0 payload, unfolded len, simplified]
      unpack_be16_ok [of 2 payload, unfolded len, simplified] bindE_Inr
    by (rule bindE_total [OF scan]) (auto split: if_splits intro!: bindE_total [OF avg])
qed

lemma status_block_total: "length payload = 42 \<Longrightarrow> \<exists>fs. status_block payload = Inr fs"
  using unpack_be32_ok [of 22 payload] by (auto simp: status_block_def unpack_be16_ok Let_def)

lemma decode_block_total: "length payload = n \<Longrightarrow> \<exists>fs. decode_block (int n) payload = Inr fs"
  using main_block_total [of payload] status_block_total [of payload] by (auto simp: decode_block_def)

lemma length_slice_response: "5 + k \<le> length d \<Longrightarrow> length (slice 3 (3 + k) d) = k"
  by simp

lemma parse_response_total: "\<exists>r. parse_response own d = Inr r"
proof -
  have "\<exists>fs. decode_block (int (unat (d ! 2))) (slice 3 (3 + unat (d ! 2)) d) = Inr fs" if "5 + unat (d ! 2) \<le> length d"
    by (rule decode_block_total) (use that in simp)
  then show ?thesis
    unfolding parse_response_def Let_def by (auto simp: not_less)
qed

text \<open>Beyond the function code every damage of two neighbouring bytes is rejected by the checksum.\<close>

lemma crc_two_bytes_differ:
  assumes "i + 1 < length d" "crc_run 0xFFFF d = 0" "d ! i \<noteq> a \<or> d ! (i + 1) \<noteq> b"
  shows "crc_run 0xFFFF (d[i := a, i + 1 := b]) \<noteq> 0"
proof -
  define p q where "p = take i d" and "q = drop (i + 2) d"
  have "drop i d = [d ! i, d ! (i + 1)] @ q"
    using assms(1) by (simp add: q_def Cons_nth_drop_Suc)
  then obtain x y where d: "d = p @ [x, y] @ q"
    by (metis append_take_drop_id p_def)
  have i: "length p = i"
    using assms(1) by (simp add: p_def)
  have "d[i := a, i + 1 := b] = p @ [a, b] @ q" "d ! i = x" "d ! (i + 1) = y"
    by (simp_all add: d list_update_append nth_append flip: i)
  then show ?thesis
    using assms(2,3) crc_run_two_bytes [of _ p a b q x y] by (simp only: d) metis
qed

lemma parse_response_crc: "crc_run 0xFFFF d \<noteq> 0 \<Longrightarrow> uint (d ! 1) = 3 \<Longrightarrow> parse_response own d = Inr None"
  using crc_field_iff [of d] by (auto simp: parse_response_def Let_def FUNC_READ_HOLDING_def)

lemma uint_byte: "0 \<le> n \<Longrightarrow> n \<le> 255 \<Longrightarrow> uint (word_of_int n :: byte) = n"
  by (simp add: uint_word_of_int)

lemma parse_response_good:
  assumes "0 \<le> slave" "slave \<le> 255" "length payload \<le> 255"
  shows "parse_response slave (bms_response slave payload)
    = bindE (decode_block (int (length payload)) payload) (\<lambda>fs. Inr (Some fs))"
proof -
  have count: "unat (word_of_nat (length payload) :: byte) = length payload"
    using assms(3) by (simp add: unat_of_nat)
  have crc: "uint (crc16_bitwise (take (length d - 2) d)) = u16_le (d ! (length d - 2)) (d ! (length d - 1))"
    if "d = bms_response slave payload" for d
    using crc_field_iff [of d] bms_response_residue [of slave payload] that by (simp add: bms_response_nth)
  show ?thesis
    using crc [OF refl] unfolding parse_response_def Let_def
    by (simp add: bms_response_nth bms_response_payload count uint_byte [OF assms(1,2)] FUNC_READ_HOLDING_def)
qed

text \<open>The response parser of the EG4 LL protocol raises on no bytes; a response with its checksum is
  decoded by the size of its block; replacing two neighbouring bytes after the function code by others
  makes it be ignored; but a frame whose function code has bit 7 set is reported as a Modbus error
  whatever follows, since that is decided before the checksum is looked at.\<close>

lemma bms_response_checked:
  assumes "0 \<le> slave" "slave \<le> 255" "length payload \<le> 255" "2 \<le> i" "i + 1 < length payload + 5"
    and "bms_response slave payload ! i \<noteq> a \<or> bms_response slave payload ! (i + 1) \<noteq> b"
    and "3 \<le> length rest" "uint code AND 0x80 \<noteq> 0"
  shows "(\<exists>r. parse_response slave any = Inr r)
    \<and> parse_response slave (bms_response slave payload)
        = bindE (decode_block (int (length payload)) payload) (\<lambda>fs. Inr (Some fs))
    \<and> parse_response slave ((bms_response slave payload)[i := a, i + 1 := b]) = Inr None
    \<and> parse_response slave (word_of_int slave # code # rest)
        = Inr (Some [(''modbus_error'', JInt (uint code), ''code'')])"
proof (intro conjI)
  show "\<exists>r. parse_response slave any = Inr r"
    by (rule parse_response_total)
  show "parse_response slave (bms_response slave payload)
        = bindE (decode_block (int (length payload)) payload) (\<lambda>fs. Inr (Some fs))"
    by (rule parse_response_good) (fact assms)+
  have "crc_run 0xFFFF ((bms_response slave payload)[i := a, i + 1 := b]) \<noteq> 0"
    using assms(5,6) bms_response_residue by (intro crc_two_bytes_differ) (simp_all add: bms_response_nth)
  then show "parse_response slave ((bms_response slave payload)[i := a, i + 1 := b]) = Inr None"
    using assms(4) by (intro parse_response_crc) (simp_all add: bms_response_nth)
  show "parse_response slave (word_of_int slave # code # rest) = Inr (Some [(''modbus_error'', JInt (uint code), ''code'')])"
    using assms(7,8) by (simp add: parse_response_def uint_byte [OF assms(1,2)] Let_def)
qed

subsection \<open>The broadcast frames\<close>

definition a5_frame :: "bytes \<Rightarrow> bool" where
  "a5_frame f \<longleftrightarrow> 3 \<le> length f \<and> take 2 f = MAGIC_A5 \<and> length f = 3 + unat (f ! 2)"

lemma slice_append_right: "slice (length p + i) (length p + k) (p @ d) = slice i k d"
  by (simp add: slice_def)

lemma split_from_append: "split_from (p @ d) (length p + i) = split_from d i"
proof (induction d i rule: split_from.induct)
  case (1 d i)
  define k where "k = i + 3 + unat (d ! (i + 2))"
  have nth: "(p @ d) ! (length p + i + 2) = d ! (i + 2)"
    by (simp add: nth_append)
  have two: "slice (length p + i) (length p + i + 2) (p @ d) = slice i (i + 2) d"
    using slice_append_right [of p i "i + 2" d] by (simp add: add.assoc)
  have whole: "slice (length p + i) (length p + k) (p @ d) = slice i k d"
    by (rule slice_append_right)
  have end_ix: "length p + i + 3 + unat (d ! (i + 2)) = length p + k" "i + 3 + unat (d ! (i + 2)) = k"
    by (simp_all add: k_def)
  have within: "length p + i + 2 < length (p @ d) \<longleftrightarrow> i + 2 < length d" "length p + k \<le> length (p @ d) \<longleftrightarrow> k \<le> length d"
    by simp_all
  have "split_from (p @ d) (length p + k) = split_from d k" if "i + 2 < length d" "slice i (i + 2) d = MAGIC_A5" "k \<le> length d"
    using 1(1) [OF that(1) refl] that(2,3) by (simp only: end_ix)
  moreover have "split_from (p @ d) (length p + i + 1) = split_from d (i + 1)"
    if "i + 2 < length d" "\<not> (slice i (i + 2) d = MAGIC_A5 \<and> k \<le> length d)"
    using 1(2) [OF that(1) refl] that(2) by (metis end_ix(2) add.assoc)
  ultimately show ?case
    by (subst (1 2) split_from.simps) (simp only: Let_def nth two whole end_ix within split: if_split, blast)
qed

lemma split_from_length: "split_from (p @ d) (length p) = split_frames d"
  using split_from_append [of p d 0] by (simp add: split_frames_def)

lemma split_frames_noise: "b \<noteq> 0xA5 \<Longrightarrow> split_frames (b # d) = split_frames d"
proof -
  assume "b \<noteq> 0xA5"
  then have "split_from (b # d) 0 = (if 0 + 2 < length (b # d) then split_from (b # d) (0 + 1) else [])"
    by (subst split_from.simps) (simp add: slice_def MAGIC_A5_def Let_def)
  moreover have "split_from (b # d) (0 + 1) = split_frames d"
    using split_from_length [of "[b]" d] by simp
  moreover have "split_frames d = []" if "\<not> 0 + 2 < length (b # d)"
    using that by (simp add: split_frames_def split_from.simps)
  ultimately show ?thesis
    by (simp add: split_frames_def)
qed

lemma split_frames_frame: "a5_frame f \<Longrightarrow> split_frames (f @ d) = f # split_frames d"
proof -
  assume f: "a5_frame f"
  then have "(f @ d) ! 2 = f ! 2" "slice 0 2 (f @ d) = MAGIC_A5" "slice 0 (length f) (f @ d) = f"
    by (auto simp: a5_frame_def nth_append slice_def)
  moreover have "0 + 3 + unat (f ! 2) = length f" "2 < length (f @ d)"
    using f by (auto simp: a5_frame_def)
  ultimately have "split_from (f @ d) 0 = f # split_from (f @ d) (length f)"
    by (subst split_from.simps) (simp only: Let_def add_0 length_append le_add1 if_True simp_thms)
  then show ?thesis
    by (simp add: split_frames_def split_from_length [unfolded split_frames_def])
qed

lemma split_from_frames: "f \<in> set (split_from d i) \<Longrightarrow> a5_frame f"
proof (induction d i rule: split_from.induct)
  case (1 d i)
  define k where "k = i + 3 + unat (d ! (i + 2))"
  have "a5_frame (slice i k d)" if "slice i (i + 2) d = MAGIC_A5" "k \<le> length d"
    using that by (auto simp: a5_frame_def slice_def k_def nth_take take_drop min_def)
  then show ?case
    using 1 by (subst (asm) (3) split_from.simps) (auto simp: Let_def k_def split: if_splits)
qed

text \<open>C19: every frame the splitter returns is a whole frame of its announced length, and a stream of noise
  without the byte A5, whole frames, and a tail is split exactly into these frames and those of the tail.\<close>

theorem a5_frames_split:
  assumes "0xA5 \<notin> set noise" "list_all a5_frame frames"
  shows "split_frames (noise @ concat frames @ tail) = frames @ split_frames tail \<and> list_all a5_frame (split_frames raw)"
proof
  have "split_frames (concat frames @ tail) = frames @ split_frames tail"
    using assms(2) by (induction frames) (simp_all add: split_frames_frame)
  then show "split_frames (noise @ concat frames @ tail) = frames @ split_frames tail"
    using assms(1) by (induction noise) (simp_all add: split_frames_noise)
  show "list_all a5_frame (split_frames raw)"
    by (auto simp: list_all_iff split_frames_def intro: split_from_frames)
qed

theorem a5_frames_split_witness:
  "split_frames ([0x00, 0x5A] @ concat [[0xA5, 0x5A, 2, 0x82, 0x10], [0xA5, 0x5A, 0]] @ [0xA5])
    = [[0xA5, 0x5A, 2, 0x82, 0x10], [0xA5, 0x5A, 0]] @ split_frames [0xA5]"
  using a5_frames_split [of "[0x00, 0x5A]" "[[0xA5, 0x5A, 2, 0x82, 0x10], [0xA5, 0x5A, 0]]" "[0xA5]" "[]"]
  by (simp add: a5_frame_def MAGIC_A5_def)

subsection \<open>The extremes over the cells\<close>

text \<open>
  What the scan knows after \<^verbatim>\<open>n\<close> cells: \<^verbatim>\<open>better a b\<close> tells that \<^verbatim>\<open>a\<close> replaces \<^verbatim>\<open>b\<close>; the best value so far with
  the number of the first cell that has it, or 0 while no cell improved on the start value.
\<close>

definition first_best :: "(int \<Rightarrow> int \<Rightarrow> bool) \<Rightarrow> (nat \<Rightarrow> int) \<Rightarrow> int \<Rightarrow> nat \<Rightarrow> int \<Rightarrow> int \<Rightarrow> bool" where
  "first_best better c limit n best ix \<longleftrightarrow>
     (ix = 0 \<and> best = limit \<and> (\<forall>j<n. \<not> better (c j) limit)
      \<or> (\<exists>k<n. ix = int k + 1 \<and> c k = best \<and> better best limit \<and> (\<forall>j<k. better best (c j)) \<and> (\<forall>j<n. \<not> better (c j) best)))"

lemma first_best_less_step:
  assumes "first_best (<) c limit n best ix"
  shows "if c n < best then first_best (<) c limit (Suc n) (c n) (int n + 1) else first_best (<) c limit (Suc n) best ix"
  using assms unfolding first_best_def by (auto simp: less_Suc_eq all_conj_distrib)

lemma first_best_greater_step:
  assumes "first_best (>) c limit n best ix"
  shows "if best < c n then first_best (>) c limit (Suc n) (c n) (int n + 1) else first_best (>) c limit (Suc n) best ix"
  using assms unfolding first_best_def by (auto simp: less_Suc_eq all_conj_distrib)

definition a5_reading :: "bytes \<Rightarrow> nat \<Rightarrow> int" where
  "a5_reading payload i = be16 (payload ! (1 + i * 2)) (payload ! (1 + i * 2 + 1))"

definition a5_scanned :: "bytes \<Rightarrow> nat \<Rightarrow> a5_scan \<Rightarrow> bool" where
  "a5_scanned payload n s \<longleftrightarrow> ax_cells s = map (a5_reading payload) [0..<n]
     \<and> first_best (<) (a5_reading payload) 10000 n (ax_min s) (ax_min_idx s)
     \<and> first_best (>) (a5_reading payload) 0 n (ax_max s) (ax_max_idx s)
     \<and> ax_sum s = sum_list (map (a5_reading payload) [0..<n])"

lemma a5_cell_scanned:
  assumes "33 \<le> length payload" "n < 16" "a5_scanned payload n s"
  shows "\<exists>s'. a5_cell payload s n = Inr s' \<and> a5_scanned payload (Suc n) s'"
proof -
  have "u16_be payload (1 + n * 2) = Inr (a5_reading payload n)"
    unfolding u16_be_def a5_reading_def using assms(1,2) by (intro get_be16_ok) simp
  then show ?thesis
    using assms(3) first_best_less_step [of "a5_reading payload" 10000 n "ax_min s" "ax_min_idx s"]
      first_best_greater_step [of "a5_reading payload" 0 n "ax_max s" "ax_max_idx s"]
    by (auto simp: a5_cell_def a5_scanned_def Let_def split: if_splits)
qed

lemma a5_cells_scanned:
  "33 \<le> length payload \<Longrightarrow> n \<le> 16 \<Longrightarrow> \<exists>s. foldE (a5_cell payload) a5_start [0..<n] = Inr s \<and> a5_scanned payload n s"
proof (induction n)
  case 0
  then show ?case
    by (simp add: a5_scanned_def a5_start_def first_best_def)
next
  case (Suc n)
  then obtain s where "foldE (a5_cell payload) a5_start [0..<n] = Inr s" "a5_scanned payload n s"
    by auto
  then show ?case
    using a5_cell_scanned [of payload n s] Suc.prems by (auto simp: foldE_append)
qed

lemma first_best_less_Min:
  "first_best (<) c limit n best ix \<Longrightarrow> best = Min (insert limit (c ` {..<n})) \<and> (ix = 0 \<longleftrightarrow> best = limit)
     \<and> (0 < ix \<longrightarrow> c (nat ix - 1) = best \<and> (\<forall>j<nat ix - 1. best < c j))"
  unfolding first_best_def by (auto simp: not_less nat_add_distrib intro!: Min_eqI [symmetric])

lemma first_best_greater_Max:
  "first_best (>) c limit n best ix \<Longrightarrow> best = Max (insert limit (c ` {..<n})) \<and> (ix = 0 \<longleftrightarrow> best = limit)
     \<and> (0 < ix \<longrightarrow> c (nat ix - 1) = best \<and> (\<forall>j<nat ix - 1. c j < best))"
  unfolding first_best_def by (auto simp: not_less nat_add_distrib intro!: Max_eqI [symmetric])

lemma int_str_small: "int_str 1 = ''1''" "int_str 2 = ''2''" "int_str 3 = ''3''" "int_str 4 = ''4''" "int_str 5 = ''5''"
  "int_str 6 = ''6''" "int_str 7 = ''7''" "int_str 8 = ''8''" "int_str 9 = ''9''" "int_str 10 = ''10''" "int_str 11 = ''11''"
  "int_str 12 = ''12''" "int_str 13 = ''13''" "int_str 14 = ''14''" "int_str 15 = ''15''" "int_str 16 = ''16''"
  by code_simp+

lemma distinct_a5_cell_fields: "distinct (map a5_cell_field [0..<16])"
  by code_simp

lemma a5_cells_fields:
  assumes "a5_scanned payload 16 s" "i < 16"
  shows "map_of (map (\<lambda>(i, mv). (a5_cell_field i, a5_volts mv)) (zip [0..<16] (ax_cells s))) (a5_cell_field i)
      = Some (a5_volts (a5_reading payload i))"
proof -
  have "map (\<lambda>(i, mv). (a5_cell_field i, a5_volts mv)) (zip [0..<16] (ax_cells s))
      = map (\<lambda>i. (a5_cell_field i, a5_volts (a5_reading payload i))) [0..<16]"
    using assms(1) by (simp add: a5_scanned_def zip_map2 zip_same_conv_map del: upt_rec_numeral)
  moreover have "map_of (map (\<lambda>i. (a5_cell_field i, a5_volts (a5_reading payload i))) [0..<16]) (a5_cell_field i)
      = Some (a5_volts (a5_reading payload i))"
    using distinct_a5_cell_fields assms(2) by (intro map_of_is_SomeI) (auto simp: comp_def simp del: upt_rec_numeral)
  ultimately show ?thesis
    by (simp only:)
qed

definition a5_summary_fields :: "string list" where
  "a5_summary_fields = [''cell_count'', ''cell_min_voltage'', ''cell_max_voltage'', ''cell_avg_voltage'', ''cell_delta_voltage'',
     ''cell_min_index'', ''cell_max_index'']"

lemma a5_cell_field_other: "i < 16 \<Longrightarrow> a5_cell_field i \<notin> set a5_summary_fields"
  by (auto simp: less_Suc_eq numeral_eq_Suc a5_cell_field_def int_str_small a5_summary_fields_def)

lemma a5_cells_result:
  assumes "33 \<le> length payload" "foldE (a5_cell payload) a5_start [0..<16] = Inr s" "a5_scanned payload 16 s"
  shows "\<exists>vs. a5_cells payload = Inr (Some vs)
    \<and> (\<forall>i<16. map_of vs (a5_cell_field i) = Some (a5_volts (a5_reading payload i)))
    \<and> map_of vs ''cell_min_voltage'' = Some (a5_volts (ax_min s)) \<and> map_of vs ''cell_max_voltage'' = Some (a5_volts (ax_max s))
    \<and> map_of vs ''cell_delta_voltage'' = Some (a5_volts (ax_max s - ax_min s))
    \<and> map_of vs ''cell_min_index'' = Some (JFloat (flt (ax_min_idx s)))
    \<and> map_of vs ''cell_max_index'' = Some (JFloat (flt (ax_max_idx s)))"
proof -
  obtain avg where avg: "pf_div (flt (ax_sum s)) (Fin 16) = Inr avg"
    by (cases "flt (ax_sum s)") auto
  define cells where "cells = map (\<lambda>(i, mv). (a5_cell_field i, a5_volts mv)) (zip [0..<16] (ax_cells s))"
  define rest where "rest = [(''cell_min_voltage'', a5_volts (ax_min s)),
          (''cell_max_voltage'', a5_volts (ax_max s)),
          (''cell_avg_voltage'', JFloat (round_digits 3 (avg * dbl (1 / 1000)))),
          (''cell_delta_voltage'', a5_volts (ax_max s - ax_min s)),
          (''cell_min_index'', JFloat (flt (ax_min_idx s))),
          (''cell_max_index'', JFloat (flt (ax_max_idx s)))]"
  have result: "a5_cells payload = Inr (Some ((''cell_count'', JInt 16) # cells @ rest))"
    using assms(1,2) avg by (simp add: a5_cells_def cells_def rest_def del: upt_rec_numeral)
  have cell: "map_of cells (a5_cell_field i) = Some (a5_volts (a5_reading payload i))" if "i < 16" for i
    unfolding cells_def by (rule a5_cells_fields [OF assms(3) that])
  have "length (ax_cells s) = 16"
    using assms(3) by (simp add: a5_scanned_def)
  then have "fst ` set cells \<subseteq> a5_cell_field ` {..<16}"
    by (auto simp: cells_def dest!: set_zip_leftD)
  then have other: "map_of cells k = None" if "k \<in> set a5_summary_fields" for k
  proof -
    have "k \<notin> a5_cell_field ` {..<16}"
      using that a5_cell_field_other by blast
    then show ?thesis
      using \<open>fst ` set cells \<subseteq> a5_cell_field ` {..<16}\<close> unfolding map_of_eq_None_iff by blast
  qed
  have fields: "map_of rest (a5_cell_field i) = None" "a5_cell_field i \<noteq> ''cell_count''" if "i < 16" for i
    using a5_cell_field_other [OF that] by (auto simp: rest_def a5_summary_fields_def)
  define vs where "vs = (''cell_count'', JInt 16) # cells @ rest"
  have tail: "map_of vs k = map_of rest k" if "k \<in> set a5_summary_fields" "k \<noteq> ''cell_count''" for k
    using other [OF that(1)] that(2) by (simp add: vs_def map_add_def)
  have "map_of vs ''cell_min_voltage'' = Some (a5_volts (ax_min s))" "map_of vs ''cell_max_voltage'' = Some (a5_volts (ax_max s))"
      "map_of vs ''cell_delta_voltage'' = Some (a5_volts (ax_max s - ax_min s))"
      "map_of vs ''cell_min_index'' = Some (JFloat (flt (ax_min_idx s)))"
      "map_of vs ''cell_max_index'' = Some (JFloat (flt (ax_max_idx s)))"
    by (simp_all add: tail a5_summary_fields_def rest_def)
  moreover have "map_of vs (a5_cell_field i) = Some (a5_volts (a5_reading payload i))" if "i < 16" for i
    using cell [OF that] fields [OF that] by (simp add: vs_def map_add_def)
  ultimately show ?thesis
    using result unfolding vs_def [symmetric] by blast
qed

text \<open>From a cell payload that is long enough the driver reports all sixteen voltages, their true
  extremes (the minimum capped at 10 V), the difference of the two, and as index of each extreme the
  number of the first cell that has it.\<close>

lemma a5_cells_extremes:
  assumes "33 \<le> length payload"
  defines "c \<equiv> \<lambda>i. be16 (payload ! (1 + i * 2)) (payload ! (1 + i * 2 + 1))"
  defines "lo \<equiv> Min (insert 10000 (c ` {..<16}))" and "hi \<equiv> Max (insert 0 (c ` {..<16}))"
  shows "\<exists>vs imin imax. a5_cells payload = Inr (Some vs)
    \<and> (\<forall>i<16. map_of vs (a5_cell_field i) = Some (a5_volts (c i)))
    \<and> map_of vs ''cell_min_voltage'' = Some (a5_volts lo) \<and> map_of vs ''cell_max_voltage'' = Some (a5_volts hi)
    \<and> map_of vs ''cell_delta_voltage'' = Some (a5_volts (hi - lo))
    \<and> map_of vs ''cell_min_index'' = Some (JFloat (flt imin)) \<and> map_of vs ''cell_max_index'' = Some (JFloat (flt imax))
    \<and> (0 < imin \<longrightarrow> c (nat imin - 1) = lo \<and> (\<forall>j<nat imin - 1. lo < c j))
    \<and> (0 < imax \<longrightarrow> c (nat imax - 1) = hi \<and> (\<forall>j<nat imax - 1. c j < hi))
    \<and> (imin = 0 \<longleftrightarrow> lo = 10000) \<and> (imax = 0 \<longleftrightarrow> hi = 0)"
proof -
  obtain s where s: "foldE (a5_cell payload) a5_start [0..<16] = Inr s" "a5_scanned payload 16 s"
    using a5_cells_scanned [OF assms(1) order_refl] by blast
  have c: "c = a5_reading payload"
    by (simp add: c_def a5_reading_def fun_eq_iff)
  have min: "first_best (<) c 10000 16 (ax_min s) (ax_min_idx s)" and max: "first_best (>) c 0 16 (ax_max s) (ax_max_idx s)"
    using s(2) by (simp_all only: a5_scanned_def c)
  have "lo = ax_min s" "hi = ax_max s"
    using first_best_less_Min [OF min] first_best_greater_Max [OF max] by (simp_all add: lo_def hi_def)
  then show ?thesis
    using a5_cells_result [OF assms(1) s] first_best_less_Min [OF min] first_best_greater_Max [OF max] unfolding c by metis
qed

end
