(* ===== verification/Jk_Bms.thy ===== *)
theory Jk_Bms
  imports Rs485
begin

unbundle bit_operations_syntax

text \<open>
  The JK battery management system, \<^verbatim>\<open>src/collector/rs485/jk_bms.py\<close>: requests with their checksum, the
  check of a frame, the decoding of its tagged body, and one read over a serial port, which is given by
  the answers to the two requests.
\<close>

subsection \<open>Requests\<close>

definition MAGIC_NW :: bytes where
  "MAGIC_NW = [0x4E, 0x57]"

definition FUNCTION_READ_ALL :: int where
  "FUNCTION_READ_ALL = 0x06"

definition STATUS_REQUEST :: bytes where
  "STATUS_REQUEST = [0x4E, 0x57, 0x00, 0x13, 0x00, 0x00, 0x00, 0x00, 0x06, 0x03, 0x00, 0x00, 0x00, 0x00, 0x00, 0x00, 0x68, 0x00, 0x00, 0x01, 0x29]"

definition STATUS_REQUEST_FALLBACK :: bytes where
  "STATUS_REQUEST_FALLBACK = [0x4E, 0x57, 0x00, 0x13, 0x00, 0x00, 0x00, 0x00, 0x03, 0x03, 0x00, 0x79, 0x00, 0x00, 0x00, 0x00, 0x68]"

definition jk_checksum :: "bytes \<Rightarrow> int" where
  "jk_checksum d = (sum_list (map uint d)) AND 0xFFFFFFFF"

definition append_checksum :: "bytes \<Rightarrow> bytes" where
  "append_checksum cmd = cmd @ be32s (jk_checksum cmd)"

subsection \<open>Values\<close>

definition jk_temperature :: "int \<Rightarrow> pyfloat" where
  "jk_temperature raw = (if 100 < raw then flt (raw - 100 - 100) else flt raw)"

definition jk_current :: "int \<Rightarrow> int \<Rightarrow> pyfloat" where
  "jk_current raw sign_byte =
    (let current = flt raw * dbl (1 / 100) in if sign_byte AND 0x01 \<noteq> 0 then - current else current)"

subsection \<open>The cells\<close>

record jk_scan =
  js_min :: pyfloat
  js_max :: pyfloat
  js_sum :: pyfloat
  js_min_idx :: int
  js_max_idx :: int

definition jk_start :: jk_scan where
  "jk_start = \<lparr>js_min = Fin 100, js_max = Fin 0, js_sum = Fin 0, js_min_idx = 0, js_max_idx = 0\<rparr>"

definition jk_cell_field :: "nat \<Rightarrow> string" where
  "jk_cell_field i = ''cell_'' @ int_str (int i + 1) @ ''_voltage''"

definition jk_cell :: "bytes \<Rightarrow> fields \<times> jk_scan \<Rightarrow> nat \<Rightarrow> (fields \<times> jk_scan) result" where
  "jk_cell d = (\<lambda>(fs, js) i.
    let offset = 3 + i * 3 in
    bindE (byte_at d offset) (\<lambda>idx.
    bindE (get_be16 d (offset + 1)) (\<lambda>mv.
    let v = flt mv * dbl (1 / 1000);
        js = js\<lparr>js_sum := js_sum js + v\<rparr>;
        js = (if v < js_min js then js\<lparr>js_min := v, js_min_idx := int i + 1\<rparr> else js);
        js = (if js_max js < v then js\<lparr>js_max := v, js_max_idx := int i + 1\<rparr> else js) in
    Inr (put (jk_cell_field i) (JFloat v) ''V'' fs, js))))"

definition jk_cells :: "bytes \<Rightarrow> nat \<Rightarrow> fields result" where
  "jk_cells d cell_count =
    bindE (foldE (jk_cell d) ([], jk_start) [0..<cell_count]) (\<lambda>(fs, js).
    bindE (pf_div (js_sum js) (flt (int cell_count))) (\<lambda>avg.
    let fs = put ''cell_min_voltage'' (JFloat (js_min js)) ''V'' fs;
        fs = put ''cell_max_voltage'' (JFloat (js_max js)) ''V'' fs;
        fs = put ''cell_avg_voltage'' (JFloat avg) ''V'' fs;
        fs = put ''cell_delta_voltage'' (JFloat (js_max js - js_min js)) ''V'' fs;
        fs = put ''cell_min_index'' (JFloat (flt (js_min_idx js))) [] fs;
        fs = put ''cell_max_index'' (JFloat (flt (js_max_idx js))) [] fs in
    Inr (put ''cell_count'' (JFloat (flt (int cell_count))) [] fs)))"

subsection \<open>The tagged values\<close>

text \<open>The state of the decoding: the fields so far and the offset; the total voltage is kept for the power.\<close>

record jk_state =
  jk_fields :: fields
  jk_offset :: nat
  jk_voltage :: pyfloat
  jk_amps :: pyfloat

type_synonym jk_step = "bytes \<Rightarrow> jk_state \<Rightarrow> jk_state result"

definition add_field :: "string \<Rightarrow> pyfloat \<Rightarrow> string \<Rightarrow> jk_state \<Rightarrow> jk_state" where
  "add_field name v unit st = st\<lparr>jk_fields := put name (JFloat v) unit (jk_fields st)\<rparr>"

text \<open>The next three bytes, a tag that is only compared for the log, and a value.\<close>

definition tag_value :: "bytes \<Rightarrow> jk_state \<Rightarrow> (int \<times> jk_state) result" where
  "tag_value d st =
    (if length d < jk_offset st + 3 then Inr (0, st)
     else bindE (get_be16 d (jk_offset st + 1)) (\<lambda>v. Inr (v, st\<lparr>jk_offset := jk_offset st + 3\<rparr>)))"

text \<open>A guard on the bytes that remain, and on the tag at the offset.\<close>

definition has_bytes :: "bytes \<Rightarrow> nat \<Rightarrow> jk_state \<Rightarrow> bool" where
  "has_bytes d n st \<longleftrightarrow> jk_offset st + n \<le> length d"

definition tagged :: "bytes \<Rightarrow> nat \<Rightarrow> byte \<Rightarrow> jk_state \<Rightarrow> bool" where
  "tagged d n tag st \<longleftrightarrow> has_bytes d n st \<and> jk_offset st < length d \<and> d ! jk_offset st = tag"

definition temperature_step :: "string \<Rightarrow> jk_step" where
  "temperature_step name d st =
    (if has_bytes d 3 st then bindE (tag_value d st) (\<lambda>(v, st). Inr (add_field name (jk_temperature v) degrees st)) else Inr st)"

definition voltage_step :: jk_step where
  "voltage_step d st =
    (if tagged d 3 0x83 st then
       bindE (tag_value d st) (\<lambda>(v, st).
       let total = flt v * dbl (1 / 100) in Inr ((add_field ''total_voltage'' total ''V'' st)\<lparr>jk_voltage := total\<rparr>))
     else Inr (st\<lparr>jk_voltage := Fin 0\<rparr>))"

definition current_step :: jk_step where
  "current_step d st =
    (if tagged d 3 0x84 st then
       bindE (tag_value d st) (\<lambda>(raw, st).
       bindE (if jk_offset st < length d then byte_at d (jk_offset st) else Inr 0) (\<lambda>sign_byte.
       let current = jk_current raw sign_byte;
           st = (add_field ''current'' current ''A'' st)\<lparr>jk_amps := current\<rparr>;
           power = jk_voltage st * current in
       Inr (if jk_voltage st \<noteq> Fin 0
            then add_field ''discharge_power'' (pf_abs (pf_min (Fin 0) power)) ''W''
              (add_field ''charge_power'' (pf_max (Fin 0) power) ''W'' (add_field ''power'' power ''W'' st))
            else st)))
     else Inr st)"

text \<open>A tag followed by a one-byte value: the guard of the state of charge asks for the tag only.\<close>

definition byte_step :: "nat \<Rightarrow> byte \<Rightarrow> string \<Rightarrow> string \<Rightarrow> jk_step" where
  "byte_step need tag name unit d st =
    (if tagged d need tag st then
       bindE (byte_at d (jk_offset st + 1)) (\<lambda>v. Inr ((add_field name (flt v) unit st)\<lparr>jk_offset := jk_offset st + 2\<rparr>))
     else Inr st)"

definition word_step :: "byte \<Rightarrow> string \<Rightarrow> jk_step" where
  "word_step tag name d st =
    (if tagged d 3 tag st then
       bindE (get_be16 d (jk_offset st + 1)) (\<lambda>v. Inr ((add_field name (flt v) [] st)\<lparr>jk_offset := jk_offset st + 3\<rparr>))
     else Inr st)"

definition capacity_step :: jk_step where
  "capacity_step d st =
    (if tagged d 5 0x89 st then
       bindE (get_be32 d (jk_offset st + 1)) (\<lambda>v.
       Inr ((add_field ''total_cycle_capacity'' (flt v) ''Ah'' st)\<lparr>jk_offset := jk_offset st + 5\<rparr>))
     else Inr st)"

definition flag_float :: "bool \<Rightarrow> pyfloat" where
  "flag_float b = (if b then Fin 1 else Fin 0)"

definition mode_step :: jk_step where
  "mode_step d st =
    (if tagged d 3 0x8C st then
       bindE (get_be16 d (jk_offset st + 1)) (\<lambda>mode.
       let st = add_field ''operation_mode_bitmask'' (flt mode) [] st;
           st = add_field ''charging_enabled'' (flag_float (mode AND 0x01 \<noteq> 0)) [] st;
           st = add_field ''discharging_enabled'' (flag_float (mode AND 0x02 \<noteq> 0)) [] st;
           st = add_field ''balancing_enabled'' (flag_float (mode AND 0x04 \<noteq> 0)) [] st in
       Inr (st\<lparr>jk_offset := jk_offset st + 3\<rparr>))
     else Inr st)"

text \<open>The scan for the full charge capacity.\<close>

definition full_capacity_step :: jk_step where
  "full_capacity_step d st =
    (case find (\<lambda>i. d ! i = 0xAA) [jk_offset st..<min (length d - 5) (jk_offset st + 120)] of
       None \<Rightarrow> Inr st
     | Some i \<Rightarrow> bindE (get_be32 d (i + 1)) (\<lambda>v. Inr (add_field ''full_charge_capacity'' (flt v) ''Ah'' st)))"

definition jk_steps :: "jk_step list" where
  "jk_steps = [
     temperature_step ''mosfet_temperature'',
     temperature_step ''battery_box_temperature'',
     temperature_step ''battery_temperature_1'',
     voltage_step,
     current_step,
     byte_step 1 0x85 ''soc'' ''%'',
     byte_step 2 0x86 ''temperature_sensor_count'' [],
     word_step 0x87 ''cycle_count'',
     capacity_step,
     word_step 0x8A ''total_strings'',
     word_step 0x8B ''warning_bitmask'',
     mode_step,
     full_capacity_step]"

subsection \<open>Bodies and frames\<close>

definition jk_parse_status :: "bytes \<Rightarrow> fields option result" where
  "jk_parse_status d =
    (if length d < 2 then Inr None
     else if d ! 0 \<noteq> 0x79 then Inr None
     else
     let cell_count = unat (d ! 1) div 3 in
     if cell_count = 0 \<or> 64 < cell_count then Inr None
     else if length d < cell_count * 3 + 3 then Inr None
     else
     bindE (jk_cells d cell_count) (\<lambda>fs.
     bindE (foldE (\<lambda>st step. step d st)
        \<lparr>jk_fields = fs, jk_offset = cell_count * 3 + 3, jk_voltage = Fin 0, jk_amps = Fin 0\<rparr> jk_steps) (\<lambda>st.
     Inr (Some (jk_fields st)))))"

definition jk_parse_frame :: "bytes \<Rightarrow> fields option result" where
  "jk_parse_frame d =
    (if length d < 20 then Inr None
     else if take 2 d \<noteq> MAGIC_NW then Inr None
     else
     let function = uint (d ! 8) in
     bindE (get_be16 d 10) (\<lambda>data_len.
     if function \<noteq> FUNCTION_READ_ALL \<and> function \<noteq> 0x03 then Inr None
     else
     let expected_len = 12 + nat data_len + 4 in
     if length d < expected_len then Inr None
     else
     let payload = take (expected_len - 4) d in
     bindE (get_be32 d (expected_len - 4)) (\<lambda>stored_crc.
     if stored_crc \<noteq> jk_checksum payload \<and> stored_crc \<noteq> jk_checksum (slice 2 (expected_len - 4) d) then Inr None
     else jk_parse_status (slice 12 (expected_len - 4) d))))"

text \<open>One read: the standard request, then the fallback; \<^verbatim>\<open>answer\<close> gives what the port delivers to a request.\<close>

definition jk_requests :: "bytes list" where
  "jk_requests = [append_checksum STATUS_REQUEST, append_checksum STATUS_REQUEST_FALLBACK]"

fun jk_read_from :: "(bytes \<Rightarrow> bytes) \<Rightarrow> bytes list \<Rightarrow> fields result" where
  "jk_read_from answer [] = Inr []"
| "jk_read_from answer (request # rest) =
    (if answer request = [] then jk_read_from answer rest
     else bindE (jk_parse_frame (answer request)) (\<lambda>parsed. case parsed of
        Some fs \<Rightarrow> if fs \<noteq> [] then Inr fs else jk_read_from answer rest
      | None \<Rightarrow> jk_read_from answer rest))"

definition jk_read :: "(bytes \<Rightarrow> bytes) \<Rightarrow> fields result" where
  "jk_read answer = jk_read_from answer jk_requests"

end
