(* ===== verification/Jk_Facts.thy ===== *)
theory Jk_Facts
  imports Jk_Bms Rs485_Facts
begin

unbundle bit_operations_syntax

text \<open>
  Properties of the JK driver: which frames it accepts, that the decoding of a body raises in one case
  only, the types of what it reports, and the sign of the current.
\<close>

subsection \<open>Frames\<close>

definition jk_frame :: "bytes \<Rightarrow> byte \<Rightarrow> byte \<Rightarrow> bytes \<Rightarrow> int \<Rightarrow> bytes" where
  "jk_frame head code sub body stored = MAGIC_NW @ head @ [code, sub] @ be16s (int (length body)) @ body @ be32s stored"

definition jk_sum :: "bytes \<Rightarrow> byte \<Rightarrow> byte \<Rightarrow> bytes \<Rightarrow> int" where
  "jk_sum head code sub body = sum_list (map uint (head @ [code, sub] @ be16s (int (length body)) @ body))"

lemma sum_bytes_bounds: "0 \<le> sum_list (map uint (d :: bytes))" "sum_list (map uint (d :: bytes)) \<le> 255 * int (length d)"
  by (induction d) (use byte_bounds in \<open>auto simp: algebra_simps add_mono\<close>)

lemma jk_checksum_small: "length d \<le> 100000 \<Longrightarrow> jk_checksum d = sum_list (map uint d)"
proof -
  assume "length d \<le> 100000"
  then have "sum_list (map uint d) < 2 ^ 32"
    using sum_bytes_bounds(2) [of d] by simp
  moreover have "(0xFFFFFFFF :: int) = mask 32"
    by (simp add: mask_eq_exp_minus_1)
  ultimately show ?thesis
    using sum_bytes_bounds(1) [of d] by (simp only: jk_checksum_def flip: take_bit_eq_mask) (simp add: take_bit_int_eq_self)
qed

lemma get_be32_be32s:
  assumes "0 \<le> v" "v < 2 ^ 32"
  shows "get_be32 (d @ be32s v) (length d) = Inr v"
proof -
  have "v div 65536 \<le> 65535" "0 \<le> v div 65536"
    using assms by auto
  then have "be16 (hi_byte (v div 65536)) (lo_byte (v div 65536)) = v div 65536"
    by (simp add: be16_be16s)
  moreover have "be16 (hi_byte (v mod 65536)) (lo_byte (v mod 65536)) = v mod 65536"
    by (rule be16_be16s) (use pos_mod_bound [of 65536 v] in auto)
  ultimately show ?thesis
    by (subst get_be32_ok) (simp_all add: be32s_def be16s_def nth_append numeral_eq_Suc)
qed

text \<open>The parser accepts a frame exactly when the stored sum is that of everything, or that without the magic
  bytes.\<close>

lemma jk_parse_frame_frame:
  assumes "length head = 6" "length body \<le> 65535" "code = 0x06 \<or> code = 0x03" "4 \<le> length body" "0 \<le> stored" "stored < 2 ^ 32"
  shows "jk_parse_frame (jk_frame head code sub body stored)
    = (if stored = 165 + jk_sum head code sub body \<or> stored = jk_sum head code sub body then jk_parse_status body else Inr None)"
proof -
  let ?n = "12 + length body"
  define pre where "pre = MAGIC_NW @ head @ [code, sub] @ be16s (int (length body))"
  have frame: "jk_frame head code sub body stored = (pre @ body) @ be32s stored"
    by (simp add: jk_frame_def pre_def)
  have pre: "length pre = 12" "pre ! 8 = code" "pre ! 10 = hi_byte (int (length body))" "pre ! 11 = lo_byte (int (length body))"
      "take 2 pre = MAGIC_NW"
    using assms(1) by (simp_all add: pre_def MAGIC_NW_def be16s_def nth_append numeral_eq_Suc)
  have len: "get_be16 ((pre @ body) @ be32s stored) 10 = Inr (int (length body))"
    using assms(2) pre by (subst get_be16_ok) (simp_all add: nth_append be16_be16s)
  have crc: "get_be32 ((pre @ body) @ be32s stored) ?n = Inr stored"
    using get_be32_be32s [OF assms(5,6), of "pre @ body"] pre(1) by simp
  have sum: "jk_checksum (pre @ body) = 165 + jk_sum head code sub body"
    using assms(2) pre(1) by (subst jk_checksum_small) (simp_all add: pre_def jk_sum_def MAGIC_NW_def)
  have "drop 2 (pre @ body) = head @ [code, sub] @ be16s (int (length body)) @ body"
    by (simp add: pre_def MAGIC_NW_def)
  then have alt: "jk_checksum (drop 2 (pre @ body)) = jk_sum head code sub body"
    using assms(1,2) by (simp only:) (subst jk_checksum_small, simp_all add: jk_sum_def)
  have code: "\<not> (uint code \<noteq> FUNCTION_READ_ALL \<and> uint code \<noteq> 0x03)"
    using assms(3) by (auto simp: FUNCTION_READ_ALL_def)
  have slices: "slice 2 ?n ((pre @ body) @ be32s stored) = drop 2 (pre @ body)"
      "slice 12 ?n ((pre @ body) @ be32s stored) = body" "take ?n ((pre @ body) @ be32s stored) = pre @ body"
    using pre(1) by (simp_all add: slice_def)
  have magic: "take 2 ((pre @ body) @ be32s stored) = MAGIC_NW" "((pre @ body) @ be32s stored) ! 8 = code"
    using pre by (simp_all add: nth_append)
  have total: "length ((pre @ body) @ be32s stored) = 16 + length body" "12 + nat (int (length body)) + 4 - 4 = ?n"
    using pre(1) by (simp_all add: be32s_def)
  show ?thesis
    unfolding jk_parse_frame_def frame Let_def len bindE_Inr total crc magic slices sum alt
    using code assms(4) by auto
qed

subsection \<open>The body\<close>

text \<open>
  Every step but the one for the state of charge reads behind a guard on the bytes that remain; that one
  may stand at the last byte.  The invariant: names map to floats only, each name once.
\<close>

definition float_fields :: "fields \<Rightarrow> bool" where
  "float_fields fs \<longleftrightarrow> distinct (map fst fs) \<and> (\<forall>(name, v, unit) \<in> set fs. \<exists>x. v = JFloat x)"

lemma set_update_subset: "set (AList.update k v al) \<subseteq> insert (k, v) (set al)"
  by (induction al) (auto split: if_splits)

lemma float_fields_put: "float_fields fs \<Longrightarrow> float_fields (put name (JFloat x) unit fs)"
  using set_update_subset [of name "(JFloat x, unit)" fs] unfolding float_fields_def put_def
  by (fastforce simp: distinct_update)

definition jk_ok :: "bytes \<Rightarrow> jk_state result \<Rightarrow> bool" where
  "jk_ok d r \<longleftrightarrow> (case r of Inr st \<Rightarrow> float_fields (jk_fields st) | Inl e \<Rightarrow> e = IndexError \<and> d \<noteq> [] \<and> last d = 0x85)"

lemma jk_ok_Inr [simp]: "jk_ok d (Inr st) \<longleftrightarrow> float_fields (jk_fields st)"
  by (simp add: jk_ok_def)

lemma float_fields_add [simp]: "float_fields (jk_fields st) \<Longrightarrow> float_fields (jk_fields (add_field name x unit st))"
  by (simp add: add_field_def float_fields_put)

lemma tag_value_ok: "has_bytes d 3 st \<Longrightarrow> \<exists>v. tag_value d st = Inr (v, st\<lparr>jk_offset := jk_offset st + 3\<rparr>)"
  by (auto simp: tag_value_def has_bytes_def get_be16_ok)

lemma temperature_step_ok: "float_fields (jk_fields st) \<Longrightarrow> jk_ok d (temperature_step name d st)"
  using tag_value_ok [of d st] by (auto simp: temperature_step_def)

lemma voltage_step_ok: "float_fields (jk_fields st) \<Longrightarrow> jk_ok d (voltage_step d st)"
  using tag_value_ok [of d st] by (auto simp: voltage_step_def tagged_def Let_def)

lemma current_step_ok: "float_fields (jk_fields st) \<Longrightarrow> jk_ok d (current_step d st)"
  using tag_value_ok [of d st] by (auto simp: current_step_def tagged_def Let_def byte_at_ok)

lemma byte_step_ok: "float_fields (jk_fields st) \<Longrightarrow> jk_ok d (byte_step 2 t name unit d st)"
  by (simp add: byte_step_def tagged_def has_bytes_def byte_at_ok)

lemma soc_step_ok: "float_fields (jk_fields st) \<Longrightarrow> jk_ok d (byte_step 1 0x85 name unit d st)"
proof (cases "jk_offset st + 1 < length d")
  case True
  assume "float_fields (jk_fields st)"
  with True show ?thesis
    by (simp add: byte_step_def byte_at_ok)
next
  case False
  assume fs: "float_fields (jk_fields st)"
  show ?thesis
  proof (cases "tagged d 1 0x85 st")
    case True
    then have "length d - 1 = jk_offset st" "d \<noteq> []"
      using False by (auto simp: tagged_def has_bytes_def)
    then show ?thesis
      using True False by (simp add: byte_step_def byte_at_def jk_ok_def last_conv_nth tagged_def)
  qed (simp add: byte_step_def fs)
qed

lemma word_step_ok: "float_fields (jk_fields st) \<Longrightarrow> jk_ok d (word_step t name d st)"
  by (simp add: word_step_def tagged_def has_bytes_def get_be16_ok)

lemma capacity_step_ok: "float_fields (jk_fields st) \<Longrightarrow> jk_ok d (capacity_step d st)"
  by (simp add: capacity_step_def tagged_def has_bytes_def get_be32_ok)

lemma mode_step_ok: "float_fields (jk_fields st) \<Longrightarrow> jk_ok d (mode_step d st)"
  by (simp add: mode_step_def tagged_def has_bytes_def get_be16_ok Let_def)

lemma find_Some_set: "find P xs = Some x \<Longrightarrow> x \<in> set xs"
  by (induction xs) (auto split: if_splits)

lemma full_capacity_step_ok: "float_fields (jk_fields st) \<Longrightarrow> jk_ok d (full_capacity_step d st)"
  by (auto simp: full_capacity_step_def get_be32_ok split: option.split dest!: find_Some_set)

lemma step_ok: "step \<in> set jk_steps \<Longrightarrow> float_fields (jk_fields st) \<Longrightarrow> jk_ok d (step d st)"
  unfolding jk_steps_def
  by (auto simp del: One_nat_def intro: temperature_step_ok voltage_step_ok current_step_ok byte_step_ok soc_step_ok word_step_ok
      capacity_step_ok mode_step_ok full_capacity_step_ok)

lemma steps_ok:
  "set steps \<subseteq> set jk_steps \<Longrightarrow> float_fields (jk_fields st) \<Longrightarrow> jk_ok d (foldE (\<lambda>st step. step d st) st steps)"
proof (induction steps arbitrary: st)
  case (Cons step steps)
  have "jk_ok d (step d st)"
    using Cons.prems by (intro step_ok) simp_all
  then show ?case
    using Cons.IH Cons.prems(1) by (cases "step d st") (auto simp: jk_ok_def)
qed simp

lemma jk_cell_ok:
  assumes "i < n" "n * 3 + 3 \<le> length d" "float_fields (fst s)"
  shows "\<exists>s'. jk_cell d s i = Inr s' \<and> float_fields (fst s')"
proof -
  have "byte_at d (3 + i * 3) = Inr (uint (d ! (3 + i * 3)))" "\<exists>v. get_be16 d (3 + i * 3 + 1) = Inr v"
    using assms(1,2) by (auto intro!: byte_at_ok simp: get_be16_ok)
  then show ?thesis
    using assms(3) by (cases s) (auto simp: jk_cell_def Let_def float_fields_put)
qed

lemma jk_cells_ok:
  assumes "0 < n" "n \<le> 64" "n * 3 + 3 \<le> length d"
  shows "\<exists>fs. jk_cells d n = Inr fs \<and> float_fields fs \<and> fs \<noteq> []"
proof -
  obtain s where s: "foldE (jk_cell d) ([], jk_start) [0..<n] = Inr s \<and> float_fields (fst s)"
    using foldE_invariant [where P = "\<lambda>s. float_fields (fst s)" and s = "([], jk_start)" and xs = "[0..<n]" and f = "jk_cell d"]
      jk_cell_ok [OF _ assms(3)] by (auto simp: float_fields_def)
  obtain avg where "pf_div (js_sum (snd s)) (flt (int n)) = Inr avg"
    using pf_div_pos [of "int n"] assms(1,2) by auto
  moreover have "put name v unit fs \<noteq> []" for name v unit fs
    by (cases fs) (auto simp: put_def)
  ultimately show ?thesis
    using s by (cases s) (auto simp: jk_cells_def Let_def float_fields_put)
qed

lemma put_nonempty [simp]: "put name v unit fs \<noteq> []"
  by (cases fs) (auto simp: put_def)

lemma jk_parse_status_ok:
  "case jk_parse_status d of
     Inl e \<Rightarrow> e = IndexError \<and> d \<noteq> [] \<and> last d = 0x85
   | Inr r \<Rightarrow> (\<forall>fs. r = Some fs \<longrightarrow> float_fields fs)"
proof -
  define n where "n = unat (d ! 1) div 3"
  have "jk_ok d (foldE (\<lambda>st step. step d st) \<lparr>jk_fields = fs, jk_offset = n * 3 + 3, jk_voltage = Fin 0, jk_amps = Fin 0\<rparr> jk_steps)"
    if "float_fields fs" for fs
    using that by (intro steps_ok) simp_all
  then show ?thesis
    using jk_cells_ok [of n d] unfolding jk_parse_status_def Let_def n_def [symmetric]
    by (fastforce simp: jk_ok_def bindE_def not_less split: sum.splits)
qed

lemma numeric_values_floats: "\<forall>(name, v, unit) \<in> set fs. \<exists>x. v = JFloat x \<Longrightarrow> numeric_values fs = Inr fs"
  by (induction fs) (auto simp: is_numeric_def)

text \<open>A frame with its sum of bytes is decoded; a frame whose body was changed under the same stored sum
  is accepted exactly when the bytes add up to the same, or to 165 more (the sum of the magic bytes, which the
  fallback check leaves out): bytes that change places, for one, are never noticed.\<close>

lemma jk_frame_checked:
  assumes "length head = 6" "code = 0x06 \<or> code = 0x03" "4 \<le> length body" "length body \<le> 65535" "length body' = length body"
  shows "jk_parse_frame (jk_frame head code sub body (165 + jk_sum head code sub body)) = jk_parse_status body
    \<and> jk_parse_frame (jk_frame head code sub body' (165 + jk_sum head code sub body))
      = (if sum_list (map uint body') - sum_list (map uint body) \<in> {0, 165} then jk_parse_status body' else Inr None)"
proof
  let ?stored = "165 + jk_sum head code sub body"
  have bounds: "0 \<le> ?stored" "?stored < 2 ^ 32"
  proof -
    have "length (head @ [code, sub] @ be16s (int (length body)) @ body) \<le> 65545"
      using assms(1,4) by simp
    then show "0 \<le> ?stored" "?stored < 2 ^ 32"
      using sum_bytes_bounds [of "head @ [code, sub] @ be16s (int (length body)) @ body"] unfolding jk_sum_def by auto
  qed
  have diff: "jk_sum head code sub body' - jk_sum head code sub body = sum_list (map uint body') - sum_list (map uint body)"
    by (simp add: jk_sum_def assms(5))
  show "jk_parse_frame (jk_frame head code sub body ?stored) = jk_parse_status body"
    using jk_parse_frame_frame [OF assms(1,4,2,3) bounds, of sub] by simp
  have "?stored = 165 + jk_sum head code sub body' \<or> ?stored = jk_sum head code sub body'
      \<longleftrightarrow> sum_list (map uint body') - sum_list (map uint body) \<in> {0, 165}"
    unfolding diff [symmetric] by auto
  then show "jk_parse_frame (jk_frame head code sub body' ?stored)
      = (if sum_list (map uint body') - sum_list (map uint body) \<in> {0, 165} then jk_parse_status body' else Inr None)"
    using jk_parse_frame_frame [OF assms(1) _ assms(2) _ bounds, of body' sub] assms(3-5) by simp
qed

text \<open>C20: whatever the serial port delivers, the JK driver raises nothing but IndexError, and that only on a body
  that ends in the tag 85; a snapshot it returns maps distinct names to floats, so the numeric filter of the
  collector keeps all of it.\<close>

theorem jk_snapshot_types:
  "(case jk_parse_status body of Inl e \<Rightarrow> e = IndexError \<and> body \<noteq> [] \<and> last body = 0x85 | Inr r \<Rightarrow> True)
   \<and> (case jk_parse_frame d of
       Inl e \<Rightarrow> e = IndexError
     | Inr None \<Rightarrow> True
     | Inr (Some fs) \<Rightarrow> distinct (map fst fs) \<and> list_all (\<lambda>(name, v, unit). \<exists>x. v = JFloat x) fs \<and> numeric_values fs = Inr fs)"
proof
  show "case jk_parse_status body of Inl e \<Rightarrow> e = IndexError \<and> body \<noteq> [] \<and> last body = 0x85 | Inr r \<Rightarrow> True"
    using jk_parse_status_ok [of body] by (simp split: sum.splits)
  have "\<exists>b. jk_parse_frame d = jk_parse_status b \<or> jk_parse_frame d = Inr None"
  proof (cases "length d < 20")
    case False
    then obtain n where "get_be16 d 10 = Inr n"
      by (simp add: get_be16_ok)
    moreover have "\<exists>v. get_be32 d (12 + nat n) = Inr v" if "16 + nat n \<le> length d" for n
      using that by (simp add: get_be32_ok)
    ultimately show ?thesis
      unfolding jk_parse_frame_def Let_def using False by (fastforce simp: not_less)
  qed (auto simp: jk_parse_frame_def)
  then show "case jk_parse_frame d of
       Inl e \<Rightarrow> e = IndexError
     | Inr None \<Rightarrow> True
     | Inr (Some fs) \<Rightarrow> distinct (map fst fs) \<and> list_all (\<lambda>(name, v, unit). \<exists>x. v = JFloat x) fs \<and> numeric_values fs = Inr fs"
    using jk_parse_status_ok numeric_values_floats unfolding float_fields_def list_all_iff
    by (fastforce split: sum.splits option.splits)
qed

subsection \<open>The sign of the current\<close>

text \<open>After the current the steps neither raise, the state of charge aside, nor touch it.\<close>

definition keeps_current :: "jk_state \<Rightarrow> jk_state result \<Rightarrow> bool" where
  "keeps_current st r \<longleftrightarrow> (\<exists>st'. r = Inr st' \<and> map_of (jk_fields st') ''current'' = map_of (jk_fields st) ''current'')"

lemma map_of_put: "map_of (put name v unit fs) k = (if k = name then Some (v, unit) else map_of fs k)"
  by (simp add: put_def update_conv')

lemma jk_fields_add [simp]:
  "map_of (jk_fields (add_field name x unit st)) k = (if k = name then Some (JFloat x, unit) else map_of (jk_fields st) k)"
  "jk_offset (add_field name x unit st) = jk_offset st" "jk_voltage (add_field name x unit st) = jk_voltage st"
  by (simp_all add: add_field_def map_of_put)

lemma byte_step_keeps: "name \<noteq> ''current'' \<Longrightarrow> tagged d need tag st \<longrightarrow> jk_offset st + 1 < length d \<Longrightarrow>
    keeps_current st (byte_step need tag name unit d st)"
  by (auto simp: byte_step_def byte_at_ok keeps_current_def)

lemma byte_step_2_keeps: "name \<noteq> ''current'' \<Longrightarrow> keeps_current st (byte_step 2 tag name unit d st)"
  by (rule byte_step_keeps) (auto simp: tagged_def has_bytes_def)

lemma word_step_keeps: "name \<noteq> ''current'' \<Longrightarrow> keeps_current st (word_step tag name d st)"
  by (simp add: word_step_def tagged_def has_bytes_def get_be16_ok keeps_current_def)

lemma capacity_step_keeps: "keeps_current st (capacity_step d st)"
  by (simp add: capacity_step_def tagged_def has_bytes_def get_be32_ok keeps_current_def)

lemma mode_step_keeps: "keeps_current st (mode_step d st)"
  by (simp add: mode_step_def tagged_def has_bytes_def get_be16_ok keeps_current_def Let_def)

lemma full_capacity_step_keeps: "keeps_current st (full_capacity_step d st)"
  by (auto simp: full_capacity_step_def get_be32_ok keeps_current_def split: option.split dest!: find_Some_set)

lemma later_steps_keep:
  "list_all (\<lambda>step. \<forall>st. keeps_current st (step d st)) steps \<Longrightarrow> keeps_current st (foldE (\<lambda>st step. step d st) st steps)"
proof (induction steps arbitrary: st)
  case (Cons step steps)
  then have "keeps_current st (step d st)"
    by simp
  then obtain st' where st': "step d st = Inr st'" "map_of (jk_fields st') ''current'' = map_of (jk_fields st) ''current''"
    by (auto simp: keeps_current_def)
  have "keeps_current st' (foldE (\<lambda>st step. step d st) st' steps)"
    using Cons by simp
  then show ?case
    using st' by (simp add: keeps_current_def)
qed (simp add: keeps_current_def)

lemma temperature_step_eq:
  "has_bytes d 3 st \<Longrightarrow> \<exists>st'. temperature_step name d st = Inr st' \<and> jk_offset st' = jk_offset st + 3"
  using tag_value_ok [of d st] by (auto simp: temperature_step_def)

definition later_steps :: "jk_step list" where
  "later_steps = [byte_step 2 0x86 ''temperature_sensor_count'' [], word_step 0x87 ''cycle_count'', capacity_step,
     word_step 0x8A ''total_strings'', word_step 0x8B ''warning_bitmask'', mode_step, full_capacity_step]"

lemma jk_steps_split: "jk_steps = [temperature_step ''mosfet_temperature'', temperature_step ''battery_box_temperature'',
    temperature_step ''battery_temperature_1'', voltage_step, current_step] @ byte_step 1 0x85 ''soc'' ''%'' # later_steps"
  by (simp add: jk_steps_def later_steps_def)

lemma current_step_discharge:
  assumes "jk_offset st + 4 < length d" "d ! jk_offset st = 0x84" "d ! (jk_offset st + 3) = 0x85"
  shows "\<exists>st'. current_step d st = Inr st' \<and> jk_offset st' = jk_offset st + 3 \<and> map_of (jk_fields st') ''current''
    = Some (JFloat (- (flt (be16 (d ! (jk_offset st + 1)) (d ! (jk_offset st + 2))) * dbl (1 / 100))), ''A'')"
proof -
  have "tagged d 3 0x84 st" "jk_offset st + 3 < length d"
    using assms by (auto simp: tagged_def has_bytes_def)
  moreover have "tag_value d st = Inr (be16 (d ! (jk_offset st + 1)) (d ! (jk_offset st + 2)), st\<lparr>jk_offset := jk_offset st + 3\<rparr>)"
    using assms(1) by (simp add: tag_value_def get_be16_ok)
  moreover have "jk_current v (uint (0x85 :: byte)) = - (flt v * dbl (1 / 100))" for v
    by (simp add: jk_current_def Let_def)
  ultimately show ?thesis
    using assms(3) by (simp add: current_step_def byte_at_ok Let_def)
qed

lemma later_steps_ok: "list_all (\<lambda>step. \<forall>st. keeps_current st (step d st)) later_steps"
  by (simp add: later_steps_def byte_step_2_keeps word_step_keeps capacity_step_keeps mode_step_keeps full_capacity_step_keeps)

text \<open>In the standard layout, where the state of charge (tag 85) follows the current (tag 84), the driver
  takes the tag itself, an odd number, as the sign: every current is reported as negative, a discharge.\<close>

lemma jk_current_always_discharge:
  fixes d :: bytes
  defines "n \<equiv> unat (d ! 1) div 3"
  defines "off \<equiv> n * 3 + 3"
  assumes "d ! 0 = 0x79" "0 < n" "n \<le> 64" "off + 16 < length d"
    and "d ! (off + 9) = 0x83" "d ! (off + 12) = 0x84" "d ! (off + 15) = 0x85"
  shows "\<exists>fs. jk_parse_status d = Inr (Some fs) \<and> map_of fs ''current''
    = Some (JFloat (- (flt (be16 (d ! (off + 13)) (d ! (off + 14))) * dbl (1 / 100))), ''A'')"
proof -
  have n: "unat (d ! Suc 0) div 3 = n"
    by (simp add: n_def)
  obtain fs where fs: "jk_cells d n = Inr fs"
    using jk_cells_ok [of n d] assms by (auto simp: off_def)
  define st0 where "st0 = \<lparr>jk_fields = fs, jk_offset = off, jk_voltage = Fin 0, jk_amps = Fin 0\<rparr>"
  have "jk_offset st0 = off"
    by (simp add: st0_def)
  then obtain st1 where st1: "temperature_step ''mosfet_temperature'' d st0 = Inr st1" "jk_offset st1 = off + 3"
    using temperature_step_eq [of d st0] assms(6) by (auto simp: has_bytes_def)
  then obtain st2 where st2: "temperature_step ''battery_box_temperature'' d st1 = Inr st2" "jk_offset st2 = off + 6"
    using temperature_step_eq [of d st1 "''battery_box_temperature''"] assms(6) by (auto simp: has_bytes_def add.commute)
  then obtain st3 where st3: "temperature_step ''battery_temperature_1'' d st2 = Inr st3" "jk_offset st3 = off + 9"
    using temperature_step_eq [of d st2 "''battery_temperature_1''"] assms(6) by (auto simp: has_bytes_def add.commute)
  then have "tagged d 3 0x83 st3" "has_bytes d 3 st3"
    using assms(6,7) by (auto simp: tagged_def has_bytes_def)
  then obtain st4 where st4: "voltage_step d st3 = Inr st4" "jk_offset st4 = off + 12"
    using tag_value_ok [of d st3] st3(2) by (auto simp: voltage_step_def Let_def)
  then obtain st5 where st5: "current_step d st4 = Inr st5" "jk_offset st5 = off + 15" "map_of (jk_fields st5) ''current''
      = Some (JFloat (- (flt (be16 (d ! (off + 13)) (d ! (off + 14))) * dbl (1 / 100))), ''A'')"
    using current_step_discharge [of st4 d] assms(6,8,9) by (auto simp: add.assoc add.commute)
  have "keeps_current st5 (byte_step 1 0x85 ''soc'' ''%'' d st5)"
    using assms(6) st5(2) by (intro byte_step_keeps) auto
  then obtain st6 where st6: "byte_step 1 0x85 ''soc'' ''%'' d st5 = Inr st6"
      "map_of (jk_fields st6) ''current'' = map_of (jk_fields st5) ''current''"
    by (auto simp: keeps_current_def)
  obtain st7 where st7: "foldE (\<lambda>st step. step d st) st6 later_steps = Inr st7"
      "map_of (jk_fields st7) ''current'' = map_of (jk_fields st6) ''current''"
    using later_steps_keep [OF later_steps_ok, of st6] by (auto simp: keeps_current_def)
  have "foldE (\<lambda>st step. step d st) st0 jk_steps = Inr st7"
    by (simp add: jk_steps_split st1 st2 st3 st4 st5 st6(1) st7(1) del: One_nat_def)
  then have "jk_parse_status d = Inr (Some (jk_fields st7))"
    using assms(3-6) fs n by (simp add: jk_parse_status_def Let_def st0_def off_def)
  then show ?thesis
    using st5(3) st6(2) st7(2) by simp
qed

end
