(* ===== verification/Line_Protocol.thy ===== *)
theory Line_Protocol
  imports Rs485
begin

text \<open>
  The line protocol of InfluxDB as \<^verbatim>\<open>src/collector/outputs.py\<close> writes it: escaping, and one line from a
  measurement, tags, fields and a timestamp.  A reader that takes a backslash as protecting the next
  character gets back what was written.
\<close>

subsection \<open>Writing\<close>

text \<open>\<^verbatim>\<open>s.replace(c, r)\<close> for a single character.\<close>

definition replace_char :: "char \<Rightarrow> string \<Rightarrow> string \<Rightarrow> string" where
  "replace_char c r s = concat (map (\<lambda>x. if x = c then r else [x]) s)"

definition backslash :: char where
  "backslash = CHR 0x5C"

definition escape_influx :: "string \<Rightarrow> string" where
  "escape_influx s = replace_char (CHR ''='') [backslash, CHR ''='']
     (replace_char (CHR '','') [backslash, CHR '','']
       (replace_char (CHR '' '') [backslash, CHR '' '']
         (replace_char backslash [backslash, backslash] s)))"

definition quote :: char where
  "quote = CHR 0x22"

definition quoted :: "string \<Rightarrow> string" where
  "quoted v = [quote] @ replace_char quote [backslash, quote] (replace_char backslash [backslash, backslash] v) @ [quote]"

text \<open>The text of a field value; nothing for a value that is absent or not a number.\<close>

definition field_value :: "json \<Rightarrow> string option result" where
  "field_value v = (case v of
     JBool b \<Rightarrow> Inr (Some (if b then ''t'' else ''f''))
   | JStr s \<Rightarrow> Inr (Some (quoted s))
   | JNull \<Rightarrow> Inr None
   | JFloat NaN \<Rightarrow> Inr None
   | _ \<Rightarrow> bindE (py_float v) (\<lambda>x. Inr (Some (float_repr x))))"

fun field_parts :: "(string \<times> json) list \<Rightarrow> string list result" where
  "field_parts [] = Inr []"
| "field_parts ((k, v) # fs) =
    bindE (field_value v) (\<lambda>text.
    bindE (field_parts fs) (\<lambda>parts.
    Inr (case text of None \<Rightarrow> parts | Some s \<Rightarrow> (escape_influx k @ ''='' @ s) # parts)))"

definition tag_text :: "(string \<times> string) list \<Rightarrow> string" where
  "tag_text tags = concat (map (\<lambda>(k, v). '','' @ escape_influx k @ ''='' @ escape_influx v) (filter (\<lambda>(k, v). v \<noteq> []) tags))"

definition to_line :: "string \<Rightarrow> (string \<times> string) list \<Rightarrow> (string \<times> json) list \<Rightarrow> int \<Rightarrow> string result" where
  "to_line measurement tags fs ts_ns =
    bindE (field_parts fs) (\<lambda>parts.
    Inr (if parts = [] then []
         else escape_influx measurement @ tag_text tags @ '' '' @ join '','' parts @ '' '' @ int_str ts_ns))"

subsection \<open>Reading\<close>

text \<open>A token ends at the first separator that is not escaped.\<close>

definition separator :: "char \<Rightarrow> bool" where
  "separator c \<longleftrightarrow> c = CHR '' '' \<or> c = CHR '','' \<or> c = CHR ''=''"

definition onto :: "char \<Rightarrow> string \<times> string \<Rightarrow> string \<times> string" where
  "onto c p = (c # fst p, snd p)"

function read_token :: "string \<Rightarrow> string \<times> string" where
  "read_token [] = ([], [])"
| "read_token (c # cs) =
    (if separator c then ([], c # cs)
     else if c = backslash \<and> cs \<noteq> [] then onto (hd cs) (read_token (tl cs))
     else onto c (read_token cs))"
  by pat_completeness auto

termination
  by (relation "measure length") auto

text \<open>Pairs \<^verbatim>\<open>key=value\<close> separated by commas, up to a space; each pair is introduced by its comma.\<close>

lemma read_token_shorter: "length (snd (read_token s)) \<le> length s"
  by (induction s rule: read_token.induct) (auto simp: onto_def)

function read_pairs :: "string \<Rightarrow> ((string \<times> string) list \<times> string) option" where
  "read_pairs s =
    (if starts_with '','' s then
       (let (k, rest) = read_token (tl s) in
        if \<not> starts_with ''='' rest then None
        else (let (v, rest) = read_token (tl rest) in
          map_option (\<lambda>(ps, r). ((k, v) # ps, r)) (read_pairs rest)))
     else if starts_with '' '' s then Some ([], tl s)
     else None)"
  by pat_completeness auto

termination
proof (relation "measure length", goal_cases)
  case (2 s p k rest q v rest')
  have "s \<noteq> []" "rest \<noteq> []"
    using 2 by (auto simp: starts_with_def)
  moreover have "length rest \<le> length (tl s)" "length rest' \<le> length (tl rest)"
    using 2 read_token_shorter by (metis snd_conv)+
  ultimately show ?case
    by (cases s; cases rest) auto
qed simp

declare read_pairs.simps [simp del]

definition read_line :: "string \<Rightarrow> (string \<times> (string \<times> string) list \<times> (string \<times> string) list \<times> string) option" where
  "read_line s = (let (measurement, rest) = read_token s in
     Option.bind (read_pairs rest) (\<lambda>(tags, rest).
     map_option (\<lambda>(fs, ts). (measurement, tags, fs, ts)) (read_pairs ('','' @ rest))))"

subsection \<open>Reading what was written\<close>

text \<open>The four replacements in a row amount to escaping each character once.\<close>

definition escaped :: "char \<Rightarrow> string" where
  "escaped c = (if separator c \<or> c = backslash then [backslash, c] else [c])"

lemma replace_char_Nil [simp]: "replace_char c r [] = []"
  by (simp add: replace_char_def)

lemma replace_char_Cons [simp]: "replace_char c r (x # s) = (if x = c then r else [x]) @ replace_char c r s"
  by (simp add: replace_char_def)

lemma escape_influx_eq: "escape_influx s = concat (map escaped s)"
  by (induction s) (auto simp: escape_influx_def escaped_def separator_def backslash_def)

lemma read_token_escaped: "read_token (escaped c @ s) = onto c (read_token s)"
  by (simp add: escaped_def separator_def backslash_def)

lemma read_token_escape:
  "rest = [] \<or> separator (hd rest) \<Longrightarrow> read_token (escape_influx s @ rest) = (s, rest)"
proof (induction s)
  case Nil
  then show ?case
    by (cases rest) (auto simp: escape_influx_eq)
next
  case (Cons c s)
  then show ?case
    by (simp add: escape_influx_eq read_token_escaped onto_def)
qed

text \<open>The text of a number contains neither a separator nor a backslash, so it is its own escape.\<close>

definition line_feed :: char where
  "line_feed = CHR 0x0A"

definition plain :: "string \<Rightarrow> bool" where
  "plain s \<longleftrightarrow> list_all (\<lambda>c. \<not> separator c \<and> c \<noteq> backslash \<and> c \<noteq> line_feed) s"

lemma plain_escape: "plain s \<Longrightarrow> escape_influx s = s"
  by (induction s) (auto simp: plain_def escape_influx_eq escaped_def)

lemma plain_append [simp]: "plain (s @ t) \<longleftrightarrow> plain s \<and> plain t"
  by (simp add: plain_def)

lemma plain_Cons [simp]: "plain (c # s) \<longleftrightarrow> \<not> separator c \<and> c \<noteq> backslash \<and> c \<noteq> line_feed \<and> plain s"
  by (simp add: plain_def)

lemma plain_Nil [simp]: "plain []"
  by (simp add: plain_def)

lemma plain_digit: "is_digit c \<Longrightarrow> \<not> separator c \<and> c \<noteq> backslash \<and> c \<noteq> line_feed"
  by (auto simp: is_digit_def separator_def backslash_def line_feed_def char_code_def)

lemma plain_nat_str: "plain (nat_str n)"
proof (induction n rule: nat_str.induct)
  case (1 n)
  then show ?case
    by (subst nat_str.simps) (auto simp: plain_def plain_digit is_digit_digit_char)
qed

lemma plain_set: "plain s \<longleftrightarrow> (\<forall>c \<in> set s. \<not> separator c \<and> c \<noteq> backslash \<and> c \<noteq> line_feed)"
  by (simp add: plain_def list_all_iff)

lemma plain_sub: "plain s \<Longrightarrow> set t \<subseteq> set s \<Longrightarrow> plain t"
  by (auto simp: plain_set)

lemma plain_int_str: "plain (int_str n)"
  using plain_nat_str by (simp add: int_str_def separator_def backslash_def line_feed_def)

lemma plain_format_digits: "plain ds \<Longrightarrow> plain (format_digits ds decpt)"
proof -
  assume ds: "plain ds"
  have "plain (replicate n (CHR ''0''))" for n
    by (induction n) (simp_all add: separator_def backslash_def line_feed_def)
  moreover have "plain (take n ds)" "plain (drop n ds)" for n
    using ds by (auto intro: plain_sub dest: in_set_takeD in_set_dropD)
  ultimately show ?thesis
    using ds plain_nat_str by (simp add: format_digits_def exponent_str_def separator_def backslash_def line_feed_def)
qed

lemma plain_float_repr: "plain (float_repr x)"
proof (cases x)
  case (Fin r)
  obtain m k where "shortest_digits 17 \<bar>r\<bar> (dec_expo \<bar>r\<bar>) 1 = (m, k)"
    by fastforce
  moreover have "plain (rstrip (CHR ''0'') (nat_str (nat m)))"
    by (rule plain_sub [OF plain_nat_str [of "nat m"]]) (auto simp: rstrip_def dest: set_dropWhileD)
  ultimately show ?thesis
    using plain_format_digits by (simp add: Fin rat_repr_def Let_def separator_def backslash_def line_feed_def)
qed (simp_all add: separator_def backslash_def line_feed_def)

subsection \<open>The round trip\<close>

lemma read_pair:
  assumes "rest = [] \<or> separator (hd rest)"
  shows "read_pairs ('','' @ escape_influx k @ ''='' @ escape_influx v @ rest)
    = map_option (\<lambda>(ps, r). ((k, v) # ps, r)) (read_pairs rest)"
proof -
  have "read_token (escape_influx k @ ''='' @ escape_influx v @ rest) = (k, ''='' @ escape_influx v @ rest)"
    by (rule read_token_escape) (simp add: separator_def)
  moreover have "read_token (escape_influx v @ rest) = (v, rest)"
    using assms by (rule read_token_escape)
  ultimately show ?thesis
    by (subst read_pairs.simps) (simp add: starts_with_def)
qed

definition pair_text :: "string \<times> string \<Rightarrow> string" where
  "pair_text p = '','' @ escape_influx (fst p) @ ''='' @ escape_influx (snd p)"

lemma pair_text_append: "pair_text p @ rest = '','' @ escape_influx (fst p) @ ''='' @ escape_influx (snd p) @ rest"
  by (simp add: pair_text_def)

lemma read_pairs_text: "read_pairs (concat (map pair_text ps) @ '' '' @ rest) = Some (ps, rest)"
proof (induction ps)
  case Nil
  then show ?case
    by (subst read_pairs.simps) (simp add: starts_with_def)
next
  case (Cons p ps)
  have "separator (hd (concat (map pair_text ps) @ '' '' @ rest))"
    by (cases ps) (simp_all add: pair_text_def separator_def)
  then show ?case
    using read_pair [of "concat (map pair_text ps) @ '' '' @ rest" "fst p" "snd p", folded pair_text_append] Cons.IH by simp
qed

lemma comma_join: "parts \<noteq> [] \<Longrightarrow> '','' @ join '','' parts = concat (map (\<lambda>p. '','' @ p) parts)"
  by (induction parts rule: induct_list012) simp_all

definition written_fields :: "(string \<times> pyfloat) list \<Rightarrow> (string \<times> string) list" where
  "written_fields fs = map (\<lambda>(k, x). (k, float_repr x)) (filter (\<lambda>(k, x). x \<noteq> NaN) fs)"

lemma field_parts_floats:
  "field_parts (map (\<lambda>(k, x). (k, JFloat x)) fs) = Inr (map (\<lambda>p. tl (pair_text p)) (written_fields fs))"
proof (induction fs)
  case (Cons f fs)
  have "field_value (JFloat x) = Inr (if x = NaN then None else Some (float_repr x))" for x
    by (cases x) (simp_all add: field_value_def)
  then show ?case
    using Cons by (cases f) (simp add: written_fields_def pair_text_def plain_escape [OF plain_float_repr])
qed (simp add: written_fields_def)

lemma tag_text_pairs: "tag_text tags = concat (map pair_text (filter (\<lambda>(k, v). v \<noteq> []) tags))"
  by (simp add: tag_text_def pair_text_def [abs_def] case_prod_unfold)

lemma to_line_floats:
  assumes "written_fields fs \<noteq> []"
  shows "to_line measurement tags (map (\<lambda>(k, x). (k, JFloat x)) fs) ts = Inr (escape_influx measurement
    @ tag_text tags @ '' '' @ tl (concat (map pair_text (written_fields fs))) @ '' '' @ int_str ts)"
proof -
  let ?parts = "map (\<lambda>p. tl (pair_text p)) (written_fields fs)"
  have "map (\<lambda>p. '','' @ p) ?parts = map pair_text (written_fields fs)"
    by (simp add: pair_text_def)
  then have "'','' @ join '','' ?parts = concat (map pair_text (written_fields fs))"
    using comma_join [of ?parts] assms by (metis list.map_disc_iff)
  then have "join '','' ?parts = tl (concat (map pair_text (written_fields fs)))"
    by (metis append_Cons append_Nil list.sel(3))
  then show ?thesis
    using assms by (simp add: to_line_def field_parts_floats)
qed

lemma read_line_written:
  assumes "to_line measurement tags (map (\<lambda>(k, x). (k, JFloat x)) fs) ts = Inr line" "line \<noteq> []"
  shows "read_line line = Some (measurement, filter (\<lambda>(k, v). v \<noteq> []) tags,
    map (\<lambda>(k, x). (k, float_repr x)) (filter (\<lambda>(k, x). x \<noteq> NaN) fs), int_str ts)"
proof -
  let ?tags = "filter (\<lambda>(k, v). v \<noteq> []) tags"
  have ne: "written_fields fs \<noteq> []"
    using assms by (auto simp: to_line_def field_parts_floats)
  define fields_text where "fields_text = tl (concat (map pair_text (written_fields fs)))"
  have comma: "'','' @ fields_text = concat (map pair_text (written_fields fs))"
    using ne by (cases "written_fields fs") (simp_all add: fields_text_def pair_text_def)
  have line: "line = escape_influx measurement @ concat (map pair_text ?tags) @ '' '' @ fields_text @ '' '' @ int_str ts"
    using assms(1) to_line_floats [OF ne, of measurement tags ts] by (simp add: fields_text_def tag_text_pairs)
  have "separator (hd (concat (map pair_text ?tags) @ '' '' @ fields_text @ '' '' @ int_str ts))"
    by (cases ?tags) (simp_all add: pair_text_def separator_def)
  then have "read_token line = (measurement, concat (map pair_text ?tags) @ '' '' @ fields_text @ '' '' @ int_str ts)"
    unfolding line by (intro read_token_escape) simp
  moreover have "read_pairs ('','' @ fields_text @ '' '' @ int_str ts) = Some (written_fields fs, int_str ts)"
    using read_pairs_text [of "written_fields fs" "int_str ts"] unfolding comma [symmetric] by simp
  ultimately show ?thesis
    using read_pairs_text [of ?tags "fields_text @ '' '' @ int_str ts"] by (simp add: read_line_def written_fields_def)
qed

text \<open>Whatever bytes the measurement, the tags and the field names consist of, a line with at least one
  number among its fields is read back as the measurement, the tags that are not empty, the fields that
  are numbers with the text of their value, and the timestamp.\<close>

lemma line_roundtrip:
  assumes "to_line measurement tags (map (\<lambda>(k, x). (k, JFloat x)) fs) ts = Inr line" "line \<noteq> []"
  shows "read_line line = Some (measurement, filter (\<lambda>(k, v). v \<noteq> []) tags,
    map (\<lambda>(k, x). (k, float_repr x)) (filter (\<lambda>(k, x). x \<noteq> NaN) fs), int_str ts)"
  using assms by (rule read_line_written)

end
