(* ===== verification/Outputs_Data.thy ===== *)
theory Outputs_Data
  imports Line_Protocol Alerts Mqtt_Commands
begin

text \<open>
  The data of \<^verbatim>\<open>src/collector/outputs.py\<close>: its configuration with the defaults, the tables of labels and
  measurement names, the values derived from a snapshot, and the conversion of temperatures.  A snapshot
  maps a name to its value and unit; \<^verbatim>\<open>float(value)\<close> may fail, and overflow is the one failure that the
  code does not catch.
\<close>

subsection \<open>Configuration\<close>

definition OUTPUT_DEFAULTS :: attributes where
  "OUTPUT_DEFAULTS = [
    (''mariadb_enabled'', JBool True),
    (''mariadb_host'', JStr ''localhost''),
    (''mariadb_port'', JInt 3306),
    (''mariadb_user'', JStr ''luxmon''),
    (''mariadb_password'', JStr ''luxmon''),
    (''mariadb_database'', JStr ''luxmon''),
    (''mariadb_table_prefix'', JStr ''lux_''),
    (''influx_enabled'', JBool False),
    (''influx_url'', JStr ''http://localhost:8086''),
    (''influx_token'', JStr []),
    (''influx_org'', JStr ''luxmon''),
    (''influx_bucket'', JStr ''solar''),
    (''influx_username'', JStr []),
    (''influx_password'', JStr []),
    (''influx_database'', JStr ''luxmon''),
    (''influx_retention'', JStr ''autogen''),
    (''influx_precision'', JStr ''s''),
    (''mqtt_enabled'', JBool False),
    (''mqtt_host'', JStr ''localhost''),
    (''mqtt_port'', JInt 1883),
    (''mqtt_username'', JStr []),
    (''mqtt_password'', JStr []),
    (''mqtt_topic_prefix'', JStr ''luxmon''),
    (''mqtt_ha_discovery'', JBool True),
    (''mqtt_ha_prefix'', JStr ''homeassistant''),
    (''mqtt_device_name'', JStr ''luxmon''),
    (''mqtt_device_id'', JStr ''luxmon_solar''),
    (''temperature_unit'', JStr ''celsius''),
    (''alerts_enabled'', JBool False),
    (''alerts_soc_low'', JFloat (Fin 20)),
    (''alerts_soc_critical'', JFloat (Fin 10)),
    (''alerts_battery_temp_high'', JFloat (Fin 50)),
    (''alerts_inverter_temp_high'', JFloat (Fin 60)),
    (''alerts_grid_lost_threshold_sec'', JFloat (Fin 30)),
    (''alerts_email_enabled'', JBool False),
    (''alerts_email_smtp_host'', JStr []),
    (''alerts_email_smtp_port'', JInt 587),
    (''alerts_email_username'', JStr []),
    (''alerts_email_password'', JStr []),
    (''alerts_email_from'', JStr []),
    (''alerts_email_to'', JStr []),
    (''alerts_email_tls'', JBool True),
    (''alerts_webhook_enabled'', JBool False),
    (''alerts_webhook_url'', JStr [])]"

definition out_attr :: "attributes \<Rightarrow> string \<Rightarrow> json" where
  "out_attr cfg k = (case map_of cfg k of Some v \<Rightarrow> v | None \<Rightarrow> attr OUTPUT_DEFAULTS k)"

definition out_text :: "attributes \<Rightarrow> string \<Rightarrow> string" where
  "out_text cfg k = py_str (out_attr cfg k)"

text \<open>The readings of the main collector as a snapshot.\<close>

definition readings_fields :: "(string \<times> reading) list \<Rightarrow> fields" where
  "readings_fields decoded = map (\<lambda>(name, r). (name, JFloat (rv_value r), rv_unit r)) decoded"

subsection \<open>Labels and names\<close>

definition STATE_LABELS :: "(int \<times> string) list" where
  "STATE_LABELS = [
    (0x00, ''Standby''),
    (0x01, ''Fault''),
    (0x02, ''Programming''),
    (0x04, ''PV on-grid''),
    (0x08, ''PV charging battery''),
    (0x0C, ''PV charging battery + on-grid''),
    (0x10, ''Battery on-grid''),
    (0x14, ''PV + battery on-grid''),
    (0x20, ''AC charge (grid '' @ [CHR 0xE2, CHR 0x86, CHR 0x92] @ '' battery)''),
    (0x28, ''PV + AC charge''),
    (0x40, ''Battery off-grid''),
    (0x80, ''PV off-grid''),
    (0x88, ''PV charge + off-grid''),
    (0xC0, ''PV + battery off-grid'')]"

definition state_label :: "pyfloat \<Rightarrow> string result" where
  "state_label x = (case pf_trunc x of
     Inr code \<Rightarrow> Inr (case map_of STATE_LABELS code of
         None \<Rightarrow> ''Unknown ('' @ int_str code @ '')''
       | Some label \<Rightarrow> label @ '' ('' @ int_str code @ '')'')
   | Inl TypeError \<Rightarrow> Inr (float_repr x)
   | Inl ValueError \<Rightarrow> Inr (float_repr x)
   | Inl e \<Rightarrow> Inl e)"

definition REGISTER_TO_SA :: "(string \<times> string \<times> string) list" where
  "REGISTER_TO_SA = [
    (''pv1_power'', ''PV power 1'', ''inverter_0''),
    (''pv2_power'', ''PV power 2'', ''inverter_0''),
    (''pv3_power'', ''Auxiliary PV power'', ''inverter_0''),
    (''pv_power_total'', ''PV power'', ''combined''),
    (''grid_export_power'', ''Grid power'', ''inverter_0_out''),
    (''grid_import_power'', ''Grid power'', ''inverter_0_in''),
    (''grid_power_net'', ''Grid power'', ''combined''),
    (''inv_power'', ''Inverter power'', ''inverter_0''),
    (''eps_power'', ''EPS power'', ''inverter_0''),
    (''load_power'', ''Load power'', ''combined''),
    (''charge_power'', ''Battery power'', ''inverter_0_in''),
    (''discharge_power'', ''Battery power'', ''inverter_0_out''),
    (''battery_power_net'', ''Battery power'', ''combined''),
    (''pv1_voltage'', ''PV voltage 1'', ''inverter_0''),
    (''pv2_voltage'', ''PV voltage 2'', ''inverter_0''),
    (''pv1_current'', ''PV current 1'', ''inverter_0''),
    (''pv2_current'', ''PV current 2'', ''inverter_0''),
    (''battery_voltage'', ''Battery voltage'', ''inverter_0''),
    (''battery_current'', ''Battery current'', ''inverter_0''),
    (''grid_voltage_r'', ''Grid voltage'', ''inverter_0''),
    (''grid_frequency'', ''Grid frequency'', ''inverter_0''),
    (''ac_output_voltage'', ''AC output voltage'', ''inverter_0''),
    (''eps_frequency'', ''Generator frequency'', ''inverter_0''),
    (''soc'', ''Battery state of charge'', ''inverter_0''),
    (''soh'', ''Battery state of charge'', ''inverter_0_soh''),
    (''temp_inverter'', ''Inverter temperature'', ''inverter_0''),
    (''temp_battery'', ''Battery temperature'', ''combined''),
    (''temp_radiator_1'', ''Radiator temperature 1'', ''inverter_0''),
    (''temp_radiator_2'', ''Radiator temperature 2'', ''inverter_0''),
    (''runtime'', ''Inverter runtime'', ''inverter_0''),
    (''state'', ''Inverter state'', ''inverter_0''),
    (''fault_code'', ''Inverter fault code'', ''inverter_0''),
    (''warning_code'', ''Inverter warning code'', ''inverter_0''),
    (''outside_temperature'', ''Outside temperature'', ''combined''),
    (''cloud_cover'', ''Cloud cover'', ''combined''),
    (''pv_power_predicted'', ''PV power predicted'', ''combined''),
    (''pv1_energy_today'', ''PV energy today 1'', ''inverter_0''),
    (''pv2_energy_today'', ''PV energy today 2'', ''inverter_0''),
    (''pv1_energy_total'', ''PV energy total 1'', ''inverter_0''),
    (''pv2_energy_total'', ''PV energy total 2'', ''inverter_0''),
    (''charge_energy_today'', ''Battery energy in today'', ''inverter_0''),
    (''discharge_energy_today'', ''Battery energy out today'', ''inverter_0''),
    (''grid_export_today'', ''Grid energy out today'', ''inverter_0''),
    (''grid_import_today'', ''Grid energy in today'', ''inverter_0'')]"

subsection \<open>Derived values\<close>

definition sa_value :: "fields \<Rightarrow> string \<Rightarrow> pyfloat option result" where
  "sa_value decoded key = (case map_of decoded key of
     None \<Rightarrow> Inr None
   | Some (v, unit) \<Rightarrow> (case py_float v of
       Inr x \<Rightarrow> Inr (Some x)
     | Inl TypeError \<Rightarrow> Inr None
     | Inl ValueError \<Rightarrow> Inr None
     | Inl e \<Rightarrow> Inl e))"

text \<open>\<^verbatim>\<open>_sa_value(decoded, key) or 0.0\<close>, and the sum over several keys.\<close>

definition sa_or_zero :: "fields \<Rightarrow> string \<Rightarrow> pyfloat result" where
  "sa_or_zero decoded key = bindE (sa_value decoded key) (\<lambda>v. Inr (or_zero v))"

definition sum_three :: "fields \<Rightarrow> string \<Rightarrow> string \<Rightarrow> string \<Rightarrow> pyfloat result" where
  "sum_three decoded a b c = bindE (sa_or_zero decoded a) (\<lambda>x. bindE (sa_or_zero decoded b) (\<lambda>y.
     bindE (sa_or_zero decoded c) (\<lambda>z. Inr (x + y + z))))"

fun any_present :: "fields \<Rightarrow> string list \<Rightarrow> bool result" where
  "any_present decoded [] = Inr False"
| "any_present decoded (k # ks) = bindE (sa_value decoded k) (\<lambda>v. if v \<noteq> None then Inr True else any_present decoded ks)"

type_synonym computed = "(string \<times> pyfloat) list"

definition total_entry :: "fields \<Rightarrow> string \<Rightarrow> pyfloat \<Rightarrow> string list \<Rightarrow> computed result" where
  "total_entry decoded name amount keys =
    bindE (if Fin 0 < amount then Inr True else any_present decoded keys) (\<lambda>known. Inr (if known then [(name, amount)] else []))"

definition net_entry :: "string \<Rightarrow> pyfloat \<Rightarrow> pyfloat \<Rightarrow> computed" where
  "net_entry name gain loss = (if Fin 0 < gain \<or> Fin 0 < loss then [(name, gain - loss)] else [])"

definition copy_entry :: "fields \<Rightarrow> string \<Rightarrow> string \<Rightarrow> computed result" where
  "copy_entry decoded key name = bindE (sa_value decoded key) (\<lambda>v. Inr (case v of None \<Rightarrow> [] | Some x \<Rightarrow> [(name, x)]))"

definition current_entry :: "fields \<Rightarrow> string \<Rightarrow> string \<Rightarrow> string \<Rightarrow> computed result" where
  "current_entry decoded v_key p_key c_key =
    bindE (sa_value decoded c_key) (\<lambda>c.
    if c \<noteq> None then Inr []
    else bindE (sa_value decoded v_key) (\<lambda>v. bindE (sa_value decoded p_key) (\<lambda>p.
      case (v, p) of
        (Some v, Some p) \<Rightarrow> if Fin 0 < v then bindE (pf_div p v) (\<lambda>q. Inr [(c_key, q)]) else Inr []
      | _ \<Rightarrow> Inr [])))"

definition load_of :: "pyfloat \<Rightarrow> pyfloat \<Rightarrow> pyfloat \<Rightarrow> pyfloat \<Rightarrow> pyfloat \<Rightarrow> pyfloat" where
  "load_of pv discharge grid_import charge grid_export =
     pf_max (Fin 0) ((pv + discharge + grid_import) - (charge + grid_export))"

definition build_computed :: "fields \<Rightarrow> computed result" where
  "build_computed decoded =
    bindE (sum_three decoded ''pv1_power'' ''pv2_power'' ''pv3_power'') (\<lambda>pv.
    bindE (total_entry decoded ''pv_power_total'' pv [''pv1_power'', ''pv2_power'', ''pv3_power'']) (\<lambda>pv_entry.
    bindE (sa_or_zero decoded ''grid_export_power'') (\<lambda>grid_export.
    bindE (sa_or_zero decoded ''grid_import_power'') (\<lambda>grid_import.
    bindE (sa_or_zero decoded ''charge_power'') (\<lambda>charge.
    bindE (sa_or_zero decoded ''discharge_power'') (\<lambda>discharge.
    bindE (copy_entry decoded ''eps_voltage_r'' ''ac_output_voltage'') (\<lambda>ac_entry.
    bindE (current_entry decoded ''pv1_voltage'' ''pv1_power'' ''pv1_current'') (\<lambda>current_1.
    bindE (current_entry decoded ''pv2_voltage'' ''pv2_power'' ''pv2_current'') (\<lambda>current_2.
    bindE (sum_three decoded ''pv1_energy_total'' ''pv2_energy_total'' ''pv3_energy_total'') (\<lambda>energy.
    bindE (total_entry decoded ''pv_energy_total'' energy [''pv1_energy_total'', ''pv2_energy_total'', ''pv3_energy_total'']) (\<lambda>energy_entry.
    bindE (copy_entry decoded ''charge_energy_total'' ''battery_in_energy_total'') (\<lambda>in_entry.
    bindE (copy_entry decoded ''discharge_energy_total'' ''battery_out_energy_total'') (\<lambda>out_entry.
    bindE (copy_entry decoded ''grid_import_total'' ''grid_import_energy_total'') (\<lambda>import_entry.
    bindE (copy_entry decoded ''grid_export_total'' ''grid_export_energy_total'') (\<lambda>export_entry.
    Inr (pv_entry
      @ net_entry ''grid_power_net'' grid_import grid_export
      @ net_entry ''battery_power_net'' charge discharge
      @ [(''load_power'', load_of pv discharge grid_import charge grid_export)]
      @ ac_entry @ current_1 @ current_2 @ energy_entry @ in_entry @ out_entry @ import_entry @ export_entry))))))))))))))))"

subsection \<open>Temperatures\<close>

definition fahrenheit :: string where
  "fahrenheit = [CHR 0xC2, CHR 0xB0, CHR ''F'']"

definition temp_keys :: "string list" where
  "temp_keys = [''temp_inverter'', ''temp_battery'', ''temp_radiator_1'', ''temp_radiator_2'', ''outside_temperature'']"

definition to_fahrenheit :: "pyfloat \<Rightarrow> pyfloat result" where
  "to_fahrenheit c = bindE (pf_div (c * Fin 9) (Fin 5)) (\<lambda>q. Inr (round_digits 1 (q + Fin 32)))"

definition convert_key :: "fields \<Rightarrow> string \<Rightarrow> fields result" where
  "convert_key out key = (case map_of out key of
     None \<Rightarrow> Inr out
   | Some (v, unit) \<Rightarrow> (case py_float v of
       Inr c \<Rightarrow> bindE (to_fahrenheit c) (\<lambda>f. Inr (AList.update key (JFloat f, fahrenheit) out))
     | Inl TypeError \<Rightarrow> Inr out
     | Inl ValueError \<Rightarrow> Inr out
     | Inl e \<Rightarrow> Inl e))"

definition convert_temperatures :: "attributes \<Rightarrow> fields \<Rightarrow> fields result" where
  "convert_temperatures cfg decoded =
    (if out_attr cfg ''temperature_unit'' \<noteq> JStr ''fahrenheit'' then Inr decoded else foldE convert_key decoded temp_keys)"

end
