(* ===== verification/Storage.thy ===== *)
theory Storage
  imports Outputs_Data Effects
begin

text \<open>
  The MariaDB writer of \<^verbatim>\<open>src/collector/outputs.py\<close>: the connection with its reconnection, one write of a
  snapshot, and the energy rollup.  The server is its tables and a list that tells, statement by
  statement, which of them raise (none after its end); the connection commits every statement on its
  own, so what was written before a failure stays.
\<close>

type_synonym hourly = "((string \<times> string) \<times> pyfloat option \<times> pyfloat option) list"

record maria =
  md_connected :: bool
  md_faults :: "bool list"
  md_next_id :: int
  md_snapshots :: "(int \<times> (int \<times> int) list) list"
  md_rows :: "(int \<times> string \<times> pyfloat \<times> string) list"
  md_hourly :: hourly

definition new_maria :: "bool list \<Rightarrow> maria" where
  "new_maria faults = \<lparr>md_connected = False, md_faults = faults, md_next_id = 1, md_snapshots = [], md_rows = [], md_hourly = []\<rparr>"

text \<open>One request to the server.\<close>

definition stmt :: "(maria \<Rightarrow> maria) \<Rightarrow> (maria, unit) op" where
  "stmt f st = (case md_faults st of
     [] \<Rightarrow> (Inr (), f st)
   | fault # rest \<Rightarrow> if fault then (Inl RuntimeError, st\<lparr>md_faults := rest\<rparr>) else (Inr (), f (st\<lparr>md_faults := rest\<rparr>)))"

subsection \<open>The connection\<close>

text \<open>Five tables are created when they do not exist.\<close>

definition init_schema :: "(maria, unit) op" where
  "init_schema = forS [1, 2, 3, 4, 5 :: nat] (\<lambda>_. stmt id)"

definition init_mariadb :: "maria \<Rightarrow> maria" where
  "init_mariadb st = (case bindS (stmt (\<lambda>st. st\<lparr>md_connected := True\<rparr>)) (\<lambda>_. init_schema) st of
     (Inr _, st) \<Rightarrow> st
   | (Inl _, st) \<Rightarrow> st\<lparr>md_connected := False\<rparr>)"

text \<open>The first request is the ping.\<close>

definition ensure_mariadb :: "maria \<Rightarrow> bool \<times> maria" where
  "ensure_mariadb st =
    (if md_connected st then
       (case stmt id st of
          (Inr _, st) \<Rightarrow> (True, st)
        | (Inl _, st) \<Rightarrow> (let st = init_mariadb (st\<lparr>md_connected := False\<rparr>) in (md_connected st, st)))
     else (let st = init_mariadb st in (md_connected st, st)))"

subsection \<open>The energy rollup\<close>

definition coalesce :: "pyfloat option \<Rightarrow> pyfloat" where
  "coalesce v = (case v of None \<Rightarrow> Fin 0 | Some x \<Rightarrow> x)"

definition upsert_hourly :: "string \<Rightarrow> string \<Rightarrow> pyfloat option \<Rightarrow> pyfloat option \<Rightarrow> maria \<Rightarrow> maria" where
  "upsert_hourly hour name value_in value_out st =
    st\<lparr>md_hourly := AList.update (hour, name)
      (case map_of (md_hourly st) (hour, name) of
         None \<Rightarrow> (value_in, value_out)
       | Some (i, out) \<Rightarrow> (Some (coalesce i + coalesce value_in), Some (coalesce out + coalesce value_out)))
      (md_hourly st)\<rparr>"

text \<open>The interval in hours: the attribute that the main collector sets, or five seconds.\<close>

definition interval_hours :: "attributes \<Rightarrow> pyfloat result" where
  "interval_hours cfg =
    bindE (case map_of cfg ''_write_interval'' of Some v \<Rightarrow> py_float v | None \<Rightarrow> Inr (Fin 5)) (\<lambda>sec. pf_div sec (Fin 3600))"

text \<open>The values can all be converted here, since the rows of the snapshot were built before.\<close>

definition hourly_values :: "attributes \<Rightarrow> fields \<Rightarrow> (string \<times> pyfloat option \<times> pyfloat option) list result" where
  "hourly_values cfg decoded =
    bindE (interval_hours cfg) (\<lambda>h.
    bindE (sa_or_zero decoded ''charge_power'') (\<lambda>charge.
    bindE (sa_or_zero decoded ''discharge_power'') (\<lambda>discharge.
    bindE (sa_or_zero decoded ''grid_import_power'') (\<lambda>grid_in.
    bindE (sa_or_zero decoded ''grid_export_power'') (\<lambda>grid_out.
    bindE (sum_three decoded ''pv1_power'' ''pv2_power'' ''pv3_power'') (\<lambda>pv.
    Inr [(''Battery power'', Some (charge * h), Some (discharge * h)),
         (''Grid power'', Some (grid_in * h), Some (grid_out * h)),
         (''Load power'', Some (load_of pv discharge grid_in charge grid_out * h), None),
         (''PV power'', Some (pv * h), None)]))))))"

definition update_hourly_energy :: "attributes \<Rightarrow> string \<Rightarrow> fields \<Rightarrow> (maria, unit) op" where
  "update_hourly_energy cfg hour decoded =
    bindS (liftS (hourly_values cfg decoded)) (\<lambda>entries.
    forS entries (\<lambda>(name, value_in, value_out). stmt (upsert_hourly hour name value_in value_out)))"

subsection \<open>Writing a snapshot\<close>

definition stored_computed :: "string list" where
  "stored_computed = [''load_power'', ''pv_power_total'', ''grid_power_net'', ''battery_power_net'']"

text \<open>The rows of the registers table, without the id of their snapshot.\<close>

definition snapshot_rows :: "fields \<Rightarrow> (string \<times> pyfloat \<times> string) list result" where
  "snapshot_rows decoded =
    bindE (mapE (\<lambda>(key, v, unit). bindE (py_float v) (\<lambda>x. Inr (key, x, unit))) decoded) (\<lambda>rows.
    bindE (build_computed decoded) (\<lambda>computed.
    Inr (rows @ concat (map (\<lambda>key. case map_of computed key of None \<Rightarrow> [] | Some x \<Rightarrow> [(key, x, ''W'')]) stored_computed))))"

definition insert_snapshot :: "(int \<times> int) list \<Rightarrow> maria \<Rightarrow> maria" where
  "insert_snapshot raw st = st\<lparr>md_snapshots := md_snapshots st @ [(md_next_id st, raw)], md_next_id := md_next_id st + 1\<rparr>"

definition insert_rows :: "int \<Rightarrow> (string \<times> pyfloat \<times> string) list \<Rightarrow> maria \<Rightarrow> maria" where
  "insert_rows sid rows st = st\<lparr>md_rows := md_rows st @ map (\<lambda>(name, x, unit). (sid, name, x, unit)) rows\<rparr>"

definition store_snapshot :: "attributes \<Rightarrow> string \<Rightarrow> fields \<Rightarrow> (int \<times> int) list \<Rightarrow> (maria, unit) op" where
  "store_snapshot cfg hour decoded raw =
    bindS (getS md_next_id) (\<lambda>sid.
    bindS (stmt (insert_snapshot raw)) (\<lambda>_.
    bindS (liftS (snapshot_rows decoded)) (\<lambda>rows.
    bindS (if rows \<noteq> [] then stmt (insert_rows sid rows) else returnS ()) (\<lambda>_.
    update_hourly_energy cfg hour decoded))))"

definition write_mariadb :: "attributes \<Rightarrow> string \<Rightarrow> fields \<Rightarrow> (int \<times> int) list \<Rightarrow> maria \<Rightarrow> maria" where
  "write_mariadb cfg hour decoded raw st =
    (case ensure_mariadb st of
       (False, st) \<Rightarrow> st
     | (True, st) \<Rightarrow> (case store_snapshot cfg hour decoded raw st of
         (Inr _, st) \<Rightarrow> st
       | (Inl _, st) \<Rightarrow> st\<lparr>md_connected := False\<rparr>))"

end
