(* ===== verification/Outputs.thy ===== *)
theory Outputs
  imports Storage Automation_Data
begin

text \<open>
  The writers of \<^verbatim>\<open>src/collector/outputs.py\<close>: InfluxDB over line protocol, MQTT with the discovery of Home
  Assistant, and the entry point that hands a snapshot to every enabled backend.  What is sent is kept in
  lists: the requests to InfluxDB, whether they succeed or not, and the messages to the broker.  The
  settings that can be read over the database connection are a parameter of the state.
\<close>

subsection \<open>State\<close>

record mqtt_message =
  mm_topic :: string
  mm_payload :: json
  mm_qos :: nat
  mm_retain :: bool

datatype influx_post =
    InfluxV2 string string string
  | InfluxV1 string "(string \<times> string) list" string

record outputs =
  out_cfg :: attributes
  out_maria :: maria
  out_settings :: database
  out_influx_client :: bool
  out_mqtt :: bool
  out_announced :: "string list"
  out_published :: "mqtt_message list"
  out_posts :: "influx_post list"

text \<open>The constructor: whether the clients could be created, and the faults of the database, are given.\<close>

definition new_outputs :: "attributes \<Rightarrow> bool list \<Rightarrow> database \<Rightarrow> bool \<Rightarrow> bool \<Rightarrow> outputs" where
  "new_outputs cfg faults settings influx_ok mqtt_ok =
    \<lparr>out_cfg = cfg,
     out_maria = (if truthy (out_attr cfg ''mariadb_enabled'') then init_mariadb (new_maria faults) else new_maria faults),
     out_settings = settings,
     out_influx_client = (truthy (out_attr cfg ''influx_enabled'') \<and> truthy (out_attr cfg ''influx_token'') \<and> influx_ok),
     out_mqtt = (truthy (out_attr cfg ''mqtt_enabled'') \<and> mqtt_ok),
     out_announced = [], out_published = [], out_posts = []\<rparr>"

subsection \<open>InfluxDB\<close>

fun known_values :: "fields \<Rightarrow> fields \<Rightarrow> computed result" where
  "known_values decoded [] = Inr []"
| "known_values decoded ((key, _, _) # rest) =
    bindE (sa_value decoded key) (\<lambda>v.
    bindE (known_values decoded rest) (\<lambda>vs. Inr (case v of None \<Rightarrow> vs | Some x \<Rightarrow> (key, x) # vs)))"

type_synonym measurements = "(string \<times> (string \<times> json) list) list"

definition add_measurement :: "measurements \<Rightarrow> string \<times> pyfloat \<Rightarrow> measurements" where
  "add_measurement ms = (\<lambda>(name, x). case map_of REGISTER_TO_SA name of
     None \<Rightarrow> ms
   | Some (measurement, field) \<Rightarrow> AList.update measurement
       (AList.update field (JFloat x) (case map_of ms measurement of None \<Rightarrow> [] | Some fs \<Rightarrow> fs)) ms)"

definition register_line :: "fields \<Rightarrow> int \<Rightarrow> string \<times> json \<times> string \<Rightarrow> string result" where
  "register_line decoded ts_ns = (\<lambda>(key, _, unit). bindE (sa_value decoded key) (\<lambda>v. case v of
     None \<Rightarrow> Inr []
   | Some x \<Rightarrow> to_line ''luxmon_register'' [(''name'', key), (''unit'', unit)] [(''value'', JFloat x)] ts_ns))"

definition influx_lines :: "fields \<Rightarrow> int \<Rightarrow> string list result" where
  "influx_lines decoded ts_ns =
    bindE (build_computed decoded) (\<lambda>computed.
    bindE (known_values decoded decoded) (\<lambda>known.
    bindE (mapE (\<lambda>(measurement, fs). to_line measurement [] fs ts_ns) (foldl add_measurement [] (dict_merge known computed))) (\<lambda>points.
    bindE (mapE (register_line decoded ts_ns) decoded) (\<lambda>registers.
    Inr (filter (\<lambda>line. line \<noteq> []) (points @ registers))))))"

definition post_influx_v1 :: "string \<Rightarrow> outputs \<Rightarrow> outputs" where
  "post_influx_v1 payload st =
    (let cfg = out_cfg st;
         params = [(''db'', out_text cfg ''influx_database''), (''precision'', out_text cfg ''influx_precision'')]
           @ (if truthy (out_attr cfg ''influx_username'')
              then [(''u'', out_text cfg ''influx_username''), (''p'', out_text cfg ''influx_password'')] else [])
     in st\<lparr>out_posts := out_posts st @ [InfluxV1 (rstrip (CHR ''/'') (out_text cfg ''influx_url'') @ ''/write'') params payload]\<rparr>)"

text \<open>\<^verbatim>\<open>v2_ok\<close>: the client's write does not raise.\<close>

definition write_influxdb :: "int \<Rightarrow> bool \<Rightarrow> fields \<Rightarrow> (outputs, unit) op" where
  "write_influxdb ts_ns v2_ok decoded =
    bindS (liftS (influx_lines decoded ts_ns)) (\<lambda>lines.
    if lines = [] then returnS ()
    else modifyS (\<lambda>st.
      let payload = join [line_feed] lines in
      if out_influx_client st then
        (let st = st\<lparr>out_posts := out_posts st @ [InfluxV2 (out_text (out_cfg st) ''influx_bucket'') (out_text (out_cfg st) ''influx_org'') payload]\<rparr>
         in if v2_ok then st else post_influx_v1 payload st)
      else post_influx_v1 payload st))"

subsection \<open>MQTT\<close>

definition send :: "string \<Rightarrow> json \<Rightarrow> nat \<Rightarrow> bool \<Rightarrow> outputs \<Rightarrow> outputs" where
  "send topic payload qos retain st = st\<lparr>out_published := out_published st
     @ [\<lparr>mm_topic = topic, mm_payload = payload, mm_qos = qos, mm_retain = retain\<rparr>]\<rparr>"

definition device_topic :: "attributes \<Rightarrow> string \<Rightarrow> string" where
  "device_topic cfg rest = out_text cfg ''mqtt_topic_prefix'' @ ''/'' @ out_text cfg ''mqtt_device_id'' @ ''/'' @ rest"

text \<open>The settings that can be changed over MQTT are published with their values.\<close>

definition publish_settings_state :: "outputs \<Rightarrow> outputs" where
  "publish_settings_state st =
    (if \<not> md_connected (out_maria st) then st
     else foldl (\<lambda>st name. case map_of (get_all (out_settings st)) name of
         None \<Rightarrow> st
       | Some value \<Rightarrow> send (device_topic (out_cfg st) (''settings/'' @ name)) (JStr value) 0 False st) st CONTROLLABLE_SETTINGS)"

definition device_info :: "attributes \<Rightarrow> json" where
  "device_info cfg = JDict [
     (''identifiers'', JList [out_attr cfg ''mqtt_device_id'']),
     (''name'', out_attr cfg ''mqtt_device_name''),
     (''model'', JStr ''lux-mon''),
     (''manufacturer'', JStr ''lux-mon''),
     (''sw_version'', JStr ''0.5.0'')]"

definition ha_sensors :: "string \<Rightarrow> (string \<times> string \<times> string \<times> string \<times> string) list" where
  "ha_sensors temp_unit = [
    (''pv_power_total'', ''PV Power'', ''power'', ''W'', ''solar-power''),
    (''grid_power_net'', ''Grid Net Power'', ''power'', ''W'', ''transmission-tower''),
    (''battery_power_net'', ''Battery Net Power'', ''power'', ''W'', ''battery''),
    (''load_power'', ''Load Power'', ''power'', ''W'', ''lightning-bolt''),
    (''soc'', ''Battery SOC'', ''battery'', ''%'', ''battery''),
    (''battery_voltage'', ''Battery Voltage'', ''voltage'', ''V'', ''flash''),
    (''pv1_voltage'', ''PV Voltage 1'', ''voltage'', ''V'', ''solar-power''),
    (''pv2_voltage'', ''PV Voltage 2'', ''voltage'', ''V'', ''solar-power''),
    (''grid_voltage_r'', ''Grid Voltage'', ''voltage'', ''V'', ''transmission-tower''),
    (''grid_frequency'', ''Grid Frequency'', ''frequency'', ''Hz'', ''sine-wave''),
    (''ac_output_voltage'', ''AC Output Voltage'', ''voltage'', ''V'', ''flash''),
    (''temp_inverter'', ''Inverter Temperature'', ''temperature'', temp_unit, ''thermometer''),
    (''temp_battery'', ''Battery Temperature'', ''temperature'', temp_unit, ''thermometer''),
    (''temp_radiator_1'', ''Radiator Temperature 1'', ''temperature'', temp_unit, ''thermometer''),
    (''temp_radiator_2'', ''Radiator Temperature 2'', ''temperature'', temp_unit, ''thermometer''),
    (''eps_power'', ''EPS Output Power'', ''power'', ''W'', ''flash''),
    (''eps_frequency'', ''EPS Output Frequency'', ''frequency'', ''Hz'', ''sine-wave''),
    (''runtime'', ''Runtime'', ''duration'', ''s'', ''timer''),
    (''state'', ''Operating State'', [], [], ''information''),
    (''fault_code'', ''Fault Code'', [], [], ''alert''),
    (''warning_code'', ''Warning Code'', [], [], ''alert'')]"

definition energy_sensors :: "(string \<times> string \<times> string \<times> string \<times> string \<times> string) list" where
  "energy_sensors = [
    (''pv_energy_total'', ''PV Energy Total'', ''energy'', ''kWh'', ''solar-power'', ''total_increasing''),
    (''grid_import_energy_total'', ''Grid Import Energy Total'', ''energy'', ''kWh'', ''transmission-tower'', ''total_increasing''),
    (''grid_export_energy_total'', ''Grid Export Energy Total'', ''energy'', ''kWh'', ''transmission-tower'', ''total_increasing''),
    (''battery_in_energy_total'', ''Battery Charge Energy Total'', ''energy'', ''kWh'', ''battery-charging'', ''total_increasing''),
    (''battery_out_energy_total'', ''Battery Discharge Energy Total'', ''energy'', ''kWh'', ''battery'', ''total_increasing'')]"

text \<open>A discovery message is sent once for each unique id.\<close>

definition announce_once :: "string \<Rightarrow> string \<Rightarrow> json \<Rightarrow> outputs \<Rightarrow> outputs" where
  "announce_once kind uniq config st =
    (if List.member (out_announced st) uniq then st
     else (send (out_text (out_cfg st) ''mqtt_ha_prefix'' @ ''/'' @ kind @ ''/'' @ uniq @ ''/config'') config 1 True st)
       \<lparr>out_announced := out_announced st @ [uniq]\<rparr>)"

definition unique_id :: "attributes \<Rightarrow> string \<Rightarrow> string" where
  "unique_id cfg key = out_text cfg ''mqtt_device_id'' @ ''_'' @ key"

definition sensor_config :: "attributes \<Rightarrow> string \<Rightarrow> string \<Rightarrow> string \<Rightarrow> string \<Rightarrow> string \<Rightarrow> string option \<Rightarrow> string \<Rightarrow> json" where
  "sensor_config cfg state_topic key name dev_class unit state_class icon = JDict (
     [(''name'', JStr name),
      (''unique_id'', JStr (unique_id cfg key)),
      (''state_topic'', JStr state_topic),
      (''value_template'', JStr (''{{ value_json.'' @ key @ '' }}'')),
      (''unit_of_measurement'', JStr unit),
      (''device_class'', JStr dev_class)]
     @ (case state_class of None \<Rightarrow> [] | Some c \<Rightarrow> [(''state_class'', JStr c)])
     @ [(''icon'', JStr (''mdi:'' @ icon)),
        (''device'', device_info cfg)])"

definition has_key :: "fields \<Rightarrow> computed \<Rightarrow> string \<Rightarrow> bool" where
  "has_key decoded computed key \<longleftrightarrow> map_of decoded key \<noteq> None \<or> map_of computed key \<noteq> None"

definition ha_announce :: "fields \<Rightarrow> computed \<Rightarrow> string \<Rightarrow> outputs \<Rightarrow> outputs" where
  "ha_announce decoded computed state_topic st =
    (let temp_unit = (if out_attr (out_cfg st) ''temperature_unit'' = JStr ''fahrenheit'' then fahrenheit else degrees);
         st = foldl (\<lambda>st (key, name, dev_class, unit, icon). if \<not> has_key decoded computed key then st
           else announce_once ''sensor'' (unique_id (out_cfg st) key)
             (sensor_config (out_cfg st) state_topic key name dev_class unit None icon) st) st (ha_sensors temp_unit)
     in foldl (\<lambda>st (key, name, dev_class, unit, icon, state_class). if \<not> has_key decoded computed key then st
           else announce_once ''sensor'' (unique_id (out_cfg st) key)
             (sensor_config (out_cfg st) state_topic key name dev_class unit (Some state_class) icon) st) st energy_sensors)"

text \<open>\<^verbatim>\<open>hint.split()[-1]\<close>, when there is a hint; no metadata has a unit of its own.\<close>

fun split_words :: "string \<Rightarrow> string \<Rightarrow> string list" where
  "split_words word [] = (if word = [] then [] else [word])"
| "split_words word (c # cs) =
    (if is_space c then (if word = [] then split_words [] cs else word # split_words [] cs)
     else split_words (word @ [c]) cs)"

definition hint_unit :: "string \<Rightarrow> string result" where
  "hint_unit hint = (if hint = [] then Inr []
     else (case split_words [] hint of [] \<Rightarrow> Inl IndexError | ws \<Rightarrow> Inr (last ws)))"

definition number_config :: "attributes \<Rightarrow> string \<Rightarrow> setting_meta \<Rightarrow> string \<Rightarrow> json" where
  "number_config cfg name meta unit = JDict (
     [(''name'', JStr (sm_label meta)),
      (''unique_id'', JStr (unique_id cfg (''set_'' @ name))),
      (''state_topic'', JStr (device_topic cfg (''settings/'' @ name))),
      (''command_topic'', JStr (device_topic cfg (''set/'' @ name))),
      (''min'', case sm_min meta of Some v \<Rightarrow> v | None \<Rightarrow> JInt 0),
      (''max'', case sm_max meta of Some v \<Rightarrow> v | None \<Rightarrow> JInt 65535),
      (''step'', case sm_step meta of Some v \<Rightarrow> v | None \<Rightarrow> JInt 1),
      (''device'', device_info cfg)]
     @ (if unit = [] then [] else [(''unit_of_measurement'', JStr unit)]))"

definition announce_number :: "string \<Rightarrow> (outputs, unit) op" where
  "announce_number name st = (case map_of SETTING_META name of
     None \<Rightarrow> (Inr (), st)
   | Some meta \<Rightarrow>
      let uniq = unique_id (out_cfg st) (''set_'' @ name) in
      if List.member (out_announced st) uniq then (Inr (), st)
      else (case hint_unit (sm_hint meta) of
          Inl e \<Rightarrow> (Inl e, st)
        | Inr unit \<Rightarrow> (Inr (), announce_once ''number'' uniq (number_config (out_cfg st) name meta unit) st)))"

definition publish_ha_number_discovery :: "(outputs, unit) op" where
  "publish_ha_number_discovery = forS CONTROLLABLE_SETTINGS announce_number"

definition state_payload :: "fields \<Rightarrow> computed \<Rightarrow> (string \<times> json) list result" where
  "state_payload decoded computed =
    bindE (known_values decoded decoded) (\<lambda>known.
    let payload = dict_merge known computed;
        entries = map (\<lambda>(k, x). (k, JFloat x)) payload in
    case map_of payload ''state'' of
      None \<Rightarrow> Inr entries
    | Some x \<Rightarrow> bindE (state_label x) (\<lambda>label. Inr (AList.update ''state_label'' (JStr label) entries)))"

definition write_mqtt :: "fields \<Rightarrow> (outputs, unit) op" where
  "write_mqtt decoded =
    bindS (liftS (build_computed decoded)) (\<lambda>computed.
    bindS (liftS (state_payload decoded computed)) (\<lambda>payload.
    bindS (getS (\<lambda>st. device_topic (out_cfg st) ''state'')) (\<lambda>state_topic.
    bindS (modifyS (\<lambda>st. publish_settings_state (send state_topic (JDict payload) 0 False st))) (\<lambda>_.
    bindS (getS (\<lambda>st. truthy (out_attr (out_cfg st) ''mqtt_ha_discovery''))) (\<lambda>discovery.
    if discovery then bindS (modifyS (ha_announce decoded computed state_topic)) (\<lambda>_. publish_ha_number_discovery)
    else returnS ())))))"

subsection \<open>The entry point\<close>

definition outputs_write :: "string \<Rightarrow> int \<Rightarrow> bool \<Rightarrow> fields \<Rightarrow> (int \<times> int) list \<Rightarrow> (outputs, unit) op" where
  "outputs_write hour ts_ns v2_ok decoded raw =
    bindS (modifyS (\<lambda>st. if truthy (out_attr (out_cfg st) ''mariadb_enabled'')
      then st\<lparr>out_maria := write_mariadb (out_cfg st) hour decoded raw (out_maria st)\<rparr> else st)) (\<lambda>_.
    bindS (getS out_cfg) (\<lambda>cfg.
    bindS (liftS (convert_temperatures cfg decoded)) (\<lambda>out_decoded.
    bindS (if truthy (out_attr cfg ''influx_enabled'') then write_influxdb ts_ns v2_ok out_decoded else returnS ()) (\<lambda>_.
    bindS (getS out_mqtt) (\<lambda>mqtt. if mqtt then write_mqtt out_decoded else returnS ())))))"

end
