(* ===== verification/Outputs_Facts.thy ===== *)
theory Outputs_Facts
  imports Outputs
begin

text \<open>
  Properties of the outputs: the balance of the derived powers, what the database holds after writes that
  may fail at any statement, what is sent to InfluxDB and to the broker, and what a snapshot of a serial
  device does to the values of the inverter.
\<close>

subsection \<open>Reading a snapshot\<close>

text \<open>A snapshot whose conversions do not overflow, and its numbers.\<close>

definition tame :: "fields \<Rightarrow> bool" where
  "tame decoded \<longleftrightarrow> list_all (\<lambda>(k, v, u). py_float v \<in> range Inr \<union> {Inl TypeError, Inl ValueError}) decoded"

definition sa_num :: "fields \<Rightarrow> string \<Rightarrow> pyfloat option" where
  "sa_num decoded key = (case map_of decoded key of
     None \<Rightarrow> None
   | Some (v, unit) \<Rightarrow> (case py_float v of Inr x \<Rightarrow> Some x | Inl _ \<Rightarrow> None))"

lemma sa_value_tame: "tame decoded \<Longrightarrow> sa_value decoded key = Inr (sa_num decoded key)"
  unfolding tame_def sa_value_def sa_num_def list_all_iff
  by (auto split: option.split dest!: map_of_SomeD bspec)

definition num_or_zero :: "fields \<Rightarrow> string \<Rightarrow> pyfloat" where
  "num_or_zero decoded key = or_zero (sa_num decoded key)"

lemma sa_or_zero_tame: "tame decoded \<Longrightarrow> sa_or_zero decoded key = Inr (num_or_zero decoded key)"
  by (simp add: sa_or_zero_def sa_value_tame num_or_zero_def)

lemma sum_three_tame: "tame decoded \<Longrightarrow> sum_three decoded a b c
    = Inr (num_or_zero decoded a + num_or_zero decoded b + num_or_zero decoded c)"
  by (simp add: sum_three_def sa_or_zero_tame)

lemma any_present_tame: "tame decoded \<Longrightarrow> any_present decoded ks = Inr (\<exists>k \<in> set ks. sa_num decoded k \<noteq> None)"
  by (induction ks) (simp_all add: sa_value_tame)

lemma total_entry_tame: "tame decoded \<Longrightarrow> total_entry decoded name amount ks
    = Inr (if Fin 0 < amount \<or> (\<exists>k \<in> set ks. sa_num decoded k \<noteq> None) then [(name, amount)] else [])"
  by (simp add: total_entry_def any_present_tame)

lemma copy_entry_tame: "tame decoded \<Longrightarrow> copy_entry decoded key name
    = Inr (case sa_num decoded key of None \<Rightarrow> [] | Some x \<Rightarrow> [(name, x)])"
  by (simp add: copy_entry_def sa_value_tame)

lemma pf_div_positive: "Fin 0 < v \<Longrightarrow> \<exists>q. pf_div p v = Inr q"
  by (cases p; cases v) auto

lemma current_entry_tame:
  assumes "tame decoded"
  shows "\<exists>e. current_entry decoded v_key p_key c_key = Inr e \<and> fst ` set e \<subseteq> {c_key}"
proof (cases "sa_num decoded c_key = None")
  case True
  show ?thesis
  proof (cases "\<exists>v p. sa_num decoded v_key = Some v \<and> sa_num decoded p_key = Some p \<and> Fin 0 < v")
    case True
    then obtain v p q where "sa_num decoded v_key = Some v" "sa_num decoded p_key = Some p" "Fin 0 < v" "pf_div p v = Inr q"
      using pf_div_positive by blast
    then show ?thesis
      by (simp add: current_entry_def sa_value_tame [OF assms])
  next
    case False
    then have "current_entry decoded v_key p_key c_key = Inr []"
      by (auto simp: current_entry_def sa_value_tame [OF assms] split: option.split)
    then show ?thesis
      by simp
  qed
qed (simp add: current_entry_def sa_value_tame [OF assms])

text \<open>The derived values of a tame snapshot.\<close>

definition pv_of :: "fields \<Rightarrow> pyfloat" where
  "pv_of decoded = num_or_zero decoded ''pv1_power'' + num_or_zero decoded ''pv2_power'' + num_or_zero decoded ''pv3_power''"

definition balance_of :: "fields \<Rightarrow> pyfloat" where
  "balance_of decoded = load_of (pv_of decoded) (num_or_zero decoded ''discharge_power'') (num_or_zero decoded ''grid_import_power'')
     (num_or_zero decoded ''charge_power'') (num_or_zero decoded ''grid_export_power'')"

definition net_of :: "pyfloat \<Rightarrow> pyfloat \<Rightarrow> pyfloat option" where
  "net_of gain loss = (if Fin 0 < gain \<or> Fin 0 < loss then Some (gain - loss) else None)"

lemma map_of_net_entry: "map_of (net_entry name gain loss) k = (if k = name then net_of gain loss else None)"
  by (simp add: net_entry_def net_of_def)

lemma entry_none: "fst ` set e \<subseteq> {name} \<Longrightarrow> k \<noteq> name \<Longrightarrow> map_of e k = None"
  by (auto simp: map_of_eq_None_iff)

lemma build_computed_tame:
  assumes "tame decoded"
  shows "\<exists>c. build_computed decoded = Inr c
    \<and> map_of c ''load_power'' = Some (balance_of decoded)
    \<and> map_of c ''pv_power_total'' = (if Fin 0 < pv_of decoded \<or> (\<exists>k \<in> {''pv1_power'', ''pv2_power'', ''pv3_power''}. sa_num decoded k \<noteq> None)
        then Some (pv_of decoded) else None)
    \<and> map_of c ''grid_power_net'' = net_of (num_or_zero decoded ''grid_import_power'') (num_or_zero decoded ''grid_export_power'')
    \<and> map_of c ''battery_power_net'' = net_of (num_or_zero decoded ''charge_power'') (num_or_zero decoded ''discharge_power'')"
proof -
  define known where "known \<longleftrightarrow> Fin 0 < pv_of decoded \<or> (\<exists>k \<in> set [''pv1_power'', ''pv2_power'', ''pv3_power'']. sa_num decoded k \<noteq> None)"
  have pv: "total_entry decoded ''pv_power_total'' (pv_of decoded) [''pv1_power'', ''pv2_power'', ''pv3_power'']
      = Inr (if known then [(''pv_power_total'', pv_of decoded)] else [])"
    unfolding known_def by (rule total_entry_tame [OF assms])
  obtain e1 where e1: "current_entry decoded ''pv1_voltage'' ''pv1_power'' ''pv1_current'' = Inr e1" "fst ` set e1 \<subseteq> {''pv1_current''}"
    using current_entry_tame [OF assms] by blast
  obtain e2 where e2: "current_entry decoded ''pv2_voltage'' ''pv2_power'' ''pv2_current'' = Inr e2" "fst ` set e2 \<subseteq> {''pv2_current''}"
    using current_entry_tame [OF assms] by blast
  have total: "\<exists>e. total_entry decoded name x ks = Inr e \<and> fst ` set e \<subseteq> {name}" for name x ks
    by (auto simp: total_entry_tame [OF assms])
  have copy: "\<exists>e. copy_entry decoded key name = Inr e \<and> fst ` set e \<subseteq> {name}" for key name
    by (cases "sa_num decoded key") (auto simp: copy_entry_tame [OF assms])
  obtain ac where ac: "copy_entry decoded ''eps_voltage_r'' ''ac_output_voltage'' = Inr ac" "fst ` set ac \<subseteq> {''ac_output_voltage''}"
    using copy by blast
  obtain en where en: "total_entry decoded ''pv_energy_total'' (num_or_zero decoded ''pv1_energy_total'' + num_or_zero decoded ''pv2_energy_total''
      + num_or_zero decoded ''pv3_energy_total'') [''pv1_energy_total'', ''pv2_energy_total'', ''pv3_energy_total''] = Inr en"
      "fst ` set en \<subseteq> {''pv_energy_total''}"
    using total by blast
  obtain t1 where t1: "copy_entry decoded ''charge_energy_total'' ''battery_in_energy_total'' = Inr t1" "fst ` set t1 \<subseteq> {''battery_in_energy_total''}"
    using copy by blast
  obtain t2 where t2: "copy_entry decoded ''discharge_energy_total'' ''battery_out_energy_total'' = Inr t2" "fst ` set t2 \<subseteq> {''battery_out_energy_total''}"
    using copy by blast
  obtain t3 where t3: "copy_entry decoded ''grid_import_total'' ''grid_import_energy_total'' = Inr t3" "fst ` set t3 \<subseteq> {''grid_import_energy_total''}"
    using copy by blast
  obtain t4 where t4: "copy_entry decoded ''grid_export_total'' ''grid_export_energy_total'' = Inr t4" "fst ` set t4 \<subseteq> {''grid_export_energy_total''}"
    using copy by blast
  define tail where "tail = ac @ e1 @ e2 @ en @ t1 @ t2 @ t3 @ t4"
  note entries = ac(2) e1(2) e2(2) en(2) t1(2) t2(2) t3(2) t4(2)
  have none: "map_of tail ''load_power'' = None" "map_of tail ''pv_power_total'' = None" "map_of tail ''grid_power_net'' = None"
      "map_of tail ''battery_power_net'' = None"
    by (simp_all add: tail_def entries [THEN entry_none])
  let ?c = "(if known then [(''pv_power_total'', pv_of decoded)] else [])
      @ net_entry ''grid_power_net'' (num_or_zero decoded ''grid_import_power'') (num_or_zero decoded ''grid_export_power'')
      @ net_entry ''battery_power_net'' (num_or_zero decoded ''charge_power'') (num_or_zero decoded ''discharge_power'')
      @ [(''load_power'', balance_of decoded)] @ tail"
  have "build_computed decoded = Inr ?c"
    unfolding build_computed_def sum_three_tame [OF assms] sa_or_zero_tame [OF assms] bindE_Inr pv [unfolded pv_of_def] en(1)
      ac(1) e1(1) e2(1) t1(1) t2(1) t3(1) t4(1) tail_def balance_of_def pv_of_def by (simp only: append.assoc)
  moreover have "map_of ?c ''load_power'' = Some (balance_of decoded)" "map_of ?c ''pv_power_total'' = (if known then Some (pv_of decoded) else None)"
      "map_of ?c ''grid_power_net'' = net_of (num_or_zero decoded ''grid_import_power'') (num_or_zero decoded ''grid_export_power'')"
      "map_of ?c ''battery_power_net'' = net_of (num_or_zero decoded ''charge_power'') (num_or_zero decoded ''discharge_power'')"
    by (simp_all add: map_add_def map_of_net_entry none split: option.split)
  moreover have "known \<longleftrightarrow> Fin 0 < pv_of decoded \<or> (\<exists>k \<in> {''pv1_power'', ''pv2_power'', ''pv3_power''}. sa_num decoded k \<noteq> None)"
    by (simp add: known_def)
  ultimately show ?thesis
    by (intro exI [of _ ?c] conjI) (simp_all only:)
qed

subsection \<open>The balance of the powers\<close>









subsection \<open>The database\<close>

text \<open>What a write leaves: nothing, a snapshot without rows, or the snapshot with all its rows.\<close>

definition id_rows :: "int \<Rightarrow> (string \<times> pyfloat \<times> string) list \<Rightarrow> (int \<times> string \<times> pyfloat \<times> string) list" where
  "id_rows sid rows = map (\<lambda>(name, x, unit). (sid, name, x, unit)) rows"

definition same_tables :: "maria \<Rightarrow> maria \<Rightarrow> bool" where
  "same_tables st st' \<longleftrightarrow> md_snapshots st' = md_snapshots st \<and> md_rows st' = md_rows st \<and> md_hourly st' = md_hourly st
     \<and> md_next_id st' = md_next_id st"

interpretation same_tables: transition same_tables
  by unfold_locales (simp_all add: same_tables_def)

lemma stmt_same: "(\<And>st. same_tables st (f st)) \<Longrightarrow> transits same_tables (stmt f)"
  unfolding transits_def stmt_def by (auto simp: same_tables_def split: list.split)

lemma init_same: "same_tables st (init_mariadb st)"
proof -
  have "transits same_tables (bindS (stmt (\<lambda>st. st\<lparr>md_connected := True\<rparr>)) (\<lambda>_. init_schema))"
    unfolding init_schema_def by (intro same_tables.intros stmt_same) (simp_all add: same_tables_def)
  then show ?thesis
    using transitsD [where R = same_tables] unfolding init_mariadb_def same_tables_def
    by (auto split: prod.split sum.split)
qed

lemma ensure_same: "ensure_mariadb st = (b, st') \<Longrightarrow> same_tables st st'"
proof -
  assume e: "ensure_mariadb st = (b, st')"
  have "transits same_tables (stmt id)"
    by (rule stmt_same) (simp add: same_tables_def)
  then have "same_tables st st1" if "stmt id st = (r, st1)" for r st1
    using that by (rule transitsD)
  moreover have "same_tables st (init_mariadb (st1\<lparr>md_connected := False\<rparr>))" if "same_tables st st1" for st1
    using init_same [of "st1\<lparr>md_connected := False\<rparr>"] that by (simp add: same_tables_def)
  ultimately show ?thesis
    using e init_same [of st] by (auto simp: ensure_mariadb_def Let_def split: if_splits prod.splits sum.splits)
qed

lemma stmt_cases:
  "stmt f st = (r, st') \<Longrightarrow> (r = Inr () \<and> (\<exists>fs. st' = f (st\<lparr>md_faults := fs\<rparr>))) \<or> (r = Inl RuntimeError \<and> (\<exists>fs. st' = st\<lparr>md_faults := fs\<rparr>))"
  unfolding stmt_def by (cases st) (auto split: list.splits if_splits)

definition rows_kept :: "maria \<Rightarrow> maria \<Rightarrow> bool" where
  "rows_kept st st' \<longleftrightarrow> md_snapshots st' = md_snapshots st \<and> md_rows st' = md_rows st \<and> md_next_id st' = md_next_id st"

interpretation rows_kept: transition rows_kept
  by unfold_locales (simp_all add: rows_kept_def)

lemma hourly_keeps_rows: "transits rows_kept (update_hourly_energy cfg hour decoded)"
proof -
  have "transits rows_kept (stmt (upsert_hourly hour name value_in value_out))" for name value_in value_out
    unfolding transits_def stmt_def rows_kept_def by (auto simp: upsert_hourly_def split: list.split)
  then show ?thesis
    unfolding update_hourly_energy_def by (intro rows_kept.intros) auto
qed

definition write_outcome :: "fields \<Rightarrow> (int \<times> int) list \<Rightarrow> maria \<Rightarrow> maria \<Rightarrow> bool" where
  "write_outcome decoded raw st st' \<longleftrightarrow> same_tables st st'
     \<or> md_snapshots st' = md_snapshots st @ [(md_next_id st, raw)] \<and> md_next_id st' = md_next_id st + 1
       \<and> (md_rows st' = md_rows st \<and> md_hourly st' = md_hourly st
          \<or> (\<exists>rows. snapshot_rows decoded = Inr rows \<and> md_rows st' = md_rows st @ id_rows (md_next_id st) rows))"

lemma insert_rows_id: "insert_rows sid rows st = st\<lparr>md_rows := md_rows st @ id_rows sid rows\<rparr>"
  by (simp add: insert_rows_def id_rows_def)

lemma store_outcome: "store_snapshot cfg hour decoded raw st = (r, st') \<Longrightarrow> write_outcome decoded raw st st'"
proof -
  assume e: "store_snapshot cfg hour decoded raw st = (r, st')"
  obtain r1 st1 where s1: "stmt (insert_snapshot raw) st = (r1, st1)"
    by fastforce
  show ?thesis
  proof (cases r1)
    case (Inl err)
    then have "st' = st1"
      using e s1 by (simp add: store_snapshot_def bindS_def getS_def)
    then show ?thesis
      using stmt_cases [OF s1] Inl by (auto simp: write_outcome_def same_tables_def)
  next
    case (Inr u)
    then obtain fs where st1: "st1 = insert_snapshot raw (st\<lparr>md_faults := fs\<rparr>)"
      using stmt_cases [OF s1] by auto
    show ?thesis
    proof (cases "snapshot_rows decoded")
      case (Inl err)
      then have "st' = st1"
        using e s1 Inr by (simp add: store_snapshot_def bindS_def getS_def liftS_def raiseS_def)
      then show ?thesis
        by (simp add: write_outcome_def st1 insert_snapshot_def)
    next
      case rows: (Inr rows)
      obtain r2 st2 where s2: "(if rows \<noteq> [] then stmt (insert_rows (md_next_id st) rows) else returnS ()) st1 = (r2, st2)"
        by fastforce
      have "(r2 = Inr () \<and> (\<exists>fs. st2 = st1\<lparr>md_faults := fs, md_rows := md_rows st1 @ id_rows (md_next_id st) rows\<rparr>))
          \<or> (r2 = Inl RuntimeError \<and> (\<exists>fs. st2 = st1\<lparr>md_faults := fs\<rparr>))"
        using s2 stmt_cases [of "insert_rows (md_next_id st) rows" st1 r2 st2]
        by (cases st1) (auto simp: insert_rows_id returnS_def id_rows_def split: if_splits)
      then show ?thesis
      proof (elim disjE conjE exE)
        fix fs assume r2: "r2 = Inr ()" "st2 = st1\<lparr>md_faults := fs, md_rows := md_rows st1 @ id_rows (md_next_id st) rows\<rparr>"
        have "update_hourly_energy cfg hour decoded st2 = (r, st')"
          using e s1 s2 Inr rows r2(1) by (simp add: store_snapshot_def bindS_def getS_def liftS_def split: prod.splits)
        then have "rows_kept st2 st'"
          by (rule transitsD [OF hourly_keeps_rows])
        then show ?thesis
          using rows by (simp add: write_outcome_def rows_kept_def r2(2) st1 insert_snapshot_def)
      next
        fix fs assume r2: "r2 = Inl RuntimeError" "st2 = st1\<lparr>md_faults := fs\<rparr>"
        have "st' = st2"
          using e s1 s2 Inr rows r2(1) by (simp add: store_snapshot_def bindS_def getS_def liftS_def split: prod.splits)
        then show ?thesis
          by (simp add: write_outcome_def r2(2) st1 insert_snapshot_def)
      qed
    qed
  qed
qed

lemma write_outcome_disconnect: "write_outcome decoded raw st st' \<Longrightarrow> write_outcome decoded raw st (st'\<lparr>md_connected := b\<rparr>)"
  by (auto simp: write_outcome_def same_tables_def)

lemma write_outcome_before: "same_tables st st1 \<Longrightarrow> write_outcome decoded raw st1 st' \<Longrightarrow> write_outcome decoded raw st st'"
  by (auto simp: write_outcome_def same_tables_def)

lemma write_mariadb_outcome: "write_outcome decoded raw st (write_mariadb cfg hour decoded raw st)"
proof -
  obtain b st1 where e: "ensure_mariadb st = (b, st1)"
    by fastforce
  obtain r st2 where s: "store_snapshot cfg hour decoded raw st1 = (r, st2)"
    by fastforce
  have "write_outcome decoded raw st st2"
    by (rule write_outcome_before [OF ensure_same [OF e] store_outcome [OF s]])
  moreover have "write_outcome decoded raw st st1"
    using ensure_same [OF e] by (simp add: write_outcome_def)
  ultimately show ?thesis
    using e s write_outcome_disconnect by (cases b; cases r) (simp_all add: write_mariadb_def)
qed

text \<open>C22: whichever statements fail, one write leaves the tables as they were, or adds exactly one snapshot,
  and then either no row at all or all the rows of the snapshot under its id.\<close>

theorem write_mariadb_outcomes:
  "let st' = write_mariadb cfg hour decoded raw st in
      md_snapshots st' = md_snapshots st \<and> md_rows st' = md_rows st \<and> md_hourly st' = md_hourly st
    \<or> md_snapshots st' = md_snapshots st @ [(md_next_id st, raw)]
       \<and> (md_rows st' = md_rows st \<and> md_hourly st' = md_hourly st
          \<or> (\<exists>rows. snapshot_rows decoded = Inr rows
              \<and> md_rows st' = md_rows st @ map (\<lambda>(name, x, unit). (md_next_id st, name, x, unit)) rows))"
  using write_mariadb_outcome [of decoded raw st cfg hour]
  by (auto simp: Let_def write_outcome_def same_tables_def id_rows_def)

subsection \<open>The energy rollup\<close>

text \<open>Without faults a write runs to its end.\<close>

lemma stmt_ok: "md_faults st = [] \<Longrightarrow> stmt f st = (Inr (), f st)"
  by (simp add: stmt_def)

definition numeric :: "fields \<Rightarrow> bool" where
  "numeric decoded \<longleftrightarrow> list_all (\<lambda>(k, v, u). py_float v \<in> range Inr) decoded"

lemma numeric_tame: "numeric decoded \<Longrightarrow> tame decoded"
  by (auto simp: numeric_def tame_def list_all_iff)

lemma snapshot_rows_numeric: "numeric decoded \<Longrightarrow> \<exists>rows. snapshot_rows decoded = Inr rows \<and> (''load_power'', balance_of decoded, ''W'') \<in> set rows"
proof -
  assume num: "numeric decoded"
  have "\<exists>rows. mapE (\<lambda>(key, v, unit). bindE (py_float v) (\<lambda>x. Inr (key, x, unit))) decoded = Inr rows"
    using num unfolding numeric_def by (induction decoded) auto
  then show ?thesis
    using build_computed_tame [OF numeric_tame [OF num]] by (auto simp: snapshot_rows_def stored_computed_def)
qed

definition entries_of :: "fields \<Rightarrow> pyfloat \<Rightarrow> (string \<times> pyfloat option \<times> pyfloat option) list" where
  "entries_of d h =
    [(''Battery power'', Some (num_or_zero d ''charge_power'' * h), Some (num_or_zero d ''discharge_power'' * h)),
     (''Grid power'', Some (num_or_zero d ''grid_import_power'' * h), Some (num_or_zero d ''grid_export_power'' * h)),
     (''Load power'', Some (balance_of d * h), None),
     (''PV power'', Some (pv_of d * h), None)]"

lemma hourly_values_tame: "tame d \<Longrightarrow> interval_hours cfg = Inr h \<Longrightarrow> hourly_values cfg d = Inr (entries_of d h)"
  by (simp add: hourly_values_def sa_or_zero_tame sum_three_tame entries_of_def balance_of_def pv_of_def)

lemma forS_stmt: "md_faults st = [] \<Longrightarrow> (\<And>x st. md_faults (f x st) = md_faults st) \<Longrightarrow> forS xs (\<lambda>x. stmt (f x)) st = (Inr (), foldl (\<lambda>st x. f x st) st xs)"
  by (induction xs arbitrary: st) (simp_all add: bindS_def stmt_ok returnS_def)

definition upserts :: "string \<Rightarrow> (string \<times> pyfloat option \<times> pyfloat option) list \<Rightarrow> maria \<Rightarrow> maria" where
  "upserts hour es st = foldl (\<lambda>st (name, i, out). upsert_hourly hour name i out st) st es"

lemma write_mariadb_rows:
  assumes "md_faults st = []" "md_connected st" "numeric d" "interval_hours cfg = Inr h" "snapshot_rows d = Inr rows"
  shows "write_mariadb cfg hour d raw st
    = upserts hour (entries_of d h) (insert_rows (md_next_id st) rows (insert_snapshot raw st))"
proof -
  let ?st = "insert_rows (md_next_id st) rows (insert_snapshot raw st)"
  have insert: "(if rows \<noteq> [] then stmt (insert_rows (md_next_id st) rows) else returnS ()) (insert_snapshot raw st) = (Inr (), ?st)"
    using assms(1) by (cases rows) (simp_all add: stmt_ok insert_snapshot_def insert_rows_def returnS_def)
  have "md_faults ?st = []"
    using assms(1) by (simp add: insert_rows_def insert_snapshot_def)
  then have "update_hourly_energy cfg hour d ?st = (Inr (), upserts hour (entries_of d h) ?st)"
    using forS_stmt [of ?st "\<lambda>(name, i, out). upsert_hourly hour name i out" "entries_of d h"]
    by (simp add: update_hourly_energy_def hourly_values_tame [OF numeric_tame [OF assms(3)] assms(4)] upserts_def upsert_hourly_def
        case_prod_unfold)
  then have "store_snapshot cfg hour d raw st = (Inr (), upserts hour (entries_of d h) ?st)"
    using assms(1,5) insert by (simp add: store_snapshot_def bindS_def getS_def liftS_def stmt_ok)
  then show ?thesis
    using assms(1,2) by (auto simp: write_mariadb_def ensure_mariadb_def stmt_ok)
qed

lemma write_mariadb_ok:
  assumes "md_faults st = []" "md_connected st" "numeric d" "interval_hours cfg = Inr h"
  shows "\<exists>rows. write_mariadb cfg hour d raw st
    = upserts hour (entries_of d h) (insert_rows (md_next_id st) rows (insert_snapshot raw st))"
  using snapshot_rows_numeric [OF assms(3)] write_mariadb_rows [OF assms] by blast

definition merged :: "pyfloat option \<times> pyfloat option \<Rightarrow> pyfloat option \<times> pyfloat option \<Rightarrow> pyfloat option \<times> pyfloat option" where
  "merged old new = (Some (coalesce (fst old) + coalesce (fst new)), Some (coalesce (snd old) + coalesce (snd new)))"

lemma upsert_hourly_entry:
  "map_of (md_hourly (upsert_hourly hour name i out st)) key
    = (if key = (hour, name) then Some (case map_of (md_hourly st) key of None \<Rightarrow> (i, out) | Some old \<Rightarrow> merged old (i, out))
       else map_of (md_hourly st) key)"
  by (auto simp: upsert_hourly_def update_conv' merged_def split: option.split)

text \<open>The entry of an hour after some contributions: the first one of the hour is stored as it is, every
  later one is added to both sums.\<close>

fun rollup :: "(pyfloat option \<times> pyfloat option) option \<Rightarrow> (pyfloat option \<times> pyfloat option) list
    \<Rightarrow> (pyfloat option \<times> pyfloat option) option" where
  "rollup old [] = old"
| "rollup None (e # es) = rollup (Some e) es"
| "rollup (Some old) (e # es) = rollup (Some (merged old e)) es"

lemma rollup_Cons: "rollup old (e # es) = rollup (rollup old [e]) es"
  by (cases old) simp_all

lemma upserts_entry_gen:
  "distinct (map fst es) \<Longrightarrow> map_of (md_hourly (upserts hour es st)) key
    = rollup (map_of (md_hourly st) key) (if fst key = hour then (case map_of es (snd key) of None \<Rightarrow> [] | Some e \<Rightarrow> [e]) else [])"
proof (induction es arbitrary: st)
  case Nil
  then show ?case
    by (simp add: upserts_def)
next
  case (Cons e es)
  obtain n i out where e: "e = (n, i, out)"
    by (cases e) auto
  define st1 where "st1 = upsert_hourly hour n i out st"
  have step: "upserts hour (e # es) st = upserts hour es st1"
    by (simp add: upserts_def e st1_def)
  have one: "map_of (md_hourly st1) key = (if key = (hour, n) then rollup (map_of (md_hourly st) key) [(i, out)] else map_of (md_hourly st) key)"
    by (cases "key = (hour, n)") (auto simp: st1_def upsert_hourly_entry split: option.split)
  have "map_of es n = None"
    using Cons.prems by (simp add: e map_of_eq_None_iff)
  with Cons.IH [of st1] Cons.prems one show ?case
    unfolding step by (cases key) (auto simp: e)
qed

lemma upserts_entry:
  "map_of (md_hourly (upserts hour (entries_of d h) st)) key
    = rollup (map_of (md_hourly st) key)
        (if fst key = hour then (case map_of (entries_of d h) (snd key) of None \<Rightarrow> [] | Some e \<Rightarrow> [e]) else [])"
  by (rule upserts_entry_gen) (simp add: entries_of_def)

definition write_snapshots :: "attributes \<Rightarrow> string \<Rightarrow> (fields \<times> (int \<times> int) list) list \<Rightarrow> maria \<Rightarrow> maria" where
  "write_snapshots cfg hour ds st = foldl (\<lambda>st (d, raw). write_mariadb cfg hour d raw st) st ds"

lemma write_one_entry:
  assumes "md_faults st = []" "md_connected st" "interval_hours cfg = Inr h" "numeric d"
  shows "md_faults (write_mariadb cfg hour d raw st) = []" "md_connected (write_mariadb cfg hour d raw st)"
    and "map_of (md_hourly (write_mariadb cfg hour d raw st)) key = rollup (map_of (md_hourly st) key)
        (if fst key = hour then (case map_of (entries_of d h) (snd key) of None \<Rightarrow> [] | Some e \<Rightarrow> [e]) else [])"
proof -
  obtain rows where w: "write_mariadb cfg hour d raw st
      = upserts hour (entries_of d h) (insert_rows (md_next_id st) rows (insert_snapshot raw st))"
    using write_mariadb_ok [OF assms(1,2,4,3), of hour raw] by blast
  show "md_faults (write_mariadb cfg hour d raw st) = []" "md_connected (write_mariadb cfg hour d raw st)"
    using assms(1,2) by (simp_all add: w upserts_def entries_of_def upsert_hourly_def insert_rows_def insert_snapshot_def)
  show "map_of (md_hourly (write_mariadb cfg hour d raw st)) key = rollup (map_of (md_hourly st) key)
        (if fst key = hour then (case map_of (entries_of d h) (snd key) of None \<Rightarrow> [] | Some e \<Rightarrow> [e]) else [])"
    unfolding w upserts_entry by (simp add: insert_rows_def insert_snapshot_def)
qed

lemma write_snapshots_entry:
  assumes "md_faults st = []" "md_connected st" "interval_hours cfg = Inr h" "list_all (\<lambda>(d, raw). numeric d) ds"
    and "\<And>d. (if fst key = hour then (case map_of (entries_of d h) (snd key) of None \<Rightarrow> [] | Some e \<Rightarrow> [e]) else []) = new d"
  shows "map_of (md_hourly (write_snapshots cfg hour ds st)) key = rollup (map_of (md_hourly st) key) (concat (map (\<lambda>(d, raw). new d) ds))"
  using assms(1,2,4)
proof (induction ds arbitrary: st)
  case Nil
  then show ?case
    by (simp add: write_snapshots_def)
next
  case (Cons p ds)
  obtain d raw where p: "p = (d, raw)"
    by fastforce
  have num: "numeric d" "list_all (\<lambda>(d, raw). numeric d) ds"
    using Cons.prems(3) p by simp_all
  note one = write_one_entry [OF Cons.prems(1,2) assms(3) num(1), of hour raw]
  have "rollup (rollup old (new d)) es = rollup old (new d @ es)" for old es
  proof -
    have "new d = [] \<or> (\<exists>e. new d = [e])"
      by (simp flip: assms(5) split: option.split)
    then show ?thesis
      by (auto simp: rollup_Cons [of old _ es])
  qed
  then show ?case
    using Cons.IH [OF one(1,2) num(2)] one(3) [of key] by (simp add: write_snapshots_def p assms(5))
qed

text \<open>C23: while the database answers, the snapshots written within one hour are rolled up per category, from
  whatever the table holds for that hour.  For each snapshot the battery counts charge and discharge power,
  the grid import and export power, the load the balance of the powers but at least zero, and the panels
  the sum of the three strings, each times the interval; the first contribution of an hour creates the
  row and every later one is added to its sums.  No row of another hour or name changes.\<close>

theorem hourly_accumulates:
  assumes "md_faults st = []" "md_connected st" "interval_hours cfg = Inr h" "list_all (\<lambda>(d, raw). numeric d) ds"
  shows "let old = map_of (md_hourly st);
             new = map_of (md_hourly (foldl (\<lambda>st (d, raw). write_mariadb cfg hour d raw st) st ds));
             pv = (\<lambda>d. num_or_zero d ''pv1_power'' + num_or_zero d ''pv2_power'' + num_or_zero d ''pv3_power'');
             load = (\<lambda>d. pf_max (Fin 0) ((pv d + num_or_zero d ''discharge_power'' + num_or_zero d ''grid_import_power'')
                - (num_or_zero d ''charge_power'' + num_or_zero d ''grid_export_power'')))
    in new (hour, ''Battery power'') = rollup (old (hour, ''Battery power''))
          (map (\<lambda>(d, raw). (Some (num_or_zero d ''charge_power'' * h), Some (num_or_zero d ''discharge_power'' * h))) ds)
     \<and> new (hour, ''Grid power'') = rollup (old (hour, ''Grid power''))
          (map (\<lambda>(d, raw). (Some (num_or_zero d ''grid_import_power'' * h), Some (num_or_zero d ''grid_export_power'' * h))) ds)
     \<and> new (hour, ''Load power'') = rollup (old (hour, ''Load power'')) (map (\<lambda>(d, raw). (Some (load d * h), None)) ds)
     \<and> new (hour, ''PV power'') = rollup (old (hour, ''PV power'')) (map (\<lambda>(d, raw). (Some (pv d * h), None)) ds)
     \<and> {key. new key \<noteq> old key} \<subseteq> {hour} \<times> set [''Battery power'', ''Grid power'', ''Load power'', ''PV power'']"
proof -
  have single: "concat (map (\<lambda>(d, raw). [f d]) ds) = map (\<lambda>(d, raw). f d) ds" for f :: "fields \<Rightarrow> pyfloat option \<times> pyfloat option"
    by (induction ds) auto
  note entry = write_snapshots_entry [OF assms, unfolded write_snapshots_def]
  have others: "map_of (md_hourly (foldl (\<lambda>st (d, raw). write_mariadb cfg hour d raw st) st ds)) key = map_of (md_hourly st) key"
    if "key \<notin> {hour} \<times> set [''Battery power'', ''Grid power'', ''Load power'', ''PV power'']" for key
  proof -
    have nil: "concat (map (\<lambda>(d, raw). []) ds) = ([] :: (pyfloat option \<times> pyfloat option) list)"
      by (induction ds) auto
    have "(if fst key = hour then (case map_of (entries_of d h) (snd key) of None \<Rightarrow> [] | Some e \<Rightarrow> [e]) else []) = []" for d
      using that by (cases key) (auto simp: entries_of_def)
    from entry [OF this] show ?thesis
      unfolding nil rollup.simps(1) .
  qed
  have named: "map_of (md_hourly (foldl (\<lambda>st (d, raw). write_mariadb cfg hour d raw st) st ds)) (hour, name)
      = rollup (map_of (md_hourly st) (hour, name)) (map (\<lambda>(d, raw). f d) ds)"
    if "\<And>d. map_of (entries_of d h) name = Some (f d)" for name f
    using entry [of "(hour, name)" hour "\<lambda>d. [f d]"] that by (simp add: single)
  show ?thesis
    unfolding Let_def
  proof (intro conjI)
    show "{key. map_of (md_hourly (foldl (\<lambda>st (d, raw). write_mariadb cfg hour d raw st) st ds)) key \<noteq> map_of (md_hourly st) key}
        \<subseteq> {hour} \<times> set [''Battery power'', ''Grid power'', ''Load power'', ''PV power'']"
      using others by blast
  qed (rule named, simp add: entries_of_def balance_of_def pv_of_def load_of_def)+
qed

theorem hourly_accumulates_witness:
  "let st = \<lparr>md_connected = True, md_faults = [], md_next_id = 1, md_snapshots = [], md_rows = [], md_hourly = []\<rparr>;
       new = map_of (md_hourly (foldl (\<lambda>st (d, raw). write_mariadb [(''_write_interval'', JFloat (Fin 3600))] ''9h'' d raw st) st
        [([(''charge_power'', JFloat (Fin 400), ''W''), (''pv1_power'', JFloat (Fin 1000), ''W'')], []),
         ([(''charge_power'', JFloat (Fin 600), ''W'')], [])]))
   in new (''9h'', ''Battery power'') = Some (Some (Fin 1000), Some (Fin 0))
     \<and> new (''9h'', ''Load power'') = Some (Some (Fin 600), Some (Fin 0))
     \<and> new (''9h'', ''PV power'') = Some (Some (Fin 1000), Some (Fin 0))"
proof -
  let ?st = "\<lparr>md_connected = True, md_faults = [], md_next_id = 1, md_snapshots = [], md_rows = [], md_hourly = []\<rparr>"
  let ?ds = "[([(''charge_power'', JFloat (Fin 400), ''W''), (''pv1_power'', JFloat (Fin 1000), ''W'')], []),
         ([(''charge_power'', JFloat (Fin 600), ''W'')], [])] :: (fields \<times> (int \<times> int) list) list"
  have h: "interval_hours [(''_write_interval'', JFloat (Fin 3600))] = Inr (Fin 1)"
    using dbl_of_int [of 1] by (simp add: interval_hours_def)
  have num: "list_all (\<lambda>(d, raw). numeric d) ?ds"
    by (simp add: numeric_def)
  have ints: "dbl 0 = Fin 0" "dbl 400 = Fin 400" "dbl 600 = Fin 600" "dbl 1000 = Fin 1000" "dbl (- 600) = Fin (- 600)"
    using dbl_of_int [of 400] dbl_of_int [of 600] dbl_of_int [of 1000] dbl_of_int [of 0] dbl_of_int [of "- 600"] by simp_all
  show ?thesis
    using hourly_accumulates [OF _ _ h num, of ?st "''9h''"]
    by (simp add: Let_def num_or_zero_def sa_num_def or_zero_def num_true_def merged_def coalesce_def minus_pyfloat_def
        pf_max_def ints)
qed

subsection \<open>Serial devices\<close>

lemma keys_prefix_step: "list_all (\<lambda>(k, e). starts_with p k) m \<Longrightarrow> starts_with p key \<Longrightarrow> list_all (\<lambda>(k, e). starts_with p k) (AList.update key info m)"
  by (induction m) auto

lemma starts_with_append [simp]: "starts_with p (p @ s)"
  by (simp add: starts_with_def)

lemma prefix_keys_prefixed: "prefix \<noteq> [] \<Longrightarrow> list_all (\<lambda>(k, e). starts_with (prefix @ ''_'') k) (prefix_keys data prefix)"
proof -
  assume ne: "prefix \<noteq> []"
  have "list_all (\<lambda>(k, e). starts_with (prefix @ ''_'') k) m \<Longrightarrow> list_all (\<lambda>(k, e). starts_with (prefix @ ''_'') k)
      (foldl (\<lambda>m (key, info). AList.update (if starts_with (prefix @ ''_'') key then key else prefix @ ''_'' @ key) info m) m data)" for m
  proof (induction data arbitrary: m)
    case (Cons e data)
    have "starts_with (prefix @ ''_'') (prefix @ ''_'' @ k)" for k
      using starts_with_append [of "prefix @ ''_''" k] by simp
    then show ?case
      using Cons by (cases e) (simp add: keys_prefix_step)
  qed simp
  then show ?thesis
    using ne by (simp add: prefix_keys_def)
qed

lemma numeric_values_subset: "numeric_values fs = Inr gs \<Longrightarrow> set gs \<subseteq> set fs \<and> numeric gs"
proof (induction fs arbitrary: gs)
  case (Cons f fs)
  obtain k v u where f: "f = (k, v, u)"
    by (cases f) auto
  have "py_float v \<in> range Inr" if "is_numeric v = Inr True"
    using that by (cases v) (auto simp: is_numeric_def split: sum.splits py_exn.splits option.splits)
  then show ?case
    using Cons by (auto simp: f numeric_def bindE_eq_Inr split: if_splits)
qed (simp add: numeric_def)

lemma sa_num_prefixed: "list_all (\<lambda>(k, e). starts_with p k) fs \<Longrightarrow> \<not> starts_with p key \<Longrightarrow> sa_num fs key = None"
  by (auto simp: sa_num_def list_all_iff split: option.split dest!: map_of_SomeD)

text \<open>The snapshots of a serial device carry no power of the inverter, but every write of one adds a row that
  reports a load of 0 W under the inverter's own name, and the same value goes to the other outputs.\<close>

lemma serial_write_reports_no_load:
  assumes "numeric_values (prefix_keys latest ''rs485'') = Inr fs"
  shows "\<exists>rows c. snapshot_rows fs = Inr rows \<and> (''load_power'', Fin 0, ''W'') \<in> set rows
    \<and> build_computed fs = Inr c \<and> map_of c ''load_power'' = Some (Fin 0)"
proof -
  have pre: "list_all (\<lambda>(k, e). starts_with ''rs485_'' k) fs" and num: "numeric fs"
    using prefix_keys_prefixed [of "''rs485''" latest] numeric_values_subset [OF assms] by (auto simp: list_all_iff)
  have "num_or_zero fs key = Fin 0" if "\<not> starts_with ''rs485_'' key" for key
    using sa_num_prefixed [OF pre that] by (simp add: num_or_zero_def or_zero_def num_true_def)
  then have "balance_of fs = Fin 0"
    using dbl_of_int [of 0] by (simp add: balance_of_def pv_of_def load_of_def starts_with_def minus_pyfloat_def pf_max_def)
  then show ?thesis
    using snapshot_rows_numeric [OF num] build_computed_tame [OF numeric_tame [OF num]] by metis
qed

end
