(* ===== verification/Publication_Facts.thy ===== *)
theory Publication_Facts
  imports Outputs_Facts
begin

text \<open>
  What is sent: the request to InfluxDB for a snapshot, and the discovery messages to the broker over any
  sequence of writes.
\<close>

subsection \<open>The request to InfluxDB\<close>

definition float_fields :: "measurements \<Rightarrow> bool" where
  "float_fields ms \<longleftrightarrow> list_all (\<lambda>(m, fs). list_all (\<lambda>(k, v). v \<in> range JFloat) fs) ms"

lemma list_all_update: "list_all (\<lambda>(k, v). P v) xs \<Longrightarrow> P v \<Longrightarrow> list_all (\<lambda>(k, v). P v) (AList.update k v xs)"
  by (induction xs) auto

lemma list_all_lookup: "list_all (\<lambda>(k, v). P v) xs \<Longrightarrow> map_of xs k = Some v \<Longrightarrow> P v"
  by (auto simp: list_all_iff dest!: map_of_SomeD)

lemma add_measurement_floats: "float_fields ms \<Longrightarrow> float_fields (add_measurement ms e)"
proof (cases e)
  case (Pair name x)
  assume ms: "float_fields ms"
  show ?thesis
  proof (cases "map_of REGISTER_TO_SA name")
    case (Some p)
    have "list_all (\<lambda>(k, v). v \<in> range JFloat) (case map_of ms m of None \<Rightarrow> [] | Some fs \<Rightarrow> fs)" for m
      using ms unfolding float_fields_def by (auto split: option.split dest: list_all_lookup)
    then show ?thesis
      using ms Some unfolding float_fields_def add_measurement_def Pair
      by (cases p) (auto intro!: list_all_update)
  qed (use ms in \<open>simp add: add_measurement_def Pair\<close>)
qed

lemma measurements_floats: "float_fields ms \<Longrightarrow> float_fields (foldl add_measurement ms es)"
  by (induction es arbitrary: ms) (simp_all add: add_measurement_floats)

lemma float_list: "list_all (\<lambda>(k, v). v \<in> range JFloat) fs \<Longrightarrow> \<exists>gs. fs = map (\<lambda>(k, x). (k, JFloat x)) gs"
proof (induction fs)
  case (Cons f fs)
  then obtain k x gs where "f = (k, JFloat x)" "fs = map (\<lambda>(k, x). (k, JFloat x)) gs"
    by (cases f) auto
  then show ?case
    by (intro exI [of _ "(k, x) # gs"]) simp
qed simp

lemma to_line_total: "\<exists>line. to_line m tags (map (\<lambda>(k, x). (k, JFloat x)) fs) ts = Inr line"
  by (simp add: to_line_def field_parts_floats)

lemma known_values_tame: "tame decoded \<Longrightarrow> \<exists>vs. known_values decoded fs = Inr vs"
  by (induction fs) (auto simp: sa_value_tame)

text \<open>A line that can be read back with this timestamp.\<close>

definition readable :: "int \<Rightarrow> string \<Rightarrow> bool" where
  "readable ts line \<longleftrightarrow> (\<exists>m tags fs. read_line line = Some (m, tags, fs, int_str ts))"

lemma to_line_readable: "to_line m tags (map (\<lambda>(k, x). (k, JFloat x)) fs) ts = Inr line \<Longrightarrow> line = [] \<or> readable ts line"
  unfolding readable_def using read_line_written by blast

lemma register_line_tame:
  assumes "tame decoded"
  shows "\<exists>line. register_line decoded ts (key, v, unit) = Inr line \<and> (line = [] \<or> readable ts line)
    \<and> (\<forall>x. sa_num decoded key = Some x \<and> x \<noteq> NaN \<longrightarrow> line \<noteq> [] \<and> read_line line = Some (''luxmon_register'',
        filter (\<lambda>(k, v). v \<noteq> []) [(''name'', key), (''unit'', unit)], [(''value'', float_repr x)], int_str ts))"
proof (cases "sa_num decoded key")
  case (Some x)
  obtain line where line: "to_line ''luxmon_register'' [(''name'', key), (''unit'', unit)] (map (\<lambda>(k, x). (k, JFloat x)) [(''value'', x)]) ts = Inr line"
    using to_line_total by blast
  then have "line \<noteq> []" if "x \<noteq> NaN"
    using that unfolding to_line_def field_parts_floats by (auto simp: written_fields_def)
  then show ?thesis
    using line to_line_readable [OF line] read_line_written [OF line] Some assms
    by (simp add: register_line_def sa_value_tame)
qed (simp add: register_line_def sa_value_tame assms)

lemma influx_lines_readable:
  assumes "tame decoded"
  shows "\<exists>lines. influx_lines decoded ts = Inr lines \<and> list_all (readable ts) lines
    \<and> list_all (\<lambda>(key, v, unit). \<forall>x. sa_num decoded key = Some x \<and> x \<noteq> NaN \<longrightarrow> list_ex (\<lambda>line. read_line line = Some (''luxmon_register'',
        filter (\<lambda>(k, v). v \<noteq> []) [(''name'', key), (''unit'', unit)], [(''value'', float_repr x)], int_str ts)) lines) decoded"
proof -
  obtain c where c: "build_computed decoded = Inr c"
    using build_computed_tame [OF assms] by blast
  obtain known where known: "known_values decoded decoded = Inr known"
    using known_values_tame [OF assms] by blast
  define ms where "ms = foldl add_measurement [] (dict_merge known c)"
  have "float_fields ms"
    unfolding ms_def by (rule measurements_floats) (simp add: float_fields_def)
  then have "\<exists>line. to_line m [] fs ts = Inr line \<and> (line = [] \<or> readable ts line)" if "(m, fs) \<in> set ms" for m fs
  proof -
    have "list_all (\<lambda>(k, v). v \<in> range JFloat) fs"
      using \<open>float_fields ms\<close> \<open>(m, fs) \<in> set ms\<close> unfolding float_fields_def list_all_iff by fast
    from float_list [OF this] obtain gs where "fs = map (\<lambda>(k, x). (k, JFloat x)) gs"
      by blast
    then show ?thesis
      using to_line_total to_line_readable by metis
  qed
  note line = this
  define point where "point e = projr (to_line (fst e) [] (snd e) ts)" for e
  have point: "to_line m [] fs ts = Inr (point (m, fs)) \<and> (point (m, fs) = [] \<or> readable ts (point (m, fs)))" if "(m, fs) \<in> set ms" for m fs
    using line [OF that] by (auto simp: point_def)
  have points: "mapE (\<lambda>(m, fs). to_line m [] fs ts) ms = Inr (map point ms)"
    by (rule mapE_total) (use point in auto)
  define reg where "reg e = projr (register_line decoded ts e)" for e
  have reg: "register_line decoded ts (key, v, unit) = Inr (reg (key, v, unit)) \<and> (reg (key, v, unit) = [] \<or> readable ts (reg (key, v, unit)))
    \<and> (\<forall>x. sa_num decoded key = Some x \<and> x \<noteq> NaN \<longrightarrow> reg (key, v, unit) \<noteq> [] \<and> read_line (reg (key, v, unit)) = Some (''luxmon_register'',
        filter (\<lambda>(k, v). v \<noteq> []) [(''name'', key), (''unit'', unit)], [(''value'', float_repr x)], int_str ts))" for key v unit
    using register_line_tame [OF assms, of ts key v unit] by (auto simp: reg_def)
  have registers: "mapE (register_line decoded ts) decoded = Inr (map reg decoded)"
    by (rule mapE_total) (use reg in auto)
  let ?lines = "filter (\<lambda>line. line \<noteq> []) (map point ms @ map reg decoded)"
  have "influx_lines decoded ts = Inr ?lines"
    using c known points registers by (simp add: influx_lines_def ms_def)
  moreover have "list_all (readable ts) ?lines"
  proof -
    have "readable ts (point e)" if "e \<in> set ms" "point e \<noteq> []" for e
      using point [of "fst e" "snd e"] that by simp
    moreover have "readable ts (reg e)" if "reg e \<noteq> []" for e
      using reg [of "fst e" "fst (snd e)" "snd (snd e)"] that by simp
    ultimately show ?thesis
      unfolding list_all_iff by fastforce
  qed
  moreover have "list_ex (\<lambda>line. read_line line = Some (''luxmon_register'', filter (\<lambda>(k, v). v \<noteq> []) [(''name'', key), (''unit'', unit)],
        [(''value'', float_repr x)], int_str ts)) ?lines"
    if "(key, v, unit) \<in> set decoded" "sa_num decoded key = Some x" "x \<noteq> NaN" for key v unit x
    unfolding list_ex_iff
  proof (rule bexI)
    show "read_line (reg (key, v, unit)) = Some (''luxmon_register'', filter (\<lambda>(k, v). v \<noteq> []) [(''name'', key), (''unit'', unit)],
        [(''value'', float_repr x)], int_str ts)" "reg (key, v, unit) \<in> set ?lines"
      using that reg [of key v unit] by force+
  qed
  ultimately show ?thesis
    unfolding list_all_iff by (intro exI conjI ballI) (auto simp del: filter.simps)
qed

text \<open>With InfluxDB 1 a write is one request whatever the readings are.  Every line of its body can be
  read back and ends in the given number of nanoseconds; every reading that is a number has a line of
  its own with name, unit and value; and the request announces that timestamps are in seconds.\<close>

lemma influx_request:
  assumes "tame decoded" "\<not> out_influx_client st" "map_of (out_cfg st) ''influx_precision'' = None"
    and "(key, v, unit) \<in> set decoded" "sa_num decoded key = Some x" "x \<noteq> NaN"
  shows "\<exists>url params lines. write_influxdb ts_ns v2_ok decoded st
      = (Inr (), st\<lparr>out_posts := out_posts st @ [InfluxV1 url params (join [line_feed] lines)]\<rparr>)
    \<and> map_of params ''precision'' = Some ''s''
    \<and> list_all (\<lambda>line. \<exists>m tags fs. read_line line = Some (m, tags, fs, int_str ts_ns)) lines
    \<and> list_ex (\<lambda>line. read_line line = Some (''luxmon_register'', filter (\<lambda>(k, v). v \<noteq> []) [(''name'', key), (''unit'', unit)],
        [(''value'', float_repr x)], int_str ts_ns)) lines"
proof -
  obtain lines where lines: "influx_lines decoded ts_ns = Inr lines" "list_all (readable ts_ns) lines"
    "list_ex (\<lambda>line. read_line line = Some (''luxmon_register'', filter (\<lambda>(k, v). v \<noteq> []) [(''name'', key), (''unit'', unit)],
        [(''value'', float_repr x)], int_str ts_ns)) lines"
    using influx_lines_readable [OF assms(1), of ts_ns] assms(4-6) by (force simp: list_all_iff)
  have "lines \<noteq> []"
    using lines(3) by auto
  moreover have "out_text (out_cfg st) ''influx_precision'' = ''s''"
    using assms(3) by (simp add: out_text_def out_attr_def attr_def OUTPUT_DEFAULTS_def py_str_def)
  ultimately obtain url rest where "write_influxdb ts_ns v2_ok decoded st
      = (Inr (), st\<lparr>out_posts := out_posts st @ [InfluxV1 url ([(''db'', out_text (out_cfg st) ''influx_database''), (''precision'', ''s'')] @ rest) (join [line_feed] lines)]\<rparr>)"
    using lines(1) assms(2) by (simp add: write_influxdb_def op_defs post_influx_v1_def Let_def)
  moreover have "map_of ([(''db'', out_text (out_cfg st) ''influx_database''), (''precision'', ''s'')] @ rest) ''precision'' = Some ''s''"
    by simp
  ultimately show ?thesis
    using lines(2,3) unfolding readable_def by blast
qed

subsection \<open>Discovery\<close>

text \<open>What sending over MQTT and to InfluxDB keeps: any relation that the single messages, announcements and requests keep.\<close>

locale publishing = transition R for R :: "outputs \<Rightarrow> outputs \<Rightarrow> bool" +
  assumes sent: "R st (send topic payload qos False st)"
    and announced: "kind \<in> {''sensor'', ''number''} \<Longrightarrow> R st (announce_once kind uniq config st)"
    and posted_v1: "R st (post_influx_v1 body st)"
    and posted: "R st (st\<lparr>out_posts := ps\<rparr>)"
begin

lemma loop: "(\<And>st x. R st (f st x)) \<Longrightarrow> R st (foldl f st xs)"
proof (induction xs arbitrary: st)
  case (Cons x xs)
  then show ?case
    using trans by (metis foldl_Cons)
qed (simp add: refl)

lemma modify: "(\<And>st. R st (f st)) \<Longrightarrow> transits R (modifyS f)"
  by (simp add: transits_def modifyS_def)

lemma discovery: "R st (ha_announce decoded computed topic st)"
proof -
  have "R st (foldl (\<lambda>st (key, name, dev_class, unit, icon). if \<not> has_key decoded computed key then st
           else announce_once ''sensor'' (unique_id (out_cfg st) key)
             (sensor_config (out_cfg st) topic key name dev_class unit None icon) st) st xs)" for xs st
    by (rule loop) (auto split: prod.split intro: refl announced)
  moreover have "R st (foldl (\<lambda>st (key, name, dev_class, unit, icon, state_class). if \<not> has_key decoded computed key then st
           else announce_once ''sensor'' (unique_id (out_cfg st) key)
             (sensor_config (out_cfg st) topic key name dev_class unit (Some state_class) icon) st) st xs)" for xs st
    by (rule loop) (auto split: prod.split intro: refl announced)
  ultimately show ?thesis
    unfolding ha_announce_def Let_def using trans by blast
qed

lemma settings: "R st (publish_settings_state st)"
  unfolding publish_settings_state_def by (auto intro!: loop refl sent split: option.split)

lemma number: "transits R (announce_number name)"
proof (rule transitsI)
  fix s r s'
  assume "announce_number name s = (r, s')"
  then show "R s s'"
    unfolding announce_number_def Let_def
    by (auto split: option.splits if_splits sum.splits intro: refl announced)
qed

lemma mqtt: "transits R (write_mqtt decoded)"
proof -
  have "transits R publish_ha_number_discovery"
    unfolding publish_ha_number_discovery_def by (intro intros number)
  moreover have "R st (publish_settings_state (send topic payload 0 False st))" for st topic payload
    using trans sent settings by blast
  ultimately show ?thesis
    unfolding write_mqtt_def by (auto intro!: intros modify discovery)
qed

lemma influx: "transits R (write_influxdb ts ok decoded)"
proof -
  have "R st (let payload = join [line_feed] lines in
      if out_influx_client st then
        (let st = st\<lparr>out_posts := out_posts st @ [InfluxV2 (out_text (out_cfg st) ''influx_bucket'') (out_text (out_cfg st) ''influx_org'') payload]\<rparr>
         in if ok then st else post_influx_v1 payload st)
      else post_influx_v1 payload st)" for lines st
    by (simp add: Let_def posted_v1 posted trans [OF posted posted_v1])
  then show ?thesis
    unfolding write_influxdb_def by (auto intro!: intros modify)
qed

end

definition config_topic :: "attributes \<Rightarrow> string \<Rightarrow> string \<Rightarrow> string" where
  "config_topic cfg kind uniq = out_text cfg ''mqtt_ha_prefix'' @ ''/'' @ kind @ ''/'' @ uniq @ ''/config''"

definition retained :: "outputs \<Rightarrow> mqtt_message list" where
  "retained st = filter mm_retain (out_published st)"

definition announced_once :: "outputs \<Rightarrow> bool" where
  "announced_once st \<longleftrightarrow> distinct (map mm_topic (retained st))
     \<and> (\<forall>m \<in> set (retained st). mm_qos m = 1 \<and> (\<exists>kind \<in> {''sensor'', ''number''}. \<exists>uniq \<in> set (out_announced st).
         mm_topic m = config_topic (out_cfg st) kind uniq))"

definition announces :: "outputs \<Rightarrow> outputs \<Rightarrow> bool" where
  "announces st st' \<longleftrightarrow> out_cfg st' = out_cfg st \<and> (announced_once st \<longrightarrow> announced_once st')"

lemma config_topic_uniq:
  "kind \<in> {''sensor'', ''number''} \<Longrightarrow> kind' \<in> {''sensor'', ''number''} \<Longrightarrow> config_topic cfg kind u = config_topic cfg kind' u' \<Longrightarrow> u = u'"
  by (auto simp: config_topic_def)

lemma announces_trans: "announces st st" "announces s t \<Longrightarrow> announces t u \<Longrightarrow> announces s u"
  by (auto simp: announces_def)

lemma announces_keep:
  "out_cfg st' = out_cfg st \<Longrightarrow> out_announced st' = out_announced st \<Longrightarrow> retained st' = retained st \<Longrightarrow> announces st st'"
  by (simp add: announces_def announced_once_def)

lemma announces_send: "announces st (send topic payload qos False st)"
  by (rule announces_keep) (simp_all add: send_def retained_def)

lemma announce_once_announces:
  assumes "kind \<in> {''sensor'', ''number''}"
  shows "announces st (announce_once kind uniq config st)"
proof (cases "List.member (out_announced st) uniq")
  case False
  let ?st = "announce_once kind uniq config st"
  have st: "retained ?st = retained st @ [\<lparr>mm_topic = config_topic (out_cfg st) kind uniq, mm_payload = config, mm_qos = 1, mm_retain = True\<rparr>]"
      "out_announced ?st = out_announced st @ [uniq]" "out_cfg ?st = out_cfg st"
    using False by (simp_all add: announce_once_def retained_def send_def config_topic_def)
  have "announced_once ?st" if once: "announced_once st"
  proof -
    have "config_topic (out_cfg st) kind uniq \<noteq> mm_topic m" if m: "m \<in> set (retained st)" for m
    proof
      assume eq: "config_topic (out_cfg st) kind uniq = mm_topic m"
      obtain kind' u where "kind' \<in> {''sensor'', ''number''}" "u \<in> set (out_announced st)" "mm_topic m = config_topic (out_cfg st) kind' u"
        using once m unfolding announced_once_def by blast
      then have "uniq \<in> set (out_announced st)"
        using eq assms config_topic_uniq by metis
      then show False
        using False by (simp add: List.member_iff)
    qed
    then have "config_topic (out_cfg st) kind uniq \<notin> mm_topic ` set (retained st)"
      by blast
    then show ?thesis
      using once assms unfolding announced_once_def st by auto
  qed
  then show ?thesis
    by (simp add: announces_def st)
qed (simp add: announce_once_def announces_trans)

interpretation ann: publishing announces
proof
  show "announces st (post_influx_v1 body st)" for body st
    by (rule announces_keep) (simp_all add: post_influx_v1_def Let_def retained_def)
  show "announces st (st\<lparr>out_posts := ps\<rparr>)" for ps st
    by (rule announces_keep) (simp_all add: retained_def)
qed (auto intro: announces_trans announces_send announce_once_announces)

lemma outputs_write_announces: "transits announces (outputs_write hour ts ok decoded raw)"
proof -
  have "announces st (st\<lparr>out_maria := m\<rparr>)" for st m
    by (rule announces_keep) (simp_all add: retained_def)
  then show ?thesis
    unfolding outputs_write_def
    by (auto intro!: ann.intros ann.modify ann.influx ann.mqtt ann.refl)
qed

text \<open>Writes in a row; between them the stored settings may change.\<close>

definition write_all :: "(database \<times> string \<times> int \<times> bool \<times> fields \<times> (int \<times> int) list) list \<Rightarrow> outputs \<Rightarrow> outputs" where
  "write_all steps st = foldl (\<lambda>st (settings, hour, ts_ns, v2_ok, decoded, raw).
     snd (outputs_write hour ts_ns v2_ok decoded raw (st\<lparr>out_settings := settings\<rparr>))) st steps"

lemma write_all_announces: "announces st (write_all steps st)"
proof -
  have "announces st (snd (outputs_write hour ts ok decoded raw (st\<lparr>out_settings := settings\<rparr>)))" for st hour ts ok decoded raw settings
  proof -
    have "announces st (st\<lparr>out_settings := settings\<rparr>)"
      by (rule announces_keep) (simp_all add: retained_def)
    then show ?thesis
      using ann.trans outputs_write_announces unfolding transits_def by blast
  qed
  then show ?thesis
    unfolding write_all_def by (auto intro!: ann.loop)
qed

text \<open>C24: whatever is written and however writes fail, no discovery message is retained twice: the topics
  of the retained messages are distinct, each is the configuration topic of a sensor or a number that is
  remembered as announced, and it is sent with quality of service 1.\<close>

theorem discovery_once:
  "let st = write_all steps (new_outputs cfg faults settings influx_ok mqtt_ok); sent = filter mm_retain (out_published st) in
     distinct (map mm_topic sent)
   \<and> list_all (\<lambda>m. mm_qos m = 1 \<and> (\<exists>kind uniq. (kind = ''sensor'' \<or> kind = ''number'') \<and> List.member (out_announced st) uniq
       \<and> mm_topic m = out_text cfg ''mqtt_ha_prefix'' @ ''/'' @ kind @ ''/'' @ uniq @ ''/config'')) sent"
proof -
  let ?st = "new_outputs cfg faults settings influx_ok mqtt_ok"
  have "announced_once ?st" "out_cfg ?st = cfg"
    by (simp_all add: new_outputs_def announced_once_def retained_def)
  then have "announced_once (write_all steps ?st)" "out_cfg (write_all steps ?st) = cfg"
    using write_all_announces [of ?st steps] by (simp_all add: announces_def)
  then show ?thesis
    unfolding Let_def announced_once_def retained_def list_all_iff config_topic_def List.member_iff by fastforce
qed

end
