(* ===== verification/Api_Holding.thy ===== *)
theory Api_Holding
  imports Link_Facts Capabilities Configuration Quick_Charge
begin

text \<open>
  The endpoints of \<^verbatim>\<open>src/api/__init__.py\<close> that reach the inverter: reading and writing holding registers
  over the shared dongle connection, and quick charge.  An endpoint returns a reply, or the status code
  and detail of an \<^verbatim>\<open>HTTPException\<close>; any other exception stays one (the framework answers 500).  The
  connection is a transactor \<^verbatim>\<open>tr\<close> on a state of its own; waiting between attempts does nothing here.
\<close>

datatype 'a reply = Reply 'a | Failure int string

subsection \<open>Where the dongle is\<close>

text \<open>One setting from the database: none when there is no row or the database cannot be read.\<close>

definition db_setting :: "database \<Rightarrow> string \<Rightarrow> string option" where
  "db_setting db name = (case db of Unreadable \<Rightarrow> None | Readable rows \<Rightarrow> map_of rows name)"

text \<open>\<^verbatim>\<open>a or b or c\<close> on texts that may be missing.\<close>

fun first_text :: "string option list \<Rightarrow> string \<Rightarrow> string" where
  "first_text [] fallback = fallback"
| "first_text (Some (c # s) # rest) fallback = c # s"
| "first_text (_ # rest) fallback = first_text rest fallback"

record dongle_params =
  dp_host :: string
  dp_port :: int
  dp_datalog :: string
  dp_inverter :: string

definition resolve_dongle :: "environment \<Rightarrow> database \<Rightarrow> dongle_params result" where
  "resolve_dongle env db =
    (let host = first_text [db_setting db ''dongle_host'', env ''LUX_DONGLE_HOST''] ''192.168.1.100'';
         port = first_text [db_setting db ''dongle_port'', env ''LUX_DONGLE_PORT''] ''8000'';
         datalog = first_text [db_setting db ''datalog_serial'', env ''LUX_DATALOG_SERIAL''] [];
         inverter = first_text [db_setting db ''inverter_serial'', env ''LUX_INVERTER_SERIAL''] []
     in case parse_int port of
          None \<Rightarrow> Inl ValueError
        | Some n \<Rightarrow> Inr \<lparr>dp_host = host, dp_port = n, dp_datalog = datalog, dp_inverter = inverter\<rparr>)"

definition api_resolve_model :: "environment \<Rightarrow> database \<Rightarrow> string" where
  "api_resolve_model env db = first_text [env ''LUX_INVERTER_MODEL'', db_setting db ''inverter_model''] DEFAULT_MODEL"

definition holding_registers_for_model :: "environment \<Rightarrow> database \<Rightarrow> (int \<times> holding_meta) list" where
  "holding_registers_for_model env db = filter_holding_registers HOLDING_REGISTERS (api_resolve_model env db)"

text \<open>The common beginning: no serial numbers, no request.\<close>

definition with_dongle :: "environment \<Rightarrow> database \<Rightarrow> (dongle_params \<Rightarrow> ('s, 'a reply) op) \<Rightarrow> ('s, 'a reply) op" where
  "with_dongle env db act =
    bindS (liftS (resolve_dongle env db)) (\<lambda>d.
    if dp_datalog d = [] \<or> dp_inverter d = []
    then returnS (Failure 400 ''datalog_serial / inverter_serial not configured'') else act d)"

text \<open>The shared connection to the dongle of these parameters.\<close>

definition api_link :: "'w peer \<Rightarrow> nat \<Rightarrow> dongle_params \<Rightarrow> 'w shared transact_op" where
  "api_link p timeout d = link_transact p (dp_host d, dp_port d, dp_datalog d, dp_inverter d) timeout"

subsection \<open>Reading\<close>

definition block_match :: "int \<Rightarrow> frame \<Rightarrow> bool" where
  "block_match start f \<longleftrightarrow> f_is_error f \<or> (is_read_hold f \<and> f_register f = start)"

fun numbered :: "int \<Rightarrow> int list \<Rightarrow> (int \<times> int) list" where
  "numbered start [] = []"
| "numbered start (v # vs) = (start, v) # numbered (start + 1) vs"

definition read_holding_block :: "'s transact_op \<Rightarrow> string \<Rightarrow> string \<Rightarrow> int \<Rightarrow> int \<Rightarrow> ('s, bool \<times> (int \<times> int) list \<times> string) op" where
  "read_holding_block tr ds isn start count =
    bindS (liftS (build_read_request ds isn MODBUS_READ_HOLD start count)) (\<lambda>req.
    bindS (tr req (block_match start)) (\<lambda>frame. case frame of
      None \<Rightarrow> returnS (False, [], ''No valid holding-register response for '' @ int_str start @ ''/'' @ int_str count)
    | Some f \<Rightarrow>
        if f_is_error f then returnS (False, [], ''Modbus error response: code '' @ int_str (f_error_code f))
        else returnS (True, numbered start (f_values f), ''ok'')))"

definition holding_batches :: "(int \<times> int) list" where
  "holding_batches = [(0, 40), (40, 40), (80, 40), (120, 40), (160, 40), (200, 40), (240, 22)]"

text \<open>A batch is tried four times and then skipped.\<close>

fun block_attempts :: "nat \<Rightarrow> ('s, bool \<times> (int \<times> int) list \<times> string) op \<Rightarrow> ('s, (int \<times> int) list) op" where
  "block_attempts 0 rd = returnS []"
| "block_attempts (Suc n) rd = bindS rd (\<lambda>(ok, block, _). if ok then returnS block else block_attempts n rd)"

fun read_batches :: "'s transact_op \<Rightarrow> string \<Rightarrow> string \<Rightarrow> (int \<times> int) list \<Rightarrow> (int \<times> int) list \<Rightarrow> ('s, (int \<times> int) list) op" where
  "read_batches tr ds isn [] raw = returnS raw"
| "read_batches tr ds isn ((start, count) # batches) raw =
    bindS (block_attempts 4 (read_holding_block tr ds isn start count)) (\<lambda>block.
    read_batches tr ds isn batches (update_all raw block))"

definition read_all_holding_registers :: "'s transact_op \<Rightarrow> dongle_params \<Rightarrow> ('s, (int \<times> int) list) op" where
  "read_all_holding_registers tr d = read_batches tr (dp_datalog d) (dp_inverter d) holding_batches []"

record holding_entry =
  he_name :: string
  he_address :: int
  he_raw :: int
  he_meta :: holding_meta

definition entry_of :: "int \<Rightarrow> holding_meta \<Rightarrow> int \<Rightarrow> holding_entry" where
  "entry_of reg info raw = \<lparr>he_name = hm_name info, he_address = reg, he_raw = raw, he_meta = info\<rparr>"

definition api_holding_list :: "(dongle_params \<Rightarrow> 's transact_op) \<Rightarrow> environment \<Rightarrow> database \<Rightarrow> ('s, holding_entry list reply) op" where
  "api_holding_list tr env db = with_dongle env db (\<lambda>d.
    bindS (read_all_holding_registers (tr d) d) (\<lambda>raw.
    returnS (Reply (concat (map (\<lambda>(reg, info). case map_of raw reg of None \<Rightarrow> [] | Some v \<Rightarrow> [entry_of reg info v])
      (sort_key fst (holding_registers_for_model env db)))))))"

text \<open>The register of a name, if the model has it.\<close>

definition named_register :: "environment \<Rightarrow> database \<Rightarrow> string \<Rightarrow> (int \<times> holding_meta) reply" where
  "named_register env db name = (case map_of HOLDING_BY_NAME name of
     None \<Rightarrow> Failure 404 (''Unknown holding register: '' @ name)
   | Some reg \<Rightarrow> (case map_of (holding_registers_for_model env db) reg of
       None \<Rightarrow> Failure 404 (''Register '' @ name @ '' not supported by this inverter model'')
     | Some info \<Rightarrow> Reply (reg, info)))"

definition api_holding_get :: "(dongle_params \<Rightarrow> 's transact_op) \<Rightarrow> environment \<Rightarrow> database \<Rightarrow> string \<Rightarrow> ('s, holding_entry reply) op" where
  "api_holding_get tr env db name = (case named_register env db name of
     Failure code detail \<Rightarrow> returnS (Failure code detail)
   | Reply (reg, info) \<Rightarrow> with_dongle env db (\<lambda>d.
       bindS (read_holding_block (tr d) (dp_datalog d) (dp_inverter d) reg 1) (\<lambda>(ok, raw, msg).
       case (if ok then map_of raw reg else None) of
         None \<Rightarrow> returnS (Failure 502 (''Failed to read '' @ name @ '': '' @ msg))
       | Some v \<Rightarrow> returnS (Reply (entry_of reg info v)))))"

subsection \<open>Writing\<close>

text \<open>The bounds of the table, on raw values.\<close>

definition out_of_bounds :: "string \<Rightarrow> holding_meta \<Rightarrow> int \<Rightarrow> string option" where
  "out_of_bounds name info raw = (case hm_min info of
     Some lo \<Rightarrow> if raw < lo then Some (name @ '' raw '' @ int_str raw @ '' below minimum '' @ int_str lo)
       else (case hm_max info of Some hi \<Rightarrow> if hi < raw then Some (name @ '' raw '' @ int_str raw @ '' above maximum '' @ int_str hi) else None | None \<Rightarrow> None)
   | None \<Rightarrow> (case hm_max info of Some hi \<Rightarrow> if hi < raw then Some (name @ '' raw '' @ int_str raw @ '' above maximum '' @ int_str hi) else None | None \<Rightarrow> None))"

definition update_raw :: "string \<Rightarrow> holding_meta \<Rightarrow> pyfloat option \<Rightarrow> int option \<Rightarrow> int reply" where
  "update_raw name info value_body raw_body = (case (raw_body, value_body) of
     (Some _, Some _) \<Rightarrow> Failure 400 ''Specify either `value` or `raw`, not both''
   | (None, None) \<Rightarrow> Failure 400 ''Specify `value` or `raw`''
   | (Some raw, None) \<Rightarrow> Reply raw
   | (None, Some v) \<Rightarrow> (case engineering_to_raw v info of
       None \<Rightarrow> Failure 400 (''Could not convert value '' @ float_repr v @ '' for '' @ name)
     | Some raw \<Rightarrow> Reply raw))"

fun write_attempts :: "nat \<Rightarrow> ('s, bool \<times> string) op \<Rightarrow> string \<Rightarrow> ('s, bool \<times> string) op" where
  "write_attempts 0 wr msg = returnS (False, msg)"
| "write_attempts (Suc n) wr msg = bindS wr (\<lambda>(ok, msg). if ok then returnS (True, msg) else write_attempts n wr msg)"

record write_reply =
  wr_name :: string
  wr_address :: int
  wr_raw :: int
  wr_message :: string

definition put_register :: "'s transact_op \<Rightarrow> string \<Rightarrow> string \<Rightarrow> string \<Rightarrow> int \<Rightarrow> int \<Rightarrow> ('s, write_reply reply) op" where
  "put_register tr ds isn name reg raw =
    bindS (write_attempts 4 (write_holding_register tr ds isn reg raw) []) (\<lambda>(ok, msg).
    if \<not> ok then returnS (Failure 502 (''Failed to write '' @ name @ '': '' @ msg))
    else
    bindS (verify_reads 4 (read_holding_register tr ds isn reg) raw) (\<lambda>verified.
    if \<not> verified then returnS (Failure 502 (''Write to '' @ name @ '' not confirmed on inverter (echoed but read-back mismatch)''))
    else returnS (Reply \<lparr>wr_name = name, wr_address = reg, wr_raw = raw, wr_message = msg\<rparr>)))"

definition api_holding_put :: "(dongle_params \<Rightarrow> 's transact_op) \<Rightarrow> environment \<Rightarrow> database \<Rightarrow> string \<Rightarrow> pyfloat option \<Rightarrow> int option
    \<Rightarrow> ('s, write_reply reply) op" where
  "api_holding_put tr env db name value_body raw_body = (case named_register env db name of
     Failure code detail \<Rightarrow> returnS (Failure code detail)
   | Reply (reg, info) \<Rightarrow> (case update_raw name info value_body raw_body of
       Failure code detail \<Rightarrow> returnS (Failure code detail)
     | Reply raw \<Rightarrow> (case out_of_bounds name info raw of
         Some detail \<Rightarrow> returnS (Failure 400 detail)
       | None \<Rightarrow> with_dongle env db (\<lambda>d. put_register (tr d) (dp_datalog d) (dp_inverter d) name reg raw))))"

text \<open>Several registers in a row.  The body is validated before the endpoint runs.\<close>

definition multi_body_valid :: "int list \<Rightarrow> bool" where
  "multi_body_valid vs \<longleftrightarrow> vs \<noteq> [] \<and> length vs \<le> 123 \<and> list_all (\<lambda>v. 0 \<le> v \<and> v \<le> 0xFFFF) vs"

fun check_multi :: "(int \<times> holding_meta) list \<Rightarrow> int \<Rightarrow> int list \<Rightarrow> unit reply" where
  "check_multi supported reg [] = Reply ()"
| "check_multi supported reg (raw # vs) = (case map_of HOLDING_REGISTERS reg of
     None \<Rightarrow> Failure 404 (''Unknown holding register address: '' @ int_str reg)
   | Some info \<Rightarrow>
      if map_of supported reg = None then Failure 404 (''Register address '' @ int_str reg @ '' not supported by this inverter model'')
      else (case out_of_bounds (''address '' @ int_str reg) info raw of
          Some detail \<Rightarrow> Failure 400 detail
        | None \<Rightarrow> check_multi supported (reg + 1) vs))"

record multi_reply =
  mr_start_name :: string
  mr_start_address :: int
  mr_count :: nat
  mr_message :: string

definition api_holding_multi_write :: "(dongle_params \<Rightarrow> 's transact_op) \<Rightarrow> environment \<Rightarrow> database \<Rightarrow> string \<Rightarrow> int list
    \<Rightarrow> ('s, multi_reply reply) op" where
  "api_holding_multi_write tr env db start_name vs =
    (if \<not> multi_body_valid vs then returnS (Failure 422 ''values'')
     else case map_of HOLDING_BY_NAME start_name of
       None \<Rightarrow> returnS (Failure 404 (''Unknown holding register: '' @ start_name))
     | Some reg \<Rightarrow>
        let supported = holding_registers_for_model env db in
        if map_of supported reg = None then returnS (Failure 404 (''Register '' @ start_name @ '' not supported by this inverter model''))
        else (case check_multi supported reg vs of
            Failure code detail \<Rightarrow> returnS (Failure code detail)
          | Reply _ \<Rightarrow> with_dongle env db (\<lambda>d.
              bindS (write_holding_registers (tr d) (dp_datalog d) (dp_inverter d) reg vs) (\<lambda>(ok, msg).
              if \<not> ok then returnS (Failure 502 (''Failed to write block starting at '' @ start_name @ '': '' @ msg))
              else returnS (Reply \<lparr>mr_start_name = start_name, mr_start_address = reg, mr_count = length vs, mr_message = msg\<rparr>)))))"

subsection \<open>Quick charge\<close>

text \<open>A result that is not ok becomes status 500.\<close>

definition qc_reply :: "qc_result \<Rightarrow> qc_result reply" where
  "qc_reply r = (case r of QcError msg \<Rightarrow> Failure 500 msg | _ \<Rightarrow> Reply r)"

definition api_quick_charge_start :: "(dongle_params \<Rightarrow> 's transact_op) \<Rightarrow> environment \<Rightarrow> database \<Rightarrow> int option \<Rightarrow> bool \<Rightarrow> pyfloat \<Rightarrow> string
    \<Rightarrow> ('s qc, qc_result reply) op" where
  "api_quick_charge_start tr env db minutes dry_run now started_at = with_dongle env db (\<lambda>d.
    bindS (qc_start (tr d) (dp_datalog d) (dp_inverter d) minutes dry_run now started_at) (\<lambda>r.
    returnS (qc_reply r)))"

definition api_quick_charge_stop :: "(dongle_params \<Rightarrow> 's transact_op) \<Rightarrow> environment \<Rightarrow> database \<Rightarrow> bool \<Rightarrow> ('s qc, qc_result reply) op" where
  "api_quick_charge_stop tr env db dry_run = with_dongle env db (\<lambda>d.
    bindS (qc_stop (tr d) (dp_datalog d) (dp_inverter d) dry_run) (\<lambda>r.
    returnS (qc_reply r)))"


subsection \<open>Metadata of the registers\<close>

record register_info =
  ri_address :: int
  ri_label :: string
  ri_min :: "json option"
  ri_max :: "json option"
  ri_step :: json
  ri_meta :: holding_meta

text \<open>The bounds in engineering units; times stay encoded.\<close>

definition to_eng :: "holding_meta \<Rightarrow> int option \<Rightarrow> json option" where
  "to_eng info raw = map_option (\<lambda>v. if hm_unit info = ''time'' then JInt v else JFloat (dbl (of_int v) * hm_scale info)) raw"

definition api_holding_controllable :: "environment \<Rightarrow> database \<Rightarrow> (string \<times> register_info) list result" where
  "api_holding_controllable env db =
    foldE (\<lambda>m (reg, info). bindE (holding_label (hm_name info)) (\<lambda>label. Inr (AList.update (hm_name info)
        \<lparr>ri_address = reg, ri_label = label, ri_min = to_eng info (hm_min info), ri_max = to_eng info (hm_max info),
         ri_step = (if hm_scale info < Fin 1 then JFloat (hm_scale info) else JInt 1), ri_meta = info\<rparr> m)))
      [] (sort_key fst (holding_registers_for_model env db))"

definition api_automation_registers :: "environment \<Rightarrow> database \<Rightarrow> (int \<times> string \<times> holding_meta) list result" where
  "api_automation_registers env db = mapE (\<lambda>(reg, info). bindE (holding_label (hm_name info)) (\<lambda>label. Inr (reg, label, info)))
     (sort_key fst (holding_registers_for_model env db))"

end
