(* ===== verification/Api_Holding_Facts.thy ===== *)
theory Api_Holding_Facts
  imports Api_Holding Units
begin

text \<open>
  What the endpoints for holding registers guarantee: what they put on the wire whatever the peer does,
  and what they do over a link to an inverter that obeys the protocol.
\<close>

subsection \<open>Registers of a model\<close>

definition supported_by :: "environment \<Rightarrow> database \<Rightarrow> string \<Rightarrow> int \<Rightarrow> holding_meta \<Rightarrow> bool" where
  "supported_by env db name reg info \<longleftrightarrow> map_of HOLDING_BY_NAME name = Some reg \<and> map_of HOLDING_REGISTERS reg = Some info
     \<and> set (hm_caps info) \<subseteq> set (capabilities_for (api_resolve_model env db))"

lemma supported_lookup: "map_of (holding_registers_for_model env db) reg = Some info \<longleftrightarrow>
    map_of HOLDING_REGISTERS reg = Some info \<and> set (hm_caps info) \<subseteq> set (capabilities_for (api_resolve_model env db))"
  unfolding holding_registers_for_model_def filter_lookup [OF distinct_HOLDING_REGISTERS]
  by (auto split: option.split)

lemma named_register_Reply: "named_register env db name = Reply (reg, info) \<longleftrightarrow> supported_by env db name reg info"
proof (cases "map_of HOLDING_BY_NAME name")
  case (Some r)
  show ?thesis
  proof (cases "map_of (holding_registers_for_model env db) r")
    case None
    then have "\<not> (map_of HOLDING_REGISTERS r = Some info \<and> set (hm_caps info) \<subseteq> set (capabilities_for (api_resolve_model env db)))"
      using supported_lookup [of env db r info] by simp
    then show ?thesis
      using Some None by (auto simp: named_register_def supported_by_def)
  next
    case i: (Some i)
    then have "map_of HOLDING_REGISTERS r = Some i \<and> set (hm_caps i) \<subseteq> set (capabilities_for (api_resolve_model env db))"
      by (rule supported_lookup [THEN iffD1])
    then show ?thesis
      using Some i by (auto simp: named_register_def supported_by_def)
  qed
qed (simp add: named_register_def supported_by_def)

lemma supported_range: "supported_by env db name reg info \<Longrightarrow> 0 \<le> reg \<and> reg \<le> 723"
  unfolding supported_by_def using holding_row(3,4) by fastforce

definition within_bounds :: "holding_meta \<Rightarrow> int \<Rightarrow> bool" where
  "within_bounds info raw \<longleftrightarrow> (\<forall>lo. hm_min info = Some lo \<longrightarrow> lo \<le> raw) \<and> (\<forall>hi. hm_max info = Some hi \<longrightarrow> raw \<le> hi)"

lemma out_of_bounds_None: "out_of_bounds name info raw = None \<longleftrightarrow> within_bounds info raw"
  by (auto simp: out_of_bounds_def within_bounds_def split: option.split)

subsection \<open>On the wire\<close>

text \<open>What a write of one register may send.\<close>

definition register_packets :: "dongle_params \<Rightarrow> int \<Rightarrow> int \<Rightarrow> bytes set" where
  "register_packets d reg raw = {read_request (dp_datalog d) (dp_inverter d) reg, write_request (dp_datalog d) (dp_inverter d) reg raw}"

context logged_transactor
begin

lemma write_attempts_sends: "transits (sends sent P) wr \<Longrightarrow> transits (sends sent P) (write_attempts n wr msg)"
  by (induction n arbitrary: msg) (auto intro!: sends.bindS sends.returnS)

lemma put_register_sends:
  "transits (sends sent {read_request ds isn reg, write_request ds isn reg raw}) (put_register tr ds isn name reg raw)"
  unfolding put_register_def
  by (auto intro!: sends.bindS sends.returnS write_attempts_sends write_sends verify_reads_transits read_sends)

end

context transactor
begin

lemma put_register_Reply:
  assumes "put_register tr ds isn name reg raw s = (Inr (Reply w), s')"
  shows "wr_raw w = raw \<and> wr_address w = reg \<and> wr_name w = name \<and> (\<exists>s1 f.
    tr (read_request ds isn reg) (read_match reg) s1 = (Inr (Some f), s')
    \<and> \<not> f_is_error f \<and> is_read_hold f \<and> f_register f = reg \<and> hd (f_values f) = raw)"
proof -
  obtain s1 where v: "verify_reads 4 (read_holding_register tr ds isn reg) raw s1 = (Inr True, s')"
    and w: "wr_raw w = raw" "wr_address w = reg" "wr_name w = name"
    using assms by (auto simp: put_register_def bindS_eq_Inr returnS_def split: if_splits)
  obtain s2 msg where "read_holding_register tr ds isn reg s2 = (Inr (True, Some raw, msg), s')"
    using verify_reads_True [OF v] by blast
  from read_result [OF this] show ?thesis
    using w by auto
qed

end

text \<open>The raw value that a body stands for.\<close>

lemma update_raw_Reply:
  "update_raw name info vb rb = Reply raw \<Longrightarrow>
     case rb of Some v \<Rightarrow> raw = v | None \<Rightarrow> \<exists>v. vb = Some v \<and> engineering_to_raw v info = Some raw"
  by (auto simp: update_raw_def split: option.splits if_splits)

lemma holding_put_cases:
  obtains (refused) code detail where "api_holding_put tr env db name vb rb = returnS (Failure code detail)"
  | (allowed) reg info raw where "supported_by env db name reg info" "within_bounds info raw"
      "update_raw name info vb rb = Reply raw"
      "api_holding_put tr env db name vb rb = with_dongle env db (\<lambda>d. put_register (tr d) (dp_datalog d) (dp_inverter d) name reg raw)"
proof (cases "named_register env db name")
  case (Reply r)
  obtain reg info where r: "r = (reg, info)"
    by fastforce
  show ?thesis
  proof (cases "update_raw name info vb rb")
    case u: (Reply raw)
    show ?thesis
    proof (cases "out_of_bounds name info raw")
      case None
      show ?thesis
      proof (rule allowed)
        show "supported_by env db name reg info"
          using Reply r by (simp add: named_register_Reply)
        show "within_bounds info raw"
          using None by (simp add: out_of_bounds_None)
        show "update_raw name info vb rb = Reply raw"
          by (rule u)
        show "api_holding_put tr env db name vb rb = with_dongle env db (\<lambda>d. put_register (tr d) (dp_datalog d) (dp_inverter d) name reg raw)"
          by (simp add: api_holding_put_def Reply r u None)
      qed
    qed (use Reply r u in \<open>auto simp: api_holding_put_def intro: refused\<close>)
  qed (use Reply r in \<open>auto simp: api_holding_put_def intro: refused\<close>)
qed (auto simp: api_holding_put_def intro: refused)

lemma with_dongle_cases:
  obtains (refused) r where "with_dongle env db act = liftS r" "\<And>w. r \<noteq> Inr (Reply w)"
  | (running) d where "resolve_dongle env db = Inr d" "with_dongle env db act = act d"
proof (cases "resolve_dongle env db")
  case (Inl e)
  show ?thesis
    by (rule refused [of "Inl e"]) (simp_all add: with_dongle_def Inl fun_eq_iff op_defs)
next
  case (Inr d)
  show ?thesis
  proof (cases "dp_datalog d = [] \<or> dp_inverter d = []")
    case True
    show ?thesis
      by (rule refused [of "Inr (Failure 400 ''datalog_serial / inverter_serial not configured'')"])
        (simp_all add: with_dongle_def Inr True fun_eq_iff op_defs)
  qed (use Inr in \<open>auto simp: with_dongle_def intro: running\<close>)
qed

text \<open>C29: whatever the peer does, a PUT of a register sends nothing, or it sends only reads of the named
  register, which the model supports, and writes to it of the value of the request, which lies within its
  bounds: the raw value of the body, or the conversion of the value in the body.  It replies only when the
  last transaction was a read of this very register that returned this very value, and the reply names
  both.\<close>

theorem holding_put_safe:
  assumes "api_holding_put (api_link p timeout) env db name vb rb sh = (r, sh')"
  shows "\<exists>ps. d_sent (sh_dongle sh') = d_sent (sh_dongle sh) @ ps
    \<and> (ps = [] \<and> (\<nexists>w. r = Inr (Reply w))
       \<or> (\<exists>d reg info raw. resolve_dongle env db = Inr d \<and> supported_by env db name reg info \<and> within_bounds info raw
          \<and> (case rb of Some v \<Rightarrow> raw = v | None \<Rightarrow> \<exists>v. vb = Some v \<and> engineering_to_raw v info = Some raw)
          \<and> set ps \<subseteq> {read_request (dp_datalog d) (dp_inverter d) reg, write_request (dp_datalog d) (dp_inverter d) reg raw}
          \<and> (\<forall>w. r = Inr (Reply w) \<longrightarrow> wr_name w = name \<and> wr_address w = reg \<and> wr_raw w = raw
               \<and> (\<exists>s1 f. api_link p timeout d (read_request (dp_datalog d) (dp_inverter d) reg) (read_match reg) s1 = (Inr (Some f), sh')
                    \<and> \<not> f_is_error f \<and> is_read_hold f \<and> f_register f = reg \<and> hd (f_values f) = raw))))"
proof (cases rule: holding_put_cases [of "api_link p timeout" env db name vb rb])
  case (refused code detail)
  then show ?thesis
    using assms by (auto simp: returnS_def)
next
  case (allowed reg info raw)
  have body: "case rb of Some v \<Rightarrow> raw = v | None \<Rightarrow> \<exists>v. vb = Some v \<and> engineering_to_raw v info = Some raw"
    using allowed(3) by (rule update_raw_Reply)
  show ?thesis
  proof (cases rule: with_dongle_cases [of env db "\<lambda>d. put_register (api_link p timeout d) (dp_datalog d) (dp_inverter d) name reg raw"])
    case (refused q)
    then show ?thesis
      using assms allowed by (auto simp: liftS_def)
  next
    case (running d)
    have run: "put_register (api_link p timeout d) (dp_datalog d) (dp_inverter d) name reg raw sh = (r, sh')"
      using assms allowed running by simp
    obtain ps where "d_sent (sh_dongle sh') = d_sent (sh_dongle sh) @ ps"
        "set ps \<subseteq> {read_request (dp_datalog d) (dp_inverter d) reg, write_request (dp_datalog d) (dp_inverter d) reg raw}"
      using transitsD [OF link.put_register_sends run [unfolded api_link_def]] unfolding sends_def by blast
    moreover have "wr_name w = name \<and> wr_address w = reg \<and> wr_raw w = raw
        \<and> (\<exists>s1 f. api_link p timeout d (read_request (dp_datalog d) (dp_inverter d) reg) (read_match reg) s1 = (Inr (Some f), sh')
          \<and> \<not> f_is_error f \<and> is_read_hold f \<and> f_register f = reg \<and> hd (f_values f) = raw)" if "r = Inr (Reply w)" for w
      using link.put_register_Reply [OF run [unfolded that api_link_def]] by (auto simp: api_link_def)
    ultimately show ?thesis
      using allowed(1,2) running(1) body by blast
  qed
qed

subsection \<open>Over a link to an inverter\<close>

text \<open>
  The documented answer to a read of several registers: their contents in order.  A response carries its
  length in one byte, so at most 127 registers are asked for at once.
\<close>

definition honest_block :: "'s transact_op \<Rightarrow> string \<Rightarrow> string \<Rightarrow> ('s \<Rightarrow> int \<Rightarrow> int) \<Rightarrow> bool" where
  "honest_block tr ds isn regs \<longleftrightarrow> (\<forall>s start count. 0 \<le> start \<and> 0 < count \<and> count \<le> 127 \<and> start + count \<le> 65536 \<longrightarrow>
     (\<exists>f s'. tr (block_request ds isn start count) (block_match start) s = (Inr (Some f), s')
        \<and> \<not> f_is_error f \<and> f_values f = map (regs s) [start..start + count - 1] \<and> regs s' = regs s))"

text \<open>The link of the program to the emulated inverter keeps this contract and the one for single registers.\<close>

lemma api_link_honest:
  assumes "0 < t"
  shows "honest_link (api_link inverter_peer t d) ds isn inverter_regs" "honest_block (api_link inverter_peer t d) ds isn inverter_regs"
proof -
  show "honest_link (api_link inverter_peer t d) ds isn inverter_regs"
    unfolding api_link_def by (rule inverter_link_honest [OF assms])
  show "honest_block (api_link inverter_peer t d) ds isn inverter_regs"
    unfolding honest_block_def api_link_def
    by (intro allI impI inverter_block [OF assms]) (simp_all add: block_match_def)
qed

lemma numbered_map: "numbered start vs = zip [start..start + int (length vs) - 1] vs"
proof (induction vs arbitrary: start)
  case (Cons v vs)
  have "[start..start + int (length (v # vs)) - 1] = start # [start + 1..start + 1 + int (length vs) - 1]"
    by (subst upto_rec1) (simp_all add: algebra_simps)
  then show ?case
    using Cons by simp
qed simp

lemma numbered_lookup: "map_of (numbered start (map g [start..start + count - 1])) reg
    = (if start \<le> reg \<and> reg < start + count then Some (g reg) else None)"
proof -
  have "numbered start (map g [start..start + count - 1]) = map (\<lambda>r. (r, g r)) [start..start + count - 1]"
    by (cases "0 \<le> count") (simp_all add: numbered_map zip_map2 zip_same_conv_map o_def)
  then show ?thesis
    by (auto simp: map_of_map_restrict restrict_map_def)
qed

lemma honest_read_block:
  assumes "honest_block tr ds isn regs" "0 \<le> start" "0 < count" "count \<le> 127" "start + count \<le> 65536"
  shows "\<exists>block msg s'. read_holding_block tr ds isn start count s = (Inr (True, block, msg), s')
    \<and> (\<forall>reg. map_of block reg = (if start \<le> reg \<and> reg < start + count then Some (regs s reg) else None))
    \<and> distinct (map fst block) \<and> regs s' = regs s"
proof -
  obtain f s' where f: "tr (block_request ds isn start count) (block_match start) s = (Inr (Some f), s')"
    "\<not> f_is_error f" "f_values f = map (regs s) [start..start + count - 1]" "regs s' = regs s"
    using assms unfolding honest_block_def by blast
  have "build_read_request ds isn MODBUS_READ_HOLD start count = Inr (block_request ds isn start count)"
    using assms(2-) by (simp add: build_read_request_cases block_request_def) (simp add: MODBUS_READ_HOLD_def)
  moreover have "distinct (map fst (numbered start vs))" for vs
    by (simp add: numbered_map)
  ultimately show ?thesis
    using f numbered_lookup [of start "regs s" count] by (simp add: read_holding_block_def op_defs)
qed

lemma read_batches_honest:
  assumes "honest_block tr ds isn regs" "list_all (\<lambda>(start, count). 0 \<le> start \<and> 0 < count \<and> count \<le> 127 \<and> start + count \<le> 65536) batches"
  shows "\<exists>raw' s'. read_batches tr ds isn batches raw s = (Inr raw', s') \<and> regs s' = regs s
    \<and> (\<forall>reg. map_of raw' reg = (if \<exists>(start, count) \<in> set batches. start \<le> reg \<and> reg < start + count then Some (regs s reg) else map_of raw reg))"
  using assms(2)
proof (induction batches arbitrary: raw s)
  case (Cons b batches)
  obtain start count where b: "b = (start, count)"
    by fastforce
  obtain block msg s1 where s1: "read_holding_block tr ds isn start count s = (Inr (True, block, msg), s1)" "regs s1 = regs s"
      "\<And>reg. map_of block reg = (if start \<le> reg \<and> reg < start + count then Some (regs s reg) else None)" "distinct (map fst block)"
    using honest_read_block [OF assms(1), of start count s] Cons.prems b by auto
  have attempt: "block_attempts 4 (read_holding_block tr ds isn start count) s = (Inr block, s1)"
    using s1(1) by (simp add: numeral_eq_Suc op_defs)
  have upd: "map_of (update_all raw block) reg = (if start \<le> reg \<and> reg < start + count then Some (regs s reg) else map_of raw reg)" for reg
    by (simp add: update_all_lookup map_of_rev_distinct [OF s1(4)] s1(3))
  show ?case
    using Cons.IH [of "update_all raw block" s1] Cons.prems b attempt s1(2) by (fastforce simp: bindS_def upd)
qed (simp add: returnS_def)

text \<open>C31: over an inverter that obeys the protocol, the list of registers holds exactly the registers of
  the model with a number below 262, each with the content of its register: the seven-day schedule
  (500 to 723) is never in it, although the models that have it support writing it.\<close>

theorem holding_list_complete:
  assumes "honest_block (tr d) (dp_datalog d) (dp_inverter d) regs" "resolve_dongle env db = Inr d" "dp_datalog d \<noteq> []" "dp_inverter d \<noteq> []"
  shows "\<exists>entries s'. api_holding_list tr env db s = (Inr (Reply entries), s') \<and> regs s' = regs s
    \<and> entries = map (\<lambda>(reg, info). entry_of reg info (regs s reg))
        (filter (\<lambda>(reg, info). reg < 262) (sort_key fst (holding_registers_for_model env db)))
    \<and> (\<forall>name reg info. supported_by env db name reg info \<longrightarrow> (entry_of reg info (regs s reg) \<in> set entries \<longleftrightarrow> reg < 262))"
proof -
  obtain raw s' where s': "read_batches (tr d) (dp_datalog d) (dp_inverter d) holding_batches [] s = (Inr raw, s')" "regs s' = regs s"
    and raw: "\<And>reg. map_of raw reg = (if \<exists>(start, count) \<in> set holding_batches. start \<le> reg \<and> reg < start + count then Some (regs s reg) else None)"
    using read_batches_honest [OF assms(1), of holding_batches "[]" s] by (auto simp: holding_batches_def)
  have raw: "map_of raw reg = (if 0 \<le> reg \<and> reg < 262 then Some (regs s reg) else None)" for reg
    unfolding raw by (auto simp: holding_batches_def)
  define sorted where "sorted = sort_key fst (holding_registers_for_model env db)"
  have nonneg: "0 \<le> reg" if "(reg, info) \<in> set sorted" for reg info
    using that holding_row(3) distinct_HOLDING_REGISTERS
    by (auto simp: sorted_def holding_registers_for_model_def filter_holding_registers_def Let_def intro: map_of_is_SomeI)
  have "concat (map (\<lambda>(reg, info). case map_of raw reg of None \<Rightarrow> [] | Some v \<Rightarrow> [entry_of reg info v]) rows)
      = map (\<lambda>(reg, info). entry_of reg info (regs s reg)) (filter (\<lambda>(reg, info). reg < 262) rows)" if "set rows \<subseteq> set sorted" for rows
    using that
  proof (induction rows)
    case (Cons e rows)
    then show ?case
      using nonneg by (cases e) (auto simp: raw)
  qed simp
  then have "api_holding_list tr env db s = (Inr (Reply (map (\<lambda>(reg, info). entry_of reg info (regs s reg)) (filter (\<lambda>(reg, info). reg < 262) sorted))), s')"
    using s' assms(2-) by (simp add: api_holding_list_def with_dongle_def read_all_holding_registers_def sorted_def op_defs)
  moreover have "(reg, info) \<in> set sorted" if "supported_by env db name reg info" for name reg info
    using that supported_lookup [of env db reg info] by (auto simp: supported_by_def sorted_def dest: map_of_SomeD)
  ultimately show ?thesis
    using s'(2) unfolding sorted_def by (auto simp: entry_of_def image_iff)
qed

text \<open>A write over an obedient link is acknowledged, stored and confirmed.\<close>

lemma put_register_honest:
  assumes "honest_link tr ds isn regs" "0 \<le> reg" "reg < 500" "0 \<le> raw" "raw \<le> 65535"
  shows "\<exists>msg s'. put_register tr ds isn name reg raw s = (Inr (Reply \<lparr>wr_name = name, wr_address = reg, wr_raw = raw, wr_message = msg\<rparr>), s')
    \<and> regs s' = (regs s)(reg := raw)"
proof -
  obtain msg s1 where wr: "write_holding_register tr ds isn reg raw s = (Inr (True, msg), s1)" "regs s1 = (regs s)(reg := raw)"
    using honest_write [OF assms] by blast
  then obtain s2 where "verify_reads 4 (read_holding_register tr ds isn reg) raw s1 = (Inr True, s2)" "regs s2 = regs s1"
    using honest_verify [OF assms(1,2), of s1 raw 3] assms(3) by auto
  then show ?thesis
    using wr by (simp add: put_register_def numeral_eq_Suc op_defs)
qed

lemma holding_put_allowed:
  assumes "supported_by env db name reg info" "within_bounds info raw" "resolve_dongle env db = Inr d" "dp_datalog d \<noteq> []" "dp_inverter d \<noteq> []"
  shows "api_holding_put tr env db name None (Some raw) = put_register (tr d) (dp_datalog d) (dp_inverter d) name reg raw"
proof -
  have "named_register env db name = Reply (reg, info)" "out_of_bounds name info raw = None"
    using assms(1,2) by (simp_all add: named_register_Reply out_of_bounds_None)
  then show ?thesis
    using assms(3-) by (simp add: api_holding_put_def update_raw_def with_dongle_def)
qed

lemma holding_put_get_honest:
  assumes "honest_link (tr d) (dp_datalog d) (dp_inverter d) regs" "honest_block (tr d) (dp_datalog d) (dp_inverter d) regs"
    and "resolve_dongle env db = Inr d" "dp_datalog d \<noteq> []" "dp_inverter d \<noteq> []"
    and "supported_by env db name reg info" "reg < 500" "within_bounds info raw" "0 \<le> raw" "raw \<le> 65535"
  shows "\<exists>msg s1 s2. api_holding_put tr env db name None (Some raw) s
      = (Inr (Reply \<lparr>wr_name = name, wr_address = reg, wr_raw = raw, wr_message = msg\<rparr>), s1)
    \<and> regs s1 = (regs s)(reg := raw)
    \<and> api_holding_get tr env db name s1 = (Inr (Reply (entry_of reg info raw)), s2) \<and> regs s2 = regs s1"
proof -
  have r: "0 \<le> reg" "reg < 500" "(1 :: int) \<le> 127" "reg + 1 \<le> 65536"
    using supported_range [OF assms(6)] assms(7) by simp_all
  obtain msg s1 where put: "put_register (tr d) (dp_datalog d) (dp_inverter d) name reg raw s
      = (Inr (Reply \<lparr>wr_name = name, wr_address = reg, wr_raw = raw, wr_message = msg\<rparr>), s1)" "regs s1 = (regs s)(reg := raw)"
    using put_register_honest [OF assms(1) r(1,2) assms(9,10)] by blast
  obtain block m s2 where get: "read_holding_block (tr d) (dp_datalog d) (dp_inverter d) reg 1 s1 = (Inr (True, block, m), s2)"
      "map_of block reg = Some raw" "regs s2 = regs s1"
    using honest_read_block [OF assms(2) r(1) _ r(3,4), of s1] put(2) by auto
  have "named_register env db name = Reply (reg, info)"
    using assms(6) by (simp add: named_register_Reply)
  then show ?thesis
    using put get assms(3-5) holding_put_allowed [OF assms(6,8,3-5), of tr]
    by (auto simp: api_holding_get_def with_dongle_def op_defs)
qed

text \<open>C30: over an inverter that obeys the protocol, a PUT of an admissible raw value to a register of the
  model that takes single writes (all but the schedule, 500 to 723) is the assignment of this register, is confirmed in the reply, and a GET afterwards returns the
  value with the register's description.\<close>

theorem holding_put_get:
  assumes "honest_link (tr d) (dp_datalog d) (dp_inverter d) regs" "honest_block (tr d) (dp_datalog d) (dp_inverter d) regs"
    and "resolve_dongle env db = Inr d" "dp_datalog d \<noteq> []" "dp_inverter d \<noteq> []"
    and "supported_by env db name reg info" "reg < 500" "within_bounds info raw" "0 \<le> raw" "raw \<le> 65535"
  shows "\<exists>msg s1 s2. api_holding_put tr env db name None (Some raw) s
      = (Inr (Reply \<lparr>wr_name = name, wr_address = reg, wr_raw = raw, wr_message = msg\<rparr>), s1)
    \<and> regs s1 = (regs s)(reg := raw)
    \<and> api_holding_get tr env db name s1 = (Inr (Reply (entry_of reg info raw)), s2) \<and> regs s2 = regs s1"
  by (rule holding_put_get_honest [where tr = tr, OF assms])

subsection \<open>Over a link that only echoes\<close>

text \<open>The dongle acknowledges writes but the inverter never gets them.\<close>

definition echo_link :: "'s transact_op \<Rightarrow> string \<Rightarrow> string \<Rightarrow> ('s \<Rightarrow> int \<Rightarrow> int) \<Rightarrow> bool" where
  "echo_link tr ds isn regs \<longleftrightarrow>
     (\<forall>s reg. 0 \<le> reg \<and> reg \<le> 65535 \<longrightarrow>
        (\<exists>f s'. tr (read_request ds isn reg) (read_match reg) s = (Inr (Some f), s')
           \<and> \<not> f_is_error f \<and> f_values f = [regs s reg] \<and> regs s' = regs s))
   \<and> (\<forall>s reg v. 0 \<le> reg \<and> reg \<le> 65535 \<and> 0 \<le> v \<and> v \<le> 65535 \<longrightarrow>
        (\<exists>f s'. tr (write_request ds isn reg v) (write_match MODBUS_WRITE_SINGLE reg) s = (Inr (Some f), s')
           \<and> \<not> f_is_error f \<and> regs s' = regs s))
   \<and> (\<forall>s reg vs req. build_write_multi_request ds isn reg vs = Inr req \<longrightarrow>
        (\<exists>f s'. tr req (write_match MODBUS_WRITE_MULTI reg) s = (Inr (Some f), s') \<and> \<not> f_is_error f \<and> regs s' = regs s))"

lemma echo_read:
  assumes "echo_link tr ds isn regs" "0 \<le> reg" "reg \<le> 65535"
  shows "\<exists>msg s'. read_holding_register tr ds isn reg s = (Inr (True, Some (regs s reg), msg), s') \<and> regs s' = regs s"
proof -
  obtain f s' where "tr (read_request ds isn reg) (read_match reg) s = (Inr (Some f), s')"
    "\<not> f_is_error f" "f_values f = [regs s reg]" "regs s' = regs s"
    using assms unfolding echo_link_def by blast
  then show ?thesis
    using assms(2,3) by (simp add: read_holding_register_def build_read_request_hold op_defs)
qed

lemma echo_verify:
  assumes "echo_link tr ds isn regs" "0 \<le> reg" "reg \<le> 65535" "regs s reg \<noteq> raw"
  shows "\<exists>s'. verify_reads n (read_holding_register tr ds isn reg) raw s = (Inr False, s') \<and> regs s' = regs s"
  using assms(4)
proof (induction n arbitrary: s)
  case (Suc n)
  obtain msg s1 where "read_holding_register tr ds isn reg s = (Inr (True, Some (regs s reg), msg), s1)" "regs s1 = regs s"
    using echo_read [OF assms(1-3)] by blast
  then show ?case
    using Suc.IH [of s1] Suc.prems by (simp add: bindS_def)
qed (simp add: returnS_def)

lemma echo_put:
  assumes "echo_link tr ds isn regs" "0 \<le> reg" "reg \<le> 65535" "0 \<le> raw" "raw \<le> 65535" "regs s reg \<noteq> raw"
  shows "\<exists>detail s'. put_register tr ds isn name reg raw s = (Inr (Failure 502 detail), s') \<and> regs s' = regs s"
proof -
  obtain f s1 where "tr (write_request ds isn reg raw) (write_match MODBUS_WRITE_SINGLE reg) s = (Inr (Some f), s1)"
    "\<not> f_is_error f" "regs s1 = regs s"
    using assms(1-5) unfolding echo_link_def by blast
  then have "\<exists>msg. write_holding_register tr ds isn reg raw s = (Inr (True, msg), s1)" "regs s1 = regs s"
    using assms(2-5) by (auto simp: write_holding_register_def build_write_request_single op_defs)
  then show ?thesis
    using echo_verify [OF assms(1-3), of s1 raw 4] assms(6) by (auto simp: put_register_def numeral_eq_Suc op_defs)
qed

text \<open>When the dongle acknowledges writes that never reach the inverter, a PUT of a new value is
  answered with status 502, but a write of several registers is answered as written, although no
  register has changed.\<close>

lemma echoed_multi_write_accepted:
  assumes "echo_link (tr d) (dp_datalog d) (dp_inverter d) regs"
    and "resolve_dongle env db = Inr d" "dp_datalog d \<noteq> []" "dp_inverter d \<noteq> []"
    and "supported_by env db name reg info" "within_bounds info raw" "0 \<le> raw" "raw \<le> 65535" "regs s reg \<noteq> raw"
    and "multi_body_valid (raw # vs)" "check_multi (holding_registers_for_model env db) reg (raw # vs) = Reply ()"
  shows "\<exists>detail s1 w s2. api_holding_put tr env db name None (Some raw) s = (Inr (Failure 502 detail), s1) \<and> regs s1 = regs s
    \<and> api_holding_multi_write tr env db name (raw # vs) s = (Inr (Reply w), s2) \<and> regs s2 = regs s \<and> mr_count w = length (raw # vs)"
proof -
  have r: "0 \<le> reg" "reg \<le> 65535"
    using supported_range [OF assms(5)] by simp_all
  obtain detail s1 where put: "put_register (tr d) (dp_datalog d) (dp_inverter d) name reg raw s = (Inr (Failure 502 detail), s1)" "regs s1 = regs s"
    using echo_put [OF assms(1) r assms(7-9)] by blast
  obtain req where req: "build_write_multi_request (dp_datalog d) (dp_inverter d) reg (raw # vs) = Inr req"
    using assms(10) r by (simp add: build_write_multi_request_cases multi_body_valid_def u16_list_def)
  then obtain f s2 where "tr d req (write_match MODBUS_WRITE_MULTI reg) s = (Inr (Some f), s2)" "\<not> f_is_error f" "regs s2 = regs s"
    using assms(1) unfolding echo_link_def by blast
  then have "\<exists>msg. write_holding_registers (tr d) (dp_datalog d) (dp_inverter d) reg (raw # vs) s = (Inr (True, msg), s2)" "regs s2 = regs s"
    using req by (auto simp: write_holding_registers_def op_defs)
  moreover have "map_of HOLDING_BY_NAME name = Some reg" "map_of (holding_registers_for_model env db) reg = Some info"
    using assms(5) by (simp_all add: supported_by_def supported_lookup)
  ultimately show ?thesis
    using put holding_put_allowed [OF assms(5,6,2-4), of tr] assms(2-4,10,11)
    by (auto simp: api_holding_multi_write_def with_dongle_def op_defs)
qed

subsection \<open>A link of this kind\<close>

text \<open>Registers behind a link that answers reads at once and only echoes writes.\<close>

definition echo_file :: "(int \<Rightarrow> int) transact_op" where
  "echo_file req match regs = (case parse_frame req of
     Inr (Some f) \<Rightarrow> (Inr (Some (if is_read_hold f then f\<lparr>f_values := [regs (f_register f)]\<rparr> else f)), regs)
   | _ \<Rightarrow> (Inr None, regs))"

lemma echo_file_echoes: "echo_link echo_file ds isn (\<lambda>regs. regs)"
proof -
  have "\<exists>f. echo_file (read_request ds isn reg) (read_match reg) s = (Inr (Some f), s) \<and> \<not> f_is_error f \<and> f_values f = [s reg]"
    if "0 \<le> reg \<and> reg \<le> 65535" for s reg
    using parse_request_packets(1) [of reg 1 ds isn] that
    by (simp add: echo_file_def read_request_block is_read_hold_def MODBUS_READ_HOLD_def data_frame_def new_frame_def)
  moreover have "\<exists>f. echo_file (write_request ds isn reg v) (write_match MODBUS_WRITE_SINGLE reg) s = (Inr (Some f), s)
      \<and> \<not> f_is_error f" if "0 \<le> reg \<and> reg \<le> 65535 \<and> 0 \<le> v \<and> v \<le> 65535" for s reg v
    using parse_request_packets(2) [of reg v ds isn] that
    by (simp add: echo_file_def is_read_hold_def MODBUS_READ_HOLD_def data_frame_def new_frame_def)
  moreover have "\<exists>f. echo_file req (write_match MODBUS_WRITE_MULTI reg) s = (Inr (Some f), s) \<and> \<not> f_is_error f"
    if "build_write_multi_request ds isn reg vs = Inr req" for s reg vs req
  proof (rule parse_write_multi_request [of vs reg ds isn])
    show "vs \<noteq> []" "length vs \<le> 123" "u16_list vs" "0 \<le> reg" "reg \<le> 65535"
      using that by (simp_all add: build_write_multi_request_cases split: if_splits)
    fix pkt
    assume "build_write_multi_request ds isn reg vs = Inr pkt"
      and "parse_frame pkt = Inr (Some (data_frame 1 ds 0 16 isn pkt reg [] (int (length vs))))"
    then show ?thesis
      using that by (simp add: echo_file_def is_read_hold_def MODBUS_READ_HOLD_def data_frame_def new_frame_def)
  qed
  ultimately show ?thesis
    unfolding echo_link_def by fast
qed

text \<open>A configured dongle and a register that every model has.\<close>

definition sample_db :: database where
  "sample_db = Readable [(''dongle_host'', ''10.0.0.9''), (''datalog_serial'', ''BA12345678''), (''inverter_serial'', ''4434567890'')]"

definition sample_dongle :: dongle_params where
  "sample_dongle = \<lparr>dp_host = ''10.0.0.9'', dp_port = 8000, dp_datalog = ''BA12345678'', dp_inverter = ''4434567890''\<rparr>"

lemma sample_resolved: "resolve_dongle Map.empty sample_db = Inr sample_dongle" "dp_datalog sample_dongle \<noteq> []" "dp_inverter sample_dongle \<noteq> []"
  by (simp_all add: resolve_dongle_def db_setting_def sample_db_def sample_dongle_def) code_simp

lemma sample_supported:
  "supported_by env db ''charge_power_percent'' 64 (hmeta ''charge_power_percent'' ''%'' 1 ''Charge power percent'' (Some 0) (Some 100) [])"
proof -
  have "map_of HOLDING_BY_NAME ''charge_power_percent'' = Some 64"
  proof (rule map_of_is_SomeI)
    show "distinct (map fst HOLDING_BY_NAME)"
      using distinct_holding_names by (simp add: HOLDING_BY_NAME_eq comp_def case_prod_unfold)
    show "(''charge_power_percent'', 64) \<in> set HOLDING_BY_NAME"
      using map_of_SomeD [OF map_of_holding_first] by (force simp: HOLDING_BY_NAME_eq)
  qed
  then show ?thesis
    by (simp add: supported_by_def map_of_holding_first)
qed

definition sample_shared :: "inverter_world shared" where
  "sample_shared = \<lparr>sh_key = None, sh_dongle = new_dongle ''BA12345678'' 10 3 \<lparr>iw_regs = (\<lambda>_. 50), iw_pending = []\<rparr>, sh_heartbeat = False\<rparr>"

theorem holding_put_safe_witness:
  "\<exists>w sh'. api_holding_put (api_link inverter_peer 10) Map.empty sample_db ''charge_power_percent'' None (Some 80) sample_shared = (Inr (Reply w), sh')
     \<and> wr_address w = 64 \<and> wr_raw w = 80 \<and> inverter_regs sh' 64 = 80
     \<and> (\<exists>s1 f. api_link inverter_peer 10 sample_dongle (read_request ''BA12345678'' ''4434567890'' 64) (read_match 64) s1 = (Inr (Some f), sh')
          \<and> hd (f_values f) = 80)"
proof -
  have h: "honest_link (api_link inverter_peer 10 sample_dongle) (dp_datalog sample_dongle) (dp_inverter sample_dongle) inverter_regs"
    by (rule api_link_honest) simp
  have b: "within_bounds (hmeta ''charge_power_percent'' ''%'' 1 ''Charge power percent'' (Some 0) (Some 100) []) 80"
    by (simp add: within_bounds_def)
  obtain msg sh' where run: "api_holding_put (api_link inverter_peer 10) Map.empty sample_db ''charge_power_percent'' None (Some 80) sample_shared
      = (Inr (Reply \<lparr>wr_name = ''charge_power_percent'', wr_address = 64, wr_raw = 80, wr_message = msg\<rparr>), sh')"
      "inverter_regs sh' = (inverter_regs sample_shared)(64 := 80)"
    using put_register_honest [OF h, of 64 80 "''charge_power_percent''" sample_shared]
    unfolding holding_put_allowed [OF sample_supported b sample_resolved] by auto
  have "dp_datalog sample_dongle = ''BA12345678''" "dp_inverter sample_dongle = ''4434567890''"
    by (simp_all add: sample_dongle_def)
  then show ?thesis
    using holding_put_safe [OF run(1)] run sample_resolved(1) by auto
qed

text \<open>The charge voltage has scale 0.1, but its bounds are given in volts: 56.0 V is refused.\<close>

lemma charge_voltage_refused:
  "\<exists>info detail. map_of HOLDING_REGISTERS 99 = Some info \<and> hm_scale info = dbl (1 / 10)
     \<and> hm_min info = Some 50 \<and> hm_max info = Some 58 \<and> out_of_bounds name info 560 = Some detail"
  by (simp add: HOLDING_REGISTERS_eq holding_literal_def holding_registers_1_def holding_registers_2_def out_of_bounds_def)

text \<open>The link of the program to an inverter whose registers all hold 50.\<close>

theorem holding_list_complete_witness:
  "\<exists>entries s'. api_holding_list (api_link inverter_peer 10) Map.empty sample_db sample_shared = (Inr (Reply entries), s')
    \<and> entry_of 64 (hmeta ''charge_power_percent'' ''%'' 1 ''Charge power percent'' (Some 0) (Some 100) []) 50 \<in> set entries"
proof -
  have b: "honest_block (api_link inverter_peer 10 sample_dongle) (dp_datalog sample_dongle) (dp_inverter sample_dongle) inverter_regs"
    by (rule api_link_honest) simp
  have "inverter_regs sample_shared 64 = 50"
    by (simp add: inverter_regs_def sample_shared_def new_dongle_def)
  then show ?thesis
    using holding_list_complete [where tr = "api_link inverter_peer 10", OF b sample_resolved, of sample_shared] sample_supported by fastforce
qed

theorem holding_put_get_witness:
  "\<exists>msg s1 s2. api_holding_put (api_link inverter_peer 10) Map.empty sample_db ''charge_power_percent'' None (Some 80) sample_shared
      = (Inr (Reply \<lparr>wr_name = ''charge_power_percent'', wr_address = 64, wr_raw = 80, wr_message = msg\<rparr>), s1)
    \<and> inverter_regs s1 = (inverter_regs sample_shared)(64 := 80)
    \<and> api_holding_get (api_link inverter_peer 10) Map.empty sample_db ''charge_power_percent'' s1
      = (Inr (Reply (entry_of 64 (hmeta ''charge_power_percent'' ''%'' 1 ''Charge power percent'' (Some 0) (Some 100) []) 80)), s2)"
proof -
  have h: "honest_link (api_link inverter_peer 10 sample_dongle) (dp_datalog sample_dongle) (dp_inverter sample_dongle) inverter_regs"
    "honest_block (api_link inverter_peer 10 sample_dongle) (dp_datalog sample_dongle) (dp_inverter sample_dongle) inverter_regs"
    by (rule api_link_honest, simp)+
  have "within_bounds (hmeta ''charge_power_percent'' ''%'' 1 ''Charge power percent'' (Some 0) (Some 100) []) 80"
    by (simp add: within_bounds_def)
  from holding_put_get [where tr = "api_link inverter_peer 10", OF h sample_resolved sample_supported _ this, of sample_shared] show ?thesis
    by auto
qed

end
