(* ===== verification/Calendar.thy ===== *)
theory Calendar
  imports Text
begin

text \<open>
  Dates as Python's \<^verbatim>\<open>datetime\<close> has them: the proleptic Gregorian calendar, ordinals (day 1 is the first
  day of year 1), subtraction of days, ISO weeks and ISO formats.
\<close>

record date =
  dt_year :: int
  dt_month :: int
  dt_day :: int

definition mk_date :: "int \<Rightarrow> int \<Rightarrow> int \<Rightarrow> date" where
  "mk_date y m d = \<lparr>dt_year = y, dt_month = m, dt_day = d\<rparr>"

definition is_leap :: "int \<Rightarrow> bool" where
  "is_leap y \<longleftrightarrow> y mod 4 = 0 \<and> (y mod 100 \<noteq> 0 \<or> y mod 400 = 0)"

definition days_in_month :: "int \<Rightarrow> int \<Rightarrow> int" where
  "days_in_month y m = (if m = 2 then (if is_leap y then 29 else 28)
     else if m = 4 \<or> m = 6 \<or> m = 9 \<or> m = 11 then 30 else 31)"

definition days_in_year :: "int \<Rightarrow> int" where
  "days_in_year y = (if is_leap y then 366 else 365)"

definition days_before_year :: "int \<Rightarrow> int" where
  "days_before_year y = (y - 1) * 365 + (y - 1) div 4 - (y - 1) div 100 + (y - 1) div 400"

definition days_before_month :: "int \<Rightarrow> int \<Rightarrow> int" where
  "days_before_month y m = sum_list (map (days_in_month y) [1..m - 1])"

definition to_ordinal :: "date \<Rightarrow> int" where
  "to_ordinal d = days_before_year (dt_year d) + days_before_month (dt_year d) (dt_month d) + dt_day d"

definition valid_date :: "date \<Rightarrow> bool" where
  "valid_date d \<longleftrightarrow> 1 \<le> dt_year d \<and> 1 \<le> dt_month d \<and> dt_month d \<le> 12 \<and> 1 \<le> dt_day d \<and> dt_day d \<le> days_in_month (dt_year d) (dt_month d)"

text \<open>From an ordinal to the date: the year, then the month that contains the day.\<close>

function month_of :: "int \<Rightarrow> int \<Rightarrow> int \<Rightarrow> date" where
  "month_of y m n = (if m < 12 \<and> days_in_month y m < n then month_of y (m + 1) (n - days_in_month y m) else mk_date y m n)"
  by pat_completeness auto

termination
  by (relation "measure (\<lambda>(y, m, n). nat (12 - m))") auto

function year_of :: "int \<Rightarrow> int \<Rightarrow> date" where
  "year_of y n = (if days_in_year y < n then year_of (y + 1) (n - days_in_year y) else month_of y 1 n)"
  by pat_completeness auto

termination
  by (relation "measure (\<lambda>(y, n). nat n)") (auto simp: days_in_year_def split: if_splits)

declare month_of.simps [simp del] year_of.simps [simp del]

definition from_ordinal :: "int \<Rightarrow> date" where
  "from_ordinal n = year_of 1 n"

text \<open>\<^verbatim>\<open>d - timedelta(days=n)\<close>.\<close>

definition minus_days :: "date \<Rightarrow> int \<Rightarrow> date result" where
  "minus_days d n = (if to_ordinal d - n < 1 then Inl OverflowError else Inr (from_ordinal (to_ordinal d - n)))"

text \<open>ISO weeks: week 1 is the week that contains the first Thursday.\<close>

definition week1_monday :: "int \<Rightarrow> int" where
  "week1_monday y =
    (let first = to_ordinal (mk_date y 1 1); weekday = (first + 6) mod 7 in
     if 3 < weekday then first - weekday + 7 else first - weekday)"

definition iso_week :: "date \<Rightarrow> int \<times> int" where
  "iso_week d =
    (let y = dt_year d; today = to_ordinal d; week = (today - week1_monday y) div 7 in
     if week < 0 then (y - 1, (today - week1_monday (y - 1)) div 7 + 1)
     else if 52 \<le> week \<and> week1_monday (y + 1) \<le> today then (y + 1, 1)
     else (y, week + 1))"

subsection \<open>Formats\<close>

definition padded :: "nat \<Rightarrow> int \<Rightarrow> string" where
  "padded w v = (let s = int_str v in replicate (w - length s) (CHR ''0'') @ s)"

definition iso_date :: "date \<Rightarrow> string" where
  "iso_date d = padded 4 (dt_year d) @ ''-'' @ padded 2 (dt_month d) @ ''-'' @ padded 2 (dt_day d)"

definition iso_month :: "int \<Rightarrow> int \<Rightarrow> string" where
  "iso_month y m = padded 4 y @ ''-'' @ padded 2 m"

definition week_label :: "int \<times> int \<Rightarrow> string" where
  "week_label = (\<lambda>(y, w). int_str y @ ''-W'' @ padded 2 w)"

subsection \<open>Ordinals count the days\<close>

lemma days_in_month_pos: "28 \<le> days_in_month y m" "days_in_month y m \<le> 31"
  by (simp_all add: days_in_month_def)

lemma div_step: "(y :: int) div k - (y - 1) div k = (if y mod k = 0 then 1 else 0)" if "0 < k"
proof -
  have "y = k * (y div k) + y mod k" "0 \<le> y mod k" "y mod k < k"
    using that by simp_all
  show ?thesis
  proof (cases "y mod k = 0")
    case True
    then have "y - 1 = k * (y div k - 1) + (k - 1)"
      using \<open>y = k * (y div k) + y mod k\<close> by (simp add: algebra_simps)
    then have "(y - 1) div k = y div k - 1"
      by (rule int_div_pos_eq) (use that in simp_all)
    with True show ?thesis
      by simp
  next
    case False
    then have "y - 1 = k * (y div k) + (y mod k - 1)" "0 \<le> y mod k - 1" "y mod k - 1 < k"
      using \<open>y = k * (y div k) + y mod k\<close> \<open>0 \<le> y mod k\<close> \<open>y mod k < k\<close> by linarith+
    then have "(y - 1) div k = y div k"
      by (rule int_div_pos_eq)
    with False show ?thesis
      by simp
  qed
qed

lemma days_before_next_year: "days_before_year (y + 1) = days_before_year y + days_in_year y"
proof -
  have d: "100 dvd y \<Longrightarrow> 4 dvd y" "400 dvd y \<Longrightarrow> 100 dvd y"
    using dvd_trans [of 4 100 y] dvd_trans [of 100 400 y] by simp_all
  have m: "y mod 100 = 0 \<Longrightarrow> y mod 4 = 0" "y mod 400 = 0 \<Longrightarrow> y mod 100 = 0"
    by (rule d [unfolded dvd_eq_mod_eq_0], assumption)+
  have "(if a \<and> (\<not> b \<or> c) then 366 else 365) = (365 :: int) + (if a then 1 else 0) - (if b then 1 else 0) + (if c then 1 else 0)"
    if "b \<Longrightarrow> a" "c \<Longrightarrow> b" for a b c
    using that by (cases a; cases b; cases c) simp_all
  from this [OF m]
  have leap: "days_in_year y = 365 + (if y mod 4 = 0 then 1 else 0) - (if y mod 100 = 0 then 1 else 0) + (if y mod 400 = 0 then 1 else 0)"
    unfolding days_in_year_def is_leap_def by simp
  define a b c where "a = y div 4" and "b = y div 100" and "c = y div 400"
  define a' b' c' where "a' = (y - 1) div 4" and "b' = (y - 1) div 100" and "c' = (y - 1) div 400"
  have steps: "a - a' = (if y mod 4 = 0 then 1 else 0)" "b - b' = (if y mod 100 = 0 then 1 else 0)" "c - c' = (if y mod 400 = 0 then 1 else 0)"
    unfolding a_def b_def c_def a'_def b'_def c'_def by (rule div_step; simp only: zero_less_numeral)+
  have "days_in_year y = 365 + (a - a') - (b - b') + (c - c')"
    unfolding leap steps ..
  moreover have "days_before_year (y + 1) = y * 365 + a - b + c" "days_before_year y = (y - 1) * 365 + a' - b' + c'"
    by (simp_all only: days_before_year_def a_def b_def c_def a'_def b'_def c'_def add_diff_cancel_right')
  ultimately show ?thesis
    by (simp add: algebra_simps)
qed

lemma days_before_next_month: "1 \<le> m \<Longrightarrow> days_before_month y (m + 1) = days_before_month y m + days_in_month y m"
  unfolding days_before_month_def by (subst upto_rec2) simp_all

lemma days_before_first [simp]: "days_before_month y 1 = 0" "days_before_year 1 = 0"
  by (simp_all add: days_before_month_def days_before_year_def)

lemma days_of_year: "days_before_month y 12 + 31 = days_in_year y"
proof -
  have "[1..12 - 1] = [1, 2, 3, 4, 5, 6, 7, 8, 9, 10, 11 :: int]"
    by (simp add: upto.simps)
  then show ?thesis
    unfolding days_before_month_def by (simp add: days_in_month_def days_in_year_def)
qed

lemma month_of_ordinal:
  assumes "1 \<le> m" "m \<le> 12" "1 \<le> n" "days_before_month y m + n \<le> days_in_year y"
  shows "dt_year (month_of y m n) = y \<and> to_ordinal (month_of y m n) = days_before_year y + days_before_month y m + n
    \<and> (1 \<le> y \<longrightarrow> valid_date (month_of y m n))"
  using assms
proof (induction y m n rule: month_of.induct)
  case (1 y m n)
  show ?case
  proof (cases "m < 12 \<and> days_in_month y m < n")
    case True
    have "month_of y m n = month_of y (m + 1) (n - days_in_month y m)"
      using True by (subst month_of.simps) simp
    then show ?thesis
      using "1.IH" [OF True] "1.prems" True days_before_next_month [of m y] by simp
  next
    case False
    have "month_of y m n = mk_date y m n"
      using False by (subst month_of.simps) auto
    moreover have "n \<le> days_in_month y m"
      using False "1.prems" days_of_year [of y] by (cases "m = 12") (auto simp: days_in_month_def)
    ultimately show ?thesis
      using "1.prems" by (simp add: to_ordinal_def mk_date_def valid_date_def)
  qed
qed

lemma year_of_ordinal:
  "1 \<le> n \<Longrightarrow> 1 \<le> y \<Longrightarrow> valid_date (year_of y n) \<and> to_ordinal (year_of y n) = days_before_year y + n \<and> y \<le> dt_year (year_of y n)"
proof (induction y n rule: year_of.induct)
  case (1 y n)
  show ?case
  proof (cases "days_in_year y < n")
    case True
    then show ?thesis
      using "1.IH" "1.prems" days_before_next_year [of y] by (subst (1 2 3) year_of.simps) auto
  next
    case False
    then show ?thesis
      using month_of_ordinal [of 1 n y] "1.prems" by (subst (1 2 3) year_of.simps) auto
  qed
qed

lemma from_ordinal: "1 \<le> n \<Longrightarrow> valid_date (from_ordinal n) \<and> to_ordinal (from_ordinal n) = n"
  using year_of_ordinal [of n 1] by (simp add: from_ordinal_def)

text \<open>A date is determined by its ordinal.\<close>

lemma days_before_month_mono: "1 \<le> m \<Longrightarrow> m < m' \<Longrightarrow> days_before_month y m + days_in_month y m \<le> days_before_month y m'"
proof (induction "nat (m' - m)" arbitrary: m')
  case (Suc k)
  show ?case
  proof (cases "m' = m + 1")
    case False
    then have "days_before_month y m + days_in_month y m \<le> days_before_month y (m' - 1)"
      using Suc by (intro Suc.hyps(1)) linarith+
    moreover have "days_before_month y m' = days_before_month y (m' - 1) + days_in_month y (m' - 1)"
      using days_before_next_month [of "m' - 1" y] Suc.prems by simp
    ultimately show ?thesis
      using days_in_month_pos(1) [of y "m' - 1"] by linarith
  qed (use Suc days_before_next_month in simp)
qed simp

lemma day_of_year_bounds: "valid_date d \<Longrightarrow> 1 \<le> days_before_month (dt_year d) (dt_month d) + dt_day d
    \<and> days_before_month (dt_year d) (dt_month d) + dt_day d \<le> days_in_year (dt_year d)"
proof -
  assume v: "valid_date d"
  have "days_before_month (dt_year d) (dt_month d) + days_in_month (dt_year d) (dt_month d) \<le> days_before_month (dt_year d) 12 + 31"
  proof (cases "dt_month d = 12")
    case False
    then show ?thesis
      using v days_before_month_mono [of "dt_month d" 12 "dt_year d"] by (simp add: valid_date_def)
  qed (simp add: days_in_month_def)
  moreover have "0 \<le> days_before_month (dt_year d) (dt_month d)"
    unfolding days_before_month_def by (rule sum_list_nonneg) (auto intro: order_trans [OF _ days_in_month_pos(1)])
  ultimately show ?thesis
    using v days_of_year [of "dt_year d"] by (auto simp: valid_date_def)
qed

lemma days_before_year_mono: "1 \<le> y \<Longrightarrow> y < y' \<Longrightarrow> days_before_year y + days_in_year y \<le> days_before_year y'"
proof (induction "nat (y' - y)" arbitrary: y')
  case (Suc k)
  show ?case
  proof (cases "y' = y + 1")
    case False
    then have "days_before_year y + days_in_year y \<le> days_before_year (y' - 1)"
      using Suc by (intro Suc.hyps(1)) linarith+
    moreover have "days_before_year y' = days_before_year (y' - 1) + days_in_year (y' - 1)"
      using days_before_next_year [of "y' - 1"] by simp
    ultimately show ?thesis
      by (simp add: days_in_year_def split: if_splits)
  qed (use Suc days_before_next_year in simp)
qed simp

lemma to_ordinal_inj:
  assumes "valid_date a" "valid_date b" "to_ordinal a = to_ordinal b"
  shows "a = b"
proof -
  have y: "dt_year a = dt_year b"
    using assms day_of_year_bounds [OF assms(1)] day_of_year_bounds [OF assms(2)]
      days_before_year_mono [of "dt_year a" "dt_year b"] days_before_year_mono [of "dt_year b" "dt_year a"]
    by (cases "dt_year a" "dt_year b" rule: linorder_cases) (auto simp: to_ordinal_def valid_date_def)
  have "dt_month a = dt_month b"
    using assms y days_before_month_mono [of "dt_month a" "dt_month b" "dt_year b"] days_before_month_mono [of "dt_month b" "dt_month a" "dt_year b"]
    by (cases "dt_month a" "dt_month b" rule: linorder_cases) (auto simp: to_ordinal_def valid_date_def)
  then show ?thesis
    using assms(3) y by (intro date.equality) (auto simp: to_ordinal_def)
qed

subsection \<open>Weeks\<close>

text \<open>The label of a week determines its Monday.\<close>

lemma week1_monday_bounds: "to_ordinal (mk_date y 1 1) - 3 \<le> week1_monday y" "week1_monday y \<le> to_ordinal (mk_date y 1 1) + 3"
proof -
  have "0 \<le> (to_ordinal (mk_date y 1 1) + 6) mod 7" "(to_ordinal (mk_date y 1 1) + 6) mod 7 < 7"
    by simp_all
  then show "to_ordinal (mk_date y 1 1) - 3 \<le> week1_monday y" "week1_monday y \<le> to_ordinal (mk_date y 1 1) + 3"
    unfolding week1_monday_def Let_def by (auto split: if_split)
qed

lemma new_year: "to_ordinal (mk_date y 1 1) = days_before_year y + 1"
  by (simp add: to_ordinal_def mk_date_def)

lemma div_7: "7 * (x div 7) \<le> x" "x < 7 * (x div 7) + 7" for x :: int
  by (simp_all add: minus_mod_eq_mult_div [symmetric])

lemma iso_week_monday:
  assumes "valid_date d" "iso_week d = (y, w)"
  shows "week1_monday y + 7 * (w - 1) \<le> to_ordinal d \<and> to_ordinal d < week1_monday y + 7 * w \<and> 1 \<le> w"
proof -
  define y0 where "y0 = dt_year d"
  define today where "today = to_ordinal d"
  define week where "week = (today - week1_monday y0) div 7"
  have year: "days_before_year y0 + 1 \<le> today" "today \<le> days_before_year (y0 + 1)"
    using day_of_year_bounds [OF assms(1)] days_before_next_year [of y0] by (simp_all add: today_def y0_def to_ordinal_def)
  define q where "q = (today - week1_monday (y0 - 1)) div 7"
  have eq: "iso_week d = (if week < 0 then (y0 - 1, q + 1) else if 52 \<le> week \<and> week1_monday (y0 + 1) \<le> today then (y0 + 1, 1) else (y0, week + 1))"
    by (simp only: iso_week_def Let_def week_def today_def y0_def q_def)
  have q: "7 * q \<le> today - week1_monday (y0 - 1)" "today - week1_monday (y0 - 1) < 7 * q + 7"
    unfolding q_def by (rule div_7)+
  have wk: "7 * week \<le> today - week1_monday y0" "today - week1_monday y0 < 7 * week + 7"
    unfolding week_def by (rule div_7)+
  show ?thesis
  proof (cases "week < 0")
    case True
    then have "(y0 - 1, q + 1) = (y, w)"
      using assms(2) unfolding eq by (simp only: if_True)
    then have yw: "y = y0 - 1" "w = q + 1"
      by blast+
    have "week1_monday (y0 - 1) \<le> today"
      using week1_monday_bounds(2) [of "y0 - 1"] new_year [of "y0 - 1"] year(1) days_before_next_year [of "y0 - 1"]
      by (simp add: days_in_year_def split: if_splits)
    then have "0 \<le> q" "week1_monday (y0 - 1) + 7 * q \<le> today" "today < week1_monday (y0 - 1) + 7 * q + 7"
      using q by linarith+
    then show ?thesis
      unfolding today_def [symmetric] yw by (simp add: algebra_simps)
  next
    case no: False
    show ?thesis
    proof (cases "52 \<le> week \<and> week1_monday (y0 + 1) \<le> today")
      case True
      then have "(y0 + 1, 1) = (y, w)"
        using no assms(2) unfolding eq by (simp only: if_True if_False simp_thms)
      then have yw: "y = y0 + 1" "w = 1"
        by blast+
      have "today < week1_monday (y0 + 1) + 7" "week1_monday (y0 + 1) \<le> today"
        using True week1_monday_bounds(1) [of "y0 + 1"] new_year [of "y0 + 1"] year(2) by linarith+
      then show ?thesis
        unfolding today_def [symmetric] yw by simp
    next
      case False
      then have "(y0, week + 1) = (y, w)"
        using no assms(2) unfolding eq by (simp only: if_False simp_thms)
      then have yw: "y = y0" "w = week + 1"
        by blast+
      have "0 \<le> week" "week1_monday y0 + 7 * week \<le> today" "today < week1_monday y0 + 7 * week + 7"
        using no wk by linarith+
      then show ?thesis
        unfolding today_def [symmetric] yw by (simp add: algebra_simps)
    qed
  qed
qed

subsection \<open>Labels are distinct\<close>

definition digits_value :: "string \<Rightarrow> nat" where
  "digits_value s = foldl (\<lambda>a c. 10 * a + digit_val c) 0 s"

lemma digits_value_padding: "digits_value (replicate k (CHR ''0'') @ s) = digits_value s"
proof -
  have "foldl (\<lambda>a c. 10 * a + digit_val c) 0 (replicate k (CHR ''0'')) = 0"
    by (induction k) (simp_all add: digit_val_def char_code_def)
  then show ?thesis
    by (simp add: digits_value_def)
qed

lemma padded_value: "0 \<le> v \<Longrightarrow> digits_value (padded w v) = nat v"
  using nat_str_digits [of "nat v"] by (simp add: padded_def Let_def digits_value_padding int_str_def) (simp add: digits_value_def)

lemma padded_digits: "0 \<le> v \<Longrightarrow> list_all is_digit (padded w v)"
proof -
  assume "0 \<le> v"
  have "list_all is_digit (replicate k (CHR ''0''))" for k
    by (induction k) (simp_all add: is_digit_def char_code_def)
  then show ?thesis
    using nat_str_digits [of "nat v"] \<open>0 \<le> v\<close> by (simp add: padded_def Let_def int_str_def)
qed

lemma padded_inj: "0 \<le> a \<Longrightarrow> 0 \<le> b \<Longrightarrow> padded w a = padded w b \<Longrightarrow> a = b"
  by (metis padded_value nat_0_le)

lemma int_str_padded: "int_str v = padded 0 v"
  by (simp add: padded_def)

text \<open>Digits up to a character that is not one.\<close>

lemma digits_prefix:
  assumes "list_all is_digit a" "list_all is_digit b" "\<not> is_digit c" "a @ c # r = b @ c # r'"
  shows "a = b \<and> r = r'"
proof -
  have "takeWhile is_digit (a @ c # r) = a" "takeWhile is_digit (b @ c # r') = b"
    using assms(1-3) by (simp_all add: list_all_iff)
  with assms(4) show ?thesis
    by simp
qed

lemma dash_no_digit: "\<not> is_digit (CHR ''-'')"
  by (simp add: is_digit_def char_code_def)

lemma numbers_joined:
  assumes "0 \<le> a" "0 \<le> b" "padded w a @ ''-'' @ r = padded w b @ ''-'' @ r'"
  shows "a = b \<and> r = r'"
proof -
  have "padded w a = padded w b \<and> r = r'"
    by (rule digits_prefix [OF padded_digits [OF assms(1)] padded_digits [OF assms(2)] dash_no_digit])
       (use assms(3) in \<open>simp only: append_Cons append_Nil\<close>)
  then show ?thesis
    using padded_inj [OF assms(1,2)] by blast
qed

lemma iso_date_inj:
  assumes "valid_date a" "valid_date b" "iso_date a = iso_date b"
  shows "a = b"
proof -
  have nonneg: "0 \<le> dt_year d \<and> 0 \<le> dt_month d \<and> 0 \<le> dt_day d" if "valid_date d" for d
    using that by (simp add: valid_date_def)
  note na = nonneg [OF assms(1)] and nb = nonneg [OF assms(2)]
  have year: "dt_year a = dt_year b"
    and rest: "padded 2 (dt_month a) @ ''-'' @ padded 2 (dt_day a) = padded 2 (dt_month b) @ ''-'' @ padded 2 (dt_day b)"
    using numbers_joined [OF _ _ assms(3) [unfolded iso_date_def]] na nb by blast+
  have month: "dt_month a = dt_month b" and "padded 2 (dt_day a) = padded 2 (dt_day b)"
    using numbers_joined [OF _ _ rest] na nb by blast+
  then have "dt_day a = dt_day b"
    using padded_inj na nb by blast
  with year month show ?thesis
    by (cases a; cases b) simp
qed

lemma iso_month_inj: "0 \<le> y \<Longrightarrow> 0 \<le> y' \<Longrightarrow> 0 \<le> m \<Longrightarrow> 0 \<le> m' \<Longrightarrow> iso_month y m = iso_month y' m' \<Longrightarrow> y = y' \<and> m = m'"
  unfolding iso_month_def using numbers_joined [of y y' 4 "padded 2 m" "padded 2 m'"] padded_inj by blast

lemma week_label_inj: "0 \<le> y \<Longrightarrow> 0 \<le> y' \<Longrightarrow> 0 \<le> w \<Longrightarrow> 0 \<le> w' \<Longrightarrow> week_label (y, w) = week_label (y', w') \<Longrightarrow> y = y' \<and> w = w'"
  unfolding week_label_def int_str_padded
  using numbers_joined [of y y' 0 "CHR ''W'' # padded 2 w" "CHR ''W'' # padded 2 w'"] padded_inj [of w w' 2] by simp

end
