(* ===== verification/Api_Telemetry.thy ===== *)
theory Api_Telemetry
  imports Api_Holding Storage Fault_Codes Calendar
begin

text \<open>
  The endpoints of \<^verbatim>\<open>src/api/__init__.py\<close> that read the stored telemetry: the latest snapshot with its labels,
  the per-battery data, the history with its downsampling, the energy totals, and the live alerts.  The
  tables are those of the writer (theory Storage); of the timestamps only their order matters, so the
  history is given the rows that its query selects.  The order of the keys of a dictionary is not kept
  where it comes from a sorted query.
\<close>

subsection \<open>Labels\<close>

definition API_STATE_LABELS :: "(int \<times> string) list" where
  "API_STATE_LABELS = [
    (0x00, ''Standby''),
    (0x01, ''Fault''),
    (0x02, ''FW Updating''),
    (0x04, ''PV On-grid''),
    (0x08, ''PV Charge''),
    (0x0C, ''PV Charge On-grid''),
    (0x10, ''Battery On-grid''),
    (0x11, ''Bypass''),
    (0x14, ''PV & Battery On-grid''),
    (0x19, ''PV Charge + Bypass''),
    (0x20, ''AC Charge''),
    (0x28, ''PV & AC Charge''),
    (0x40, ''Battery Off-grid''),
    (0x80, ''PV Off-grid''),
    (0x88, ''PV Charge Off-grid''),
    (0xC0, ''PV & Battery Off-grid'')]"

definition api_state_label :: "pyfloat \<Rightarrow> string result" where
  "api_state_label x = (case pf_trunc x of
     Inr code \<Rightarrow> Inr (case map_of API_STATE_LABELS code of None \<Rightarrow> ''Unknown ('' @ int_str code @ '')'' | Some label \<Rightarrow> label)
   | Inl TypeError \<Rightarrow> Inr (float_repr x)
   | Inl ValueError \<Rightarrow> Inr (float_repr x)
   | Inl e \<Rightarrow> Inl e)"

definition code_label :: "(int option \<Rightarrow> string) \<Rightarrow> pyfloat \<Rightarrow> string result" where
  "code_label code_text x = (case pf_trunc x of
     Inr code \<Rightarrow> Inr (code_text (Some code))
   | Inl TypeError \<Rightarrow> Inr []
   | Inl ValueError \<Rightarrow> Inr []
   | Inl e \<Rightarrow> Inl e)"

definition fault_label :: "pyfloat \<Rightarrow> string result" where
  "fault_label = code_label fault_code_text"

definition warning_label :: "pyfloat \<Rightarrow> string result" where
  "warning_label = code_label warning_code_text"

subsection \<open>Registers of a snapshot\<close>

text \<open>A value is a number of the database or a label.\<close>

datatype shown = Num pyfloat | Label string

type_synonym shown_registers = "(string \<times> shown \<times> string) list"

definition registers_of :: "(string \<times> pyfloat \<times> string) list \<Rightarrow> shown_registers" where
  "registers_of rows = foldl (\<lambda>m (name, x, unit). AList.update name (Num x, unit) m) [] rows"

definition label_from :: "string \<Rightarrow> string \<Rightarrow> (pyfloat \<Rightarrow> string result) \<Rightarrow> shown_registers \<Rightarrow> shown_registers result" where
  "label_from raw_name label_name label_fn registers = (case map_of registers raw_name of
     Some (Num x, _) \<Rightarrow> bindE (label_fn x) (\<lambda>s. Inr (AList.update label_name (Label s, []) registers))
   | _ \<Rightarrow> Inr registers)"

definition LABELS :: "(string \<times> string \<times> (pyfloat \<Rightarrow> string result)) list" where
  "LABELS = [
    (''state'', ''state_label'', api_state_label),
    (''fault_code'', ''fault_code_text'', fault_label),
    (''warning_code'', ''warning_code_text'', warning_label),
    (''internal_fault'', ''internal_fault_text'', fault_label),
    (''bms_fault_code'', ''bms_fault_code_text'', fault_label),
    (''bms_warning_code'', ''bms_warning_code_text'', warning_label)]"

definition add_labels :: "shown_registers \<Rightarrow> shown_registers result" where
  "add_labels registers = foldE (\<lambda>m (raw_name, label_name, label_fn). label_from raw_name label_name label_fn m) registers LABELS"

definition TEMP_KEYS :: "string list" where
  "TEMP_KEYS = [''temp_inverter'', ''temp_battery'', ''temp_radiator_1'', ''temp_radiator_2'']"

definition shown_fahrenheit :: "string \<Rightarrow> shown_registers \<Rightarrow> shown_registers result" where
  "shown_fahrenheit tkey registers = (case map_of registers tkey of
     Some (Num c, _) \<Rightarrow> bindE (to_fahrenheit c) (\<lambda>f. Inr (AList.update tkey (Num f, fahrenheit) registers))
   | _ \<Rightarrow> Inr registers)"

definition api_convert_temperatures :: "database \<Rightarrow> shown_registers \<Rightarrow> shown_registers result" where
  "api_convert_temperatures db registers =
    (if (case db_setting db ''temperature_unit'' of Some u \<Rightarrow> u | None \<Rightarrow> ''celsius'') = ''fahrenheit''
     then foldE (\<lambda>m tkey. shown_fahrenheit tkey m) registers TEMP_KEYS else Inr registers)"

text \<open>The rows of the snapshot with the largest id.\<close>

definition latest_id :: "maria \<Rightarrow> int option" where
  "latest_id m = (if md_snapshots m = [] then None else Some (Max (set (map fst (md_snapshots m)))))"

definition snapshot_registers :: "maria \<Rightarrow> int \<Rightarrow> shown_registers" where
  "snapshot_registers m sid = registers_of (map snd (filter (\<lambda>(i, row). i = sid) (md_rows m)))"

definition api_status :: "maria \<Rightarrow> (int \<times> shown_registers) reply result" where
  "api_status m = (case latest_id m of
     None \<Rightarrow> Inr (Failure 404 ''No snapshots found'')
   | Some sid \<Rightarrow> bindE (add_labels (snapshot_registers m sid)) (\<lambda>registers. Inr (Reply (sid, registers))))"

definition SUMMARY_KEYS :: "string list" where
  "SUMMARY_KEYS = [
    ''soc'', ''soh'', ''battery_voltage'', ''battery_current'', ''battery_capacity'',
    ''charge_power'', ''discharge_power'', ''charge_energy_today'', ''discharge_energy_today'',
    ''pv1_power'', ''pv2_power'', ''pv1_energy_today'', ''pv2_energy_today'',
    ''grid_import_power'', ''grid_export_power'', ''grid_import_today'', ''grid_export_today'',
    ''grid_voltage_r'', ''grid_frequency'', ''eps_power'', ''eps_energy_today'',
    ''temp_inverter'', ''temp_battery'', ''temp_radiator_1'', ''temp_radiator_2'',
    ''cell_voltage_min'', ''cell_voltage_max'', ''cell_temp_min'', ''cell_temp_max'',
    ''runtime'', ''cycle_count'', ''state'', ''fault_code'', ''warning_code'',
    ''bms_status_0'', ''bms_status_1'', ''bms_status_2'', ''bms_status_3'', ''bms_status_4'', ''bms_status_5'',
    ''bms_status_6'', ''bms_status_7'', ''bms_status_8'', ''bms_status_9'',
    ''bms_charge_voltage_ref'', ''bms_discharge_cut_voltage'', ''bms_max_charge_current'', ''bms_max_discharge_current'',
    ''bms_fault_code'', ''bms_warning_code'', ''eps_voltage_r'', ''eps_voltage_s'', ''eps_voltage_t'']"

definition add_ac_output :: "shown_registers \<Rightarrow> shown_registers" where
  "add_ac_output registers = (case map_of registers ''eps_voltage_r'' of
     Some (Num x, _) \<Rightarrow> AList.update ''ac_output_voltage'' (Num (round_digits 1 x), ''V'') registers
   | _ \<Rightarrow> registers)"

definition api_summary :: "maria \<Rightarrow> database \<Rightarrow> (int \<times> shown_registers) reply result" where
  "api_summary m db = (case latest_id m of
     None \<Rightarrow> Inr (Failure 404 ''No snapshots found'')
   | Some sid \<Rightarrow>
       bindE (api_convert_temperatures db (add_ac_output
         (registers_of (filter (\<lambda>(name, x, unit). List.member SUMMARY_KEYS name) (map snd (filter (\<lambda>(i, row). i = sid) (md_rows m))))))) (\<lambda>registers.
       bindE (add_labels registers) (\<lambda>registers. Inr (Reply (sid, registers)))))"

text \<open>The snapshot of the live feed and of the live alerts; every exception becomes its absence.\<close>

definition fetch_latest_snapshot :: "maria \<Rightarrow> database \<Rightarrow> (int \<times> shown_registers) option" where
  "fetch_latest_snapshot m db = (case latest_id m of
     None \<Rightarrow> None
   | Some sid \<Rightarrow> (case bindE (api_convert_temperatures db (snapshot_registers m sid)) add_labels of
       Inl e \<Rightarrow> None
     | Inr registers \<Rightarrow> Some (sid, registers)))"

subsection \<open>Batteries\<close>

definition scale_raw :: "int option \<Rightarrow> pyfloat \<Rightarrow> pyfloat option" where
  "scale_raw raw factor = map_option (\<lambda>v. round_digits 3 (flt v * factor)) raw"

definition scale_signed :: "int option \<Rightarrow> pyfloat \<Rightarrow> pyfloat option" where
  "scale_signed raw factor = scale_raw (map_option (\<lambda>v. if 0x8000 \<le> v then v - 0x10000 else v) raw) factor"

definition fmt_firmware :: "int option \<Rightarrow> string option" where
  "fmt_firmware raw = map_option (\<lambda>v. int_str (v div 256) @ ''.'' @ padded 2 (v mod 256)) raw"

record battery =
  bt_index :: int
  bt_serial :: string
  bt_capacity :: "int option"
  bt_max_charge :: "pyfloat option"
  bt_max_discharge :: "pyfloat option"
  bt_voltage :: "pyfloat option"
  bt_current :: "pyfloat option"
  bt_soc :: int
  bt_soh :: int
  bt_cycles :: "int option"
  bt_max_temp :: "pyfloat option"
  bt_min_temp :: "pyfloat option"
  bt_max_cell :: "pyfloat option"
  bt_min_cell :: "pyfloat option"
  bt_firmware :: "string option"

definition battery_of :: "(int \<times> int) list \<Rightarrow> int \<Rightarrow> battery" where
  "battery_of regs batt =
    (let base = BATTERY_START + (batt - 1) * BATTERY_BLOCK_SIZE; field = (\<lambda>off. map_of regs (base + off));
         packed = (case field 10 of Some v \<Rightarrow> v | None \<Rightarrow> 0) in
     \<lparr>bt_index = batt, bt_serial = decode_battery_serial regs batt, bt_capacity = field 3,
      bt_max_charge = scale_raw (field 5) (dbl (1 / 10)), bt_max_discharge = scale_raw (field 6) (dbl (1 / 10)),
      bt_voltage = scale_raw (field 8) (dbl (1 / 100)), bt_current = scale_signed (field 9) (dbl (1 / 10)),
      bt_soc = packed mod 256, bt_soh = packed div 256 mod 256, bt_cycles = field 11,
      bt_max_temp = scale_raw (field 12) (dbl (1 / 10)), bt_min_temp = scale_raw (field 13) (dbl (1 / 10)),
      bt_max_cell = scale_raw (field 14) (dbl (1 / 1000)), bt_min_cell = scale_raw (field 15) (dbl (1 / 1000)),
      bt_firmware = fmt_firmware (field 18)\<rparr>)"

definition battery_present :: "(int \<times> int) list \<Rightarrow> int \<Rightarrow> bool" where
  "battery_present regs batt = list_ex (\<lambda>off. (case map_of regs (BATTERY_START + (batt - 1) * BATTERY_BLOCK_SIZE + off) of Some v \<Rightarrow> v | None \<Rightarrow> 0) \<noteq> 0)
     [0..BATTERY_BLOCK_SIZE - 1]"

definition api_batteries :: "maria \<Rightarrow> (int \<times> battery list) reply" where
  "api_batteries m = (case latest_id m of
     None \<Rightarrow> Failure 404 ''No snapshots found''
   | Some sid \<Rightarrow>
       let regs = (case map_of (md_snapshots m) sid of Some raw \<Rightarrow> raw | None \<Rightarrow> []) in
       Reply (sid, map (battery_of regs) (filter (battery_present regs) [1..int BATTERY_COUNT])))"

subsection \<open>History\<close>

text \<open>\<^verbatim>\<open>xs[::step]\<close>.\<close>

function every_nth :: "nat \<Rightarrow> 'a list \<Rightarrow> 'a list" where
  "every_nth step [] = []"
| "every_nth step (x # xs) = x # every_nth step (drop (step - 1) xs)"
  by pat_completeness auto

termination
  by (relation "measure (\<lambda>(step, xs). length xs)") auto

definition downsample :: "nat \<Rightarrow> 'a list \<Rightarrow> 'a list" where
  "downsample max_points xs =
    (if max_points < length xs then every_nth (nat \<lceil>fl (of_nat (length xs) / of_nat max_points)\<rceil>) xs else xs)"

text \<open>\<^verbatim>\<open>name IN ()\<close> is not SQL, so a list of fields without a name in it is an error of the server.\<close>

definition field_names :: "string \<Rightarrow> string list" where
  "field_names fs = filter (\<lambda>f. f \<noteq> []) (map strip (split_all (CHR '','') fs))"

definition history_rows :: "string \<Rightarrow> (int \<times> string \<times> pyfloat \<times> string) list \<Rightarrow> int list \<Rightarrow> (int \<times> string \<times> pyfloat) list result" where
  "history_rows fs rows ids =
    (if fs \<noteq> [] \<and> field_names fs = [] then Inl RuntimeError
     else Inr (map (\<lambda>(i, name, x, unit). (i, name, x))
       (filter (\<lambda>(i, name, x, unit). List.member ids i \<and> (fs = [] \<or> List.member (field_names fs) name)) rows)))"

definition history_point :: "(int \<times> string \<times> pyfloat) list \<Rightarrow> int \<times> string \<Rightarrow> string \<times> (string \<times> pyfloat) list" where
  "history_point rows = (\<lambda>(sid, ts). (ts, foldl (\<lambda>m (i, name, x). if i = sid then AList.update name x m else m) [] rows))"

definition api_history :: "nat \<Rightarrow> string \<Rightarrow> (int \<times> string) list \<Rightarrow> (int \<times> string \<times> pyfloat \<times> string) list
    \<Rightarrow> (string \<times> (string \<times> pyfloat) list) list result" where
  "api_history max_points fs snapshots rows =
    (if snapshots = [] then Inr []
     else let kept = downsample max_points snapshots in
       bindE (history_rows fs rows (map fst kept)) (\<lambda>rows. Inr (map (history_point rows) kept)))"

subsection \<open>Energy totals\<close>

datatype energy_range = Daily | Weekly | Monthly

text \<open>The months are walked back with a loop.\<close>

partial_function (option) walk_months :: "int \<Rightarrow> int \<Rightarrow> (int \<times> int) option" where
  "walk_months y m = (if m \<le> 0 then walk_months (y - 1) (m + 12) else Some (y, m))"

definition period_label :: "energy_range \<Rightarrow> date \<Rightarrow> int \<Rightarrow> string result" where
  "period_label kind today i = (case kind of
     Daily \<Rightarrow> bindE (minus_days today i) (\<lambda>d. Inr (iso_date d))
   | Weekly \<Rightarrow> bindE (minus_days today (7 * i)) (\<lambda>d. Inr (week_label (iso_week d)))
   | Monthly \<Rightarrow> (case walk_months (dt_year today) (dt_month today - i) of
       Some (y, m) \<Rightarrow> Inr (iso_month y m)
     | None \<Rightarrow> Inl RuntimeError))"

type_synonym energy_table = "(string \<times> (string \<times> pyfloat \<times> pyfloat) list) list"

text \<open>The rows of the query by period and category; a missing sum counts as 0.\<close>

definition pivot :: "(string \<times> string \<times> pyfloat option \<times> pyfloat option) list \<Rightarrow> energy_table" where
  "pivot rows = foldl (\<lambda>data (period, name, in_kwh, out_kwh).
     AList.update period (AList.update name (or_zero in_kwh, or_zero out_kwh)
       (case map_of data period of Some m \<Rightarrow> m | None \<Rightarrow> [])) data) [] rows"

definition ENERGY_CATEGORIES :: "string list" where
  "ENERGY_CATEGORIES = [''PV power'', ''Battery power'', ''Grid power'', ''Load power'']"

definition period_entry :: "energy_table \<Rightarrow> string \<Rightarrow> (string \<times> pyfloat \<times> pyfloat) list" where
  "period_entry data period =
    (let existing = (case map_of data period of Some m \<Rightarrow> m | None \<Rightarrow> []) in
     map (\<lambda>cat. (cat, case map_of existing cat of Some v \<Rightarrow> v | None \<Rightarrow> (Fin 0, Fin 0))) ENERGY_CATEGORIES)"

definition api_energy :: "energy_range \<Rightarrow> nat \<Rightarrow> date \<Rightarrow> (string \<times> string \<times> pyfloat option \<times> pyfloat option) list \<Rightarrow> energy_table result" where
  "api_energy kind periods today rows =
    foldE (\<lambda>full i. bindE (period_label kind today i) (\<lambda>period. Inr (AList.update period (period_entry (pivot rows) period) full)))
      [] (rev [0..int periods - 1])"

subsection \<open>Live alerts\<close>

text \<open>A new evaluator for every request; labels are not numbers for the rules and are left out.\<close>

definition numeric_readings :: "shown_registers \<Rightarrow> (string \<times> reading) list" where
  "numeric_readings registers = concat (map (\<lambda>(name, v, unit). case v of
      Num x \<Rightarrow> [(name, \<lparr>rv_value = x, rv_unit = unit, rv_raw = 0, rv_raw_high = None, rv_desc = []\<rparr>)]
    | Label _ \<Rightarrow> []) registers)"

definition setting_bool :: "string option \<Rightarrow> bool" where
  "setting_bool raw = (case raw of Some (c # s) \<Rightarrow> List.member [''true'', ''1'', ''yes'', ''on''] (lower (c # s)) | _ \<Rightarrow> False)"

definition setting_float :: "string option \<Rightarrow> pyfloat \<Rightarrow> pyfloat" where
  "setting_float raw fallback = (case raw of Some s \<Rightarrow> (case parse_float s of Some x \<Rightarrow> x | None \<Rightarrow> fallback) | None \<Rightarrow> fallback)"

definition live_cfg :: "database \<Rightarrow> attributes" where
  "live_cfg db = [
    (''alerts_enabled'', JBool (setting_bool (settings_get db ''alerts_enabled''))),
    (''alerts_soc_low'', JFloat (setting_float (settings_get db ''alerts_soc_low'') (Fin 20))),
    (''alerts_soc_critical'', JFloat (setting_float (settings_get db ''alerts_soc_critical'') (Fin 10))),
    (''alerts_battery_temp_high'', JFloat (setting_float (settings_get db ''alerts_battery_temp_high'') (Fin 50))),
    (''alerts_inverter_temp_high'', JFloat (setting_float (settings_get db ''alerts_inverter_temp_high'') (Fin 60))),
    (''alerts_grid_lost_threshold_sec'', JFloat (setting_float (settings_get db ''alerts_grid_lost_threshold_sec'') (Fin 30))),
    (''mqtt_enabled'', JBool False)]"

definition api_alerts_live :: "maria \<Rightarrow> database \<Rightarrow> alert_clock \<Rightarrow> (string \<times> alert_status) list result" where
  "api_alerts_live m db clock = (case fetch_latest_snapshot m db of
     None \<Rightarrow> Inr []
   | Some (sid, registers) \<Rightarrow> fst (evaluate_alerts clock (numeric_readings registers) (new_alerts (live_cfg db) False False)))"

end
