(* ===== verification/Api_Telemetry_Facts.thy ===== *)
theory Api_Telemetry_Facts
  imports Api_Telemetry Outputs_Facts
begin

text \<open>
  What the endpoints show of the stored telemetry: the newest snapshot as it was written, a history that
  stays within its bound, energy totals for every period that was asked for, and the live alerts.
\<close>

subsection \<open>Registers of the newest snapshot\<close>

lemma map_of_registers:
  "map_of (foldl (\<lambda>m (name, x, unit). AList.update name (Num x, unit) m) m0 rows)
    = map_of m0 ++ map_of (rev (map (\<lambda>(name, x, unit). (name, (Num x, unit))) rows))"
proof (induction rows arbitrary: m0)
  case (Cons r rows)
  show ?case
    by (cases r) (simp add: Cons.IH update_conv' map_add_assoc [symmetric] map_add_upd_left map_of_append fun_eq_iff map_add_def split: option.split)
qed simp

lemma registers_of_extra:
  "name \<notin> fst ` set extra \<Longrightarrow> map_of (registers_of (rows @ extra)) name = map_of (registers_of rows) name"
proof -
  assume "name \<notin> fst ` set extra"
  then have "map_of (rev (map (\<lambda>(name, x, unit). (name, (Num x, unit))) extra)) name = None"
    by (force simp: map_of_eq_None_iff)
  then show ?thesis
    by (simp add: registers_of_def map_of_registers map_add_def)
qed

lemma registers_of_entry:
  assumes "distinct (map fst rows)" "name \<notin> fst ` set extra"
  shows "map_of (registers_of (rows @ extra)) name = Some (v, unit) \<longleftrightarrow> (\<exists>x. v = Num x \<and> (name, x, unit) \<in> set rows)"
proof -
  let ?rows = "map (\<lambda>(name, x, unit). (name, (Num x, unit))) rows"
  have "distinct (map fst (rev ?rows))"
    using assms(1) by (simp add: rev_map [symmetric] case_prod_unfold comp_def)
  then have "map_of (registers_of rows) name = Some (v, unit) \<longleftrightarrow> (name, (v, unit)) \<in> set (rev ?rows)"
    by (simp only: registers_of_def map_of_registers map_of.simps(1) empty_map_add map_of_eq_Some_iff)
  then show ?thesis
    unfolding registers_of_extra [OF assms(2)] by force
qed

text \<open>Labels are added for finite codes without an error, and beside the readings.\<close>

definition finite_codes :: "shown_registers \<Rightarrow> bool" where
  "finite_codes m \<longleftrightarrow> list_all (\<lambda>(raw_name, rest). case map_of m raw_name of Some (Num x, unit) \<Rightarrow> x \<in> range Fin | _ \<Rightarrow> True) LABELS"

lemma label_functions: "(raw_name, label_name, f) \<in> set LABELS \<Longrightarrow> f (Fin q) \<in> range Inr"
  by (auto simp: LABELS_def api_state_label_def fault_label_def warning_label_def code_label_def)

lemma finite_codes_label: "finite_codes m \<Longrightarrow> finite_codes (AList.update label_name (Label s, []) m)"
  by (auto simp: finite_codes_def list_all_iff update_conv')

lemma label_from_ok:
  assumes "finite_codes m" "(raw_name, label_name, f) \<in> set LABELS"
  shows "\<exists>m'. label_from raw_name label_name f m = Inr m' \<and> finite_codes m' \<and> (\<forall>k. k \<noteq> label_name \<longrightarrow> map_of m' k = map_of m k)"
proof (cases "\<exists>x unit. map_of m raw_name = Some (Num x, unit)")
  case True
  then obtain x unit where x: "map_of m raw_name = Some (Num x, unit)"
    by blast
  then have "x \<in> range Fin"
    using assms by (auto simp: finite_codes_def list_all_iff)
  then obtain s where "f x = Inr s"
    using label_functions [OF assms(2)] by blast
  then show ?thesis
    using x finite_codes_label [OF assms(1)] by (simp add: label_from_def update_conv')
next
  case False
  then have "label_from raw_name label_name f m = Inr m"
    by (auto simp: label_from_def split: option.split shown.split)
  then show ?thesis
    using assms(1) by simp
qed

lemma labels_ok:
  assumes "finite_codes m" "set ls \<subseteq> set LABELS"
  shows "\<exists>m'. foldE (\<lambda>m (raw_name, label_name, f). label_from raw_name label_name f m) m ls = Inr m'
    \<and> (\<forall>k. k \<notin> (fst \<circ> snd) ` set ls \<longrightarrow> map_of m' k = map_of m k)"
  using assms
proof (induction ls arbitrary: m)
  case (Cons l ls)
  obtain raw_name label_name f where l: "l = (raw_name, label_name, f)"
    by (cases l) auto
  have "(raw_name, label_name, f) \<in> set LABELS"
    using Cons.prems(2) l by simp
  then obtain m1 where m1: "label_from raw_name label_name f m = Inr m1" "finite_codes m1" "\<forall>k. k \<noteq> label_name \<longrightarrow> map_of m1 k = map_of m k"
    using label_from_ok [OF Cons.prems(1)] by blast
  obtain m' where "foldE (\<lambda>m (raw_name, label_name, f). label_from raw_name label_name f m) m1 ls = Inr m'"
      "\<forall>k. k \<notin> (fst \<circ> snd) ` set ls \<longrightarrow> map_of m' k = map_of m1 k"
    using Cons.IH [OF m1(2)] Cons.prems(2) by auto
  then show ?case
    using m1 l by auto
qed simp

lemma add_labels_ok:
  assumes "finite_codes m"
  shows "\<exists>m'. add_labels m = Inr m' \<and> (\<forall>k. k \<notin> (fst \<circ> snd) ` set LABELS \<longrightarrow> map_of m' k = map_of m k)"
  unfolding add_labels_def by (rule labels_ok [OF assms order_refl])

text \<open>The ids that the database gives out grow.\<close>

definition store_wf :: "maria \<Rightarrow> bool" where
  "store_wf m \<longleftrightarrow> list_all (\<lambda>(i, raw). i < md_next_id m) (md_snapshots m) \<and> list_all (\<lambda>(i, row). i < md_next_id m) (md_rows m)"

definition label_names :: "string list" where
  "label_names = map (fst \<circ> snd) LABELS"

lemma upserts_hourly_only:
  "md_snapshots (upserts hour es st) = md_snapshots st \<and> md_rows (upserts hour es st) = md_rows st \<and> md_next_id (upserts hour es st) = md_next_id st"
  unfolding upserts_def by (induction es arbitrary: st) (auto simp: upsert_hourly_def)

lemma latest_id_written:
  assumes "store_wf st" "md_snapshots st' = md_snapshots st @ [(md_next_id st, raw)]"
  shows "latest_id st' = Some (md_next_id st)"
proof -
  have "Max (set (map fst (md_snapshots st'))) = md_next_id st"
    by (rule Max_eqI) (use assms in \<open>auto simp: store_wf_def list_all_iff\<close>)
  then show ?thesis
    using assms(2) by (simp add: latest_id_def)
qed

lemma snapshot_registers_written:
  assumes "store_wf st" "md_rows st' = md_rows st @ map (\<lambda>(name, x, unit). (md_next_id st, name, x, unit)) rows"
  shows "snapshot_registers st' (md_next_id st) = registers_of rows"
proof -
  have "filter (\<lambda>(i, row). i = md_next_id st) (md_rows st) = []"
    using assms(1) by (auto simp: store_wf_def list_all_iff filter_empty_conv)
  moreover have "map snd (filter (\<lambda>(i, row). i = md_next_id st) (map (\<lambda>(name, x, unit). (md_next_id st, name, x, unit)) rows)) = rows"
    by (induction rows) auto
  ultimately show ?thesis
    using assms(2) by (simp add: snapshot_registers_def)
qed

lemma snapshot_rows_of:
  assumes "numeric d"
  shows "\<exists>rows extra. snapshot_rows d = Inr (rows @ extra) \<and> map fst rows = map fst d \<and> distinct (map fst extra)
    \<and> set (map fst extra) \<subseteq> set stored_computed \<and> (\<forall>key v unit x. (key, v, unit) \<in> set d \<and> py_float v = Inr x \<longrightarrow> (key, x, unit) \<in> set rows)
    \<and> (\<forall>key x unit. (key, x, unit) \<in> set rows \<longrightarrow> (\<exists>v. (key, v, unit) \<in> set d \<and> py_float v = Inr x))"
proof -
  have "\<exists>rows. mapE (\<lambda>(key, v, unit). bindE (py_float v) (\<lambda>x. Inr (key, x, unit))) d = Inr rows \<and> map fst rows = map fst d
      \<and> (\<forall>key v unit x. (key, v, unit) \<in> set d \<and> py_float v = Inr x \<longrightarrow> (key, x, unit) \<in> set rows)
      \<and> (\<forall>key x unit. (key, x, unit) \<in> set rows \<longrightarrow> (\<exists>v. (key, v, unit) \<in> set d \<and> py_float v = Inr x))"
    using assms unfolding numeric_def
  proof (induction d)
    case (Cons r d)
    obtain key v unit where r: "r = (key, v, unit)"
      by (cases r) auto
    obtain x where x: "py_float v = Inr x"
      using Cons.prems r by auto
    obtain rows where rows: "mapE (\<lambda>(key, v, unit). bindE (py_float v) (\<lambda>x. Inr (key, x, unit))) d = Inr rows" "map fst rows = map fst d"
      and old: "\<forall>key v unit x. (key, v, unit) \<in> set d \<and> py_float v = Inr x \<longrightarrow> (key, x, unit) \<in> set rows"
        "\<forall>key x unit. (key, x, unit) \<in> set rows \<longrightarrow> (\<exists>v. (key, v, unit) \<in> set d \<and> py_float v = Inr x)"
      using Cons.IH Cons.prems by auto
    show ?case
    proof (intro exI conjI)
      show "mapE (\<lambda>(key, v, unit). bindE (py_float v) (\<lambda>x. Inr (key, x, unit))) (r # d) = Inr ((key, x, unit) # rows)"
        by (simp add: r x rows)
      show "map fst ((key, x, unit) # rows) = map fst (r # d)"
        by (simp add: r rows)
    qed (use old r x in \<open>fastforce+\<close>)
  qed simp
  then obtain rows where rows: "mapE (\<lambda>(key, v, unit). bindE (py_float v) (\<lambda>x. Inr (key, x, unit))) d = Inr rows" "map fst rows = map fst d"
    and old: "\<forall>key v unit x. (key, v, unit) \<in> set d \<and> py_float v = Inr x \<longrightarrow> (key, x, unit) \<in> set rows"
      "\<forall>key x unit. (key, x, unit) \<in> set rows \<longrightarrow> (\<exists>v. (key, v, unit) \<in> set d \<and> py_float v = Inr x)"
    by blast
  obtain computed where c: "build_computed d = Inr computed"
    using build_computed_tame [OF numeric_tame [OF assms]] by blast
  let ?extra = "concat (map (\<lambda>key. case map_of computed key of None \<Rightarrow> [] | Some x \<Rightarrow> [(key, x, ''W'')]) stored_computed)"
  have "distinct (map fst ?extra)" "set (map fst ?extra) \<subseteq> set stored_computed"
    by (auto simp: stored_computed_def split: option.split)
  moreover have "snapshot_rows d = Inr (rows @ ?extra)"
    by (simp add: snapshot_rows_def rows(1) c)
  ultimately show ?thesis
    using rows(2) old by blast
qed


lemma computed_not_labelled: "raw_name \<in> set (map fst LABELS) \<Longrightarrow> raw_name \<notin> set stored_computed"
  by (auto simp: LABELS_def stored_computed_def)

lemma status_of_write:
  assumes st: "md_faults st = []" "md_connected st" "store_wf st"
    and d: "numeric d" "interval_hours cfg = Inr h" "distinct (map fst d)"
    and codes: "list_all (\<lambda>(key, v, unit). List.member (map fst LABELS) key \<longrightarrow> py_float v \<in> Inr ` range Fin) d"
  shows "\<exists>registers. api_status (write_mariadb cfg hour d raw st) = Inr (Reply (md_next_id st, registers))
    \<and> (\<forall>key v unit x. (key, v, unit) \<in> set d \<and> py_float v = Inr x \<and> key \<notin> set label_names \<and> key \<notin> set stored_computed
      \<longrightarrow> map_of registers key = Some (Num x, unit))"
proof -
  obtain rows extra where rows: "snapshot_rows d = Inr (rows @ extra)" "map fst rows = map fst d"
      "set (map fst extra) \<subseteq> set stored_computed"
    and old: "\<And>key v unit x. (key, v, unit) \<in> set d \<Longrightarrow> py_float v = Inr x \<Longrightarrow> (key, x, unit) \<in> set rows"
    and origin: "\<And>key x unit. (key, x, unit) \<in> set rows \<Longrightarrow> \<exists>v. (key, v, unit) \<in> set d \<and> py_float v = Inr x"
    using snapshot_rows_of [OF d(1)] by blast
  let ?st = "write_mariadb cfg hour d raw st"
  note w = write_mariadb_rows [OF st(1,2) d(1,2) rows(1), of hour raw]
  have written: "md_snapshots ?st = md_snapshots st @ [(md_next_id st, raw)]"
      "md_rows ?st = md_rows st @ map (\<lambda>(name, x, unit). (md_next_id st, name, x, unit)) (rows @ extra)"
    unfolding w by (simp_all add: upserts_hourly_only insert_rows_def insert_snapshot_def)
  let ?m = "registers_of (rows @ extra)"
  have extra: "key \<notin> fst ` set extra" if "key \<notin> set stored_computed" for key
    using rows(3) that by auto
  have entry: "map_of ?m key = Some (v, unit) \<longleftrightarrow> (\<exists>x. v = Num x \<and> (key, x, unit) \<in> set rows)" if "key \<notin> set stored_computed" for key v unit
    by (rule registers_of_entry [OF _ extra [OF that]]) (simp add: rows(2) d(3))
  have "finite_codes ?m"
    unfolding finite_codes_def list_all_iff
  proof clarify
    fix raw_name label_name f
    assume l: "(raw_name, label_name, f) \<in> set LABELS"
    then have name: "raw_name \<in> set (map fst LABELS)"
      by force
    have "x \<in> range Fin" if m: "map_of ?m raw_name = Some (Num x, unit)" for x unit
    proof -
      have "(raw_name, x, unit) \<in> set rows"
        using iffD1 [OF entry [OF computed_not_labelled [OF name]] m] by simp
      then obtain v where v: "(raw_name, v, unit) \<in> set d" "py_float v = Inr x"
        using origin by blast
      then have "py_float v \<in> Inr ` range Fin"
        using codes name by (fastforce simp: list_all_iff)
      with v(2) show ?thesis
        by auto
    qed
    then show "case map_of ?m raw_name of Some (Num x, unit) \<Rightarrow> x \<in> range Fin | _ \<Rightarrow> True"
      by (auto split: option.split shown.split)
  qed
  then obtain m' where m': "add_labels ?m = Inr m'" "\<forall>k. k \<notin> (fst \<circ> snd) ` set LABELS \<longrightarrow> map_of m' k = map_of ?m k"
    using add_labels_ok by blast
  have "api_status ?st = Inr (Reply (md_next_id st, m'))"
    by (simp add: api_status_def latest_id_written [OF st(3) written(1)] snapshot_registers_written [OF st(3) written(2)] m'(1))
  moreover have "map_of m' key = Some (Num x, unit)"
    if "(key, v, unit) \<in> set d" "py_float v = Inr x" "key \<notin> set label_names" "key \<notin> set stored_computed" for key v unit x
    using m'(2) entry [OF that(4)] old [OF that(1,2)] that(3) by (simp add: label_names_def)
  ultimately show ?thesis
    by blast
qed

lemma store_wf_write:
  assumes "md_faults st = []" "md_connected st" "store_wf st" "numeric d" "interval_hours cfg = Inr h"
  shows "store_wf (write_mariadb cfg hour d raw st)"
proof -
  obtain rows where w: "write_mariadb cfg hour d raw st = upserts hour (entries_of d h) (insert_rows (md_next_id st) rows (insert_snapshot raw st))"
    using write_mariadb_ok [OF assms(1,2,4,5)] by blast
  show ?thesis
    using assms(3) unfolding w store_wf_def upserts_hourly_only [THEN conjunct1] upserts_hourly_only [THEN conjunct2, THEN conjunct1]
      upserts_hourly_only [THEN conjunct2, THEN conjunct2]
    by (fastforce simp: insert_rows_def insert_snapshot_def list_all_iff)
qed


text \<open>C32: after a snapshot of numbers was written, the status endpoint answers with the id of that snapshot, and it
  shows every reading with the value and the unit that were written, except where a computed total has the
  name of the reading (the API then has two rows of one name) and where a label has it.  The ids of the tables
  stay below the next one, so the same holds for the snapshot that comes after it.\<close>

theorem status_shows_write:
  assumes "md_faults st = []" "md_connected st" "store_wf st" "numeric d" "interval_hours cfg = Inr h" "distinct (map fst d)"
    and "list_all (\<lambda>(key, v, unit). List.member (map fst LABELS) key \<longrightarrow> py_float v \<in> Inr ` range Fin) d"
  shows "store_wf (write_mariadb cfg hour d raw st) \<and>
    (\<exists>registers. api_status (write_mariadb cfg hour d raw st) = Inr (Reply (md_next_id st, registers))
      \<and> (\<forall>key v unit x. (key, v, unit) \<in> set d \<and> py_float v = Inr x \<and> key \<notin> set label_names \<and> key \<notin> set stored_computed
        \<longrightarrow> map_of registers key = Some (Num x, unit)))"
  using store_wf_write [OF assms(1-5)] status_of_write [OF assms] by blast

theorem status_shows_write_witness:
  "\<exists>registers. api_status (write_mariadb [(''_write_interval'', JFloat (Fin 3600))] ''9h'' [(''soc'', JInt 80, ''%''), (''state'', JInt 4, [])] []
      \<lparr>md_connected = True, md_faults = [], md_next_id = 7, md_snapshots = [(6, [])], md_rows = [(6, ''soc'', Fin 79, ''%'')], md_hourly = []\<rparr>)
    = Inr (Reply (7, registers)) \<and> map_of registers ''soc'' = Some (Num (Fin 80), ''%'')"
proof -
  let ?d = "[(''soc'', JInt 80, ''%''), (''state'', JInt 4, [])] :: fields"
  let ?st = "\<lparr>md_connected = True, md_faults = [], md_next_id = 7, md_snapshots = [(6, [])], md_rows = [(6, ''soc'', Fin 79, ''%'')], md_hourly = []\<rparr>"
  have h: "interval_hours [(''_write_interval'', JFloat (Fin 3600))] = Inr (Fin 1)"
    using dbl_of_int [of 1] by (simp add: interval_hours_def)
  have num: "py_float (JInt 80) = Inr (Fin 80)" "py_float (JInt 4) = Inr (Fin 4)"
    by (simp_all add: pf_of_int_small)
  have numeric: "numeric ?d"
    using num by (simp add: numeric_def)
  have codes: "list_all (\<lambda>(key, v, unit). List.member (map fst LABELS) key \<longrightarrow> py_float v \<in> Inr ` range Fin) ?d"
    using num by (simp add: LABELS_def)
  have wf: "store_wf ?st"
    by (simp add: store_wf_def)
  have dist: "distinct (map fst ?d)"
    by simp
  have key: "''soc'' \<notin> set label_names" "''soc'' \<notin> set stored_computed"
    by (simp_all add: label_names_def LABELS_def stored_computed_def)
  have soc: "(''soc'', JInt 80, ''%'') \<in> set ?d"
    by simp
  have up: "md_faults ?st = []" "md_connected ?st" "md_next_id ?st = 7"
    by simp_all
  show ?thesis
    using status_shows_write [OF up(1,2) wf numeric h dist codes, of "''9h''" "[]", unfolded up(3)] soc num(1) key by blast
qed


subsection \<open>Energy totals\<close>

text \<open>Going back over the months, a year has twelve of them.\<close>

lemma walk_months_number:
  assumes "m \<le> 12"
  shows "walk_months y m = Some ((12 * y + m - 1) div 12, (12 * y + m - 1) mod 12 + 1)"
  using assms
proof (induction "nat (12 - m)" arbitrary: y m rule: less_induct)
  case less
  show ?case
  proof (cases "m \<le> 0")
    case True
    have "walk_months (y - 1) (m + 12) = Some ((12 * (y - 1) + (m + 12) - 1) div 12, (12 * (y - 1) + (m + 12) - 1) mod 12 + 1)"
      by (rule less.hyps) (use True less.prems in linarith)+
    moreover have "12 * (y - 1) + (m + 12) - 1 = 12 * y + m - 1"
      by simp
    ultimately show ?thesis
      using True walk_months.simps [of y m] by presburger
  next
    case False
    have eq: "12 * y + m - 1 = 12 * y + (m - 1)"
      by simp
    have "(12 * y + m - 1) div 12 = y" "(12 * y + m - 1) mod 12 = m - 1"
      unfolding eq using False less.prems by (simp_all add: div_pos_pos_trivial mod_pos_pos_trivial)
    moreover have "walk_months y m = Some (y, m)"
      using False walk_months.simps [of y m] by simp
    ultimately show ?thesis
      by (simp only: diff_add_cancel)
  qed
qed

text \<open>C34: the loop over the months always ends, however far it goes back, with the month that lies so many months
  before the given one.\<close>

theorem walk_months_ends:
  assumes "1 \<le> m" "m \<le> 12" "0 \<le> i"
  shows "walk_months y (m - i) = Some ((12 * y + (m - 1) - i) div 12, (12 * y + (m - 1) - i) mod 12 + 1)"
  using walk_months_number [of "m - i" y] assms by (simp add: algebra_simps)

theorem walk_months_ends_witness: "walk_months 2026 (3 - 30) = Some (2023, 9)"
  using walk_months_ends [of 3 30 2026] by simp


text \<open>The sums of a period and a category, taken from the rows of the query.\<close>

definition energy_value :: "(string \<times> string \<times> pyfloat option \<times> pyfloat option) list \<Rightarrow> string \<Rightarrow> string \<Rightarrow> pyfloat \<times> pyfloat" where
  "energy_value rows period name =
    (case map_of (map (\<lambda>(p, n, i, out). ((p, n), (or_zero i, or_zero out))) rows) (period, name) of Some v \<Rightarrow> v | None \<Rightarrow> (Fin 0, Fin 0))"

definition table_entry :: "energy_table \<Rightarrow> string \<times> string \<Rightarrow> (pyfloat \<times> pyfloat) option" where
  "table_entry data = (\<lambda>(p, n). case map_of data p of Some m \<Rightarrow> map_of m n | None \<Rightarrow> None)"

lemma map_add_update: "m(k \<mapsto> v) ++ map_of ys = m ++ map_of (ys @ [(k, v)])"
  by (simp add: map_of_append fun_eq_iff map_add_def split: option.split)

lemma table_entry_pivot:
  "table_entry (foldl (\<lambda>data (period, name, in_kwh, out_kwh).
      AList.update period (AList.update name (or_zero in_kwh, or_zero out_kwh) (case map_of data period of Some m \<Rightarrow> m | None \<Rightarrow> [])) data) data0 rows)
    = table_entry data0 ++ map_of (rev (map (\<lambda>(p, n, i, out). ((p, n), (or_zero i, or_zero out))) rows))"
proof (induction rows arbitrary: data0)
  case (Cons r rows)
  obtain p n i out where r: "r = (p, n, i, out)"
    by (cases r) auto
  have "table_entry (AList.update p (AList.update n (or_zero i, or_zero out) (case map_of data0 p of Some m \<Rightarrow> m | None \<Rightarrow> [])) data0)
      = (table_entry data0)((p, n) \<mapsto> (or_zero i, or_zero out))"
    by (auto simp: table_entry_def update_conv' fun_eq_iff split: option.split)
  then show ?case
    by (simp only: foldl_Cons r case_prod_conv Cons.IH list.map rev.simps map_add_update)
qed simp

lemma period_entry_pivot:
  assumes "distinct (map (\<lambda>(p, n, i, out). (p, n)) rows)"
  shows "period_entry (pivot rows) period = map (\<lambda>name. (name, energy_value rows period name)) ENERGY_CATEGORIES"
proof -
  let ?rows = "map (\<lambda>(p, n, i, out). ((p, n), (or_zero i, or_zero out))) rows"
  have "distinct (map fst ?rows)"
    using assms by (simp add: case_prod_unfold comp_def)
  then have "table_entry (pivot rows) = map_of ?rows"
    using table_entry_pivot [of "[]" rows] by (simp add: pivot_def map_of_rev_distinct table_entry_def map_add_def fun_eq_iff split: option.split)
  then have "map_of (case map_of (pivot rows) period of Some m \<Rightarrow> m | None \<Rightarrow> []) name = map_of ?rows (period, name)" for name
    by (drule_tac fun_cong [of _ _ "(period, name)"]) (simp add: table_entry_def split: option.splits)
  then show ?thesis
    by (simp add: period_entry_def Let_def energy_value_def)
qed

text \<open>A list of fresh keys is stored in its order.\<close>

lemma foldE_fresh:
  assumes "\<And>i. i \<in> set is \<Longrightarrow> f i = Inr (l i)" "distinct (map l is)" "fst ` set acc \<inter> l ` set is = {}"
  shows "foldE (\<lambda>full i. bindE (f i) (\<lambda>p. Inr (AList.update p (e p) full))) acc is = Inr (acc @ map (\<lambda>i. (l i, e (l i))) is)"
  using assms
proof (induction "is" arbitrary: acc)
  case (Cons i "is")
  have "AList.update (l i) (e (l i)) acc = acc @ [(l i, e (l i))]"
    using Cons.prems(3) by (induction acc) auto
  then show ?case
    using Cons.prems Cons.IH [of "acc @ [(l i, e (l i))]"] by auto
qed simp


text \<open>The labels of the periods exist and differ.\<close>

lemma ordinal_large:
  assumes "valid_date d" "1000 \<le> dt_year d"
  shows "364877 < to_ordinal d"
proof -
  have "days_before_year 1000 \<le> days_before_year (dt_year d)"
    using assms(2) days_before_year_mono [of 1000 "dt_year d"] by (cases "dt_year d = 1000") (auto simp: days_in_year_def split: if_splits)
  moreover have "days_before_year 1000 = 364877"
    by (simp add: days_before_year_def)
  ultimately show ?thesis
    using day_of_year_bounds [OF assms(1)] by (simp add: to_ordinal_def)
qed

lemma minus_days_ok:
  assumes "valid_date d" "1000 \<le> dt_year d" "n \<le> 364876"
  shows "\<exists>d'. minus_days d n = Inr d' \<and> valid_date d' \<and> to_ordinal d' = to_ordinal d - n"
  using ordinal_large [OF assms(1,2)] assms(3) from_ordinal [of "to_ordinal d - n"] by (simp add: minus_days_def)

lemma iso_week_year: "valid_date d \<Longrightarrow> iso_week d = (y, w) \<Longrightarrow> 0 \<le> y"
  by (auto simp: iso_week_def Let_def valid_date_def split: if_splits)

lemma month_of_number: "12 * (n div 12) + n mod 12 = (n :: int)"
  by simp

lemma period_labels:
  assumes today: "valid_date today" "1000 \<le> dt_year today" and i: "0 \<le> i" "i \<le> 364" and j: "0 \<le> j" "j \<le> 364"
  shows "\<exists>l l'. period_label kind today i = Inr l \<and> period_label kind today j = Inr l' \<and> (l = l' \<longrightarrow> i = j)"
proof (cases kind)
  case Daily
  obtain d d' where d: "minus_days today i = Inr d" "valid_date d" "to_ordinal d = to_ordinal today - i"
      "minus_days today j = Inr d'" "valid_date d'" "to_ordinal d' = to_ordinal today - j"
    using minus_days_ok [OF today, of i] minus_days_ok [OF today, of j] i j by auto
  have "i = j" if "iso_date d = iso_date d'"
    using iso_date_inj [OF d(2,5) that] d(3,6) by simp
  then show ?thesis
    using d(1,4) by (simp add: period_label_def Daily)
next
  case Weekly
  obtain d d' where d: "minus_days today (7 * i) = Inr d" "valid_date d" "to_ordinal d = to_ordinal today - 7 * i"
      "minus_days today (7 * j) = Inr d'" "valid_date d'" "to_ordinal d' = to_ordinal today - 7 * j"
    using minus_days_ok [OF today, of "7 * i"] minus_days_ok [OF today, of "7 * j"] i j by auto
  obtain y w y' w' where w: "iso_week d = (y, w)" "iso_week d' = (y', w')"
    by fastforce
  note mon = iso_week_monday [OF d(2) w(1)] and mon' = iso_week_monday [OF d(5) w(2)]
  have "i = j" if "week_label (y, w) = week_label (y', w')"
  proof -
    have "y = y'" "w = w'"
      using week_label_inj [OF _ _ _ _ that] iso_week_year [OF d(2) w(1)] iso_week_year [OF d(5) w(2)] mon mon' by simp_all
    then have "to_ordinal d - to_ordinal d' < 7" "to_ordinal d' - to_ordinal d < 7"
      using mon mon' unfolding \<open>y = y'\<close> \<open>w = w'\<close> by auto
    then show ?thesis
      using d(3,6) by linarith
  qed
  then show ?thesis
    using d(1,4) w by (simp add: period_label_def Weekly)
next
  case Monthly
  let ?y = "dt_year today" and ?m = "dt_month today"
  have m: "1 \<le> ?m" "?m \<le> 12"
    using today(1) by (simp_all add: valid_date_def)
  define n where "n = 12 * ?y + (?m - i) - 1"
  define k where "k = 12 * ?y + (?m - j) - 1"
  have walks: "walk_months ?y (?m - i) = Some (n div 12, n mod 12 + 1)" "walk_months ?y (?m - j) = Some (k div 12, k mod 12 + 1)"
    using walk_months_number [of "?m - i" ?y] walk_months_number [of "?m - j" ?y] m i j by (simp_all add: n_def k_def)
  have "0 \<le> n" "0 \<le> k"
    using today(2) m i j unfolding n_def k_def by linarith+
  then have nonneg: "0 \<le> n div 12" "0 \<le> k div 12" "0 \<le> n mod 12 + 1" "0 \<le> k mod 12 + 1"
    by simp_all
  have "i = j" if "iso_month (n div 12) (n mod 12 + 1) = iso_month (k div 12) (k mod 12 + 1)"
  proof -
    have "n div 12 = k div 12" "n mod 12 = k mod 12"
      using iso_month_inj [OF nonneg that] by simp_all
    then have "n = k"
      using month_of_number [of n] month_of_number [of k] by metis
    then show ?thesis
      by (simp add: n_def k_def)
  qed
  then show ?thesis
    by (simp add: period_label_def Monthly walks)
qed


text \<open>C33: the energy endpoint answers with exactly the periods that were asked for, each under a label of its own,
  from the oldest to the current one, and every period has the four categories with the sums of its row, and
  zeros where there is none.\<close>

theorem energy_periods:
  assumes today: "valid_date today" "1000 \<le> dt_year today" and n: "n \<le> 365" and rows: "distinct (map (\<lambda>(p, n, i, out). (p, n)) rows)"
  shows "\<exists>label. inj_on label {0..<int n} \<and> (\<forall>i. 0 \<le> i \<and> i < int n \<longrightarrow> period_label kind today i = Inr (label i))
    \<and> api_energy kind n today rows
      = Inr (map (\<lambda>i. (label i, map (\<lambda>name. (name, energy_value rows (label i) name)) ENERGY_CATEGORIES)) (rev [0..int n - 1]))"
proof -
  define label where "label i = (case period_label kind today i of Inr l \<Rightarrow> l | Inl e \<Rightarrow> [])" for i
  have some: "period_label kind today i = Inr (label i)" if "0 \<le> i" "i < int n" for i
    using period_labels [OF today, of i i kind] that n by (auto simp: label_def)
  have inj: "inj_on label {0..<int n}"
  proof (rule inj_onI)
    fix i j
    assume ij: "i \<in> {0..<int n}" "j \<in> {0..<int n}" and eq: "label i = label j"
    obtain l l' where "period_label kind today i = Inr l" "period_label kind today j = Inr l'" "l = l' \<longrightarrow> i = j"
      using period_labels [OF today, of i j kind] ij n by auto
    then show "i = j"
      using eq by (simp add: label_def)
  qed
  have "set [0..int n - 1] = {0..<int n}"
    by auto
  then have dist: "distinct (map label (rev [0..int n - 1]))"
    using inj by (simp add: distinct_map)
  have "foldE (\<lambda>full i. bindE (period_label kind today i) (\<lambda>p. Inr (AList.update p (period_entry (pivot rows) p) full))) [] (rev [0..int n - 1])
      = Inr ([] @ map (\<lambda>i. (label i, period_entry (pivot rows) (label i))) (rev [0..int n - 1]))"
    by (rule foldE_fresh [OF _ dist]) (use some in auto)
  then have "api_energy kind n today rows
      = Inr (map (\<lambda>i. (label i, map (\<lambda>name. (name, energy_value rows (label i) name)) ENERGY_CATEGORIES)) (rev [0..int n - 1]))"
    by (simp add: api_energy_def period_entry_pivot [OF rows])
  then show ?thesis
    using some inj by blast
qed

theorem energy_periods_witness:
  "\<exists>table. api_energy Weekly 60 (mk_date 2026 1 2) [(''2026-W01'', ''PV power'', Some (Fin 3), None)] = Inr table \<and> length table = 60"
proof -
  let ?rows = "[(''2026-W01'', ''PV power'', Some (Fin 3), None)] :: (string \<times> string \<times> pyfloat option \<times> pyfloat option) list"
  have "valid_date (mk_date 2026 1 2)" "1000 \<le> dt_year (mk_date 2026 1 2)" "(60 :: nat) \<le> 365" "distinct (map (\<lambda>(p, n, i, out). (p, n)) ?rows)"
    by (simp_all add: valid_date_def mk_date_def days_in_month_def)
  from energy_periods [OF this, of Weekly] show ?thesis
    by auto
qed

subsection \<open>History\<close>

lemma every_nth_length: "1 \<le> step \<Longrightarrow> step * length (every_nth step xs) < length xs + step"
proof (induction step xs rule: every_nth.induct)
  case (2 step x xs)
  then show ?case
    by (cases "step - 1 \<le> length xs") (auto simp: algebra_simps not_le)
qed simp

lemma every_nth_subset: "set (every_nth step xs) \<subseteq> set xs"
  by (induction step xs rule: every_nth.induct) (auto dest: in_set_dropD)

lemma every_nth_distinct: "distinct xs \<Longrightarrow> distinct (every_nth step xs)"
proof (induction step xs rule: every_nth.induct)
  case (2 step x xs)
  then show ?case
    using every_nth_subset [of step "drop (step - 1) xs"] set_drop_subset [of "step - 1" xs] by auto
qed simp

lemma every_nth_nth:
  "1 \<le> step \<Longrightarrow> k * step < length xs \<Longrightarrow> k < length (every_nth step xs) \<and> every_nth step xs ! k = xs ! (k * step)"
proof (induction step xs arbitrary: k rule: every_nth.induct)
  case (2 step x xs)
  show ?case
  proof (cases k)
    case (Suc j)
    obtain s where s: "step = Suc s"
      using 2(2) by (cases step) auto
    have "j * step < length (drop (step - 1) xs)" "step - 1 + j * step < length xs"
      using 2(3) Suc by (simp_all add: s less_diff_conv)
    then show ?thesis
      using 2(1) [OF 2(2), of j] Suc s by (simp add: nth_drop ac_simps)
  qed simp
qed simp

text \<open>The division rounds, but not across an integer.\<close>

lemma downsample_step:
  fixes len m :: nat
  assumes "0 < m" "m \<le> 5000" "m < len" "len \<le> 2 ^ 40"
  shows "len \<le> m * nat \<lceil>fl (of_nat len / of_nat m)\<rceil>" "1 \<le> nat \<lceil>fl (of_nat len / of_nat m)\<rceil>"
proof -
  define q :: rat where "q = of_nat len / of_nat m"
  have m: "0 < (of_nat m :: rat)"
    using assms(1) by simp
  have q: "1 \<le> q" "q \<le> 2 ^ 40" "q * of_nat m = of_nat len"
  proof -
    show "1 \<le> q"
      using assms(3) m by (simp add: q_def le_divide_eq)
    have "q \<le> of_nat len"
      using m assms(1) by (simp add: q_def divide_le_eq mult_le_cancel_left1)
    also have "(of_nat len :: rat) \<le> 2 ^ 40"
      using assms(4) by (metis of_nat_le_iff of_nat_numeral of_nat_power)
    finally show "q \<le> 2 ^ 40" .
    show "q * of_nat m = of_nat len"
      using m by (simp add: q_def)
  qed
  show step1: "1 \<le> nat \<lceil>fl q\<rceil>"
    using fl_ge_int [of 1 q] q(1) by (simp add: le_nat_iff one_le_ceiling)
  define k where "k = nat \<lceil>fl q\<rceil>"
  have flk: "fl q \<le> of_nat k"
    using step1 by (simp add: k_def) linarith
  show "len \<le> m * k"
  proof (rule ccontr)
    assume "\<not> len \<le> m * k"
    then have "k * m + 1 \<le> len"
      by (simp add: mult.commute)
    then have "of_nat k * of_nat m + 1 \<le> (of_nat len :: rat)"
      by (metis of_nat_1 of_nat_add of_nat_le_iff of_nat_mult)
    then have "of_nat k + 1 / of_nat m \<le> q"
      using m by (simp add: q_def le_divide_eq distrib_right)
    moreover have "1 / 5000 \<le> 1 / (of_nat m :: rat)"
      using assms(1,2) by (simp add: divide_le_eq le_divide_eq)
    moreover have "\<bar>fl q - q\<bar> \<le> \<bar>q\<bar> / 2 ^ 53"
      by (rule fl_rel_err) (use q(1) pow2_mono [of "- 1022" 0] in \<open>simp add: pow2_def\<close>)
    moreover have "\<bar>q\<bar> / 2 ^ 53 \<le> 1 / 8192"
      using q(1,2) by simp
    ultimately show False
      using flk by linarith
  qed
qed


lemma downsample_kept:
  assumes "0 < m" "m \<le> 5000" "length xs \<le> 2 ^ 40"
  shows "\<exists>step. 1 \<le> step \<and> (length xs \<le> m \<longrightarrow> step = 1) \<and> length (downsample m xs) \<le> m
    \<and> length (downsample m xs) * step < length xs + step
    \<and> (\<forall>k. k * step < length xs \<longrightarrow> k < length (downsample m xs) \<and> downsample m xs ! k = xs ! (k * step))"
proof (cases "m < length xs")
  case False
  then show ?thesis
    by (intro exI [of _ 1]) (simp add: downsample_def)
next
  case True
  define step where "step = nat \<lceil>fl (of_nat (length xs) / of_nat m)\<rceil>"
  note bound = downsample_step [OF assms(1,2) True assms(3), folded step_def]
  have d: "downsample m xs = every_nth step xs"
    using True by (simp add: downsample_def step_def)
  note len = every_nth_length [OF bound(2), of xs]
  have "step * length (every_nth step xs) < step * Suc m"
    using len bound(1) by (simp add: mult.commute)
  then have "length (every_nth step xs) < Suc m"
    by (rule mult_less_cancel1 [THEN iffD1, THEN conjunct2])
  moreover have "\<forall>k. k * step < length xs \<longrightarrow> k < length (every_nth step xs) \<and> every_nth step xs ! k = xs ! (k * step)"
    using every_nth_nth [OF bound(2)] by blast
  ultimately show ?thesis
    using True bound(2) len unfolding d by (intro exI [of _ step]) (simp add: mult.commute)
qed

lemma history_fold_values:
  "map_of (foldl (\<lambda>m (i, name, x). if i = sid then AList.update name x m else m) m0 rows) name = Some x
    \<Longrightarrow> map_of m0 name = Some x \<or> (sid, name, x) \<in> set rows"
proof (induction rows arbitrary: m0)
  case (Cons r rows)
  obtain i n y where r: "r = (i, n, y)"
    by (cases r) auto
  let ?m = "if i = sid then AList.update n y m0 else m0"
  have "map_of ?m name = Some x \<or> (sid, name, x) \<in> set rows"
    using Cons.prems by (intro Cons.IH) (simp add: r)
  then show ?case
    by (auto simp: r update_conv' split: if_splits)
qed simp

lemma history_point_values: "map_of (snd (history_point rows (sid, ts))) name = Some x \<Longrightarrow> (sid, name, x) \<in> set rows"
  using history_fold_values [of sid "[]" rows name x] by (simp add: history_point_def)

text \<open>C35: the history answers with at most the number of points that was asked for.  They are the snapshots of the
  interval at a fixed distance, all of them when there are few enough, and a point shows only values that are
  stored for its snapshot and, if a list of fields was given, only those.\<close>

theorem history_bounded:
  assumes "0 < m" "m \<le> 5000" "length snapshots \<le> 2 ^ 40" "api_history m fs snapshots rows = Inr points"
  shows "length points \<le> m \<and> (\<exists>step. 1 \<le> step \<and> (length snapshots \<le> m \<longrightarrow> step = 1) \<and> length points * step < length snapshots + step
    \<and> (\<forall>k. k * step < length snapshots \<longrightarrow> k < length points \<and> fst (points ! k) = snd (snapshots ! (k * step))
      \<and> (\<forall>name x. map_of (snd (points ! k)) name = Some x
        \<longrightarrow> (fs = [] \<or> name \<in> set (field_names fs)) \<and> (\<exists>unit. (fst (snapshots ! (k * step)), name, x, unit) \<in> set rows))))"
proof (cases "snapshots = []")
  case True
  then have "points = []"
    using assms(4) by (simp add: api_history_def)
  with True show ?thesis
    by (auto intro!: exI [of _ 1])
next
  case False
  obtain step where step: "1 \<le> step" "length snapshots \<le> m \<longrightarrow> step = 1" "length (downsample m snapshots) \<le> m"
      "length (downsample m snapshots) * step < length snapshots + step"
    and kept: "\<And>k. k * step < length snapshots \<Longrightarrow> k < length (downsample m snapshots) \<and> downsample m snapshots ! k = snapshots ! (k * step)"
    using downsample_kept [OF assms(1-3)] by blast
  obtain found where found: "history_rows fs rows (map fst (downsample m snapshots)) = Inr found"
      and points: "points = map (history_point found) (downsample m snapshots)"
    using assms(4) False by (auto simp: api_history_def Let_def bindE_eq_Inr)
  have source: "(fs = [] \<or> name \<in> set (field_names fs)) \<and> (\<exists>unit. (i, name, x, unit) \<in> set rows)" if "(i, name, x) \<in> set found" for i name x
    using found that by (auto simp: history_rows_def split: if_splits)
  have "k < length points \<and> fst (points ! k) = snd (snapshots ! (k * step))
      \<and> (\<forall>name x. map_of (snd (points ! k)) name = Some x
        \<longrightarrow> (fs = [] \<or> name \<in> set (field_names fs)) \<and> (\<exists>unit. (fst (snapshots ! (k * step)), name, x, unit) \<in> set rows))"
    if "k * step < length snapshots" for k
  proof -
    obtain sid ts where s: "snapshots ! (k * step) = (sid, ts)"
      by fastforce
    have p: "k < length points" "points ! k = history_point found (sid, ts)"
      using kept [OF that] by (simp_all add: points s)
    have "fst (history_point found (sid, ts)) = ts"
      by (simp add: history_point_def)
    then show ?thesis
      using p s source history_point_values by fastforce
  qed
  then show ?thesis
    using step points by auto
qed


theorem history_bounded_witness:
  "\<exists>points. api_history 2 [] [(1, ''a''), (2, ''b''), (3, ''c''), (4, ''d''), (5, ''e''), (6, ''f'')] [(4, ''soc'', Fin 80, ''%'')] = Inr points
    \<and> length points \<le> 2"
proof -
  let ?snapshots = "[(1, ''a''), (2, ''b''), (3, ''c''), (4, ''d''), (5, ''e''), (6, ''f'')] :: (int \<times> string) list"
  obtain points where "api_history 2 [] ?snapshots [(4, ''soc'', Fin 80, ''%'')] = Inr points"
    by (simp add: api_history_def history_rows_def Let_def)
  then show ?thesis
    using history_bounded [of 2 ?snapshots "[]" "[(4, ''soc'', Fin 80, ''%'')]" points] by simp
qed

subsection \<open>Live alerts\<close>

lemma cfg_float_number: "map_of cfg name = Some (JFloat (Fin x)) \<Longrightarrow> cfg_float cfg name (Fin d) = Inr (if x = 0 then Fin d else Fin x)"
  by (simp add: cfg_float_def getattr_def Let_def)

lemma fresh_grid_rule: "0 < thr \<Longrightarrow> \<not> fst (fst (grid_rule (Fin t0) (Fin thr) decoded None))"
  using dbl_of_int [of 0] by (simp add: grid_rule_def Let_def minus_pyfloat_def)

text \<open>The live alerts never report that the grid is lost, whatever the snapshot says, as long as the threshold is not
  negative: the timer of the loss starts with the evaluator, and every request has a new one.\<close>

lemma live_grid_loss_never:
  assumes "api_alerts_live m db clock = Inr alerts" "ac_now clock = Fin t0"
    and "setting_float (settings_get db ''alerts_grid_lost_threshold_sec'') (Fin 30) = Fin t" "0 \<le> t" "(''grid_loss'', s) \<in> set alerts"
  shows "\<not> as_active s"
proof (cases "fetch_latest_snapshot m db")
  case None
  then show ?thesis
    using assms(1,5) by (simp add: api_alerts_live_def)
next
  case (Some latest)
  obtain sid registers where latest: "latest = (sid, registers)"
    by (cases latest)
  let ?cfg = "live_cfg db" and ?d = "numeric_readings registers"
  have ev: "fst (evaluate_alerts clock ?d (new_alerts ?cfg False False)) = Inr alerts"
    using assms(1) by (simp add: api_alerts_live_def Some latest)
  have since: "al_grid_lost_since (new_alerts ?cfg False False) = None" "al_cfg (new_alerts ?cfg False False) = ?cfg"
    by (simp_all add: new_alerts_def)
  have on: "cfg_bool ?cfg ''alerts_enabled'' False"
    using ev assms(5) by (auto simp: evaluate_alerts_def since split: if_splits)
  then obtain limits where limits: "alert_thresholds ?cfg = Inr limits"
    using ev by (cases "alert_thresholds ?cfg") (simp_all add: evaluate_alerts_def since)
  let ?grid = "grid_rule (ac_now clock) (li_grid_lost limits) ?d None"
  have alerts: "alerts = map (status_of clock) (alert_results limits ?d (fst ?grid))"
    using ev on limits by (simp add: evaluate_alerts_def since case_prod_unfold Let_def)
  have "map_of ?cfg ''alerts_grid_lost_threshold_sec'' = Some (JFloat (Fin t))"
    by (simp add: live_cfg_def assms(3))
  from cfg_float_number [OF this, of 30] obtain thr where thr: "li_grid_lost limits = Fin thr" "0 < thr"
    using limits assms(4) by (fastforce simp: alert_thresholds_def bindE_eq_Inr split: if_splits)
  have "s = snd (status_of clock (''grid_loss'', fst ?grid))"
    using assms(5) unfolding alerts by (auto simp: alert_results_def status_of_def case_prod_unfold)
  then show ?thesis
    using fresh_grid_rule [OF thr(2), of t0 ?d] by (simp add: status_of_def case_prod_unfold assms(2) thr(1))
qed

end
