(* ===== verification/Api_Settings.thy ===== *)
theory Api_Settings
  imports Api_Holding Mqtt_Commands "HOL-Library.List_Lexorder"
begin

text \<open>
  The settings endpoints of \<^verbatim>\<open>src/api/__init__.py\<close>: the listing with effective values and their source, the settings
  that can be changed at run time, reading one setting, and writing one with its mirror in the
  environment file.  The file is its text, or missing; texts are bytes in UTF-8.
\<close>

subsection \<open>Listing\<close>

record shown_setting =
  ss_value :: json
  ss_stored :: string
  ss_source :: string
  ss_label :: string
  ss_type :: string
  ss_section :: string
  ss_options :: "(string \<times> string) list"
  ss_hint :: string
  ss_min :: "json option"
  ss_max :: "json option"
  ss_step :: "json option"

definition setting_source :: "environment \<Rightarrow> string \<Rightarrow> string \<Rightarrow> string" where
  "setting_source env key stored =
    (if (case map_of SETTING_ENV key of Some (env_var, _) \<Rightarrow> env env_var \<noteq> None \<and> env env_var \<noteq> Some [] | None \<Rightarrow> False) then ''env''
     else if stored \<noteq> [] then ''db'' else ''default'')"

definition meta_for :: "string \<Rightarrow> setting_meta" where
  "meta_for key = (case map_of SETTING_META key of Some meta \<Rightarrow> meta | None \<Rightarrow> smeta key ''text'' ''general'' None None None [] [])"

definition enriched_setting :: "environment \<Rightarrow> string \<Rightarrow> string \<Rightarrow> shown_setting" where
  "enriched_setting env key stored = (let meta = meta_for key in
     \<lparr>ss_value = effective_value env key (Some stored), ss_stored = stored, ss_source = setting_source env key stored,
      ss_label = sm_label meta, ss_type = sm_type meta, ss_section = sm_section meta, ss_options = sm_options meta,
      ss_hint = sm_hint meta, ss_min = sm_min meta, ss_max = sm_max meta, ss_step = sm_step meta\<rparr>)"

definition api_settings :: "environment \<Rightarrow> database \<Rightarrow> (string \<times> shown_setting) list \<times> database" where
  "api_settings env db = (let db = snd (seed_defaults db) in
     (map (\<lambda>(key, stored). (key, enriched_setting env key stored)) (get_all db), db))"

record controllable_setting =
  cs_value :: json
  cs_meta :: setting_meta

definition controllable_setting_of :: "environment \<Rightarrow> settings_table \<Rightarrow> string \<Rightarrow> controllable_setting" where
  "controllable_setting_of env settings name =
    \<lparr>cs_value = effective_value env name (map_of settings name), cs_meta = meta_for name\<rparr>"

text \<open>The names are sorted by code point.\<close>

definition api_settings_controllable :: "environment \<Rightarrow> database \<Rightarrow> (string \<times> controllable_setting) list \<times> database" where
  "api_settings_controllable env db = (let db = snd (seed_defaults db) in
     (map (\<lambda>name. (name, controllable_setting_of env (get_all db) name)) (sort_key (\<lambda>name. map char_code name) CONTROLLABLE_SETTINGS), db))"

definition api_setting_get :: "environment \<Rightarrow> database \<Rightarrow> string \<Rightarrow> json reply" where
  "api_setting_get env db name = (let stored = settings_get db name in
     if stored = None \<and> map_of DEFAULTS name = None then Failure 404 (''Setting '' @ [CHR 0x27] @ name @ [CHR 0x27] @ '' not found'')
     else Reply (effective_value env name stored))"


subsection \<open>The environment file\<close>

text \<open>\<^verbatim>\<open>str.splitlines\<close> on the bytes of the text: how many bytes at the start end a line.\<close>

definition break_length :: "string \<Rightarrow> nat" where
  "break_length s = (case s of
     [] \<Rightarrow> 0
   | c # r \<Rightarrow> if c = CHR 0x0D then (if take 1 r = [CHR 0x0A] then 2 else 1)
       else if List.member [CHR 0x0A, CHR 0x0B, CHR 0x0C, CHR 0x1C, CHR 0x1D, CHR 0x1E] c then 1
       else if c = CHR 0xC2 \<and> take 1 r = [CHR 0x85] then 2
       else if c = CHR 0xE2 \<and> (take 2 r = [CHR 0x80, CHR 0xA8] \<or> take 2 r = [CHR 0x80, CHR 0xA9]) then 3
       else 0)"

function lines_from :: "string \<Rightarrow> string \<Rightarrow> string list" where
  "lines_from line [] = (if line = [] then [] else [line])"
| "lines_from line (c # s) =
    (if break_length (c # s) = 0 then lines_from (line @ [c]) s else line # lines_from [] (drop (break_length (c # s) - 1) s))"
  by pat_completeness auto

termination
  by (relation "measure (\<lambda>(line, s). length s)") auto

definition splitlines :: "string \<Rightarrow> string list" where
  "splitlines s = lines_from [] s"

text \<open>Every line that assigns the variable is replaced; without one, the assignment is appended.\<close>

definition assigns :: "string \<Rightarrow> string \<Rightarrow> bool" where
  "assigns env_var line \<longleftrightarrow> take (length env_var + 1) line = env_var @ ''=''"

definition mirror_lines :: "string \<Rightarrow> string \<Rightarrow> string list \<Rightarrow> string list" where
  "mirror_lines env_var value ls =
    map (\<lambda>line. if assigns env_var line then env_var @ ''='' @ value else line) ls
    @ (if list_ex (assigns env_var) ls then [] else [env_var @ ''='' @ value])"

definition joined_lines :: "string list \<Rightarrow> string" where
  "joined_lines ls = join [CHR 0x0A] ls @ [CHR 0x0A]"

text \<open>Reading or opening the file may be denied, and the write may break off after some characters, when the
  file has already been truncated; both are only logged.\<close>

datatype env_access = Granted | Denied | Broken nat

definition sync_env_file :: "env_access \<Rightarrow> string \<Rightarrow> string \<Rightarrow> string option \<Rightarrow> string option" where
  "sync_env_file access name value file = (case map_of SETTING_ENV name of
     None \<Rightarrow> file
   | Some (env_var, _) \<Rightarrow> (case file of
       None \<Rightarrow> None
     | Some content \<Rightarrow>
        let content' = joined_lines (mirror_lines env_var value (splitlines content)) in
        (case access of Granted \<Rightarrow> Some content' | Denied \<Rightarrow> Some content | Broken n \<Rightarrow> Some (take n content'))))"

text \<open>A write that the database refuses is only logged, and the answer is the same.\<close>

definition api_setting_put :: "env_access \<Rightarrow> string \<Rightarrow> json \<Rightarrow> database \<Rightarrow> string option \<Rightarrow> string \<times> database \<times> string option" where
  "api_setting_put access name body db file =
    (let value = (if body = JNull then [] else py_str body)
     in (value, settings_set name value db, sync_env_file access name value file))"

end
