(* ===== verification/Api_Settings_Facts.thy ===== *)
theory Api_Settings_Facts
  imports Api_Settings Configuration
begin

text \<open>
  What a write through the settings endpoint leaves behind: the row, the mirrored line of the environment
  file, and what the reading endpoint and the collector then take for the value.
\<close>

subsection \<open>Lines\<close>

fun unbroken :: "string \<Rightarrow> bool" where
  "unbroken [] \<longleftrightarrow> True"
| "unbroken (c # s) \<longleftrightarrow> break_length (c # s) = 0 \<and> unbroken s"

lemma break_length_append:
  assumes "break_length (c # s) = 0" "x \<notin> {CHR 0x80, CHR 0x85, CHR 0xA8, CHR 0xA9}"
  shows "break_length (c # s @ x # r) = 0"
proof (cases s)
  case Nil
  then show ?thesis
    using assms by (auto simp: break_length_def split: if_splits)
next
  case (Cons d s')
  then show ?thesis
    using assms by (cases s') (auto simp: break_length_def split: if_splits)
qed

lemma break_length_prefix: "break_length (c # s @ r) = 0 \<Longrightarrow> break_length (c # s) = 0"
proof (cases s)
  case (Cons d s')
  then show "break_length (c # s @ r) = 0 \<Longrightarrow> ?thesis"
    by (cases s') (auto simp: break_length_def split: if_splits)
qed (auto simp: break_length_def split: if_splits)

lemma unbroken_prefix: "unbroken (a @ b) \<Longrightarrow> unbroken a"
  by (induction a) (auto dest: break_length_prefix)

lemma unbroken_joined:
  assumes "unbroken a" "unbroken b" "x \<notin> {CHR 0x80, CHR 0x85, CHR 0xA8, CHR 0xA9}" "break_length (x # b) = 0"
  shows "unbroken (a @ x # b)"
  using assms by (induction a) (auto intro: break_length_append)

lemma lines_from_unbroken: "unbroken s \<Longrightarrow> lines_from line (s @ CHR 0x0A # r) = (line @ s) # lines_from [] r"
proof (induction s arbitrary: line)
  case Nil
  then show ?case
    by (simp add: break_length_def)
next
  case (Cons c s)
  have "break_length (c # s @ CHR 0x0A # r) = 0"
    by (rule break_length_append) (use Cons.prems in auto)
  then show ?case
    using Cons by simp
qed

lemma splitlines_joined: "ls \<noteq> [] \<Longrightarrow> list_all unbroken ls \<Longrightarrow> splitlines (joined_lines ls) = ls"
  unfolding splitlines_def joined_lines_def
proof (induction ls)
  case (Cons x ls)
  show ?case
  proof (cases ls)
    case Nil
    then show ?thesis
      using Cons.prems lines_from_unbroken [of x "[]" "[]"] by simp
  next
    case (Cons y ys)
    then show ?thesis
      using Cons.IH Cons.prems lines_from_unbroken [of x "[]" "join [CHR 0x0A] (y # ys) @ [CHR 0x0A]"] by simp
  qed
qed simp

text \<open>The part of the text before a line break has none.\<close>

definition unbroken_before :: "string \<Rightarrow> string \<Rightarrow> bool" where
  "unbroken_before line s \<longleftrightarrow> (\<forall>a c b. line = a @ c # b \<longrightarrow> break_length (c # b @ s) = 0)"

lemma unbroken_beforeD: "unbroken_before line s \<Longrightarrow> unbroken line"
proof (induction line)
  case (Cons c line)
  then have "break_length (c # line @ s) = 0" "unbroken_before line s"
    by (auto simp: unbroken_before_def)
  then show ?case
    using Cons.IH break_length_prefix by auto
qed simp

lemma lines_from_lines: "unbroken_before line s \<Longrightarrow> list_all unbroken (lines_from line s)"
proof (induction line s rule: lines_from.induct)
  case (1 line)
  then show ?case
    using unbroken_beforeD by auto
next
  case (2 line c s)
  show ?case
  proof (cases "break_length (c # s) = 0")
    case True
    have "unbroken_before (line @ [c]) s"
      unfolding unbroken_before_def
    proof (intro allI impI)
      fix a d b
      assume "line @ [c] = a @ d # b"
      then show "break_length (d # b @ s) = 0"
        using 2(3) True by (cases b rule: rev_cases) (auto simp: unbroken_before_def)
    qed
    then show ?thesis
      using 2(1) True by simp
  next
    case False
    then show ?thesis
      using 2(2) unbroken_beforeD [OF 2(3)] by (simp add: unbroken_before_def)
  qed
qed

lemma splitlines_unbroken: "list_all unbroken (splitlines s)"
  unfolding splitlines_def by (rule lines_from_lines) (simp add: unbroken_before_def)


subsection \<open>Writing a setting\<close>

lemma env_vars_unbroken: "map_of SETTING_ENV name = Some (env_var, c) \<Longrightarrow> unbroken env_var"
proof -
  assume "map_of SETTING_ENV name = Some (env_var, c)"
  then have "(name, env_var, c) \<in> set SETTING_ENV"
    by (rule map_of_SomeD)
  moreover have "list_all (\<lambda>(name, env_var, c). unbroken env_var) SETTING_ENV"
    by code_simp
  ultimately show ?thesis
    by (auto simp: list_all_iff)
qed

lemma assignment_unbroken: "map_of SETTING_ENV name = Some (env_var, c) \<Longrightarrow> unbroken written \<Longrightarrow> unbroken (env_var @ ''='' @ written)"
  using unbroken_joined [OF env_vars_unbroken, of name env_var c written "CHR ''=''"] by (simp add: break_length_def)

lemma assigns_self: "assigns env_var (env_var @ ''='' @ written)"
  by (simp add: assigns_def)

lemma mirror_lines_spec:
  "filter (\<lambda>l. \<not> assigns v l) (mirror_lines v written ls) = filter (\<lambda>l. \<not> assigns v l) ls
   \<and> (\<forall>l \<in> set (mirror_lines v written ls). assigns v l \<longrightarrow> l = v @ ''='' @ written)
   \<and> v @ ''='' @ written \<in> set (mirror_lines v written ls)"
proof -
  have "filter (\<lambda>l. \<not> assigns v l) (map (\<lambda>l. if assigns v l then v @ ''='' @ written else l) ls) = filter (\<lambda>l. \<not> assigns v l) ls"
    by (induction ls) (use assigns_self in auto)
  then show ?thesis
    using assigns_self [of v written] by (auto simp: mirror_lines_def list_ex_iff)
qed

lemma mirrored_content:
  assumes "map_of SETTING_ENV name = Some (env_var, c)" "unbroken written"
  shows "sync_env_file Granted name written (Some content) = Some (joined_lines (mirror_lines env_var written (splitlines content)))
    \<and> splitlines (joined_lines (mirror_lines env_var written (splitlines content))) = mirror_lines env_var written (splitlines content)"
proof -
  have "list_all unbroken (mirror_lines env_var written (splitlines content))"
    using splitlines_unbroken [of content] assignment_unbroken [OF assms] by (auto simp: mirror_lines_def list_all_iff)
  moreover have "mirror_lines env_var written (splitlines content) \<noteq> []"
    by (auto simp: mirror_lines_def)
  ultimately show ?thesis
    using assms(1) splitlines_joined by (simp add: sync_env_file_def)
qed

text \<open>C36: writing a setting stores its row and leaves an environment file in which the variable of the setting is
  assigned, every assignment of it has the written value, and the other lines are as before, provided the
  value has no line break; a setting without a variable does not touch the file.  When access to the file is
  denied it stays as it is, and when the write breaks off a prefix of that content is left.\<close>

theorem setting_written:
  assumes "unbroken written"
  shows "case api_setting_put access name (JStr written) (Readable rows) env_file of (answer, db, env_file') \<Rightarrow>
    answer = written \<and> settings_get db name = Some written \<and> (\<forall>other. other \<noteq> name \<longrightarrow> settings_get db other = settings_get (Readable rows) other)
    \<and> (case (map_of SETTING_ENV name, env_file) of
         (Some (env_var, c), Some content) \<Rightarrow> (\<exists>content'.
             env_file' = (case access of Granted \<Rightarrow> Some content' | Denied \<Rightarrow> env_file | Broken n \<Rightarrow> Some (take n content'))
           \<and> env_var @ ''='' @ written \<in> set (splitlines content')
           \<and> list_all (\<lambda>l. assigns env_var l \<longrightarrow> l = env_var @ ''='' @ written) (splitlines content')
           \<and> filter (\<lambda>l. \<not> assigns env_var l) (splitlines content') = filter (\<lambda>l. \<not> assigns env_var l) (splitlines content))
       | _ \<Rightarrow> env_file' = env_file)"
proof -
  have db: "settings_get (settings_set name written (Readable rows)) other = (if other = name then Some written else settings_get (Readable rows) other)" for other
    by (simp add: settings_get_set)
  have mirrored: "case (map_of SETTING_ENV name, env_file) of
         (Some (env_var, c), Some content) \<Rightarrow> (\<exists>content'.
             sync_env_file access name written env_file = (case access of Granted \<Rightarrow> Some content' | Denied \<Rightarrow> env_file | Broken n \<Rightarrow> Some (take n content'))
           \<and> env_var @ ''='' @ written \<in> set (splitlines content')
           \<and> list_all (\<lambda>l. assigns env_var l \<longrightarrow> l = env_var @ ''='' @ written) (splitlines content')
           \<and> filter (\<lambda>l. \<not> assigns env_var l) (splitlines content') = filter (\<lambda>l. \<not> assigns env_var l) (splitlines content))
       | _ \<Rightarrow> sync_env_file access name written env_file = env_file"
  proof (cases "map_of SETTING_ENV name")
    case (Some e)
    obtain env_var c where e: "e = (env_var, c)"
      by (cases e)
    show ?thesis
    proof (cases "env_file")
      case (Some content)
      then show ?thesis
        using \<open>map_of SETTING_ENV name = Some e\<close> e mirrored_content [OF _ assms, of name env_var c content]
          mirror_lines_spec [of env_var written "splitlines content"]
        by (simp only: option.case prod.case)
          (intro exI [of _ "joined_lines (mirror_lines env_var written (splitlines content))"],
            simp add: list_all_iff sync_env_file_def Let_def split: env_access.split)
    qed (use Some e in \<open>simp add: sync_env_file_def\<close>)
  qed (simp add: sync_env_file_def)
  show ?thesis
    using db mirrored by (simp add: api_setting_put_def py_str_def Let_def)
qed

theorem setting_written_witness:
  "\<exists>content. snd (snd (api_setting_put Granted ''mqtt_host'' (JStr ''broker-b'') (Readable []) (Some (''A=1'' @ [CHR 0x0A] @ ''LUX_MQTT_HOST=x'')))) = Some content
     \<and> ''LUX_MQTT_HOST=broker-b'' \<in> set (splitlines content)"
proof -
  have "unbroken ''broker-b''"
    by code_simp
  moreover have "map_of SETTING_ENV ''mqtt_host'' = Some (''LUX_MQTT_HOST'', CastStr)"
    by code_simp
  ultimately show ?thesis
    using setting_written [where written = "''broker-b''" and access = Granted and name = "''mqtt_host''" and rows = "[]"
        and env_file = "Some (''A=1'' @ [CHR 0x0A] @ ''LUX_MQTT_HOST=x'')"]
    by (auto simp: case_prod_unfold)
qed

text \<open>A line feed in the written value starts a line of its own.\<close>

lemma break_span:
  "break_length (c # q @ CHR 0x0A # s) = 0 \<or> break_length (c # q @ CHR 0x0A # s) - 1 \<le> length q
    \<or> q = [] \<and> break_length (c # q @ CHR 0x0A # s) = 2"
proof -
  have le: "break_length (c # r) \<le> 3" for r
    by (simp add: break_length_def)
  show ?thesis
  proof (cases q)
    case Nil
    then show ?thesis
      by (simp add: break_length_def)
  next
    case (Cons d q')
    then show ?thesis
      using le [of "q @ CHR 0x0A # s"] by (cases q') (auto simp: break_length_def)
  qed
qed

lemma lines_from_after_feed: "\<exists>ls. lines_from line (p @ CHR 0x0A # s) = ls @ lines_from [] s"
proof (induction "length p" arbitrary: p line rule: less_induct)
  case less
  show ?case
  proof (cases p)
    case Nil
    then show ?thesis
      by (intro exI [of _ "[line]"]) (simp add: break_length_def)
  next
    case (Cons c q)
    define k where "k = break_length (c # q @ CHR 0x0A # s)"
    have step: "lines_from line (p @ CHR 0x0A # s)
        = (if k = 0 then lines_from (line @ [c]) (q @ CHR 0x0A # s) else line # lines_from [] (drop (k - 1) (q @ CHR 0x0A # s)))"
      by (simp add: Cons k_def)
    have "k = 0 \<or> k - 1 \<le> length q \<or> q = [] \<and> k = 2"
      unfolding k_def by (rule break_span)
    then consider "k = 0" | "k \<noteq> 0" "k - 1 \<le> length q" | "q = []" "k = 2"
      by blast
    then show ?thesis
    proof cases
      case 1
      then show ?thesis
        using less [of q "line @ [c]"] step Cons by simp
    next
      case 2
      have "length (drop (k - 1) q) < length p"
        by (simp add: Cons)
      from less [OF this, of "[]"] obtain ls where "lines_from [] (drop (k - 1) q @ CHR 0x0A # s) = ls @ lines_from [] s"
        by blast
      then show ?thesis
        using 2 step by (intro exI [of _ "line # ls"]) simp
    next
      case 3
      then show ?thesis
        using step by (intro exI [of _ "[line]"]) simp
    qed
  qed
qed

lemma joined_lines_concat: "ls \<noteq> [] \<Longrightarrow> joined_lines ls = concat (map (\<lambda>l. l @ [CHR 0x0A]) ls)"
  unfolding joined_lines_def
proof (induction ls)
  case (Cons x ls)
  then show ?case
    by (cases ls) simp_all
qed simp

lemma spliced_line:
  assumes "x @ CHR 0x0A # l \<in> set ls" "unbroken l"
  shows "l \<in> set (splitlines (joined_lines ls))"
proof -
  obtain ls1 ls2 where ls: "ls = ls1 @ (x @ CHR 0x0A # l) # ls2"
    using assms(1) by (meson split_list)
  let ?p = "concat (map (\<lambda>l. l @ [CHR 0x0A]) ls1) @ x" and ?r = "concat (map (\<lambda>l. l @ [CHR 0x0A]) ls2)"
  have "joined_lines ls = ?p @ CHR 0x0A # (l @ CHR 0x0A # ?r)"
    by (simp add: joined_lines_concat ls)
  moreover obtain pre where "lines_from [] (?p @ CHR 0x0A # (l @ CHR 0x0A # ?r)) = pre @ lines_from [] (l @ CHR 0x0A # ?r)"
    using lines_from_after_feed [of "[]" ?p "l @ CHR 0x0A # ?r"] by blast
  ultimately show ?thesis
    using lines_from_unbroken [OF assms(2), of "[]" ?r] by (simp add: splitlines_def)
qed

text \<open>Nothing keeps a written value from containing a line feed, and what follows it becomes a line of the
  environment file: whoever may set any mirrored setting can assign any other variable of the stack.\<close>

lemma line_feed_spliced:
  assumes "map_of SETTING_ENV name = Some (env_var, c)" "unbroken l"
  shows "\<exists>content'. snd (snd (api_setting_put Granted name (JStr (x @ CHR 0x0A # l)) db (Some content))) = Some content' \<and> l \<in> set (splitlines content')"
proof -
  let ?written = "x @ CHR 0x0A # l"
  have "(env_var @ ''='' @ x) @ CHR 0x0A # l \<in> set (mirror_lines env_var ?written (splitlines content))"
    using mirror_lines_spec [of env_var ?written "splitlines content"] by simp
  from spliced_line [OF this assms(2)] show ?thesis
    by (simp add: api_setting_put_def sync_env_file_def assms(1) py_str_def Let_def)
qed

text \<open>While the environment variable of a setting is set, the endpoint that reads the setting answers with the variable
  whatever was written before, although the collector takes a written value that is not empty.\<close>

lemma written_setting_hidden:
  assumes "map_of SETTING_ENV name = Some (env_var, c)" "env env_var = Some raw" "raw \<noteq> []" "written \<noteq> []"
  shows "api_setting_get env (fst (snd (api_setting_put access name (JStr written) (Readable rows) file))) name = Reply (cast_env raw c)
    \<and> override (fst (snd (api_setting_put access name (JStr written) (Readable rows) file))) name current c = convert_setting written c current"
  using assms by (simp add: api_setting_put_def api_setting_get_def effective_value_def override_def settings_get_set py_str_def Let_def)

end
