(* ===== verification/Live_Feed.thy ===== *)
theory Live_Feed
  imports Prelude
begin

text \<open>
  The live feed of \<^verbatim>\<open>src/api/__init__.py\<close>: the websocket clients and the background task that sends them every
  new snapshot.  The tasks of the event loop switch only where they wait, so a step is the code between two
  waits.  A client is a connection object, which is never used again; of a snapshot only its id counts.
\<close>

subsection \<open>State\<close>

text \<open>The background task sleeps, waits for the thread that queries the snapshot, waits to go on with what the query gave,
  waits until it was sent to one client, or has ended with an exception.  While it sends, it remembers the clients that had their turn, those at the start of the loop,
  and those that could not be reached.\<close>

datatype broadcaster =
    Asleep
  | Fetching
  | Holding "int option"
  | Sending (snapshot: int) (receiver: nat) (served: "nat list") (members: "nat list") (unreachable: "nat list")
  | Ended

text \<open>Three logs: the greetings of the endpoint, what the task has sent, and both in the order in which they were sent.\<close>

record feed =
  fd_clients :: "nat list"
  fd_seen :: "nat list"
  fd_last :: "int option"
  fd_task :: broadcaster
  fd_newest :: "int option"
  fd_greetings :: "(nat \<times> int) list"
  fd_log :: "(nat \<times> int) list"
  fd_received :: "(nat \<times> int) list"

definition new_feed :: "int option \<Rightarrow> feed" where
  "new_feed newest = \<lparr>fd_clients = [], fd_seen = [], fd_last = None, fd_task = Asleep, fd_newest = newest, fd_greetings = [], fd_log = [], fd_received = []\<rparr>"

subsection \<open>Steps\<close>

text \<open>What may happen next: a snapshot is stored, a client connects or leaves, the task wakes up, its query reads the newest
  snapshot or none, the task goes on with it, or is done with one client, reached or not; the choices name the next client.
  Between the query and the loop other tasks may run, so what the task sends may be older than the newest snapshot.\<close>

datatype event = Stored int | Connect nat | Leave nat | Wake | Queried bool | Fetched "nat option" | Sent bool "nat option"

text \<open>The loop over the set of clients: the iterator refuses a set whose size has changed, and otherwise goes to a client
  that had no turn; one that has joined since the start may be passed over.\<close>

definition loop_next :: "int \<Rightarrow> nat list \<Rightarrow> nat list \<Rightarrow> nat list \<Rightarrow> nat option \<Rightarrow> feed \<Rightarrow> feed option" where
  "loop_next sid had start lost choice fd =
    (if length (fd_clients fd) \<noteq> length start then Some (fd\<lparr>fd_task := Ended\<rparr>)
     else (case choice of
       Some c \<Rightarrow> if List.member (fd_clients fd) c \<and> \<not> List.member had c then Some (fd\<lparr>fd_task := Sending sid c had start lost\<rparr>) else None
     | None \<Rightarrow> if list_all (\<lambda>c. List.member had c \<or> \<not> List.member start c) (fd_clients fd)
         then Some (fd\<lparr>fd_clients := filter (\<lambda>c. \<not> List.member lost c) (fd_clients fd), fd_task := Asleep\<rparr>) else None))"

fun feed_step :: "event \<Rightarrow> feed \<Rightarrow> feed option" where
  "feed_step (Stored i) fd = (case fd_newest fd of
     Some n \<Rightarrow> if n < i then Some (fd\<lparr>fd_newest := Some i\<rparr>) else None
   | None \<Rightarrow> Some (fd\<lparr>fd_newest := Some i\<rparr>))"
| "feed_step (Connect c) fd = (if List.member (fd_seen fd) c then None
     else Some (fd\<lparr>fd_clients := fd_clients fd @ [c], fd_seen := fd_seen fd @ [c],
       fd_greetings := fd_greetings fd @ (case fd_newest fd of Some n \<Rightarrow> [(c, n)] | None \<Rightarrow> []),
       fd_received := fd_received fd @ (case fd_newest fd of Some n \<Rightarrow> [(c, n)] | None \<Rightarrow> [])\<rparr>))"
| "feed_step (Leave c) fd = (if List.member (fd_clients fd) c then Some (fd\<lparr>fd_clients := removeAll c (fd_clients fd)\<rparr>) else None)"
| "feed_step Wake fd = (if fd_task fd = Asleep
     then Some (if fd_clients fd = [] then fd\<lparr>fd_last := None\<rparr> else fd\<lparr>fd_task := Fetching\<rparr>) else None)"
| "feed_step (Queried ok) fd = (if fd_task fd = Fetching
     then Some (fd\<lparr>fd_task := Holding (if ok then fd_newest fd else None)\<rparr>) else None)"
| "feed_step (Fetched choice) fd = (case fd_task fd of
     Holding None \<Rightarrow> Some (fd\<lparr>fd_task := Asleep\<rparr>)
   | Holding (Some sid) \<Rightarrow> if fd_last fd = Some sid then Some (fd\<lparr>fd_task := Asleep\<rparr>)
         else loop_next sid [] (fd_clients fd) [] choice (fd\<lparr>fd_last := Some sid\<rparr>)
   | _ \<Rightarrow> None)"
| "feed_step (Sent ok choice) fd = (case fd_task fd of
     Sending sid c had start lost \<Rightarrow> loop_next sid (c # had) start (if ok then lost else c # lost) choice
       (if ok then fd\<lparr>fd_log := fd_log fd @ [(c, sid)], fd_received := fd_received fd @ [(c, sid)]\<rparr> else fd)
   | _ \<Rightarrow> None)"

definition run_feed :: "event list \<Rightarrow> feed \<Rightarrow> feed option" where
  "run_feed events fd = foldl (\<lambda>fd e. Option.bind fd (feed_step e)) (Some fd) events"

text \<open>The states the program can be in.\<close>

inductive reachable :: "feed \<Rightarrow> bool" where
  start: "reachable (new_feed newest)"
| step: "reachable fd \<Longrightarrow> feed_step e fd = Some fd' \<Longrightarrow> reachable fd'"

end
