(* ===== verification/Live_Feed_Facts.thy ===== *)
theory Live_Feed_Facts
  imports Live_Feed
begin

text \<open>
  What the clients of the live feed get: at most one greeting and then snapshots in their order, and how a client that comes or goes
  at the wrong moment ends the feed of all of them.
\<close>

subsection \<open>Snapshots in order\<close>

text \<open>What a client has got from the task, as its greeting, and in all.\<close>

definition ids_of :: "nat \<Rightarrow> feed \<Rightarrow> int list" where
  "ids_of c fd = map snd (filter (\<lambda>(d, i). d = c) (fd_log fd))"

definition greetings_of :: "nat \<Rightarrow> feed \<Rightarrow> int list" where
  "greetings_of c fd = map snd (filter (\<lambda>(d, i). d = c) (fd_greetings fd))"

definition received_of :: "nat \<Rightarrow> feed \<Rightarrow> int list" where
  "received_of c fd = map snd (filter (\<lambda>(d, i). d = c) (fd_received fd))"

text \<open>A snapshot may be sent to a client: it is newer than what the task has sent, and, but for the first time, not older
  than the greeting.\<close>

definition due :: "int \<Rightarrow> nat \<Rightarrow> feed \<Rightarrow> bool" where
  "due sid c fd \<longleftrightarrow> (\<forall>i \<in> set (ids_of c fd). i < sid) \<and> (ids_of c fd \<noteq> [] \<longrightarrow> (\<forall>g \<in> set (greetings_of c fd). g \<le> sid))"


text \<open>The messages of one client.\<close>

definition client_inv :: "feed \<Rightarrow> nat \<Rightarrow> bool" where
  "client_inv fd c \<longleftrightarrow> sorted_wrt (<) (ids_of c fd)
     \<and> received_of c fd = greetings_of c fd @ ids_of c fd \<and> length (greetings_of c fd) \<le> 1
     \<and> (\<forall>g \<in> set (greetings_of c fd). \<forall>i \<in> set (tl (ids_of c fd)). g \<le> i)
     \<and> (received_of c fd \<noteq> [] \<longrightarrow> List.member (fd_seen fd) c)
     \<and> (\<forall>g \<in> set (greetings_of c fd). \<exists>n. fd_newest fd = Some n \<and> g \<le> n)"




lemma logs_other [simp]:
  "ids_of c (fd\<lparr>fd_clients := cs\<rparr>) = ids_of c fd" "ids_of c (fd\<lparr>fd_task := t\<rparr>) = ids_of c fd" "ids_of c (fd\<lparr>fd_last := l\<rparr>) = ids_of c fd"
  "ids_of c (fd\<lparr>fd_newest := n\<rparr>) = ids_of c fd" "ids_of c (fd\<lparr>fd_seen := s\<rparr>) = ids_of c fd" "ids_of c (fd\<lparr>fd_greetings := g\<rparr>) = ids_of c fd"
  "ids_of c (fd\<lparr>fd_received := r\<rparr>) = ids_of c fd"
  "greetings_of c (fd\<lparr>fd_clients := cs\<rparr>) = greetings_of c fd" "greetings_of c (fd\<lparr>fd_task := t\<rparr>) = greetings_of c fd"
  "greetings_of c (fd\<lparr>fd_last := l\<rparr>) = greetings_of c fd" "greetings_of c (fd\<lparr>fd_newest := n\<rparr>) = greetings_of c fd"
  "greetings_of c (fd\<lparr>fd_seen := s\<rparr>) = greetings_of c fd" "greetings_of c (fd\<lparr>fd_log := g\<rparr>) = greetings_of c fd"
  "greetings_of c (fd\<lparr>fd_received := r\<rparr>) = greetings_of c fd"
  "received_of c (fd\<lparr>fd_clients := cs\<rparr>) = received_of c fd" "received_of c (fd\<lparr>fd_task := t\<rparr>) = received_of c fd"
  "received_of c (fd\<lparr>fd_last := l\<rparr>) = received_of c fd" "received_of c (fd\<lparr>fd_newest := n\<rparr>) = received_of c fd"
  "received_of c (fd\<lparr>fd_seen := s\<rparr>) = received_of c fd" "received_of c (fd\<lparr>fd_log := g\<rparr>) = received_of c fd"
  "received_of c (fd\<lparr>fd_greetings := r\<rparr>) = received_of c fd"
  by (simp_all add: ids_of_def greetings_of_def received_of_def)

lemma logs_grow [simp]:
  "ids_of c (fd\<lparr>fd_log := fd_log fd' @ [(d, i)]\<rparr>) = ids_of c fd' @ (if d = c then [i] else [])"
  "greetings_of c (fd\<lparr>fd_greetings := fd_greetings fd' @ [(d, i)]\<rparr>) = greetings_of c fd' @ (if d = c then [i] else [])"
  "received_of c (fd\<lparr>fd_received := fd_received fd' @ [(d, i)]\<rparr>) = received_of c fd' @ (if d = c then [i] else [])"
  by (simp_all add: ids_of_def greetings_of_def received_of_def)

text \<open>Fields outside of the logs do not matter to the messages of a client.\<close>

lemma client_inv_other [simp]:
  "client_inv (fd\<lparr>fd_clients := cs\<rparr>) = client_inv fd" "client_inv (fd\<lparr>fd_task := t\<rparr>) = client_inv fd"
  "client_inv (fd\<lparr>fd_last := l\<rparr>) = client_inv fd"
  by (simp_all add: client_inv_def fun_eq_iff)

lemma due_other [simp]:
  "due sid c (fd\<lparr>fd_clients := cs\<rparr>) = due sid c fd" "due sid c (fd\<lparr>fd_task := t\<rparr>) = due sid c fd"
  "due sid c (fd\<lparr>fd_last := l\<rparr>) = due sid c fd" "due sid c (fd\<lparr>fd_newest := n\<rparr>) = due sid c fd"
  by (simp_all add: due_def)












lemma run_feed_simps [simp]:
  "run_feed [] fd = Some fd" "run_feed (e # es) fd = (case feed_step e fd of Some fd' \<Rightarrow> run_feed es fd' | None \<Rightarrow> None)"
proof -
  have "foldl (\<lambda>fd e. Option.bind fd (feed_step e)) None es = None" for es
    by (induction es) simp_all
  then show "run_feed [] fd = Some fd" "run_feed (e # es) fd = (case feed_step e fd of Some fd' \<Rightarrow> run_feed es fd' | None \<Rightarrow> None)"
    by (simp_all add: run_feed_def split: option.split)
qed



text \<open>A client that connects after the query and before the loop is greeted with a newer snapshot than the one that the
  task sends it next.\<close>

lemma older_after_greeting:
  "\<exists>fd. run_feed [Connect 1, Wake, Queried True, Stored 8, Connect 2, Fetched (Some 2), Sent True (Some 1), Sent True None] (new_feed (Some 7)) = Some fd
     \<and> map snd (filter (\<lambda>(d, i). d = 2) (fd_received fd)) = [8, 7]"
  by (simp add: new_feed_def loop_next_def)

subsection \<open>The end of the feed\<close>

lemma ended_for_good: "fd_task fd = Ended \<Longrightarrow> run_feed es fd = Some fd' \<Longrightarrow> fd_task fd' = Ended \<and> fd_log fd' = fd_log fd"
proof (induction es arbitrary: fd)
  case (Cons e es)
  obtain fd1 where fd1: "feed_step e fd = Some fd1" "run_feed es fd1 = Some fd'"
    using Cons.prems(2) by (auto split: option.splits)
  then have "fd_task fd1 = Ended \<and> fd_log fd1 = fd_log fd"
    using Cons.prems(1) by (cases e) (auto split: option.splits if_splits)
  then show ?case
    using Cons.IH [OF _ fd1(2)] by simp
qed simp

text \<open>C38: a client that connects while a snapshot is being sent to another one ends the background task: the loop over the set of
  clients fails after that send, and from then on no client gets a snapshot from the task, whatever happens.\<close>

theorem connecting_ends_feed:
  assumes "fd_task fd = Sending sid c had start lost" "length (fd_clients fd) = length start"
    and "run_feed (Connect d # Sent ok choice # es) fd = Some fd'"
  shows "fd_task fd' = Ended \<and> fd_log fd' = fd_log fd @ (if ok then [(c, sid)] else [])"
proof -
  obtain fd1 where fd1: "feed_step (Connect d) fd = Some fd1"
    using assms(3) by (auto split: option.splits if_splits)
  then have 1: "length (fd_clients fd1) \<noteq> length start" "fd_task fd1 = fd_task fd" "fd_log fd1 = fd_log fd"
    using assms(2) by (auto split: if_splits)
  have "feed_step (Sent ok choice) fd1 = Some ((if ok then fd1\<lparr>fd_log := fd_log fd1 @ [(c, sid)], fd_received := fd_received fd1 @ [(c, sid)]\<rparr>
      else fd1)\<lparr>fd_task := Ended\<rparr>)"
    using 1 assms(1) by (simp add: loop_next_def)
  then have "run_feed es ((if ok then fd1\<lparr>fd_log := fd_log fd1 @ [(c, sid)], fd_received := fd_received fd1 @ [(c, sid)]\<rparr>
      else fd1)\<lparr>fd_task := Ended\<rparr>) = Some fd'"
    using assms(3) fd1 by simp
  from ended_for_good [OF _ this] show ?thesis
    using 1(3) by simp
qed

theorem connecting_ends_feed_witness:
  "\<exists>fd fd'. run_feed [Connect 1, Wake, Queried True, Fetched (Some 1)] (new_feed (Some 7)) = Some fd
     \<and> run_feed [Connect 2, Sent True None, Stored 8] fd = Some fd' \<and> fd_task fd' = Ended \<and> fd_log fd' = [(1, 7)]"
proof -
  obtain fd where fd: "run_feed [Connect 1, Wake, Queried True, Fetched (Some 1)] (new_feed (Some 7)) = Some fd"
      "fd_task fd = Sending 7 1 [] [1] []" "fd_clients fd = [1]" "fd_seen fd = [1]" "fd_log fd = []" "fd_newest fd = Some 7"
    by (simp add: new_feed_def loop_next_def)
  obtain fd' where run: "run_feed [Connect 2, Sent True None, Stored 8] fd = Some fd'"
    by (simp add: fd loop_next_def)
  have "fd_task fd' = Ended \<and> fd_log fd' = fd_log fd @ (if True then [(1, 7)] else [])"
    by (rule connecting_ends_feed [OF fd(2) _ run]) (simp add: fd(3))
  with fd run show ?thesis
    by auto
qed

end
