(* ===== verification/Api_Automation.thy ===== *)
theory Api_Automation
  imports Automation Api_Telemetry
begin

text \<open>
  The stored automations, the methods of \<^verbatim>\<open>AutomationEngine\<close> that load and save them, and the endpoints of
  \<^verbatim>\<open>src/api/__init__.py\<close> that list, replace, delete, disable and test them.  Every access to the settings
  table uses a connection of its own, which may fail; such a failure is only logged.  The conversion
  between JSON values and their text is a parameter.
\<close>

subsection \<open>The settings table\<close>

record store =
  st_rows :: settings_table
  st_faults :: "bool list"

definition next_fault :: "store \<Rightarrow> bool \<times> store" where
  "next_fault st = (case st_faults st of [] \<Rightarrow> (False, st) | fault # rest \<Rightarrow> (fault, st\<lparr>st_faults := rest\<rparr>))"

definition read_setting :: "string \<Rightarrow> string \<Rightarrow> store \<Rightarrow> string \<times> store" where
  "read_setting name fallback st = (case next_fault st of (fault, st) \<Rightarrow>
     (if fault then fallback else (case map_of (st_rows st) name of Some v \<Rightarrow> v | None \<Rightarrow> fallback), st))"

definition write_setting :: "string \<Rightarrow> string \<Rightarrow> store \<Rightarrow> store" where
  "write_setting name v st = (case next_fault st of (fault, st) \<Rightarrow>
     if fault then st else st\<lparr>st_rows := AList.update name v (st_rows st)\<rparr>)"

record json_codec =
  jc_dumps :: "json \<Rightarrow> string"
  jc_loads :: "string \<Rightarrow> json result"

definition bool_text :: "bool \<Rightarrow> string" where
  "bool_text b = (if b then ''true'' else ''false'')"

subsection \<open>Loading and saving\<close>

text \<open>Any exception makes the list empty.\<close>

definition parse_automations :: "json_codec \<Rightarrow> string \<Rightarrow> automation list" where
  "parse_automations jc raw =
    (case bindE (if raw = [] then Inr (JList []) else jc_loads jc raw) (\<lambda>data. bindE (py_iter data) (mapE automation_from_dict)) of
       Inr autos \<Rightarrow> autos
     | Inl _ \<Rightarrow> [])"

definition load_automations :: "json_codec \<Rightarrow> store \<Rightarrow> automation list \<times> store" where
  "load_automations jc st = (case read_setting ''automations_v2'' ''[]'' st of (raw, st) \<Rightarrow> (parse_automations jc raw, st))"

definition save_automations :: "json_codec \<Rightarrow> automation list \<Rightarrow> store \<Rightarrow> store" where
  "save_automations jc autos = write_setting ''automations_v2'' (jc_dumps jc (JList (map automation_to_dict autos)))"

record rules =
  rl_enabled :: bool
  rl_dry_run :: bool
  rl_automations :: "json list"

definition load_dict :: "json_codec \<Rightarrow> store \<Rightarrow> rules \<times> store" where
  "load_dict jc st =
    (case read_setting ''automation_enabled'' ''false'' st of (enabled, st) \<Rightarrow>
     case read_setting ''automation_global_dry_run'' ''true'' st of (dry_run, st) \<Rightarrow>
     case load_automations jc st of (autos, st) \<Rightarrow>
       (\<lparr>rl_enabled = flag_on enabled, rl_dry_run = flag_on dry_run, rl_automations = map automation_to_dict autos\<rparr>, st))"

text \<open>The flags are stored before the automations are converted, which may raise.\<close>

definition save_dict :: "json_codec \<Rightarrow> rules \<Rightarrow> (store, unit) op" where
  "save_dict jc data st =
    (let st = write_setting ''automation_enabled'' (bool_text (rl_enabled data)) st;
         st = write_setting ''automation_global_dry_run'' (bool_text (rl_dry_run data)) st in
     case mapE automation_from_dict (rl_automations data) of
       Inl e \<Rightarrow> (Inl e, st)
     | Inr autos \<Rightarrow> (Inr (), save_automations jc autos st))"

subsection \<open>Endpoints\<close>

definition api_automation_rules :: "json_codec \<Rightarrow> (store, rules reply) op" where
  "api_automation_rules jc st = (case load_dict jc st of (data, st) \<Rightarrow> (Inr (Reply data), st))"

definition api_automation_rules_save :: "json_codec \<Rightarrow> rules \<Rightarrow> (store, rules reply) op" where
  "api_automation_rules_save jc body = bindS (save_dict jc body) (\<lambda>_. api_automation_rules jc)"

definition has_id :: "string \<Rightarrow> json \<Rightarrow> bool" where
  "has_id ident a \<longleftrightarrow> jget a ''id'' = Inr (JStr ident)"

definition api_automation_delete :: "json_codec \<Rightarrow> string \<Rightarrow> (store, rules reply) op" where
  "api_automation_delete jc ident st = (case load_dict jc st of (data, st) \<Rightarrow>
     let kept = filter (\<lambda>a. \<not> has_id ident a) (rl_automations data) in
     if length kept = length (rl_automations data) then (Inr (Failure 404 ''Automation not found''), st)
     else api_automation_rules_save jc (data\<lparr>rl_automations := kept\<rparr>) st)"

definition api_automation_enable :: "json_codec \<Rightarrow> bool \<Rightarrow> (store, rules reply) op" where
  "api_automation_enable jc b st = api_automation_rules jc (write_setting ''automation_enabled'' (bool_text b) st)"

definition api_automation_dry_run :: "json_codec \<Rightarrow> bool \<Rightarrow> (store, rules reply) op" where
  "api_automation_dry_run jc b st = api_automation_rules jc (write_setting ''automation_global_dry_run'' (bool_text b) st)"

definition set_until :: "pyfloat \<Rightarrow> json \<Rightarrow> json" where
  "set_until t a = (case a of JDict kvs \<Rightarrow> JDict (AList.update ''disabled_until'' (JFloat t) kvs) | _ \<Rightarrow> a)"

text \<open>The first automation with the id.\<close>

fun disable_first :: "string \<Rightarrow> pyfloat \<Rightarrow> json list \<Rightarrow> json list option" where
  "disable_first ident t [] = None"
| "disable_first ident t (a # as) = (if has_id ident a then Some (set_until t a # as) else map_option (Cons a) (disable_first ident t as))"

definition api_automation_disable :: "json_codec \<Rightarrow> string \<Rightarrow> int \<Rightarrow> pyfloat \<Rightarrow> (store, rules reply) op" where
  "api_automation_disable jc ident minutes now st = (case load_dict jc st of (data, st) \<Rightarrow>
     case disable_first ident (now + dbl (of_int (minutes * 60))) (rl_automations data) of
       None \<Rightarrow> (Inr (Failure 404 ''Automation not found''), st)
     | Some autos \<Rightarrow> api_automation_rules_save jc (data\<lparr>rl_automations := autos\<rparr>) st)"

subsection \<open>The test of the automations\<close>

definition shown_json :: "shown \<Rightarrow> json" where
  "shown_json v = (case v of Num x \<Rightarrow> JFloat x | Label s \<Rightarrow> JStr s)"

text \<open>The snapshot as the endpoint hands it to the engine: the registers are one of its entries.\<close>

definition feed_snapshot :: "int \<Rightarrow> string \<Rightarrow> shown_registers \<Rightarrow> snapshot" where
  "feed_snapshot sid timestamp registers =
    [(''snapshot_id'', JInt sid), (''timestamp'', JStr timestamp),
     (''registers'', JDict (map (\<lambda>(name, v, unit). (name, JDict [(''value'', shown_json v), (''unit'', JStr unit)])) registers))]"

definition new_engine :: "'s \<Rightarrow> 's engine" where
  "new_engine link = \<lparr>eg_link = link, eg_last_eval = Map.empty, eg_last_notify = Map.empty, eg_log = [], eg_notes = []\<rparr>"

text \<open>What one evaluation takes from the table: the two flags and the list are read once, at its start; the model is read with
  every write, here from the rows.\<close>

definition evaluate_stored :: "json_codec \<Rightarrow> 's transact_op \<Rightarrow> automation_env \<Rightarrow> snapshot \<Rightarrow> store \<Rightarrow> ('s engine, store) op" where
  "evaluate_stored jc tr env snap st =
    (case read_setting ''automation_enabled'' ''false'' st of (enabled, st) \<Rightarrow>
     case read_setting ''automation_global_dry_run'' ''true'' st of (dry_run, st) \<Rightarrow>
     case load_automations jc st of (autos, st) \<Rightarrow>
       bindS (evaluate_and_apply tr (env\<lparr>ev_settings := (map_of (st_rows st))(''automation_enabled'' \<mapsto> enabled, ''automation_global_dry_run'' \<mapsto> dry_run)\<rparr>)
         autos snap) (\<lambda>_. returnS st))"

definition api_automation_test :: "json_codec \<Rightarrow> (dongle_params \<Rightarrow> 's transact_op) \<Rightarrow> environment \<Rightarrow> automation_env \<Rightarrow> maria \<Rightarrow> string
    \<Rightarrow> store \<times> 's \<Rightarrow> rules reply result \<times> store \<times> 's" where
  "api_automation_test jc tr envvars env m timestamp = (\<lambda>(st, link).
     case fetch_latest_snapshot m (Readable (st_rows st)) of
       None \<Rightarrow> (Inr (Failure 503 ''No snapshot available yet''), st, link)
     | Some (sid, registers) \<Rightarrow> (case resolve_dongle envvars (Readable (st_rows st)) of
         Inl e \<Rightarrow> (Inl e, st, link)
       | Inr d \<Rightarrow>
           if dp_datalog d = [] \<or> dp_inverter d = [] then (Inr (Failure 503 ''Datalog/inverter serial not configured''), st, link)
           else (case read_setting ''automation_global_dry_run'' ''true'' st of (original, st) \<Rightarrow>
             let st = write_setting ''automation_global_dry_run'' ''true'' st in
             case evaluate_stored jc (tr d) (env\<lparr>ev_datalog_serial := dp_datalog d, ev_inverter_serial := dp_inverter d\<rparr>)
                 (feed_snapshot sid timestamp registers) st (new_engine link) of
               (Inl e, eng) \<Rightarrow> (Inl e, write_setting ''automation_global_dry_run'' original st, eg_link eng)
             | (Inr st, eng) \<Rightarrow> (case api_automation_rules jc (write_setting ''automation_global_dry_run'' original st) of
                 (r, st) \<Rightarrow> (r, st, eg_link eng)))))"

end
