(* ===== verification/Api_Automation_Facts.thy ===== *)
theory Api_Automation_Facts
  imports Api_Automation Automation_Facts Automation_Writes
begin

text \<open>
  The stored automations over a table that answers, and what a test of the automations does and does not do.
\<close>

subsection \<open>The table\<close>

lemma read_faultless: "st_faults st = [] \<Longrightarrow> read_setting name fallback st = (case map_of (st_rows st) name of Some v \<Rightarrow> v | None \<Rightarrow> fallback, st)"
  by (simp add: read_setting_def next_fault_def)

lemma write_faultless: "st_faults st = [] \<Longrightarrow> write_setting name v st = st\<lparr>st_rows := AList.update name v (st_rows st)\<rparr>"
  by (simp add: write_setting_def next_fault_def)

lemma load_faultless: "st_faults st = [] \<Longrightarrow> load_automations jc st
    = (parse_automations jc (case map_of (st_rows st) ''automations_v2'' of Some v \<Rightarrow> v | None \<Rightarrow> ''[]''), st)"
  by (simp add: load_automations_def read_faultless)

lemma flag_on_text [simp]: "flag_on (bool_text b) = b"
  by (cases b) (simp_all add: flag_on_def bool_text_def lower_def lower_char_def char_code_def)

text \<open>The rules as they are read.\<close>

definition rules_in :: "json_codec \<Rightarrow> store \<Rightarrow> rules" where
  "rules_in jc st = fst (load_dict jc st)"

lemma load_dict_faultless: "st_faults st = [] \<Longrightarrow> load_dict jc st = (rules_in jc st, st)"
  by (simp add: rules_in_def load_dict_def read_faultless load_faultless)

lemma rules_in_eq: "st_faults st = [] \<Longrightarrow> rules_in jc st =
    \<lparr>rl_enabled = flag_on (case map_of (st_rows st) ''automation_enabled'' of Some v \<Rightarrow> v | None \<Rightarrow> ''false''),
     rl_dry_run = flag_on (case map_of (st_rows st) ''automation_global_dry_run'' of Some v \<Rightarrow> v | None \<Rightarrow> ''true''),
     rl_automations = map automation_to_dict (fst (load_automations jc st))\<rparr>"
  by (simp add: rules_in_def load_dict_def read_faultless load_faultless)

lemma automation_json: "automation_from_dict (automation_to_dict a) = Inr a"
  by (simp add: automation_from_dict_def automation_to_dict_def mapE_inverse py_str_def zero_pyfloat_def)

lemma parse_saved:
  assumes "jc_loads jc (jc_dumps jc (JList (map automation_to_dict autos))) = Inr (JList (map automation_to_dict autos))"
    "jc_dumps jc (JList (map automation_to_dict autos)) \<noteq> []"
  shows "parse_automations jc (jc_dumps jc (JList (map automation_to_dict autos))) = autos"
  using assms by (simp add: parse_automations_def mapE_inverse automation_json)


text \<open>Saving rules whose text can be read back leaves them in the table, and the other rows as they are.\<close>

definition saved_with :: "json_codec \<Rightarrow> automation list \<Rightarrow> bool" where
  "saved_with jc autos \<longleftrightarrow> (let v = JList (map automation_to_dict autos) in jc_dumps jc v \<noteq> [] \<and> jc_loads jc (jc_dumps jc v) = Inr v)"

definition rule_keys :: "string set" where
  "rule_keys = {''automation_enabled'', ''automation_global_dry_run'', ''automations_v2''}"

lemma save_dict_faultless:
  assumes "st_faults st = []" "mapE automation_from_dict (rl_automations data) = Inr autos" "saved_with jc autos"
  shows "\<exists>st'. save_dict jc data st = (Inr (), st') \<and> st_faults st' = [] \<and> fst (load_automations jc st') = autos
    \<and> rules_in jc st' = data\<lparr>rl_automations := map automation_to_dict autos\<rparr>
    \<and> (\<forall>name. name \<notin> rule_keys \<longrightarrow> map_of (st_rows st') name = map_of (st_rows st) name)"
proof -
  let ?raw = "jc_dumps jc (JList (map automation_to_dict autos))"
  let ?st = "st\<lparr>st_rows := AList.update ''automations_v2'' ?raw (AList.update ''automation_global_dry_run'' (bool_text (rl_dry_run data))
      (AList.update ''automation_enabled'' (bool_text (rl_enabled data)) (st_rows st)))\<rparr>"
  have eq: "save_dict jc data st = (Inr (), ?st)"
    using assms(1,2) by (simp add: save_dict_def save_automations_def write_faultless Let_def)
  have faults: "st_faults ?st = []"
    using assms(1) by simp
  have loaded: "fst (load_automations jc ?st) = autos"
    using parse_saved [of jc autos] assms(3) by (simp add: load_faultless [OF faults] saved_with_def Let_def update_conv')
  have rules: "rules_in jc ?st = data\<lparr>rl_automations := map automation_to_dict autos\<rparr>"
    by (simp add: rules_in_eq [OF faults] loaded update_conv')
  have "map_of (st_rows ?st) name = map_of (st_rows st) name" if "name \<notin> rule_keys" for name
    using that by (simp add: rule_keys_def update_conv')
  then show ?thesis
    using eq faults loaded rules by blast
qed

lemma has_id_dict: "has_id ident (automation_to_dict a) \<longleftrightarrow> au_id a = ident"
  by (auto simp: has_id_def automation_to_dict_def)

lemma kept_dicts: "filter (\<lambda>a. \<not> has_id ident a) (map automation_to_dict autos) = map automation_to_dict (filter (\<lambda>a. au_id a \<noteq> ident) autos)"
  by (induction autos) (simp_all add: has_id_dict)

text \<open>C25: deleting an automation, over a table that answers and a text form that can be read back, takes exactly the automations
  with the id out of the stored list and keeps the order of the others, the two flags and every other setting;
  without such an automation it answers 404 and changes nothing.\<close>

theorem automation_deleted:
  assumes "st_faults st = []" "saved_with jc (filter (\<lambda>a. au_id a \<noteq> ident) (fst (load_automations jc st)))"
  shows "\<exists>r st'. api_automation_delete jc ident st = (Inr r, st')
    \<and> fst (load_automations jc st') = filter (\<lambda>a. au_id a \<noteq> ident) (fst (load_automations jc st))
    \<and> rl_enabled (rules_in jc st') = rl_enabled (rules_in jc st) \<and> rl_dry_run (rules_in jc st') = rl_dry_run (rules_in jc st)
    \<and> (\<forall>name. name \<notin> rule_keys \<longrightarrow> map_of (st_rows st') name = map_of (st_rows st) name)
    \<and> (if ident \<in> au_id ` set (fst (load_automations jc st)) then r = Reply (rules_in jc st')
       else r = Failure 404 ''Automation not found'' \<and> st' = st)"
proof -
  define autos where "autos = fst (load_automations jc st)"
  define kept where "kept = filter (\<lambda>a. au_id a \<noteq> ident) autos"
  have rules: "rl_automations (rules_in jc st) = map automation_to_dict autos"
    by (simp add: rules_in_eq [OF assms(1)] autos_def)
  show ?thesis
  proof (cases "ident \<in> au_id ` set autos")
    case False
    then have same: "kept = autos"
      by (auto simp: kept_def filter_id_conv)
    then have "api_automation_delete jc ident st = (Inr (Failure 404 ''Automation not found''), st)"
      by (simp add: api_automation_delete_def load_dict_faultless [OF assms(1)] rules kept_dicts kept_def [symmetric])
    then show ?thesis
      using False same by (simp add: autos_def [symmetric] kept_def [symmetric])
  next
    case True
    then obtain a where "a \<in> set autos" "\<not> au_id a \<noteq> ident"
      by blast
    then have shorter: "length kept \<noteq> length autos"
      using length_filter_less [of a autos "\<lambda>a. au_id a \<noteq> ident"] unfolding kept_def by simp
    let ?data = "(rules_in jc st)\<lparr>rl_automations := map automation_to_dict kept\<rparr>"
    have parsed: "mapE automation_from_dict (rl_automations ?data) = Inr kept"
      by (simp add: mapE_inverse automation_json)
    have readable: "saved_with jc kept"
      using assms(2) by (simp only: kept_def autos_def)
    have same: "?data\<lparr>rl_automations := map automation_to_dict kept\<rparr> = ?data"
      by simp
    obtain st' where st': "save_dict jc ?data st = (Inr (), st')" "st_faults st' = []" "fst (load_automations jc st') = kept"
        "rules_in jc st' = ?data" "\<forall>name. name \<notin> rule_keys \<longrightarrow> map_of (st_rows st') name = map_of (st_rows st) name"
      using save_dict_faultless [OF assms(1) parsed readable] unfolding same by (elim exE conjE) (rule that)
    have "api_automation_delete jc ident st = (Inr (Reply (rules_in jc st')), st')"
      using shorter st'(1,2)
      by (simp add: api_automation_delete_def load_dict_faultless [OF assms(1)] rules kept_dicts kept_def [symmetric] Let_def
          api_automation_rules_save_def bindS_def api_automation_rules_def load_dict_faultless)
    then show ?thesis
      using True st'(3-5) by (simp add: autos_def [symmetric] kept_def [symmetric])
  qed
qed


text \<open>A table with two automations, and a text form for the lists that occur.\<close>

definition stored_sample :: "string \<Rightarrow> automation" where
  "stored_sample ident = \<lparr>au_id = ident, au_name = JStr ident, au_type = JStr TYPE_NOTIFY, au_enabled = True, au_disabled_until = Fin 0,
     au_setting = JNull, au_group_kind = JNull, au_range_kind = JNull, au_groups = [], au_conditions = [], au_action_value = None,
     au_restore_value = None, au_points = [], au_threshold = None, au_notify_message = JStr []\<rparr>"

definition sample_codec :: json_codec where
  "sample_codec = \<lparr>jc_dumps = (\<lambda>v. ''after''),
     jc_loads = (\<lambda>raw. Inr (JList (map automation_to_dict (map stored_sample (if raw = ''after'' then [''b''] else [''a'', ''b''])))))\<rparr>"

definition sample_store :: store where
  "sample_store = \<lparr>st_rows = [(''automations_v2'', ''before'')], st_faults = []\<rparr>"

theorem automation_deleted_witness:
  "\<exists>r st'. api_automation_delete sample_codec ''a'' sample_store = (Inr r, st') \<and> r = Reply (rules_in sample_codec st')
     \<and> fst (load_automations sample_codec st') = [stored_sample ''b'']"
proof -
  have loaded: "fst (load_automations sample_codec sample_store) = map stored_sample [''a'', ''b'']"
    by (simp add: load_faultless sample_store_def sample_codec_def parse_automations_def automation_json)
  have kept: "filter (\<lambda>a. au_id a \<noteq> ''a'') (map stored_sample [''a'', ''b'']) = map stored_sample [''b'']"
    by (simp add: stored_sample_def)
  have readable: "saved_with sample_codec (filter (\<lambda>a. au_id a \<noteq> ''a'') (fst (load_automations sample_codec sample_store)))"
    unfolding loaded kept by (simp add: saved_with_def sample_codec_def Let_def)
  have faultless: "st_faults sample_store = []"
    by (simp add: sample_store_def)
  have mem: "''a'' \<in> au_id ` set (map stored_sample [''a'', ''b''])"
    by (simp add: stored_sample_def)
  obtain r st' where "api_automation_delete sample_codec ''a'' sample_store = (Inr r, st')"
      "fst (load_automations sample_codec st') = map stored_sample [''b'']"
      "if ''a'' \<in> au_id ` set (map stored_sample [''a'', ''b'']) then r = Reply (rules_in sample_codec st')
       else r = Failure 404 ''Automation not found'' \<and> st' = sample_store"
    using automation_deleted [OF faultless readable] unfolding loaded kept by (elim exE conjE) (rule that)
  then show ?thesis
    using mem by (simp only: if_True list.map) blast
qed

subsection \<open>Testing\<close>

lemma evaluate_stored_faultless:
  assumes "st_faults st = []" "map_of (st_rows st) ''automation_global_dry_run'' = Some ''true''"
  shows "\<exists>r eng'. evaluate_stored jc (link_transact p key timeout) env snap st eng = (r, eng') \<and> (r = Inr st \<or> (\<exists>e. r = Inl e))
    \<and> d_sent (sh_dongle (eg_link eng')) = d_sent (sh_dongle (eg_link eng))"
proof -
  define enabled where "enabled = (case map_of (st_rows st) ''automation_enabled'' of Some v \<Rightarrow> v | None \<Rightarrow> ''false'')"
  define env' where "env' = env\<lparr>ev_settings := (map_of (st_rows st))(''automation_enabled'' \<mapsto> enabled, ''automation_global_dry_run'' \<mapsto> ''true'')\<rparr>"
  define autos where "autos = fst (load_automations jc st)"
  have eq: "evaluate_stored jc (link_transact p key timeout) env snap st eng
      = bindS (evaluate_and_apply (link_transact p key timeout) env' autos snap) (\<lambda>_. returnS st) eng"
    by (simp add: evaluate_stored_def read_faultless assms load_faultless env'_def enabled_def autos_def)
  have dry: "global_dry_run (ev_settings env')"
    by (simp add: env'_def global_dry_run_def get_setting_def flag_on_def lower_def lower_char_def char_code_def)
  obtain r1 eng1 where e: "evaluate_and_apply (link_transact p key timeout) env' autos snap eng = (r1, eng1)"
    by fastforce
  have none: "(if automation_enabled (ev_settings env') then packets_of env' (global_dry_run (ev_settings env')) else {}) = {}"
    using dry by (simp add: packets_of_def)
  have "sends (\<lambda>st. d_sent (sh_dongle (eg_link st))) {} eng eng1"
    using transitsD [OF link.evaluate_and_apply_sends e] unfolding none .
  then have "d_sent (sh_dongle (eg_link eng1)) = d_sent (sh_dongle (eg_link eng))"
    by (simp add: sends_empty)
  then show ?thesis
    unfolding eq by (cases r1) (auto simp: bindS_def e returnS_def)
qed

text \<open>C26: over a table that answers, testing the automations sends nothing over the link and leaves the table as it was, except that a
  flag for the dry run that was not there is now stored with its default.\<close>

theorem automation_test_safe:
  assumes "st_faults st = []"
  shows "case api_automation_test jc (api_link p timeout) envvars env m timestamp (st, link) of (r, st', link') \<Rightarrow>
    d_sent (sh_dongle link') = d_sent (sh_dongle link)
    \<and> (\<forall>name. map_of (st_rows st') name = map_of (st_rows st) name
        \<or> name = ''automation_global_dry_run'' \<and> map_of (st_rows st) name = None \<and> map_of (st_rows st') name = Some ''true'')"
proof (cases "fetch_latest_snapshot m (Readable (st_rows st))")
  case None
  then show ?thesis
    by (simp add: api_automation_test_def)
next
  case (Some latest)
  obtain sid registers where latest: "latest = (sid, registers)"
    by (cases latest)
  show ?thesis
  proof (cases "resolve_dongle envvars (Readable (st_rows st))")
    case (Inl e)
    then show ?thesis
      by (simp add: api_automation_test_def Some latest)
  next
    case (Inr d)
    show ?thesis
    proof (cases "dp_datalog d = [] \<or> dp_inverter d = []")
      case True
      then show ?thesis
        by (auto simp: api_automation_test_def Some latest Inr)
    next
      case False
      let ?flag = "''automation_global_dry_run''"
      define original where "original = (case map_of (st_rows st) ?flag of Some v \<Rightarrow> v | None \<Rightarrow> ''true'')"
      define forced where "forced = st\<lparr>st_rows := AList.update ?flag ''true'' (st_rows st)\<rparr>"
      define restored where "restored = forced\<lparr>st_rows := AList.update ?flag original (st_rows forced)\<rparr>"
      have forced: "st_faults forced = []" "map_of (st_rows forced) ?flag = Some ''true''" "st_faults restored = []"
        using assms by (simp_all add: forced_def restored_def update_conv')
      obtain r eng where run: "evaluate_stored jc (api_link p timeout d) (env\<lparr>ev_datalog_serial := dp_datalog d, ev_inverter_serial := dp_inverter d\<rparr>)
            (feed_snapshot sid timestamp registers) forced (new_engine link) = (r, eng)"
          "r = Inr forced \<or> (\<exists>e. r = Inl e)" "d_sent (sh_dongle (eg_link eng)) = d_sent (sh_dongle link)"
        using evaluate_stored_faultless [OF forced(1,2)] unfolding api_link_def by (metis new_engine_def engine.select_convs(1))
      have "\<exists>r'. api_automation_test jc (api_link p timeout) envvars env m timestamp (st, link) = (r', restored, eg_link eng)"
        using run(1,2) False
        by (auto simp: api_automation_test_def Some latest Inr read_faultless [OF assms] write_faultless [OF assms] original_def [symmetric]
            forced_def [symmetric] write_faultless [OF forced(1)] restored_def [symmetric] Let_def
            api_automation_rules_def load_dict_faultless [OF forced(3)])
      then obtain r' where answer: "api_automation_test jc (api_link p timeout) envvars env m timestamp (st, link) = (r', restored, eg_link eng)"
        by blast
      have "map_of (st_rows restored) name = map_of (st_rows st) name
        \<or> name = ?flag \<and> map_of (st_rows st) name = None \<and> map_of (st_rows restored) name = Some ''true''" for name
        by (auto simp: restored_def forced_def update_conv' original_def split: option.split)
      then show ?thesis
        unfolding answer prod.case using run(3) by (intro conjI allI)
    qed
  qed
qed


theorem automation_test_safe_witness:
  "\<forall>p timeout env link. case api_automation_test sample_codec (api_link p timeout) (\<lambda>_. Some ''7'') env
      \<lparr>md_connected = True, md_faults = [], md_next_id = 2, md_snapshots = [(1, [])], md_rows = [(1, ''soc'', Fin 80, ''%'')], md_hourly = []\<rparr>
      ''now'' (sample_store, link) of (r, st', link') \<Rightarrow> d_sent (sh_dongle link') = d_sent (sh_dongle link)"
proof (intro allI)
  fix p :: "'a peer" and timeout env link
  have faultless: "st_faults sample_store = []"
    by (simp add: sample_store_def)
  show "case api_automation_test sample_codec (api_link p timeout) (\<lambda>_. Some ''7'') env
      \<lparr>md_connected = True, md_faults = [], md_next_id = 2, md_snapshots = [(1, [])], md_rows = [(1, ''soc'', Fin 80, ''%'')], md_hourly = []\<rparr>
      ''now'' (sample_store, link) of (r, st', link') \<Rightarrow> d_sent (sh_dongle link') = d_sent (sh_dongle link)"
    using automation_test_safe [OF faultless, of link sample_codec p timeout "\<lambda>_. Some ''7''" env
      "\<lparr>md_connected = True, md_faults = [], md_next_id = 2, md_snapshots = [(1, [])], md_rows = [(1, ''soc'', Fin 80, ''%'')], md_hourly = []\<rparr>"
      "''now''"]
    by (simp only: case_prod_unfold)
qed

text \<open>In the test no condition on a sensor is ever met, whatever the readings: the engine looks for the sensor among the entries of
  the snapshot, and the snapshot it gets has the readings one level below.\<close>

lemma automation_test_blind:
  assumes "c_kind c = JStr kind" "kind \<notin> {''time_of_day'', ''day_of_week'', ''month_of_year''}"
  shows "condition_matches c (feed_snapshot sid timestamp registers) clock = Inr False"
proof -
  have "sensor_value (feed_snapshot sid timestamp registers) sensor = Inr None" if "map_of ALL_CONDITION_SENSOR kind = Some (Some sensor)" for sensor
  proof -
    have "list_all (\<lambda>(k, s). s \<noteq> Some ''snapshot_id'' \<and> s \<noteq> Some ''timestamp'' \<and> s \<noteq> Some ''registers'') ALL_CONDITION_SENSOR"
      by code_simp
    then have "sensor \<noteq> ''snapshot_id''" "sensor \<noteq> ''timestamp''" "sensor \<noteq> ''registers''"
      using map_of_SomeD [OF that] by (auto simp: list_all_iff)
    then show ?thesis
      by (simp add: feed_snapshot_def sensor_value_def)
  qed
  then show ?thesis
    using assms by (auto simp: condition_matches_def split: option.split)
qed

text \<open>When the flag for the dry run cannot be stored, which is only logged, the test evaluates with the flag that is in the table.\<close>

lemma unforced_test_is_live:
  assumes "st_faults st = [False, True]" "fetch_latest_snapshot m (Readable (st_rows st)) = Some (sid, registers)"
    and "resolve_dongle envvars (Readable (st_rows st)) = Inr d" "dp_datalog d \<noteq> []" "dp_inverter d \<noteq> []"
  shows "snd (snd (api_automation_test jc tr envvars env m timestamp (st, link)))
    = eg_link (snd (evaluate_stored jc (tr d) (env\<lparr>ev_datalog_serial := dp_datalog d, ev_inverter_serial := dp_inverter d\<rparr>)
        (feed_snapshot sid timestamp registers) (st\<lparr>st_faults := []\<rparr>) (new_engine link)))"
  using assms
  by (auto simp: api_automation_test_def read_setting_def write_setting_def next_fault_def Let_def split: prod.split sum.split)

end
