(* ===== verification/Forecast.thy ===== *)
theory Forecast
  imports Storage Calendar
begin

text \<open>
  The forecast of the solar production, \<^verbatim>\<open>src/collector/forecast.py\<close>: the assembly of the predicted power from the
  weather, the calibration with past production, the upsert into the forecast table over a server whose
  statements may fail, the points for InfluxDB, and the refresh that composes them.  Parameters are the
  irradiance on the array for a list of instants (pvlib, absent when it fails), the answers of the weather
  service, and the hourly averages of the past production.  A percentage is a number of JSON, whole or not.
\<close>

subsection \<open>Configuration\<close>

record forecast_config =
  fc_enabled :: bool
  fc_latitude :: pyfloat
  fc_longitude :: pyfloat
  fc_array_kwp :: pyfloat
  fc_array_azimuth :: pyfloat
  fc_array_tilt :: pyfloat
  fc_bifacial_gain :: pyfloat
  fc_provider :: string
  fc_hours :: int
  fc_refresh_min :: int
  fc_bias_enabled :: bool
  fc_bias_lookback_days :: int
  fc_bias_min_samples :: int

definition float_setting :: "(string \<times> string) list \<Rightarrow> string \<Rightarrow> rat \<Rightarrow> pyfloat" where
  "float_setting settings name dflt = (case map_of settings name of
     None \<Rightarrow> dbl dflt
   | Some s \<Rightarrow> (case parse_float s of Some x \<Rightarrow> x | None \<Rightarrow> dbl dflt))"

text \<open>An infinite number of hours is not caught.\<close>

definition int_setting :: "(string \<times> string) list \<Rightarrow> string \<Rightarrow> int \<Rightarrow> int result" where
  "int_setting settings name dflt = (case map_of settings name of
     None \<Rightarrow> Inr dflt
   | Some s \<Rightarrow> (case parse_float s of
       None \<Rightarrow> Inr dflt
     | Some x \<Rightarrow> (case pf_trunc x of Inl ValueError \<Rightarrow> Inr dflt | r \<Rightarrow> r)))"

definition bool_setting :: "(string \<times> string) list \<Rightarrow> string \<Rightarrow> bool \<Rightarrow> bool" where
  "bool_setting settings name dflt = (case map_of settings name of
     None \<Rightarrow> dflt
   | Some s \<Rightarrow> List.member [''1'', ''true'', ''yes'', ''on''] (lower (strip s)))"

definition config_from_settings :: "(string \<times> string) list \<Rightarrow> forecast_config result" where
  "config_from_settings settings =
    bindE (int_setting settings ''forecast_hours'' 48) (\<lambda>hours.
    bindE (int_setting settings ''forecast_refresh_min'' 120) (\<lambda>refresh_min.
    bindE (int_setting settings ''forecast_bias_lookback_days'' 7) (\<lambda>lookback.
    bindE (int_setting settings ''forecast_bias_min_samples'' 3) (\<lambda>samples.
    Inr \<lparr>fc_enabled = bool_setting settings ''forecast_enabled'' False,
      fc_latitude = float_setting settings ''forecast_latitude'' (300591 / 10000),
      fc_longitude = float_setting settings ''forecast_longitude'' (- 959324 / 10000),
      fc_array_kwp = float_setting settings ''array_kwp'' (156 / 100),
      fc_array_azimuth = float_setting settings ''array_azimuth'' 180,
      fc_array_tilt = float_setting settings ''array_tilt'' 21,
      fc_bifacial_gain = float_setting settings ''array_bifacial_gain'' (1 / 10),
      fc_provider = strip (case map_of settings ''forecast_provider'' of Some s \<Rightarrow> s | None \<Rightarrow> ''open-meteo''),
      fc_hours = hours, fc_refresh_min = refresh_min, fc_bias_enabled = bool_setting settings ''forecast_bias_enabled'' True,
      fc_bias_lookback_days = lookback, fc_bias_min_samples = samples\<rparr>))))"

subsection \<open>Weather and clear sky\<close>

datatype number = Whole int | Frac pyfloat

definition to_pf :: "number \<Rightarrow> pyfloat" where
  "to_pf v = (case v of Whole n \<Rightarrow> dbl (of_int n) | Frac x \<Rightarrow> x)"

record weather =
  wt_times :: "string list"
  wt_cloud :: "number option list"
  wt_shortwave :: "number option list"

text \<open>Division by a constant that is not zero.\<close>

definition over :: "pyfloat \<Rightarrow> rat \<Rightarrow> pyfloat" where
  "over x d = (case pf_div x (Fin d) of Inr q \<Rightarrow> q | Inl _ \<Rightarrow> NaN)"

definition clear_sky_pv :: "forecast_config \<Rightarrow> pyfloat list option \<Rightarrow> pyfloat list option" where
  "clear_sky_pv cfg poa_global = map_option (map (\<lambda>poa. pf_max (Fin 0) (fc_array_kwp cfg * over poa 1000 * Fin 1000))) poa_global"

definition clamped_cover :: "number \<Rightarrow> pyfloat" where
  "clamped_cover cc = pf_max (Fin 0) (pf_min (Fin 100) (to_pf cc))"

definition cloud_factor :: "number option \<Rightarrow> pyfloat" where
  "cloud_factor cover = (case cover of
     None \<Rightarrow> Fin 1
   | Some cc \<Rightarrow> Fin 1 - dbl (85 / 100) * over (clamped_cover cc) 100)"

subsection \<open>Assembly\<close>

record forecast_row =
  fr_ts :: string
  fr_predicted :: pyfloat
  fr_cloud :: "number option"
  fr_source :: string
  fr_corrected :: "pyfloat option"

definition item :: "'a option list \<Rightarrow> nat \<Rightarrow> 'a option" where
  "item xs i = (if i < length xs then xs ! i else None)"

definition sun_factor :: "number option \<Rightarrow> number option \<Rightarrow> pyfloat" where
  "sun_factor cover shortwave = (case shortwave of
     Some w \<Rightarrow> if Fin 0 < to_pf w then pf_min (Fin 1) (pf_max (Fin 0) (over (to_pf w) 1000)) else cloud_factor cover
   | None \<Rightarrow> cloud_factor cover)"

definition predicted_watts :: "forecast_config \<Rightarrow> pyfloat option \<Rightarrow> number option \<Rightarrow> number option \<Rightarrow> pyfloat" where
  "predicted_watts cfg base cover shortwave =
    (let watts = (case base of
           Some b \<Rightarrow> b * sun_factor cover shortwave
         | None \<Rightarrow> fc_array_kwp cfg * over (case shortwave of Some w \<Rightarrow> to_pf w | None \<Rightarrow> Fin 0) 1000 * Fin 1000)
     in round_digits 1 (watts * (Fin 1 + fc_bifacial_gain cfg)))"

text \<open>One row per instant; a clear-sky curve that is too short raises.\<close>

definition assemble_row :: "forecast_config \<Rightarrow> pyfloat list option \<Rightarrow> weather \<Rightarrow> string \<Rightarrow> nat \<Rightarrow> forecast_row result" where
  "assemble_row cfg clear_sky w source i =
    bindE (case clear_sky of
        None \<Rightarrow> Inr None
      | Some curve \<Rightarrow> if i < length curve then Inr (Some (curve ! i)) else Inl IndexError) (\<lambda>base.
    Inr \<lparr>fr_ts = wt_times w ! i, fr_predicted = predicted_watts cfg base (item (wt_cloud w) i) (item (wt_shortwave w) i),
      fr_cloud = item (wt_cloud w) i, fr_source = source, fr_corrected = None\<rparr>)"

type_synonym irradiance = "forecast_config \<Rightarrow> string list \<Rightarrow> pyfloat list option"

definition assemble_rows :: "irradiance \<Rightarrow> forecast_config \<Rightarrow> weather \<Rightarrow> string \<Rightarrow> forecast_row list result" where
  "assemble_rows poa cfg w source =
    mapE (assemble_row cfg (clear_sky_pv cfg (poa cfg (wt_times w))) w source) [0..<length (wt_times w)]"

text \<open>\<^verbatim>\<open>xs[:n]\<close>, also for a negative n.\<close>

definition slice_to :: "int \<Rightarrow> 'a list \<Rightarrow> 'a list" where
  "slice_to n xs = (if 0 \<le> n then take (nat n) xs else take (length xs - nat (- n)) xs)"

definition or_unknown :: "'b list \<Rightarrow> 'a option list \<Rightarrow> 'a option list" where
  "or_unknown instants xs = (if xs = [] then replicate (length instants) None else xs)"

definition complete_weather :: "weather \<Rightarrow> weather" where
  "complete_weather w = w\<lparr>wt_cloud := or_unknown (wt_times w) (wt_cloud w), wt_shortwave := or_unknown (wt_times w) (wt_shortwave w)\<rparr>"

definition truncated :: "int \<Rightarrow> weather \<Rightarrow> weather" where
  "truncated n w = \<lparr>wt_times = slice_to n (wt_times w), wt_cloud = slice_to n (wt_cloud w), wt_shortwave = slice_to n (wt_shortwave w)\<rparr>"

definition build_forecast :: "irradiance \<Rightarrow> forecast_config \<Rightarrow> weather option \<Rightarrow> forecast_row list option result" where
  "build_forecast poa cfg answer = (case answer of
     None \<Rightarrow> Inr None
   | Some w \<Rightarrow> if wt_times w = [] then Inr None
       else bindE (assemble_rows poa cfg (truncated (fc_hours cfg) (complete_weather w)) (fc_provider cfg)) (\<lambda>rows. Inr (Some rows)))"


subsection \<open>Instants\<close>

text \<open>\<^verbatim>\<open>datetime.fromisoformat\<close> on the forms of the weather service, date and time to the minute or the second, in UTC.
  The result is the hour and the seconds since 1970.\<close>

definition two_digits :: "string \<Rightarrow> int option" where
  "two_digits s = (if length s = 2 \<and> list_all is_digit s then Some (int (digits_value s)) else None)"

definition in_range :: "int \<Rightarrow> int \<Rightarrow> int option \<Rightarrow> bool" where
  "in_range lo hi v = (case v of Some n \<Rightarrow> lo \<le> n \<and> n \<le> hi | None \<Rightarrow> False)"

definition iso_instant :: "string \<Rightarrow> (int \<times> int) result" where
  "iso_instant s =
    (let year = take 4 s; month = two_digits (take 2 (drop 5 s)); day = two_digits (take 2 (drop 8 s));
         hour = two_digits (take 2 (drop 11 s)); minute = two_digits (take 2 (drop 14 s));
         sec = (if length s = 16 then Some 0 else two_digits (take 2 (drop 17 s)));
         d = mk_date (int (digits_value year)) (case month of Some m \<Rightarrow> m | None \<Rightarrow> 0) (case day of Some n \<Rightarrow> n | None \<Rightarrow> 0) in
     if (length s = 16 \<or> length s = 19 \<and> s ! 16 = CHR '':'') \<and> list_all is_digit year
       \<and> s ! 4 = CHR ''-'' \<and> s ! 7 = CHR ''-'' \<and> List.member [CHR ''T'', CHR '' ''] (s ! 10) \<and> s ! 13 = CHR '':''
       \<and> valid_date d \<and> in_range 0 23 hour \<and> in_range 0 59 minute \<and> in_range 0 59 sec
     then Inr (the hour, (to_ordinal d - 719163) * 86400 + the hour * 3600 + the minute * 60 + the sec)
     else Inl ValueError)"

definition drop_z :: "string \<Rightarrow> string" where
  "drop_z s = (if s \<noteq> [] \<and> last s = CHR ''Z'' then butlast s else s)"

subsection \<open>Calibration\<close>

definition cloud_bucket :: "number option \<Rightarrow> int" where
  "cloud_bucket cover = (case cover of
     None \<Rightarrow> - 1
   | Some v \<Rightarrow> (let cc = clamped_cover v in if cc \<le> Fin 20 then 0 else if cc \<le> Fin 60 then 1 else 2))"

type_synonym buckets = "((int \<times> int) \<times> pyfloat list) list"

definition add_sample :: "int \<times> int \<Rightarrow> pyfloat \<Rightarrow> buckets \<Rightarrow> buckets" where
  "add_sample key x m = AList.update key ((case map_of m key of Some xs \<Rightarrow> xs | None \<Rightarrow> []) @ [x]) m"

text \<open>What the table keeps of a row.\<close>

record stored_forecast =
  sf_predicted :: pyfloat
  sf_corrected :: "pyfloat option"
  sf_cloud :: "pyfloat option"
  sf_source :: string

type_synonym forecast_table = "(string \<times> stored_forecast) list"

text \<open>The hour of a stored instant, as text and as number.\<close>

definition hour_text :: "string \<Rightarrow> string" where
  "hour_text ts = take 10 ts @ '' '' @ take 2 (drop 11 ts) @ '':00:00''"

definition hour_number :: "string \<Rightarrow> int" where
  "hour_number ts = (case two_digits (take 2 (drop 11 ts)) of Some h \<Rightarrow> h | None \<Rightarrow> 0)"

text \<open>The hourly averages of the past production come from the query; the instants since when are given.\<close>

definition actual_hourly :: "(string \<times> int \<times> pyfloat option) list \<Rightarrow> (string \<Rightarrow> bool) \<Rightarrow> forecast_table \<Rightarrow> buckets" where
  "actual_hourly rows recent table =
    (let covers = foldl (\<lambda>m (ts, r). AList.update (hour_text ts) (sf_cloud r) m) [] (filter (\<lambda>(ts, r). recent ts) table) in
     foldl (\<lambda>m (hour_ts, hour, avg). case avg of
         None \<Rightarrow> m
       | Some x \<Rightarrow> add_sample (hour, cloud_bucket (map_option Frac (case map_of covers hour_ts of Some cc \<Rightarrow> cc | None \<Rightarrow> None))) x m) [] rows)"

definition forecast_hourly :: "(string \<Rightarrow> bool) \<Rightarrow> forecast_table \<Rightarrow> buckets" where
  "forecast_hourly recent table =
    foldl (\<lambda>m (ts, r). add_sample (hour_number ts, cloud_bucket (map_option Frac (sf_cloud r))) (sf_predicted r) m) []
      (filter (\<lambda>(ts, r). recent ts) table)"

definition mean :: "pyfloat list \<Rightarrow> pyfloat result" where
  "mean xs = pf_div (foldl (+) (Fin 0) xs) (Fin (of_nat (length xs)))"

definition bias_ratio :: "forecast_config \<Rightarrow> pyfloat list \<Rightarrow> pyfloat list \<Rightarrow> pyfloat option result" where
  "bias_ratio cfg actual_vals forecast_vals =
    (let n = min (length actual_vals) (length forecast_vals) in
     if int n < fc_bias_min_samples cfg then Inr None
     else
     bindE (mean (take n actual_vals)) (\<lambda>actual_avg.
     bindE (mean (take n forecast_vals)) (\<lambda>forecast_avg.
     if forecast_avg \<le> Fin 0 then Inr None
     else bindE (pf_div actual_avg forecast_avg) (\<lambda>ratio. Inr (Some (pf_max (Fin 0) (pf_min (Fin 3) ratio)))))))"

type_synonym bias_map = "((int \<times> int) \<times> pyfloat) list"

definition compute_bias_map :: "forecast_config \<Rightarrow> buckets \<Rightarrow> buckets \<Rightarrow> bias_map result" where
  "compute_bias_map cfg actual forecast =
    foldE (\<lambda>m (key, actual_vals). case map_of forecast key of
        None \<Rightarrow> Inr m
      | Some forecast_vals \<Rightarrow> bindE (bias_ratio cfg actual_vals forecast_vals) (\<lambda>ratio.
          Inr (case ratio of Some x \<Rightarrow> AList.update key x m | None \<Rightarrow> m))) [] actual"

definition row_hour :: "string \<Rightarrow> int" where
  "row_hour ts = (case iso_instant (drop_z ts) of Inr (hour, secs) \<Rightarrow> hour | Inl _ \<Rightarrow> 0)"

definition corrected_row :: "bias_map \<Rightarrow> forecast_row \<Rightarrow> forecast_row" where
  "corrected_row m r =
    (let corrected = (case map_of m (row_hour (fr_ts r), cloud_bucket (fr_cloud r)) of
           Some ratio \<Rightarrow> fr_predicted r * ratio
         | None \<Rightarrow> fr_predicted r)
     in r\<lparr>fr_corrected := Some (round_digits 1 corrected)\<rparr>)"

definition apply_correction :: "bias_map \<Rightarrow> forecast_row list \<Rightarrow> forecast_row list" where
  "apply_correction m rows = map (corrected_row m) rows"

subsection \<open>Persistence\<close>

text \<open>The server: whether the table exists, whether it has the newer column, its rows by instant, and which of the next statements
  raise; and the requests to InfluxDB with whether the next ones succeed.\<close>

record forecast_store =
  fs_exists :: bool
  fs_column :: bool
  fs_rows :: forecast_table
  fs_faults :: "bool list"
  fs_posts :: "string list list"
  fs_refused :: "bool list"

definition request :: "(forecast_store \<Rightarrow> forecast_store) \<Rightarrow> (forecast_store, unit) op" where
  "request f st = (case fs_faults st of
     [] \<Rightarrow> (Inr (), f st)
   | fault # rest \<Rightarrow> if fault then (Inl RuntimeError, st\<lparr>fs_faults := rest\<rparr>) else (Inr (), f (st\<lparr>fs_faults := rest\<rparr>)))"

text \<open>A statement on a table that is not there raises as well.\<close>

definition on_table :: "(forecast_store \<Rightarrow> forecast_store) \<Rightarrow> (forecast_store, unit) op" where
  "on_table f = bindS (request id) (\<lambda>_. bindS (getS fs_exists) (\<lambda>there. if there then modifyS f else raiseS RuntimeError))"

definition ensure_table :: "(forecast_store, unit) op" where
  "ensure_table =
    bindS (request (\<lambda>st. if fs_exists st then st else st\<lparr>fs_exists := True, fs_column := True, fs_rows := []\<rparr>)) (\<lambda>_.
    bindS (request id) (\<lambda>_.
    bindS (getS fs_column) (\<lambda>there. if there then returnS () else request (\<lambda>st. st\<lparr>fs_column := True\<rparr>))))"

definition stored_row :: "forecast_row \<Rightarrow> stored_forecast" where
  "stored_row r = \<lparr>sf_predicted = fr_predicted r, sf_corrected = fr_corrected r, sf_cloud = map_option to_pf (fr_cloud r), sf_source = fr_source r\<rparr>"

definition upsert_row :: "forecast_row \<Rightarrow> forecast_store \<Rightarrow> forecast_store" where
  "upsert_row r st = st\<lparr>fs_rows := AList.update (drop_z (fr_ts r)) (stored_row r) (fs_rows st)\<rparr>"

text \<open>The lines for InfluxDB, with nanoseconds.\<close>

definition escape_measurement :: "string \<Rightarrow> string" where
  "escape_measurement name = replace_char (CHR '','') (backslash # '','') (replace_char (CHR '' '') (backslash # '' '')
     (replace_char backslash [backslash, backslash] name))"

definition escape_tag :: "string \<Rightarrow> string" where
  "escape_tag s = replace_char (CHR '','') (backslash # '','') (replace_char (CHR '' '') (backslash # '' '') s)"

definition ts_ns :: "int \<Rightarrow> int result" where
  "ts_ns secs = pf_trunc (dbl (of_int secs) * Fin 1000000000)"

definition percent_text :: "number \<Rightarrow> string" where
  "percent_text v = (case v of Whole n \<Rightarrow> int_str n | Frac x \<Rightarrow> float_repr x)"

definition forecast_line :: "string \<Rightarrow> string \<Rightarrow> string \<Rightarrow> int \<Rightarrow> string" where
  "forecast_line measurement source shown_value ns =
    escape_measurement measurement @ '',source='' @ escape_tag source @ '' combined='' @ shown_value @ '' '' @ int_str ns"

definition row_lines :: "forecast_row \<Rightarrow> string list result" where
  "row_lines r =
    bindE (iso_instant (drop_z (fr_ts r))) (\<lambda>(hour, secs).
    bindE (ts_ns secs) (\<lambda>ns.
    Inr ([forecast_line ''PV power predicted'' (fr_source r) (float_repr (fr_predicted r)) ns]
      @ (case fr_corrected r of Some x \<Rightarrow> [forecast_line ''PV power predicted corrected'' (fr_source r) (float_repr x) ns] | None \<Rightarrow> [])
      @ (case fr_cloud r of Some cc \<Rightarrow> [forecast_line ''Cloud cover'' (fr_source r) (percent_text cc) ns] | None \<Rightarrow> []))))"

definition post_lines :: "string list \<Rightarrow> (forecast_store, unit) op" where
  "post_lines ls st = (case fs_refused st of
     [] \<Rightarrow> (Inr (), st\<lparr>fs_posts := fs_posts st @ [ls]\<rparr>)
   | refused # rest \<Rightarrow> if refused then (Inl RuntimeError, st\<lparr>fs_refused := rest\<rparr>)
       else (Inr (), st\<lparr>fs_posts := fs_posts st @ [ls], fs_refused := rest\<rparr>))"

definition store_influxdb :: "forecast_row list \<Rightarrow> (forecast_store, unit) op" where
  "store_influxdb rows = bindS (liftS (mapE row_lines rows)) (\<lambda>ls. if concat ls = [] then returnS () else post_lines (concat ls))"

definition store_forecast :: "bool \<Rightarrow> forecast_row list \<Rightarrow> (forecast_store, int) op" where
  "store_forecast with_influx rows =
    (if rows = [] then returnS 0
     else
     bindS ensure_table (\<lambda>_.
     bindS (forS rows (\<lambda>r. on_table (upsert_row r))) (\<lambda>_.
     bindS (if with_influx then swallowS (store_influxdb rows) else returnS ()) (\<lambda>_.
     returnS (int (length rows))))))"

subsection \<open>Refresh\<close>

record forecast_inputs =
  fi_irradiance :: irradiance
  fi_weather :: "weather option"
  fi_archive :: "weather option"
  fi_actual :: "(string \<times> int \<times> pyfloat option) list"
  fi_recent :: "string \<Rightarrow> bool"
  fi_influx :: bool

definition has_archive_history :: "(forecast_store, bool) op" where
  "has_archive_history = bindS (on_table id) (\<lambda>_. getS (\<lambda>st. list_ex (\<lambda>(ts, r). sf_source r = ''open-meteo-archive'') (fs_rows st)))"

definition backfill_historical :: "forecast_inputs \<Rightarrow> forecast_config \<Rightarrow> (forecast_store, int) op" where
  "backfill_historical inp cfg = (case fi_archive inp of
     None \<Rightarrow> returnS 0
   | Some w \<Rightarrow> if wt_times w = [] then returnS 0
       else bindS (liftS (assemble_rows (fi_irradiance inp) cfg (complete_weather w) ''open-meteo-archive'')) (store_forecast (fi_influx inp)))"

text \<open>Both queries of the calibration read the table.\<close>

definition calibrated :: "forecast_inputs \<Rightarrow> forecast_config \<Rightarrow> forecast_row list \<Rightarrow> (forecast_store, forecast_row list) op" where
  "calibrated inp cfg rows =
    bindS (request id) (\<lambda>_.
    bindS (on_table id) (\<lambda>_.
    bindS (on_table id) (\<lambda>_.
    bindS (getS fs_rows) (\<lambda>table.
    bindS (liftS (compute_bias_map cfg (actual_hourly (fi_actual inp) (fi_recent inp) table) (forecast_hourly (fi_recent inp) table))) (\<lambda>m.
    returnS (if m \<noteq> [] then apply_correction m rows else rows))))))"

text \<open>\<^verbatim>\<open>try: rows = ... except Exception: log\<close>: the rows stay as they were.\<close>

definition or_else :: "('s, 'a) op \<Rightarrow> 'a \<Rightarrow> ('s, 'a) op" where
  "or_else m fallback st = (case m st of (Inr x, st) \<Rightarrow> (Inr x, st) | (Inl _, st) \<Rightarrow> (Inr fallback, st))"

definition refresh :: "forecast_inputs \<Rightarrow> (string \<times> string) list \<Rightarrow> (forecast_store, int option) op" where
  "refresh inp settings =
    bindS (liftS (config_from_settings settings)) (\<lambda>cfg.
    if \<not> fc_enabled cfg then returnS None
    else
    bindS (if fc_bias_enabled cfg then
        bindS has_archive_history (\<lambda>history.
        if history then returnS () else swallowS (bindS (backfill_historical inp cfg) (\<lambda>_. returnS ())))
      else returnS ()) (\<lambda>_.
    bindS (liftS (build_forecast (fi_irradiance inp) cfg (fi_weather inp))) (\<lambda>built.
    case built of
      None \<Rightarrow> returnS None
    | Some rows \<Rightarrow>
        if rows = [] then returnS None
        else
        bindS (if fc_bias_enabled cfg then or_else (calibrated inp cfg rows) rows else returnS rows) (\<lambda>rows.
        bindS (store_forecast (fi_influx inp) rows) (\<lambda>written. returnS (Some written))))))"

end
