(* ===== verification/Forecast_Service.thy ===== *)
theory Forecast_Service
  imports Forecast Configuration Api_Holding
begin

text \<open>
  The forecast in the running system: the periodic refresh by the writer of \<^verbatim>\<open>src/collector/collector.py\<close>, and the endpoint of
  \<^verbatim>\<open>src/api/__init__.py\<close> that shows what the table holds.
\<close>

subsection \<open>The periodic refresh\<close>

text \<open>The instant of the last refresh that stored rows, the database of the forecast, and the instants of all such refreshes.\<close>

record forecast_service =
  fv_last :: pyfloat
  fv_store :: forecast_store
  fv_refreshed :: "pyfloat list"

definition refresh_interval :: "forecast_config \<Rightarrow> pyfloat result" where
  "refresh_interval cfg = bindE (pf_of_int (fc_refresh_min cfg)) (\<lambda>m. Inr (pf_max (Fin 60) (m * Fin 60)))"

definition influx_wanted :: "attributes \<Rightarrow> bool" where
  "influx_wanted out \<longleftrightarrow> truthy (attr out ''influx_enabled'') \<and> truthy (attr out ''influx_token'')"

text \<open>One call with what the read of the settings finds, the time, and whether the connection is made; every exception is logged.\<close>

record forecast_call =
  ca_inputs :: forecast_inputs
  ca_settings :: "database option"
  ca_out :: attributes
  ca_now :: pyfloat
  ca_connects :: bool

definition maybe_refresh_forecast :: "forecast_call \<Rightarrow> forecast_service \<Rightarrow> forecast_service" where
  "maybe_refresh_forecast ca sv =
    (let settings = read_db_settings (ca_settings ca) in
     if settings = [] then sv
     else (case config_from_settings settings of
       Inl e \<Rightarrow> sv
     | Inr cfg \<Rightarrow>
        if \<not> fc_enabled cfg then sv
        else (case refresh_interval cfg of
          Inl e \<Rightarrow> sv
        | Inr interval \<Rightarrow>
           if ca_now ca - fv_last sv < interval then sv
           else if \<not> ca_connects ca then sv
           else (case refresh ((ca_inputs ca)\<lparr>fi_influx := influx_wanted (ca_out ca)\<rparr>) settings (fv_store sv) of
             (Inr (Some written), st) \<Rightarrow> \<lparr>fv_last = ca_now ca, fv_store = st, fv_refreshed = fv_refreshed sv @ [ca_now ca]\<rparr>
           | (_, st) \<Rightarrow> sv\<lparr>fv_store := st\<rparr>))))"

definition service_run :: "forecast_call list \<Rightarrow> forecast_service \<Rightarrow> forecast_service" where
  "service_run calls sv = foldl (\<lambda>sv ca. maybe_refresh_forecast ca sv) sv calls"

subsection \<open>The endpoint\<close>

record forecast_entry =
  fe_ts :: string
  fe_predicted :: pyfloat
  fe_corrected :: "pyfloat option"
  fe_cloud :: "pyfloat option"
  fe_source :: string

record forecast_reply =
  fp_hours :: int
  fp_count :: int
  fp_generated_at :: string
  fp_data :: "forecast_entry list"

text \<open>The instants of the table in seconds since 1970, and the condition of the query; \<^verbatim>\<open>now\<close> is the clock of the server in its own time zone, read
  as if it were UTC.\<close>

definition instant_secs :: "string \<Rightarrow> int" where
  "instant_secs ts = (case iso_instant ts of Inr (hour, secs) \<Rightarrow> secs | Inl _ \<Rightarrow> 0)"

definition in_window :: "int \<Rightarrow> int \<Rightarrow> string \<Rightarrow> bool" where
  "in_window now hours ts \<longleftrightarrow> now \<le> instant_secs ts \<and> instant_secs ts < now + hours * 3600"

definition utc_text :: "string \<Rightarrow> string" where
  "utc_text ts = take 10 ts @ ''T'' @ take 5 (drop 11 ts) @ (if length ts = 16 then '':00'' else take 3 (drop 16 ts)) @ ''+00:00''"

definition shown_entry :: "string \<times> stored_forecast \<Rightarrow> forecast_entry" where
  "shown_entry = (\<lambda>(ts, sf). \<lparr>fe_ts = utc_text ts, fe_predicted = sf_predicted sf, fe_corrected = sf_corrected sf,
     fe_cloud = sf_cloud sf, fe_source = sf_source sf\<rparr>)"

definition window_rows :: "int \<Rightarrow> int \<Rightarrow> forecast_table \<Rightarrow> forecast_table" where
  "window_rows now hours table = sort_key (\<lambda>(ts, sf). instant_secs ts) (filter (\<lambda>(ts, sf). in_window now hours ts) table)"

definition api_forecast :: "int \<Rightarrow> string \<Rightarrow> int \<Rightarrow> (forecast_store, forecast_reply reply) op" where
  "api_forecast now generated_at hours =
    (if \<not> (1 \<le> hours \<and> hours \<le> 168) then returnS (Failure 422 ''hours'')
     else
     bindS (on_table id) (\<lambda>_.
     bindS (getS (\<lambda>st. map shown_entry (window_rows now hours (fs_rows st)))) (\<lambda>data.
     returnS (Reply \<lparr>fp_hours = hours, fp_count = int (length data), fp_generated_at = generated_at, fp_data = data\<rparr>))))"

end
