(* ===== verification/Forecast_Facts.thy ===== *)
theory Forecast_Facts
  imports Forecast Outputs_Facts Automation_Control
begin

text \<open>
  Bounds of the predicted and of the calibrated power, what a refresh leaves in the table, and the exactness of the
  timestamps.
\<close>

subsection \<open>Clamping\<close>

lemma clamp_range: "lo \<le> hi \<Longrightarrow> \<exists>q. pf_max (Fin lo) (pf_min (Fin hi) x) = Fin q \<and> lo \<le> q \<and> q \<le> hi"
  by (cases x) (auto simp: pf_max_def pf_min_def)

lemma clamp_range': "lo \<le> hi \<Longrightarrow> \<exists>q. pf_min (Fin hi) (pf_max (Fin lo) x) = Fin q \<and> lo \<le> q \<and> q \<le> hi"
  by (cases x) (auto simp: pf_max_def pf_min_def)

lemma unit_dbl: "0 \<le> x \<Longrightarrow> x \<le> 1 \<Longrightarrow> \<exists>y. dbl x = Fin y \<and> 0 \<le> y \<and> y \<le> 1"
  using fl_ge_int [of 0 x] fl_le_int [of 1 x] by (simp add: dbl_def Let_def max_double_def)

lemma unit_product: "0 \<le> x \<Longrightarrow> x \<le> 1 \<Longrightarrow> 0 \<le> y \<Longrightarrow> y \<le> 1 \<Longrightarrow> x * y \<le> (1 :: rat)"
  using mult_mono [of x 1 y 1] by simp

lemma cloud_factor_range: "\<exists>f. cloud_factor cover = Fin f \<and> 0 \<le> f \<and> f \<le> 1"
proof (cases cover)
  case (Some cc)
  obtain q where q: "clamped_cover cc = Fin q" "0 \<le> q" "q \<le> 100"
    using clamp_range [of 0 100 "to_pf cc"] by (auto simp: clamped_cover_def)
  obtain p where p: "dbl (q / 100) = Fin p" "0 \<le> p" "p \<le> 1"
    using unit_dbl [of "q / 100"] q by auto
  obtain e where e: "dbl (85 / 100) = Fin e" "0 \<le> e" "e \<le> 1"
    using unit_dbl [of "85 / 100"] by auto
  obtain w where w: "dbl (e * p) = Fin w" "0 \<le> w" "w \<le> 1"
    using unit_dbl [of "e * p"] unit_product [OF e(2,3) p(2,3)] e p by auto
  obtain f where "dbl (1 - w) = Fin f" "0 \<le> f" "f \<le> 1"
    using unit_dbl [of "1 - w"] w by auto
  then show ?thesis
    using Some q p e w by (simp add: cloud_factor_def over_def minus_pyfloat_def)
qed (simp add: cloud_factor_def)

lemma sun_factor_range: "\<exists>f. sun_factor cover shortwave = Fin f \<and> 0 \<le> f \<and> f \<le> 1"
  using cloud_factor_range [of cover] clamp_range' [of 0 1] by (auto simp: sun_factor_def split: option.split)

subsection \<open>The predicted power\<close>

lemma round_digits_mono: "x \<le> y \<Longrightarrow> round_digits n x \<le> round_digits n y"
proof -
  assume xy: "x \<le> y"
  have fin: "round_digits n (Fin a) \<le> round_digits n (Fin b)" if "a \<le> b" for a b
  proof -
    have "a * 10 ^ n \<le> b * 10 ^ n"
      using that by simp
    then have "round_half_even (a * 10 ^ n) \<le> round_half_even (b * 10 ^ n)"
      by (rule round_half_even_mono)
    then show ?thesis
      by (simp add: dbl_mono divide_right_mono)
  qed
  have "dbl q \<le> PosInf" "NegInf \<le> dbl q" for q
    by (simp_all add: dbl_def Let_def)
  with xy fin show ?thesis
    by (cases x; cases y) auto
qed

lemma dbl_0 [simp]: "dbl 0 = Fin 0"
  by (simp add: dbl_def max_double_def)

lemma round_digits_0 [simp]: "round_digits n (Fin 0) = Fin 0"
  using round_half_even_of_int [of 0] by simp

lemma dbl_cases: "0 \<le> x \<Longrightarrow> (\<exists>q. dbl x = Fin q \<and> 0 \<le> q) \<or> dbl x = PosInf"
  using fl_nonneg [of x] by (auto simp: dbl_def Let_def max_double_def)

text \<open>A product with a factor up to one stays between zero and the product with one.\<close>

lemma product_bounds:
  assumes "0 \<le> c" "0 \<le> f" "f \<le> 1" "0 < gain"
  shows "Fin 0 \<le> Fin c * Fin f * Fin gain" "Fin c * Fin f * Fin gain \<le> Fin c * Fin 1 * Fin gain"
proof -
  have le: "c * f \<le> c"
    using assms mult_left_mono [of f 1 c] by simp
  then have mono: "dbl (c * f) \<le> dbl c"
    by (rule dbl_mono)
  have pos: "0 \<le> c * f"
    using assms by simp
  have step: "Fin a * Fin gain \<le> Fin b * Fin gain" if "a \<le> b" for a b
    using that assms by (simp add: dbl_mono mult_right_mono)
  have sure: "Fin 0 \<le> Fin a * Fin gain" if "0 \<le> a" for a
    using dbl_mono [of 0 "a * gain"] that assms by simp
  have inf: "Fin a * Fin gain \<le> PosInf" for a
    by (simp add: dbl_def Let_def)
  show "Fin 0 \<le> Fin c * Fin f * Fin gain"
    using dbl_cases [OF pos] sure assms(4) by (auto simp: signed_inf_def)
  show "Fin c * Fin f * Fin gain \<le> Fin c * Fin 1 * Fin gain"
    using dbl_cases [OF pos] dbl_cases [OF assms(1)] mono step inf assms(4) by (auto simp: signed_inf_def)
qed

lemma gain_range: "0 \<le> g \<Longrightarrow> g \<le> 1 \<Longrightarrow> \<exists>q. Fin 1 + Fin g = Fin q \<and> 0 < q"
  using dbl_small [of "1 + g"] fl_ge_int [of 1 "1 + g"] by auto

lemma predicted_range:
  assumes "fc_bifacial_gain cfg = Fin g" "0 \<le> g" "g \<le> 1" "0 \<le> c"
  shows "Fin 0 \<le> predicted_watts cfg (Some (Fin c)) cover shortwave"
    and "predicted_watts cfg (Some (Fin c)) cover shortwave \<le> predicted_watts cfg (Some (Fin c)) None None"
proof -
  obtain f where f: "sun_factor cover shortwave = Fin f" "0 \<le> f" "f \<le> 1"
    using sun_factor_range [of cover shortwave] by blast
  obtain gain where gain: "Fin 1 + Fin g = Fin gain" "0 < gain"
    using gain_range [OF assms(2,3)] by blast
  have clear: "sun_factor None None = Fin 1"
    by (simp add: sun_factor_def cloud_factor_def)
  note b = product_bounds [OF assms(4) f(2,3) gain(2)]
  show "Fin 0 \<le> predicted_watts cfg (Some (Fin c)) cover shortwave"
    using round_digits_mono [OF b(1), of 1] by (simp add: predicted_watts_def f gain assms(1) del: times_pyfloat.simps plus_pyfloat.simps round_digits.simps)
  show "predicted_watts cfg (Some (Fin c)) cover shortwave \<le> predicted_watts cfg (Some (Fin c)) None None"
    using round_digits_mono [OF b(2), of 1] by (simp add: predicted_watts_def f clear gain assms(1) del: times_pyfloat.simps plus_pyfloat.simps round_digits.simps)
qed


lemma clear_sky_nonneg:
  assumes "clear_sky_pv cfg answer = Some curve" "i < length curve" "curve ! i = Fin c"
  shows "0 \<le> c"
proof -
  obtain irr where irr: "answer = Some irr" "curve = map (\<lambda>poa. pf_max (Fin 0) (fc_array_kwp cfg * over poa 1000 * Fin 1000)) irr"
    using assms(1) by (auto simp: clear_sky_pv_def)
  then obtain x where "pf_max (Fin 0) x = Fin c"
    using assms(2,3) by auto
  then show ?thesis
    by (cases x) (auto simp: pf_max_def split: if_splits)
qed

lemma mapE_nth: "mapE f xs = Inr ys \<Longrightarrow> length ys = length xs \<and> (\<forall>i < length xs. f (xs ! i) = Inr (ys ! i))"
proof (induction xs arbitrary: ys)
  case (Cons x xs)
  then obtain z zs where "f x = Inr z" "mapE f xs = Inr zs" "ys = z # zs"
    by (auto simp: bindE_eq_Inr)
  with Cons.IH [of zs] show ?case
    by (auto simp: nth_Cons split: nat.split)
qed simp

lemma assembled_row:
  assumes "assemble_rows poa cfg w source = Inr rows"
  shows "length rows = length (wt_times w)"
    and "i < length rows \<Longrightarrow> assemble_row cfg (clear_sky_pv cfg (poa cfg (wt_times w))) w source i = Inr (rows ! i)"
  using mapE_nth [OF assms [unfolded assemble_rows_def]] by auto

lemma assemble_row_fields:
  assumes "assemble_row cfg (Some curve) w source i = Inr r"
  shows "i < length curve" "fr_ts r = wt_times w ! i"
    "fr_predicted r = predicted_watts cfg (Some (curve ! i)) (item (wt_cloud w) i) (item (wt_shortwave w) i)"
proof -
  have "i < length curve \<and> r = \<lparr>fr_ts = wt_times w ! i,
      fr_predicted = predicted_watts cfg (Some (curve ! i)) (item (wt_cloud w) i) (item (wt_shortwave w) i),
      fr_cloud = item (wt_cloud w) i, fr_source = source, fr_corrected = None\<rparr>"
    using assms by (cases "i < length curve") (simp_all add: assemble_row_def)
  then show "i < length curve" "fr_ts r = wt_times w ! i"
      "fr_predicted r = predicted_watts cfg (Some (curve ! i)) (item (wt_cloud w) i) (item (wt_shortwave w) i)"
    by simp_all
qed

text \<open>C27: assembling the forecast gives one row per instant of the weather, in order, and for an array with a finite clear-sky curve and a
  back-side gain between nothing and all the predicted power is never negative and never above the one of a clear sky.\<close>

theorem forecast_bounds:
  assumes "assemble_rows poa cfg w source = Inr rows" "clear_sky_pv cfg (poa cfg (wt_times w)) = Some (map Fin curve)"
    and "fc_bifacial_gain cfg = Fin g" "0 \<le> g" "g \<le> 1"
  shows "map fr_ts rows = wt_times w
    \<and> (\<forall>i < length rows. Fin 0 \<le> fr_predicted (rows ! i)
        \<and> fr_predicted (rows ! i) \<le> predicted_watts cfg (Some (Fin (curve ! i))) None None)"
proof (intro conjI allI impI)
  have row: "assemble_row cfg (Some (map Fin curve)) w source i = Inr (rows ! i)" if "i < length rows" for i
    using assembled_row(2) [OF assms(1) that] unfolding assms(2) .
  show "map fr_ts rows = wt_times w"
    using assembled_row(1) [OF assms(1)] assemble_row_fields(2) [OF row] by (intro nth_equalityI) simp_all
  fix i assume i: "i < length rows"
  have bound: "i < length curve"
    using assemble_row_fields(1) [OF row [OF i]] by simp
  then have c: "0 \<le> curve ! i"
    using clear_sky_nonneg [OF assms(2), of i] by simp
  have eq: "fr_predicted (rows ! i) = predicted_watts cfg (Some (Fin (curve ! i))) (item (wt_cloud w) i) (item (wt_shortwave w) i)"
    using assemble_row_fields(3) [OF row [OF i]] bound by simp
  show "Fin 0 \<le> fr_predicted (rows ! i)"
    "fr_predicted (rows ! i) \<le> predicted_watts cfg (Some (Fin (curve ! i))) None None"
    unfolding eq using predicted_range [OF assms(3-5) c] by blast+
qed


definition sample_forecast_config :: forecast_config where
  "sample_forecast_config = \<lparr>fc_enabled = True, fc_latitude = Fin 30, fc_longitude = Fin (- 95), fc_array_kwp = Fin 1, fc_array_azimuth = Fin 180,
     fc_array_tilt = Fin 21, fc_bifacial_gain = Fin 0, fc_provider = ''open-meteo'', fc_hours = 48, fc_refresh_min = 120,
     fc_bias_enabled = True, fc_bias_lookback_days = 7, fc_bias_min_samples = 2\<rparr>"

definition noon_weather :: weather where
  "noon_weather = \<lparr>wt_times = [''2024-06-01T12:00''], wt_cloud = [Some (Whole 50)], wt_shortwave = [None]\<rparr>"

definition noon_sun :: irradiance where
  "noon_sun cfg instants = Some (map (\<lambda>_. Fin 1000) instants)"

lemma noon_curve: "clear_sky_pv sample_forecast_config (noon_sun sample_forecast_config (wt_times noon_weather)) = Some (map Fin [1000])"
  using dbl_of_int [of 1] dbl_of_int [of 1000]
  by (simp add: clear_sky_pv_def noon_sun_def noon_weather_def sample_forecast_config_def over_def pf_max_def)

theorem forecast_bounds_witness:
  "\<exists>r. assemble_rows noon_sun sample_forecast_config noon_weather ''open-meteo'' = Inr [r]
     \<and> Fin 0 \<le> fr_predicted r \<and> fr_predicted r \<le> predicted_watts sample_forecast_config (Some (Fin 1000)) None None"
proof -
  obtain r where r: "assemble_rows noon_sun sample_forecast_config noon_weather ''open-meteo'' = Inr [r]"
    using noon_curve by (simp add: assemble_rows_def assemble_row_def noon_weather_def)
  have gain: "fc_bifacial_gain sample_forecast_config = Fin 0"
    by (simp add: sample_forecast_config_def)
  show ?thesis
    using forecast_bounds [OF r noon_curve gain] r by simp
qed


subsection \<open>The calibration\<close>

lemma bias_ratio_range:
  assumes "bias_ratio cfg a f = Inr (Some ratio)"
  shows "fc_bias_min_samples cfg \<le> int (min (length a) (length f)) \<and> (\<exists>q. ratio = Fin q \<and> 0 \<le> q \<and> q \<le> 3)"
  using assms clamp_range [of 0 3] by (auto simp: bias_ratio_def Let_def bindE_eq_Inr split: if_splits)

text \<open>Every ratio is between zero and three and comes from a bucket with enough samples in both series.\<close>

definition sampled :: "forecast_config \<Rightarrow> buckets \<Rightarrow> buckets \<Rightarrow> int \<times> int \<Rightarrow> pyfloat \<Rightarrow> bool" where
  "sampled cfg actual forecast key ratio \<longleftrightarrow> (\<exists>q. ratio = Fin q \<and> 0 \<le> q \<and> q \<le> 3)
    \<and> (\<exists>a f. (key, a) \<in> set actual \<and> map_of forecast key = Some f \<and> fc_bias_min_samples cfg \<le> int (min (length a) (length f)))"

lemma bias_map_sampled:
  assumes "compute_bias_map cfg actual forecast = Inr m" "map_of m key = Some ratio"
  shows "sampled cfg actual forecast key ratio"
proof -
  let ?step = "\<lambda>m (key, actual_vals). case map_of forecast key of
      None \<Rightarrow> Inr m
    | Some forecast_vals \<Rightarrow> bindE (bias_ratio cfg actual_vals forecast_vals) (\<lambda>ratio.
        Inr (case ratio of Some x \<Rightarrow> AList.update key x m | None \<Rightarrow> m))"
  have "\<forall>key ratio. map_of m' key = Some ratio \<longrightarrow> sampled cfg actual forecast key ratio"
    if "foldE ?step m0 xs = Inr m'" "set xs \<subseteq> set actual" "\<forall>key ratio. map_of m0 key = Some ratio \<longrightarrow> sampled cfg actual forecast key ratio"
    for xs m0 m'
    using that
  proof (induction xs arbitrary: m0)
    case (Cons x xs)
    obtain k a where x: "x = (k, a)"
      by (cases x)
    obtain m1 where step: "?step m0 x = Inr m1" and rest: "foldE ?step m1 xs = Inr m'"
      using Cons.prems(1) by (auto simp only: foldE.simps bindE_eq_Inr)
    have "\<forall>key ratio. map_of m1 key = Some ratio \<longrightarrow> sampled cfg actual forecast key ratio"
    proof (cases "map_of forecast k")
      case None
      then show ?thesis
        using step Cons.prems(3) by (simp add: x)
    next
      case (Some f)
      then obtain ratio where ratio: "bias_ratio cfg a f = Inr ratio" "m1 = (case ratio of Some q \<Rightarrow> AList.update k q m0 | None \<Rightarrow> m0)"
        using step by (auto simp: x bindE_eq_Inr)
      have "sampled cfg actual forecast k q" if "ratio = Some q" for q
        using bias_ratio_range [of cfg a f q] ratio(1) Some Cons.prems(2) that by (auto simp: sampled_def x)
      then show ?thesis
        using Cons.prems(3) by (simp add: ratio(2) update_conv' split: option.split)
    qed
    then show ?case
      using Cons.IH [OF rest] Cons.prems(2) by simp
  qed simp
  from this [of "[]" actual m] show ?thesis
    using assms by (cases key) (simp add: compute_bias_map_def)
qed

text \<open>C28: the calibration changes a predicted power only where both series have at least the wanted number of samples for its hour and cloud
  bucket, and then to at least zero and at most three times the prediction, up to the rounding; elsewhere the corrected power is the prediction rounded.\<close>

theorem correction_bounds:
  assumes "compute_bias_map cfg actual forecast = Inr m" "fr_predicted r = Fin p" "0 \<le> p"
  shows "case map_of m (row_hour (fr_ts r), cloud_bucket (fr_cloud r)) of
      None \<Rightarrow> fr_corrected (corrected_row m r) = Some (round_digits 1 (Fin p))
    | Some ratio \<Rightarrow>
        (\<exists>x. fr_corrected (corrected_row m r) = Some x \<and> Fin 0 \<le> x \<and> x \<le> round_digits 1 (Fin p * Fin 3))
        \<and> (\<exists>a f. ((row_hour (fr_ts r), cloud_bucket (fr_cloud r)), a) \<in> set actual
            \<and> map_of forecast (row_hour (fr_ts r), cloud_bucket (fr_cloud r)) = Some f
            \<and> fc_bias_min_samples cfg \<le> int (min (length a) (length f)))"
proof (cases "map_of m (row_hour (fr_ts r), cloud_bucket (fr_cloud r))")
  case None
  then show ?thesis
    using assms(2) by (simp add: corrected_row_def del: round_digits.simps)
next
  case (Some ratio)
  note s = bias_map_sampled [OF assms(1) Some, unfolded sampled_def]
  then obtain q where q: "ratio = Fin q" "0 \<le> q" "q \<le> 3"
    by blast
  have "dbl 0 \<le> dbl (p * q)" "dbl (p * q) \<le> dbl (p * 3)"
    using q assms(3) mult_left_mono [of q 3 p] by (simp_all only: dbl_mono mult_nonneg_nonneg)
  then have "Fin 0 \<le> round_digits 1 (Fin p * Fin q)" "round_digits 1 (Fin p * Fin q) \<le> round_digits 1 (Fin p * Fin 3)"
    using round_digits_mono [of "Fin 0" "Fin p * Fin q" 1] round_digits_mono [of "Fin p * Fin q" "Fin p * Fin 3" 1]
    by (simp_all del: round_digits.simps)
  then show ?thesis
    using Some s q(1) assms(2) by (simp add: corrected_row_def del: round_digits.simps times_pyfloat.simps)
qed


lemma noon_hour: "row_hour ''2024-06-01T12:00'' = 12"
  by code_simp

definition noon_row :: forecast_row where
  "noon_row = \<lparr>fr_ts = ''2024-06-01T12:00'', fr_predicted = Fin 250, fr_cloud = Some (Whole 50), fr_source = ''open-meteo'', fr_corrected = None\<rparr>"

theorem correction_bounds_witness:
  "compute_bias_map sample_forecast_config [((12, 1), [Fin 400, Fin 400])] [((12, 1), [Fin 200, Fin 200])] = Inr [((12, 1), Fin 2)]
   \<and> (\<exists>x. fr_corrected (corrected_row [((12, 1), Fin 2)] noon_row) = Some x \<and> Fin 0 \<le> x \<and> x \<le> round_digits 1 (Fin 250 * Fin 3))"
proof -
  have m: "compute_bias_map sample_forecast_config [((12, 1), [Fin 400, Fin 400])] [((12, 1), [Fin 200, Fin 200])] = Inr [((12, 1), Fin 2)]"
    using dbl_of_int [of 400] dbl_of_int [of 800] dbl_of_int [of 200] dbl_of_int [of 2]
    by (simp add: compute_bias_map_def bias_ratio_def mean_def sample_forecast_config_def Let_def pf_max_def pf_min_def)
  have key: "(row_hour (fr_ts noon_row), cloud_bucket (fr_cloud noon_row)) = (12, 1)"
    using dbl_of_int [of 50]
    by (simp add: noon_row_def noon_hour cloud_bucket_def clamped_cover_def to_pf_def pf_max_def pf_min_def Let_def)
  have p: "fr_predicted noon_row = Fin 250"
    by (simp add: noon_row_def)
  have "map_of [((12, 1), Fin 2)] (12 :: int, 1 :: int) = Some (Fin 2)"
    by simp
  then show ?thesis
    using correction_bounds [OF m p] m unfolding key by (simp only: option.case)
qed


subsection \<open>Timestamps\<close>

text \<open>The factor for nanoseconds is a power of five times a power of two, so the product has few enough significant bits.\<close>

lemma nanoseconds_representable: "\<bar>secs\<bar> \<le> 4600000000 \<Longrightarrow> representable (of_int secs * 1000000000)"
  unfolding representable_def
  by (intro exI [of _ "secs * 1953125"] exI [of _ 9]) (auto simp: pow2_def)

lemma trunc_of_int: "pf_trunc (Fin (of_int n)) = Inr n"
  by simp

text \<open>The timestamps sent to InfluxDB are exact for every instant up to the year 2115: although the seconds are multiplied as floats, no
  nanosecond is lost.\<close>

lemma timestamps_exact:
  assumes "\<bar>secs\<bar> \<le> 4600000000"
  shows "ts_ns secs = Inr (secs * 1000000000)"
proof -
  have int: "(of_int secs * 1000000000 :: rat) = of_int (secs * 1000000000)"
    by simp
  have "\<bar>secs\<bar> \<le> 2 ^ 53"
    using assms by simp
  then have whole: "dbl (of_int secs) = Fin (of_int secs)"
    by (rule dbl_of_int)
  have exact: "fl (of_int secs * 1000000000) = of_int secs * 1000000000"
    by (rule fl_representable [OF nanoseconds_representable [OF assms]])
  have "\<bar>of_int secs * 1000000000 :: rat\<bar> \<le> 2 ^ 63"
    using assms unfolding int of_int_abs [symmetric] by (simp add: abs_mult flip: of_int_abs)
  also have "(2 :: rat) ^ 63 < max_double"
    unfolding max_double_def by (rule power_strict_increasing) simp_all
  finally have "dbl (of_int secs * 1000000000) = Fin (of_int secs * 1000000000)"
    using dbl_Fin [of "of_int secs * 1000000000"] exact by simp
  then show ?thesis
    unfolding ts_ns_def whole times_pyfloat.simps by (simp only: int trunc_of_int)
qed

subsection \<open>The table\<close>

lemma request_ok: "fs_faults st = [] \<Longrightarrow> request f st = (Inr (), f st)"
  by (simp add: request_def)

lemma on_table_ok: "fs_faults st = [] \<Longrightarrow> fs_exists st \<Longrightarrow> on_table f st = (Inr (), f st)"
  by (simp add: on_table_def request_ok op_defs)

definition table_made :: "forecast_store \<Rightarrow> forecast_store" where
  "table_made st = st\<lparr>fs_exists := True, fs_column := True, fs_rows := (if fs_exists st then fs_rows st else [])\<rparr>"

lemma ensure_table_ok: "fs_faults st = [] \<Longrightarrow> ensure_table st = (Inr (), table_made st)"
  by (auto simp: ensure_table_def request_ok op_defs table_made_def)

definition upserted :: "forecast_row list \<Rightarrow> forecast_table \<Rightarrow> forecast_table" where
  "upserted rows table = foldl (\<lambda>m r. AList.update (drop_z (fr_ts r)) (stored_row r) m) table rows"

lemma upserts_ok: "fs_faults st = [] \<Longrightarrow> fs_exists st \<Longrightarrow>
    forS rows (\<lambda>r. on_table (upsert_row r)) st = (Inr (), st\<lparr>fs_rows := upserted rows (fs_rows st)\<rparr>)"
proof (induction rows arbitrary: st)
  case (Cons r rows)
  have "fs_faults (upsert_row r st) = []" "fs_exists (upsert_row r st)"
    using Cons.prems by (simp_all add: upsert_row_def)
  from Cons.IH [OF this] show ?case
    using Cons.prems by (simp add: bindS_def on_table_ok upserted_def) (simp add: upsert_row_def)
qed (simp add: op_defs upserted_def)

lemma upserted_other: "ts \<notin> (\<lambda>r. drop_z (fr_ts r)) ` set rows \<Longrightarrow> map_of (upserted rows table) ts = map_of table ts"
  by (induction rows arbitrary: table) (simp_all add: upserted_def update_conv')

lemma upserted_row:
  "distinct (map (\<lambda>r. drop_z (fr_ts r)) rows) \<Longrightarrow> r \<in> set rows \<Longrightarrow> map_of (upserted rows table) (drop_z (fr_ts r)) = Some (stored_row r)"
proof (induction rows arbitrary: table)
  case (Cons x rows)
  have step: "upserted (x # rows) table = upserted rows (AList.update (drop_z (fr_ts x)) (stored_row x) table)"
    by (simp add: upserted_def)
  show ?case
  proof (cases "r = x")
    case True
    then show ?thesis
      using Cons.prems(1) unfolding step by (simp add: upserted_other update_conv')
  next
    case False
    then show ?thesis
      using Cons by (simp add: step)
  qed
qed simp

lemma post_keeps_table: "fs_rows (snd (store_influxdb rows st)) = fs_rows st" "fs_exists (snd (store_influxdb rows st)) = fs_exists st"
    "fs_column (snd (store_influxdb rows st)) = fs_column st" "fs_faults (snd (store_influxdb rows st)) = fs_faults st"
  by (cases "mapE row_lines rows"; auto simp: store_influxdb_def post_lines_def op_defs split: list.split)+

text \<open>Over a server that answers, storing a forecast reports the number of its rows, makes the table with its newer column when it was not
  there, and upserts its rows, whatever InfluxDB does.\<close>

lemma store_faultless:
  assumes "fs_faults st = []" "rows \<noteq> []"
  shows "\<exists>st'. store_forecast with_influx rows st = (Inr (int (length rows)), st') \<and> fs_faults st' = [] \<and> fs_exists st' \<and> fs_column st'
    \<and> fs_rows st' = upserted rows (if fs_exists st then fs_rows st else [])"
proof -
  define mid where "mid = (table_made st)\<lparr>fs_rows := upserted rows (fs_rows (table_made st))\<rparr>"
  define final where "final = (if with_influx then snd (store_influxdb rows mid) else mid)"
  have made: "fs_faults (table_made st) = []" "fs_exists (table_made st)"
    using assms(1) by (simp_all add: table_made_def)
  have run: "store_forecast with_influx rows st = (Inr (int (length rows)), final)"
    using assms(2) upserts_ok [OF made]
    by (simp add: store_forecast_def ensure_table_ok [OF assms(1)] bindS_def swallowS_def returnS_def mid_def [symmetric] final_def)
  have "fs_rows final = fs_rows mid" "fs_exists final" "fs_column final" "fs_faults final = []"
    using assms(1) by (simp_all add: final_def post_keeps_table) (simp_all add: mid_def table_made_def)
  then show ?thesis
    using run by (simp add: mid_def table_made_def)
qed

subsection \<open>Refresh\<close>

text \<open>The refresh never makes the table on a server without it: the question for past rows, which is asked first, raises.\<close>

lemma refresh_needs_table:
  assumes "config_from_settings settings = Inr cfg" "fc_enabled cfg" "fc_bias_enabled cfg" "fs_faults st = []" "\<not> fs_exists st"
  shows "refresh inp settings st = (Inl RuntimeError, st)"
  using assms by (simp add: refresh_def has_archive_history_def on_table_def request_ok op_defs)

lemma refresh_disabled: "config_from_settings settings = Inr cfg \<Longrightarrow> \<not> fc_enabled cfg \<Longrightarrow> refresh inp settings st = (Inr None, st)"
  by (simp add: refresh_def op_defs)

text \<open>An infinite number of hours among the settings stops the refresh before it asks anything.\<close>

lemma infinite_hours_raise: "refresh inp [(''forecast_hours'', ''inf'')] st = (Inl OverflowError, st)"
proof -
  have "parse_float ''inf'' = Some PosInf"
    by code_simp
  then have "config_from_settings [(''forecast_hours'', ''inf'')] = Inl OverflowError"
    by (simp add: config_from_settings_def int_setting_def)
  then show ?thesis
    by (simp add: refresh_def op_defs)
qed

end
