(* ===== verification/Forecast_Service_Facts.thy ===== *)
theory Forecast_Service_Facts
  imports Forecast_Service Forecast_Facts
begin

text \<open>
  Refreshes that stored rows are at least a minute apart, and the endpoint shows what the last of them stored.
\<close>

subsection \<open>The distance of the refreshes\<close>

text \<open>The instants so far are finite, the last one is remembered, and any two are a minute apart.\<close>

definition service_ok :: "rat list \<Rightarrow> forecast_service \<Rightarrow> bool" where
  "service_ok ts sv \<longleftrightarrow> fv_refreshed sv = map Fin ts \<and> (ts \<noteq> [] \<longrightarrow> fv_last sv = Fin (last ts)) \<and> sorted ts
    \<and> sorted_wrt (\<lambda>t u. \<not> Fin u - Fin t < Fin 60) ts"

lemma interval_least: "refresh_interval cfg = Inr interval \<Longrightarrow> \<not> x < interval \<Longrightarrow> \<not> x < Fin 60"
  by (cases x; cases interval) (auto simp: refresh_interval_def bindE_eq_Inr pf_max_def split: if_splits)

lemma maybe_refresh_cases:
  "fv_refreshed (maybe_refresh_forecast ca sv) = fv_refreshed sv \<and> fv_last (maybe_refresh_forecast ca sv) = fv_last sv
   \<or> fv_refreshed (maybe_refresh_forecast ca sv) = fv_refreshed sv @ [ca_now ca] \<and> fv_last (maybe_refresh_forecast ca sv) = ca_now ca
     \<and> \<not> ca_now ca - fv_last sv < Fin 60"
  unfolding maybe_refresh_forecast_def Let_def by (auto split: sum.split option.split prod.split dest: interval_least)

lemma sorted_wrt_snoc: "sorted_wrt P (xs @ [x]) \<longleftrightarrow> sorted_wrt P xs \<and> (\<forall>y \<in> set xs. P y x)"
  by (simp add: sorted_wrt_append)

lemma le_last: "sorted xs \<Longrightarrow> x \<in> set xs \<Longrightarrow> x \<le> last xs"
  by (induction xs) auto

lemma maybe_refresh_ok:
  assumes "service_ok ts sv" "ca_now ca = Fin t" "\<forall>u \<in> set ts. u \<le> t"
  shows "\<exists>ts'. service_ok ts' (maybe_refresh_forecast ca sv) \<and> set ts' \<subseteq> insert t (set ts)"
proof -
  consider (kept) "fv_refreshed (maybe_refresh_forecast ca sv) = fv_refreshed sv" "fv_last (maybe_refresh_forecast ca sv) = fv_last sv"
    | (refreshed) "fv_refreshed (maybe_refresh_forecast ca sv) = fv_refreshed sv @ [ca_now ca]" "fv_last (maybe_refresh_forecast ca sv) = ca_now ca"
        "\<not> ca_now ca - fv_last sv < Fin 60"
    using maybe_refresh_cases [of ca sv] by blast
  then show ?thesis
  proof cases
    case kept
    then have "service_ok ts (maybe_refresh_forecast ca sv)"
      using assms(1) by (simp add: service_ok_def)
    then show ?thesis
      by blast
  next
    case refreshed
    have far: "\<not> Fin t - Fin u < Fin 60" if "u \<in> set ts" for u
    proof -
      have last: "fv_last sv = Fin (last ts)" "u \<le> last ts"
        using assms(1) that le_last [of ts u] by (auto simp: service_ok_def)
      have "Fin t - Fin (last ts) \<le> Fin t - Fin u"
        using last(2) by (rule minus_Fin_mono)
      moreover have "\<not> Fin t - Fin (last ts) < Fin 60"
        using refreshed(3) assms(2) last(1) by simp
      ultimately show ?thesis
        by (cases "Fin t - Fin (last ts)"; cases "Fin t - Fin u") auto
    qed
    have "service_ok (ts @ [t]) (maybe_refresh_forecast ca sv)"
      using assms refreshed far by (auto simp: service_ok_def sorted_wrt_snoc)
    then show ?thesis
      by (intro exI [of _ "ts @ [t]"]) simp
  qed
qed

lemma service_run_ok:
  assumes "service_ok ts sv" "map ca_now calls = map Fin instants" "sorted instants" "\<forall>u \<in> set ts. \<forall>t \<in> set instants. u \<le> t"
  shows "\<exists>ts'. service_ok ts' (service_run calls sv)"
  using assms
proof (induction calls arbitrary: sv ts instants)
  case (Cons ca calls)
  then obtain t rest where t: "instants = t # rest" "ca_now ca = Fin t" "map ca_now calls = map Fin rest"
    by (cases instants) auto
  then obtain ts' where ts': "service_ok ts' (maybe_refresh_forecast ca sv)" "set ts' \<subseteq> insert t (set ts)"
    using maybe_refresh_ok [OF Cons.prems(1) t(2)] Cons.prems(4) by auto
  have "\<forall>u \<in> set ts'. \<forall>w \<in> set rest. u \<le> w"
    using ts'(2) Cons.prems(3,4) t(1) by fastforce
  then show ?case
    using Cons.IH [OF ts'(1) t(3)] Cons.prems(3) t(1) by (simp add: service_run_def)
qed (auto simp: service_run_def)

text \<open>C40: over any sequence of snapshots at non-decreasing times, with whatever settings, weather, failures of the server and of InfluxDB, two
  refreshes that stored a forecast are never less than a minute apart.\<close>

theorem refreshes_spaced:
  assumes "map ca_now calls = map Fin instants" "sorted instants" "fv_refreshed sv = []"
    and "i < j" "j < length (fv_refreshed (service_run calls sv))"
  shows "\<not> fv_refreshed (service_run calls sv) ! j - fv_refreshed (service_run calls sv) ! i < Fin 60"
proof -
  have "service_ok [] sv"
    using assms(3) by (simp add: service_ok_def)
  then obtain ts where ts: "service_ok ts (service_run calls sv)"
    using service_run_ok [of "[]" sv calls instants] assms(1,2) by auto
  then have "i < length ts" "j < length ts"
    using assms(4,5) by (simp_all add: service_ok_def)
  then show ?thesis
    using ts assms(4) by (auto simp: service_ok_def dest: sorted_wrt_nth_less)
qed


text \<open>Two refreshes and one call too early, without the irradiance and the calibration.\<close>

definition forecast_rows_on :: "(string \<times> string) list" where
  "forecast_rows_on = [(''forecast_enabled'', ''true''), (''forecast_bias_enabled'', ''false''), (''forecast_hours'', []),
     (''forecast_refresh_min'', []), (''forecast_bias_lookback_days'', []), (''forecast_bias_min_samples'', [])]"

definition read_rows :: "(string \<times> string) list" where
  "read_rows = read_db_settings (Some (Readable forecast_rows_on))"

definition plain_inputs :: forecast_inputs where
  "plain_inputs = \<lparr>fi_irradiance = (\<lambda>_ _. None), fi_weather = Some noon_weather, fi_archive = None, fi_actual = [],
     fi_recent = (\<lambda>_. False), fi_influx = False\<rparr>"

definition plain_call :: "rat \<Rightarrow> forecast_call" where
  "plain_call t = \<lparr>ca_inputs = plain_inputs, ca_settings = Some (Readable forecast_rows_on), ca_out = [], ca_now = Fin t, ca_connects = True\<rparr>"

lemma read_rows_lookup: "map_of read_rows k = (case map_of forecast_rows_on k of Some v \<Rightarrow> Some v | None \<Rightarrow> map_of DEFAULTS k)"
  by (simp add: read_rows_def read_db_settings_def get_all_def update_all_lookup forecast_rows_on_def)

lemma empty_int: "map_of settings k = Some [] \<Longrightarrow> int_setting settings k n = Inr n"
proof -
  have "parse_float [] = None"
    by code_simp
  then show "map_of settings k = Some [] \<Longrightarrow> int_setting settings k n = Inr n"
    by (simp add: int_setting_def)
qed

lemma read_rows_nonempty: "read_rows \<noteq> []"
  using read_rows_lookup [of "''forecast_enabled''"] by (auto simp: forecast_rows_on_def)

lemma plain_config: "\<exists>cfg. config_from_settings read_rows = Inr cfg \<and> fc_enabled cfg \<and> \<not> fc_bias_enabled cfg \<and> fc_hours cfg = 48
    \<and> refresh_interval cfg = Inr (Fin 7200)"
proof -
  have rows: "map_of read_rows ''forecast_enabled'' = Some ''true''" "map_of read_rows ''forecast_bias_enabled'' = Some ''false''"
      "map_of read_rows ''forecast_hours'' = Some []" "map_of read_rows ''forecast_refresh_min'' = Some []"
      "map_of read_rows ''forecast_bias_lookback_days'' = Some []" "map_of read_rows ''forecast_bias_min_samples'' = Some []"
    by (simp_all add: read_rows_lookup forecast_rows_on_def)
  show ?thesis
    using dbl_of_int [of 120] dbl_of_int [of 7200]
    by (simp add: config_from_settings_def bool_setting_def refresh_interval_def empty_int rows
        pf_of_int_def pf_max_def strip_def lstrip_def is_space_def char_code_def lower_def lower_char_def)
qed

lemma plain_refresh:
  assumes "fs_faults st = []"
  shows "\<exists>st'. refresh (plain_inputs\<lparr>fi_influx := b\<rparr>) read_rows st = (Inr (Some 1), st') \<and> fs_faults st' = []"
proof -
  obtain cfg where cfg: "config_from_settings read_rows = Inr cfg" "fc_enabled cfg" "\<not> fc_bias_enabled cfg" "fc_hours cfg = 48"
    using plain_config by blast
  obtain row where row: "build_forecast (\<lambda>_ _. None) cfg (Some noon_weather) = Inr (Some [row])"
    using cfg(4) by (simp add: build_forecast_def noon_weather_def complete_weather_def or_unknown_def truncated_def slice_to_def
        assemble_rows_def assemble_row_def clear_sky_pv_def)
  obtain st' where "store_forecast b [row] st = (Inr (int (length [row])), st')" "fs_faults st' = []"
    using store_faultless [OF assms, of "[row]" b] by blast
  then show ?thesis
    using cfg row by (simp add: refresh_def plain_inputs_def op_defs)
qed


lemma plain_call_stores:
  assumes "fs_faults (fv_store sv) = []" "fv_last sv = Fin l" "Fin t - Fin l = Fin d" "7200 \<le> d"
  shows "\<exists>st. maybe_refresh_forecast (plain_call t) sv = \<lparr>fv_last = Fin t, fv_store = st, fv_refreshed = fv_refreshed sv @ [Fin t]\<rparr>
    \<and> fs_faults st = []"
proof -
  obtain cfg where cfg: "config_from_settings read_rows = Inr cfg" "fc_enabled cfg" "refresh_interval cfg = Inr (Fin 7200)"
    using plain_config by blast
  obtain st where "refresh (plain_inputs\<lparr>fi_influx := influx_wanted []\<rparr>) read_rows (fv_store sv) = (Inr (Some 1), st)" "fs_faults st = []"
    using plain_refresh [OF assms(1)] by blast
  moreover have "read_db_settings (Some (Readable forecast_rows_on)) = read_rows" "read_rows \<noteq> []"
    by (simp_all add: read_rows_def [symmetric] read_rows_nonempty)
  ultimately show ?thesis
    using cfg assms(2-4) by (simp add: maybe_refresh_forecast_def plain_call_def)
qed

lemma plain_call_waits:
  assumes "fv_last sv = Fin l" "Fin t - Fin l = Fin d" "d < 7200"
  shows "maybe_refresh_forecast (plain_call t) sv = sv"
proof -
  obtain cfg where cfg: "config_from_settings read_rows = Inr cfg" "fc_enabled cfg" "refresh_interval cfg = Inr (Fin 7200)"
    using plain_config by blast
  have "read_db_settings (Some (Readable forecast_rows_on)) = read_rows" "read_rows \<noteq> []"
    by (simp_all add: read_rows_def [symmetric] read_rows_nonempty)
  then show ?thesis
    using cfg assms by (simp add: maybe_refresh_forecast_def plain_call_def)
qed

definition new_service :: forecast_service where
  "new_service = \<lparr>fv_last = Fin 0, fv_store = \<lparr>fs_exists = False, fs_column = False, fs_rows = [], fs_faults = [], fs_posts = [], fs_refused = []\<rparr>,
     fv_refreshed = []\<rparr>"

lemma plain_run: "fv_refreshed (service_run (map plain_call [10000, 10100, 20000]) new_service) = [Fin 10000, Fin 20000]"
proof -
  have d: "Fin 10000 - Fin 0 = Fin 10000" "Fin 10100 - Fin 10000 = Fin 100" "Fin 20000 - Fin 10000 = Fin 10000"
    using dbl_of_int [of 10000] dbl_of_int [of 100] by (simp_all add: minus_pyfloat_def)
  obtain st where st: "maybe_refresh_forecast (plain_call 10000) new_service = \<lparr>fv_last = Fin 10000, fv_store = st, fv_refreshed = [Fin 10000]\<rparr>"
      "fs_faults st = []"
    using plain_call_stores [of new_service 0 10000 10000] d(1) by (auto simp: new_service_def)
  let ?sv = "\<lparr>fv_last = Fin 10000, fv_store = st, fv_refreshed = [Fin 10000]\<rparr>"
  have "maybe_refresh_forecast (plain_call 10100) ?sv = ?sv"
    using plain_call_waits [of ?sv 10000 10100 100] d(2) by simp
  moreover obtain st2 where "maybe_refresh_forecast (plain_call 20000) ?sv
      = \<lparr>fv_last = Fin 20000, fv_store = st2, fv_refreshed = [Fin 10000, Fin 20000]\<rparr>"
    using plain_call_stores [of ?sv 10000 20000 10000] d(3) st(2) by auto
  ultimately show ?thesis
    by (simp add: service_run_def st(1))
qed

theorem refreshes_spaced_witness:
  "\<not> fv_refreshed (service_run (map plain_call [10000, 10100, 20000]) new_service) ! 1
     - fv_refreshed (service_run (map plain_call [10000, 10100, 20000]) new_service) ! 0 < Fin 60"
proof -
  have instants: "map ca_now (map plain_call [10000, 10100, 20000]) = map Fin [10000, 10100, 20000]"
    by (simp add: plain_call_def)
  have fresh: "fv_refreshed new_service = []"
    by (simp add: new_service_def)
  have two: "1 < length (fv_refreshed (service_run (map plain_call [10000, 10100, 20000]) new_service))"
    unfolding plain_run by simp
  show ?thesis
    by (rule refreshes_spaced [OF instants _ fresh _ two]) simp_all
qed

subsection \<open>From the forecast to the endpoint\<close>

lemma upserted_distinct: "distinct (map fst table) \<Longrightarrow> distinct (map fst (upserted rows table))"
  by (induction rows arbitrary: table) (simp_all add: upserted_def distinct_update)

lemma upserted_entries:
  assumes "distinct (map fst table)" "distinct (map (\<lambda>r. drop_z (fr_ts r)) rows)"
  shows "(ts, sf) \<in> set (upserted rows table) \<longleftrightarrow>
    (\<exists>r \<in> set rows. ts = drop_z (fr_ts r) \<and> sf = stored_row r) \<or> (ts, sf) \<in> set table \<and> ts \<notin> (\<lambda>r. drop_z (fr_ts r)) ` set rows"
proof -
  have "(ts, sf) \<in> set (upserted rows table) \<longleftrightarrow> map_of (upserted rows table) ts = Some sf"
    using upserted_distinct [OF assms(1), of rows] by simp
  also have "\<dots> \<longleftrightarrow> (if ts \<in> (\<lambda>r. drop_z (fr_ts r)) ` set rows
      then \<exists>r \<in> set rows. ts = drop_z (fr_ts r) \<and> sf = stored_row r else (ts, sf) \<in> set table)"
    using upserted_row [OF assms(2)] assms(1) by (auto simp: upserted_other)
  finally show ?thesis
    by auto
qed

text \<open>C39: after storing a forecast over a server that answers, whatever InfluxDB does, the endpoint shows the rows of the table in the asked window,
  in the order of their instants: every row of the forecast as it was stored, and every older row whose instant the forecast does not have.\<close>

theorem forecast_shown:
  assumes "fs_faults st = []" "rows \<noteq> []" "distinct (map (\<lambda>r. drop_z (fr_ts r)) rows)" "distinct (map fst (fs_rows st))"
    and "1 \<le> hours" "hours \<le> 168"
  shows "\<exists>st' kept. store_forecast with_influx rows st = (Inr (int (length rows)), st')
    \<and> fst (api_forecast now generated_at hours st') = Inr (Reply \<lparr>fp_hours = hours, fp_count = int (length kept),
        fp_generated_at = generated_at, fp_data = map shown_entry kept\<rparr>)
    \<and> sorted (map (\<lambda>(ts, sf). instant_secs ts) kept)
    \<and> (\<forall>ts sf. (ts, sf) \<in> set kept \<longleftrightarrow> in_window now hours ts \<and>
        ((\<exists>r \<in> set rows. ts = drop_z (fr_ts r) \<and> sf = stored_row r)
         \<or> fs_exists st \<and> (ts, sf) \<in> set (fs_rows st) \<and> ts \<notin> (\<lambda>r. drop_z (fr_ts r)) ` set rows))"
proof -
  obtain st' where st': "store_forecast with_influx rows st = (Inr (int (length rows)), st')" "fs_faults st' = []" "fs_exists st'"
      "fs_rows st' = upserted rows (if fs_exists st then fs_rows st else [])"
    using store_faultless [OF assms(1,2)] by blast
  define kept where "kept = window_rows now hours (fs_rows st')"
  have "fst (api_forecast now generated_at hours st') = Inr (Reply \<lparr>fp_hours = hours, fp_count = int (length kept),
      fp_generated_at = generated_at, fp_data = map shown_entry kept\<rparr>)"
    using assms(5,6) by (simp add: api_forecast_def bindS_def on_table_ok [OF st'(2,3)] getS_def returnS_def kept_def)
  moreover have "sorted (map (\<lambda>(ts, sf). instant_secs ts) kept)"
    by (simp add: kept_def window_rows_def)
  moreover have "(ts, sf) \<in> set kept \<longleftrightarrow> in_window now hours ts \<and>
        ((\<exists>r \<in> set rows. ts = drop_z (fr_ts r) \<and> sf = stored_row r)
         \<or> fs_exists st \<and> (ts, sf) \<in> set (fs_rows st) \<and> ts \<notin> (\<lambda>r. drop_z (fr_ts r)) ` set rows)" for ts sf
  proof -
    have "(ts, sf) \<in> set kept \<longleftrightarrow> in_window now hours ts \<and> (ts, sf) \<in> set (fs_rows st')"
      by (auto simp: kept_def window_rows_def)
    then show ?thesis
      using upserted_entries [of "if fs_exists st then fs_rows st else []" rows ts sf] assms(3,4) st'(4) by auto
  qed
  ultimately show ?thesis
    using st'(1) by blast
qed


definition empty_server :: forecast_store where
  "empty_server = \<lparr>fs_exists = False, fs_column = False, fs_rows = [], fs_faults = [], fs_posts = [], fs_refused = [True]\<rparr>"

lemma noon_instant: "instant_secs ''2024-06-01T12:00'' = 1717243200"
  by code_simp

theorem forecast_shown_witness:
  "\<exists>st' data. store_forecast True [noon_row] empty_server = (Inr 1, st')
    \<and> fst (api_forecast 1717200000 ''now'' 48 st') = Inr (Reply \<lparr>fp_hours = 48, fp_count = int (length data), fp_generated_at = ''now'',
        fp_data = data\<rparr>)
    \<and> set data = {\<lparr>fe_ts = ''2024-06-01T12:00:00+00:00'', fe_predicted = Fin 250, fe_corrected = None, fe_cloud = Some (Fin 50),
          fe_source = ''open-meteo''\<rparr>}"
proof -
  have hyps: "fs_faults empty_server = []" "[noon_row] \<noteq> []" "distinct (map (\<lambda>r. drop_z (fr_ts r)) [noon_row])"
      "distinct (map fst (fs_rows empty_server))"
    by (simp_all add: empty_server_def)
  obtain st' kept where st': "store_forecast True [noon_row] empty_server = (Inr (int (length [noon_row])), st')"
      "fst (api_forecast 1717200000 ''now'' 48 st') = Inr (Reply \<lparr>fp_hours = 48, fp_count = int (length kept),
        fp_generated_at = ''now'', fp_data = map shown_entry kept\<rparr>)"
      "\<forall>ts sf. (ts, sf) \<in> set kept \<longleftrightarrow> in_window 1717200000 48 ts \<and>
        ((\<exists>r \<in> set [noon_row]. ts = drop_z (fr_ts r) \<and> sf = stored_row r)
         \<or> fs_exists empty_server \<and> (ts, sf) \<in> set (fs_rows empty_server) \<and> ts \<notin> (\<lambda>r. drop_z (fr_ts r)) ` set [noon_row])"
    using forecast_shown [OF hyps, of 48 True 1717200000 "''now''"] by auto
  have key: "drop_z (fr_ts noon_row) = ''2024-06-01T12:00''" "in_window 1717200000 48 ''2024-06-01T12:00''"
    by (simp_all add: noon_row_def drop_z_def in_window_def noon_instant)
  have rows: "set kept = {(''2024-06-01T12:00'', stored_row noon_row)}"
    using st'(3) key by (auto simp: empty_server_def)
  have "set (map shown_entry kept) = {shown_entry (''2024-06-01T12:00'', stored_row noon_row)}"
    by (simp add: rows)
  also have "shown_entry (''2024-06-01T12:00'', stored_row noon_row) = \<lparr>fe_ts = ''2024-06-01T12:00:00+00:00'', fe_predicted = Fin 250,
      fe_corrected = None, fe_cloud = Some (Fin 50), fe_source = ''open-meteo''\<rparr>"
    using dbl_of_int [of 50] by (simp add: shown_entry_def stored_row_def noon_row_def to_pf_def utc_text_def)
  finally show ?thesis
    using st'(1,2) by (intro exI [of _ st'] exI [of _ "map shown_entry kept"]) simp
qed

end
