(* ===== verification/Rs485_Service.thy ===== *)
theory Rs485_Service
  imports Rs485
begin

text \<open>
  The start and the loop of the serial collector, \<^verbatim>\<open>src/collector/rs485_collector.py\<close>, which runs beside the main collector and reads
  the same variables for its outputs.
\<close>

subsection \<open>Configuration of the outputs\<close>

definition RS485_OUTPUT_ENV :: "(string \<times> string \<times> json \<times> cast) list" where
  "RS485_OUTPUT_ENV = [
    (''mariadb_enabled'', ''LUX_MARIADB_ENABLED'', JBool True, CastBool),
    (''mariadb_host'', ''LUX_MARIADB_HOST'', JStr ''localhost'', CastStr),
    (''mariadb_port'', ''LUX_MARIADB_PORT'', JInt 3306, CastInt),
    (''mariadb_user'', ''LUX_MARIADB_USER'', JStr ''luxmon'', CastStr),
    (''mariadb_password'', ''LUX_MARIADB_PASSWORD'', JStr ''luxmon'', CastStr),
    (''mariadb_database'', ''LUX_MARIADB_DATABASE'', JStr ''luxmon'', CastStr),
    (''mariadb_table_prefix'', ''LUX_MARIADB_TABLE_PREFIX'', JStr ''lux_'', CastStr),
    (''influx_enabled'', ''LUX_INFLUX_ENABLED'', JBool False, CastBool),
    (''influx_url'', ''LUX_INFLUX_URL'', JStr ''http://localhost:8086'', CastStr),
    (''influx_token'', ''LUX_INFLUX_TOKEN'', JStr '''', CastStr),
    (''influx_org'', ''LUX_INFLUX_ORG'', JStr ''luxmon'', CastStr),
    (''influx_bucket'', ''LUX_INFLUX_BUCKET'', JStr ''luxmon'', CastStr),
    (''influx_username'', ''LUX_INFLUX_USERNAME'', JStr '''', CastStr),
    (''influx_password'', ''LUX_INFLUX_PASSWORD'', JStr '''', CastStr),
    (''influx_database'', ''LUX_INFLUX_DATABASE'', JStr ''luxmon'', CastStr),
    (''mqtt_enabled'', ''LUX_MQTT_ENABLED'', JBool False, CastBool),
    (''mqtt_host'', ''LUX_MQTT_HOST'', JStr ''localhost'', CastStr),
    (''mqtt_port'', ''LUX_MQTT_PORT'', JInt 1883, CastInt),
    (''mqtt_username'', ''LUX_MQTT_USERNAME'', JStr '''', CastStr),
    (''mqtt_password'', ''LUX_MQTT_PASSWORD'', JStr '''', CastStr),
    (''mqtt_topic_prefix'', ''LUX_MQTT_TOPIC_PREFIX'', JStr ''luxmon'', CastStr),
    (''mqtt_ha_discovery'', ''LUX_MQTT_HA_DISCOVERY'', JBool True, CastBool),
    (''mqtt_ha_prefix'', ''LUX_MQTT_HA_PREFIX'', JStr ''homeassistant'', CastStr),
    (''mqtt_device_name'', ''LUX_MQTT_DEVICE_NAME'', JStr ''luxmon'', CastStr),
    (''mqtt_device_id'', ''LUX_MQTT_DEVICE_ID'', JStr ''luxmon_solar'', CastStr),
    (''temperature_unit'', ''LUX_TEMPERATURE_UNIT'', JStr ''celsius'', CastStr),
    (''alerts_enabled'', ''LUX_ALERTS_ENABLED'', JBool False, CastBool),
    (''alerts_soc_low'', ''LUX_ALERTS_SOC_LOW'', JFloat (Fin 20), CastFloat),
    (''alerts_soc_critical'', ''LUX_ALERTS_SOC_CRITICAL'', JFloat (Fin 10), CastFloat),
    (''alerts_battery_temp_high'', ''LUX_ALERTS_BATTERY_TEMP_HIGH'', JFloat (Fin 50), CastFloat),
    (''alerts_inverter_temp_high'', ''LUX_ALERTS_INVERTER_TEMP_HIGH'', JFloat (Fin 60), CastFloat),
    (''alerts_grid_lost_threshold_sec'', ''LUX_ALERTS_GRID_LOST_THRESHOLD_SEC'', JFloat (Fin 30), CastFloat),
    (''alerts_email_enabled'', ''LUX_ALERTS_EMAIL_ENABLED'', JBool False, CastBool),
    (''alerts_email_smtp_host'', ''LUX_ALERTS_EMAIL_SMTP_HOST'', JStr '''', CastStr),
    (''alerts_email_smtp_port'', ''LUX_ALERTS_EMAIL_SMTP_PORT'', JInt 587, CastInt),
    (''alerts_email_username'', ''LUX_ALERTS_EMAIL_USERNAME'', JStr '''', CastStr),
    (''alerts_email_password'', ''LUX_ALERTS_EMAIL_PASSWORD'', JStr '''', CastStr),
    (''alerts_email_from'', ''LUX_ALERTS_EMAIL_FROM'', JStr '''', CastStr),
    (''alerts_email_to'', ''LUX_ALERTS_EMAIL_TO'', JStr '''', CastStr),
    (''alerts_email_tls'', ''LUX_ALERTS_EMAIL_TLS'', JBool True, CastBool),
    (''alerts_webhook_enabled'', ''LUX_ALERTS_WEBHOOK_ENABLED'', JBool False, CastBool),
    (''alerts_webhook_url'', ''LUX_ALERTS_WEBHOOK_URL'', JStr '''', CastStr)]"

definition rs485_output_config :: "environment \<Rightarrow> attributes result" where
  "rs485_output_config env = env_attributes env RS485_OUTPUT_ENV"

subsection \<open>The process\<close>

text \<open>The collector ends with a code, or it runs its loop with a device.\<close>

datatype rs485_process = Exits int | Polls rs485_config attributes device_kind rs485_loop

definition run_rs485_collector :: "(string \<Rightarrow> bool) \<Rightarrow> environment \<Rightarrow> rs485_process result" where
  "run_rs485_collector installed env =
    (if \<not> env_bool env ''LUX_RS485_ENABLED'' False then Inr (Exits 1)
     else
     bindE (rs485_config_from_env env) (\<lambda>device_cfg.
     bindE (rs485_output_config env) (\<lambda>output_cfg.
     bindE (rs485_env env ''PREFIX'' (JStr ''rs485'') CastStr) (\<lambda>prefix.
     bindE (rs485_env env ''WRITE_INTERVAL'' (JFloat (Fin 30)) CastFloat) (\<lambda>write_interval.
     bindE (get_device installed device_cfg) (\<lambda>device.
     Inr (Polls device_cfg output_cfg device
       \<lparr>rl_prefix = py_str prefix, rl_write_interval = json_float write_interval, rl_latest = [], rl_next_write = Fin 0, rl_written = []\<rparr>)))))))"

text \<open>The rounds until the collector is stopped, each with what the device returns, the time of the write check and the time after the write.\<close>

definition rs485_run :: "(fields result \<times> pyfloat \<times> pyfloat) list \<Rightarrow> rs485_loop \<Rightarrow> rs485_loop" where
  "rs485_run rounds st = foldl (\<lambda>st (data, now, after). poll_round data now after st) st rounds"

subsection \<open>The two configurations\<close>

definition env_value :: "environment \<Rightarrow> string \<times> json \<times> cast \<Rightarrow> json result" where
  "env_value env = (\<lambda>(key, dflt, c). case c of CastBool \<Rightarrow> Inr (JBool (env_bool env key (dflt = JBool True))) | _ \<Rightarrow> env_or env key dflt c)"

lemma env_attributes_lookup:
  "env_attributes env rows = Inr out \<Longrightarrow> map_of out k = (case map_of rows k of None \<Rightarrow> None
     | Some row \<Rightarrow> (case env_value env row of Inr v \<Rightarrow> Some v | Inl _ \<Rightarrow> None))"
proof (induction rows arbitrary: out)
  case (Cons row rows)
  obtain name key dflt c where row: "row = (name, key, dflt, c)"
    by (cases row) auto
  obtain v vs where v: "env_value env (key, dflt, c) = Inr v" "env_attributes env rows = Inr vs" "out = (name, v) # vs"
    using Cons.prems by (auto simp: row env_value_def bindE_eq_Inr)
  then show ?case
    using Cons.IH [OF v(2)] by (simp add: row)
qed simp

lemma map_of_filter_key: "map_of (filter (\<lambda>(k, v). P k) xs) k = (if P k then map_of xs k else None)"
  by (induction xs) auto

definition differing :: "string list" where
  "differing = [''mariadb_enabled'', ''influx_enabled'', ''influx_bucket'']"

lemma same_rows: "filter (\<lambda>(k, v). k \<notin> set differing) RS485_OUTPUT_ENV = filter (\<lambda>(k, v). k \<notin> set differing) OUTPUT_ENV"
  by (simp add: differing_def RS485_OUTPUT_ENV_def OUTPUT_ENV_def)

text \<open>Both collectors take the same value for every setting of the outputs but three: what enables the two databases, and the bucket when its
  variable is not set.\<close>

lemma same_outputs:
  assumes "config_from_env env = Inr (cfg, out)" "rs485_output_config env = Inr out'" "k \<notin> set differing"
  shows "attr out' k = attr out k"
proof -
  obtain rest where rest: "env_attributes env OUTPUT_ENV = Inr rest" "out = (''mariadb_enabled'', JBool (\<not> legacy_influx env))
      # (''influx_enabled'', JBool (env_bool env ''LUX_INFLUX_ENABLED'' (legacy_influx env))) # rest"
    using assms(1) by (auto simp: config_from_env_def bindE_eq_Inr)
  have "map_of RS485_OUTPUT_ENV k = map_of OUTPUT_ENV k"
    using map_of_filter_key [of "\<lambda>k. k \<notin> set differing" RS485_OUTPUT_ENV k] map_of_filter_key [of "\<lambda>k. k \<notin> set differing" OUTPUT_ENV k]
      assms(3) by (simp only: same_rows simp_thms if_True)
  then have "map_of out' k = map_of rest k"
    using env_attributes_lookup [OF assms(2) [unfolded rs485_output_config_def], of k] env_attributes_lookup [OF rest(1), of k] by simp
  then show ?thesis
    using assms(3) by (simp add: attr_def rest(2) differing_def)
qed

lemma default_buckets:
  assumes "env ''LUX_INFLUX_BUCKET'' = None" "config_from_env env = Inr (cfg, out)" "rs485_output_config env = Inr out'"
  shows "attr out ''influx_bucket'' = JStr ''solar''" "attr out' ''influx_bucket'' = JStr ''luxmon''"
proof -
  obtain rest where rest: "env_attributes env OUTPUT_ENV = Inr rest" "out = (''mariadb_enabled'', JBool (\<not> legacy_influx env))
      # (''influx_enabled'', JBool (env_bool env ''LUX_INFLUX_ENABLED'' (legacy_influx env))) # rest"
    using assms(2) by (auto simp: config_from_env_def bindE_eq_Inr)
  show "attr out ''influx_bucket'' = JStr ''solar''"
    using env_attributes_lookup [OF rest(1), of "''influx_bucket''"] assms(1)
    by (simp add: rest(2) attr_def OUTPUT_ENV_def env_value_def env_or_def)
  show "attr out' ''influx_bucket'' = JStr ''luxmon''"
    using env_attributes_lookup [OF assms(3) [unfolded rs485_output_config_def], of "''influx_bucket''"] assms(1)
    by (simp add: attr_def RS485_OUTPUT_ENV_def env_value_def env_or_def)
qed

end
