(* ===== verification/Command_Line.thy ===== *)
theory Command_Line
  imports Configuration
begin

text \<open>
  The command line of the collector, \<^verbatim>\<open>src/collector/__main__.py\<close>: which options override which attributes of the configuration,
  and which of them have no effect on the start.  Parsing the words of the command line is done by the standard
  library; its result is the record here.
\<close>

record cli_args =
  cl_replay :: "string option"
  cl_interval :: "int option"
  cl_host :: "string option"
  cl_port :: "int option"
  cl_poll :: bool
  cl_poll_interval :: pyfloat
  cl_poll_reg_start :: int
  cl_poll_reg_count :: int
  cl_datalog_serial :: "string option"
  cl_inverter_serial :: "string option"

definition default_args :: cli_args where
  "default_args = \<lparr>cl_replay = None, cl_interval = None, cl_host = None, cl_port = None, cl_poll = False, cl_poll_interval = Fin 2,
     cl_poll_reg_start = 0, cl_poll_reg_count = 40, cl_datalog_serial = None, cl_inverter_serial = None\<rparr>"

definition given_text :: "string \<Rightarrow> string option \<Rightarrow> (string \<times> json) list" where
  "given_text key v = (case v of Some s \<Rightarrow> if s \<noteq> [] then [(key, JStr s)] else [] | None \<Rightarrow> [])"

definition given_int :: "string \<Rightarrow> int option \<Rightarrow> (string \<times> json) list" where
  "given_int key v = (case v of Some n \<Rightarrow> if n \<noteq> 0 then [(key, JInt n)] else [] | None \<Rightarrow> [])"

definition cli_overrides :: "cli_args \<Rightarrow> (string \<times> json) list" where
  "cli_overrides args =
    given_text ''replay_file'' (cl_replay args)
    @ given_int ''write_interval'' (cl_interval args)
    @ given_text ''dongle_host'' (cl_host args)
    @ given_int ''dongle_port'' (cl_port args)
    @ (if cl_poll args then [(''poll_mode'', JBool True)] else [])
    @ (if truthy (JFloat (cl_poll_interval args)) then [(''poll_interval'', JFloat (cl_poll_interval args))] else [])
    @ given_int ''poll_register_start'' (Some (cl_poll_reg_start args))
    @ given_int ''poll_register_count'' (Some (cl_poll_reg_count args))
    @ given_text ''datalog_serial'' (cl_datalog_serial args)
    @ given_text ''inverter_serial'' (cl_inverter_serial args)"

text \<open>What \<^verbatim>\<open>python -m collector\<close> starts with.\<close>

definition main_start :: "cli_args \<Rightarrow> environment \<Rightarrow> database option
    \<Rightarrow> (attributes \<times> attributes \<times> model_driver) result \<times> database option" where
  "main_start args env db = start_configuration env (cli_overrides args) db"

subsection \<open>Options without effect\<close>

lemma apply_overrides_Nil [simp]: "apply_overrides [] cfg = cfg"
  by (simp add: apply_overrides_def)

lemma apply_overrides_append: "apply_overrides (xs @ ys) cfg = apply_overrides ys (apply_overrides xs cfg)"
  by (simp add: apply_overrides_def)

lemma apply_overrides_keys: "map fst (apply_overrides xs cfg) = map fst cfg"
proof (induction xs arbitrary: cfg)
  case (Cons x xs)
  obtain key v where x: "x = (key, v)"
    by (cases x)
  let ?cfg = "if v \<noteq> JNull \<and> map_of cfg key \<noteq> None then AList.update key v cfg else cfg"
  have "map fst ?cfg = map fst cfg"
    by (auto simp: update_keys) (metis image_set list.set_map map_of_eq_None_iff option.distinct(1))
  then show ?case
    using Cons.IH [of ?cfg] by (simp add: x apply_overrides_def)
qed (simp add: apply_overrides_def)

lemma apply_overrides_unknown: "key \<notin> fst ` set cfg \<Longrightarrow> apply_overrides ((key, v) # xs) cfg = apply_overrides xs cfg"
  by (simp add: apply_overrides_def map_of_eq_None_iff)

lemma apply_overrides_other: "k \<notin> fst ` set xs \<Longrightarrow> attr (apply_overrides xs cfg) k = attr cfg k"
  by (induction xs arbitrary: cfg) (auto simp: apply_overrides_def attr_update)

lemma env_attributes_keys: "env_attributes env rows = Inr out \<Longrightarrow> map fst out = map fst rows"
  by (induction rows arbitrary: out) (auto simp: bindE_eq_Inr)

lemma config_keys: "config_from_env env = Inr (cfg, out) \<Longrightarrow> map fst cfg = map fst COLLECTOR_ENV"
  by (auto simp: config_from_env_def bindE_eq_Inr dest: env_attributes_keys)

lemma no_poll_mode: "config_from_env env = Inr (cfg, out) \<Longrightarrow> ''poll_mode'' \<notin> fst ` set cfg"
proof -
  assume "config_from_env env = Inr (cfg, out)"
  then have "fst ` set cfg = set (map fst COLLECTOR_ENV)"
    using config_keys [of env cfg out] by (metis list.set_map)
  then show ?thesis
    by (simp add: COLLECTOR_ENV_def)
qed

text \<open>The option for active polling changes nothing: the configuration has no such attribute.\<close>

lemma poll_option_ignored: "main_start (args\<lparr>cl_poll := b\<rparr>) env db = main_start args env db"
proof (cases "config_from_env env")
  case (Inr r)
  obtain cfg out where r: "r = (cfg, out)"
    by (cases r)
  define before where "before = given_text ''replay_file'' (cl_replay args) @ given_int ''write_interval'' (cl_interval args)
    @ given_text ''dongle_host'' (cl_host args) @ given_int ''dongle_port'' (cl_port args)"
  have absent: "''poll_mode'' \<notin> fst ` set (apply_overrides before cfg)"
    using no_poll_mode [of env cfg out] Inr r apply_overrides_keys [of before cfg] by (metis list.set_map)
  define after where "after = (if truthy (JFloat (cl_poll_interval args)) then [(''poll_interval'', JFloat (cl_poll_interval args))] else [])
    @ given_int ''poll_register_start'' (Some (cl_poll_reg_start args)) @ given_int ''poll_register_count'' (Some (cl_poll_reg_count args))
    @ given_text ''datalog_serial'' (cl_datalog_serial args) @ given_text ''inverter_serial'' (cl_inverter_serial args)"
  have after: "cli_overrides (args\<lparr>cl_poll := b\<rparr>) = before @ (if b then [(''poll_mode'', JBool True)] else []) @ after" for b
    by (simp add: cli_overrides_def before_def after_def del: truthy.simps)
  have same: "apply_overrides (cli_overrides (args\<lparr>cl_poll := b\<rparr>)) cfg = apply_overrides after (apply_overrides before cfg)" for b
    using apply_overrides_unknown [OF absent] by (simp add: after apply_overrides_append)
  have "apply_overrides (cli_overrides (args\<lparr>cl_poll := b\<rparr>)) cfg = apply_overrides (cli_overrides args) cfg"
    using same [of b] same [of "cl_poll args"] by simp
  then show ?thesis
    by (simp add: main_start_def start_configuration_def Inr r)
qed (simp add: main_start_def start_configuration_def)

text \<open>The option for replaying a capture does not choose the replay transport: only the variable or the settings do.\<close>

lemma replay_keeps_transport: "attr (apply_overrides (cli_overrides args) cfg) ''transport'' = attr cfg ''transport''"
  by (rule apply_overrides_other) (auto simp: cli_overrides_def given_text_def given_int_def split: option.splits if_splits)

text \<open>The variable for the poll interval is never in effect: the option has a default, which overrides it.\<close>

lemma interval_variable_hidden:
  assumes "config_from_env env = Inr (cfg, out)" "truthy (JFloat (cl_poll_interval args))"
  shows "attr (apply_overrides (cli_overrides args) cfg) ''poll_interval'' = JFloat (cl_poll_interval args)"
proof -
  define before where "before = given_text ''replay_file'' (cl_replay args) @ given_int ''write_interval'' (cl_interval args)
    @ given_text ''dongle_host'' (cl_host args) @ given_int ''dongle_port'' (cl_port args)
    @ (if cl_poll args then [(''poll_mode'', JBool True)] else [])"
  define after where "after = given_int ''poll_register_start'' (Some (cl_poll_reg_start args))
    @ given_int ''poll_register_count'' (Some (cl_poll_reg_count args))
    @ given_text ''datalog_serial'' (cl_datalog_serial args) @ given_text ''inverter_serial'' (cl_inverter_serial args)"
  have split: "cli_overrides args = before @ [(''poll_interval'', JFloat (cl_poll_interval args))] @ after"
    using assms(2) by (simp add: cli_overrides_def before_def after_def)
  have "''poll_interval'' \<in> set (map fst (apply_overrides before cfg))"
    unfolding apply_overrides_keys config_keys [OF assms(1)] by (simp add: COLLECTOR_ENV_def)
  then have "map_of (apply_overrides before cfg) ''poll_interval'' \<noteq> None"
    by (simp add: map_of_eq_None_iff)
  moreover have "''poll_interval'' \<notin> fst ` set after"
    by (auto simp: after_def given_text_def given_int_def split: option.splits if_splits)
  ultimately show ?thesis
    unfolding split apply_overrides_append by (simp add: apply_overrides_other) (simp add: apply_overrides_def attr_update)
qed

end
