(* ===== verification/Writer.thy ===== *)
theory Writer
  imports Collector Outputs Alerts Forecast_Service
begin

text \<open>
  One iteration of the writer of \<^verbatim>\<open>src/collector/collector.py\<close> with everything it drives: the outputs, the alerts, the quick charge and the
  automations on the shared link, and the refresh of the forecast.
\<close>

record 's system =
  sy_collector :: "'s collector"
  sy_outputs :: outputs
  sy_alerts :: "alerts option"
  sy_forecast :: forecast_service

text \<open>What one iteration finds outside: the hour and the time of the outputs, whether a request to InfluxDB 2 succeeds, the clock of the
  alerts, the environment and the list of the automations, and the call of the forecast.\<close>

record writer_env =
  we_hour :: string
  we_ts_ns :: int
  we_v2_ok :: bool
  we_clock :: alert_clock
  we_auto :: automation_env
  we_automations :: "automation list"
  we_forecast :: forecast_call

text \<open>The decoded readings as the outputs see them.\<close>

definition fields_of :: "(string \<times> reading) list \<Rightarrow> fields" where
  "fields_of decoded = map (\<lambda>(n, r). (n, JFloat (rv_value r), rv_unit r)) decoded"

text \<open>The alerts when they are on; whether the evaluation returned.\<close>

definition run_alerts :: "alert_clock \<Rightarrow> (string \<times> reading) list \<Rightarrow> alerts option \<Rightarrow> bool \<times> alerts option" where
  "run_alerts clock decoded alerts = (case alerts of
     None \<Rightarrow> (True, None)
   | Some a \<Rightarrow> (case evaluate_alerts clock decoded a of (Inr _, a) \<Rightarrow> (True, Some a) | (Inl _, a) \<Rightarrow> (False, Some a)))"

text \<open>An exception of the outputs or of the alerts skips the rest of the iteration; those of the parts after them are dropped.\<close>

definition write_iteration :: "'s transact_op \<Rightarrow> writer_env \<Rightarrow> 's system \<Rightarrow> 's system" where
  "write_iteration tr e sy =
    (let c = sy_collector sy in
     if co_input_raw c = [] then sy
     else if map_of (co_input_raw c) 4 = None then sy
     else (case driver_decode (co_driver c) (co_input_raw c) of
        Inl x \<Rightarrow> sy
      | Inr decoded \<Rightarrow>
         let decoded = clamp_values decoded in
         (case outputs_write (we_hour e) (we_ts_ns e) (we_v2_ok e) (fields_of decoded) (co_input_raw c) (sy_outputs sy) of (written, outs) \<Rightarrow>
          case (if written = Inr () then run_alerts (we_clock e) decoded (sy_alerts sy) else (False, sy_alerts sy)) of (ok, alerts) \<Rightarrow>
            \<lparr>sy_collector = writer_cycle tr (we_auto e) (we_automations e) ok c, sy_outputs = outs, sy_alerts = alerts,
             sy_forecast = (if ok then maybe_refresh_forecast (we_forecast e) (sy_forecast sy) else sy_forecast sy)\<rparr>)))"

text \<open>A frame of the transport between two iterations.\<close>

definition receive_frame :: "frame \<Rightarrow> 's system \<Rightarrow> 's system" where
  "receive_frame frame sy = sy\<lparr>sy_collector := handle_frame frame (sy_collector sy)\<rparr>"

end
