(* ===== verification/Writer_Facts.thy ===== *)
theory Writer_Facts
  imports Writer Collector_Facts Api_Telemetry_Facts Publication_Facts
begin

text \<open>
  From the wire to the REST interface: what the status endpoint shows after one iteration of the writer.
\<close>

subsection \<open>Codes are whole numbers\<close>

lemma label_keys: "map fst LABELS = [''state'', ''fault_code'', ''warning_code'', ''internal_fault'', ''bms_fault_code'', ''bms_warning_code'']"
  by (simp add: LABELS_def)

lemma label_scales_literal: "list_all (\<lambda>(r, rd). rd_name rd \<in> set (map fst LABELS) \<longrightarrow> rd_scale rd = 1) input_literal"
  unfolding label_keys by (simp add: input_literal_def input_rows)


lemma label_scales:
  assumes "(r, rd) \<in> set INPUT_REGISTERS" "rd_name rd \<in> set (map fst LABELS)"
  shows "rd_scale rd = 1"
proof (cases "(r, rd) \<in> set input_literal")
  case True
  then show ?thesis
    using label_scales_literal assms(2) by (auto simp: list_all_iff)
next
  case False
  then have "rd_name rd \<in> set (names_of battery_list)"
    using assms(1) by (force simp: INPUT_REGISTERS_eq names_of_def)
  then have "numbered_name (rd_name rd)"
    by (rule battery_numbered)
  moreover have "list_all (\<lambda>s. \<not> numbered_name s) (map fst LABELS)"
    unfolding label_keys by code_simp
  ultimately show ?thesis
    using assms(2) by (auto simp: list_all_iff)
qed

lemma whole_reading:
  assumes "u16 raw" "u16 hi"
  shows "\<exists>q. Fin (of_int (decode_int rd raw hi)) * 1 = Fin q"
proof -
  have "\<bar>decode_int rd raw hi\<bar> \<le> 2 ^ 53"
    using decode_int_range [OF assms, of rd] by (simp add: abs_le_iff)
  then show ?thesis
    by (simp add: one_pyfloat_def)
qed

lemma expected_code:
  assumes "raws_ok raws" "(r, rd) \<in> set INPUT_REGISTERS" "rd_name rd \<in> set (map fst LABELS)" "expected_reading raws r rd = Some x"
  shows "rv_value x \<in> range Fin"
proof -
  have whole: "Fin (of_int (decode_int rd raw hi)) * 1 \<in> range Fin" if "u16 raw" "u16 hi" for raw hi
    using whole_reading [OF that, of rd] by auto
  show ?thesis
    using assms(4) label_scales [OF assms(2,3)] whole raws_u16 [OF assms(1)]
    by (auto simp: expected_reading_def simple_reading_def pair_reading_def split: option.splits)
qed

subsection \<open>Readings have distinct names\<close>

lemma foldE_keeps: "foldE f s xs = Inr s' \<Longrightarrow> P s \<Longrightarrow> (\<And>s x s'. f s x = Inr s' \<Longrightarrow> P s \<Longrightarrow> P s') \<Longrightarrow> P s'"
proof (induction xs arbitrary: s)
  case (Cons x xs)
  then obtain t where "f s x = Inr t" "foldE f t xs = Inr s'"
    by (auto simp: bindE_eq_Inr)
  with Cons show ?case
    by blast
qed simp

lemma decoded_distinct:
  assumes "decode_registers raws rm = Inr res"
  shows "distinct (map fst res)"
proof -
  let ?P = "\<lambda>m. distinct (map fst (m :: (string \<times> reading) list))"
  obtain r1 r2 where r: "foldE (decode_simple rm) [] raws = Inr r1" "foldE (decode_pair rm raws) r1 raws = Inr r2"
    and rest: "(case map_of raws 5 of None \<Rightarrow> Inr r2 | Some v \<Rightarrow> bindE (reg_decode SOH_REGISTER v 0) (\<lambda>soh_val.
      Inr (AList.update ''soh'' \<lparr>rv_value = soh_val, rv_unit = ''%'', rv_raw = v, rv_raw_high = None, rv_desc = ''Battery state of health''\<rparr> r2)))
      = Inr res"
    using assms unfolding decode_registers_def bindE_eq_Inr by blast
  have "?P r1"
    by (rule foldE_keeps [OF r(1)])
      (auto simp: decode_simple_def bindE_eq_Inr distinct_update split: prod.splits option.splits if_splits)
  then have "?P r2"
    by (rule foldE_keeps [OF r(2)])
      (auto simp: decode_pair_def bindE_eq_Inr distinct_update split: prod.splits option.splits)
  then show ?thesis
    using rest by (auto simp: bindE_eq_Inr distinct_update split: option.splits)
qed

lemma clamp_keys: "map fst (clamp_values decoded) = map fst decoded"
proof -
  have "map fst (foldl (\<lambda>m (key, limit). case map_of m key of None \<Rightarrow> m
      | Some r \<Rightarrow> AList.update key (r\<lparr>rv_value := clamp_value key limit (rv_value r)\<rparr>) m) m limits) = map fst m" for m limits
  proof (induction limits arbitrary: m)
    case (Cons l limits)
    obtain key limit where l: "l = (key, limit)"
      by (cases l)
    show ?case
    proof (cases "map_of m key")
      case None
      then show ?thesis
        using Cons.IH [of m] by (simp add: l)
    next
      case (Some r)
      then have "key \<in> set (map fst m)"
        using map_of_SomeD by force
      then show ?thesis
        using Some Cons.IH [of "AList.update key (r\<lparr>rv_value := clamp_value key limit (rv_value r)\<rparr>) m"] by (simp add: l update_keys)
    qed
  qed simp
  then show ?thesis
    by (simp add: clamp_values_def)
qed


subsection \<open>Publishing does not touch the database\<close>

definition same_maria :: "outputs \<Rightarrow> outputs \<Rightarrow> bool" where
  "same_maria st st' \<longleftrightarrow> out_maria st' = out_maria st"

interpretation maria: publishing same_maria
  by unfold_locales (simp_all add: same_maria_def send_def announce_once_def post_influx_v1_def Let_def)

lemma outputs_write_maria:
  assumes "truthy (out_attr (out_cfg st) ''mariadb_enabled'')"
  shows "out_maria (snd (outputs_write hour ts ok decoded raw st)) = write_mariadb (out_cfg st) hour decoded raw (out_maria st)"
proof -
  let ?rest = "bindS (getS out_cfg) (\<lambda>cfg. bindS (liftS (convert_temperatures cfg decoded)) (\<lambda>out_decoded.
    bindS (if truthy (out_attr cfg ''influx_enabled'') then write_influxdb ts ok out_decoded else returnS ()) (\<lambda>_.
    bindS (getS out_mqtt) (\<lambda>mqtt. if mqtt then write_mqtt out_decoded else returnS ()))))"
  have keeps: "transits same_maria ?rest"
    by (auto intro!: maria.intros maria.influx maria.mqtt)
  have "snd (outputs_write hour ts ok decoded raw st)
      = snd (?rest (st\<lparr>out_maria := write_mariadb (out_cfg st) hour decoded raw (out_maria st)\<rparr>))"
    unfolding outputs_write_def by (subst bindS_def) (simp add: modifyS_def assms del: truthy.simps)
  then show ?thesis
    using keeps unfolding transits_def same_maria_def by simp
qed


subsection \<open>From the wire to the status\<close>

lemma fields_numeric: "numeric (fields_of decoded)"
  by (auto simp: numeric_def fields_of_def list_all_iff)

lemma fields_names: "map fst (fields_of decoded) = map fst decoded"
  by (simp add: fields_of_def case_prod_unfold comp_def)

lemma no_limits_on_codes: "key \<in> set (map fst LABELS) \<Longrightarrow> limited key r = r"
proof -
  have "list_all (\<lambda>key. map_of SANITY_LIMITS key = None) (map fst LABELS)"
    unfolding label_keys by code_simp
  then show "key \<in> set (map fst LABELS) \<Longrightarrow> limited key r = r"
    unfolding list_all_iff limited_def by (metis option.case(1))
qed

lemma codes_finite:
  assumes "raws_ok raws" "distinct (map fst res)"
    and look: "\<And>r rd. (r, rd) \<in> set INPUT_REGISTERS \<Longrightarrow> map_of res (rd_name rd) = expected_reading raws r rd"
    and none: "\<And>n. n \<notin> set (names_of INPUT_REGISTERS) \<Longrightarrow> n \<noteq> ''soh'' \<Longrightarrow> map_of res n = None"
  shows "list_all (\<lambda>(key, v, unit). List.member (map fst LABELS) key \<longrightarrow> py_float v \<in> Inr ` range Fin) (fields_of (clamp_values res))"
proof -
  have "rv_value x \<in> range Fin" if x: "(key, x) \<in> set (clamp_values res)" and key: "key \<in> set (map fst LABELS)" for key x
  proof -
    have "map_of (clamp_values res) key = Some x"
      using x assms(2) by (intro map_of_is_SomeI) (simp_all add: clamp_keys)
    then have res: "map_of res key = Some x"
      using no_limits_on_codes [OF key] by (auto simp: clamp_values_lookup)
    have "list_all (\<lambda>key. key \<noteq> ''soh'') (map fst LABELS)"
      unfolding label_keys by code_simp
    then have "key \<noteq> ''soh''"
      using key unfolding list_all_iff by blast
    then have "key \<in> set (names_of INPUT_REGISTERS)"
      using none [of key] res by (cases "key \<in> set (names_of INPUT_REGISTERS)") auto
    then obtain r rd where rd: "(r, rd) \<in> set INPUT_REGISTERS" "key = rd_name rd"
      by (auto simp: names_of_def)
    then show ?thesis
      using expected_code [OF assms(1) rd(1)] look [OF rd(1)] res key by simp
  qed
  then show ?thesis
    by (fastforce simp: list_all_iff fields_of_def List.member_iff)
qed


text \<open>The status of a snapshot that was decoded from 16-bit registers.\<close>

lemma status_of_raws:
  assumes ok: "raws_ok raws" and st: "md_faults st = []" "md_connected st" "store_wf st" and h: "interval_hours cfg = Inr h"
  shows "\<exists>res registers. decode_registers raws INPUT_REGISTERS = Inr res
    \<and> api_status (write_mariadb cfg hour (fields_of (clamp_values res)) raws st) = Inr (Reply (md_next_id st, registers))
    \<and> (\<forall>(r, rd) \<in> set INPUT_REGISTERS. rd_name rd \<notin> set label_names \<and> rd_name rd \<notin> set stored_computed \<longrightarrow>
        (\<forall>x. expected_reading raws r rd = Some x \<longrightarrow>
          map_of registers (rd_name rd) = Some (Num (rv_value (limited (rd_name rd) x)), rv_unit (limited (rd_name rd) x))))"
proof -
  obtain res where res: "decode_registers raws INPUT_REGISTERS = Inr res"
      and look: "\<And>r rd. (r, rd) \<in> set INPUT_REGISTERS \<Longrightarrow> map_of res (rd_name rd) = expected_reading raws r rd"
      and none: "\<And>n. n \<notin> set (names_of INPUT_REGISTERS) \<Longrightarrow> n \<noteq> ''soh'' \<Longrightarrow> map_of res n = None"
    by (rule decode_registers_lookup [OF ok input_map_ok]) (rule that)
  define d where "d = fields_of (clamp_values res)"
  have names: "distinct (map fst res)"
    by (rule decoded_distinct [OF res])
  then have dist: "distinct (map fst d)"
    by (simp add: d_def fields_names clamp_keys)
  obtain registers where registers: "api_status (write_mariadb cfg hour d raws st) = Inr (Reply (md_next_id st, registers))"
      "\<And>key v unit x. (key, v, unit) \<in> set d \<Longrightarrow> py_float v = Inr x \<Longrightarrow> key \<notin> set label_names \<Longrightarrow> key \<notin> set stored_computed
        \<Longrightarrow> map_of registers key = Some (Num x, unit)"
    using status_of_write [OF st _ h dist codes_finite [OF ok names look none, folded d_def], of hour raws] fields_numeric
    by (auto simp: d_def)
  have "map_of registers (rd_name rd) = Some (Num (rv_value (limited (rd_name rd) x)), rv_unit (limited (rd_name rd) x))"
    if "(r, rd) \<in> set INPUT_REGISTERS" "rd_name rd \<notin> set label_names" "rd_name rd \<notin> set stored_computed" "expected_reading raws r rd = Some x" for r rd x
  proof -
    have "map_of (clamp_values res) (rd_name rd) = Some (limited (rd_name rd) x)"
      using look [OF that(1)] that(4) by (simp add: clamp_values_lookup)
    then have "(rd_name rd, JFloat (rv_value (limited (rd_name rd) x)), rv_unit (limited (rd_name rd) x)) \<in> set d"
      by (force simp: d_def fields_of_def dest: map_of_SomeD)
    then show ?thesis
      using registers(2) that(2,3) by simp
  qed
  then show ?thesis
    using res registers(1) unfolding d_def by blast
qed

lemma iteration_stores:
  assumes "driver_decode (co_driver (sy_collector sy)) (co_input_raw (sy_collector sy)) = Inr res"
    and "map_of (co_input_raw (sy_collector sy)) 4 = Some y" "truthy (out_attr (out_cfg (sy_outputs sy)) ''mariadb_enabled'')"
  shows "out_maria (sy_outputs (write_iteration tr e sy)) = write_mariadb (out_cfg (sy_outputs sy)) (we_hour e)
    (fields_of (clamp_values res)) (co_input_raw (sy_collector sy)) (out_maria (sy_outputs sy))"
proof -
  have "co_input_raw (sy_collector sy) \<noteq> []"
    using assms(2) by auto
  then have "sy_outputs (write_iteration tr e sy) = snd (outputs_write (we_hour e) (we_ts_ns e) (we_v2_ok e)
      (fields_of (clamp_values res)) (co_input_raw (sy_collector sy)) (sy_outputs sy))"
    using assms(1,2) by (simp add: write_iteration_def Let_def split: prod.split)
  then show ?thesis
    using outputs_write_maria [OF assms(3)] by simp
qed

text \<open>C13: from the wire to the REST interface.  A read-input response, with register 4 among its registers, is received as one frame; after the
  next iteration of the writer of an SNA collector, over a database that answers and whatever becomes of the other outputs, the alerts, the
  automations and the forecast, the status endpoint answers with the id of the new snapshot and shows for every input register the value just
  received, or known from before, scaled and limited as the tables prescribe, with its unit; names that also denote a computed total or a
  label are left out.\<close>

theorem wire_to_status:
  assumes "0 \<le> reg" "reg \<le> 4" "4 < reg + int (length vs)" "length vs \<le> 127" "u16_list vs" "length crc = 2"
    and "co_driver (sy_collector sy) = luxpower_sna" "raws_ok (co_input_raw (sy_collector sy))"
    and "truthy (out_attr (out_cfg (sy_outputs sy)) ''mariadb_enabled'')" "interval_hours (out_cfg (sy_outputs sy)) = Inr h"
    and "md_faults (out_maria (sy_outputs sy)) = []" "md_connected (out_maria (sy_outputs sy))" "store_wf (out_maria (sy_outputs sy))"
  shows "\<exists>f raws registers. consume_frames (input_response ds isn reg vs crc) = Inr ([f], [])
    \<and> (\<forall>r. map_of raws r = (if reg \<le> r \<and> r < reg + int (length vs) then Some (vs ! nat (r - reg))
        else map_of (co_input_raw (sy_collector sy)) r))
    \<and> api_status (out_maria (sy_outputs (write_iteration tr e (receive_frame f sy)))) = Inr (Reply (md_next_id (out_maria (sy_outputs sy)), registers))
    \<and> (\<forall>(r, rd) \<in> set INPUT_REGISTERS. rd_name rd \<notin> set label_names \<and> rd_name rd \<notin> set stored_computed \<longrightarrow>
        (\<forall>x. expected_reading raws r rd = Some x \<longrightarrow>
          map_of registers (rd_name rd) = Some (Num (rv_value (limited (rd_name rd) x)), rv_unit (limited (rd_name rd) x))))"
proof -
  obtain f where f: "consume_frames (input_response ds isn reg vs crc) = Inr ([f], [])"
    "is_translated_data f" "is_read_input f" "f_register f = reg" "f_values f = vs"
    using input_response_consumed [of reg vs crc ds isn] assms(1-6) by auto
  define raws where "raws = store_values reg vs (co_input_raw (sy_collector sy))"
  have c: "sy_collector (receive_frame f sy) = (sy_collector sy)\<lparr>co_input_raw := raws\<rparr>" "sy_outputs (receive_frame f sy) = sy_outputs sy"
    using f by (simp_all add: receive_frame_def handle_frame_def raws_def)
  have ok: "raws_ok raws"
    unfolding raws_def by (rule store_values_ok [OF assms(8,5)])
  have raws: "\<forall>r. map_of raws r = (if reg \<le> r \<and> r < reg + int (length vs) then Some (vs ! nat (r - reg))
        else map_of (co_input_raw (sy_collector sy)) r)"
    by (simp add: raws_def store_values_lookup)
  from this [THEN spec, of 4] obtain y where four: "map_of raws 4 = Some y"
    using assms(2,3) by simp
  obtain res registers where res: "decode_registers raws INPUT_REGISTERS = Inr res"
    and status: "api_status (write_mariadb (out_cfg (sy_outputs sy)) (we_hour e) (fields_of (clamp_values res)) raws (out_maria (sy_outputs sy)))
        = Inr (Reply (md_next_id (out_maria (sy_outputs sy)), registers))"
    and shown: "\<forall>(r, rd) \<in> set INPUT_REGISTERS. rd_name rd \<notin> set label_names \<and> rd_name rd \<notin> set stored_computed \<longrightarrow>
        (\<forall>x. expected_reading raws r rd = Some x \<longrightarrow>
          map_of registers (rd_name rd) = Some (Num (rv_value (limited (rd_name rd) x)), rv_unit (limited (rd_name rd) x)))"
    using status_of_raws [OF ok assms(11-13,10), of "we_hour e"] by (elim exE conjE) (rule that)
  have "driver_decode luxpower_sna raws = Inr res"
    using res by (simp add: driver_decode_def luxpower_sna_def)
  then have stored: "out_maria (sy_outputs (write_iteration tr e (receive_frame f sy)))
      = write_mariadb (out_cfg (sy_outputs sy)) (we_hour e) (fields_of (clamp_values res)) raws (out_maria (sy_outputs sy))"
    using iteration_stores [of "receive_frame f sy" res y tr e] four assms(7,9) by (simp add: c)
  show ?thesis
    using f(1) raws status [folded stored] shown by (intro exI conjI)
qed


definition sample_system :: "inverter_world shared system" where
  "sample_system = \<lparr>sy_collector = new_collector luxpower_sna sample_link,
     sy_outputs = \<lparr>out_cfg = [(''mariadb_enabled'', JBool True), (''_write_interval'', JFloat (Fin 3600))],
       out_maria = \<lparr>md_connected = True, md_faults = [], md_next_id = 7, md_snapshots = [(6, [])], md_rows = [(6, ''soc'', Fin 79, ''%'')], md_hourly = []\<rparr>,
       out_settings = Unreadable, out_influx_client = False, out_mqtt = False, out_announced = [], out_published = [], out_posts = []\<rparr>,
     sy_alerts = None,
     sy_forecast = \<lparr>fv_last = Fin 0, fv_store = \<lparr>fs_exists = False, fs_column = False, fs_rows = [], fs_faults = [], fs_posts = [], fs_refused = []\<rparr>,
       fv_refreshed = []\<rparr>\<rparr>"


theorem wire_to_status_witness:
  "\<forall>e. \<exists>f registers. consume_frames (input_response ''BA12345678'' ''4434567890'' 0 (replicate 40 500) [0, 0]) = Inr ([f], [])
     \<and> api_status (out_maria (sy_outputs (write_iteration (link_transact inverter_peer (''10.0.0.9'', 8000, ''BA12345678'', ''4434567890'') 10) e
          (receive_frame f sample_system)))) = Inr (Reply (7, registers))
     \<and> map_of registers ''pv1_power'' = Some (Num (Fin 500), ''W'')"
proof
  fix e
  let ?rd = "rdef ''pv1_power'' ''W'' 1 ''PV1 power''"
  have words: "u16_list (replicate 40 500)" "length (replicate 40 (500 :: int)) \<le> 127" "(4 :: int) < 0 + int (length (replicate 40 (500 :: int)))"
      "length ([0, 0] :: byte list) = 2"
    by (simp_all add: u16_list_def list_all_iff)
  have four: "(0 :: int) \<le> 4"
    by simp
  have collector: "co_driver (sy_collector sample_system) = luxpower_sna" "raws_ok (co_input_raw (sy_collector sample_system))"
    by (simp_all add: sample_system_def new_collector_def raws_ok_def)
  have outs: "truthy (out_attr (out_cfg (sy_outputs sample_system)) ''mariadb_enabled'')"
      "interval_hours (out_cfg (sy_outputs sample_system)) = Inr (Fin 1)"
      "md_faults (out_maria (sy_outputs sample_system)) = []" "md_connected (out_maria (sy_outputs sample_system))"
      "store_wf (out_maria (sy_outputs sample_system))" "md_next_id (out_maria (sy_outputs sample_system)) = 7"
    using dbl_of_int [of 1] by (simp_all add: sample_system_def out_attr_def interval_hours_def store_wf_def)
  obtain f raws registers where status: "consume_frames (input_response ''BA12345678'' ''4434567890'' 0 (replicate 40 500) [0, 0]) = Inr ([f], [])"
      "\<forall>r. map_of raws r = (if 0 \<le> r \<and> r < 0 + int (length (replicate 40 (500 :: int))) then Some (replicate 40 500 ! nat (r - 0))
        else map_of (co_input_raw (sy_collector sample_system)) r)"
      "api_status (out_maria (sy_outputs (write_iteration (link_transact inverter_peer (''10.0.0.9'', 8000, ''BA12345678'', ''4434567890'') 10) e
          (receive_frame f sample_system)))) = Inr (Reply (7, registers))"
      "\<forall>(r, rd) \<in> set INPUT_REGISTERS. rd_name rd \<notin> set label_names \<and> rd_name rd \<notin> set stored_computed \<longrightarrow>
        (\<forall>x. expected_reading raws r rd = Some x \<longrightarrow>
          map_of registers (rd_name rd) = Some (Num (rv_value (limited (rd_name rd) x)), rv_unit (limited (rd_name rd) x)))"
    using wire_to_status [OF order_refl four words(3,2,1,4) collector outs(1-5), of "''BA12345678''" "''4434567890''"
      "link_transact inverter_peer (''10.0.0.9'', 8000, ''BA12345678'', ''4434567890'') 10" e, unfolded outs(6)]
    by (elim exE conjE) (rule that)
  have rd: "(7, ?rd) \<in> set INPUT_REGISTERS" "rd_name ?rd = ''pv1_power''"
    by (simp_all add: INPUT_REGISTERS_eq input_literal_def input_registers_1_def rdef_def)
  have names: "''pv1_power'' \<notin> set label_names" "''pv1_power'' \<notin> set stored_computed"
    by (simp_all add: label_names_def LABELS_def stored_computed_def)
  have "expected_reading raws 7 ?rd = Some (simple_reading ?rd 500)"
    using status(2) [THEN spec, of 7] by (simp add: expected_reading_def rdef_def)
  then have "map_of registers ''pv1_power'' = Some (Num (rv_value (limited ''pv1_power'' (simple_reading ?rd 500))), rv_unit (limited ''pv1_power'' (simple_reading ?rd 500)))"
    using bspec [OF status(4) rd(1)] names rd(2) by simp
  also have "limited ''pv1_power'' (simple_reading ?rd 500) = (simple_reading ?rd 500)\<lparr>rv_value := Fin 500\<rparr>"
    using dbl_of_int [of 500]
    by (simp add: limited_def SANITY_LIMITS_def clamp_value_def simple_reading_def rdef_def decode_int_def one_pyfloat_def)
  finally have "map_of registers ''pv1_power'' = Some (Num (Fin 500), ''W'')"
    by (simp add: simple_reading_def rdef_def)
  then show "\<exists>f registers. consume_frames (input_response ''BA12345678'' ''4434567890'' 0 (replicate 40 500) [0, 0]) = Inr ([f], [])
     \<and> api_status (out_maria (sy_outputs (write_iteration (link_transact inverter_peer (''10.0.0.9'', 8000, ''BA12345678'', ''4434567890'') 10) e
          (receive_frame f sample_system)))) = Inr (Reply (7, registers))
     \<and> map_of registers ''pv1_power'' = Some (Num (Fin 500), ''W'')"
    using status(1,3) by blast
qed

end
