(* ===== verification/Spec2Isabelle.thy ===== *)
theory Spec2Isabelle
  imports Framing Transports Fault_Codes Drivers Automation_Control Collector_Facts Configuration_Facts Mqtt_Facts Alerts_Facts Rs485_Facts Jk_Facts Publication_Facts Api_Holding_Facts Api_Telemetry_Facts Api_Settings_Facts Live_Feed_Facts Api_Automation_Facts Forecast_Service_Facts Rs485_Service Command_Line Writer_Facts
begin

text \<open>
  Verification of the collector of lux-mon, a monitor for solar inverters of the Luxpower and EG4 families.

  The program.  A WiFi dongle at the inverter speaks a framed protocol over TCP that carries Modbus-like reads
  and writes of numbered 16-bit registers.  The collector (\<^verbatim>\<open>src/collector\<close>) polls the
  input registers or listens to the dongle's traffic, decodes them to readings, hands these to its outputs
  (MariaDB, InfluxDB, MQTT), evaluates alerts, and writes holding registers for the automation rules and for a
  timed quick charge.  Its settings live in a database table, which MQTT messages and the REST interface may
  change while it runs.

  Conventions.  A Python exception is a value of \<^verbatim>\<open>py_exn\<close>; fallible code returns the
  sum type \<^verbatim>\<open>'a result\<close> (\<^verbatim>\<open>Inl\<close> the exception), composed by
  \<^verbatim>\<open>bindE\<close>; stateful code that may raise is an operation of theory Effects, which
  keeps the state reached before an exception.  Python integers are \<^verbatim>\<open>int\<close>; bytes are
  8-bit words; floats are exact IEEE doubles over the rationals with infinities and NaN (Binary64; the sign of
  a zero is not kept); text is a list of bytes in UTF-8; dictionaries are association lists in insertion
  order.

  Theories, in the order of the layers:

  \<^item> Prelude, Text, Binary64, Values, Effects: results, struct packing, decimal and float texts, doubles
    with their rounding lemmas, JSON values, stateful operations and the locale
    \<^verbatim>\<open>transition\<close> of relations kept by them.
  \<^item> Crc, Protocol, Packets, Parsing, Scanner, Framing (\<^verbatim>\<open>protocol.py\<close>): the
    checksum table, the request builders, \<^verbatim>\<open>parse_frame\<close> and
    \<^verbatim>\<open>find_frames\<close>.  Shown: the table CRC is the bitwise one and detects damage to two
    neighbouring bytes; builders and parser are inverse; a stream is cut at its packet boundaries; the scanner
    never raises and its frames are disjoint slices of the buffer.
  \<^item> Holding, Holding_Facts, Registers, Register_Facts, Decoding, Capabilities, Drivers, Fault_Codes
    (\<^verbatim>\<open>protocol.py\<close>, \<^verbatim>\<open>registers.py\<close>,
    \<^verbatim>\<open>capabilities.py\<close>, \<^verbatim>\<open>drivers/\<close>,
    \<^verbatim>\<open>fault_codes.py\<close>): the register tables, the decoder and the model drivers.
    Shown: the decoder yields exactly the readings the definitions prescribe, and what signed, paired and
    packed registers mean.
  \<^item> Dongle, Dongle_Facts, Transports (\<^verbatim>\<open>comm/\<close>): the persistent connection with
    its retries, staleness guard and heartbeat, the shared instance, and the active, passive and replay
    transports, over a network given as a parameter (a record \<^verbatim>\<open>peer\<close> of functions on
    an arbitrary world).  Shown: a transaction is a run of socket calls that sends only its request, and the
    frame it returns was cut from exactly the bytes received after it.
  \<^item> Link, Link_Facts, Units (\<^verbatim>\<open>automation.py\<close>): reading and writing one
    register over the shared connection, and the conversion between raw values and engineering units.
    \<^verbatim>\<open>honest_link\<close> is the contract of an inverter that obeys the protocol (single
    writes below register 500 only); the program's own link to
    \<^verbatim>\<open>inverter_peer\<close>, an emulated inverter, satisfies it, and also
    \<^verbatim>\<open>honest_block\<close>, the contract for reads of up to 127 registers.
  \<^item> Automation_Data, Automation, Automation_Facts, Automation_Writes, Automation_Control
    (\<^verbatim>\<open>automation.py\<close>): the automations with their JSON form, conditions, and one
    evaluation.  Shown: an evaluation sends nothing but reads and writes of supported settings within the converted bounds, and no
    write in a dry run; that these bounds are not the raw ones of the table; success in the log means a verified register; over an honest link a write is the
    assignment of a register; notifications are at least 300 seconds apart.
  \<^item> Quick_Charge, Quick_Charge_Facts (\<^verbatim>\<open>quick_charge.py\<close>): the state machine of
    a timed charge and its whole life.
  \<^item> Settings, Configuration, Configuration_Facts, Command_Line (\<^verbatim>\<open>settings.py\<close>,
    \<^verbatim>\<open>collector.py\<close>, \<^verbatim>\<open>__main__.py\<close>): the settings table
    behind a connection that may fail, the environment, the start of the collector, and the detection and
    reloading of changed settings.  Shown: which source decides a setting, when the start raises, that a live
    change is applied exactly once, what a failing database does, and which options have no effect.
  \<^item> Mqtt_Commands, Mqtt_Facts (\<^verbatim>\<open>mqtt_commands.py\<close>): validation and storage of
    settings sent by MQTT.
  \<^item> Notifiers, Alerts, Alerts_Facts (\<^verbatim>\<open>notifiers.py\<close>,
    \<^verbatim>\<open>alerts.py\<close>): the alert rules over sequences of evaluations, the grid timer,
    publication to a broker and a database whose calls may fail, and throttled notification.
  \<^item> Collector, Collector_Facts, Writer, Writer_Facts (\<^verbatim>\<open>collector.py\<close>): frames to registers to
    clamped readings; quick charge and automation on the one shared link; one iteration of the writer with the
    outputs, the alerts and the forecast.  Shown: the path from the bytes of a response to the readings
    handed to the outputs, and through the database to what the status endpoint answers.
  \<^item> Rs485, Rs485_Service, Eg4_Bms, Jk_Bms, Eg4_A5, Rs485_Facts, Jk_Facts
    (\<^verbatim>\<open>rs485/\<close>, \<^verbatim>\<open>rs485_collector.py\<close>): the batteries on
    serial lines, their registry, and the polling round.  Shown: which responses are decoded, that a broadcast
    stream is split into its frames, what the JK decoder can return or raise, and where the outputs of the two
    collectors differ.
  \<^item> Line_Protocol, Outputs_Data, Storage, Outputs, Outputs_Facts, Publication_Facts
    (\<^verbatim>\<open>outputs.py\<close>): the derived values, the database writer over statements that may
    fail, the requests to InfluxDB and the messages to the MQTT broker.  Shown: the power balance, the
    outcomes of a write, the rollup of every category, that lines are read back, and that discovery messages are sent
    once.
  \<^item> Calendar, Api_Holding, Api_Holding_Facts, Api_Telemetry, Api_Telemetry_Facts, Api_Settings,
    Api_Settings_Facts (\<^verbatim>\<open>api/__init__.py\<close>): the endpoints for registers, stored
    telemetry and settings; dates with their ordinals and ISO weeks.  Shown: a register write that is reported
    is the one asked for, was read back and lies within the bounds, the status is the snapshot written last, the history keeps its
    bound, the energy totals cover exactly the periods asked for, and what a written setting does to the table
    and to the environment file.
  \<^item> Live_Feed, Live_Feed_Facts (\<^verbatim>\<open>api/__init__.py\<close>): the websocket clients and
    the task that feeds them, as a step relation whose steps are the code between two waits of the event loop.
    Shown: over all interleavings a connection gets at most one greeting and then ever newer snapshots from the
    task, the first of which may repeat the greeting or be older; a client that connects during a send ends
    the task.
  \<^item> Api_Automation, Api_Automation_Facts (\<^verbatim>\<open>automation.py\<close>,
    \<^verbatim>\<open>api/__init__.py\<close>): loading and saving the automations in a table whose
    statements may fail, and their endpoints.  Shown: what deleting an automation does to the table; that
    testing them writes nothing to the inverter while the table answers, what happens when it does not, and
    that the test sees no sensor.
  \<^item> Forecast, Forecast_Facts, Forecast_Service, Forecast_Service_Facts
    (\<^verbatim>\<open>forecast.py\<close>, \<^verbatim>\<open>collector.py\<close>,
    \<^verbatim>\<open>api/__init__.py\<close>): the predicted power from weather and irradiance, its
    calibration with past production, the upsert, the points for InfluxDB, the refresh, its periodic call, and
    the endpoint.  Shown: the bounds of the predicted and of the corrected power, what the endpoint shows
    after storing, that timestamps are exact, the distance of refreshes, and when a refresh raises.

  Bounds and fuel.  No model is cut off by fuel that the code does not have: the scanner and the receive loop
  terminate by measures on the remaining bytes and the remaining time, a transaction makes the configured
  number of attempts, a write is verified by at most four reads as in the code, and the search for the
  shortest decimal of a double stops at 17 digits, which always suffice.

  Parameters and hypotheses.  The network (\<^verbatim>\<open>peer\<close>), the clocks, the environment, the
  database as seen by a fresh connection, the digest of the settings (SHA-256 in the code), the notification
  service of the automation engine, whether a transport starts, the text form of JSON values in the automation
  table, and for the forecast the answers of the weather service, the irradiance from pvlib and the hourly
  averages of the production are arguments of the definitions.  Hypotheses on them are stated in the theorems:
  an inverter that answers as the protocol documents, instants that do not decrease, a digest that tells two
  given settings apart.

  Not modelled.  Threads and locks (operations on the shared connection are atomic, as the lock makes them),
  logging, signal handling, SQL texts, the configuration file (it executes Python), the clients of MariaDB,
  InfluxDB and MQTT themselves, the serial ports, and of the REST interface the backup, storage, log and time
  server endpoints and the static dashboard.

\<close>

end
